(* ===== verification/Prelude.thy ===== *)
theory Prelude
  imports Complex_Main "HOL-Library.AList" "HOL-Library.List_Lexorder"
begin

text \<open>
  Shared vocabulary of the development: the exceptions the code raises as values of one datatype,
  the sum-typed results that carry them, sequencing and guards over such results, mapping a
  fallible function over a list in order, and the facts about association lists (insertion-ordered
  dictionaries) that every component uses.
\<close>

section \<open>Collections of facts\<close>

named_theorems result_simps \<open>unfolding rules for sequencing over results\<close>
named_theorems shape_simps \<open>executable rules for dictionary shapes and literals\<close>

section \<open>Exceptions as values\<close>

text \<open>
  One constructor per exception class that the modelled files raise or let escape. The first string is
  the fixed text of the message (interpolated values are left out); a clause name or a JSON member
  name is kept where the code branches on it. \<open>Unmodelled\<close> marks the few inputs on which the
  model takes no position; every property excludes it by its statement.
\<close>

datatype pyerr =
    TypeErr string
  | ValueErr string
  | KeyErr
  | AttributeErr
  | AssertionErr string
  | UnicodeEncodeErr
  | JSONDecodeErr
  | DuplicateMemberErr "nat list"
  | LookupErr
  | OSErr
  | RuntimeErr string
  | ConformanceFailure string string
  | ManifestResolutionErr string
  | CapabilityAuthorityErr string
  | RedactionErr string
  | StoreErr string
  | IntegrityErr string
  | SchemaErr
  | OverflowErr
  | RecursionErr
  | Unmodelled string

text \<open>The subclasses of \<open>ValueError\<close>, as \<^theory_text>\<open>except ValueError\<close> sees them.\<close>

fun is_value_error :: "pyerr \<Rightarrow> bool" where
  "is_value_error (ValueErr _) = True"
| "is_value_error UnicodeEncodeErr = True"
| "is_value_error JSONDecodeErr = True"
| "is_value_error (DuplicateMemberErr _) = True"
| "is_value_error (ManifestResolutionErr _) = True"
| "is_value_error (CapabilityAuthorityErr _) = True"
| "is_value_error (RedactionErr _) = True"
| "is_value_error _ = False"

fun is_type_error :: "pyerr \<Rightarrow> bool" where
  "is_type_error (TypeErr _) = True"
| "is_type_error _ = False"

section \<open>Results\<close>

definition rbind :: "'e + 'a \<Rightarrow> ('a \<Rightarrow> 'e + 'b) \<Rightarrow> 'e + 'b" where
  "rbind m f = (case m of Inl e \<Rightarrow> Inl e | Inr x \<Rightarrow> f x)"

definition require :: "bool \<Rightarrow> 'e \<Rightarrow> 'e + unit" where
  "require b e = (if b then Inr () else Inl e)"

fun rmap :: "('a \<Rightarrow> 'e + 'b) \<Rightarrow> 'a list \<Rightarrow> 'e + 'b list" where
  "rmap f [] = Inr []"
| "rmap f (x # xs) =
     (case f x of Inl e \<Rightarrow> Inl e
      | Inr y \<Rightarrow> (case rmap f xs of Inl e \<Rightarrow> Inl e | Inr ys \<Rightarrow> Inr (y # ys)))"

fun rfold :: "('s \<Rightarrow> 'a \<Rightarrow> 'e + 's) \<Rightarrow> 's \<Rightarrow> 'a list \<Rightarrow> 'e + 's" where
  "rfold f s [] = Inr s"
| "rfold f s (x # xs) = (case f s x of Inl e \<Rightarrow> Inl e | Inr s' \<Rightarrow> rfold f s' xs)"

lemma rbind_simps [simp, result_simps]:
  "rbind (Inl e) f = Inl e"
  "rbind (Inr x) f = f x"
  by (simp_all add: rbind_def)

lemma rbind_Inr_iff: "rbind m f = Inr y \<longleftrightarrow> (\<exists>x. m = Inr x \<and> f x = Inr y)"
  by (cases m) auto

lemma rbind_Inl_iff: "rbind m f = Inl e \<longleftrightarrow> m = Inl e \<or> (\<exists>x. m = Inr x \<and> f x = Inl e)"
  by (cases m) auto

lemma require_iff [simp, result_simps]:
  "require b e = Inr u \<longleftrightarrow> b"
  "require b e = Inl e' \<longleftrightarrow> \<not> b \<and> e' = e"
  by (auto simp: require_def)

lemma require_bool [simp]: "require True e = Inr ()" "require False e = Inl e"
  by (simp_all add: require_def)

lemma rmap_Inr_length: "rmap f xs = Inr ys \<Longrightarrow> length ys = length xs"
  by (induction xs arbitrary: ys) (auto split: sum.splits)

lemma rmap_Inr_map: "rmap f xs = Inr ys \<Longrightarrow> map f xs = map Inr ys"
  by (induction xs arbitrary: ys) (auto split: sum.splits)

lemma rmap_Inr_mem: "rmap f xs = Inr ys \<Longrightarrow> x \<in> set xs \<Longrightarrow> \<exists>y \<in> set ys. f x = Inr y"
  by (induction xs arbitrary: ys) (auto split: sum.splits)

lemma rmap_Inr_mem_back: "rmap f xs = Inr ys \<Longrightarrow> y \<in> set ys \<Longrightarrow> \<exists>x \<in> set xs. f x = Inr y"
  by (induction xs arbitrary: ys) (auto split: sum.splits)

lemma rmap_all: "rmap f xs = Inr ys \<Longrightarrow> (\<And>x y. x \<in> set xs \<Longrightarrow> f x = Inr y \<Longrightarrow> P y) \<Longrightarrow> \<forall>y \<in> set ys. P y"
  using rmap_Inr_mem_back by metis

lemma rmap_total: "(\<And>x. x \<in> set xs \<Longrightarrow> f x = Inr (g x)) \<Longrightarrow> rmap f xs = Inr (map g xs)"
  by (induction xs) auto

lemma rmap_Inr_ex: "(\<exists>ys. rmap f xs = Inr ys) \<longleftrightarrow> (\<forall>x \<in> set xs. \<exists>y. f x = Inr y)"
  by (induction xs) (auto split: sum.splits)

lemma rmap_append:
  "rmap f (xs @ ys) = rbind (rmap f xs) (\<lambda>a. rbind (rmap f ys) (\<lambda>b. Inr (a @ b)))"
  by (induction xs) (auto split: sum.splits simp: rbind_def)

lemma rmap_cong [fundef_cong]:
  "xs = ys \<Longrightarrow> (\<And>x. x \<in> set ys \<Longrightarrow> f x = g x) \<Longrightarrow> rmap f xs = rmap g ys"
  by (induction xs arbitrary: ys) (auto split: sum.splits)

lemma rfold_append:
  "rfold f s (xs @ ys) = rbind (rfold f s xs) (\<lambda>s'. rfold f s' ys)"
  by (induction xs arbitrary: s) (auto split: sum.splits)

lemma rfold_invariant:
  assumes "\<And>s x s'. P s \<Longrightarrow> x \<in> set xs \<Longrightarrow> f s x = Inr s' \<Longrightarrow> P s'"
    and "P s" and "rfold f s xs = Inr s'"
  shows "P s'"
  using assms
proof (induction xs arbitrary: s)
  case Nil
  then show ?case by simp
next
  case (Cons x xs)
  from Cons.prems(3) obtain t where t: "f s x = Inr t" "rfold f t xs = Inr s'"
    by (auto split: sum.splits)
  have "P t" using Cons.prems(1)[OF Cons.prems(2) _ t(1)] by simp
  show ?case
    by (rule Cons.IH[OF _ \<open>P t\<close> t(2)]) (auto intro: Cons.prems(1))
qed

text \<open>\<open>never P m\<close>: the computation does not fail with an error in \<open>P\<close>; the rules follow the code's sequencing.\<close>

named_theorems never_intros \<open>introduction rules for computations that cannot raise some errors\<close>

definition never :: "('e \<Rightarrow> bool) \<Rightarrow> 'e + 'a \<Rightarrow> bool" where
  "never P m \<longleftrightarrow> (case m of Inl e \<Rightarrow> \<not> P e | Inr _ \<Rightarrow> True)"

lemma never_simps [simp]: "never P (Inl e) \<longleftrightarrow> \<not> P e" "never P (Inr x)"
  by (simp_all add: never_def)

lemma neverD: "never P m \<Longrightarrow> m = Inl e \<Longrightarrow> \<not> P e"
  by simp

lemma never_rbind [never_intros]:
  "never P m \<Longrightarrow> (\<And>x. m = Inr x \<Longrightarrow> never P (f x)) \<Longrightarrow> never P (rbind m f)"
  by (cases m) auto

lemma never_require [never_intros]: "(\<not> b \<Longrightarrow> \<not> P e) \<Longrightarrow> never P (require b e)"
  by (auto simp: require_def)

lemma never_if [never_intros]:
  "(b \<Longrightarrow> never P x) \<Longrightarrow> (\<not> b \<Longrightarrow> never P y) \<Longrightarrow> never P (if b then x else y)"
  by simp

lemma never_option [never_intros]:
  "(v = None \<Longrightarrow> never P x) \<Longrightarrow> (\<And>a. v = Some a \<Longrightarrow> never P (f a)) \<Longrightarrow>
     never P (case v of None \<Rightarrow> x | Some a \<Rightarrow> f a)"
  by (cases v) auto

lemma never_prod [never_intros]:
  "(\<And>a b. v = (a, b) \<Longrightarrow> never P (f a b)) \<Longrightarrow> never P (case v of (a, b) \<Rightarrow> f a b)"
  by (cases v) auto

lemma never_rmap [never_intros]: "(\<And>x. x \<in> set xs \<Longrightarrow> never P (f x)) \<Longrightarrow> never P (rmap f xs)"
  by (induction xs) (force simp: never_def split: sum.splits)+

lemma never_rfold [never_intros]: "(\<And>s x. x \<in> set xs \<Longrightarrow> never P (f s x)) \<Longrightarrow> never P (rfold f s xs)"
  by (induction xs arbitrary: s) (force simp: never_def split: sum.splits)+

lemma list_all2_in_set2: "list_all2 P xs ys \<Longrightarrow> y \<in> set ys \<Longrightarrow> \<exists>x \<in> set xs. P x y"
  by (induction rule: list_all2_induct) auto

section \<open>Insertion-ordered dictionaries\<close>

text \<open>
  A Python dictionary is an association list with distinct keys: \<open>map_of\<close> looks up, \<open>AList.update\<close>
  assigns (in place, or at the end for a new key), \<open>AList.delete\<close> deletes.
\<close>

lemma map_of_update_same [simp]: "map_of (AList.update k v d) k = Some v"
  by (simp add: update_conv')

lemma map_of_update_other [simp]: "k' \<noteq> k \<Longrightarrow> map_of (AList.update k v d) k' = map_of d k'"
  by (simp add: update_conv')

lemma map_of_delete [simp]: "map_of (AList.delete k d) k' = (if k' = k then None else map_of d k')"
  by (simp add: delete_conv')

lemma distinct_keys_update [intro]:
  "distinct (map fst d) \<Longrightarrow> distinct (map fst (AList.update k v d))"
  by (rule distinct_update)

lemma distinct_keys_delete [intro]:
  "distinct (map fst d) \<Longrightarrow> distinct (map fst (AList.delete k d))"
  by (rule distinct_delete)

lemma in_keys_iff: "k \<in> set (map fst d) \<longleftrightarrow> map_of d k \<noteq> None"
  by (metis map_of_eq_None_iff set_map)

section \<open>Components as transition systems\<close>

text \<open>
  The interface every stateful component offers: its start states, its steps, and an invariant that holds at the
  start and that every step keeps. What the client gets is the invariant in every state a run can reach, and the
  same along every prefix of a run.
\<close>

locale invariant_system =
  fixes start :: "'s \<Rightarrow> bool"
    and step :: "'s \<Rightarrow> 's \<Rightarrow> bool"
    and inv :: "'s \<Rightarrow> bool"
  assumes inv_start: "start s \<Longrightarrow> inv s"
    and inv_step: "inv s \<Longrightarrow> step s t \<Longrightarrow> inv t"
begin

lemma inv_run:
  assumes "step\<^sup>*\<^sup>* s t" and "inv s"
  shows "inv t"
  using assms by (induction rule: rtranclp_induct) (auto intro: inv_step)

lemma inv_reachable: "start s \<Longrightarrow> step\<^sup>*\<^sup>* s t \<Longrightarrow> inv t"
  by (rule inv_run) (auto intro: inv_start)

lemma stable_run:
  assumes "\<And>s t. inv s \<Longrightarrow> step s t \<Longrightarrow> P s \<Longrightarrow> P t"
    and "step\<^sup>*\<^sup>* s t" and "inv s" and "P s"
  shows "P t"
proof -
  from assms(2,3,4) have "inv t \<and> P t"
    by (induction rule: rtranclp_induct) (auto intro: inv_step assms(1))
  then show ?thesis by simp
qed

end

end
