(* ===== verification/PyValue.thy ===== *)
theory PyValue
  imports Prelude
begin

text \<open>
  Python values as the protocol modules see them. Strings are lists of code points, so that the
  surrogate, NUL and length checks of the code mean what they mean in Python; dictionaries are
  insertion-ordered association lists whose keys are values. A read-only mapping view is the dictionary
  it views. Equality of values is Python's: \<open>1\<close>, \<open>1.0\<close> and \<open>True\<close> are equal and share a hash.
\<close>

section \<open>Strings\<close>

type_synonym pystr = "nat list"

definition lit :: "string \<Rightarrow> pystr" where
  "lit s = map of_char s"

lemma lit_eq_iff [simp]: "lit a = lit b \<longleftrightarrow> a = b"
  unfolding lit_def by (rule inj_map_eq_map) (simp add: inj_def)

lemma lit_Nil_iff [simp]: "lit a = [] \<longleftrightarrow> a = []" "[] = lit a \<longleftrightarrow> a = []"
  by (auto simp: lit_def)

lemma lit_append: "lit (a @ b) = lit a @ lit b"
  by (simp add: lit_def)

lemma length_lit [simp]: "length (lit a) = length a"
  by (simp add: lit_def)

definition is_surrogate :: "nat \<Rightarrow> bool" where
  "is_surrogate c \<longleftrightarrow> 0xD800 \<le> c \<and> c \<le> 0xDFFF"

definition contains_surrogate :: "pystr \<Rightarrow> bool" where
  "contains_surrogate s \<longleftrightarrow> list_ex is_surrogate s"

definition starts_with :: "pystr \<Rightarrow> pystr \<Rightarrow> bool" where
  "starts_with p s \<longleftrightarrow> take (length p) s = p"

definition ends_with :: "pystr \<Rightarrow> pystr \<Rightarrow> bool" where
  "ends_with p s \<longleftrightarrow> length p \<le> length s \<and> drop (length s - length p) s = p"

text \<open>\<open>str.encode("utf-8")\<close>: one to four bytes per code point, an error on a surrogate.\<close>

fun utf8_char :: "nat \<Rightarrow> nat list" where
  "utf8_char c =
     (if c < 0x80 then [c]
      else if c < 0x800 then [0xC0 + c div 64, 0x80 + c mod 64]
      else if c < 0x10000 then [0xE0 + c div 4096, 0x80 + c div 64 mod 64, 0x80 + c mod 64]
      else [0xF0 + c div 262144, 0x80 + c div 4096 mod 64, 0x80 + c div 64 mod 64, 0x80 + c mod 64])"

declare utf8_char.simps [simp del]

definition utf8_encode :: "pystr \<Rightarrow> pyerr + nat list" where
  "utf8_encode s =
     (if contains_surrogate s then Inl UnicodeEncodeErr else Inr (concat (map utf8_char s)))"

lemma utf8_char_length: "1 \<le> length (utf8_char c)" "length (utf8_char c) \<le> 4"
  by (auto simp: utf8_char.simps)

lemma utf8_encode_length:
  assumes "utf8_encode s = Inr b"
  shows "length s \<le> length b" and "length b \<le> 4 * length s"
proof -
  from assms have b: "b = concat (map utf8_char s)"
    by (simp add: utf8_encode_def split: if_splits)
  have "length s \<le> length (concat (map utf8_char s)) \<and>
        length (concat (map utf8_char s)) \<le> 4 * length s"
  proof (induction s)
    case (Cons c s)
    then show ?case using utf8_char_length[of c] by simp
  qed simp
  then show "length s \<le> length b" and "length b \<le> 4 * length s" using b by auto
qed

text \<open>\<open>str.split(sep)\<close> for a one-character separator: always at least one piece.\<close>

fun split_on :: "nat \<Rightarrow> pystr \<Rightarrow> pystr list" where
  "split_on c [] = [[]]"
| "split_on c (x # xs) =
     (if x = c then [] # split_on c xs
      else (case split_on c xs of [] \<Rightarrow> [[x]] | p # ps \<Rightarrow> (x # p) # ps))"

lemma split_on_nonempty [simp]: "split_on c s \<noteq> []"
  by (induction s) (auto split: list.splits)

section \<open>Values\<close>

text \<open>
  A float is a finite rational value, negative zero, an infinity, or a NaN with its object identity (the only
  float whose identity Python's containers observe).
\<close>

datatype pyfloat = Fin rat | NegZero | PosInf | NegInf | NaN nat

datatype pyval =
    PNone
  | PBool bool
  | PInt int
  | PFloat pyfloat
  | PStr pystr
  | PBytes "nat list"
  | PList "pyval list"
  | PTuple "pyval list"
  | PDict "(pyval \<times> pyval) list"

type_synonym pydict = "(pyval \<times> pyval) list"

text \<open>Sizes of the parts of a dictionary and of a list, for recursion over values.\<close>

lemma dict_item_size [termination_simp]:
  fixes d :: pydict
  shows "kv \<in> set d \<Longrightarrow> size (snd kv) < Suc (size_list (size_prod size size) d)"
    and "(k, v) \<in> set d \<Longrightarrow> size v < Suc (size_list (size_prod size size) d)"
proof -
  have *: "size (snd x) < Suc (size_list (size_prod size size) d)" if "x \<in> set d" for x :: "pyval \<times> pyval"
  proof -
    have "size_prod size size x \<le> size_list (size_prod size size) d"
      using that by (rule size_list_estimation') simp
    moreover have "size (snd x) < size_prod size size x" by (cases x) simp
    ultimately show ?thesis by linarith
  qed
  show "kv \<in> set d \<Longrightarrow> size (snd kv) < Suc (size_list (size_prod size size) d)" by (rule *)
  show "(k, v) \<in> set d \<Longrightarrow> size v < Suc (size_list (size_prod size size) d)" using * [of "(k, v)"] by simp
qed

lemma list_item_size [termination_simp]:
  fixes xs :: "pyval list"
  shows "x \<in> set xs \<Longrightarrow> size x < Suc (size_list size xs)"
    and "p \<in> set (zip xs ys) \<Longrightarrow> size (fst p) < Suc (size_list size xs)"
proof -
  have *: "size y < Suc (size_list size xs)" if "y \<in> set xs" for y
    using size_list_estimation' [OF that, of "size y" size] by simp
  show "x \<in> set xs \<Longrightarrow> size x < Suc (size_list size xs)" by (rule *)
  show "p \<in> set (zip xs ys) \<Longrightarrow> size (fst p) < Suc (size_list size xs)"
    using * [of "fst p"] by (cases p) (auto dest: set_zip_leftD)
qed

abbreviation sv :: "string \<Rightarrow> pyval" where
  "sv s \<equiv> PStr (lit s)"

fun is_str :: "pyval \<Rightarrow> bool" where
  "is_str (PStr _) = True"
| "is_str _ = False"

fun is_dict :: "pyval \<Rightarrow> bool" where
  "is_dict (PDict _) = True"
| "is_dict _ = False"

text \<open>\<open>isinstance(v, int) and not isinstance(v, bool)\<close>, and the same with \<open>(str, int, float)\<close>.\<close>

fun is_strict_int :: "pyval \<Rightarrow> bool" where
  "is_strict_int (PInt _) = True"
| "is_strict_int _ = False"

fun is_scalar_id :: "pyval \<Rightarrow> bool" where
  "is_scalar_id (PStr _) = True"
| "is_scalar_id (PInt _) = True"
| "is_scalar_id (PFloat _) = True"
| "is_scalar_id _ = False"

text \<open>\<open>bool(v)\<close>.\<close>

fun truthy :: "pyval \<Rightarrow> bool" where
  "truthy PNone = False"
| "truthy (PBool b) = b"
| "truthy (PInt n) = (n \<noteq> 0)"
| "truthy (PFloat f) = (f \<noteq> Fin 0 \<and> f \<noteq> NegZero)"
| "truthy (PStr s) = (s \<noteq> [])"
| "truthy (PBytes b) = (b \<noteq> [])"
| "truthy (PList xs) = (xs \<noteq> [])"
| "truthy (PTuple xs) = (xs \<noteq> [])"
| "truthy (PDict d) = (d \<noteq> [])"

section \<open>Equality\<close>

text \<open>
  \<open>py_key\<close> maps the numbers Python identifies (\<open>True == 1 == 1.0\<close>) to one representative; on scalars and on tuples and
  lists of them, equality of representatives is "the same object or equal", which is what sets,
  dictionaries and container comparison use.
\<close>

fun num_key :: "pyfloat \<Rightarrow> pyval" where
  "num_key (Fin q) = (if of_int \<lfloor>q\<rfloor> = q then PInt \<lfloor>q\<rfloor> else PFloat (Fin q))"
| "num_key NegZero = PInt 0"
| "num_key f = PFloat f"

fun py_key :: "pyval \<Rightarrow> pyval" where
  "py_key (PBool b) = PInt (if b then 1 else 0)"
| "py_key (PFloat f) = num_key f"
| "py_key (PList xs) = PList (map py_key xs)"
| "py_key (PTuple xs) = PTuple (map py_key xs)"
| "py_key v = v"

lemma num_key_not_PStr [simp]: "num_key f \<noteq> PStr s" "PStr s \<noteq> num_key f"
  by (cases f; simp)+

lemma py_key_PStr_iff [simp]: "py_key v = PStr s \<longleftrightarrow> v = PStr s" "PStr s = py_key v \<longleftrightarrow> v = PStr s"
  by (cases v; auto)+

text \<open>
  Equality in general: dictionaries are compared without their order. \<open>py_same\<close> is "identical or equal",
  \<open>py_eq\<close> is \<open>==\<close>, which differs on a NaN at the top.
\<close>

fun py_same :: "pyval \<Rightarrow> pyval \<Rightarrow> bool" where
  "py_same (PDict a) w =
     (case w of
        PDict b \<Rightarrow> length a = length b \<and>
          list_all (\<lambda>kv. list_ex (\<lambda>kv'. py_key (fst kv) = py_key (fst kv') \<and> py_same (snd kv) (snd kv')) b) a
      | _ \<Rightarrow> False)"
| "py_same (PList xs) w =
     (case w of
        PList ys \<Rightarrow> length xs = length ys \<and> list_all (\<lambda>p. py_same (fst p) (snd p)) (zip xs ys)
      | _ \<Rightarrow> False)"
| "py_same (PTuple xs) w =
     (case w of
        PTuple ys \<Rightarrow> length xs = length ys \<and> list_all (\<lambda>p. py_same (fst p) (snd p)) (zip xs ys)
      | _ \<Rightarrow> False)"
| "py_same PNone w = (w = PNone)"
| "py_same (PBool b) w = (py_key w = py_key (PBool b))"
| "py_same (PInt n) w = (py_key w = PInt n)"
| "py_same (PFloat f) w = (py_key w = num_key f)"
| "py_same (PStr s) w = (w = PStr s)"
| "py_same (PBytes s) w = (w = PBytes s)"

fun is_nan :: "pyval \<Rightarrow> bool" where
  "is_nan (PFloat (NaN _)) = True"
| "is_nan _ = False"

definition py_eq :: "pyval \<Rightarrow> pyval \<Rightarrow> bool" where
  "py_eq a b \<longleftrightarrow> \<not> is_nan a \<and> py_same a b"

lemma py_eq_PStr [simp]: "py_eq (PStr s) v \<longleftrightarrow> v = PStr s"
  by (simp add: py_eq_def)

lemma py_same_PStr_right [simp]: "py_same v (PStr s) \<longleftrightarrow> v = PStr s"
  by (cases v) auto

lemma py_eq_PStr_right [simp]: "py_eq v (PStr s) \<longleftrightarrow> v = PStr s"
  by (auto simp: py_eq_def)

lemma py_same_refl [simp]: "py_same v v"
proof (induction v)
  case (PList xs)
  then show ?case by (auto simp: list_all_iff set_zip)
next
  case (PTuple xs)
  then show ?case by (auto simp: list_all_iff set_zip)
next
  case (PDict d)
  have "py_same (snd kv) (snd kv)" if "kv \<in> set d" for kv
    using PDict [of kv "snd kv"] that by (cases kv) auto
  then show ?case
    by (auto simp only: py_same.simps pyval.simps list_all_iff list_ex_iff)
qed simp_all

section \<open>Dictionaries with string keys\<close>

definition dget :: "string \<Rightarrow> pydict \<Rightarrow> pyval option" where
  "dget f d = map_of d (sv f)"

text \<open>\<open>d.get(f)\<close>: \<open>None\<close> for an absent key.\<close>

definition dget_none :: "string \<Rightarrow> pydict \<Rightarrow> pyval" where
  "dget_none f d = (case dget f d of None \<Rightarrow> PNone | Some v \<Rightarrow> v)"

definition has_key :: "string \<Rightarrow> pydict \<Rightarrow> bool" where
  "has_key f d \<longleftrightarrow> dget f d \<noteq> None"

text \<open>\<open>set(d) <= {f, ...}\<close> and \<open>set(d) == {f, ...}\<close>.\<close>

definition keys_within :: "string list \<Rightarrow> pydict \<Rightarrow> bool" where
  "keys_within fs d \<longleftrightarrow> list_all (\<lambda>kv. list_ex (\<lambda>f. fst kv = sv f) fs) d"

definition keys_are :: "string list \<Rightarrow> pydict \<Rightarrow> bool" where
  "keys_are fs d \<longleftrightarrow> keys_within fs d \<and> list_all (\<lambda>f. has_key f d) fs"

lemma dget_Nil [simp, shape_simps]: "dget f [] = None"
  by (simp add: dget_def)

lemma dget_Cons_lit [simp, shape_simps]:
  "dget f ((PStr (lit g), v) # d) = (if f = g then Some v else dget f d)"
  by (simp add: dget_def)

lemma has_key_iff: "has_key f d \<longleftrightarrow> sv f \<in> set (map fst d)"
  unfolding has_key_def dget_def by (rule in_keys_iff [symmetric])

lemma keys_within_iff: "keys_within fs d \<longleftrightarrow> set (map fst d) \<subseteq> sv ` set fs"
  by (auto simp: keys_within_def list_all_iff list_ex_iff)

lemma keys_are_iff: "keys_are fs d \<longleftrightarrow> set (map fst d) = sv ` set fs"
  unfolding keys_are_def keys_within_iff list_all_iff has_key_iff by blast

lemma sv_mem_iff [simp]: "sv f \<in> sv ` A \<longleftrightarrow> f \<in> A"
  by auto

lemma keys_are_has_key: "keys_are fs d \<Longrightarrow> has_key f d \<longleftrightarrow> f \<in> set fs"
  by (simp only: has_key_iff keys_are_iff sv_mem_iff)

lemma keys_are_dget: "keys_are fs d \<Longrightarrow> f \<in> set fs \<Longrightarrow> \<exists>v. dget f d = Some v"
  using keys_are_has_key [of fs d f] by (simp add: has_key_def)

lemma keys_within_absent: "keys_within fs d \<Longrightarrow> f \<notin> set fs \<Longrightarrow> dget f d = None"
  using has_key_iff [of f d] keys_within_iff [of fs d] sv_mem_iff [of f "set fs"]
  by (metis has_key_def in_mono)

end
