(* ===== verification/Json.thy ===== *)
theory Json
  imports PyValue "HOL-Library.Multiset"
begin

text \<open>
  The parts of Python's \<open>json\<close> module that the protocol modules use: \<open>json.dumps\<close> with sorted keys and the
  separators \<open>(",", ":")\<close>, with and without \<open>ensure_ascii\<close>, and \<open>json.loads\<close> with the two hooks the code installs (one
  that refuses a repeated member, one that refuses \<open>NaN\<close> and the infinities). Integer conversions have the
  interpreter's default limit of 4300 digits, and nesting is bounded by its default recursion limit. The main result is that a rendered document parses back to itself.
\<close>

section \<open>Numbers as text\<close>

definition int_max_str_digits :: nat where
  "int_max_str_digits = 4300"

fun nat_digits :: "nat \<Rightarrow> pystr" where
  "nat_digits n = (if n < 10 then [48 + n] else nat_digits (n div 10) @ [48 + n mod 10])"

declare nat_digits.simps [simp del]

definition int_text :: "int \<Rightarrow> pyerr + pystr" where
  "int_text z =
     (let ds = nat_digits (nat \<bar>z\<bar>) in
      if int_max_str_digits < length ds then Inl (ValueErr ''Exceeds the limit for integer string conversion'')
      else Inr (if z < 0 then 45 # ds else ds))"

definition is_digit :: "nat \<Rightarrow> bool" where
  "is_digit c \<longleftrightarrow> 48 \<le> c \<and> c \<le> 57"

definition digits_value :: "pystr \<Rightarrow> nat" where
  "digits_value ds = foldl (\<lambda>n c. 10 * n + (c - 48)) 0 ds"

text \<open>Correct rounding to binary64, half to even, and the shortest decimal text that rounds back.\<close>

definition round_half_even :: "rat \<Rightarrow> int" where
  "round_half_even q =
     (let f = \<lfloor>q\<rfloor>; d = q - of_int f in
      if d < 1/2 then f else if 1/2 < d then f + 1 else if even f then f else f + 1)"

fun find_exp2 :: "nat \<Rightarrow> int \<Rightarrow> rat \<Rightarrow> int option" where
  "find_exp2 0 e q = None"
| "find_exp2 (Suc n) e q = (if q < 2 ^ 53 * 2 powi e then Some e else find_exp2 n (e + 1) q)"

definition round64 :: "rat \<Rightarrow> pyfloat" where
  "round64 q =
     (case find_exp2 2047 (-1074) \<bar>q\<bar> of
        None \<Rightarrow> (if q < 0 then NegInf else PosInf)
      | Some e \<Rightarrow>
          (let m = of_int (round_half_even (\<bar>q\<bar> / 2 powi e)) * 2 powi e in
           if 2 powi 1024 \<le> m then (if q < 0 then NegInf else PosInf)
           else if m = 0 \<and> q < 0 then NegZero
           else Fin (if q < 0 then - m else m)))"

definition float_of_decimal :: "bool \<Rightarrow> nat \<Rightarrow> int \<Rightarrow> pyfloat" where
  "float_of_decimal neg m e =
     (if m = 0 then (if neg then NegZero else Fin 0)
      else round64 ((if neg then -1 else 1) * of_nat m * 10 powi e))"

fun find_exp10 :: "nat \<Rightarrow> int \<Rightarrow> rat \<Rightarrow> int" where
  "find_exp10 0 e q = e"
| "find_exp10 (Suc n) e q = (if q < 10 powi (e + 1) then e else find_exp10 n (e + 1) q)"

fun shortest_digits :: "nat \<Rightarrow> nat \<Rightarrow> int \<Rightarrow> rat \<Rightarrow> nat \<times> int" where
  "shortest_digits 0 k e q = (nat (round_half_even (q / 10 powi (e - 16))), e - 16)"
| "shortest_digits (Suc n) k e q =
     (let d = round_half_even (q / 10 powi (e - int k + 1)) in
      if round64 (of_int d * 10 powi (e - int k + 1)) = Fin q then (nat d, e - int k + 1)
      else shortest_digits n (Suc k) e q)"

definition exponent_text :: "int \<Rightarrow> pystr" where
  "exponent_text e =
     (let ds = nat_digits (nat \<bar>e\<bar>) in
      (if e < 0 then lit ''e-'' else lit ''e+'') @ (if length ds < 2 then 48 # ds else ds))"

definition float_text :: "pyfloat \<Rightarrow> pystr" where
  "float_text f =
     (case f of
        PosInf \<Rightarrow> lit ''Infinity'' | NegInf \<Rightarrow> lit ''-Infinity'' | NaN i \<Rightarrow> lit ''NaN''
      | NegZero \<Rightarrow> lit ''-0.0''
      | Fin q \<Rightarrow>
          if q = 0 then lit ''0.0''
          else
            let a = \<bar>q\<bar>;
                (m, x) = shortest_digits 17 1 (find_exp10 650 (-324) a) a;
                ds = nat_digits m;
                e10 = x + int (length ds) - 1;
                sg = (if q < 0 then [45] else []);
                ds' = rev (dropWhile (\<lambda>c. c = 48) (rev ds))
            in sg @
              (if -4 \<le> e10 \<and> e10 < 16 then
                 (if e10 < 0 then lit ''0.'' @ replicate (nat (- e10 - 1)) 48 @ ds'
                  else if length ds' \<le> nat (e10 + 1) then
                    ds' @ replicate (nat (e10 + 1) - length ds') 48 @ lit ''.0''
                  else take (nat (e10 + 1)) ds' @ [46] @ drop (nat (e10 + 1)) ds')
               else (case ds' of [] \<Rightarrow> [] | [c] \<Rightarrow> [c] | c # cs \<Rightarrow> c # 46 # cs) @ exponent_text e10))"

section \<open>Rendering\<close>

definition hex_digit :: "nat \<Rightarrow> nat" where
  "hex_digit n = (if n < 10 then 48 + n else 87 + n)"

definition hex4 :: "nat \<Rightarrow> pystr" where
  "hex4 n = [hex_digit (n div 4096 mod 16), hex_digit (n div 256 mod 16), hex_digit (n div 16 mod 16), hex_digit (n mod 16)]"

definition u_escape :: "nat \<Rightarrow> pystr" where
  "u_escape n = 92 # 117 # hex4 n"

definition escape_char :: "bool \<Rightarrow> nat \<Rightarrow> pystr" where
  "escape_char ascii c =
     (if c = 34 then [92, 34] else if c = 92 then [92, 92]
      else if c = 10 then [92, 110] else if c = 13 then [92, 114] else if c = 9 then [92, 116]
      else if c = 8 then [92, 98] else if c = 12 then [92, 102]
      else if c < 32 then u_escape c
      else if ascii \<and> 127 \<le> c then
        (if c < 0x10000 then u_escape c
         else u_escape (0xD800 + (c - 0x10000) div 1024 mod 1024) @ u_escape (0xDC00 + (c - 0x10000) mod 1024))
      else [c])"

definition quote_str :: "bool \<Rightarrow> pystr \<Rightarrow> pystr" where
  "quote_str ascii s = 34 # concat (map (escape_char ascii) s) @ [34]"

fun str_items :: "pydict \<Rightarrow> (pystr \<times> pyval) list option" where
  "str_items [] = Some []"
| "str_items ((PStr k, v) # d) = map_option (Cons (k, v)) (str_items d)"
| "str_items (_ # d) = None"

definition join :: "nat \<Rightarrow> pystr list \<Rightarrow> pystr" where
  "join c ts = concat (case ts of [] \<Rightarrow> [] | t # ts' \<Rightarrow> t # map (Cons c) ts')"

lemma str_items_map: "str_items d = Some kvs \<Longrightarrow> d = map (\<lambda>(k, v). (PStr k, v)) kvs"
  by (induction d arbitrary: kvs rule: str_items.induct) auto

lemma str_items_mem: "str_items d = Some kvs \<Longrightarrow> (k, v) \<in> set kvs \<Longrightarrow> (PStr k, v) \<in> set d"
  by (force dest: str_items_map)

lemma str_items_mem_size [termination_simp]:
  "str_items d = Some kvs \<Longrightarrow> (k, v) \<in> set kvs \<Longrightarrow>
     size v < Suc (size_list (\<lambda>x. Suc (size (fst x) + size (snd x))) d)"
proof -
  have *: "size_prod size size = (\<lambda>x. Suc (size (fst x) + size (snd x)))"
    for x :: "pyval \<times> pyval" by (simp add: fun_eq_iff)
  show "str_items d = Some kvs \<Longrightarrow> (k, v) \<in> set kvs \<Longrightarrow>
     size v < Suc (size_list (\<lambda>x. Suc (size (fst x) + size (snd x))) d)"
    using dict_item_size(2) [OF str_items_mem, of d kvs k v] unfolding * by blast
qed

text \<open>
  Encoder and scanner descend into a list or an object by a recursive call, and raise \<open>RecursionError\<close> when the interpreter's
  stack is exhausted. \<open>json_levels\<close> is the number of containers that may be open at once: the default recursion limit of
  1000, of which CPython 3.11, the version the checks pin, leaves 992 to a call from the top level. No proof depends on its value beyond a small lower bound.
\<close>

definition json_levels :: nat where
  "json_levels = 992"

fun encode :: "nat \<Rightarrow> bool \<Rightarrow> pyval \<Rightarrow> pyerr + pystr" where
  "encode l a PNone = Inr (lit ''null'')"
| "encode l a (PBool b) = Inr (if b then lit ''true'' else lit ''false'')"
| "encode l a (PInt z) = int_text z"
| "encode l a (PFloat f) = Inr (float_text f)"
| "encode l a (PStr s) = Inr (quote_str a s)"
| "encode l a (PBytes b) = Inl (TypeErr ''Object of type bytes is not JSON serializable'')"
| "encode l a (PList xs) =
     (if l = 0 then Inl RecursionErr
      else rbind (rmap (encode (l - 1) a) xs) (\<lambda>ts. Inr (91 # join 44 ts @ [93])))"
| "encode l a (PTuple xs) =
     (if l = 0 then Inl RecursionErr
      else rbind (rmap (encode (l - 1) a) xs) (\<lambda>ts. Inr (91 # join 44 ts @ [93])))"
| "encode l a (PDict d) =
     (if l = 0 then Inl RecursionErr
      else case str_items d of
        None \<Rightarrow> Inl (Unmodelled ''a dictionary key that is not a string'')
      | Some kvs \<Rightarrow>
          rbind (rmap (\<lambda>kv. rbind (encode (l - 1) a (snd kv)) (\<lambda>t. Inr (quote_str a (fst kv) @ 58 # t))) (sort_key fst kvs))
            (\<lambda>ts. Inr (123 # join 44 ts @ [125])))"

definition dumps :: "bool \<Rightarrow> pyval \<Rightarrow> pyerr + pystr" where
  "dumps a v = encode json_levels a v"

section \<open>Parsing\<close>

record load_opts =
  reject_dup :: bool
  reject_const :: bool
  levels :: nat

fun skip_ws :: "pystr \<Rightarrow> pystr" where
  "skip_ws [] = []"
| "skip_ws (c # s) = (if c = 32 \<or> c = 9 \<or> c = 10 \<or> c = 13 then skip_ws s else c # s)"

definition hex_value :: "nat \<Rightarrow> nat option" where
  "hex_value c =
     (if 48 \<le> c \<and> c \<le> 57 then Some (c - 48)
      else if 97 \<le> c \<and> c \<le> 102 then Some (c - 87)
      else if 65 \<le> c \<and> c \<le> 70 then Some (c - 55) else None)"

fun read_hex4 :: "pystr \<Rightarrow> (nat \<times> pystr) option" where
  "read_hex4 (a # b # c # d # s) =
     (case (hex_value a, hex_value b, hex_value c, hex_value d) of
        (Some w, Some x, Some y, Some z) \<Rightarrow> Some (w * 4096 + x * 256 + y * 16 + z, s)
      | _ \<Rightarrow> None)"
| "read_hex4 _ = None"

definition simple_escape :: "nat \<Rightarrow> nat option" where
  "simple_escape c =
     (if c = 34 then Some 34 else if c = 92 then Some 92 else if c = 47 then Some 47
      else if c = 98 then Some 8 else if c = 102 then Some 12 else if c = 110 then Some 10
      else if c = 114 then Some 13 else if c = 116 then Some 9 else None)"

text \<open>
  The body of a string literal, after its opening quote: what \<open>\uXXXX\<close> gives, a high surrogate joined with
  a following escaped low one.
\<close>

definition join_surrogates :: "nat \<Rightarrow> nat \<Rightarrow> nat" where
  "join_surrogates hi lo = 0x10000 + (hi - 0xD800) * 1024 + (lo - 0xDC00)"

fun unicode_escape :: "pystr \<Rightarrow> (nat \<times> pystr) option" where
  "unicode_escape s =
     (case read_hex4 s of
        None \<Rightarrow> None
      | Some (u, r) \<Rightarrow>
          if 0xD800 \<le> u \<and> u \<le> 0xDBFF then
            (case r of
               b # v # r' \<Rightarrow>
                 if b = 92 \<and> v = 117 then
                   (case read_hex4 r' of
                      None \<Rightarrow> None
                    | Some (w, r'') \<Rightarrow>
                        if 0xDC00 \<le> w \<and> w \<le> 0xDFFF then Some (join_surrogates u w, r'') else Some (u, r))
                 else Some (u, r)
             | _ \<Rightarrow> Some (u, r))
          else Some (u, r))"

fun scan_string :: "nat \<Rightarrow> pystr \<Rightarrow> (pystr \<times> pystr) option" where
  "scan_string 0 s = None"
| "scan_string (Suc n) [] = None"
| "scan_string (Suc n) (c # s) =
     (if c = 34 then Some ([], s)
      else if c = 92 then
        (case s of
           [] \<Rightarrow> None
         | e # r \<Rightarrow>
             if e = 117 then
               (case unicode_escape r of
                  None \<Rightarrow> None
                | Some (u, r') \<Rightarrow> map_option (\<lambda>(t, z). (u # t, z)) (scan_string n r'))
             else (case simple_escape e of
                     None \<Rightarrow> None
                   | Some u \<Rightarrow> map_option (\<lambda>(t, z). (u # t, z)) (scan_string n r)))
      else if c < 32 then None
      else map_option (\<lambda>(t, z). (c # t, z)) (scan_string n s))"

text \<open>Number tokens: the fraction and the exponent belong to the token only when they are complete.\<close>

definition frac_part :: "pystr \<Rightarrow> pystr \<times> pystr" where
  "frac_part s =
     (case s of
        [] \<Rightarrow> ([], s)
      | c # r \<Rightarrow> if c = 46 \<and> takeWhile is_digit r \<noteq> [] then (takeWhile is_digit r, dropWhile is_digit r) else ([], s))"

definition exp_part :: "pystr \<Rightarrow> (bool \<times> pystr) option \<times> pystr" where
  "exp_part s =
     (case s of
        [] \<Rightarrow> (None, s)
      | c # r \<Rightarrow>
          if c = 101 \<or> c = 69 then
            (let (neg, r') = (case r of [] \<Rightarrow> (False, r)
                              | g # r'' \<Rightarrow> if g = 45 then (True, r'') else if g = 43 then (False, r'') else (False, r))
             in if takeWhile is_digit r' \<noteq> [] then (Some (neg, takeWhile is_digit r'), dropWhile is_digit r')
                else (None, s))
          else (None, s))"

definition int_part :: "pystr \<Rightarrow> (pystr \<times> pystr) option" where
  "int_part s =
     (case s of
        [] \<Rightarrow> None
      | c # r \<Rightarrow>
          if c = 48 then Some ([48], r)
          else if is_digit c then Some (takeWhile is_digit s, dropWhile is_digit s) else None)"

definition number_value :: "bool \<Rightarrow> pystr \<Rightarrow> pystr \<Rightarrow> (bool \<times> pystr) option \<Rightarrow> pyerr + pyval" where
  "number_value neg ip fp ex =
     (if fp = [] \<and> ex = None then
        (if int_max_str_digits < length ip then Inl (ValueErr ''Exceeds the limit for integer string conversion'')
         else Inr (PInt (if neg then - int (digits_value ip) else int (digits_value ip))))
      else
        let x = (case ex of None \<Rightarrow> 0 | Some (n, ds) \<Rightarrow> (if n then - int (digits_value ds) else int (digits_value ds)))
        in Inr (PFloat (float_of_decimal neg (digits_value (ip @ fp)) (x - int (length fp)))))"

definition parse_constant :: "load_opts \<Rightarrow> pyfloat \<Rightarrow> pystr \<Rightarrow> pyerr + pyval \<times> pystr" where
  "parse_constant opts f r = (if reject_const opts then Inl JSONDecodeErr else Inr (PFloat f, r))"

definition parse_number :: "load_opts \<Rightarrow> pystr \<Rightarrow> pyerr + pyval \<times> pystr" where
  "parse_number opts s =
     (let (neg, r) = (case s of [] \<Rightarrow> (False, s) | c # r \<Rightarrow> if c = 45 then (True, r) else (False, s)) in
      case int_part r of
        None \<Rightarrow>
          if starts_with (lit ''NaN'') s then parse_constant opts (NaN 0) (drop 3 s)
          else if starts_with (lit ''Infinity'') s then parse_constant opts PosInf (drop 8 s)
          else if starts_with (lit ''-Infinity'') s then parse_constant opts NegInf (drop 9 s)
          else Inl JSONDecodeErr
      | Some (ip, r1) \<Rightarrow>
          (let (fp, r2) = frac_part r1; (ex, r3) = exp_part r2
           in rbind (number_value neg ip fp ex) (\<lambda>v. Inr (v, r3))))"

text \<open>
  The object hook: with \<open>reject_dup\<close> the first repeated member name is an error
  (\<open>_duplicate_rejecting_object\<close>), otherwise the last value of a name wins.
\<close>

fun dup_object :: "pystr list \<Rightarrow> (pystr \<times> pyval) list \<Rightarrow> pydict \<Rightarrow> pyerr + pydict" where
  "dup_object seen [] out = Inr out"
| "dup_object seen ((k, v) # ps) out =
     (if k \<in> set seen then Inl (DuplicateMemberErr k)
      else dup_object (k # seen) ps (AList.update (PStr k) v out))"

definition duplicate_rejecting_object :: "(pystr \<times> pyval) list \<Rightarrow> pyerr + pydict" where
  "duplicate_rejecting_object ps = dup_object [] ps []"

definition object_of_pairs :: "load_opts \<Rightarrow> (pystr \<times> pyval) list \<Rightarrow> pyerr + pyval" where
  "object_of_pairs opts ps =
     (if reject_dup opts then rbind (duplicate_rejecting_object ps) (\<lambda>d. Inr (PDict d))
      else Inr (PDict (fold (\<lambda>kv d. AList.update (PStr (fst kv)) (snd kv) d) ps [])))"

definition inner :: "load_opts \<Rightarrow> load_opts" where
  "inner opts = opts\<lparr>levels := levels opts - 1\<rparr>"

lemma inner_simps [simp]:
  "reject_dup (inner opts) = reject_dup opts" "reject_const (inner opts) = reject_const opts" "levels (inner opts) = levels opts - 1"
  by (simp_all add: inner_def)

fun parse_value :: "load_opts \<Rightarrow> nat \<Rightarrow> pystr \<Rightarrow> pyerr + pyval \<times> pystr"
  and parse_elems :: "load_opts \<Rightarrow> nat \<Rightarrow> pystr \<Rightarrow> pyerr + pyval list \<times> pystr"
  and parse_members :: "load_opts \<Rightarrow> nat \<Rightarrow> pystr \<Rightarrow> pyerr + (pystr \<times> pyval) list \<times> pystr" where
  "parse_value opts 0 s = Inl (Unmodelled ''fuel'')"
| "parse_value opts (Suc n) s =
     (case s of
        [] \<Rightarrow> Inl JSONDecodeErr
      | c # r \<Rightarrow>
          if c = 34 then
            (case scan_string (Suc (length r)) r of
               None \<Rightarrow> Inl JSONDecodeErr | Some (t, r') \<Rightarrow> Inr (PStr t, r'))
          else if c = 123 then
            (if levels opts = 0 then Inl RecursionErr
             else case skip_ws r of
               [] \<Rightarrow> Inl JSONDecodeErr
             | d # r' \<Rightarrow>
                 if d = 125 then rbind (object_of_pairs opts []) (\<lambda>v. Inr (v, r'))
                 else rbind (parse_members (inner opts) n (d # r'))
                        (\<lambda>(ps, r''). rbind (object_of_pairs opts ps) (\<lambda>v. Inr (v, r''))))
          else if c = 91 then
            (if levels opts = 0 then Inl RecursionErr
             else case skip_ws r of
               [] \<Rightarrow> Inl JSONDecodeErr
             | d # r' \<Rightarrow>
                 if d = 93 then Inr (PList [], r')
                 else rbind (parse_elems (inner opts) n (d # r')) (\<lambda>(vs, r''). Inr (PList vs, r'')))
          else if starts_with (lit ''null'') s then Inr (PNone, drop 4 s)
          else if starts_with (lit ''true'') s then Inr (PBool True, drop 4 s)
          else if starts_with (lit ''false'') s then Inr (PBool False, drop 5 s)
          else parse_number opts s)"
| "parse_elems opts 0 s = Inl (Unmodelled ''fuel'')"
| "parse_elems opts (Suc n) s =
     rbind (parse_value opts n s) (\<lambda>(v, r).
       case skip_ws r of
         [] \<Rightarrow> Inl JSONDecodeErr
       | c # r' \<Rightarrow>
           if c = 93 then Inr ([v], r')
           else if c = 44 then rbind (parse_elems opts n (skip_ws r')) (\<lambda>(vs, r''). Inr (v # vs, r''))
           else Inl JSONDecodeErr)"
| "parse_members opts 0 s = Inl (Unmodelled ''fuel'')"
| "parse_members opts (Suc n) s =
     (case s of
        [] \<Rightarrow> Inl JSONDecodeErr
      | q # r0 \<Rightarrow>
          if q \<noteq> 34 then Inl JSONDecodeErr
          else case scan_string (Suc (length r0)) r0 of
            None \<Rightarrow> Inl JSONDecodeErr
          | Some (k, r1) \<Rightarrow>
              (case skip_ws r1 of
                 [] \<Rightarrow> Inl JSONDecodeErr
               | col # r2 \<Rightarrow>
                   if col \<noteq> 58 then Inl JSONDecodeErr
                   else rbind (parse_value opts n (skip_ws r2)) (\<lambda>(v, r).
                     case skip_ws r of
                       [] \<Rightarrow> Inl JSONDecodeErr
                     | c # r' \<Rightarrow>
                         if c = 125 then Inr ([(k, v)], r')
                         else if c = 44 then
                           rbind (parse_members opts n (skip_ws r')) (\<lambda>(ps, r''). Inr ((k, v) # ps, r''))
                         else Inl JSONDecodeErr)))"

declare parse_value.simps [simp del] parse_elems.simps [simp del] parse_members.simps [simp del]

definition loads :: "load_opts \<Rightarrow> pystr \<Rightarrow> pyerr + pyval" where
  "loads opts s =
     (case s of
        c # _ \<Rightarrow> if c = 0xFEFF then Inl JSONDecodeErr
                 else rbind (parse_value opts (2 * length s + 2) (skip_ws s))
                        (\<lambda>(v, r). if skip_ws r = [] then Inr v else Inl JSONDecodeErr)
      | [] \<Rightarrow> Inl JSONDecodeErr)"

definition plain_opts :: load_opts where
  "plain_opts = \<lparr>reject_dup = False, reject_const = False, levels = json_levels\<rparr>"

definition frame_opts :: load_opts where
  "frame_opts = \<lparr>reject_dup = True, reject_const = False, levels = json_levels\<rparr>"

definition strict_opts :: load_opts where
  "strict_opts = \<lparr>reject_dup = True, reject_const = True, levels = json_levels\<rparr>"

lemma opts_levels [simp]:
  "levels plain_opts = json_levels" "levels frame_opts = json_levels" "levels strict_opts = json_levels"
  by (simp_all add: plain_opts_def frame_opts_def strict_opts_def)

section \<open>A rendered document parses back\<close>

text \<open>
  \<open>json_norm\<close> is what survives a round trip: dictionaries in key order, tuples as arrays. \<open>json_ok\<close> excludes what
  does not survive: floats (whose text is not treated here), bytes, keys that are not strings, repeated keys, and, with
  \<open>ensure_ascii\<close>, code points outside Unicode's scalar values.
\<close>

fun json_norm :: "pyval \<Rightarrow> pyval" where
  "json_norm (PList xs) = PList (map json_norm xs)"
| "json_norm (PTuple xs) = PList (map json_norm xs)"
| "json_norm (PDict d) =
     (case str_items d of
        None \<Rightarrow> PDict d
      | Some kvs \<Rightarrow> PDict (map (\<lambda>kv. (PStr (fst kv), json_norm (snd kv))) (sort_key fst kvs)))"
| "json_norm v = v"

definition str_ok :: "bool \<Rightarrow> pystr \<Rightarrow> bool" where
  "str_ok a s \<longleftrightarrow> (\<forall>c \<in> set s. a \<longrightarrow> \<not> is_surrogate c \<and> c \<le> 0x10FFFF)"

lemma str_ok_lit [simp]: "str_ok a (lit s)"
proof -
  have b: "of_char c < (256::nat)" for c :: char by simp
  have "\<not> is_surrogate (of_char c) \<and> of_char c \<le> (0x10FFFF::nat)" for c :: char
    using b [of c] unfolding is_surrogate_def by linarith
  then show ?thesis by (simp add: str_ok_def lit_def)
qed

fun json_ok :: "bool \<Rightarrow> pyval \<Rightarrow> bool" where
  "json_ok a PNone = True"
| "json_ok a (PBool b) = True"
| "json_ok a (PInt z) = True"
| "json_ok a (PFloat f) = False"
| "json_ok a (PStr s) = str_ok a s"
| "json_ok a (PBytes b) = False"
| "json_ok a (PList xs) = (\<forall>x \<in> set xs. json_ok a x)"
| "json_ok a (PTuple xs) = (\<forall>x \<in> set xs. json_ok a x)"
| "json_ok a (PDict d) =
     (case str_items d of
        None \<Rightarrow> False
      | Some kvs \<Rightarrow> distinct (map fst kvs) \<and> (\<forall>kv \<in> set kvs. str_ok a (fst kv) \<and> json_ok a (snd kv)))"

subsection \<open>Numbers\<close>

lemma nat_digits_digit: "c \<in> set (nat_digits n) \<Longrightarrow> is_digit c"
proof (induction n rule: nat_digits.induct)
  case (1 n)
  then show ?case
    by (cases "n < 10") (auto simp: nat_digits.simps [of n] is_digit_def)
qed

lemma nat_digits_Nil [simp]: "nat_digits n \<noteq> []"
  by (simp add: nat_digits.simps [of n])

lemma nat_digits_head: "n \<noteq> 0 \<Longrightarrow> hd (nat_digits n) \<noteq> 48"
proof (induction n rule: nat_digits.induct)
  case (1 n)
  then show ?case
    by (cases "n < 10") (auto simp: nat_digits.simps [of n] hd_append)
qed

lemma digits_value_nat_digits: "digits_value (nat_digits n) = n"
proof (induction n rule: nat_digits.induct)
  case (1 n)
  show ?case
  proof (cases "n < 10")
    case True
    then show ?thesis by (simp add: nat_digits.simps [of n] digits_value_def)
  next
    case False
    with 1 have "digits_value (nat_digits (n div 10)) = n div 10" by simp
    then show ?thesis using False
      by (simp add: nat_digits.simps [of n] digits_value_def)
  qed
qed

definition stops :: "pystr \<Rightarrow> bool" where
  "stops r \<longleftrightarrow> (case r of [] \<Rightarrow> True | c # _ \<Rightarrow> \<not> is_digit c \<and> c \<noteq> 46 \<and> c \<noteq> 101 \<and> c \<noteq> 69)"

lemma takeWhile_digits:
  assumes "\<forall>c \<in> set ds. is_digit c" and "stops r"
  shows "takeWhile is_digit (ds @ r) = ds" and "dropWhile is_digit (ds @ r) = r"
  using assms by (auto simp: takeWhile_append dropWhile_append stops_def split: list.splits)

lemma int_part_nat_digits:
  assumes "stops r"
  shows "int_part (nat_digits n @ r) = Some (nat_digits n, r)"
proof (cases "n = 0")
  case True
  then show ?thesis by (simp add: nat_digits.simps [of 0] int_part_def)
next
  case False
  obtain c cs where c: "nat_digits n = c # cs" by (cases "nat_digits n") auto
  have "c \<noteq> 48" using nat_digits_head [OF False] c by simp
  moreover have "is_digit c" using nat_digits_digit [of c n] c by simp
  moreover have "\<forall>c \<in> set (nat_digits n). is_digit c" using nat_digits_digit by blast
  ultimately show ?thesis
    using takeWhile_digits [of "nat_digits n" r] assms c by (simp add: int_part_def)
qed

lemma no_frac_exp: "stops r \<Longrightarrow> frac_part r = ([], r)" "stops r \<Longrightarrow> exp_part r = (None, r)"
  by (auto simp: frac_part_def exp_part_def stops_def split: list.splits)

lemma parse_number_int_text:
  assumes "int_text z = Inr t" and "stops r"
  shows "parse_number opts (t @ r) = Inr (PInt z, r)"
proof -
  let ?ds = "nat_digits (nat \<bar>z\<bar>)"
  obtain c cs where c: "?ds = c # cs" by (cases ?ds) auto
  have "is_digit c" using nat_digits_digit [of c "nat \<bar>z\<bar>"] c by simp
  then have c45: "c \<noteq> 45" by (auto simp: is_digit_def)
  have len: "\<not> int_max_str_digits < length ?ds" and t: "t = (if z < 0 then 45 # ?ds else ?ds)"
    using assms(1) by (auto simp: int_text_def Let_def split: if_splits)
  have ip: "int_part (?ds @ r) = Some (?ds, r)" by (rule int_part_nat_digits [OF assms(2)])
  have v: "number_value (z < 0) ?ds [] None = Inr (PInt z)"
    using len by (auto simp: number_value_def digits_value_nat_digits)
  show ?thesis
    using ip v c45 c t by (auto simp: parse_number_def no_frac_exp [OF assms(2)] Let_def split: if_splits)
qed

subsection \<open>Strings\<close>

lemma hex_value_digit: "n < 16 \<Longrightarrow> hex_value (hex_digit n) = Some n"
  by (auto simp: hex_value_def hex_digit_def)

lemma hex_join:
  fixes n :: nat
  assumes "n < 65536"
  shows "n div 4096 mod 16 * 4096 + n div 256 mod 16 * 256 + n div 16 mod 16 * 16 + n mod 16 = n"
proof -
  have "n div 4096 = n div 256 div 16" "n div 256 = n div 16 div 16" by (simp_all add: div_mult2_eq [symmetric])
  moreover have "n div 4096 mod 16 = n div 4096" using assms by simp
  moreover note div_mult_mod_eq [of "n div 256" 16] div_mult_mod_eq [of "n div 16" 16] div_mult_mod_eq [of n 16]
  ultimately show ?thesis by linarith
qed

lemma read_hex4_hex4: "n < 65536 \<Longrightarrow> read_hex4 (hex4 n @ r) = Some (n, r)"
  using hex_join [of n] by (simp add: hex4_def hex_value_digit)

lemma unicode_escape_bmp:
  assumes "n < 65536" and "\<not> (0xD800 \<le> n \<and> n \<le> 0xDBFF)"
  shows "unicode_escape (hex4 n @ r) = Some (n, r)"
  using assms by (simp only: unicode_escape.simps read_hex4_hex4 option.case prod.case if_False)

lemma unicode_escape_pair:
  assumes "0xD800 \<le> hi" "hi \<le> 0xDBFF" "0xDC00 \<le> lo" "lo \<le> 0xDFFF"
  shows "unicode_escape (hex4 hi @ 92 # 117 # hex4 lo @ r) = Some (join_surrogates hi lo, r)"
  using assms by (simp add: read_hex4_hex4)

declare unicode_escape.simps [simp del]

lemma scan_char:
  assumes "str_ok a [c]"
  shows "scan_string (Suc n) (escape_char a c @ r) = map_option (\<lambda>(t, z). (c # t, z)) (scan_string n r)"
proof -
  consider "c < 32 \<or> c = 34 \<or> c = 92" | "a" "127 \<le> c" "c < 0x10000" | "a" "0x10000 \<le> c"
    | "32 \<le> c" "c \<noteq> 34" "c \<noteq> 92" "\<not> (a \<and> 127 \<le> c)"
    by linarith
  then show ?thesis
  proof cases
    case 1
    then show ?thesis
      by (auto simp: escape_char_def u_escape_def simple_escape_def unicode_escape_bmp)
  next
    case 2
    have "\<not> (0xD800 \<le> c \<and> c \<le> 0xDBFF)" using assms 2 by (auto simp: str_ok_def is_surrogate_def)
    with 2 have "unicode_escape (hex4 c @ r) = Some (c, r)" by (intro unicode_escape_bmp) auto
    with 2 show ?thesis by (auto simp: escape_char_def u_escape_def)
  next
    case 3
    define hi lo where "hi = 0xD800 + (c - 0x10000) div 1024 mod 1024" and "lo = 0xDC00 + (c - 0x10000) mod 1024"
    have "c \<le> 0x10FFFF" using assms 3 by (simp add: str_ok_def)
    then have "(c - 0x10000) div 1024 < 1024" by (simp add: less_mult_imp_div_less)
    then have "join_surrogates hi lo = c"
      using 3 by (simp add: join_surrogates_def hi_def lo_def)
    moreover have "unicode_escape (hex4 hi @ 92 # 117 # hex4 lo @ r) = Some (join_surrogates hi lo, r)"
      by (rule unicode_escape_pair) (auto simp: hi_def lo_def less_Suc_eq_le [symmetric])
    ultimately show ?thesis using 3
      by (simp add: escape_char_def u_escape_def hi_def lo_def)
  next
    case 4
    then show ?thesis by (auto simp: escape_char_def)
  qed
qed

lemma scan_string_quote:
  assumes "str_ok a s" and "length s < n"
  shows "scan_string n (concat (map (escape_char a) s) @ 34 # r) = Some (s, r)"
  using assms
proof (induction s arbitrary: n)
  case Nil
  then show ?case by (cases n) auto
next
  case (Cons c s)
  then obtain m where m: "n = Suc m" by (cases n) auto
  have "str_ok a [c]" "str_ok a s" using Cons.prems(1) by (auto simp: str_ok_def)
  then show ?case using Cons.IH [of m] Cons.prems(2) m
    by (simp add: scan_char)
qed

lemma escape_char_length: "1 \<le> length (escape_char a c)"
  by (auto simp: escape_char_def u_escape_def)

lemma escape_length: "length s \<le> length (concat (map (escape_char a) s))"
proof (induction s)
  case (Cons c s)
  then show ?case using escape_char_length [of a c] by simp
qed simp

lemma scan_quote_str:
  assumes "str_ok a s"
  shows "\<exists>q. quote_str a s @ r = 34 # q \<and> scan_string (Suc (length q)) q = Some (s, r)"
  using scan_string_quote [OF assms] escape_length [of s a] by (simp add: quote_str_def)

subsection \<open>Arrays, objects and whole documents\<close>

definition parses_as :: "load_opts \<Rightarrow> pystr \<Rightarrow> pyval \<Rightarrow> bool" where
  "parses_as opts t w \<longleftrightarrow> t \<noteq> [] \<and> hd t \<notin> {32, 9, 10, 13, 93, 125, 0xFEFF} \<and>
     (\<forall>n r. length t < n \<longrightarrow> stops r \<longrightarrow> parse_value opts n (t @ r) = Inr (w, r))"

lemma parses_asD: "parses_as opts t w \<Longrightarrow> length t < n \<Longrightarrow> stops r \<Longrightarrow> parse_value opts n (t @ r) = Inr (w, r)"
  by (simp add: parses_as_def)

lemma skip_ws_text: "t \<noteq> [] \<Longrightarrow> hd t \<notin> {32, 9, 10, 13} \<Longrightarrow> skip_ws (t @ r) = t @ r"
  by (cases t) auto

lemma parses_as_skip_ws: "parses_as opts t w \<Longrightarrow> skip_ws (t @ r) = t @ r"
  by (rule skip_ws_text) (auto simp: parses_as_def)

lemma join_Cons: "ts \<noteq> [] \<Longrightarrow> join c (t # ts) = t @ c # join c ts"
  by (cases ts) (auto simp: join_def)

lemma join_single: "join c [t] = t"
  by (simp add: join_def)

lemma stops_comma [simp]: "stops (44 # r)" "stops (93 # r)" "stops (125 # r)" "stops []"
  by (auto simp: stops_def is_digit_def)

lemma parse_elems_join:
  assumes "list_all2 (parses_as opts) ts ws" and "ts \<noteq> []" and "length (join 44 ts) + 1 < n"
  shows "parse_elems opts n (join 44 ts @ 93 # r) = Inr (ws, r)"
  using assms
proof (induction arbitrary: n rule: list_all2_induct)
  case Nil
  then show ?case by simp
next
  case (Cons t ts w ws)
  obtain m where n: "n = Suc m" using Cons.prems(2) by (cases n) auto
  have ne: "t \<noteq> []" using Cons.hyps(1) by (simp add: parses_as_def)
  show ?case
  proof (cases "ts = []")
    case True
    then show ?thesis using Cons.hyps Cons.prems n parses_asD [OF Cons.hyps(1), of m "93 # r"]
      by (simp add: parse_elems.simps join_single)
  next
    case False
    let ?rest = "join 44 ts @ 93 # r"
    obtain u us where ts: "ts = u # us" using False by (cases ts) auto
    have u: "\<exists>x. parses_as opts u x" using Cons.hyps(2) ts by (auto simp: list_all2_Cons1)
    have "skip_ws ?rest = ?rest"
    proof -
      obtain z where "?rest = u @ z" using ts by (auto simp: join_def)
      then show ?thesis using u by (auto simp: parses_as_skip_ws)
    qed
    moreover have "parse_elems opts m ?rest = Inr (ws, r)"
      by (rule Cons.IH [OF False]) (use Cons.prems(2) n False ne in \<open>cases t; simp add: join_Cons\<close>)
    moreover have "parse_value opts m (t @ 44 # ?rest) = Inr (w, 44 # ?rest)"
      by (rule parses_asD [OF Cons.hyps(1)]) (use Cons.prems(2) n False in \<open>simp_all add: join_Cons\<close>)
    ultimately show ?thesis by (simp add: n parse_elems.simps join_Cons [OF False])
  qed
qed

lemma parse_members_join:
  assumes "list_all2 (\<lambda>kt kw. fst kw = fst kt \<and> str_ok a (fst kt) \<and> parses_as opts (snd kt) (snd kw)) its ps"
    and "its \<noteq> []" and "length (join 44 (map (\<lambda>kt. quote_str a (fst kt) @ 58 # snd kt) its)) + 1 < n"
  shows "parse_members opts n (join 44 (map (\<lambda>kt. quote_str a (fst kt) @ 58 # snd kt) its) @ 125 # r) = Inr (ps, r)"
  using assms
proof (induction arbitrary: n rule: list_all2_induct)
  case Nil
  then show ?case by simp
next
  case (Cons kt its kw ps)
  obtain k t where kt: "kt = (k, t)" by force
  obtain w where kw: "kw = (k, w)" using Cons.hyps(1) kt by (cases kw) auto
  have ok: "str_ok a k" and p: "parses_as opts t w" using Cons.hyps(1) kt kw by auto
  obtain m where n: "n = Suc m" using Cons.prems(2) by (cases n) auto
  let ?item = "\<lambda>kt. quote_str a (fst kt) @ 58 # snd kt"
  let ?tail = "if its = [] then 125 # r else 44 # join 44 (map ?item its) @ 125 # r"
  have tx: "join 44 (map ?item (kt # its)) @ 125 # r = quote_str a k @ 58 # t @ ?tail"
    by (simp add: kt join_single join_Cons)
  obtain q where q: "quote_str a k @ 58 # t @ ?tail = 34 # q"
      "scan_string (Suc (length q)) q = Some (k, 58 # t @ ?tail)"
    using scan_quote_str [OF ok, of "58 # t @ ?tail"] by auto
  have lt: "length t < m" using Cons.prems(2) n kt
    by (cases "its = []") (auto simp: join_single join_Cons quote_str_def)
  have pv: "parse_value opts m (t @ ?tail) = Inr (w, ?tail)"
    by (rule parses_asD [OF p lt]) simp
  have sk: "skip_ws (t @ ?tail) = t @ ?tail" by (rule parses_as_skip_ws [OF p])
  show ?case
  proof (cases "its = []")
    case True
    then have "ps = []" using Cons.hyps(2) by simp
    then show ?thesis unfolding tx n parse_members.simps q(1)
      using q(2) pv sk True kw by simp
  next
    case False
    then have "skip_ws (join 44 (map ?item its) @ 125 # r) = join 44 (map ?item its) @ 125 # r"
      by (cases its) (auto simp: join_def quote_str_def)
    moreover have "parse_members opts m (join 44 (map ?item its) @ 125 # r) = Inr (ps, r)"
      by (rule Cons.IH [OF False]) (use Cons.prems(2) n False kt in \<open>simp add: join_Cons quote_str_def\<close>)
    ultimately show ?thesis unfolding tx n parse_members.simps q(1)
      using q(2) pv sk False kw by simp
  qed
qed

lemma update_new_key: "k \<notin> set (map fst d) \<Longrightarrow> AList.update k v d = d @ [(k, v)]"
  by (induction d) auto

lemma dup_object_distinct:
  assumes "distinct (map fst ps)" and "\<forall>k \<in> set (map fst ps). k \<notin> set seen \<and> PStr k \<notin> set (map fst out)"
  shows "dup_object seen ps out = Inr (out @ map (\<lambda>kv. (PStr (fst kv), snd kv)) ps)"
  using assms
proof (induction seen ps out rule: dup_object.induct)
  case (2 seen k v ps out)
  then show ?case by (auto simp: update_new_key)
qed simp

lemma fold_update_distinct:
  assumes "distinct (map fst ps)" and "\<forall>k \<in> set (map fst ps). PStr k \<notin> set (map fst out)"
  shows "fold (\<lambda>kv d. AList.update (PStr (fst kv)) (snd kv) d) ps out =
    out @ map (\<lambda>kv. (PStr (fst kv), snd kv)) ps"
  using assms
proof (induction ps arbitrary: out)
  case (Cons kv ps)
  have "fold (\<lambda>kv d. AList.update (PStr (fst kv)) (snd kv) d) ps (out @ [(PStr (fst kv), snd kv)]) =
    (out @ [(PStr (fst kv), snd kv)]) @ map (\<lambda>kv. (PStr (fst kv), snd kv)) ps"
    using Cons.prems by (intro Cons.IH) (auto simp only: list.map set_append set_simps map_append distinct.simps pyval.inject fst_conv)
  then show ?case using Cons.prems by (simp add: update_new_key)
qed simp

lemma object_of_pairs_distinct:
  "distinct (map fst ps) \<Longrightarrow> object_of_pairs opts ps = Inr (PDict (map (\<lambda>kv. (PStr (fst kv), snd kv)) ps))"
  by (simp add: object_of_pairs_def duplicate_rejecting_object_def dup_object_distinct fold_update_distinct)

lemma distinct_sort_key_fst: "distinct (map fst kvs) \<Longrightarrow> distinct (map fst (sort_key fst kvs))"
proof -
  have "mset (map fst (sort_key fst kvs)) = mset (map fst kvs)" by (simp only: mset_map mset_sort)
  then show "distinct (map fst kvs) \<Longrightarrow> distinct (map fst (sort_key fst kvs))"
    using mset_eq_imp_distinct_iff by blast
qed

lemma int_text_parses: "int_text z = Inr t \<Longrightarrow> parses_as opts t (PInt z)"
proof -
  assume t: "int_text z = Inr t"
  obtain b bs where b: "nat_digits (nat \<bar>z\<bar>) = b # bs" by (cases "nat_digits (nat \<bar>z\<bar>)") auto
  then have "is_digit b" using nat_digits_digit [of b "nat \<bar>z\<bar>"] by simp
  moreover have "t = (if z < 0 then 45 # b # bs else b # bs)"
    using t b by (simp add: int_text_def Let_def split: if_splits)
  ultimately obtain c cs where c: "t = c # cs" "c = 45 \<or> is_digit c"
    by (cases "z < 0") auto
  have "parse_value opts (Suc m) (t @ r) = parse_number opts (t @ r)" for m r
    using c by (auto simp: parse_value.simps is_digit_def starts_with_def lit_def)
  then have "parse_value opts n (t @ r) = Inr (PInt z, r)" if "length t < n" "stops r" for n r
    using parse_number_int_text [OF t that(2)] that(1) by (cases n) auto
  then show ?thesis using c by (auto simp: parses_as_def is_digit_def)
qed

lemma parses_asI:
  assumes "hd t \<notin> {32, 9, 10, 13, 93, 125, 0xFEFF}" and "t \<noteq> []"
    and "\<And>m r. length t \<le> m \<Longrightarrow> stops r \<Longrightarrow> parse_value opts (Suc m) (t @ r) = Inr (w, r)"
  shows "parses_as opts t w"
  unfolding parses_as_def
proof (intro conjI allI impI)
  show "t \<noteq> []" "hd t \<notin> {32, 9, 10, 13, 93, 125, 0xFEFF}" by fact+
  fix n r assume "length t < n" "stops r"
  then show "parse_value opts n (t @ r) = Inr (w, r)"
    using assms(3) [of "n - 1" r] by (cases n) auto
qed

lemma array_parses:
  assumes "list_all2 (parses_as (inner opts)) ts ws" and l: "levels opts \<noteq> 0"
  shows "parses_as opts (91 # join 44 ts @ [93]) (PList ws)"
proof (rule parses_asI)
  fix m r assume m: "length (91 # join 44 ts @ [93]) \<le> m"
  show "parse_value opts (Suc m) ((91 # join 44 ts @ [93]) @ r) = Inr (PList ws, r)"
  proof (cases ts)
    case Nil
    then show ?thesis using assms l by (simp add: parse_value.simps join_def)
  next
    case (Cons t ts')
    obtain c cs where t: "t = c # cs" "c \<notin> {32, 9, 10, 13, 93, 125, 0xFEFF}"
      using assms(1) Cons by (cases t) (auto simp: list_all2_Cons1 parses_as_def)
    obtain z where z: "join 44 ts = c # z" using t Cons by (auto simp: join_def)
    have "parse_elems (inner opts) m (join 44 ts @ 93 # r) = Inr (ws, r)"
      by (rule parse_elems_join [OF assms(1)]) (use m Cons in auto)
    then show ?thesis using z t l by (simp add: parse_value.simps)
  qed
qed auto

lemma object_parses:
  assumes "list_all2 (\<lambda>kt kw. fst kw = fst kt \<and> str_ok a (fst kt) \<and> parses_as (inner opts) (snd kt) (snd kw)) its ps"
    and "distinct (map fst ps)" and l: "levels opts \<noteq> 0"
  shows "parses_as opts (123 # join 44 (map (\<lambda>kt. quote_str a (fst kt) @ 58 # snd kt) its) @ [125])
    (PDict (map (\<lambda>kv. (PStr (fst kv), snd kv)) ps))" (is "parses_as opts (123 # ?j @ [125]) _")
proof (rule parses_asI)
  fix m r assume m: "length (123 # ?j @ [125]) \<le> m"
  show "parse_value opts (Suc m) ((123 # ?j @ [125]) @ r) =
    Inr (PDict (map (\<lambda>kv. (PStr (fst kv), snd kv)) ps), r)"
  proof (cases its)
    case Nil
    then show ?thesis using assms
      by (simp add: parse_value.simps join_def object_of_pairs_distinct)
  next
    case (Cons kt its')
    obtain z where z: "?j = 34 # z" using Cons by (auto simp: join_def quote_str_def)
    have "parse_members (inner opts) m (?j @ 125 # r) = Inr (ps, r)"
      by (rule parse_members_join [OF assms(1)]) (use m Cons in auto)
    then show ?thesis using z l object_of_pairs_distinct [OF assms(2), of opts]
      by (simp add: parse_value.simps)
  qed
qed auto

lemma rmap_parses:
  assumes "rmap f xs = Inr ts" and "\<And>x t. x \<in> set xs \<Longrightarrow> f x = Inr t \<Longrightarrow> P t (g x)"
  shows "list_all2 P ts (map g xs)"
  using assms by (induction xs arbitrary: ts) (auto split: sum.splits)

lemma rmap_items:
  assumes "rmap (\<lambda>kv. rbind (f (snd kv)) (\<lambda>t. Inr (q (fst kv) @ 58 # t))) kvs = Inr ts"
  shows "\<exists>its. ts = map (\<lambda>kt. q (fst kt) @ 58 # snd kt) its \<and>
    list_all2 (\<lambda>kt kv. fst kt = fst kv \<and> f (snd kv) = Inr (snd kt)) its kvs"
  using assms
proof (induction kvs arbitrary: ts)
  case (Cons kv kvs)
  then obtain t ts' where *: "f (snd kv) = Inr t" "ts = (q (fst kv) @ 58 # t) # ts'"
      "rmap (\<lambda>kv. rbind (f (snd kv)) (\<lambda>t. Inr (q (fst kv) @ 58 # t))) kvs = Inr ts'"
    by (auto split: sum.splits simp: rbind_Inr_iff)
  from Cons.IH [OF *(3)] obtain its where its: "ts' = map (\<lambda>kt. q (fst kt) @ 58 # snd kt) its"
      "list_all2 (\<lambda>kt kv. fst kt = fst kv \<and> f (snd kv) = Inr (snd kt)) its kvs" by blast
  show ?case
    by (rule exI [of _ "(fst kv, t) # its"]) (use * its in simp)
qed simp

theorem encode_parses: "encode l a v = Inr t \<Longrightarrow> json_ok a v \<Longrightarrow> l \<le> levels opts \<Longrightarrow> parses_as opts t (json_norm v)"
proof (induction l a v arbitrary: t opts rule: encode.induct)
  case (1 l a)
  then show ?case by (auto intro!: parses_asI simp: parse_value.simps lit_def starts_with_def)
next
  case (2 l a b)
  then show ?case by (cases b) (auto intro!: parses_asI simp: parse_value.simps lit_def starts_with_def)
next
  case (3 l a z)
  then show ?case using int_text_parses by simp
next
  case (5 l a s)
  then have ok: "str_ok a s" and t: "t = quote_str a s" by simp_all
  show ?case unfolding json_norm.simps
  proof (rule parses_asI)
    fix m r
    show "parse_value opts (Suc m) (t @ r) = Inr (PStr s, r)"
      using scan_quote_str [OF ok, of r] t by (auto simp: parse_value.simps)
  qed (auto simp: t quote_str_def)
next
  case (7 l a xs)
  then obtain ts where ts: "rmap (encode (l - 1) a) xs = Inr ts" "t = 91 # join 44 ts @ [93]" and lv: "l \<noteq> 0" "levels opts \<noteq> 0"
      "l - 1 \<le> levels (inner opts)"
    by (auto simp: rbind_Inr_iff split: if_splits)
  have "list_all2 (parses_as (inner opts)) ts (map json_norm xs)"
    by (rule rmap_parses [OF ts(1)]) (use 7 lv in auto)
  then show ?case using ts(2) array_parses lv(2) by simp
next
  case (8 l a xs)
  then obtain ts where ts: "rmap (encode (l - 1) a) xs = Inr ts" "t = 91 # join 44 ts @ [93]" and lv: "l \<noteq> 0" "levels opts \<noteq> 0"
      "l - 1 \<le> levels (inner opts)"
    by (auto simp: rbind_Inr_iff split: if_splits)
  have "list_all2 (parses_as (inner opts)) ts (map json_norm xs)"
    by (rule rmap_parses [OF ts(1)]) (use 8 lv in auto)
  then show ?case using ts(2) array_parses lv(2) by simp
next
  case (9 l a d)
  then obtain kvs where kvs: "str_items d = Some kvs" and dist: "distinct (map fst kvs)"
    and ok: "\<forall>kv \<in> set kvs. str_ok a (fst kv) \<and> json_ok a (snd kv)"
    by (auto split: option.splits)
  let ?s = "sort_key fst kvs"
  from 9(2,4) kvs obtain ts where
    ts: "rmap (\<lambda>kv. rbind (encode (l - 1) a (snd kv)) (\<lambda>t. Inr (quote_str a (fst kv) @ 58 # t))) ?s = Inr ts"
    and t: "t = 123 # join 44 ts @ [125]" and lv: "l \<noteq> 0" "levels opts \<noteq> 0" "l - 1 \<le> levels (inner opts)"
    by (auto simp: rbind_Inr_iff split: if_splits)
  from rmap_items [OF ts] obtain its where
    its: "ts = map (\<lambda>kt. quote_str a (fst kt) @ 58 # snd kt) its"
      "list_all2 (\<lambda>kt kv. fst kt = fst kv \<and> encode (l - 1) a (snd kv) = Inr (snd kt)) its ?s" by blast
  let ?ps = "map (\<lambda>kv. (fst kv, json_norm (snd kv))) ?s"
  have IH: "parses_as (inner opts) (snd kt) (json_norm (snd kv))"
    if "kv \<in> set ?s" "encode (l - 1) a (snd kv) = Inr (snd kt)" for kv kt
    using "9.IH" [OF lv(1) kvs that(1) that(2)] ok that(1) lv(3) by simp
  have "list_all2 (\<lambda>kt kw. fst kw = fst kt \<and> str_ok a (fst kt) \<and> parses_as (inner opts) (snd kt) (snd kw)) its ?ps"
    unfolding list_all2_map2
    by (rule list.rel_mono_strong [OF its(2)]) (use ok IH in auto)
  moreover have "distinct (map fst ?ps)" using distinct_sort_key_fst [OF dist] by (simp add: comp_def)
  ultimately have "parses_as opts t (PDict (map (\<lambda>kv. (PStr (fst kv), snd kv)) ?ps))"
    unfolding t its(1) using lv(2) by (rule object_parses)
  then show ?case using kvs by (simp add: comp_def)
qed simp_all

text \<open>The round trip of \<open>json.loads(json.dumps(v, sort_keys=True, separators=(",", ":")))\<close>, with every hook.\<close>

theorem loads_dumps:
  assumes "dumps a v = Inr t" and "json_ok a v" and "json_levels \<le> levels opts"
  shows "loads opts t = Inr (json_norm v)"
proof -
  have p: "parses_as opts t (json_norm v)" by (rule encode_parses [OF assms(1) [unfolded dumps_def] assms(2,3)])
  have "parse_value opts (2 * length t + 2) (t @ []) = Inr (json_norm v, [])"
    by (rule parses_asD [OF p]) auto
  moreover have "skip_ws t = t" using parses_as_skip_ws [OF p, of "[]"] by simp
  moreover obtain c cs where c: "t = c # cs" using p by (cases t) (auto simp: parses_as_def)
  moreover have "c \<noteq> 0xFEFF" using p c by (simp add: parses_as_def)
  ultimately show ?thesis by (simp add: loads_def)
qed

text \<open>Rendering and reading back keeps every member of a dictionary, under its name.\<close>

lemma json_norm_dict:
  assumes "str_items d = Some kvs" and "distinct (map fst kvs)"
  obtains d' where "json_norm (PDict d) = PDict d'" and "\<And>f. dget f d' = map_option json_norm (dget f d)"
    and "set (map fst d') = set (map fst d)" and "distinct (map fst d')"
proof -
  let ?g = "\<lambda>kv. (PStr (fst kv), json_norm (snd kv))"
  have d: "d = map (\<lambda>(k, v). (PStr k, v)) kvs" using assms(1) by (rule str_items_map)
  have keys: "map fst (map ?g xs) = map PStr (map fst xs)" for xs by simp
  have dist: "distinct (map fst (map ?g xs)) \<longleftrightarrow> distinct (map fst xs)" for xs
    unfolding keys by (simp add: distinct_map inj_on_def)
  have "map_of (map ?g (sort_key fst kvs)) = map_of (map ?g kvs)"
    unfolding map_of_inject_set [OF iffD2 [OF dist distinct_sort_key_fst [OF assms(2)]] iffD2 [OF dist assms(2)]]
    by simp
  moreover have "map_of (map ?g kvs) (sv f) = map_option json_norm (map_of d (sv f))" for f
    unfolding d by (induction kvs) auto
  ultimately have get: "dget f (map ?g (sort_key fst kvs)) = map_option json_norm (dget f d)" for f
    by (simp add: dget_def)
  have "json_norm (PDict d) = PDict (map ?g (sort_key fst kvs))" using assms(1) by simp
  moreover have "set (map fst (map ?g (sort_key fst kvs))) = set (map fst d)"
    unfolding d by force
  ultimately show thesis
    using that get iffD2 [OF dist distinct_sort_key_fst [OF assms(2)]] by blast
qed

text \<open>What can be rendered: no bytes, no integer beyond the digit limit, string keys only.\<close>

fun dumpable :: "pyval \<Rightarrow> bool" where
  "dumpable (PInt z) = (\<exists>t. int_text z = Inr t)"
| "dumpable (PBytes b) = False"
| "dumpable (PList xs) = (\<forall>x \<in> set xs. dumpable x)"
| "dumpable (PTuple xs) = (\<forall>x \<in> set xs. dumpable x)"
| "dumpable (PDict d) = (case str_items d of None \<Rightarrow> False | Some kvs \<Rightarrow> (\<forall>kv \<in> set kvs. dumpable (snd kv)))"
| "dumpable v = True"

lemma rbind_Inr_ex: "(\<exists>y. rbind m (\<lambda>x. Inr (f x)) = Inr y) \<longleftrightarrow> (\<exists>x. m = Inr x)"
  by (cases m) auto

fun nesting :: "pyval \<Rightarrow> nat" where
  "nesting (PList xs) = Suc (foldr max (map nesting xs) 0)"
| "nesting (PTuple xs) = Suc (foldr max (map nesting xs) 0)"
| "nesting (PDict d) = Suc (foldr max (map (\<lambda>kv. nesting (snd kv)) d) 0)"
| "nesting v = 0"

lemma foldr_max_le: "foldr max ns (0::nat) \<le> n \<longleftrightarrow> (\<forall>k \<in> set ns. k \<le> n)"
  by (induction ns) auto

lemma encode_total: "(\<exists>t. encode l a v = Inr t) \<longleftrightarrow> dumpable v \<and> nesting v \<le> l"
proof (induction l a v rule: encode.induct)
  case (7 l a xs)
  then show ?case by (cases l) (auto simp add: rbind_Inr_ex rmap_Inr_ex foldr_max_le)
next
  case (8 l a xs)
  then show ?case by (cases l) (auto simp add: rbind_Inr_ex rmap_Inr_ex foldr_max_le)
next
  case (9 l a d)
  show ?case
  proof (cases "l = 0 \<or> str_items d = None")
    case False
    then obtain k kvs where k: "l = Suc k" "str_items d = Some kvs" by (cases l) auto
    have "set d = (\<lambda>(k, v). (PStr k, v)) ` set kvs" using str_items_map [OF k(2)] by simp
    then have "foldr max (map (\<lambda>kv. nesting (snd kv)) d) 0 \<le> k \<longleftrightarrow> (\<forall>kv \<in> set kvs. nesting (snd kv) \<le> k)"
      unfolding foldr_max_le by fastforce
    then show ?thesis using 9 k by (auto simp add: rbind_Inr_ex rmap_Inr_ex)
  qed auto
qed (simp_all add: rbind_Inr_ex rmap_Inr_ex)

lemma dumps_total: "(\<exists>t. dumps a v = Inr t) \<longleftrightarrow> dumpable v \<and> nesting v \<le> json_levels"
  unfolding dumps_def by (rule encode_total)

end
