(* ===== verification/Requests.thy ===== *)
theory Requests
  imports Json
begin

text \<open>
  Request admission, deadlines and cancellation: \<open>llm_collab/runtime_adapter_requests.py\<close>. The policy is a record of
  the five named pools, the pending deliveries, the terminally cancelled deliveries and the unresolved request ids;
  each method is a function from the policy to an error or a result with the next policy.
\<close>

section \<open>Constants\<close>

definition METHOD_DELIVER :: pystr where [simp]: "METHOD_DELIVER = lit ''runtime.deliver''"
definition METHOD_CANCEL :: pystr where [simp]: "METHOD_CANCEL = lit ''runtime.cancel''"
definition METHOD_RECONCILE :: pystr where [simp]: "METHOD_RECONCILE = lit ''runtime.reconcile''"
definition METHOD_HEALTH :: pystr where [simp]: "METHOD_HEALTH = lit ''runtime.health''"
definition METHOD_SHUTDOWN :: pystr where [simp]: "METHOD_SHUTDOWN = lit ''runtime.shutdown''"

definition POST_INITIALIZE_METHODS :: "pystr list" where
  "POST_INITIALIZE_METHODS = [METHOD_DELIVER, METHOD_CANCEL, METHOD_RECONCILE, METHOD_HEALTH, METHOD_SHUTDOWN]"

definition MAX_IN_FLIGHT_REQUESTS :: nat where "MAX_IN_FLIGHT_REQUESTS = 32"
definition MAX_IN_FLIGHT_DELIVERIES :: nat where "MAX_IN_FLIGHT_DELIVERIES = 28"

definition REQUEST_DEADLINE_MS :: int where "REQUEST_DEADLINE_MS = 30000"
definition HEALTH_DEADLINE_MS :: int where "HEALTH_DEADLINE_MS = 5000"
definition HANDSHAKE_DEADLINE_MS :: int where "HANDSHAKE_DEADLINE_MS = 5000"

definition METHOD_CAPACITIES :: "(pystr \<times> nat) list" where
  "METHOD_CAPACITIES =
     [(METHOD_DELIVER, MAX_IN_FLIGHT_DELIVERIES), (METHOD_CANCEL, 1), (METHOD_RECONCILE, 1),
      (METHOD_HEALTH, 1), (METHOD_SHUTDOWN, 1)]"

section \<open>Data\<close>

record delivery_ref =
  dr_session_ref :: pyval
  dr_original_request_id :: pyval
  dr_delivery_id :: pyval
  dr_attempt_id :: pyval

record admission_result =
  ar_accepted :: bool
  ar_method :: pystr
  ar_request_id :: pyval
  ar_fault :: "string option"
  ar_deadline_ms :: "int option"

record deadline_result =
  dl_expired :: bool
  dl_fault :: "string option"
  dl_should_close :: bool
  dl_unresolved_request_id :: "pyval option"
  dl_automatic_retry :: bool

record cancel_result =
  cr_ok :: bool
  cr_fault :: "string option"
  cr_original_request_id :: "pyval option"
  cr_delivery_id :: "pyval option"
  cr_attempt_id :: "pyval option"
  cr_status :: "string option"
  cr_original_fault :: "string option"
  cr_unresolved :: bool
  cr_state_advanced :: bool

definition refused_cancel :: "string \<Rightarrow> cancel_result" where
  "refused_cancel fault =
     \<lparr>cr_ok = False, cr_fault = Some fault, cr_original_request_id = None, cr_delivery_id = None,
      cr_attempt_id = None, cr_status = None, cr_original_fault = None, cr_unresolved = False,
      cr_state_advanced = False\<rparr>"

text \<open>
  A cancellation key is the frozen session reference, the original request id, the delivery id and the attempt id,
  compared as Python compares the tuple.
\<close>

type_synonym cancel_key = "pyval \<times> pyval \<times> pystr \<times> pystr"

section \<open>Validation\<close>

definition validate_request_id :: "pyval \<Rightarrow> pyerr + unit" where
  "validate_request_id v = require (is_scalar_id v) (TypeErr ''request id must be a non-bool string or number'')"

definition validate_milliseconds :: "pyval \<Rightarrow> string \<Rightarrow> pyerr + int" where
  "validate_milliseconds v name =
     (case v of
        PInt n \<Rightarrow> if n < 0 then Inl (ValueErr (name @ '' must be a non-negative integer'')) else Inr n
      | _ \<Rightarrow> Inl (ValueErr (name @ '' must be a non-negative integer'')))"

definition non_empty_string :: "pyval \<Rightarrow> string \<Rightarrow> pyerr + pystr" where
  "non_empty_string v name =
     (case v of
        PStr s \<Rightarrow> if s = [] then Inl (ValueErr (name @ '' must be a non-empty string'')) else Inr s
      | _ \<Rightarrow> Inl (ValueErr (name @ '' must be a non-empty string'')))"

text \<open>
  Freezing a session reference into a hashable key: mappings become tuples of pairs in key order, lists become tuples.
\<close>

fun freeze_value :: "pyval \<Rightarrow> pyerr + pyval" where
  "freeze_value (PDict d) =
     (case str_items d of
        None \<Rightarrow> Inl (Unmodelled ''a dictionary key that is not a string'')
      | Some kvs \<Rightarrow>
          rbind (rmap (\<lambda>kv. rbind (freeze_value (snd kv)) (\<lambda>v. Inr (fst kv, v))) kvs)
            (\<lambda>its. Inr (PTuple (map (\<lambda>kv. PTuple [PStr (fst kv), snd kv]) (sort_key fst its)))))"
| "freeze_value (PList xs) = rbind (rmap freeze_value xs) (\<lambda>ys. Inr (PTuple ys))"
| "freeze_value (PTuple xs) = rbind (rmap freeze_value xs) (\<lambda>ys. Inr (PTuple ys))"
| "freeze_value (PBytes b) = Inl (TypeErr ''session_ref contains unsupported value'')"
| "freeze_value v = Inr v"

definition freeze_mapping :: "pyval \<Rightarrow> pyerr + pyval" where
  "freeze_mapping v =
     (if is_dict v then freeze_value v else Inl (TypeErr ''session_ref must be a mapping''))"

definition make_cancel_key :: "pyval \<Rightarrow> pyval \<Rightarrow> pyval \<Rightarrow> pyval \<Rightarrow> pyerr + cancel_key" where
  "make_cancel_key session_ref original delivery attempt =
     rbind (freeze_mapping session_ref) (\<lambda>s.
     rbind (non_empty_string delivery ''delivery_id'') (\<lambda>d.
     rbind (non_empty_string attempt ''attempt_id'') (\<lambda>a.
     Inr (py_key s, py_key original, d, a))))"

definition deadline_for_method :: "pystr \<Rightarrow> pyerr + int" where
  "deadline_for_method m =
     (if m = METHOD_HEALTH then Inr HEALTH_DEADLINE_MS
      else if m \<in> set POST_INITIALIZE_METHODS then Inr REQUEST_DEADLINE_MS
      else Inl (ValueErr ''unknown post-initialize method''))"

section \<open>One method's pool\<close>

text \<open>A set of request ids is the list of its members' equality representatives, newest first.\<close>

record named_pool =
  np_method :: pystr
  np_capacity :: nat
  np_ids :: "pyval list"

definition new_pool :: "pystr \<Rightarrow> nat \<Rightarrow> named_pool" where
  "new_pool m c = \<lparr>np_method = m, np_capacity = c, np_ids = []\<rparr>"

definition can_admit :: "named_pool \<Rightarrow> bool" where
  "can_admit p \<longleftrightarrow> length (np_ids p) < np_capacity p"

definition pool_contains :: "pyval \<Rightarrow> named_pool \<Rightarrow> bool" where
  "pool_contains rid p \<longleftrightarrow> py_key rid \<in> set (np_ids p)"

definition pool_admit :: "pyval \<Rightarrow> named_pool \<Rightarrow> bool \<times> named_pool" where
  "pool_admit rid p =
     (if \<not> can_admit p \<or> pool_contains rid p then (False, p)
      else (True, p\<lparr>np_ids := py_key rid # np_ids p\<rparr>))"

definition pool_release :: "pyval \<Rightarrow> named_pool \<Rightarrow> named_pool" where
  "pool_release rid p = p\<lparr>np_ids := removeAll (py_key rid) (np_ids p)\<rparr>"

definition pool_snapshot :: "named_pool \<Rightarrow> pyval set" where
  "pool_snapshot p = set (np_ids p)"

section \<open>The policy\<close>

record policy =
  pools :: "(pystr \<times> named_pool) list"
  pending_deliveries :: "(pyval \<times> delivery_ref) list"
  terminal_cancelled :: "(cancel_key \<times> cancel_result) list"
  unresolved :: "pyval list"

definition new_policy :: policy where
  "new_policy =
     \<lparr>pools = map (\<lambda>mc. (fst mc, new_pool (fst mc) (snd mc))) METHOD_CAPACITIES,
      pending_deliveries = [], terminal_cancelled = [], unresolved = []\<rparr>"

text \<open>The snapshot compares as the source's does: pools and unresolved ids as sets, the dictionaries as maps.\<close>

record policy_snapshot =
  in_flight_by_method :: "(pystr \<times> pyval set) list"
  snap_pending :: "(pyval \<times> delivery_ref) list"
  snap_terminal :: "(cancel_key \<times> cancel_result) list"
  snap_unresolved :: "pyval set"

definition snapshot :: "policy \<Rightarrow> policy_snapshot" where
  "snapshot p =
     \<lparr>in_flight_by_method = map (\<lambda>mp. (fst mp, pool_snapshot (snd mp))) (pools p),
      snap_pending = pending_deliveries p, snap_terminal = terminal_cancelled p,
      snap_unresolved = set (unresolved p)\<rparr>"

definition restore_required_unchanged :: "policy_snapshot \<Rightarrow> policy \<Rightarrow> pyerr + unit" where
  "restore_required_unchanged before p =
     require (snapshot p = before) (AssertionErr ''request refusal mutated policy state'')"

definition in_flight_count :: "policy \<Rightarrow> nat" where
  "in_flight_count p = sum_list (map (\<lambda>mp. card (pool_snapshot (snd mp))) (pools p))"

definition pool_for :: "pystr \<Rightarrow> policy \<Rightarrow> pyerr + named_pool" where
  "pool_for m p =
     (case map_of (pools p) m of
        None \<Rightarrow> Inl (ValueErr ''unknown post-initialize method'') | Some q \<Rightarrow> Inr q)"

definition validated_delivery :: "pystr \<Rightarrow> pyval \<Rightarrow> delivery_ref option \<Rightarrow> policy \<Rightarrow> pyerr + delivery_ref option" where
  "validated_delivery m rid delivery p =
     (if m \<noteq> METHOD_DELIVER then
        (case delivery of
           None \<Rightarrow> Inr None
         | Some _ \<Rightarrow> Inl (ValueErr ''only runtime.deliver may carry delivery metadata''))
      else
        (case delivery of
           None \<Rightarrow> Inl (ValueErr ''runtime.deliver requires delivery metadata'')
         | Some d \<Rightarrow>
             rbind (validate_request_id (dr_original_request_id d)) (\<lambda>_.
             rbind (require (py_eq (dr_original_request_id d) rid)
                     (ValueErr ''delivery original_request_id must equal the JSON-RPC request id'')) (\<lambda>_.
             rbind (require (map_of (pending_deliveries p) (py_key (dr_original_request_id d)) = None)
                     (ValueErr ''delivery request id is already pending'')) (\<lambda>_.
             rbind (require (is_dict (dr_session_ref d)) (Unmodelled ''a session reference that is not a mapping'')) (\<lambda>_.
             rbind (non_empty_string (dr_delivery_id d) ''delivery_id'') (\<lambda>did.
             rbind (non_empty_string (dr_attempt_id d) ''attempt_id'') (\<lambda>aid.
             Inr (Some \<lparr>dr_session_ref = dr_session_ref d, dr_original_request_id = dr_original_request_id d,
                        dr_delivery_id = PStr did, dr_attempt_id = PStr aid\<rparr>)))))))))"

definition begin_request ::
  "pystr \<Rightarrow> pyval \<Rightarrow> pyval \<Rightarrow> delivery_ref option \<Rightarrow> policy \<Rightarrow> pyerr + admission_result \<times> policy" where
  "begin_request m rid received_at_ms delivery p =
     rbind (validate_request_id rid) (\<lambda>_.
     rbind (validate_milliseconds received_at_ms ''received_at_ms'') (\<lambda>_.
     rbind (pool_for m p) (\<lambda>pool.
     rbind (validated_delivery m rid delivery p) (\<lambda>vd.
     let before = snapshot p; (ok, pool') = pool_admit rid pool in
     if \<not> ok then
       rbind (restore_required_unchanged before p) (\<lambda>_.
       Inr (\<lparr>ar_accepted = False, ar_method = m, ar_request_id = rid,
             ar_fault = Some ''TOO_MANY_IN_FLIGHT'', ar_deadline_ms = None\<rparr>, p))
     else
       let p1 = p\<lparr>pools := AList.update m pool' (pools p)\<rparr>;
           p2 = (case vd of
                   None \<Rightarrow> p1
                 | Some d \<Rightarrow> p1\<lparr>pending_deliveries :=
                     AList.update (py_key (dr_original_request_id d)) d (pending_deliveries p1)\<rparr>)
       in rbind (deadline_for_method m) (\<lambda>dl.
          Inr (\<lparr>ar_accepted = True, ar_method = m, ar_request_id = rid, ar_fault = None,
                ar_deadline_ms = Some dl\<rparr>, p2))))))"

definition complete_request :: "pystr \<Rightarrow> pyval \<Rightarrow> policy \<Rightarrow> pyerr + policy" where
  "complete_request m rid p =
     rbind (pool_for m p) (\<lambda>pool.
     Inr (p\<lparr>pools := AList.update m (pool_release rid pool) (pools p)\<rparr>))"

definition not_expired :: deadline_result where
  "not_expired = \<lparr>dl_expired = False, dl_fault = None, dl_should_close = False,
     dl_unresolved_request_id = None, dl_automatic_retry = False\<rparr>"

definition set_add :: "pyval \<Rightarrow> pyval list \<Rightarrow> pyval list" where
  "set_add v xs = (if py_key v \<in> set xs then xs else py_key v # xs)"

definition classify_request_deadline ::
  "pystr \<Rightarrow> pyval \<Rightarrow> pyval \<Rightarrow> pyval \<Rightarrow> policy \<Rightarrow> pyerr + deadline_result \<times> policy" where
  "classify_request_deadline m rid received_at_ms now_ms p =
     rbind (validate_request_id rid) (\<lambda>_.
     rbind (validate_milliseconds received_at_ms ''received_at_ms'') (\<lambda>received.
     rbind (validate_milliseconds now_ms ''now_ms'') (\<lambda>now.
     rbind (pool_for m p) (\<lambda>_.
     rbind (deadline_for_method m) (\<lambda>dl.
     if now - received < dl then Inr (not_expired, p)
     else Inr (\<lparr>dl_expired = True, dl_fault = Some ''REQUEST_TIMEOUT'', dl_should_close = False,
                dl_unresolved_request_id = Some rid, dl_automatic_retry = False\<rparr>,
               p\<lparr>unresolved := set_add rid (unresolved p)\<rparr>))))))"

definition classify_handshake_deadline :: "pyval \<Rightarrow> pyval \<Rightarrow> pyerr + deadline_result" where
  "classify_handshake_deadline process_started_at_ms now_ms =
     rbind (validate_milliseconds process_started_at_ms ''process_started_at_ms'') (\<lambda>started.
     rbind (validate_milliseconds now_ms ''now_ms'') (\<lambda>now.
     if now - started < HANDSHAKE_DEADLINE_MS then Inr not_expired
     else Inr \<lparr>dl_expired = True, dl_fault = Some ''HANDSHAKE_TIMEOUT'', dl_should_close = True,
               dl_unresolved_request_id = None, dl_automatic_retry = False\<rparr>))"

text \<open>
  The call's arguments, as the keyword arguments of \<open>cancel_delivery\<close>.
\<close>

record cancel_args =
  ca_cancel_request_id :: pyval
  ca_session_ref :: pyval
  ca_original_request_id :: pyval
  ca_delivery_id :: pyval
  ca_attempt_id :: pyval
  ca_acceptance_may_have_occurred :: bool

definition pending_matches :: "cancel_key \<Rightarrow> delivery_ref option \<Rightarrow> pyerr + bool" where
  "pending_matches key pending =
     (case pending of
        None \<Rightarrow> Inr False
      | Some d \<Rightarrow>
          rbind (make_cancel_key (dr_session_ref d) (dr_original_request_id d) (dr_delivery_id d) (dr_attempt_id d))
            (\<lambda>key'. Inr (key = key')))"

definition cancelled_result :: "cancel_args \<Rightarrow> cancel_result" where
  "cancelled_result c =
     \<lparr>cr_ok = True, cr_fault = None, cr_original_request_id = Some (ca_original_request_id c),
      cr_delivery_id = Some (ca_delivery_id c), cr_attempt_id = Some (ca_attempt_id c),
      cr_status = Some ''cancelled'', cr_original_fault = Some ''REQUEST_CANCELLED'',
      cr_unresolved = False, cr_state_advanced = True\<rparr>"

definition reconcile_result :: "cancel_args \<Rightarrow> cancel_result" where
  "reconcile_result c =
     \<lparr>cr_ok = False, cr_fault = Some ''RECONCILIATION_REQUIRED'',
      cr_original_request_id = Some (ca_original_request_id c),
      cr_delivery_id = Some (ca_delivery_id c), cr_attempt_id = Some (ca_attempt_id c),
      cr_status = None, cr_original_fault = None, cr_unresolved = True, cr_state_advanced = False\<rparr>"

definition cancel_delivery :: "cancel_args \<Rightarrow> policy \<Rightarrow> pyerr + cancel_result \<times> policy" where
  "cancel_delivery c p =
     rbind (validate_request_id (ca_cancel_request_id c)) (\<lambda>_.
     rbind (validate_request_id (ca_original_request_id c)) (\<lambda>_.
     rbind (case map_of (pools p) METHOD_CANCEL of None \<Rightarrow> Inl KeyErr | Some q \<Rightarrow> Inr q) (\<lambda>pool.
     if \<not> pool_contains (ca_cancel_request_id c) pool then Inr (refused_cancel ''INVALID_REQUEST'', p)
     else
       rbind (make_cancel_key (ca_session_ref c) (ca_original_request_id c) (ca_delivery_id c) (ca_attempt_id c)) (\<lambda>key.
       case map_of (terminal_cancelled p) key of
         Some r \<Rightarrow> Inr (r, p)
       | None \<Rightarrow>
           let pending = map_of (pending_deliveries p) (py_key (ca_original_request_id c));
               before = snapshot p
           in rbind (pending_matches key pending) (\<lambda>matches.
              if \<not> matches then
                rbind (restore_required_unchanged before p) (\<lambda>_. Inr (refused_cancel ''INVALID_DELIVERY'', p))
              else if ca_acceptance_may_have_occurred c then
                Inr (reconcile_result c, p\<lparr>unresolved := set_add (ca_original_request_id c) (unresolved p)\<rparr>)
              else
                Inr (cancelled_result c,
                     p\<lparr>pending_deliveries :=
                         AList.delete (py_key (ca_original_request_id c)) (pending_deliveries p),
                       terminal_cancelled :=
                         AList.update key (cancelled_result c) (terminal_cancelled p)\<rparr>))))))"

section \<open>A pool as a bounded set\<close>

text \<open>
  What the policy relies on: a pool holds ids up to equality, admits exactly when there is room and the id is new,
  and never holds more than its capacity.
\<close>

locale bounded_pool =
  fixes contains :: "'k \<Rightarrow> 'p \<Rightarrow> bool"
    and admit :: "'k \<Rightarrow> 'p \<Rightarrow> bool \<times> 'p"
    and release :: "'k \<Rightarrow> 'p \<Rightarrow> 'p"
    and used :: "'p \<Rightarrow> nat"
    and capacity :: "'p \<Rightarrow> nat"
    and same :: "'k \<Rightarrow> 'k \<Rightarrow> bool"
    and pinv :: "'p \<Rightarrow> bool"
  assumes used_bound: "pinv p \<Longrightarrow> used p \<le> capacity p"
    and admit_iff: "fst (admit k p) \<longleftrightarrow> used p < capacity p \<and> \<not> contains k p"
    and admit_refused: "\<not> fst (admit k p) \<Longrightarrow> snd (admit k p) = p"
    and admit_contains: "fst (admit k p) \<Longrightarrow> contains j (snd (admit k p)) \<longleftrightarrow> same j k \<or> contains j p"
    and release_contains: "contains j (release k p) \<longleftrightarrow> contains j p \<and> \<not> same j k"
    and capacity_kept: "capacity (snd (admit k p)) = capacity p" "capacity (release k p) = capacity p"
    and pinv_admit: "pinv p \<Longrightarrow> pinv (snd (admit k p))"
    and pinv_release: "pinv p \<Longrightarrow> pinv (release k p)"
    and release_room: "pinv p \<Longrightarrow> contains k p \<Longrightarrow> used (release k p) < used p"
    and same_refl: "same k k"
begin

text \<open>A released id can be admitted again at once, whoever else is in flight.\<close>

lemma readmit: "pinv p \<Longrightarrow> contains k p \<Longrightarrow> fst (admit k (release k p))"
  using release_room [of p k] used_bound [of p] by (simp add: admit_iff release_contains same_refl capacity_kept)

lemma no_double_admit: "fst (admit k p) \<Longrightarrow> \<not> fst (admit k (snd (admit k p)))"
  by (simp add: admit_iff [of k "snd (admit k p)"] admit_contains same_refl)

lemma full_refuses: "pinv p \<Longrightarrow> used p = capacity p \<Longrightarrow> admit k p = (False, p)"
  using admit_iff [of k p] admit_refused [of k p] by (cases "admit k p") auto

end

definition pool_inv :: "named_pool \<Rightarrow> bool" where
  "pool_inv p \<longleftrightarrow> distinct (np_ids p) \<and> length (np_ids p) \<le> np_capacity p"

lemma length_removeAll_mem: "x \<in> set xs \<Longrightarrow> length (removeAll x xs) < length xs"
  by (induction xs) (auto simp: less_Suc_eq_le length_removeAll_less_eq)

interpretation pool: bounded_pool pool_contains pool_admit pool_release "\<lambda>p. length (np_ids p)" np_capacity
  "\<lambda>a b. py_key a = py_key b" pool_inv
proof unfold_locales
  fix p k assume "pool_inv p"
  then show "pool_inv (pool_release k p)"
    by (auto simp: pool_inv_def pool_release_def distinct_removeAll
        intro: le_trans [OF length_removeAll_less_eq])
qed (auto simp: pool_inv_def pool_admit_def can_admit_def pool_contains_def pool_release_def
      length_removeAll_mem)

section \<open>The invariant\<close>

definition pending_ok :: "pyval \<times> delivery_ref \<Rightarrow> bool" where
  "pending_ok kd \<longleftrightarrow>
     fst kd = py_key (dr_original_request_id (snd kd)) \<and> is_scalar_id (dr_original_request_id (snd kd)) \<and>
     is_dict (dr_session_ref (snd kd)) \<and>
     (\<exists>s. dr_delivery_id (snd kd) = PStr s \<and> s \<noteq> []) \<and> (\<exists>s. dr_attempt_id (snd kd) = PStr s \<and> s \<noteq> [])"

definition terminal_ok :: "cancel_result \<Rightarrow> bool" where
  "terminal_ok r \<longleftrightarrow> cr_ok r \<and> cr_fault r = None \<and> cr_status r = Some ''cancelled'' \<and>
     cr_original_fault r = Some ''REQUEST_CANCELLED'' \<and> cr_state_advanced r \<and> \<not> cr_unresolved r"

definition pools_ok :: "(pystr \<times> named_pool) list \<Rightarrow> bool" where
  "pools_ok ps \<longleftrightarrow> map (\<lambda>mp. (fst mp, np_capacity (snd mp))) ps = METHOD_CAPACITIES \<and> (\<forall>mp \<in> set ps. pool_inv (snd mp))"

definition policy_inv :: "policy \<Rightarrow> bool" where
  "policy_inv p \<longleftrightarrow> pools_ok (pools p) \<and>
     distinct (map fst (pending_deliveries p)) \<and> (\<forall>kd \<in> set (pending_deliveries p). pending_ok kd) \<and>
     distinct (map fst (terminal_cancelled p)) \<and> (\<forall>kr \<in> set (terminal_cancelled p). terminal_ok (snd kr)) \<and>
     distinct (unresolved p)"

text \<open>One call of a method that changes the policy.\<close>

inductive policy_step :: "policy \<Rightarrow> policy \<Rightarrow> bool" where
  begin_req: "begin_request m rid t d p = Inr (r, p') \<Longrightarrow> policy_step p p'"
| complete_req: "complete_request m rid p = Inr p' \<Longrightarrow> policy_step p p'"
| deadline_req: "classify_request_deadline m rid t n p = Inr (r, p') \<Longrightarrow> policy_step p p'"
| cancel_req: "cancel_delivery c p = Inr (r, p') \<Longrightarrow> policy_step p p'"

inductive_cases policy_stepE: "policy_step p p'"

lemma map_update_value:
  assumes "map_of ps m = Some q" and "f (m, q') = f (m, q)"
  shows "map f (AList.update m q' ps) = map f ps"
  using assms by (induction ps) auto

lemma pools_ok_update:
  assumes "pools_ok ps" and "map_of ps m = Some q" and "np_capacity q' = np_capacity q" and "pool_inv q'"
  shows "pools_ok (AList.update m q' ps)"
proof -
  have "set (AList.update m q' ps) \<subseteq> insert (m, q') (set ps)"
    by (induction ps) auto
  moreover have "map (\<lambda>mp. (fst mp, np_capacity (snd mp))) (AList.update m q' ps) =
      map (\<lambda>mp. (fst mp, np_capacity (snd mp))) ps"
    by (rule map_update_value [OF assms(2)]) (simp add: assms(3))
  ultimately show ?thesis using assms(1,4) by (auto simp: pools_ok_def)
qed

lemma pools_ok_pool: "pools_ok ps \<Longrightarrow> map_of ps m = Some q \<Longrightarrow> pool_inv q"
  by (auto simp: pools_ok_def dest!: map_of_SomeD)

lemma policy_inv_new: "policy_inv new_policy"
  by (auto simp: policy_inv_def new_policy_def pools_ok_def METHOD_CAPACITIES_def new_pool_def pool_inv_def)

lemma set_update_subset: "set (AList.update k v d) \<subseteq> insert (k, v) (set d)"
  by (induction d) auto

lemma set_delete_subset: "set (AList.delete k d) \<subseteq> set d"
  by (induction d) auto

lemma begin_request_cases:
  assumes "begin_request m rid t d p = Inr (r, p')"
  obtains (refused) "p' = p" "\<not> ar_accepted r" "ar_fault r = Some ''TOO_MANY_IN_FLIGHT''"
    | (admitted) q vd where "map_of (pools p) m = Some q" "fst (pool_admit rid q)" "ar_accepted r"
        "validated_delivery m rid d p = Inr vd"
        "p' = (case vd of None \<Rightarrow> p\<lparr>pools := AList.update m (snd (pool_admit rid q)) (pools p)\<rparr>
               | Some e \<Rightarrow> p\<lparr>pools := AList.update m (snd (pool_admit rid q)) (pools p),
                   pending_deliveries := AList.update (py_key (dr_original_request_id e)) e (pending_deliveries p)\<rparr>)"
proof -
  obtain q vd where q: "map_of (pools p) m = Some q" and vd: "validated_delivery m rid d p = Inr vd"
    using assms by (auto simp: begin_request_def rbind_Inr_iff pool_for_def split: option.splits)
  obtain ok q' where pa: "pool_admit rid q = (ok, q')" by force
  have body: "(if \<not> ok then
       rbind (restore_required_unchanged (snapshot p) p) (\<lambda>_.
       Inr (\<lparr>ar_accepted = False, ar_method = m, ar_request_id = rid,
             ar_fault = Some ''TOO_MANY_IN_FLIGHT'', ar_deadline_ms = None\<rparr>, p))
     else
       let p1 = p\<lparr>pools := AList.update m q' (pools p)\<rparr>;
           p2 = (case vd of None \<Rightarrow> p1
                 | Some d \<Rightarrow> p1\<lparr>pending_deliveries :=
                     AList.update (py_key (dr_original_request_id d)) d (pending_deliveries p1)\<rparr>)
       in rbind (deadline_for_method m) (\<lambda>dl.
          Inr (\<lparr>ar_accepted = True, ar_method = m, ar_request_id = rid, ar_fault = None,
                ar_deadline_ms = Some dl\<rparr>, p2))) = Inr (r, p')"
    using assms q vd pa by (auto simp: begin_request_def rbind_Inr_iff pool_for_def Let_def)
  show thesis
  proof (cases ok)
    case False
    then show ?thesis using body by (intro refused) (auto simp: rbind_Inr_iff)
  next
    case True
    then show ?thesis using body pa
      by (intro admitted [OF q _ _ vd]) (auto simp: rbind_Inr_iff Let_def split: option.splits)
  qed
qed

lemma validated_delivery_ok:
  assumes "validated_delivery m rid d p = Inr (Some e)"
  shows "pending_ok (py_key (dr_original_request_id e), e)"
    and "map_of (pending_deliveries p) (py_key (dr_original_request_id e)) = None"
    and "m = METHOD_DELIVER" and "py_eq (dr_original_request_id e) rid"
  using assms
  by (auto simp: validated_delivery_def rbind_Inr_iff pending_ok_def non_empty_string_def validate_request_id_def
      split: if_splits option.splits pyval.splits)

lemma begin_request_inv:
  assumes "policy_inv p" and "begin_request m rid t d p = Inr (r, p')"
  shows "policy_inv p'"
  using assms(2)
proof (cases rule: begin_request_cases)
  case refused
  then show ?thesis using assms(1) by simp
next
  case (admitted q vd)
  have "pool_inv q" using assms(1) admitted(1) by (auto simp: policy_inv_def dest: pools_ok_pool)
  then have "pools_ok (AList.update m (snd (pool_admit rid q)) (pools p))"
    using assms(1) admitted(1) pool.pinv_admit [of q rid] pool.capacity_kept(1) [of rid q]
    by (intro pools_ok_update) (auto simp: policy_inv_def)
  then show ?thesis
  proof (cases vd)
    case None
    then show ?thesis using assms(1) admitted(5) \<open>pools_ok _\<close> by (simp add: policy_inv_def)
  next
    case (Some e)
    note v = validated_delivery_ok [OF admitted(4) [unfolded Some]]
    have "distinct (map fst (AList.update (py_key (dr_original_request_id e)) e (pending_deliveries p)))"
      using assms(1) by (intro distinct_keys_update) (simp add: policy_inv_def)
    moreover have "pending_ok kd"
      if "kd \<in> set (AList.update (py_key (dr_original_request_id e)) e (pending_deliveries p))" for kd
      using that set_update_subset [of "py_key (dr_original_request_id e)" e "pending_deliveries p"] v(1) assms(1)
      by (auto simp: policy_inv_def)
    ultimately show ?thesis using assms(1) admitted(5) Some \<open>pools_ok _\<close> by (simp add: policy_inv_def)
  qed
qed

lemma complete_request_inv:
  assumes "policy_inv p" and "complete_request m rid p = Inr p'"
  shows "policy_inv p'"
proof -
  obtain q where q: "map_of (pools p) m = Some q" "p' = p\<lparr>pools := AList.update m (pool_release rid q) (pools p)\<rparr>"
    using assms(2) by (auto simp: complete_request_def rbind_Inr_iff pool_for_def split: option.splits)
  have "pool_inv q" using assms(1) q(1) by (auto simp: policy_inv_def dest: pools_ok_pool)
  then have "pools_ok (AList.update m (pool_release rid q) (pools p))"
    using assms(1) q(1) pool.pinv_release [of q rid] pool.capacity_kept(2) [of rid q]
    by (intro pools_ok_update) (auto simp: policy_inv_def)
  then show ?thesis using assms(1) q(2) by (simp add: policy_inv_def)
qed

lemma distinct_set_add: "distinct xs \<Longrightarrow> distinct (set_add v xs)"
  by (simp add: set_add_def)

lemma deadline_request_cases:
  assumes "classify_request_deadline m rid t n p = Inr (r, p')"
  obtains (early) "p' = p" "\<not> dl_expired r"
    | (late) "p' = p\<lparr>unresolved := set_add rid (unresolved p)\<rparr>" "dl_expired r"
  using assms
  by (auto simp: classify_request_deadline_def rbind_Inr_iff not_expired_def split: if_splits)

lemma deadline_inv:
  assumes "policy_inv p" and "classify_request_deadline m rid t n p = Inr (r, p')"
  shows "policy_inv p'"
  using assms(2) by (cases rule: deadline_request_cases) (use assms(1) in \<open>auto simp: policy_inv_def distinct_set_add\<close>)

lemma cancel_cases:
  assumes "cancel_delivery c p = Inr (r, p')"
  obtains (invalid_request) "p' = p" "r = refused_cancel ''INVALID_REQUEST''"
    | (repeated) key where "p' = p" "make_cancel_key (ca_session_ref c) (ca_original_request_id c)
          (ca_delivery_id c) (ca_attempt_id c) = Inr key" "map_of (terminal_cancelled p) key = Some r"
    | (mismatch) "p' = p" "r = refused_cancel ''INVALID_DELIVERY''"
    | (matched) key d where "make_cancel_key (ca_session_ref c) (ca_original_request_id c)
          (ca_delivery_id c) (ca_attempt_id c) = Inr key"
        "map_of (terminal_cancelled p) key = None"
        "map_of (pending_deliveries p) (py_key (ca_original_request_id c)) = Some d"
        "make_cancel_key (dr_session_ref d) (dr_original_request_id d) (dr_delivery_id d) (dr_attempt_id d) = Inr key"
        "if ca_acceptance_may_have_occurred c
         then r = reconcile_result c \<and>
           p' = p\<lparr>unresolved := set_add (ca_original_request_id c) (unresolved p)\<rparr>
         else r = cancelled_result c \<and>
           p' = p\<lparr>pending_deliveries := AList.delete (py_key (ca_original_request_id c)) (pending_deliveries p),
                  terminal_cancelled := AList.update key (cancelled_result c) (terminal_cancelled p)\<rparr>"
proof -
  obtain q where q: "map_of (pools p) METHOD_CANCEL = Some q"
    using assms by (auto simp: cancel_delivery_def rbind_Inr_iff split: option.splits)
  show thesis
  proof (cases "pool_contains (ca_cancel_request_id c) q")
    case False
    then have "p' = p" "r = refused_cancel ''INVALID_REQUEST''"
      using assms q by (auto simp: cancel_delivery_def rbind_Inr_iff)
    then show ?thesis by (rule invalid_request)
  next
    case True
    then obtain key where key: "make_cancel_key (ca_session_ref c) (ca_original_request_id c)
        (ca_delivery_id c) (ca_attempt_id c) = Inr key"
      using assms q by (auto simp: cancel_delivery_def rbind_Inr_iff)
    show ?thesis
    proof (cases "map_of (terminal_cancelled p) key")
      case (Some r')
      then have "r = r'" "p' = p"
        using assms q True key by (auto simp: cancel_delivery_def rbind_Inr_iff)
      then show ?thesis using Some key by (intro repeated) auto
    next
      case None
      let ?pend = "map_of (pending_deliveries p) (py_key (ca_original_request_id c))"
      have body: "rbind (pending_matches key ?pend) (\<lambda>matches.
              if \<not> matches then
                rbind (restore_required_unchanged (snapshot p) p) (\<lambda>_. Inr (refused_cancel ''INVALID_DELIVERY'', p))
              else if ca_acceptance_may_have_occurred c then
                Inr (reconcile_result c, p\<lparr>unresolved := set_add (ca_original_request_id c) (unresolved p)\<rparr>)
              else
                Inr (cancelled_result c,
                     p\<lparr>pending_deliveries :=
                         AList.delete (py_key (ca_original_request_id c)) (pending_deliveries p),
                       terminal_cancelled :=
                         AList.update key (cancelled_result c) (terminal_cancelled p)\<rparr>)) = Inr (r, p')"
        using assms q True key None by (simp add: cancel_delivery_def rbind_Inr_iff Let_def)
      then obtain b where b: "pending_matches key ?pend = Inr b" by (auto simp: rbind_Inr_iff)
      show ?thesis
      proof (cases b)
        case False
        then show ?thesis using body b by (intro mismatch) (auto simp: rbind_Inr_iff)
      next
        case True
        then obtain d where d: "?pend = Some d"
          "make_cancel_key (dr_session_ref d) (dr_original_request_id d) (dr_delivery_id d) (dr_attempt_id d) = Inr key"
          using b by (auto simp: pending_matches_def rbind_Inr_iff split: option.splits)
        show ?thesis
          by (rule matched [OF key None d]) (use body b True in \<open>auto split: if_splits\<close>)
      qed
    qed
  qed
qed

lemma terminal_ok_cancelled: "terminal_ok (cancelled_result c)"
  by (simp add: terminal_ok_def cancelled_result_def)

lemma cancel_inv:
  assumes "policy_inv p" and "cancel_delivery c p = Inr (r, p')"
  shows "policy_inv p'"
  using assms(2)
proof (cases rule: cancel_cases)
  case (matched key d)
  show ?thesis
  proof (cases "ca_acceptance_may_have_occurred c")
    case True
    then show ?thesis using matched(5) assms(1) by (simp add: policy_inv_def distinct_set_add)
  next
    case False
    let ?t = "AList.update key (cancelled_result c) (terminal_cancelled p)"
    let ?d = "AList.delete (py_key (ca_original_request_id c)) (pending_deliveries p)"
    have "\<forall>kr \<in> set ?t. terminal_ok (snd kr)"
      using set_update_subset [of key "cancelled_result c" "terminal_cancelled p"] assms(1) terminal_ok_cancelled
      by (auto simp: policy_inv_def)
    moreover have "\<forall>kd \<in> set ?d. pending_ok kd"
      using set_delete_subset assms(1) by (fastforce simp: policy_inv_def)
    moreover have "distinct (map fst ?t)" "distinct (map fst ?d)"
      using assms(1) by (auto simp: policy_inv_def)
    ultimately show ?thesis using matched(5) False assms(1) by (simp add: policy_inv_def)
  qed
qed (use assms(1) in auto)

interpretation requests: invariant_system "\<lambda>p. p = new_policy" policy_step policy_inv
proof unfold_locales
  fix p p' assume "policy_inv p" "policy_step p p'"
  then show "policy_inv p'"
    by (auto elim!: policy_stepE intro: begin_request_inv complete_request_inv deadline_inv cancel_inv)
qed (simp add: policy_inv_new)

section \<open>Capacity\<close>

lemma card_snapshot: "pool_inv q \<Longrightarrow> card (pool_snapshot q) = length (np_ids q)"
  by (simp add: pool_snapshot_def pool_inv_def distinct_card)

lemma pools_ok_capacity:
  assumes "pools_ok ps" and "(m, q) \<in> set ps"
  shows "(m, np_capacity q) \<in> set METHOD_CAPACITIES" and "card (pool_snapshot q) \<le> np_capacity q"
proof -
  have "(m, np_capacity q) \<in> set (map (\<lambda>mp. (fst mp, np_capacity (snd mp))) ps)"
    using assms(2) by force
  then show "(m, np_capacity q) \<in> set METHOD_CAPACITIES" using assms(1) by (simp only: pools_ok_def)
  show "card (pool_snapshot q) \<le> np_capacity q"
    using assms by (auto simp: pools_ok_def pool_inv_def card_snapshot)
qed

lemma sum_capacities: "sum_list (map snd METHOD_CAPACITIES) = MAX_IN_FLIGHT_REQUESTS"
  by (simp add: METHOD_CAPACITIES_def MAX_IN_FLIGHT_DELIVERIES_def MAX_IN_FLIGHT_REQUESTS_def)

lemma in_flight_bound: "pools_ok (pools p) \<Longrightarrow> in_flight_count p \<le> MAX_IN_FLIGHT_REQUESTS"
proof -
  assume ok: "pools_ok (pools p)"
  have "in_flight_count p \<le> sum_list (map (\<lambda>mp. np_capacity (snd mp)) (pools p))"
    unfolding in_flight_count_def
    by (rule sum_list_mono) (use ok in \<open>auto dest: pools_ok_capacity(2)\<close>)
  also have "map (\<lambda>mp. np_capacity (snd mp)) (pools p) = map snd METHOD_CAPACITIES"
    using ok unfolding pools_ok_def by (metis (no_types, lifting) comp_apply map_eq_conv map_map snd_conv)
  finally show ?thesis by (simp add: sum_capacities)
qed

text \<open>
  C1. However requests are begun, completed, timed out and cancelled from a new policy, at most 32 requests are in flight
  in total, each method stays within its own bound (28 deliveries, one of each other method), and no pool is lost
  or added.
\<close>

theorem in_flight_bounds:
  assumes "policy_step\<^sup>*\<^sup>* new_policy p"
  shows "in_flight_count p \<le> MAX_IN_FLIGHT_REQUESTS \<and> map fst (pools p) = POST_INITIALIZE_METHODS \<and>
    (\<forall>m q. map_of (pools p) m = Some q \<longrightarrow>
      card (pool_snapshot q) \<le> (if m = METHOD_DELIVER then MAX_IN_FLIGHT_DELIVERIES else 1))"
proof (intro conjI allI impI)
  have ok: "pools_ok (pools p)"
    using requests.inv_reachable [OF refl assms] by (simp add: policy_inv_def)
  then show "in_flight_count p \<le> MAX_IN_FLIGHT_REQUESTS" by (rule in_flight_bound)
  have "map fst (pools p) = map fst METHOD_CAPACITIES"
    using ok unfolding pools_ok_def by (metis (no_types, lifting) comp_apply fst_conv map_eq_conv map_map)
  then show "map fst (pools p) = POST_INITIALIZE_METHODS"
    by (simp add: METHOD_CAPACITIES_def POST_INITIALIZE_METHODS_def)
  show "card (pool_snapshot q) \<le> (if m = METHOD_DELIVER then MAX_IN_FLIGHT_DELIVERIES else 1)"
    if "map_of (pools p) m = Some q" for m q
    using pools_ok_capacity [OF ok map_of_SomeD [OF that]] by (auto simp: METHOD_CAPACITIES_def)
qed

text \<open>A run used by the witnesses: one delivery admitted, then one cancel request admitted.\<close>

definition demo_delivery :: delivery_ref where
  "demo_delivery = \<lparr>dr_session_ref = PDict [(sv ''session_ref_id'', sv ''session_a'')],
     dr_original_request_id = PInt 7, dr_delivery_id = sv ''delivery_a'', dr_attempt_id = sv ''attempt_a''\<rparr>"

definition demo_policy :: "bool \<Rightarrow> policy" where
  "demo_policy cancelling =
     \<lparr>pools = [(METHOD_DELIVER, \<lparr>np_method = METHOD_DELIVER, np_capacity = 28, np_ids = [PInt 7]\<rparr>),
        (METHOD_CANCEL, \<lparr>np_method = METHOD_CANCEL, np_capacity = 1, np_ids = (if cancelling then [PInt 8] else [])\<rparr>),
        (METHOD_RECONCILE, new_pool METHOD_RECONCILE 1), (METHOD_HEALTH, new_pool METHOD_HEALTH 1),
        (METHOD_SHUTDOWN, new_pool METHOD_SHUTDOWN 1)],
      pending_deliveries = [(PInt 7, demo_delivery)], terminal_cancelled = [], unresolved = []\<rparr>"

definition demo_cancel :: "bool \<Rightarrow> cancel_args" where
  "demo_cancel accepted =
     \<lparr>ca_cancel_request_id = PInt 8, ca_session_ref = dr_session_ref demo_delivery, ca_original_request_id = PInt 7,
      ca_delivery_id = sv ''delivery_a'', ca_attempt_id = sv ''attempt_a'', ca_acceptance_may_have_occurred = accepted\<rparr>"

lemmas requests_eval =
  begin_request_def validate_request_id_def validate_milliseconds_def non_empty_string_def pool_for_def
  validated_delivery_def pool_admit_def can_admit_def pool_contains_def new_policy_def new_pool_def
  METHOD_CAPACITIES_def MAX_IN_FLIGHT_DELIVERIES_def deadline_for_method_def POST_INITIALIZE_METHODS_def
  REQUEST_DEADLINE_MS_def restore_required_unchanged_def py_eq_def make_cancel_key_def freeze_mapping_def
  pending_matches_def demo_delivery_def demo_policy_def demo_cancel_def Let_def

lemma demo_begin_deliver:
  "begin_request METHOD_DELIVER (PInt 7) (PInt 0) (Some demo_delivery) new_policy =
     Inr (\<lparr>ar_accepted = True, ar_method = METHOD_DELIVER, ar_request_id = PInt 7, ar_fault = None,
           ar_deadline_ms = Some 30000\<rparr>, demo_policy False)"
  by (simp add: requests_eval)

lemma demo_begin_cancel:
  "begin_request METHOD_CANCEL (PInt 8) (PInt 0) None (demo_policy False) =
     Inr (\<lparr>ar_accepted = True, ar_method = METHOD_CANCEL, ar_request_id = PInt 8, ar_fault = None,
           ar_deadline_ms = Some 30000\<rparr>, demo_policy True)"
  by (simp add: requests_eval)

lemma demo_reachable: "policy_step\<^sup>*\<^sup>* new_policy (demo_policy True)"
  using policy_step.begin_req [OF demo_begin_deliver] policy_step.begin_req [OF demo_begin_cancel]
  by (meson converse_rtranclp_into_rtranclp rtranclp.rtrancl_refl)

theorem in_flight_bounds_witness:
  "in_flight_count (demo_policy True) \<le> MAX_IN_FLIGHT_REQUESTS \<and> in_flight_count (demo_policy True) = 2"
  using in_flight_bounds [OF demo_reachable]
  by (simp add: in_flight_count_def demo_policy_def pool_snapshot_def new_pool_def)

section \<open>Refusals change nothing\<close>

fun is_assertion :: "pyerr \<Rightarrow> bool" where
  "is_assertion (AssertionErr _) = True"
| "is_assertion _ = False"

lemma leaf_no_assertion [never_intros]:
  "never is_assertion (validate_request_id v)"
  "never is_assertion (validate_milliseconds v name)"
  "never is_assertion (non_empty_string v name)"
  "never is_assertion (pool_for m p)"
  "never is_assertion (deadline_for_method m)"
  "never is_assertion (restore_required_unchanged (snapshot p) p)"
  by (auto simp: validate_request_id_def validate_milliseconds_def non_empty_string_def pool_for_def
      deadline_for_method_def restore_required_unchanged_def require_def split: pyval.splits option.splits)

lemma freeze_value_no_assertion: "never is_assertion (freeze_value v)"
  by (induction v rule: freeze_value.induct) (auto intro!: never_intros)

lemma make_cancel_key_no_assertion [never_intros]: "never is_assertion (make_cancel_key s i d a)"
  unfolding make_cancel_key_def freeze_mapping_def
  by (intro never_intros freeze_value_no_assertion) simp_all

lemma begin_request_no_assertion: "never is_assertion (begin_request m rid t d p)"
  unfolding begin_request_def validated_delivery_def Let_def
  by (intro never_intros) (simp_all add: validated_delivery_def)

lemma cancel_no_assertion: "never is_assertion (cancel_delivery c p)"
  unfolding cancel_delivery_def pending_matches_def Let_def
  by (intro never_intros) simp_all

text \<open>
  A refused request, a cancel that names no cancel request in flight, and a cancel whose identity does not match leave the
  policy as it was, and the code's own assertion of that never fails.
\<close>

theorem refusals_change_nothing:
  shows "(begin_request m rid t d p = Inr (r, p') \<longrightarrow> \<not> ar_accepted r \<longrightarrow> p' = p \<and> ar_fault r = Some ''TOO_MANY_IN_FLIGHT'') \<and>
    (cancel_delivery c p = Inr (cr, p'') \<longrightarrow> cr_fault cr \<in> {Some ''INVALID_REQUEST'', Some ''INVALID_DELIVERY''} \<longrightarrow> p'' = p) \<and>
    begin_request m rid t d p \<noteq> Inl (AssertionErr e) \<and> cancel_delivery c p \<noteq> Inl (AssertionErr e)"
proof (intro conjI impI)
  assume "begin_request m rid t d p = Inr (r, p')" and "\<not> ar_accepted r"
  then show "p' = p" and "ar_fault r = Some ''TOO_MANY_IN_FLIGHT''"
    by (auto elim: begin_request_cases)
next
  assume "cancel_delivery c p = Inr (cr, p'')" and "cr_fault cr \<in> {Some ''INVALID_REQUEST'', Some ''INVALID_DELIVERY''}"
  then show "p'' = p"
    by (elim cancel_cases) (auto simp: reconcile_result_def cancelled_result_def split: if_splits)
next
  show "begin_request m rid t d p \<noteq> Inl (AssertionErr e)"
    using neverD [OF begin_request_no_assertion, of m rid t d p "AssertionErr e"] by auto
  show "cancel_delivery c p \<noteq> Inl (AssertionErr e)"
    using neverD [OF cancel_no_assertion, of c p "AssertionErr e"] by auto
qed

theorem refusals_change_nothing_witness:
  "begin_request METHOD_CANCEL (PInt 9) (PInt 0) None (demo_policy True) =
     Inr (\<lparr>ar_accepted = False, ar_method = METHOD_CANCEL, ar_request_id = PInt 9,
           ar_fault = Some ''TOO_MANY_IN_FLIGHT'', ar_deadline_ms = None\<rparr>, demo_policy True)"
proof -
  obtain r p' where *: "begin_request METHOD_CANCEL (PInt 9) (PInt 0) None (demo_policy True) = Inr (r, p')"
      "r = \<lparr>ar_accepted = False, ar_method = METHOD_CANCEL, ar_request_id = PInt 9,
           ar_fault = Some ''TOO_MANY_IN_FLIGHT'', ar_deadline_ms = None\<rparr>"
    by (simp add: requests_eval)
  then show ?thesis
    using refusals_change_nothing [of METHOD_CANCEL "PInt 9" "PInt 0" None "demo_policy True" r p'] by simp
qed

section \<open>Cancellation\<close>

lemma terminal_stable_step:
  "policy_step p p' \<Longrightarrow> map_of (terminal_cancelled p) key = Some r \<Longrightarrow> map_of (terminal_cancelled p') key = Some r"
proof (erule policy_stepE, goal_cases)
  case (1 m rid t d r')
  then show ?case by (auto elim!: begin_request_cases split: option.splits)
next
  case (2 m rid)
  then show ?case by (auto simp: complete_request_def rbind_Inr_iff)
next
  case (3 m rid t n r')
  then show ?case by (auto elim!: deadline_request_cases)
next
  case (4 c r')
  from 4(2) show ?case
  proof (cases rule: cancel_cases)
    case (matched key' d)
    then have "key \<noteq> key'" using 4(1) by force
    then show ?thesis using matched(5) 4(1) by (simp split: if_splits)
  qed (use 4(1) in simp_all)
qed

lemma terminal_stable:
  "policy_step\<^sup>*\<^sup>* p p' \<Longrightarrow> map_of (terminal_cancelled p) key = Some r \<Longrightarrow> map_of (terminal_cancelled p') key = Some r"
  by (induction rule: rtranclp_induct) (auto intro: terminal_stable_step)

definition args_key :: "cancel_args \<Rightarrow> pyerr + cancel_key" where
  "args_key c = make_cancel_key (ca_session_ref c) (ca_original_request_id c) (ca_delivery_id c) (ca_attempt_id c)"

lemma cancel_success_cases:
  assumes "policy_inv p" and "cancel_delivery c p = Inr (r, p')" and "cr_ok r"
  obtains (repeated) key where "args_key c = Inr key" "map_of (terminal_cancelled p) key = Some r" "p' = p"
    | (fresh) key d where "args_key c = Inr key" "map_of (terminal_cancelled p) key = None"
        "\<not> ca_acceptance_may_have_occurred c"
        "map_of (pending_deliveries p) (py_key (ca_original_request_id c)) = Some d"
        "make_cancel_key (dr_session_ref d) (dr_original_request_id d) (dr_delivery_id d) (dr_attempt_id d) = Inr key"
        "r = cancelled_result c"
        "p' = p\<lparr>pending_deliveries := AList.delete (py_key (ca_original_request_id c)) (pending_deliveries p),
                terminal_cancelled := AList.update key r (terminal_cancelled p)\<rparr>"
  using assms(2)
proof (cases rule: cancel_cases)
  case invalid_request
  then show ?thesis using assms(3) by (simp add: refused_cancel_def)
next
  case mismatch
  then show ?thesis using assms(3) by (simp add: refused_cancel_def)
next
  case (matched key d)
  have f: "\<not> ca_acceptance_may_have_occurred c" using matched(5) assms(3) by (auto simp: reconcile_result_def)
  show ?thesis
    by (rule fresh [OF _ matched(2) f matched(3,4)]) (use matched(1,5) f in \<open>auto simp: args_key_def\<close>)
qed (auto simp: args_key_def intro: that(1))

lemma cancel_repeats:
  assumes "map_of (pools p) METHOD_CANCEL = Some q" and "pool_contains (ca_cancel_request_id c) q"
    and "is_scalar_id (ca_cancel_request_id c)" and "is_scalar_id (ca_original_request_id c)"
    and "args_key c = Inr key" and "map_of (terminal_cancelled p) key = Some r"
  shows "cancel_delivery c p = Inr (r, p)"
  using assms by (simp add: cancel_delivery_def validate_request_id_def args_key_def)

text \<open>
  C4. Cancellation is idempotent: after a cancel succeeded, whatever runs in between, a cancel with the same identity and a cancel
  request of its own in flight returns the same result and changes nothing, even when it reports that acceptance may have
  occurred.
\<close>

theorem cancel_idempotent:
  assumes "policy_step\<^sup>*\<^sup>* new_policy p" and "cancel_delivery c p = Inr (r, p1)" and "cr_ok r"
    and "policy_step\<^sup>*\<^sup>* p1 p2" and "args_key c' = args_key c"
    and "map_of (pools p2) METHOD_CANCEL = Some q" and "pool_contains (ca_cancel_request_id c') q"
    and "is_scalar_id (ca_cancel_request_id c')" and "is_scalar_id (ca_original_request_id c')"
  shows "cancel_delivery c' p2 = Inr (r, p2)"
proof -
  have inv: "policy_inv p" by (rule requests.inv_reachable [OF refl assms(1)])
  obtain key where key: "args_key c = Inr key" "map_of (terminal_cancelled p1) key = Some r"
    using inv assms(2,3) by (rule cancel_success_cases) (auto intro: that)
  then have "map_of (terminal_cancelled p2) key = Some r"
    using terminal_stable [OF assms(4)] by simp
  then show ?thesis using cancel_repeats [OF assms(6-9)] assms(5) key(1) by simp
qed

definition demo_cancelled :: policy where
  "demo_cancelled = (demo_policy True)\<lparr>pending_deliveries := [],
     terminal_cancelled := [((PTuple [PTuple [sv ''session_ref_id'', sv ''session_a'']], PInt 7,
       lit ''delivery_a'', lit ''attempt_a''), cancelled_result (demo_cancel False))]\<rparr>"

lemma demo_cancel_ok:
  "cancel_delivery (demo_cancel False) (demo_policy True) = Inr (cancelled_result (demo_cancel False), demo_cancelled)"
  by (simp add: cancel_delivery_def demo_cancelled_def requests_eval)

theorem cancel_idempotent_witness:
  "cancel_delivery (demo_cancel True) demo_cancelled = Inr (cancelled_result (demo_cancel False), demo_cancelled)"
  by (rule cancel_idempotent [OF demo_reachable demo_cancel_ok, of demo_cancelled "demo_cancel True"
        "\<lparr>np_method = METHOD_CANCEL, np_capacity = 1, np_ids = [PInt 8]\<rparr>"])
    (simp_all add: cancelled_result_def demo_cancelled_def args_key_def requests_eval)

text \<open>
  A cancel succeeds only for the exact recorded identity: either that identity was already terminally cancelled and nothing
  changes, or acceptance is not in question, the pending delivery under that request id has the same session, delivery and attempt,
  exactly it is removed, and only the terminal result is added.
\<close>

theorem cancel_success_exact:
  assumes "policy_step\<^sup>*\<^sup>* new_policy p" and "cancel_delivery c p = Inr (r, p')" and "cr_ok r"
  shows "\<exists>key. args_key c = Inr key \<and> map_of (terminal_cancelled p') key = Some r \<and>
    (map_of (terminal_cancelled p) key = Some r \<and> p' = p \<or>
     \<not> ca_acceptance_may_have_occurred c \<and>
     (\<exists>d. map_of (pending_deliveries p) (py_key (ca_original_request_id c)) = Some d \<and>
        make_cancel_key (dr_session_ref d) (dr_original_request_id d) (dr_delivery_id d) (dr_attempt_id d) = Inr key) \<and>
     (\<forall>k. map_of (pending_deliveries p') k =
        (if k = py_key (ca_original_request_id c) then None else map_of (pending_deliveries p) k)) \<and>
     (\<forall>k. k \<noteq> key \<longrightarrow> map_of (terminal_cancelled p') k = map_of (terminal_cancelled p) k) \<and>
     pools p' = pools p \<and> unresolved p' = unresolved p)"
  using requests.inv_reachable [OF refl assms(1)] assms(2,3)
  by (rule cancel_success_cases) (auto simp: map_of_delete)

theorem cancel_success_exact_witness:
  "\<exists>key. args_key (demo_cancel False) = Inr key \<and>
     map_of (terminal_cancelled demo_cancelled) key = Some (cancelled_result (demo_cancel False)) \<and>
     map_of (pending_deliveries demo_cancelled) (PInt 7) = None"
proof -
  have "map_of (pending_deliveries demo_cancelled) (PInt 7) = None" by (simp add: demo_cancelled_def)
  then show ?thesis
    using cancel_success_exact [OF demo_reachable demo_cancel_ok] by (fastforce simp: cancelled_result_def)
qed

end
