(* ===== verification/Lifecycle.thy ===== *)
theory Lifecycle
  imports Requests "HOL-Library.Sublist"
begin

text \<open>
  Health cadence and shutdown timing: \<open>llm_collab/runtime_adapter_lifecycle.py\<close>. The lifecycle state is an immutable
  record; each method returns the next state with the decision it took. The first half translates the
  methods, the second proves the health and shutdown contracts, among them a refinement to the plain
  specification "three failed checks in a row".
\<close>

section \<open>Data\<close>

definition HEALTH_INTERVAL_MS :: int where "HEALTH_INTERVAL_MS = 10000"
definition HEALTH_FAILURE_THRESHOLD :: int where "HEALTH_FAILURE_THRESHOLD = 3"
definition SHUTDOWN_DRAIN_MS :: int where "SHUTDOWN_DRAIN_MS = 10000"
definition SHUTDOWN_HARD_KILL_MS :: int where "SHUTDOWN_HARD_KILL_MS = 15000"

definition SHUTDOWN_IN_PROGRESS :: string where "SHUTDOWN_IN_PROGRESS = ''SHUTDOWN_IN_PROGRESS''"
definition HEALTH_TIMEOUT :: string where "HEALTH_TIMEOUT = ''HEALTH_TIMEOUT''"
definition INVALID_HEALTH_RESPONSE :: string where "INVALID_HEALTH_RESPONSE = ''INVALID_HEALTH_RESPONSE''"
definition ADAPTER_UNHEALTHY :: string where "ADAPTER_UNHEALTHY = ''ADAPTER_UNHEALTHY''"

record endpoint_identity =
  ei_protocol_version :: int
  ei_adapter_id :: pystr
  ei_adapter_revision :: pystr
  ei_manifest_id :: pystr
  ei_manifest_revision :: pystr
  ei_profile_id :: pystr
  ei_endpoint_id :: pystr
  ei_workspace_id :: pystr
  ei_scope_identity :: pystr
  ei_capability_set_id :: pystr
  ei_capability_set_revision :: pystr
  ei_project_id :: "pystr option"

definition health_result :: "endpoint_identity \<Rightarrow> pydict" where
  "health_result i =
     [(sv ''status'', sv ''healthy''),
      (sv ''protocol_version'', PInt (ei_protocol_version i)),
      (sv ''adapter_id'', PStr (ei_adapter_id i)),
      (sv ''adapter_revision'', PStr (ei_adapter_revision i)),
      (sv ''manifest_id'', PStr (ei_manifest_id i)),
      (sv ''manifest_revision'', PStr (ei_manifest_revision i)),
      (sv ''profile_id'', PStr (ei_profile_id i)),
      (sv ''endpoint_id'', PStr (ei_endpoint_id i)),
      (sv ''workspace_id'', PStr (ei_workspace_id i)),
      (sv ''scope_identity'', PStr (ei_scope_identity i)),
      (sv ''capability_set_id'', PStr (ei_capability_set_id i)),
      (sv ''capability_set_revision'', PStr (ei_capability_set_revision i))] @
     (case ei_project_id i of None \<Rightarrow> [] | Some p \<Rightarrow> [(sv ''project_id'', PStr p)])"

record unhealthy_decision =
  ud_adapter_id :: pystr
  ud_adapter_revision :: pystr
  ud_manifest_id :: pystr
  ud_manifest_revision :: pystr
  ud_profile_id :: pystr
  ud_endpoint_id :: pystr
  ud_workspace_id :: pystr
  ud_scope_identity :: pystr
  ud_project_id :: "pystr option"
  ud_reason :: string
  ud_decided_at_ms :: int
  ud_failure_count :: int
  ud_unresolved_attempts :: "pystr list"

record lifecycle_decision =
  ld_kind :: string
  ld_actions :: "string list"
  ld_fault :: "string option"
  ld_next_health_due_ms :: "int option"
  ld_drain_deadline_ms :: "int option"
  ld_hard_kill_deadline_ms :: "int option"
  ld_unhealthy :: "unhealthy_decision option"
  ld_unresolved_attempts :: "pystr list"
  ld_authoritative_outcome :: bool

text \<open>A decision of one kind with the defaults of the dataclass.\<close>

definition decide :: "string \<Rightarrow> lifecycle_decision" where
  "decide kind =
     \<lparr>ld_kind = kind, ld_actions = [], ld_fault = None, ld_next_health_due_ms = None,
      ld_drain_deadline_ms = None, ld_hard_kill_deadline_ms = None, ld_unhealthy = None,
      ld_unresolved_attempts = [], ld_authoritative_outcome = False\<rparr>"

record health_request =
  hr_request_id :: pyval
  hr_dispatched_at_ms :: int

record lifecycle_state =
  identity :: endpoint_identity
  next_health_due_ms :: "int option"
  consecutive_health_failures :: int
  in_flight_health :: "health_request option"
  expired_health_requests :: "pyval list"
  possibly_accepted_attempts :: "pystr list"
  shutdown_started_at_ms :: "int option"
  unhealthy :: "unhealthy_decision option"

type_synonym transition = "lifecycle_state \<times> lifecycle_decision"

section \<open>Initialization\<close>

definition validate_non_negative :: "pyval \<Rightarrow> string \<Rightarrow> pyerr + int" where
  "validate_non_negative v name =
     (case v of
        PInt n \<Rightarrow> if n < 0 then Inl (ValueErr (name @ '' must be a non-negative integer'')) else Inr n
      | _ \<Rightarrow> Inl (ValueErr (name @ '' must be a non-negative integer'')))"

definition initialized :: "endpoint_identity \<Rightarrow> pyval \<Rightarrow> pyval \<Rightarrow> pystr list \<Rightarrow> pyerr + lifecycle_state" where
  "initialized i initialized_at_ms failures attempts =
     rbind (validate_milliseconds initialized_at_ms ''initialized_at_ms'') (\<lambda>tm.
     rbind (validate_non_negative failures ''consecutive_health_failures'') (\<lambda>n.
     Inr \<lparr>identity = i, next_health_due_ms = Some (tm + HEALTH_INTERVAL_MS), consecutive_health_failures = n,
          in_flight_health = None, expired_health_requests = [], possibly_accepted_attempts = attempts,
          shutdown_started_at_ms = None, unhealthy = None\<rparr>))"

definition replacement_initialized :: "pyval \<Rightarrow> lifecycle_state \<Rightarrow> pyerr + transition" where
  "replacement_initialized initialized_at_ms s =
     rbind (validate_milliseconds initialized_at_ms ''initialized_at_ms'') (\<lambda>tm.
     if unhealthy s \<noteq> None then
       Inr (s, (decide ''defer_replacement_to_recovery'')\<lparr>ld_fault := Some ADAPTER_UNHEALTHY,
                 ld_unhealthy := unhealthy s\<rparr>)
     else
       let s' = s\<lparr>next_health_due_ms := Some (tm + HEALTH_INTERVAL_MS), in_flight_health := None\<rparr>
       in Inr (s', (decide ''replacement_initialized'')\<lparr>ld_next_health_due_ms := next_health_due_ms s'\<rparr>))"

section \<open>Health\<close>

definition derive_unhealthy_decision ::
  "endpoint_identity \<Rightarrow> string \<Rightarrow> int \<Rightarrow> int \<Rightarrow> pystr list \<Rightarrow> unhealthy_decision" where
  "derive_unhealthy_decision i reason at_ms failures attempts =
     \<lparr>ud_adapter_id = ei_adapter_id i, ud_adapter_revision = ei_adapter_revision i,
      ud_manifest_id = ei_manifest_id i, ud_manifest_revision = ei_manifest_revision i,
      ud_profile_id = ei_profile_id i, ud_endpoint_id = ei_endpoint_id i, ud_workspace_id = ei_workspace_id i,
      ud_scope_identity = ei_scope_identity i, ud_project_id = ei_project_id i, ud_reason = reason,
      ud_decided_at_ms = at_ms, ud_failure_count = failures, ud_unresolved_attempts = attempts\<rparr>"

definition record_health_failure ::
  "string \<Rightarrow> int \<Rightarrow> health_request option \<Rightarrow> int option \<Rightarrow> string list \<Rightarrow> pyval list option \<Rightarrow>
   lifecycle_state \<Rightarrow> transition" where
  "record_health_failure reason at_ms in_flight next_due actions expired s =
     (let failures = consecutive_health_failures s + 1;
          down = (if failures \<ge> HEALTH_FAILURE_THRESHOLD
                  then Some (derive_unhealthy_decision (identity s) reason at_ms failures
                               (possibly_accepted_attempts s))
                  else None);
          s' = s\<lparr>consecutive_health_failures := failures, in_flight_health := in_flight,
                 next_health_due_ms := next_due,
                 unhealthy := (if unhealthy s \<noteq> None then unhealthy s else down),
                 expired_health_requests :=
                   (case expired of None \<Rightarrow> expired_health_requests s | Some e \<Rightarrow> e)\<rparr>
      in (s', (decide (if down \<noteq> None then ''adapter_unhealthy'' else ''health_failed''))
                \<lparr>ld_actions := actions @ (if down \<noteq> None then [''mark_unhealthy''] else []),
                 ld_fault := Some (if down \<noteq> None then ADAPTER_UNHEALTHY else reason), ld_unhealthy := down\<rparr>))"

definition adapter_unhealthy :: "lifecycle_state \<Rightarrow> transition" where
  "adapter_unhealthy s =
     (s, (decide ''adapter_unhealthy'')\<lparr>ld_fault := Some ADAPTER_UNHEALTHY, ld_unhealthy := unhealthy s\<rparr>)"

definition begin_health :: "pyval \<Rightarrow> pyval \<Rightarrow> lifecycle_state \<Rightarrow> pyerr + transition" where
  "begin_health rid now_ms s =
     rbind (validate_request_id rid) (\<lambda>_.
     rbind (validate_milliseconds now_ms ''now_ms'') (\<lambda>now.
     if unhealthy s \<noteq> None then Inr (adapter_unhealthy s)
     else if shutdown_started_at_ms s \<noteq> None then
       Inr (s, (decide ''refuse_new_work'')\<lparr>ld_fault := Some SHUTDOWN_IN_PROGRESS,
                 ld_actions := [''refuse_new_work'']\<rparr>)
     else if in_flight_health s \<noteq> None then Inr (s, decide ''health_already_in_flight'')
     else if (case next_health_due_ms s of None \<Rightarrow> True | Some due \<Rightarrow> now < due) then
       Inr (s, (decide ''health_not_due'')\<lparr>ld_next_health_due_ms := next_health_due_ms s\<rparr>)
     else
       Inr (s\<lparr>in_flight_health := Some \<lparr>hr_request_id = rid, hr_dispatched_at_ms = now\<rparr>,
              next_health_due_ms := None\<rparr>,
            (decide ''dispatch_health'')\<lparr>ld_actions := [''dispatch_health'']\<rparr>)))"

text \<open>\<open>in_flight is None or in_flight.request_id != request_id\<close>, negated.\<close>

definition awaits :: "pyval \<Rightarrow> health_request option \<Rightarrow> bool" where
  "awaits rid h = (case h of None \<Rightarrow> False | Some r \<Rightarrow> py_eq (hr_request_id r) rid)"

definition complete_health :: "pyval \<Rightarrow> pyval \<Rightarrow> pydict \<Rightarrow> lifecycle_state \<Rightarrow> pyerr + transition" where
  "complete_health rid completed_at_ms result s =
     rbind (validate_request_id rid) (\<lambda>_.
     rbind (validate_milliseconds completed_at_ms ''completed_at_ms'') (\<lambda>tm.
     if unhealthy s \<noteq> None then Inr (adapter_unhealthy s)
     else if \<not> awaits rid (in_flight_health s) then Inr (s, decide ''unknown_health_request'')
     else if py_eq (PDict result) (PDict (health_result (identity s))) then
       Inr (s\<lparr>consecutive_health_failures := 0, in_flight_health := None,
              next_health_due_ms := Some (tm + HEALTH_INTERVAL_MS)\<rparr>,
            (decide ''health_ok'')\<lparr>ld_next_health_due_ms := Some (tm + HEALTH_INTERVAL_MS)\<rparr>)
     else
       Inr (record_health_failure INVALID_HEALTH_RESPONSE tm None None
              [''close_connection'', ''terminate_process''] None s)))"

definition expire_health :: "pyval \<Rightarrow> pyval \<Rightarrow> lifecycle_state \<Rightarrow> pyerr + transition" where
  "expire_health rid now_ms s =
     rbind (validate_request_id rid) (\<lambda>_.
     rbind (validate_milliseconds now_ms ''now_ms'') (\<lambda>now.
     if py_key rid \<in> set (expired_health_requests s) then Inr (s, decide ''health_expiry_already_recorded'')
     else if \<not> awaits rid (in_flight_health s) then Inr (s, decide ''unknown_health_request'')
     else if (case in_flight_health s of None \<Rightarrow> True
              | Some r \<Rightarrow> now - hr_dispatched_at_ms r < HEALTH_DEADLINE_MS) then
       Inr (s, decide ''health_not_expired'')
     else
       Inr (record_health_failure HEALTH_TIMEOUT now None None [''close_connection'', ''terminate_process'']
              (Some (py_key rid # expired_health_requests s)) s)))"

section \<open>Shutdown\<close>

definition begin_shutdown :: "pyval \<Rightarrow> lifecycle_state \<Rightarrow> pyerr + transition" where
  "begin_shutdown now_ms s =
     rbind (validate_milliseconds now_ms ''now_ms'') (\<lambda>now.
     if shutdown_started_at_ms s \<noteq> None then
       Inr (s, (decide ''shutdown_already_started'')\<lparr>ld_fault := Some SHUTDOWN_IN_PROGRESS\<rparr>)
     else
       Inr (s\<lparr>shutdown_started_at_ms := Some now, next_health_due_ms := None\<rparr>,
            (decide ''shutdown_started'')\<lparr>ld_actions := [''stop_admitting_new_work''],
              ld_drain_deadline_ms := Some (now + SHUTDOWN_DRAIN_MS),
              ld_hard_kill_deadline_ms := Some (now + SHUTDOWN_HARD_KILL_MS)\<rparr>))"

definition classify_later_work :: "pystr \<Rightarrow> lifecycle_state \<Rightarrow> lifecycle_decision" where
  "classify_later_work m s =
     (if unhealthy s \<noteq> None then
        (decide ''refuse_new_work'')\<lparr>ld_fault := Some ADAPTER_UNHEALTHY, ld_actions := [''refuse_new_work''],
           ld_unhealthy := unhealthy s\<rparr>
      else if shutdown_started_at_ms s = None then decide ''admission_open''
      else if m = METHOD_SHUTDOWN then decide ''defer_shutdown_capacity_to_request_policy''
      else (decide ''refuse_new_work'')\<lparr>ld_fault := Some SHUTDOWN_IN_PROGRESS, ld_actions := [''refuse_new_work'']\<rparr>)"

definition classify_shutdown_progress :: "pyval \<Rightarrow> bool \<Rightarrow> lifecycle_state \<Rightarrow> pyerr + lifecycle_decision" where
  "classify_shutdown_progress now_ms process_running s =
     rbind (validate_milliseconds now_ms ''now_ms'') (\<lambda>now.
     case shutdown_started_at_ms s of
       None \<Rightarrow> Inr (decide ''shutdown_not_started'')
     | Some started \<Rightarrow>
         let drain = started + SHUTDOWN_DRAIN_MS; hard = started + SHUTDOWN_HARD_KILL_MS;
             timed = (\<lambda>d. d\<lparr>ld_drain_deadline_ms := Some drain, ld_hard_kill_deadline_ms := Some hard\<rparr>)
         in if now < drain then Inr (timed (decide ''draining''))
            else if now < hard then
              Inr (timed ((decide ''drain_deadline_reached'')\<lparr>ld_actions := [''continue_drain_without_outcome''],
                     ld_unresolved_attempts := possibly_accepted_attempts s\<rparr>))
            else if process_running then
              Inr (timed ((decide ''hard_kill_due'')\<lparr>ld_actions := [''hard_kill_process'', ''continue_stderr_drain''],
                     ld_unresolved_attempts := possibly_accepted_attempts s\<rparr>))
            else Inr (timed (decide ''shutdown_complete'')))"

section \<open>Calls and runs\<close>

inductive lc_call :: "lifecycle_state \<Rightarrow> lifecycle_decision \<Rightarrow> lifecycle_state \<Rightarrow> bool" where
  lc_replace: "replacement_initialized tm s = Inr (s', d) \<Longrightarrow> lc_call s d s'"
| lc_begin: "begin_health rid now s = Inr (s', d) \<Longrightarrow> lc_call s d s'"
| lc_complete: "complete_health rid tm res s = Inr (s', d) \<Longrightarrow> lc_call s d s'"
| lc_expire: "expire_health rid now s = Inr (s', d) \<Longrightarrow> lc_call s d s'"
| lc_shutdown: "begin_shutdown now s = Inr (s', d) \<Longrightarrow> lc_call s d s'"

inductive_cases lc_callE: "lc_call s d s'"

definition lc_step :: "lifecycle_state \<Rightarrow> lifecycle_state \<Rightarrow> bool" where
  "lc_step s s' \<longleftrightarrow> (\<exists>d. lc_call s d s')"

definition lc_start :: "lifecycle_state \<Rightarrow> bool" where
  "lc_start s \<longleftrightarrow> (\<exists>i tm n attempts. initialized i tm n attempts = Inr s)"

lemma validated_int [simp]:
  "validate_milliseconds v name = Inr n \<longleftrightarrow> v = PInt n \<and> 0 \<le> n"
  "validate_non_negative v name = Inr n \<longleftrightarrow> v = PInt n \<and> 0 \<le> n"
  by (auto simp: validate_milliseconds_def validate_non_negative_def split: pyval.splits)

text \<open>What one call can do to the state: five changes, or nothing.\<close>

lemma lc_call_cases:
  assumes "lc_call s d s'"
  obtains (same) "s' = s" "ld_kind d \<notin> {''health_ok'', ''dispatch_health'', ''replacement_initialized''}" "ld_actions d \<in> {[], [''refuse_new_work'']}"
    | (replaced) tm where "unhealthy s = None"
        "s' = s\<lparr>next_health_due_ms := Some (tm + HEALTH_INTERVAL_MS), in_flight_health := None\<rparr>"
        "ld_kind d = ''replacement_initialized''" "ld_actions d = []"
    | (dispatched) rid now due where "unhealthy s = None" "shutdown_started_at_ms s = None" "in_flight_health s = None"
        "next_health_due_ms s = Some due" "due \<le> now"
        "s' = s\<lparr>in_flight_health := Some \<lparr>hr_request_id = rid, hr_dispatched_at_ms = now\<rparr>, next_health_due_ms := None\<rparr>"
        "ld_kind d = ''dispatch_health''" "ld_actions d = [''dispatch_health'']"
    | (passed) r tm where "unhealthy s = None" "in_flight_health s = Some r"
        "s' = s\<lparr>consecutive_health_failures := 0, in_flight_health := None,
               next_health_due_ms := Some (tm + HEALTH_INTERVAL_MS)\<rparr>"
        "ld_kind d = ''health_ok''" "ld_actions d = []"
    | (failed) r reason tm expired where "in_flight_health s = Some r"
        "record_health_failure reason tm None None [''close_connection'', ''terminate_process''] expired s = (s', d)"
    | (stopping) now where "shutdown_started_at_ms s = None" "0 \<le> now"
        "s' = s\<lparr>shutdown_started_at_ms := Some now, next_health_due_ms := None\<rparr>"
        "ld_kind d = ''shutdown_started''" "ld_actions d = [''stop_admitting_new_work'']"
  using assms
proof (cases rule: lc_call.cases)
  case (lc_replace tm)
  then show ?thesis
    using same replaced by (auto simp: replacement_initialized_def rbind_Inr_iff decide_def split: if_splits)
next
  case (lc_begin rid now)
  then show ?thesis
    using same dispatched
    by (auto simp: begin_health_def rbind_Inr_iff adapter_unhealthy_def decide_def not_less
        split: if_splits option.splits; blast)
next
  case (lc_complete rid tm res)
  then show ?thesis
    using same passed failed
    by (auto simp: complete_health_def rbind_Inr_iff adapter_unhealthy_def decide_def awaits_def
        split: if_splits option.splits; blast)
next
  case (lc_expire rid now)
  then have "(s', d) \<in> {(s, decide ''health_expiry_already_recorded''), (s, decide ''unknown_health_request''),
        (s, decide ''health_not_expired'')} \<or>
      (\<exists>r n e. in_flight_health s = Some r \<and> record_health_failure HEALTH_TIMEOUT n None None
         [''close_connection'', ''terminate_process''] (Some e) s = (s', d))"
    by (auto simp: expire_health_def rbind_Inr_iff awaits_def split: if_splits option.splits)
  then show ?thesis
  proof (elim disjE exE conjE)
    assume "(s', d) \<in> {(s, decide ''health_expiry_already_recorded''), (s, decide ''unknown_health_request''),
        (s, decide ''health_not_expired'')}"
    then show ?thesis by (intro same) (auto simp: decide_def)
  qed (rule failed)
next
  case (lc_shutdown now)
  show ?thesis
  proof (cases "shutdown_started_at_ms s")
    case None
    then obtain n where "now = PInt n" "0 \<le> n" "s' = s\<lparr>shutdown_started_at_ms := Some n, next_health_due_ms := None\<rparr>"
        "ld_kind d = ''shutdown_started''" "ld_actions d = [''stop_admitting_new_work'']"
      using lc_shutdown by (auto simp: begin_shutdown_def rbind_Inr_iff decide_def)
    then show ?thesis using None by (intro stopping) auto
  next
    case (Some n)
    then show ?thesis using lc_shutdown by (intro same) (auto simp: begin_shutdown_def rbind_Inr_iff decide_def)
  qed
qed

section \<open>The invariant\<close>

text \<open>
  A health request in flight means none is scheduled; an unhealthy endpoint has neither, and its record names the
  endpoint, the failure count and the attempts that were open when it was taken.
\<close>

definition names_endpoint :: "lifecycle_state \<Rightarrow> unhealthy_decision \<Rightarrow> bool" where
  "names_endpoint s u \<longleftrightarrow>
     u = derive_unhealthy_decision (identity s) (ud_reason u) (ud_decided_at_ms u) (ud_failure_count u)
           (possibly_accepted_attempts s)"

definition lc_inv :: "lifecycle_state \<Rightarrow> bool" where
  "lc_inv s \<longleftrightarrow> 0 \<le> consecutive_health_failures s \<and>
     (in_flight_health s \<noteq> None \<longrightarrow> next_health_due_ms s = None) \<and>
     (\<forall>u. unhealthy s = Some u \<longrightarrow> in_flight_health s = None \<and> next_health_due_ms s = None \<and>
        ud_failure_count u = consecutive_health_failures s \<and>
        HEALTH_FAILURE_THRESHOLD \<le> consecutive_health_failures s \<and> names_endpoint s u)"

lemma derived_record [simp]:
  "ud_failure_count (derive_unhealthy_decision i reason tm n a) = n"
  "names_endpoint s (derive_unhealthy_decision (identity s) reason tm n (possibly_accepted_attempts s))"
  by (simp_all add: names_endpoint_def derive_unhealthy_decision_def)

lemma names_endpoint_cong:
  "identity s' = identity s \<Longrightarrow> possibly_accepted_attempts s' = possibly_accepted_attempts s \<Longrightarrow>
     names_endpoint s' u \<longleftrightarrow> names_endpoint s u"
  by (simp add: names_endpoint_def)

lemma lc_inv_start: "lc_start s \<Longrightarrow> lc_inv s"
  by (auto simp: lc_start_def initialized_def rbind_Inr_iff lc_inv_def)

lemma failure_state:
  assumes "lc_inv s" and "in_flight_health s = Some r" and
    "record_health_failure reason tm None None acts expired s = (s', d)"
  shows "unhealthy s = None" and "consecutive_health_failures s' = consecutive_health_failures s + 1"
    and "unhealthy s' = (if HEALTH_FAILURE_THRESHOLD \<le> consecutive_health_failures s'
       then Some (derive_unhealthy_decision (identity s) reason tm (consecutive_health_failures s')
                    (possibly_accepted_attempts s)) else None)"
    and "identity s' = identity s" and "possibly_accepted_attempts s' = possibly_accepted_attempts s"
    and "in_flight_health s' = None" and "next_health_due_ms s' = None"
    and "ld_kind d \<in> {''adapter_unhealthy'', ''health_failed''}"
    and "ld_actions d = acts @ (if unhealthy s' = None then [] else [''mark_unhealthy''])"
proof -
  show u: "unhealthy s = None" using assms(1,2) by (auto simp: lc_inv_def)
  show "consecutive_health_failures s' = consecutive_health_failures s + 1"
    and "unhealthy s' = (if HEALTH_FAILURE_THRESHOLD \<le> consecutive_health_failures s'
       then Some (derive_unhealthy_decision (identity s) reason tm (consecutive_health_failures s')
                    (possibly_accepted_attempts s)) else None)"
    and "identity s' = identity s" and "possibly_accepted_attempts s' = possibly_accepted_attempts s"
    and "in_flight_health s' = None" and "next_health_due_ms s' = None"
    and "ld_kind d \<in> {''adapter_unhealthy'', ''health_failed''}"
    and "ld_actions d = acts @ (if unhealthy s' = None then [] else [''mark_unhealthy''])"
    using assms(3) u by (auto simp: record_health_failure_def Let_def decide_def split: if_splits)
qed

lemma lc_inv_call:
  assumes "lc_inv s" and "lc_call s d s'"
  shows "lc_inv s'"
  using assms(2)
proof (cases rule: lc_call_cases)
  case (failed r reason tm expired)
  note f = failure_state [OF assms(1) failed]
  show ?thesis
    unfolding lc_inv_def names_endpoint_cong [OF f(4,5)] using f(2,3,6,7) assms(1)
    by (simp add: lc_inv_def)
next
  case (passed r tm)
  then show ?thesis using assms(1) by (simp add: lc_inv_def)
next
  case (stopping now)
  have "names_endpoint s' u \<longleftrightarrow> names_endpoint s u" for u
    by (rule names_endpoint_cong) (simp_all add: stopping(3))
  then show ?thesis using assms(1) stopping(3) by (simp add: lc_inv_def)
qed (use assms(1) in \<open>simp_all add: lc_inv_def\<close>)

interpretation lifecycle: invariant_system lc_start lc_step lc_inv
  by unfold_locales (auto simp: lc_step_def intro: lc_inv_start lc_inv_call)

section \<open>Three failures in a row\<close>

text \<open>
  The specification of the health threshold is a counter over the outcomes of finished checks. A call's outcome is read off
  its decision: a passed check, a failed one (the connection is torn down), or none.
\<close>

datatype health_outcome = Passed | Failed

definition outcome_of :: "lifecycle_decision \<Rightarrow> health_outcome list" where
  "outcome_of d =
     (if ld_kind d = ''health_ok'' then [Passed]
      else if ''terminate_process'' \<in> set (ld_actions d) then [Failed] else [])"

inductive lc_run :: "lifecycle_state \<Rightarrow> health_outcome list \<Rightarrow> lifecycle_state \<Rightarrow> bool" where
  run_nil: "lc_run s [] s"
| run_call: "lc_run s os t \<Longrightarrow> lc_call t d u \<Longrightarrow> lc_run s (os @ outcome_of d) u"

datatype monitor = Up int | Down

fun observe :: "monitor \<Rightarrow> health_outcome \<Rightarrow> monitor" where
  "observe Down _ = Down"
| "observe (Up n) Passed = Up 0"
| "observe (Up n) Failed = (if n + 1 \<ge> HEALTH_FAILURE_THRESHOLD then Down else Up (n + 1))"

definition monitor_of :: "lifecycle_state \<Rightarrow> monitor" where
  "monitor_of s = (if unhealthy s = None then Up (consecutive_health_failures s) else Down)"

definition three_in_a_row :: "health_outcome list \<Rightarrow> bool" where
  "three_in_a_row os \<longleftrightarrow> sublist [Failed, Failed, Failed] os"

definition trailing_failures :: "health_outcome list \<Rightarrow> nat" where
  "trailing_failures os = length (takeWhile ((=) Failed) (rev os))"

text \<open>Each call is one observation of the specification.\<close>

lemma call_observes:
  assumes "lc_inv s" and "lc_call s d s'"
  shows "monitor_of s' = foldl observe (monitor_of s) (outcome_of d)"
  using assms(2)
proof (cases rule: lc_call_cases)
  case (failed r reason tm expired)
  note f = failure_state [OF assms(1) failed]
  have "outcome_of d = [Failed]" using f(8,9) by (auto simp: outcome_of_def)
  then show ?thesis using f(1,2,3) by (simp add: monitor_of_def)
qed (auto simp: monitor_of_def outcome_of_def)

lemma run_observes: "lc_run s os t \<Longrightarrow> lc_inv s \<Longrightarrow> lc_inv t \<and> monitor_of t = foldl observe (monitor_of s) os"
  by (induction rule: lc_run.induct) (auto simp: call_observes intro: lc_inv_call)

lemma observe_Down [simp]: "foldl observe Down os = Down"
  by (induction os) auto

lemma not_Failed [simp]: "x \<noteq> Failed \<longleftrightarrow> x = Passed" "Failed \<noteq> x \<longleftrightarrow> x = Passed"
  by (cases x; simp)+

lemma trailing_snoc [simp]:
  "trailing_failures [] = 0"
  "trailing_failures (os @ [x]) = (if x = Failed then Suc (trailing_failures os) else 0)"
  by (auto simp: trailing_failures_def)

lemma suffix_failures: "suffix (replicate n Failed) os \<longleftrightarrow> n \<le> trailing_failures os"
proof (induction os arbitrary: n rule: rev_induct)
  case (snoc x os)
  have "replicate (Suc m) Failed = replicate m Failed @ [Failed]" for m by (simp add: replicate_append_same)
  then show ?case using snoc by (cases n) (auto simp del: replicate_Suc suffix_snoc)
qed simp

lemma three_snoc: "three_in_a_row (os @ [x]) \<longleftrightarrow> three_in_a_row os \<or> x = Failed \<and> 2 \<le> trailing_failures os"
proof -
  have "suffix [Failed, Failed, Failed] (os @ [x]) \<longleftrightarrow> x = Failed \<and> suffix (replicate 2 Failed) os"
    using snoc_suffix_snoc [of "[Failed, Failed]" Failed os x] by (auto simp: numeral_2_eq_2)
  then show ?thesis by (auto simp: three_in_a_row_def sublist_snoc suffix_failures)
qed

lemma monitor_fold:
  "foldl observe (Up 0) os = (if three_in_a_row os then Down else Up (int (trailing_failures os)))"
  by (induction os rule: rev_induct)
    (auto simp: three_snoc HEALTH_FAILURE_THRESHOLD_def three_in_a_row_def [of "[]"] split: health_outcome.splits)

text \<open>
  C2. The health policy implements its specification: from a fresh state, after any run of calls, the endpoint is unhealthy
  exactly when the finished checks contain three failures in a row, and otherwise its failure count is the number of
  failures since the last passed check.
\<close>

theorem unhealthy_iff_three_failures:
  assumes "initialized i t (PInt 0) attempts = Inr s" and "lc_run s os s'"
  shows "(unhealthy s' \<noteq> None \<longleftrightarrow> three_in_a_row os) \<and>
    (\<not> three_in_a_row os \<longrightarrow> consecutive_health_failures s' = int (trailing_failures os))"
proof -
  have "lc_inv s" using assms(1) by (intro lc_inv_start) (auto simp: lc_start_def)
  moreover have "monitor_of s = Up 0"
    using assms(1) by (auto simp: initialized_def rbind_Inr_iff monitor_of_def)
  ultimately have "monitor_of s' = (if three_in_a_row os then Down else Up (int (trailing_failures os)))"
    using run_observes [OF assms(2)] by (simp add: monitor_fold)
  then show ?thesis by (simp add: monitor_of_def split: if_splits)
qed

text \<open>A run used by the witnesses: a check that times out, then a replacement connection.\<close>

definition demo_identity :: endpoint_identity where
  "demo_identity =
     \<lparr>ei_protocol_version = 1, ei_adapter_id = lit ''adapter_a'', ei_adapter_revision = lit ''1'',
      ei_manifest_id = lit ''manifest_a'', ei_manifest_revision = lit ''1'', ei_profile_id = lit ''profile_a'',
      ei_endpoint_id = lit ''endpoint_a'', ei_workspace_id = lit ''workspace_a'', ei_scope_identity = lit ''workspace'',
      ei_capability_set_id = lit ''set_a'', ei_capability_set_revision = lit ''1'', ei_project_id = None\<rparr>"

definition demo_state :: lifecycle_state where
  "demo_state =
     \<lparr>identity = demo_identity, next_health_due_ms = Some 10000, consecutive_health_failures = 0,
      in_flight_health = None, expired_health_requests = [], possibly_accepted_attempts = [lit ''attempt_a''],
      shutdown_started_at_ms = None, unhealthy = None\<rparr>"

definition demo_waiting :: lifecycle_state where
  "demo_waiting = demo_state\<lparr>next_health_due_ms := None,
     in_flight_health := Some \<lparr>hr_request_id = PInt 1, hr_dispatched_at_ms = 10000\<rparr>\<rparr>"

definition demo_failed :: lifecycle_state where
  "demo_failed = demo_state\<lparr>next_health_due_ms := None, consecutive_health_failures := 1,
     expired_health_requests := [PInt 1]\<rparr>"

definition demo_replaced :: lifecycle_state where
  "demo_replaced = demo_failed\<lparr>next_health_due_ms := Some 30000\<rparr>"

lemmas lifecycle_eval =
  initialized_def begin_health_def complete_health_def expire_health_def replacement_initialized_def
  record_health_failure_def validate_request_id_def validate_milliseconds_def validate_non_negative_def
  awaits_def HEALTH_INTERVAL_MS_def HEALTH_DEADLINE_MS_def HEALTH_FAILURE_THRESHOLD_def py_eq_def Let_def
  demo_state_def demo_waiting_def demo_failed_def demo_replaced_def

lemma demo_initialized: "initialized demo_identity (PInt 0) (PInt 0) [lit ''attempt_a''] = Inr demo_state"
  by (simp add: lifecycle_eval)

lemma demo_dispatch:
  "begin_health (PInt 1) (PInt 10000) demo_state = Inr (demo_waiting, (decide ''dispatch_health'')\<lparr>ld_actions := [''dispatch_health'']\<rparr>)"
  by (simp add: lifecycle_eval)

lemma demo_expiry:
  "expire_health (PInt 1) (PInt 15000) demo_waiting =
     Inr (demo_failed, (decide ''health_failed'')\<lparr>ld_actions := [''close_connection'', ''terminate_process''],
            ld_fault := Some HEALTH_TIMEOUT\<rparr>)"
  by (simp add: lifecycle_eval decide_def)

lemma demo_replacement:
  "replacement_initialized (PInt 20000) demo_failed =
     Inr (demo_replaced, (decide ''replacement_initialized'')\<lparr>ld_next_health_due_ms := Some 30000\<rparr>)"
  by (simp add: lifecycle_eval)

lemma demo_run: "lc_run demo_state [Failed] demo_replaced"
  using run_call [OF run_call [OF run_call [OF run_nil lc_begin [OF demo_dispatch]] lc_expire [OF demo_expiry]]
      lc_replace [OF demo_replacement]]
  by (simp add: outcome_of_def decide_def)

theorem unhealthy_iff_three_failures_witness:
  "unhealthy demo_replaced = None \<and> consecutive_health_failures demo_replaced = 1"
  using unhealthy_iff_three_failures [OF demo_initialized demo_run] trailing_snoc(2) [of "[]" Failed]
  by (auto simp: three_in_a_row_def dest: sublist_length_le)

section \<open>Unhealthy is final\<close>

lemma unhealthy_stays:
  assumes "lc_inv s" and "lc_step s s'" and "unhealthy s = Some u"
  shows "unhealthy s' = Some u"
proof -
  obtain d where "lc_call s d s'" using assms(2) by (auto simp: lc_step_def)
  then show ?thesis
    by (cases rule: lc_call_cases) (use assms(1,3) in \<open>auto simp: lc_inv_def\<close>)
qed

text \<open>
  Once unhealthy, always unhealthy: no later call clears or changes the record, which names the endpoint, its failure
  count and the attempts that were open; no check is dispatched or passed again, no replacement is initialized,
  and all later work is refused.
\<close>

theorem unhealthy_is_final:
  assumes "lc_start s0" and "lc_step\<^sup>*\<^sup>* s0 s" and "unhealthy s = Some u" and "lc_step\<^sup>*\<^sup>* s t"
  shows "unhealthy t = Some u \<and> names_endpoint t u \<and> HEALTH_FAILURE_THRESHOLD \<le> ud_failure_count u \<and>
    (\<forall>m. ld_fault (classify_later_work m t) = Some ADAPTER_UNHEALTHY \<and>
         ld_actions (classify_later_work m t) = [''refuse_new_work'']) \<and>
    (\<forall>d t'. lc_call t d t' \<longrightarrow> outcome_of d = [] \<and> ld_kind d \<notin> {''dispatch_health'', ''replacement_initialized''})"
proof -
  have s: "lc_inv s" by (rule lifecycle.inv_reachable [OF assms(1,2)])
  have t: "lc_inv t" by (rule lifecycle.inv_run [OF assms(4) s])
  have u: "unhealthy t = Some u"
    by (rule lifecycle.stable_run [where P = "\<lambda>x. unhealthy x = Some u", OF _ assms(4) s assms(3)]) (rule unhealthy_stays)
  have "outcome_of d = [] \<and> ld_kind d \<notin> {''dispatch_health'', ''replacement_initialized''}" if "lc_call t d t'" for d t'
    using that by (cases rule: lc_call_cases) (use t u in \<open>auto simp: lc_inv_def outcome_of_def\<close>)
  then show ?thesis using t u by (simp add: lc_inv_def classify_later_work_def)
qed

definition demo_third :: lifecycle_state where
  "demo_third = demo_waiting\<lparr>consecutive_health_failures := 2\<rparr>"

definition demo_unhealthy :: lifecycle_state where
  "demo_unhealthy = demo_third\<lparr>consecutive_health_failures := 3, in_flight_health := None,
     unhealthy := Some (derive_unhealthy_decision demo_identity INVALID_HEALTH_RESPONSE 10100 3 [lit ''attempt_a''])\<rparr>"

lemma demo_reach_unhealthy: "lc_step\<^sup>*\<^sup>* (demo_state\<lparr>consecutive_health_failures := 2\<rparr>) demo_unhealthy"
proof -
  have "begin_health (PInt 1) (PInt 10000) (demo_state\<lparr>consecutive_health_failures := 2\<rparr>) =
      Inr (demo_third, (decide ''dispatch_health'')\<lparr>ld_actions := [''dispatch_health'']\<rparr>)"
    by (simp add: lifecycle_eval demo_third_def)
  moreover have "\<exists>d. complete_health (PInt 1) (PInt 10100) [] demo_third = Inr (demo_unhealthy, d)"
    by (simp add: lifecycle_eval demo_third_def demo_unhealthy_def health_result_def)
  ultimately show ?thesis
    by (meson lc_step_def lc_begin lc_complete converse_rtranclp_into_rtranclp rtranclp.rtrancl_refl)
qed

theorem unhealthy_is_final_witness:
  "ld_fault (classify_later_work METHOD_DELIVER demo_unhealthy) = Some ADAPTER_UNHEALTHY"
proof -
  have "lc_start (demo_state\<lparr>consecutive_health_failures := 2\<rparr>)"
    unfolding lc_start_def
    by (intro exI [of _ demo_identity] exI [of _ "PInt 0"] exI [of _ "PInt 2"] exI [of _ "[lit ''attempt_a'']"])
      (simp add: lifecycle_eval)
  then show ?thesis
    using unhealthy_is_final [OF _ demo_reach_unhealthy] by (fastforce simp: demo_unhealthy_def)
qed

section \<open>Cadence\<close>

text \<open>Calls between two checks of one connection.\<close>

definition quiet_step :: "lifecycle_state \<Rightarrow> lifecycle_state \<Rightarrow> bool" where
  "quiet_step s s' \<longleftrightarrow> (\<exists>d. lc_call s d s' \<and> ld_kind d \<notin> {''dispatch_health'', ''replacement_initialized''})"

definition anchored :: "int \<Rightarrow> lifecycle_state \<Rightarrow> bool" where
  "anchored due s \<longleftrightarrow> in_flight_health s = None \<and> (next_health_due_ms s = None \<or> next_health_due_ms s = Some due)"

lemma anchored_run: "quiet_step\<^sup>*\<^sup>* s t \<Longrightarrow> anchored due s \<Longrightarrow> anchored due t"
proof (induction rule: rtranclp_induct)
  case (step t u)
  obtain d where "lc_call t d u" "ld_kind d \<notin> {''dispatch_health'', ''replacement_initialized''}"
    using step.hyps(2) by (auto simp: quiet_step_def)
  then show ?case
    by (cases rule: lc_call_cases) (use step in \<open>auto simp: anchored_def\<close>)
qed

text \<open>
  Checks never overlap and keep their distance: a check is dispatched only on a healthy endpoint that is not shutting
  down and has none in flight, and the first dispatch after a check that passed at time \<open>c\<close> happens no earlier
  than \<open>c\<close> plus ten seconds, whatever calls come in between.
\<close>

theorem health_cadence:
  assumes "complete_health rid (PInt c) res s = Inr (s1, d1)" and "ld_kind d1 = ''health_ok''"
    and "quiet_step\<^sup>*\<^sup>* s1 s2" and "begin_health rid' (PInt n) s2 = Inr (s3, d2)" and "ld_kind d2 = ''dispatch_health''"
  shows "c + HEALTH_INTERVAL_MS \<le> n \<and> in_flight_health s2 = None \<and> unhealthy s2 = None \<and>
    shutdown_started_at_ms s2 = None \<and>
    s3 = s2\<lparr>in_flight_health := Some \<lparr>hr_request_id = rid', hr_dispatched_at_ms = n\<rparr>, next_health_due_ms := None\<rparr>"
proof -
  have "anchored (c + HEALTH_INTERVAL_MS) s1"
    using assms(1,2)
    by (auto simp: complete_health_def rbind_Inr_iff adapter_unhealthy_def record_health_failure_def decide_def
        anchored_def Let_def split: if_splits)
  then have "anchored (c + HEALTH_INTERVAL_MS) s2" by (rule anchored_run [OF assms(3)])
  then show ?thesis
    using assms(4,5)
    by (auto simp: begin_health_def rbind_Inr_iff adapter_unhealthy_def decide_def anchored_def
        split: if_splits option.splits)
qed

lemma demo_pass:
  "complete_health (PInt 1) (PInt 17000) (health_result demo_identity) demo_waiting =
     Inr (demo_state\<lparr>next_health_due_ms := Some 27000\<rparr>, (decide ''health_ok'')\<lparr>ld_next_health_due_ms := Some 27000\<rparr>)"
  by (simp add: lifecycle_eval)

theorem health_cadence_witness:
  "\<exists>s3 d2. begin_health (PInt 2) (PInt 27000) (demo_state\<lparr>next_health_due_ms := Some 27000\<rparr>) = Inr (s3, d2) \<and>
     ld_kind d2 = ''dispatch_health'' \<and> (17000::int) + HEALTH_INTERVAL_MS \<le> 27000"
proof -
  have "\<exists>s3 d2. begin_health (PInt 2) (PInt 27000) (demo_state\<lparr>next_health_due_ms := Some 27000\<rparr>) = Inr (s3, d2) \<and>
     ld_kind d2 = ''dispatch_health''"
    by (simp add: lifecycle_eval decide_def)
  then show ?thesis
    using health_cadence [OF demo_pass _ rtranclp.rtrancl_refl] by (fastforce simp: decide_def)
qed

section \<open>What a health response must be\<close>

text \<open>
  C7. A response to the check in flight passes exactly when it equals the endpoint's own health result as a dictionary, and
  then the failure count is zero and the next check is due ten seconds after the response; any other response
  is one more failure and tears the connection down. The time since the dispatch plays no part: a response that
  arrives after the five-second deadline, but before the host records the expiry, still passes.
\<close>

theorem complete_health_exact:
  assumes "lc_start s0" and "lc_step\<^sup>*\<^sup>* s0 s" and "in_flight_health s = Some r" and "py_eq (hr_request_id r) rid"
    and "is_scalar_id rid" and "0 \<le> n"
  shows "\<exists>s' d. complete_health rid (PInt n) res s = Inr (s', d) \<and>
    (if py_eq (PDict res) (PDict (health_result (identity s)))
     then ld_kind d = ''health_ok'' \<and>
       s' = s\<lparr>consecutive_health_failures := 0, in_flight_health := None,
              next_health_due_ms := Some (n + HEALTH_INTERVAL_MS)\<rparr>
     else consecutive_health_failures s' = consecutive_health_failures s + 1 \<and> in_flight_health s' = None \<and>
       next_health_due_ms s' = None \<and> {''close_connection'', ''terminate_process''} \<subseteq> set (ld_actions d) \<and>
       (unhealthy s' \<noteq> None \<longleftrightarrow> HEALTH_FAILURE_THRESHOLD \<le> consecutive_health_failures s'))"
proof -
  have inv: "lc_inv s" by (rule lifecycle.inv_reachable [OF assms(1,2)])
  then have u: "unhealthy s = None" using assms(3) by (auto simp: lc_inv_def)
  show ?thesis
  proof (cases "py_eq (PDict res) (PDict (health_result (identity s)))")
    case True
    then show ?thesis
      using u assms(3-6) by (simp add: complete_health_def validate_request_id_def validate_milliseconds_def awaits_def decide_def)
  next
    case False
    obtain s' d where f: "record_health_failure INVALID_HEALTH_RESPONSE n None None
        [''close_connection'', ''terminate_process''] None s = (s', d)" by force
    show ?thesis
      using failure_state [OF inv assms(3) f] f False u assms(3-6)
      by (simp add: complete_health_def validate_request_id_def validate_milliseconds_def awaits_def)
  qed
qed

theorem complete_health_exact_witness:
  "17000 - 10000 > HEALTH_DEADLINE_MS \<and>
   complete_health (PInt 1) (PInt 17000)
     ((sv ''status'', sv ''healthy'') # (sv ''protocol_version'', PBool True) # drop 2 (health_result demo_identity)) demo_waiting =
     Inr (demo_state\<lparr>next_health_due_ms := Some 27000\<rparr>, (decide ''health_ok'')\<lparr>ld_next_health_due_ms := Some 27000\<rparr>)"
proof -
  let ?r = "(sv ''status'', sv ''healthy'') # (sv ''protocol_version'', PBool True) # drop 2 (health_result demo_identity)"
  have e: "complete_health (PInt 1) (PInt 17000) ?r demo_waiting =
      Inr (demo_state\<lparr>next_health_due_ms := Some 27000\<rparr>, (decide ''health_ok'')\<lparr>ld_next_health_due_ms := Some 27000\<rparr>)"
    by (simp add: lifecycle_eval health_result_def demo_identity_def)
  have "lc_start demo_state"
    unfolding lc_start_def using demo_initialized by blast
  moreover have "lc_step\<^sup>*\<^sup>* demo_state demo_waiting"
    by (rule r_into_rtranclp) (use lc_begin [OF demo_dispatch] in \<open>auto simp: lc_step_def\<close>)
  ultimately have "\<exists>s' d. complete_health (PInt 1) (PInt 17000) ?r demo_waiting = Inr (s', d)"
    using complete_health_exact [of demo_state demo_waiting "\<lparr>hr_request_id = PInt 1, hr_dispatched_at_ms = 10000\<rparr>"
        "PInt 1" 17000 ?r]
    by (auto simp: demo_waiting_def py_eq_def)
  then show ?thesis using e by (simp add: HEALTH_DEADLINE_MS_def)
qed

text \<open>No call forgets an expired id, not even one that initializes a replacement connection.\<close>

lemma expired_kept:
  assumes "lc_call s d s'"
  shows "set (expired_health_requests s) \<subseteq> set (expired_health_requests s')"
  using assms
  by (cases rule: lc_call.cases)
    (auto simp: replacement_initialized_def begin_health_def complete_health_def expire_health_def begin_shutdown_def
      record_health_failure_def adapter_unhealthy_def rbind_Inr_iff Let_def split: if_splits option.splits)

lemma expired_kept_run:
  "lc_step\<^sup>*\<^sup>* s s' \<Longrightarrow> k \<in> set (expired_health_requests s) \<Longrightarrow> k \<in> set (expired_health_requests s')"
  by (induction rule: rtranclp_induct) (auto simp: lc_step_def dest: expired_kept)

lemma expiry_recorded:
  assumes "expire_health rid now s = Inr (s', d)" and "ld_actions d \<noteq> []"
  shows "py_key rid \<in> set (expired_health_requests s')" and "validate_request_id rid = Inr ()"
  using assms by (auto simp: expire_health_def rbind_Inr_iff record_health_failure_def decide_def Let_def split: if_splits)

text \<open>
  C8. A request id whose check timed out once is remembered for good, across replacement connections, and a later check under the same id
  can never time out: whatever calls lie between the recorded timeout and the dispatch and after it, the dispatch puts the check in
  flight, and an expiry of it at any time changes nothing and reports that it was recorded already, so the missing answer is never counted.
\<close>

theorem reused_id_never_expires:
  assumes "expire_health rid at_ms s0 = Inr (s1, d0)" and "ld_actions d0 \<noteq> []" and "lc_step\<^sup>*\<^sup>* s1 s2"
    and "begin_health rid (PInt now) s2 = Inr (s3, d)" and "ld_kind d = ''dispatch_health''"
    and "lc_step\<^sup>*\<^sup>* s3 s4" and "0 \<le> n"
  shows "in_flight_health s3 = Some \<lparr>hr_request_id = rid, hr_dispatched_at_ms = now\<rparr> \<and>
    consecutive_health_failures s3 = consecutive_health_failures s2 \<and>
    expire_health rid (PInt n) s4 = Inr (s4, decide ''health_expiry_already_recorded'')"
proof -
  have "py_key rid \<in> set (expired_health_requests s2)"
    using expired_kept_run [OF assms(3) expiry_recorded(1) [OF assms(1,2)]] .
  moreover have b: "in_flight_health s3 = Some \<lparr>hr_request_id = rid, hr_dispatched_at_ms = now\<rparr> \<and>
      consecutive_health_failures s3 = consecutive_health_failures s2" "expired_health_requests s3 = expired_health_requests s2"
    using assms(4,5) by (auto simp: begin_health_def rbind_Inr_iff adapter_unhealthy_def decide_def split: if_splits)
  ultimately have "py_key rid \<in> set (expired_health_requests s4)" using expired_kept_run [OF assms(6)] by simp
  then show ?thesis
    using b(1) expiry_recorded(2) [OF assms(1,2)] assms(7) by (simp add: expire_health_def validate_milliseconds_def)
qed

theorem reused_id_never_expires_witness:
  "\<exists>s3 d. begin_health (PInt 1) (PInt 30000) demo_replaced = Inr (s3, d) \<and> in_flight_health s3 \<noteq> None \<and>
     expire_health (PInt 1) (PInt 90000) s3 = Inr (s3, decide ''health_expiry_already_recorded'')"
proof -
  obtain s3 d where b: "begin_health (PInt 1) (PInt 30000) demo_replaced = Inr (s3, d)" "ld_kind d = ''dispatch_health''"
    by (simp add: lifecycle_eval decide_def)
  have "lc_step\<^sup>*\<^sup>* demo_failed demo_replaced"
    by (rule r_into_rtranclp) (use lc_replace [OF demo_replacement] in \<open>auto simp: lc_step_def\<close>)
  from reused_id_never_expires [OF demo_expiry _ this b rtranclp.rtrancl_refl, of 90000] show ?thesis
    using b by auto
qed

section \<open>Shutdown\<close>

text \<open>
  Shutdown follows its two deadlines: after a shutdown begun at time \<open>t\<close> the classification is draining before
  \<open>t\<close> plus ten seconds, then drain deadline reached before \<open>t\<close> plus fifteen, then hard kill while the process
  runs and complete when it does not; new work other than shutdown is refused, no classification ever claims
  an authoritative outcome, and the attempts that may have been accepted are reported until the process is gone.
\<close>

theorem shutdown_deadlines:
  assumes "begin_shutdown (PInt t) s = Inr (s1, d1)" and "ld_kind d1 = ''shutdown_started''"
    and "lc_step\<^sup>*\<^sup>* s1 s2" and "0 \<le> n"
  shows "\<exists>d. classify_shutdown_progress (PInt n) running s2 = Inr d \<and> \<not> ld_authoritative_outcome d \<and>
    ld_kind d = (if n < t + 10000 then ''draining'' else if n < t + 15000 then ''drain_deadline_reached''
                 else if running then ''hard_kill_due'' else ''shutdown_complete'') \<and>
    (''hard_kill_process'' \<in> set (ld_actions d) \<longleftrightarrow> t + 15000 \<le> n \<and> running) \<and>
    ld_unresolved_attempts d =
      (if ld_kind d \<in> {''drain_deadline_reached'', ''hard_kill_due''} then possibly_accepted_attempts s else []) \<and>
    (\<forall>m. m \<noteq> METHOD_SHUTDOWN \<longrightarrow> ld_kind (classify_later_work m s2) = ''refuse_new_work'')"
proof -
  have s1: "shutdown_started_at_ms s1 = Some t \<and> possibly_accepted_attempts s1 = possibly_accepted_attempts s"
    using assms(1,2) by (auto simp: begin_shutdown_def rbind_Inr_iff decide_def split: if_splits)
  have "shutdown_started_at_ms s2 = Some t \<and> possibly_accepted_attempts s2 = possibly_accepted_attempts s"
    using assms(3)
  proof (induction rule: rtranclp_induct)
    case (step u v)
    obtain d where "lc_call u d v" using step.hyps(2) by (auto simp: lc_step_def)
    then show ?case
      by (cases rule: lc_call_cases)
        (use step.IH in \<open>auto simp: record_health_failure_def Let_def split: if_splits\<close>)
  qed (rule s1)
  then show ?thesis
    using assms(4)
    by (auto simp: classify_shutdown_progress_def validate_milliseconds_def SHUTDOWN_DRAIN_MS_def
        SHUTDOWN_HARD_KILL_MS_def decide_def Let_def classify_later_work_def)
qed

theorem shutdown_deadlines_witness:
  "\<exists>s1 d1 d. begin_shutdown (PInt 500) demo_waiting = Inr (s1, d1) \<and>
     classify_shutdown_progress (PInt 15500) True s1 = Inr d \<and> ld_kind d = ''hard_kill_due'' \<and>
     ld_unresolved_attempts d = [lit ''attempt_a'']"
proof -
  obtain s1 d1 where b: "begin_shutdown (PInt 500) demo_waiting = Inr (s1, d1)" "ld_kind d1 = ''shutdown_started''"
    by (simp add: begin_shutdown_def validate_milliseconds_def demo_waiting_def demo_state_def decide_def)
  show ?thesis
    using shutdown_deadlines [OF b rtranclp.rtrancl_refl, of 15500 True] b(1)
    by (auto simp: demo_waiting_def demo_state_def)
qed

end
