(* ===== verification/Conformance.thy ===== *)
theory Conformance
  imports Requests "HOL-Library.Sublist"
begin

text \<open>
  Frames of Runtime Adapter JSON-RPC V1 and the conformance helpers over them: the request, response and direction checks, the
  error responses and the in-process peer of \<open>llm_collab/runtime_adapter_conformance.py\<close>, and its clause ledger.
  The JSON Schema validators of the third-party package are parameters of what uses them.
\<close>

section \<open>Constants\<close>

definition JSONRPC_VERSION :: string where [simp]: "JSONRPC_VERSION = ''2.0''"
definition NEGOTIATED_PROTOCOL_VERSION :: string where [simp]: "NEGOTIATED_PROTOCOL_VERSION = ''1.0''"

definition REQUEST_PARAM_KEYS :: "(pystr \<times> string list) list" where
  "REQUEST_PARAM_KEYS =
     [(lit ''initialize'', [''requested_protocol_version'', ''adapter_id'', ''adapter_revision'', ''manifest_id'',
         ''manifest_revision'', ''endpoint'']),
      (METHOD_DELIVER, [''session_ref'', ''delivery'']),
      (METHOD_CANCEL, [''session_ref'', ''original_request_id'', ''delivery_id'', ''attempt_id'']),
      (METHOD_RECONCILE, [''session_ref'', ''original_request_id'', ''delivery_id'', ''attempt_id'']),
      (METHOD_HEALTH, []), (METHOD_SHUTDOWN, [])]"

definition METHODS :: "pystr list" where
  "METHODS = [lit ''initialize'', METHOD_DELIVER, METHOD_CANCEL, METHOD_RECONCILE, METHOD_HEALTH, METHOD_SHUTDOWN]"

definition ERROR_CODES :: "(pystr \<times> int) list" where
  "ERROR_CODES =
     [(lit ''PARSE_ERROR'', -32700),
      (lit ''INVALID_REQUEST'', -32600),
      (lit ''METHOD_NOT_FOUND'', -32601),
      (lit ''INVALID_PARAMS'', -32602),
      (lit ''INTERNAL_ERROR'', -32603),
      (lit ''INVALID_FRAMING'', -32000),
      (lit ''MESSAGE_TOO_LARGE'', -32001),
      (lit ''TOO_MANY_IN_FLIGHT'', -32002),
      (lit ''HANDSHAKE_TIMEOUT'', -32003),
      (lit ''UNSUPPORTED_PROTOCOL_VERSION'', -32004),
      (lit ''INITIALIZE_REQUIRED'', -32005),
      (lit ''UNTRUSTED_MANIFEST_INPUT'', -32006),
      (lit ''CAPABILITY_NOT_DECLARED'', -32007),
      (lit ''INVALID_SESSION_REF'', -32008),
      (lit ''INVALID_DELIVERY'', -32009),
      (lit ''REQUEST_TIMEOUT'', -32010),
      (lit ''REQUEST_CANCELLED'', -32011),
      (lit ''RECONCILIATION_REQUIRED'', -32012),
      (lit ''ADAPTER_UNHEALTHY'', -32013),
      (lit ''ADAPTER_QUARANTINED'', -32014),
      (lit ''REDACTION_FAILURE'', -32015),
      (lit ''SHUTDOWN_IN_PROGRESS'', -32016),
      (lit ''STDERR_LIMIT_EXCEEDED'', -32017)]"

section \<open>Frames\<close>

record direction_outcome =
  do_direction_valid :: bool
  do_form :: string
  do_fault :: "string option"
  do_should_close :: bool
  do_should_quarantine :: bool
  do_send_response :: bool

record adapter_outcome =
  ao_response :: "pystr option"
  ao_fault :: "pystr option"
  ao_should_close :: bool

definition load_json_frame :: "pystr \<Rightarrow> pyerr + pyval" where
  "load_json_frame raw =
     (case loads frame_opts raw of
        Inr v \<Rightarrow> Inr v
      | Inl (DuplicateMemberErr k) \<Rightarrow> Inl (ConformanceFailure ''duplicate-member'' ''duplicate member'')
      | Inl JSONDecodeErr \<Rightarrow> Inl (ConformanceFailure ''parse-json'' ''invalid JSON'')
      | Inl e \<Rightarrow> Inl e)"

definition dumps_frame :: "pyval \<Rightarrow> pyerr + pystr" where
  "dumps_frame v = dumps True v"

definition is_request_id :: "pyval \<Rightarrow> bool" where
  "is_request_id v =
     (case v of
        PStr s \<Rightarrow> (case utf8_encode s of Inl _ \<Rightarrow> False | Inr b \<Rightarrow> 1 \<le> length b \<and> length b \<le> 256)
      | PInt n \<Rightarrow> - (2 ^ 53 - 1) \<le> n \<and> n \<le> 2 ^ 53 - 1
      | _ \<Rightarrow> False)"

definition is_request_form :: "pydict \<Rightarrow> bool" where
  "is_request_form d \<longleftrightarrow> has_key ''method'' d \<and> \<not> has_key ''result'' d \<and> \<not> has_key ''error'' d"

definition is_response_form :: "pydict \<Rightarrow> bool" where
  "is_response_form d \<longleftrightarrow> has_key ''result'' d \<or> has_key ''error'' d"

definition classify_direction :: "string \<Rightarrow> string \<Rightarrow> pyval \<Rightarrow> pyerr + direction_outcome" where
  "classify_direction sender receiver v =
     (case v of
        PList _ \<Rightarrow> Inl (ConformanceFailure ''batch-rejected'' ''JSON-RPC batch input is not a V1 frame'')
      | PDict d \<Rightarrow>
          let form = (if is_response_form d then ''response'' else if has_key ''method'' d then ''request'' else ''unknown'')
          in if sender = ''host'' \<and> receiver = ''adapter'' \<and> form = ''request'' then
               Inr \<lparr>do_direction_valid = True, do_form = form, do_fault = None, do_should_close = False,
                    do_should_quarantine = False, do_send_response = True\<rparr>
             else if sender = ''adapter'' \<and> receiver = ''host'' \<and> form = ''response'' then
               Inr \<lparr>do_direction_valid = True, do_form = form, do_fault = None, do_should_close = False,
                    do_should_quarantine = False, do_send_response = False\<rparr>
             else if sender = ''adapter'' \<and> receiver = ''host'' \<and> form = ''request'' then
               Inr \<lparr>do_direction_valid = False, do_form = form, do_fault = Some ''INVALID_REQUEST'',
                    do_should_close = True, do_should_quarantine = True, do_send_response = False\<rparr>
             else if sender = ''host'' \<and> receiver = ''adapter'' \<and> form = ''response'' then
               Inr \<lparr>do_direction_valid = False, do_form = form, do_fault = Some ''INVALID_REQUEST'',
                    do_should_close = True, do_should_quarantine = False, do_send_response = False\<rparr>
             else Inl (ConformanceFailure ''direction-matrix'' ''unknown direction'')
      | _ \<Rightarrow> Inl (ConformanceFailure ''closed-envelope'' ''frame must be a JSON object''))"

text \<open>Membership in a set of names hashes the value first: lists and dictionaries have no hash.\<close>

fun hashable :: "pyval \<Rightarrow> bool" where
  "hashable (PList _) = False"
| "hashable (PDict _) = False"
| "hashable (PTuple xs) = (\<forall>x \<in> set xs. hashable x)"
| "hashable _ = True"

definition in_names :: "pyval \<Rightarrow> pystr list \<Rightarrow> pyerr + bool" where
  "in_names v names =
     (if hashable v then Inr (\<exists>n \<in> set names. v = PStr n) else Inl (TypeErr ''unhashable type''))"

definition fail_unless :: "bool \<Rightarrow> string \<Rightarrow> string \<Rightarrow> pyerr + unit" where
  "fail_unless b clause message = require b (ConformanceFailure clause message)"

definition dict_of :: "pyval \<Rightarrow> pydict" where
  "dict_of v = (case v of PDict d \<Rightarrow> d | _ \<Rightarrow> [])"

definition str_of :: "pyval \<Rightarrow> pystr" where
  "str_of v = (case v of PStr s \<Rightarrow> s | _ \<Rightarrow> [])"

lemma dict_str_of [simp]: "dict_of (PDict d) = d" "str_of (PStr s) = s"
  by (simp_all add: dict_of_def str_of_def)

definition validate_request :: "pyval \<Rightarrow> pyerr + pyval \<times> pystr \<times> pydict" where
  "validate_request v =
     rbind (fail_unless (is_dict v) ''closed-request'' ''request must be an object'') (\<lambda>_.
     let d = dict_of v in
     if \<not> keys_are [''jsonrpc'', ''id'', ''method'', ''params''] d then
       (if \<not> has_key ''id'' d \<and> keys_within [''jsonrpc'', ''method'', ''params''] d
        then Inl (ConformanceFailure ''notification-rejected'' ''host request omitted id'')
        else Inl (ConformanceFailure ''closed-request'' ''request envelope has missing or extra members''))
     else
       rbind (fail_unless (dget_none ''jsonrpc'' d = sv JSONRPC_VERSION) ''jsonrpc-constant'' ''jsonrpc must be 2.0'') (\<lambda>_.
       rbind (fail_unless (is_request_id (dget_none ''id'' d)) ''request-id'' ''id must be non-null string or number'') (\<lambda>_.
       let m = dget_none ''method'' d; ps = dget_none ''params'' d in
       rbind (in_names m METHODS) (\<lambda>known.
       rbind (fail_unless known ''closed-method-set'' ''unknown method'') (\<lambda>_.
       rbind (fail_unless (is_dict ps) ''closed-params'' ''params must be an object'') (\<lambda>_.
       rbind (fail_unless (case map_of REQUEST_PARAM_KEYS (str_of m) of None \<Rightarrow> False | Some ks \<Rightarrow> keys_are ks (dict_of ps))
                ''closed-params'' ''params mismatch'') (\<lambda>_.
       Inr (dget_none ''id'' d, str_of m, dict_of ps))))))))"

definition validate_response :: "pyval \<Rightarrow> pyval \<Rightarrow> pyerr + pydict" where
  "validate_response v rid =
     rbind (fail_unless (is_dict v) ''closed-response'' ''response must be an object'') (\<lambda>_.
     let d = dict_of v in
     rbind (fail_unless (dget_none ''jsonrpc'' d = sv JSONRPC_VERSION) ''jsonrpc-constant'' ''jsonrpc must be 2.0'') (\<lambda>_.
     rbind (fail_unless (py_eq (dget_none ''id'' d) rid) ''response-correlation'' ''response id does not echo request id'') (\<lambda>_.
     let has_result = has_key ''result'' d; has_error = has_key ''error'' d in
     rbind (fail_unless (has_result \<noteq> has_error) ''closed-response'' ''response needs exactly one result or error'') (\<lambda>_.
     if has_result \<and> keys_are [''jsonrpc'', ''id'', ''result''] d then Inr d
     else if has_error \<and> keys_are [''jsonrpc'', ''id'', ''error''] d then
       (let err = dget_none ''error'' d; data = dget_none ''data'' (dict_of err) in
        rbind (fail_unless (is_dict err \<and> keys_are [''code'', ''message'', ''data''] (dict_of err))
                 ''closed-error'' ''error object is not closed'') (\<lambda>_.
        rbind (fail_unless (is_dict data \<and> keys_are [''name'', ''retryable'', ''request_id''] (dict_of data))
                 ''closed-error'' ''error data is not closed'') (\<lambda>_.
        rbind (fail_unless (py_eq (dget_none ''request_id'' (dict_of data)) rid)
                 ''closed-error'' ''error.data.request_id mismatch'') (\<lambda>_.
        Inr d))))
     else Inl (ConformanceFailure ''closed-response'' ''response envelope has extra members'')))))"

definition error_code :: "pystr \<Rightarrow> pyerr + int" where
  "error_code name = (case map_of ERROR_CODES name of None \<Rightarrow> Inl KeyErr | Some c \<Rightarrow> Inr c)"

text \<open>The error envelope shared by the conformance helper and the reference adapter.\<close>

definition error_frame :: "pyval \<Rightarrow> int \<Rightarrow> pystr \<Rightarrow> pyval" where
  "error_frame rid code name =
     PDict [(sv ''jsonrpc'', sv JSONRPC_VERSION), (sv ''id'', rid),
       (sv ''error'', PDict [(sv ''code'', PInt code), (sv ''message'', PStr name),
          (sv ''data'', PDict [(sv ''name'', PStr name), (sv ''retryable'', PBool False), (sv ''request_id'', rid)])])]"

definition result_frame :: "pyval \<Rightarrow> pyval \<Rightarrow> pyval" where
  "result_frame rid res = PDict [(sv ''jsonrpc'', sv JSONRPC_VERSION), (sv ''id'', rid), (sv ''result'', res)]"

definition error_response :: "pyval \<Rightarrow> pystr \<Rightarrow> pyerr + pystr" where
  "error_response rid name =
     dumps_frame (error_frame rid (case map_of ERROR_CODES name of None \<Rightarrow> -32000 | Some c \<Rightarrow> c) name)"

section \<open>Scalars\<close>

text \<open>
  \<open>sch name v\<close> is the third-party validator of the scalar schema \<open>name\<close> applied to a value. What the code relies on is
  that it accepts strings over the characters the patterns of \<open>delivery.schema.json\<close> allow; \<open>schema_scalar\<close> is that
  pattern, used where a concrete validator is needed.
\<close>

type_synonym schema = "string \<Rightarrow> pyval \<Rightarrow> bool"

definition word_char :: "nat \<Rightarrow> bool" where
  "word_char c \<longleftrightarrow> 48 \<le> c \<and> c \<le> 57 \<or> 65 \<le> c \<and> c \<le> 90 \<or> 97 \<le> c \<and> c \<le> 122 \<or> c = 45 \<or> c = 46 \<or> c = 95"

definition token_text :: "pystr \<Rightarrow> bool" where
  "token_text s \<longleftrightarrow> list_all word_char s"

definition strings_only :: "schema \<Rightarrow> bool" where
  "strings_only sch \<longleftrightarrow> (\<forall>name v. sch name v \<longrightarrow> (\<exists>s. v = PStr s \<and> s \<noteq> [] \<and> token_text s))"

definition schema_scalar :: schema where
  "schema_scalar name v =
     (case v of
        PStr s \<Rightarrow>
          if name = ''token'' then token_text s \<and> 1 \<le> length s \<and> length s \<le> 128 \<and> (65 \<le> hd s \<and> hd s \<le> 90 \<or> 97 \<le> hd s \<and> hd s \<le> 122)
          else if name \<in> {''delivery_id'', ''attempt_id''} then
            (let p = (if name = ''delivery_id'' then lit ''delivery_'' else lit ''attempt_''); r = drop (length p) s in
             starts_with p s \<and> token_text s \<and> 46 \<notin> set r \<and> 3 \<le> length r \<and> length r \<le> 128 \<and> hd r \<noteq> 45 \<and> hd r \<noteq> 95)
          else False
      | _ \<Rightarrow> False)"

lemma schema_scalar_strings: "strings_only schema_scalar"
  by (auto simp: strings_only_def schema_scalar_def Let_def split: pyval.splits if_splits)

definition validate_request_id_scalar :: "pyval \<Rightarrow> pyerr + pyval" where
  "validate_request_id_scalar v = (if is_request_id v then Inr v else Inl (ValueErr ''invalid RequestId scalar''))"

definition validate_s2_token :: "schema \<Rightarrow> pyval \<Rightarrow> pyerr + pyval" where
  "validate_s2_token sch v = (if sch ''token'' v then Inr v else Inl (ValueErr ''invalid S2 token''))"

definition validate_delivery_scalar :: "schema \<Rightarrow> pyval \<Rightarrow> string \<Rightarrow> pyerr + pyval" where
  "validate_delivery_scalar sch v field =
     (if field \<notin> {''delivery_id'', ''attempt_id''} then Inl (ValueErr ''unsupported DeliveryV1 scalar'')
      else if sch field v then Inr v else Inl (ValueErr ''invalid DeliveryV1 scalar''))"

section \<open>The in-process peer's state and handler\<close>

record fake_adapter =
  fa_routes :: "(pystr \<times> pyval) list"
  fa_observed :: "pyval list"

definition fault_outcome :: "pyval \<Rightarrow> pystr \<Rightarrow> pyerr + adapter_outcome" where
  "fault_outcome rid name =
     rbind (error_response rid name) (\<lambda>t. Inr \<lparr>ao_response = Some t, ao_fault = Some name, ao_should_close = False\<rparr>)"

definition check_frame :: "pyval \<Rightarrow> pyerr + pyval \<times> pystr \<times> pydict" where
  "check_frame frame = rbind (classify_direction ''host'' ''adapter'' frame) (\<lambda>_. validate_request frame)"

text \<open>The peer's answer to a frame that breaks a conformance clause.\<close>

definition refusal :: "pyval option \<Rightarrow> string \<Rightarrow> pyerr + adapter_outcome" where
  "refusal frame clause =
     (let rid = (case frame of Some (PDict d) \<Rightarrow> dget_none ''id'' d | _ \<Rightarrow> PNone) in
      if clause = ''notification-rejected'' then
        Inr \<lparr>ao_response = None, ao_fault = Some (lit ''INVALID_REQUEST''), ao_should_close = True\<rparr>
      else if clause \<in> {''parse-json'', ''duplicate-member''} then fault_outcome PNone (lit ''PARSE_ERROR'')
      else if clause = ''closed-method-set'' then fault_outcome rid (lit ''METHOD_NOT_FOUND'')
      else fault_outcome (if is_request_id rid then rid else PNone) (lit ''INVALID_REQUEST''))"

definition handle :: "pystr \<Rightarrow> fake_adapter \<Rightarrow> pyerr + adapter_outcome \<times> fake_adapter" where
  "handle raw a =
     (case load_json_frame raw of
        Inl (ConformanceFailure clause _) \<Rightarrow> rbind (refusal None clause) (\<lambda>r. Inr (r, a))
      | Inl e \<Rightarrow> Inl e
      | Inr frame \<Rightarrow>
          (case check_frame frame of
             Inl (ConformanceFailure clause _) \<Rightarrow> rbind (refusal (Some frame) clause) (\<lambda>r. Inr (r, a))
           | Inl e \<Rightarrow> Inl e
           | Inr (rid, m, _) \<Rightarrow>
               let a' = a\<lparr>fa_observed := fa_observed a @ [frame]\<rparr> in
               (case map_of (fa_routes a') m of
                  None \<Rightarrow> rbind (fault_outcome rid (lit ''METHOD_NOT_FOUND'')) (\<lambda>r. Inr (r, a'))
                | Some route \<Rightarrow>
                    if is_dict route \<and> has_key ''error'' (dict_of route) then
                      (case dget_none ''error'' (dict_of route) of
                         PStr name \<Rightarrow> rbind (fault_outcome rid name) (\<lambda>r. Inr (r, a'))
                       | _ \<Rightarrow> Inl (Unmodelled ''the text of a route error that is not a string''))
                    else
                      rbind (dumps_frame (result_frame rid route)) (\<lambda>t.
                      Inr (\<lparr>ao_response = Some t, ao_fault = None, ao_should_close = False\<rparr>, a')))))"

section \<open>The clause ledger\<close>

text \<open>
  Each normative sentence of the protocol has an owner, derived from its section and its words; the ledger has one row per
  clause. Extracting the sentences (regular expressions over the Markdown) is not modelled: the occurrences are the input.
\<close>

record clause_occurrence =
  co_clause_key :: pystr
  co_text_sha256 :: pystr
  co_normalized_sentence :: pystr
  co_keyword :: pystr
  co_source_line :: int
  co_section :: pystr

record ledger_row =
  lr_clause_key :: pystr
  lr_text_sha256 :: pystr
  lr_classification :: string
  lr_owners :: "pystr set"
  lr_reason :: pystr
  lr_covered_by :: "pystr list"
  lr_claim_refs :: "(pystr \<times> pystr) list option"
  lr_source_line :: "int option"

definition J7_OWNER_VOCABULARY :: "pystr set" where
  "J7_OWNER_VOCABULARY = set (map lit [''P3a'', ''P3b'', ''P3c'', ''P3d-request'', ''P3d-lifecycle'', ''P3e-redact'',
     ''P3e-state'', ''P3f''])"

definition CLAUSE_12_REDACTION_STATE_KEYS :: "pystr list" where
  "CLAUSE_12_REDACTION_STATE_KEYS =
     [lit ''C0ea2059110f9.1'', lit ''C21eb083ed472.1'', lit ''C2bed799095ab.1'', lit ''C2bed799095ab.2'',
      lit ''C3848362e01b9.1'', lit ''C4011c2381c50.1'', lit ''C535809cab8d3.1'', lit ''C535809cab8d3.2'',
      lit ''C5d04a7d472d3.1'', lit ''C6c609c91f7f3.1'', lit ''C7089e63378d8.1'', lit ''Ca5ec43715274.1'',
      lit ''Ca5ec43715274.2'', lit ''Caf8953c7afbf.1'', lit ''Cba9ca178006c.1'', lit ''Cba9ca178006c.2'',
      lit ''Cd75d60726569.1'']"

definition mentions :: "pystr \<Rightarrow> string list \<Rightarrow> bool" where
  "mentions t words \<longleftrightarrow> (\<exists>w \<in> set words. sublist (lit w) t)"

definition owners_for_clause :: "clause_occurrence \<Rightarrow> string list" where
  "owners_for_clause c =
     (let t = co_normalized_sentence c; sec = (\<lambda>p. starts_with (lit p) (co_section c)) in
      if sec ''C01'' then
        (if mentions t [''stderr'', ''process start'', ''Standard output'', ''Standard error'', ''stdio''] then [''P3c''] else [''P3a''])
      else if sec ''C02'' then
        (if mentions t [''in-flight'', ''active request'', ''queued'', ''pool'', ''Deliveries MUST never exceed'',
              ''post-initialize requests together''] then [''P3d-request''] else [''P3a''])
      else if sec ''C03'' then [''P3d-request'']
      else if sec ''C04'' then [''P3a'']
      else if sec ''C05'' then
        (if mentions t [''execute'', ''shell'', ''spawned'', ''program directly''] then [''P3c''] else [''P3b''])
      else if sec ''C06'' \<or> sec ''C07'' \<or> sec ''C13'' then [''P3a'']
      else if sec ''C08'' then
        (if mentions t [''canonical delivery state'', ''possible acceptance'', ''StateEvidenceV1.integrity'', ''ReceiptV1'']
         then [''P3e-state''] else [''P3a''])
      else if sec ''C09'' then
        (if mentions t [''pending delivery'', ''acceptance may'', ''unresolved'', ''REQUEST_CANCELLED'']
         then [''P3d-request''] else [''P3a''])
      else if sec ''C10'' then
        (if mentions t [''restart'', ''connection loss'', ''manual replay''] then [''P3f''] else [''P3e-state''])
      else if sec ''C11'' then [''P3d-lifecycle'']
      else if sec ''C12'' then
        (if co_clause_key c \<in> set CLAUSE_12_REDACTION_STATE_KEYS then [''P3e-redact'', ''P3e-state''] else [''P3e-state''])
      else if sec ''C14'' then
        (if mentions t [''written'', ''persisted'', ''persistence'', ''quarantine'']
         then [''P3e-redact'', ''P3e-state''] else [''P3e-redact''])
      else if sec ''C15'' then [''P3d-lifecycle'']
      else if sec ''C16'' then
        (if mentions t [''executable path'', ''argv'', ''working directory'', ''environment'', ''shell'', ''manifest path'']
         then [''P3b'', ''P3c''] else [''P3a''])
      else [''P3a''])"

text \<open>\<open>str.isspace\<close>, the first word of \<open>str.split()\<close>, and \<open>str.lower()\<close> of an ASCII word.\<close>

definition py_space :: "nat \<Rightarrow> bool" where
  "py_space c \<longleftrightarrow> 9 \<le> c \<and> c \<le> 13 \<or> 28 \<le> c \<and> c \<le> 32 \<or> c \<in> set [0x85, 0xA0, 0x1680, 0x2028, 0x2029, 0x202F, 0x205F, 0x3000] \<or>
     0x2000 \<le> c \<and> c \<le> 0x200A"

definition first_word :: "pystr \<Rightarrow> pystr" where
  "first_word s = takeWhile (\<lambda>c. \<not> py_space c) (dropWhile py_space s)"

definition ascii_lower :: "pystr \<Rightarrow> pystr" where
  "ascii_lower s = map (\<lambda>c. if 65 \<le> c \<and> c \<le> 90 then c + 32 else c) s"

definition family_test :: "pystr \<Rightarrow> pyerr + pystr" where
  "family_test sec =
     (let w = first_word sec in
      if w = [] then Inl LookupErr
      else if \<exists>c \<in> set w. 128 \<le> c then Inl (Unmodelled ''the lower case of a word that is not ASCII'')
      else Inr (lit ''test_'' @ ascii_lower w @ lit ''_family''))"

fun comma_list :: "string list \<Rightarrow> pystr" where
  "comma_list [] = []"
| "comma_list (w # ws) = lit w @ concat (map (\<lambda>x. lit '', '' @ lit x) ws)"

definition ledger_row_for :: "clause_occurrence \<Rightarrow> pyerr + ledger_row" where
  "ledger_row_for c =
     (let owners = owners_for_clause c; here = (owners = [''P3a'']) in
      rbind (if here then rbind (family_test (co_section c)) (\<lambda>t. Inr [t]) else Inr []) (\<lambda>covered_by.
      Inr \<lparr>lr_clause_key = co_clause_key c, lr_text_sha256 = co_text_sha256 c,
       lr_classification = (if here then ''covered_here'' else ''deferred''),
       lr_owners = set (map lit owners),
       lr_reason = (if here then [] else lit ''owned by '' @ comma_list owners),
       lr_covered_by = covered_by,
       lr_claim_refs = (if length owners > 1
         then Some (map (\<lambda>w. (lit w, lit w @ lit '':pending-contract-claim'')) owners) else None),
       lr_source_line = Some (co_source_line c)\<rparr>))"

definition build_clause_ledger :: "clause_occurrence list \<Rightarrow> pyerr + ledger_row list" where
  "build_clause_ledger occs = rmap ledger_row_for occs"

definition check_ledger_row ::
  "(pystr \<times> clause_occurrence) list \<Rightarrow> pystr \<Rightarrow> (pystr \<times> pystr set) list \<Rightarrow> ledger_row \<Rightarrow> pyerr + unit" where
  "check_ledger_row by_key child stamped r =
     (let key = lr_clause_key r; cls = lr_classification r; owners = lr_owners r in
      rbind (fail_unless (\<exists>c. map_of by_key key = Some c \<and> lr_text_sha256 r = co_text_sha256 c) ''ledger-text-hash'' []) (\<lambda>_.
      rbind (fail_unless (cls \<in> {''covered_here'', ''deferred'', ''not_mechanically_testable''}) ''ledger-classification'' []) (\<lambda>_.
      rbind (fail_unless (owners \<noteq> {}) ''ledger-owner'' []) (\<lambda>_.
      rbind (fail_unless (owners \<subseteq> J7_OWNER_VOCABULARY) ''ledger-owner-vocabulary'' []) (\<lambda>_.
      rbind (fail_unless (cls = ''covered_here'' \<longrightarrow> lr_covered_by r \<noteq> []) ''ledger-covered-by'' []) (\<lambda>_.
      rbind (fail_unless (\<not> (cls = ''deferred'' \<and> child \<in> owners)) ''ledger-deferred-to-self'' []) (\<lambda>_.
      rbind (fail_unless (cls \<in> {''deferred'', ''not_mechanically_testable''} \<longrightarrow> lr_reason r \<noteq> []) ''ledger-reason'' []) (\<lambda>_.
      rbind (fail_unless (cls = ''not_mechanically_testable'' \<longrightarrow> sublist (lit ''testable'') (lr_reason r))
               ''ledger-actionable-untestable'' []) (\<lambda>_.
      rbind (fail_unless (card owners > 1 \<longrightarrow>
               set (map fst (case lr_claim_refs r of None \<Rightarrow> [] | Some refs \<Rightarrow> refs)) = owners)
               ''ledger-reciprocal-claims'' []) (\<lambda>_.
      fail_unless (\<forall>w \<in> owners. case map_of stamped w of None \<Rightarrow> True | Some keys \<Rightarrow> key \<in> keys) ''ledger-silent-rehome'' []))))))))))"

definition validate_clause_ledger ::
  "clause_occurrence list \<Rightarrow> ledger_row list \<Rightarrow> pystr \<Rightarrow> (pystr \<times> pystr set) list \<Rightarrow> pyerr + unit" where
  "validate_clause_ledger occs rows child stamped =
     (let by_key = fold (\<lambda>c d. AList.update (co_clause_key c) c d) occs [];
          ledger = fold (\<lambda>r d. AList.update (lr_clause_key r) r d) rows [] in
      rbind (fail_unless (set (map fst by_key) = set (map fst ledger)) ''ledger-bijection''
               ''ledger rows do not match extracted clauses'') (\<lambda>_.
      rbind (fail_unless (length ledger = length rows) ''ledger-duplicate'' ''ledger repeats a clause key'') (\<lambda>_.
      rfold (\<lambda>_ r. check_ledger_row by_key child stamped r) () (map snd ledger))))"

section \<open>Error responses\<close>

text \<open>A request id made of Unicode code points survives rendering unchanged.\<close>

definition unicode_text :: "pystr \<Rightarrow> bool" where
  "unicode_text s \<longleftrightarrow> (\<forall>c \<in> set s. c \<le> 0x10FFFF)"

definition reply_id :: "pyval \<Rightarrow> bool" where
  "reply_id v \<longleftrightarrow> v = PNone \<or> is_request_id v \<and> (\<forall>s. v = PStr s \<longrightarrow> unicode_text s)"

lemma nat_digits_length: "n < 10 ^ Suc k \<Longrightarrow> length (nat_digits n) \<le> Suc k"
proof (induction k arbitrary: n)
  case 0
  then show ?case by (simp add: nat_digits.simps [of n])
next
  case (Suc k)
  then have "n div 10 < 10 ^ Suc k" by (simp add: div_less_iff_less_mult)
  then have "length (nat_digits (n div 10)) \<le> Suc k" by (rule Suc.IH)
  then show ?case by (simp add: nat_digits.simps [of n])
qed

lemma small_int_text: "\<bar>z\<bar> < 10 ^ Suc 15 \<Longrightarrow> \<exists>t. int_text z = Inr t"
  using nat_digits_length [of "nat \<bar>z\<bar>" 15] by (simp add: int_text_def int_max_str_digits_def nat_less_iff Let_def)

lemma reply_id_cases:
  assumes "reply_id v"
  obtains "v = PNone" | n where "v = PInt n" "\<exists>t. int_text n = Inr t" | s where "v = PStr s" "str_ok True s"
proof (cases v)
  case (PInt n)
  then have "\<bar>n\<bar> \<le> 2 ^ 53 - 1" using assms by (simp add: reply_id_def is_request_id_def abs_le_iff)
  also have "(2::int) ^ 53 - 1 < 10 ^ Suc 15" by simp
  finally show ?thesis using that(2) PInt small_int_text by blast
next
  case (PStr s)
  then have "str_ok True s"
    using assms by (auto simp: reply_id_def is_request_id_def utf8_encode_def contains_surrogate_def list_ex_iff
        unicode_text_def str_ok_def split: if_splits)
  then show ?thesis using that(3) PStr by blast
qed (use assms that(1) in \<open>simp_all add: reply_id_def is_request_id_def\<close>)

lemma reply_id_json:
  assumes "reply_id v"
  shows "json_ok True v" and "json_norm v = v" and "py_eq v v" and "\<exists>t. dumps True v = Inr t" and "nesting v = 0"
  using assms by (auto elim!: reply_id_cases simp: py_eq_def dumps_def)

lemma frame_parses:
  assumes "dumps_frame v = Inr t" and "json_ok True v"
  shows "load_json_frame t = Inr (json_norm v)"
  using loads_dumps [OF assms(1) [unfolded dumps_frame_def] assms(2), of frame_opts] by (simp add: load_json_frame_def)

lemma keys_are_cong: "set (map fst d') = set (map fst d) \<Longrightarrow> keys_are fs d' = keys_are fs d"
  by (simp add: keys_are_iff)

text \<open>A string-keyed dictionary read back from its rendering: the same keys, each with its value normalised.\<close>

lemma closed_dict_parses:
  assumes "d = map (\<lambda>kv. (sv (fst kv), snd kv)) its" and "distinct (map fst its)"
  obtains d' where "json_norm (PDict d) = PDict d'" and "\<And>f. dget f d' = map_option json_norm (map_of its f)"
    and "\<And>fs. keys_are fs d' \<longleftrightarrow> list_all (\<lambda>f. f \<in> set (map fst its)) fs \<and> list_all (\<lambda>f. f \<in> set fs) (map fst its)"
proof -
  let ?kvs = "map (\<lambda>kv. (lit (fst kv), snd kv)) its"
  have "str_items d = Some ?kvs" unfolding assms(1) by (induction its) auto
  moreover have "distinct (map fst ?kvs)"
    using assms(2) by (simp add: distinct_map inj_on_def comp_def)
  ultimately obtain d' where d': "json_norm (PDict d) = PDict d'" "\<And>f. dget f d' = map_option json_norm (dget f d)"
    "set (map fst d') = set (map fst d)" "distinct (map fst d')"
    by (rule json_norm_dict) blast
  have "dget f d = map_of its f" for f unfolding assms(1) by (induction its) auto
  moreover have "keys_are fs d' \<longleftrightarrow> list_all (\<lambda>f. f \<in> set (map fst its)) fs \<and> list_all (\<lambda>f. f \<in> set fs) (map fst its)" for fs
  proof -
    have "set (map fst d) = sv ` set (map fst its)" unfolding assms(1) by force
    moreover have "inj sv" by (rule injI) simp
    ultimately show ?thesis unfolding keys_are_iff d'(3) by (auto simp: inj_image_eq_iff list_all_iff)
  qed
  ultimately show thesis using that d'(1,2) by metis
qed

lemma error_frame_ok:
  assumes "reply_id rid" and "str_ok True name" and "\<exists>n. int_text c = Inr n"
  shows "json_ok True (error_frame rid c name)" and "\<exists>t. dumps_frame (error_frame rid c name) = Inr t"
proof -
  show "json_ok True (error_frame rid c name)"
    using reply_id_json [OF assms(1)] assms(2) by (simp add: error_frame_def)
  have "dumpable rid" using reply_id_json(4) [OF assms(1)] by (simp add: dumps_total)
  then show "\<exists>t. dumps_frame (error_frame rid c name) = Inr t"
    unfolding dumps_frame_def dumps_total using assms(3) reply_id_json(5) [OF assms(1)]
    by (simp add: error_frame_def json_levels_def)
qed

lemma error_frame_valid:
  assumes "reply_id rid"
  obtains frame where "json_norm (error_frame rid c name) = PDict frame" and "validate_response (PDict frame) rid = Inr frame"
    and "dget ''code'' (dict_of (dget_none ''error'' frame)) = Some (PInt c)"
proof -
  note r = reply_id_json [OF assms]
  let ?data = "[(''name'', PStr name), (''retryable'', PBool False), (''request_id'', rid)]"
  obtain data where data: "json_norm (PDict (map (\<lambda>kv. (sv (fst kv), snd kv)) ?data)) = PDict data"
    "\<And>f. dget f data = map_option json_norm (map_of ?data f)" "\<And>fs. keys_are fs data \<longleftrightarrow> list_all (\<lambda>f. f \<in> set (map fst ?data)) fs \<and> list_all (\<lambda>f. f \<in> set fs) (map fst ?data)"
    by (rule closed_dict_parses [OF refl, of ?data]) auto
  let ?err = "[(''code'', PInt c), (''message'', PStr name), (''data'', PDict (map (\<lambda>kv. (sv (fst kv), snd kv)) ?data))]"
  obtain err where err: "json_norm (PDict (map (\<lambda>kv. (sv (fst kv), snd kv)) ?err)) = PDict err"
    "\<And>f. dget f err = map_option json_norm (map_of ?err f)" "\<And>fs. keys_are fs err \<longleftrightarrow> list_all (\<lambda>f. f \<in> set (map fst ?err)) fs \<and> list_all (\<lambda>f. f \<in> set fs) (map fst ?err)"
    by (rule closed_dict_parses [OF refl, of ?err]) auto
  let ?top = "[(''jsonrpc'', sv JSONRPC_VERSION), (''id'', rid), (''error'', PDict (map (\<lambda>kv. (sv (fst kv), snd kv)) ?err))]"
  obtain top where top: "json_norm (PDict (map (\<lambda>kv. (sv (fst kv), snd kv)) ?top)) = PDict top"
    "\<And>f. dget f top = map_option json_norm (map_of ?top f)" "\<And>fs. keys_are fs top \<longleftrightarrow> list_all (\<lambda>f. f \<in> set (map fst ?top)) fs \<and> list_all (\<lambda>f. f \<in> set fs) (map fst ?top)"
    by (rule closed_dict_parses [OF refl, of ?top]) auto
  show thesis
  proof (rule that)
    show "json_norm (error_frame rid c name) = PDict top"
      using top(1) by (simp add: error_frame_def del: json_norm.simps)
    have e: "dget ''error'' top = Some (PDict err)" "dget ''data'' err = Some (PDict data)"
      using err(1) data(1) by (simp_all add: top(2) err(2) del: json_norm.simps)
    have k: "\<not> keys_are [''jsonrpc'', ''id'', ''result''] top" "keys_are [''jsonrpc'', ''id'', ''error''] top"
      "keys_are [''code'', ''message'', ''data''] err" "keys_are [''name'', ''retryable'', ''request_id''] data"
      unfolding top(3) err(3) data(3) by simp_all
    have g: "dget ''jsonrpc'' top = Some (sv JSONRPC_VERSION)" "dget ''id'' top = Some rid" "dget ''result'' top = None"
      "dget ''code'' err = Some (PInt c)" "dget ''request_id'' data = Some rid"
      by (simp_all add: top(2) err(2) data(2) r(2) del: json_norm.simps(3))
    show "dget ''code'' (dict_of (dget_none ''error'' top)) = Some (PInt c)"
      using e g by (simp add: dget_none_def dict_of_def)
    show "validate_response (PDict top) rid = Inr top"
      using e g k r(3)
      by (simp add: validate_response_def dict_of_def dget_none_def has_key_def fail_unless_def Let_def)
  qed
qed

lemma error_codes_text: "\<exists>n. int_text (case map_of ERROR_CODES name of None \<Rightarrow> -32000 | Some c \<Rightarrow> c) = Inr n"
proof (rule small_int_text)
  have "\<forall>kc \<in> set ERROR_CODES. \<bar>snd kc\<bar> < 10 ^ Suc 15" by (simp add: ERROR_CODES_def)
  then show "\<bar>case map_of ERROR_CODES name of None \<Rightarrow> -32000 | Some c \<Rightarrow> c\<bar> < 10 ^ Suc 15"
    by (auto split: option.splits dest!: map_of_SomeD)
qed

lemma error_response_parses:
  assumes "reply_id rid" and "str_ok True name"
  shows "\<exists>t frame. error_response rid name = Inr t \<and> load_json_frame t = Inr (PDict frame) \<and>
    validate_response (PDict frame) rid = Inr frame \<and>
    dget ''code'' (dict_of (dget_none ''error'' frame)) =
      Some (PInt (case map_of ERROR_CODES name of None \<Rightarrow> -32000 | Some c \<Rightarrow> c))"
proof -
  let ?c = "case map_of ERROR_CODES name of None \<Rightarrow> -32000 | Some c \<Rightarrow> c"
  note ok = error_frame_ok [OF assms error_codes_text [of name]]
  obtain t where t: "dumps_frame (error_frame rid ?c name) = Inr t" using ok(2) by blast
  obtain frame where f: "json_norm (error_frame rid ?c name) = PDict frame" "validate_response (PDict frame) rid = Inr frame"
    "dget ''code'' (dict_of (dget_none ''error'' frame)) = Some (PInt ?c)"
    by (rule error_frame_valid [OF assms(1)])
  have "load_json_frame t = Inr (PDict frame)" using frame_parses [OF t ok(1)] f(1) by simp
  then show ?thesis using t f(2,3) by (auto simp: error_response_def)
qed

text \<open>
  C5. Every error response round-trips: for a request id the protocol admits (or none), the rendered frame loads again, passes
  the response check against that id, and carries the catalogued code of its name.
\<close>

theorem error_response_valid:
  assumes "reply_id rid" and "str_ok True name"
  shows "\<exists>t frame. error_response rid name = Inr t \<and> load_json_frame t = Inr (PDict frame) \<and>
    validate_response (PDict frame) rid = Inr frame \<and>
    dget ''code'' (dict_of (dget_none ''error'' frame)) =
      Some (PInt (case map_of ERROR_CODES name of None \<Rightarrow> -32000 | Some c \<Rightarrow> c))"
  by (rule error_response_parses [OF assms])

theorem error_response_valid_witness:
  "\<exists>t frame. error_response (PInt 7) (lit ''INVALID_PARAMS'') = Inr t \<and> load_json_frame t = Inr (PDict frame) \<and>
    dget ''code'' (dict_of (dget_none ''error'' frame)) = Some (PInt (-32602))"
proof -
  have "reply_id (PInt 7)" by (simp add: reply_id_def is_request_id_def)
  moreover have "map_of ERROR_CODES (lit ''INVALID_PARAMS'') = Some (-32602)" by (simp add: ERROR_CODES_def)
  ultimately show ?thesis
    using error_response_valid [of "PInt 7" "lit ''INVALID_PARAMS''"] str_ok_lit by force
qed

section \<open>Requests and responses\<close>

lemma fail_unless_iff [simp]:
  "fail_unless b c m = Inr u \<longleftrightarrow> b"
  "fail_unless b c m = Inl e \<longleftrightarrow> \<not> b \<and> e = ConformanceFailure c m"
  by (auto simp: fail_unless_def)

lemma validate_request_cases:
  assumes "validate_request v = Inr (rid, m, ps)"
  obtains d where "v = PDict d" "keys_are [''jsonrpc'', ''id'', ''method'', ''params''] d" "dget_none ''id'' d = rid"
    "is_request_id rid" "m \<in> set METHODS" "dget ''method'' d = Some (PStr m)" "dget ''params'' d = Some (PDict ps)"
    "\<exists>ks. map_of REQUEST_PARAM_KEYS m = Some ks \<and> keys_are ks ps"
proof -
  obtain d where d: "v = PDict d" "keys_are [''jsonrpc'', ''id'', ''method'', ''params''] d"
    using assms by (cases v) (auto simp: validate_request_def rbind_Inr_iff dict_of_def Let_def split: if_splits)
  note k = keys_are_dget [OF d(2)]
  obtain vm vp where "dget ''method'' d = Some vm" "dget ''params'' d = Some vp"
    using k [of "''method''"] k [of "''params''"] by auto
  moreover have "is_request_id (dget_none ''id'' d)" "in_names (dget_none ''method'' d) METHODS = Inr True"
    "is_dict (dget_none ''params'' d)" "rid = dget_none ''id'' d" "m = str_of (dget_none ''method'' d)"
    "ps = dict_of (dget_none ''params'' d)"
    "case map_of REQUEST_PARAM_KEYS m of None \<Rightarrow> False | Some ks \<Rightarrow> keys_are ks ps"
    using assms d by (auto simp: validate_request_def rbind_Inr_iff Let_def)
  moreover have "\<exists>n \<in> set METHODS. vm = PStr n" if "in_names vm METHODS = Inr True"
    using that by (auto simp: in_names_def split: if_splits)
  ultimately show thesis
    using that [OF d] by (cases vp) (auto simp: dget_none_def str_of_def dict_of_def split: option.splits)
qed

text \<open>
  Requests and responses never mix: a frame that passes the request check is a request in both directions (served from host to
  adapter, quarantined the other way round), a frame that passes the response check is a response in both
  directions (accepted from adapter to host, closing the connection the other way round), and no frame passes both.
\<close>

theorem request_response_directions:
  shows "(validate_request v = Inr (rid, m, ps) \<longrightarrow>
      (\<exists>a b. classify_direction ''host'' ''adapter'' v = Inr a \<and> do_direction_valid a \<and> do_send_response a \<and>
         classify_direction ''adapter'' ''host'' v = Inr b \<and> do_should_close b \<and> do_should_quarantine b) \<and>
      validate_response v rid' \<noteq> Inr d) \<and>
    (validate_response v rid' = Inr d \<longrightarrow>
      (\<exists>a b. classify_direction ''adapter'' ''host'' v = Inr a \<and> do_direction_valid a \<and>
         classify_direction ''host'' ''adapter'' v = Inr b \<and> do_should_close b \<and> \<not> do_should_quarantine b))"
proof (intro conjI impI)
  assume "validate_request v = Inr (rid, m, ps)"
  then obtain e where e: "v = PDict e" "keys_are [''jsonrpc'', ''id'', ''method'', ''params''] e"
    by (rule validate_request_cases)
  note h = keys_are_has_key [OF e(2)]
  have n: "has_key ''method'' e" "\<not> has_key ''result'' e" "\<not> has_key ''error'' e" by (simp_all add: h)
  show "\<exists>a b. classify_direction ''host'' ''adapter'' v = Inr a \<and> do_direction_valid a \<and> do_send_response a \<and>
         classify_direction ''adapter'' ''host'' v = Inr b \<and> do_should_close b \<and> do_should_quarantine b"
    using n by (simp add: e(1) classify_direction_def is_response_form_def)
  show "validate_response v rid' \<noteq> Inr d"
    using n by (simp add: e(1) validate_response_def rbind_Inr_iff dict_of_def Let_def)
next
  assume "validate_response v rid' = Inr d"
  then obtain e where "v = PDict e" "has_key ''result'' e \<or> has_key ''error'' e"
    by (cases v) (auto simp: validate_response_def rbind_Inr_iff dict_of_def Let_def)
  then show "\<exists>a b. classify_direction ''adapter'' ''host'' v = Inr a \<and> do_direction_valid a \<and>
         classify_direction ''host'' ''adapter'' v = Inr b \<and> do_should_close b \<and> \<not> do_should_quarantine b"
    by (simp add: classify_direction_def is_response_form_def)
qed

definition demo_health_request :: pyval where
  "demo_health_request = PDict [(sv ''jsonrpc'', sv ''2.0''), (sv ''id'', PInt 1), (sv ''method'', PStr METHOD_HEALTH), (sv ''params'', PDict [])]"

theorem request_response_directions_witness:
  "\<exists>a. classify_direction ''host'' ''adapter'' demo_health_request = Inr a \<and> do_direction_valid a \<and>
     validate_response demo_health_request (PInt 1) \<noteq> Inr []"
proof -
  have "validate_request demo_health_request = Inr (PInt 1, METHOD_HEALTH, [])"
    by (simp add: demo_health_request_def validate_request_def keys_are_def keys_within_def has_key_def dget_none_def
        is_request_id_def in_names_def METHODS_def REQUEST_PARAM_KEYS_def fail_unless_def)
  then show ?thesis
    using request_response_directions [of demo_health_request "PInt 1" METHOD_HEALTH "[]" "PInt 1" "[]"] by blast
qed

section \<open>The in-process peer\<close>

fun is_conformance :: "pyerr \<Rightarrow> bool" where
  "is_conformance (ConformanceFailure _ _) = True"
| "is_conformance _ = False"

lemma encode_no_conformance: "never is_conformance (encode l a v)"
proof (induction l a v rule: encode.induct)
  case (3 l a z)
  then show ?case by (simp add: int_text_def Let_def)
next
  case (9 l a d)
  then show ?case by (cases "str_items d") (auto intro!: never_intros)
qed (auto intro!: never_intros)

lemma dumps_no_conformance: "never is_conformance (dumps a v)"
  unfolding dumps_def by (rule encode_no_conformance)

lemma refusal_no_conformance [never_intros]: "never is_conformance (refusal f c)"
  unfolding refusal_def fault_outcome_def error_response_def dumps_frame_def Let_def
  by (intro never_intros dumps_no_conformance) simp_all

lemma fault_no_conformance [never_intros]: "never is_conformance (fault_outcome r n)"
  unfolding fault_outcome_def error_response_def dumps_frame_def
  by (intro never_intros dumps_no_conformance) simp_all

lemma peer_no_conformance: "never is_conformance (handle raw a)"
proof (cases "load_json_frame raw")
  case (Inl e)
  then show ?thesis by (cases e) (auto simp: handle_def intro!: never_intros)
next
  case (Inr frame)
  show ?thesis
  proof (cases "check_frame frame")
    case (Inl e)
    then show ?thesis using Inr by (cases e) (auto simp: handle_def intro!: never_intros)
  next
    case f: (Inr req)
    obtain rid m ps where "req = (rid, m, ps)" by (cases req)
    then show ?thesis using Inr f
      by (auto simp: handle_def Let_def dumps_frame_def split: option.splits pyval.splits
          intro!: never_intros dumps_no_conformance)
  qed
qed

lemma fault_outcome_shape:
  "fault_outcome i n = Inr x \<Longrightarrow> ao_fault x = Some n \<and> \<not> ao_should_close x \<and> ao_response x \<noteq> None"
  by (auto simp: fault_outcome_def rbind_Inr_iff)

lemma refusal_shape:
  "refusal f c = Inr x \<Longrightarrow> ao_fault x \<noteq> None \<and> (ao_should_close x \<longleftrightarrow> ao_response x = None) \<and>
     (ao_should_close x \<longleftrightarrow> c = ''notification-rejected'')"
  by (auto simp: refusal_def Let_def split: if_splits dest!: fault_outcome_shape)

text \<open>What the peer accepts, and the conformance clause on which it refuses a frame: the first of its three checks that fails.\<close>

definition frame_accepted :: "pystr \<Rightarrow> pyval \<Rightarrow> pyval \<Rightarrow> pystr \<Rightarrow> bool" where
  "frame_accepted raw frame rid m \<longleftrightarrow>
     load_json_frame raw = Inr frame \<and> (\<exists>out. classify_direction ''host'' ''adapter'' frame = Inr out) \<and>
     (\<exists>ps. validate_request frame = Inr (rid, m, ps))"

definition frame_refused :: "pystr \<Rightarrow> string \<Rightarrow> bool" where
  "frame_refused raw clause \<longleftrightarrow>
     (\<exists>msg. load_json_frame raw = Inl (ConformanceFailure clause msg) \<or>
       (\<exists>frame. load_json_frame raw = Inr frame \<and>
         (classify_direction ''host'' ''adapter'' frame = Inl (ConformanceFailure clause msg) \<or>
          (\<exists>out. classify_direction ''host'' ''adapter'' frame = Inr out) \<and>
            validate_request frame = Inl (ConformanceFailure clause msg))))"

lemma check_frame_cases:
  "check_frame frame = Inr (rid, m, ps) \<Longrightarrow> load_json_frame raw = Inr frame \<Longrightarrow> frame_accepted raw frame rid m"
  "check_frame frame = Inl (ConformanceFailure c msg) \<Longrightarrow> load_json_frame raw = Inr frame \<Longrightarrow> frame_refused raw c"
  by (cases "classify_direction ''host'' ''adapter'' frame";
      force simp: check_frame_def frame_accepted_def frame_refused_def)+

lemma peer_outcome:
  assumes h: "handle raw a = Inr (r, a')"
  shows "fa_routes a' = fa_routes a \<and>
    ((\<exists>clause. frame_refused raw clause \<and> a' = a \<and> ao_fault r \<noteq> None \<and> (ao_should_close r \<longleftrightarrow> ao_response r = None) \<and>
        (ao_should_close r \<longleftrightarrow> clause = ''notification-rejected'')) \<or>
     (\<exists>frame rid m. frame_accepted raw frame rid m \<and> fa_observed a' = fa_observed a @ [frame] \<and>
        \<not> ao_should_close r \<and> ao_response r \<noteq> None \<and>
        (map_of (fa_routes a) m = None \<longrightarrow> ao_fault r = Some (lit ''METHOD_NOT_FOUND''))))"
proof (cases "load_json_frame raw")
  case (Inl e)
  then obtain c msg where e: "e = ConformanceFailure c msg" using h by (cases e) (auto simp: handle_def)
  then have "frame_refused raw c" using Inl by (auto simp: frame_refused_def)
  then show ?thesis using h Inl e by (auto simp: handle_def rbind_Inr_iff dest!: refusal_shape)
next
  case (Inr frame)
  show ?thesis
  proof (cases "check_frame frame")
    case (Inl e)
    then obtain c msg where e: "e = ConformanceFailure c msg" using h Inr by (cases e) (auto simp: handle_def)
    then have "frame_refused raw c" using check_frame_cases(2) Inl Inr by blast
    then show ?thesis using h Inl Inr e by (auto simp: handle_def rbind_Inr_iff dest!: refusal_shape)
  next
    case f: (Inr req)
    obtain rid m ps where q: "req = (rid, m, ps)" by (cases req)
    have "frame_accepted raw frame rid m" using check_frame_cases(1) f q Inr by blast
    moreover have "fa_routes a' = fa_routes a \<and> fa_observed a' = fa_observed a @ [frame] \<and>
        \<not> ao_should_close r \<and> ao_response r \<noteq> None \<and>
        (map_of (fa_routes a) m = None \<longrightarrow> ao_fault r = Some (lit ''METHOD_NOT_FOUND''))"
      using h Inr f q
      by (auto simp: handle_def Let_def rbind_Inr_iff split: option.splits pyval.splits if_splits
          dest!: fault_outcome_shape)
    ultimately show ?thesis
      by (intro conjI disjI2 exI [of _ frame] exI [of _ rid] exI [of _ m]) simp_all
  qed
qed

lemma unhashable_method_escapes:
  assumes "load_json_frame raw = Inr (PDict d)" and k: "keys_are [''jsonrpc'', ''id'', ''method'', ''params''] d"
    and "dget_none ''jsonrpc'' d = sv JSONRPC_VERSION" and "is_request_id (dget_none ''id'' d)"
    and "\<not> hashable (dget_none ''method'' d)"
  shows "handle raw a = Inl (TypeErr ''unhashable type'')"
proof -
  have "has_key ''method'' d" "\<not> has_key ''result'' d" "\<not> has_key ''error'' d"
    by (simp_all add: keys_are_has_key [OF k])
  then have "check_frame (PDict d) = Inl (TypeErr ''unhashable type'')"
    using assms(2-) by (simp add: check_frame_def classify_direction_def is_response_form_def validate_request_def
        fail_unless_def in_names_def)
  then show ?thesis using assms(1) by (simp add: handle_def)
qed

text \<open>
  C6. The in-process peer records exactly the frames that pass its checks and never lets a conformance failure escape. An
  outcome is one of two: one of the three checks (loading, direction, request) failed with a clause, and then it is a fault, the
  peer is unchanged, and it closes without a response exactly for a notification; or all three passed, and then the frame, also one whose
  method has no route, is appended to the observations and answered. Other errors do escape, two on frames an adapter may send: the \<open>RecursionError\<close> of
  loading, and a \<open>TypeError\<close> when the method of an otherwise well-formed request is a list or an object, which has no hash to look up.
\<close>

theorem peer_contract:
  shows "\<not> (\<exists>c msg. handle raw a = Inl (ConformanceFailure c msg)) \<and>
    (handle raw a = Inr (r, a') \<longrightarrow> fa_routes a' = fa_routes a \<and>
      ((\<exists>clause. frame_refused raw clause \<and> a' = a \<and> ao_fault r \<noteq> None \<and>
          (ao_should_close r \<longleftrightarrow> ao_response r = None) \<and> (ao_should_close r \<longleftrightarrow> clause = ''notification-rejected'')) \<or>
       (\<exists>frame rid m. frame_accepted raw frame rid m \<and> fa_observed a' = fa_observed a @ [frame] \<and>
          \<not> ao_should_close r \<and> ao_response r \<noteq> None \<and>
          (map_of (fa_routes a) m = None \<longrightarrow> ao_fault r = Some (lit ''METHOD_NOT_FOUND''))))) \<and>
    (load_json_frame raw = Inl RecursionErr \<longrightarrow> handle raw a = Inl RecursionErr) \<and>
    (load_json_frame raw = Inr (PDict d) \<and> keys_are [''jsonrpc'', ''id'', ''method'', ''params''] d \<and>
       dget_none ''jsonrpc'' d = sv JSONRPC_VERSION \<and> is_request_id (dget_none ''id'' d) \<and>
       \<not> hashable (dget_none ''method'' d) \<longrightarrow> handle raw a = Inl (TypeErr ''unhashable type''))"
  (is "_ \<and> (_ \<longrightarrow> ?out) \<and> _ \<and> _")
proof (intro conjI)
  show "\<not> (\<exists>c msg. handle raw a = Inl (ConformanceFailure c msg))"
    using neverD [OF peer_no_conformance [of raw a]] by fastforce
  show "handle raw a = Inr (r, a') \<longrightarrow> ?out" using peer_outcome by blast
  show "load_json_frame raw = Inl RecursionErr \<longrightarrow> handle raw a = Inl RecursionErr" by (simp add: handle_def)
qed (use unhashable_method_escapes in blast)

text \<open>The frame the escape needs: a health request whose method is an empty list.\<close>

definition demo_bad_frame :: pydict where
  "demo_bad_frame = [(sv ''id'', PInt 1), (sv ''jsonrpc'', sv ''2.0''), (sv ''method'', PList []), (sv ''params'', PDict [])]"

theorem peer_contract_witness:
  "\<exists>raw. load_json_frame raw = Inr (json_norm (PDict demo_bad_frame)) \<and>
     handle raw \<lparr>fa_routes = [], fa_observed = []\<rparr> = Inl (TypeErr ''unhashable type'')"
proof -
  let ?its = "[(''id'', PInt 1), (''jsonrpc'', sv ''2.0''), (''method'', PList []), (''params'', PDict [])]"
  obtain d where d: "json_norm (PDict demo_bad_frame) = PDict d" "\<And>f. dget f d = map_option json_norm (map_of ?its f)"
    "\<And>fs. keys_are fs d \<longleftrightarrow> list_all (\<lambda>f. f \<in> set (map fst ?its)) fs \<and> list_all (\<lambda>f. f \<in> set fs) (map fst ?its)"
    by (rule closed_dict_parses [of demo_bad_frame ?its]) (auto simp: demo_bad_frame_def)
  have "dumpable (PDict demo_bad_frame)" "nesting (PDict demo_bad_frame) \<le> json_levels" and ok: "json_ok True (PDict demo_bad_frame)"
    using small_int_text [of 1] by (simp_all add: demo_bad_frame_def json_levels_def)
  then obtain raw where raw: "dumps_frame (PDict demo_bad_frame) = Inr raw"
    using dumps_total [of True "PDict demo_bad_frame"] by (auto simp: dumps_frame_def)
  have l: "load_json_frame raw = Inr (PDict d)" using frame_parses [OF raw ok] d(1) by simp
  moreover have "keys_are [''jsonrpc'', ''id'', ''method'', ''params''] d" unfolding d(3) by simp
  moreover have "dget_none ''jsonrpc'' d = sv ''2.0''" "dget_none ''id'' d = PInt 1" "dget_none ''method'' d = PList []"
    by (simp_all add: dget_none_def d(2))
  ultimately have "handle raw \<lparr>fa_routes = [], fa_observed = []\<rparr> = Inl (TypeErr ''unhashable type'')"
    using peer_contract [of raw "\<lparr>fa_routes = [], fa_observed = []\<rparr>" undefined undefined d]
    by (simp add: is_request_id_def)
  then show ?thesis using l d(1) by auto
qed

section \<open>The generated ledger is valid\<close>

lemma fold_index:
  assumes "distinct (map k xs)"
  shows "fold (\<lambda>x d. AList.update (k x) x d) xs [] = map (\<lambda>x. (k x, x)) xs"
proof -
  have "fold (\<lambda>x d. AList.update (k x) x d) xs d = d @ map (\<lambda>x. (k x, x)) xs"
    if "distinct (map k xs)" "set (map k xs) \<inter> set (map fst d) = {}" for d
    using that
  proof (induction xs arbitrary: d)
    case (Cons x xs)
    then have "AList.update (k x) x d = d @ [(k x, x)]" by (intro update_new_key) auto
    then show ?case using Cons by (auto simp: Cons.IH)
  qed simp
  from this [OF assms, of "[]"] show ?thesis by simp
qed

lemma rfold_check: "(\<And>x. x \<in> set xs \<Longrightarrow> f x = Inr ()) \<Longrightarrow> rfold (\<lambda>_. f) () xs = Inr ()"
  by (induction xs) auto

definition owner_lists :: "string list list" where
  "owner_lists = [[''P3a''], [''P3b''], [''P3c''], [''P3f''], [''P3d-request''], [''P3d-lifecycle''], [''P3e-state''],
     [''P3e-redact''], [''P3e-redact'', ''P3e-state''], [''P3b'', ''P3c'']]"

lemma owners_known: "owners_for_clause c \<in> set owner_lists"
  unfolding owners_for_clause_def Let_def owner_lists_def by simp

lemma owners_facts:
  "\<forall>ws \<in> set owner_lists. ws \<noteq> [] \<and> set (map lit ws) \<subseteq> J7_OWNER_VOCABULARY \<and>
     (ws \<noteq> [''P3a''] \<longrightarrow> lit ''P3a'' \<notin> set (map lit ws)) \<and> (length ws \<le> 1 \<longrightarrow> card (set (map lit ws)) \<le> 1)"
  unfolding owner_lists_def J7_OWNER_VOCABULARY_def by simp

lemma built_row:
  assumes "ledger_row_for c = Inr r" and "map_of by_key (co_clause_key c) = Some c"
  shows "lr_clause_key r = co_clause_key c" and "check_ledger_row by_key (lit ''P3a'') [] r = Inr ()"
proof -
  let ?ws = "owners_for_clause c"
  have w: "?ws \<noteq> []" "set (map lit ?ws) \<subseteq> J7_OWNER_VOCABULARY" "?ws \<noteq> [''P3a''] \<longrightarrow> lit ''P3a'' \<notin> set (map lit ?ws)"
    "length ?ws \<le> 1 \<longrightarrow> card (set (map lit ?ws)) \<le> 1"
    using owners_facts owners_known [of c] by blast+
  have r: "lr_clause_key r = co_clause_key c" "lr_text_sha256 r = co_text_sha256 c" "lr_owners r = set (map lit ?ws)"
    "lr_classification r = (if ?ws = [''P3a''] then ''covered_here'' else ''deferred'')"
    "?ws = [''P3a''] \<longrightarrow> lr_covered_by r \<noteq> []" "?ws \<noteq> [''P3a''] \<longrightarrow> lr_reason r \<noteq> []"
    "length ?ws > 1 \<longrightarrow> lr_claim_refs r = Some (map (\<lambda>w. (lit w, lit w @ lit '':pending-contract-claim'')) ?ws)"
    using assms(1) by (auto simp: ledger_row_for_def Let_def rbind_Inr_iff split: if_splits)
  show "lr_clause_key r = co_clause_key c" by (rule r(1))
  have refs: "card (lr_owners r) > 1 \<longrightarrow>
      set (map fst (case lr_claim_refs r of None \<Rightarrow> [] | Some refs \<Rightarrow> refs)) = lr_owners r"
    using w(4) r(3,7) by (cases "length ?ws > 1") (auto simp: comp_def)
  show "check_ledger_row by_key (lit ''P3a'') [] r = Inr ()"
    unfolding check_ledger_row_def Let_def using w(1-3) r refs assms(2)
    by (cases "?ws = [''P3a'']") (simp_all add: rbind_Inr_iff)
qed

text \<open>
  The ledger the code builds passes its own validation: for clauses with distinct keys, the rows built from them are a
  bijection with the clauses, every owner is in the vocabulary, covered rows name their test, deferred rows give a
  reason and are not deferred to the child that implements this seam, and jointly owned rows name both claims.
\<close>

theorem built_ledger_validates:
  assumes "build_clause_ledger occs = Inr rows" and "distinct (map co_clause_key occs)"
  shows "validate_clause_ledger occs rows (lit ''P3a'') [] = Inr ()"
proof -
  have m: "map ledger_row_for occs = map Inr rows"
    using assms(1) unfolding build_clause_ledger_def by (rule rmap_Inr_map)
  let ?idx = "map (\<lambda>c. (co_clause_key c, c)) occs"
  have idx: "fold (\<lambda>c d. AList.update (co_clause_key c) c d) occs [] = ?idx" by (rule fold_index [OF assms(2)])
  have look: "map_of ?idx (co_clause_key c) = Some c" if "c \<in> set occs" for c
    using that assms(2) by (intro map_of_is_SomeI) (auto simp: comp_def)
  have row: "\<exists>c \<in> set occs. ledger_row_for c = Inr r" if "r \<in> set rows" for r
    using that rmap_Inr_mem_back [OF assms(1) [unfolded build_clause_ledger_def]] by blast
  have "map lr_clause_key rows = map co_clause_key occs"
  proof (rule nth_equalityI)
    show "length (map lr_clause_key rows) = length (map co_clause_key occs)"
      using arg_cong [OF m, of length] by simp
    fix i assume "i < length (map lr_clause_key rows)"
    then show "map lr_clause_key rows ! i = map co_clause_key occs ! i"
      using arg_cong [OF m, of "\<lambda>xs. xs ! i"] arg_cong [OF m, of length] built_row(1) [OF _ look] by simp
  qed
  then have keys: "map lr_clause_key rows = map co_clause_key occs" .
  then have led: "fold (\<lambda>r d. AList.update (lr_clause_key r) r d) rows [] = map (\<lambda>r. (lr_clause_key r, r)) rows"
    using assms(2) by (intro fold_index) simp
  have "check_ledger_row ?idx (lit ''P3a'') [] r = Inr ()" if "r \<in> set rows" for r
    using row [OF that] built_row(2) [OF _ look] by blast
  then have "rfold (\<lambda>_. check_ledger_row ?idx (lit ''P3a'') []) () rows = Inr ()" by (rule rfold_check)
  then show ?thesis
    using arg_cong [OF keys, of set] by (simp add: validate_clause_ledger_def idx led Let_def comp_def rbind_Inr_iff image_image)
qed

definition demo_clause :: clause_occurrence where
  "demo_clause = \<lparr>co_clause_key = lit ''C3848362e01b9.1'', co_text_sha256 = lit ''ab'', co_normalized_sentence = lit ''Records MUST be redacted.'',
     co_keyword = lit ''MUST'', co_source_line = 4, co_section = lit ''C12 Quarantine''\<rparr>"

theorem built_ledger_validates_witness:
  "\<exists>rows. build_clause_ledger [demo_clause] = Inr rows \<and> validate_clause_ledger [demo_clause] rows (lit ''P3a'') [] = Inr () \<and>
     map lr_owners rows = [{lit ''P3e-redact'', lit ''P3e-state''}]"
proof -
  have "owners_for_clause demo_clause = [''P3e-redact'', ''P3e-state'']"
    by (simp add: owners_for_clause_def demo_clause_def starts_with_def lit_def CLAUSE_12_REDACTION_STATE_KEYS_def)
  then obtain rows where rows: "build_clause_ledger [demo_clause] = Inr rows"
    "map lr_owners rows = [{lit ''P3e-redact'', lit ''P3e-state''}]"
    by (simp add: build_clause_ledger_def ledger_row_for_def)
  then show ?thesis using built_ledger_validates [OF rows(1)] by auto
qed

end
