(* ===== verification/Sha256.thy ===== *)
theory Sha256
  imports PyValue "HOL-Library.Word"
begin

text \<open>
  \<open>hashlib.sha256\<close> over a list of bytes, on 32-bit words that wrap, and the hexadecimal text of the digest.
\<close>

unbundle bit_operations_syntax

type_synonym w32 = "32 word"

definition round_constants :: "w32 list" where
  "round_constants =
     [1116352408, 1899447441, 3049323471, 3921009573, 961987163, 1508970993, 2453635748, 2870763221,
      3624381080, 310598401, 607225278, 1426881987, 1925078388, 2162078206, 2614888103, 3248222580,
      3835390401, 4022224774, 264347078, 604807628, 770255983, 1249150122, 1555081692, 1996064986,
      2554220882, 2821834349, 2952996808, 3210313671, 3336571891, 3584528711, 113926993, 338241895,
      666307205, 773529912, 1294757372, 1396182291, 1695183700, 1986661051, 2177026350, 2456956037,
      2730485921, 2820302411, 3259730800, 3345764771, 3516065817, 3600352804, 4094571909, 275423344,
      430227734, 506948616, 659060556, 883997877, 958139571, 1322822218, 1537002063, 1747873779,
      1955562222, 2024104815, 2227730452, 2361852424, 2428436474, 2756734187, 3204031479, 3329325298]"

definition initial_hash :: "w32 list" where
  "initial_hash =
     [1779033703, 3144134277, 1013904242, 2773480762, 1359893119, 2600822924, 528734635, 1541459225]"

definition rotr :: "nat \<Rightarrow> w32 \<Rightarrow> w32" where
  "rotr n x = drop_bit n x OR push_bit (32 - n) x"

definition small_sigma0 :: "w32 \<Rightarrow> w32" where "small_sigma0 x = rotr 7 x XOR rotr 18 x XOR drop_bit 3 x"
definition small_sigma1 :: "w32 \<Rightarrow> w32" where "small_sigma1 x = rotr 17 x XOR rotr 19 x XOR drop_bit 10 x"
definition big_sigma0 :: "w32 \<Rightarrow> w32" where "big_sigma0 x = rotr 2 x XOR rotr 13 x XOR rotr 22 x"
definition big_sigma1 :: "w32 \<Rightarrow> w32" where "big_sigma1 x = rotr 6 x XOR rotr 11 x XOR rotr 25 x"
definition select_bits :: "w32 \<Rightarrow> w32 \<Rightarrow> w32 \<Rightarrow> w32" where "select_bits x y z = (x AND y) XOR (NOT x AND z)"
definition majority :: "w32 \<Rightarrow> w32 \<Rightarrow> w32 \<Rightarrow> w32" where "majority x y z = (x AND y) XOR (x AND z) XOR (y AND z)"

text \<open>The message schedule, newest word first.\<close>

fun extend_schedule :: "nat \<Rightarrow> w32 list \<Rightarrow> w32 list" where
  "extend_schedule 0 ws = ws"
| "extend_schedule (Suc n) ws =
     extend_schedule n ((small_sigma1 (ws ! 1) + ws ! 6 + small_sigma0 (ws ! 14) + ws ! 15) # ws)"

fun sha_round :: "w32 list \<Rightarrow> w32 \<times> w32 \<Rightarrow> w32 list" where
  "sha_round [a, b, c, d, e, f, g, h] (k, w) =
     (let t1 = h + big_sigma1 e + select_bits e f g + k + w; t2 = big_sigma0 a + majority a b c
      in [t1 + t2, a, b, c, d + t1, e, f, g])"
| "sha_round s _ = s"

fun be_word :: "nat list \<Rightarrow> w32" where
  "be_word bs = word_of_nat (foldl (\<lambda>acc b. 256 * acc + b) 0 bs)"

fun chunks :: "nat \<Rightarrow> 'a list \<Rightarrow> 'a list list" where
  "chunks n [] = []"
| "chunks n (x # xs) = take (Suc n) (x # xs) # chunks n (drop n xs)"

definition compress :: "w32 list \<Rightarrow> nat list \<Rightarrow> w32 list" where
  "compress h block =
     (let ws = rev (extend_schedule 48 (rev (map be_word (chunks 3 block))))
      in map2 (+) h (foldl sha_round h (zip round_constants ws)))"

text \<open>Padding: the byte 0x80, zeros up to 56 modulo 64, and the length in bits as eight big-endian bytes.\<close>

definition be_bytes8 :: "nat \<Rightarrow> nat list" where
  "be_bytes8 n = map (\<lambda>i. n div 256 ^ (7 - i) mod 256) [0..<8]"

definition pad :: "nat list \<Rightarrow> nat list" where
  "pad m = m @ 0x80 # replicate ((119 - length m mod 64) mod 64) 0 @ be_bytes8 (8 * length m)"

definition sha256 :: "nat list \<Rightarrow> w32 list" where
  "sha256 m = foldl compress initial_hash (chunks 63 (pad m))"

definition hex_text :: "w32 list \<Rightarrow> pystr" where
  "hex_text ws = concat (map (\<lambda>w. map (\<lambda>i. let d = unat w div 16 ^ (7 - i) mod 16 in if d < 10 then 48 + d else 87 + d) [0..<8]) ws)"

definition sha256_hex :: "nat list \<Rightarrow> pystr" where
  "sha256_hex m = hex_text (sha256 m)"

definition is_hex_digit :: "nat \<Rightarrow> bool" where
  "is_hex_digit c \<longleftrightarrow> 48 \<le> c \<and> c \<le> 57 \<or> 97 \<le> c \<and> c \<le> 102"

lemma sha_round_length: "length (sha_round s kw) = length s"
  by (cases "(s, kw)" rule: sha_round.cases) (auto simp: Let_def)

lemma length_foldl: "(\<And>s x. length (f s x) = length s) \<Longrightarrow> length (foldl f s xs) = length s"
  by (induction xs arbitrary: s) auto

lemma compress_length: "length (compress h block) = length h"
  by (simp add: compress_def Let_def length_foldl sha_round_length)

lemma sha256_length: "length (sha256 m) = 8"
  by (simp add: sha256_def length_foldl compress_length initial_hash_def)

lemma hex_text_length: "length (hex_text ws) = 8 * length ws"
  by (induction ws) (auto simp: hex_text_def)

text \<open>The digest text is 64 lower-case hexadecimal digits.\<close>

lemma sha256_hex_shape: "length (sha256_hex m) = 64" "c \<in> set (sha256_hex m) \<Longrightarrow> is_hex_digit c"
proof -
  show "length (sha256_hex m) = 64" by (simp add: sha256_hex_def hex_text_length sha256_length)
  have "is_hex_digit (let d = n mod 16 in if d < 10 then 48 + d else 87 + d)" for n :: nat
    using mod_less_divisor [of 16 n] by (auto simp: is_hex_digit_def Let_def)
  then show "c \<in> set (sha256_hex m) \<Longrightarrow> is_hex_digit c" by (auto simp: sha256_hex_def hex_text_def)
qed

text \<open>\<open>hashlib.sha256(s.encode("utf-8")).hexdigest()\<close>.\<close>

definition digest_of :: "pystr \<Rightarrow> pyerr + pystr" where
  "digest_of s = rbind (utf8_encode s) (\<lambda>b. Inr (sha256_hex b))"

end
