(* ===== verification/Redaction.thy ===== *)
theory Redaction
  imports Conformance Sha256
begin

text \<open>
  The redaction transform of \<open>llm_collab/runtime_adapter_redaction.py\<close>: a document goes in, and either a frozen redacted
  document or a failure with a closed reason code comes out. Values are trees, so the identity checks for cyclic
  inputs never fire. What is proved is that nothing outside the allow-list and no unsafe value gets through.
\<close>

section \<open>Closed vocabularies\<close>

definition MAX_STDERR_BYTES_PER_CONNECTION :: nat where "MAX_STDERR_BYTES_PER_CONNECTION = 65536"
definition MAX_REDACTION_DEPTH :: nat where "MAX_REDACTION_DEPTH = 8"

definition SAFE_TOP_LEVEL_FIELDS :: "string list" where
  "SAFE_TOP_LEVEL_FIELDS =
     [''adapter_id'', ''adapter_revision'', ''attempts'', ''capability_set_id'',
      ''capability_set_revision'', ''diagnostic'', ''diagnostic_id'', ''delivery_id'',
      ''endpoint_id'', ''fault'', ''health_failure_reason'', ''incident_id'',
      ''manifest_id'', ''manifest_revision'', ''method'', ''occurrence_at_utc'',
      ''original_request_id'', ''native_session_id'', ''profile_id'', ''project_id'',
      ''reason'', ''request_id'', ''review_references'', ''scope_identity'',
      ''session_ref_id'', ''stderr'', ''attempt_id'', ''workspace_id'']"

definition SAFE_DIAGNOSTIC_FIELDS :: "string list" where
  "SAFE_DIAGNOSTIC_FIELDS =
     [''code'', ''context'', ''detail'', ''fault'',
      ''reason'']"

definition ATTEMPT_FIELDS :: "string list" where
  "ATTEMPT_FIELDS =
     [''original_request_id'', ''delivery_id'', ''attempt_id'']"

definition REVIEW_REFERENCE_FIELDS :: "string list" where
  "REVIEW_REFERENCE_FIELDS =
     [''manifest_id'', ''manifest_revision'', ''capability_set_id'', ''capability_set_revision'',
      ''diagnostic_id'']"

definition HEALTH_FAILURE_VALUES :: "string list" where
  "HEALTH_FAILURE_VALUES =
     [''HEALTH_TIMEOUT'', ''INVALID_HEALTH_RESPONSE'']"

definition HASHED_IDENTIFIER_FIELDS :: "string list" where
  "HASHED_IDENTIFIER_FIELDS =
     [''native_session_id'', ''session_ref_id'']"

definition REDACTED_TEXT_FIELDS :: "string list" where
  "REDACTED_TEXT_FIELDS =
     [''detail'', ''reason'']"

definition FAULT_VALUES :: "string list" where
  "FAULT_VALUES =
     [''ADAPTER_QUARANTINED'', ''ADAPTER_UNHEALTHY'', ''CAPABILITY_NOT_DECLARED'', ''HANDSHAKE_TIMEOUT'',
      ''HEALTH_TIMEOUT'', ''INVALID_DELIVERY'', ''INVALID_FRAMING'', ''INVALID_PARAMS'',
      ''INVALID_HEALTH_RESPONSE'', ''INVALID_REQUEST'', ''INVALID_SESSION_REF'', ''INITIALIZE_REQUIRED'',
      ''INTERNAL_ERROR'', ''METHOD_NOT_FOUND'', ''MESSAGE_TOO_LARGE'', ''PARSE_ERROR'',
      ''PROCESS_CLOSED'', ''RECONCILIATION_REQUIRED'', ''REDACTION_FAILURE'', ''REQUEST_CANCELLED'',
      ''REQUEST_TIMEOUT'', ''SHUTDOWN_IN_PROGRESS'', ''STDERR_LIMIT_EXCEEDED'', ''TOO_MANY_IN_FLIGHT'',
      ''UNSUPPORTED_PROTOCOL_VERSION'', ''UNTRUSTED_MANIFEST_INPUT'']"

definition METHOD_VALUES :: "string list" where
  "METHOD_VALUES =
     [''initialize'', ''runtime.cancel'', ''runtime.deliver'', ''runtime.health'',
      ''runtime.reconcile'', ''runtime.shutdown'']"

definition DROP_ONLY_FIELDS :: "string list" where
  "DROP_ONLY_FIELDS =
     [''configuration_ref'', ''environment'', ''home_path'', ''local_user'',
      ''project_slug'', ''raw_payload'']"

definition REDACTION_REASON_CODES :: "string list" where
  "REDACTION_REASON_CODES =
     [''attempt_shape_invalid'', ''attempts_not_array'', ''closed_literal_not_string'', ''cyclic_input'',
      ''cyclic_stderr'', ''delivery_token_invalid'', ''identifier_not_string'', ''mapping_field_not_object'',
      ''no_allowlisted_fields'', ''non_mapping_root'', ''occurrence_not_timestamp'', ''nul_bearing_string'',
      ''prefix_not_bytes_or_string'', ''redaction_depth_exceeded'', ''redaction_failed'', ''request_id_not_scalar'',
      ''review_reference_shape_invalid'', ''review_references_required'', ''schema_identity_invalid'', ''schema_identity_not_string'',
      ''stderr_not_object'', ''stderr_prefix_too_long_for_total'', ''stderr_truncation_without_discard'', ''stderr_unsupported_field'',
      ''strict_bool_required'', ''surrogate_bearing_string'', ''unsafe_float'', ''unsafe_key'',
      ''unsupported_scalar'', ''unexpected_redaction_exception'', ''unsigned_int_required'']"

definition SCHEMA_IDENTITY_FIELDS :: "string list" where
  "SCHEMA_IDENTITY_FIELDS =
     [''adapter_id'', ''adapter_revision'', ''endpoint_id'', ''manifest_id'',
      ''manifest_revision'', ''profile_id'', ''project_id'', ''scope_identity'',
      ''workspace_id'']"

definition one_of :: "pystr \<Rightarrow> string list \<Rightarrow> bool" where
  "one_of k names \<longleftrightarrow> list_ex (\<lambda>n. k = lit n) names"

abbreviation redaction_error :: "string \<Rightarrow> pyerr + 'a" where
  "redaction_error reason \<equiv> Inl (RedactionErr reason)"

definition safe_redaction_reason :: "string \<Rightarrow> string" where
  "safe_redaction_reason r = (if r \<in> set REDACTION_REASON_CODES then r else ''redaction_failed'')"

section \<open>Scalars\<close>

definition redact_string :: "pystr \<Rightarrow> pyerr + pystr" where
  "redact_string s =
     (if 0 \<in> set s then redaction_error ''nul_bearing_string''
      else if contains_surrogate s then redaction_error ''surrogate_bearing_string'' else Inr s)"

text \<open>
  Bytes are decoded with replacement and NUL becomes U+FFFD. Only the text of ASCII bytes is computed: any other decoded text
  has a character outside ASCII, which both callers of this function drop.
\<close>

definition decode_prefix :: "nat list \<Rightarrow> pystr option" where
  "decode_prefix b = (if list_all (\<lambda>c. c < 128) b then Some (map (\<lambda>c. if c = 0 then 0xFFFD else c) b) else None)"

definition redact_scalar :: "pyval \<Rightarrow> pyerr + pyval" where
  "redact_scalar v =
     (case v of
        PNone \<Rightarrow> Inr v
      | PBool b \<Rightarrow> Inr v
      | PInt n \<Rightarrow> Inr v
      | PFloat f \<Rightarrow> (case f of Fin q \<Rightarrow> Inr v | NegZero \<Rightarrow> Inr v | _ \<Rightarrow> redaction_error ''unsafe_float'')
      | PBytes b \<Rightarrow>
          (case decode_prefix b of None \<Rightarrow> Inl (Unmodelled ''the text of bytes outside ASCII'') | Some s \<Rightarrow> Inr (PStr s))
      | PStr s \<Rightarrow> rbind (redact_string s) (\<lambda>s'. Inr (PStr s'))
      | _ \<Rightarrow> redaction_error ''unsupported_scalar'')"

text \<open>\<open>None\<close> is the dropped field.\<close>

fun is_bytes :: "pyval \<Rightarrow> bool" where
  "is_bytes (PBytes _) = True"
| "is_bytes _ = False"

fun foreign_bytes :: "pyval \<Rightarrow> bool" where
  "foreign_bytes (PBytes b) = (decode_prefix b = None)"
| "foreign_bytes _ = False"

definition redact_text :: "pyval \<Rightarrow> pyerr + pyval option" where
  "redact_text v =
     (if is_bytes v then Inr None else rbind (redact_scalar v) (\<lambda>w. Inr (if is_str w then None else Some w)))"

definition closed_string :: "pyval \<Rightarrow> string list \<Rightarrow> pyerr + pyval option" where
  "closed_string v allowed =
     (if foreign_bytes v then Inr None
      else rbind (redact_scalar v) (\<lambda>w.
        case w of PStr s \<Rightarrow> Inr (if one_of s allowed then Some w else None)
        | _ \<Rightarrow> redaction_error ''closed_literal_not_string''))"

definition hash_identifier :: "pyval \<Rightarrow> pyerr + pyval" where
  "hash_identifier v =
     (case v of
        PStr s \<Rightarrow> rbind (redact_string s) (\<lambda>t. rbind (utf8_encode t) (\<lambda>b. Inr (PStr (lit ''sha256:'' @ sha256_hex b))))
      | _ \<Rightarrow> redaction_error ''identifier_not_string'')"

definition schema_identity :: "pyval \<Rightarrow> pyerr + pyval" where
  "schema_identity v =
     (case v of
        PStr s \<Rightarrow> rbind (redact_string s) (\<lambda>t. Inr (PStr t))
      | _ \<Rightarrow> redaction_error ''schema_identity_not_string'')"

text \<open>\<open>try: ... except ValueError: raise RedactionError(reason)\<close>.\<close>

definition value_error_as :: "string \<Rightarrow> pyerr + 'a \<Rightarrow> pyerr + 'a" where
  "value_error_as reason m =
     (case m of Inr v \<Rightarrow> Inr v | Inl e \<Rightarrow> if is_value_error e then redaction_error reason else Inl e)"

definition validated_s2_token :: "schema \<Rightarrow> pyval \<Rightarrow> pyerr + pyval" where
  "validated_s2_token sch v = value_error_as ''schema_identity_invalid'' (validate_s2_token sch v)"

definition delivery_token :: "schema \<Rightarrow> pyval \<Rightarrow> string \<Rightarrow> pyerr + pyval" where
  "delivery_token sch v name = value_error_as ''delivery_token_invalid'' (validate_delivery_scalar sch v name)"

definition redact_request_id :: "pyval \<Rightarrow> pyerr + pyval" where
  "redact_request_id v = value_error_as ''request_id_not_scalar'' (validate_request_id_scalar v)"

section \<open>Attempts and review references\<close>

definition items_of :: "pyval \<Rightarrow> pyval list option" where
  "items_of v = (case v of PList xs \<Rightarrow> Some xs | PTuple xs \<Rightarrow> Some xs | _ \<Rightarrow> None)"

definition redact_attempt :: "schema \<Rightarrow> pyval \<Rightarrow> pyerr + pyval" where
  "redact_attempt sch v =
     (if \<not> (is_dict v \<and> keys_are ATTEMPT_FIELDS (dict_of v)) then redaction_error ''attempt_shape_invalid''
      else
        let d = dict_of v in
        rbind (redact_request_id (dget_none ''original_request_id'' d)) (\<lambda>r.
        rbind (delivery_token sch (dget_none ''delivery_id'' d) ''delivery_id'') (\<lambda>x.
        rbind (delivery_token sch (dget_none ''attempt_id'' d) ''attempt_id'') (\<lambda>y.
        Inr (PDict [(sv ''original_request_id'', r), (sv ''delivery_id'', x), (sv ''attempt_id'', y)])))))"

definition redact_attempts :: "schema \<Rightarrow> pyval \<Rightarrow> pyerr + pyval" where
  "redact_attempts sch v =
     (case items_of v of
        None \<Rightarrow> redaction_error ''attempts_not_array''
      | Some xs \<Rightarrow> rbind (rmap (redact_attempt sch) xs) (\<lambda>ys. Inr (PList ys)))"

definition redact_review :: "schema \<Rightarrow> pyval \<Rightarrow> pyerr + pyval" where
  "redact_review sch v =
     (if \<not> (is_dict v \<and> keys_are REVIEW_REFERENCE_FIELDS (dict_of v)) then redaction_error ''review_reference_shape_invalid''
      else
        let d = dict_of v in
        rbind (schema_identity (dget_none ''manifest_id'' d)) (\<lambda>a.
        rbind (schema_identity (dget_none ''manifest_revision'' d)) (\<lambda>b.
        rbind (schema_identity (dget_none ''capability_set_id'' d)) (\<lambda>c.
        rbind (schema_identity (dget_none ''capability_set_revision'' d)) (\<lambda>e.
        rbind (validated_s2_token sch (dget_none ''diagnostic_id'' d)) (\<lambda>f.
        Inr (PDict [(sv ''manifest_id'', a), (sv ''manifest_revision'', b), (sv ''capability_set_id'', c),
                    (sv ''capability_set_revision'', e), (sv ''diagnostic_id'', f)])))))))"

definition redact_review_references :: "schema \<Rightarrow> pyval \<Rightarrow> pyerr + pyval" where
  "redact_review_references sch v =
     (case items_of v of
        None \<Rightarrow> redaction_error ''review_references_required''
      | Some xs \<Rightarrow>
          if xs = [] then redaction_error ''review_references_required''
          else rbind (rmap (redact_review sch) xs) (\<lambda>ys. Inr (PList ys)))"

section \<open>Standard error\<close>

definition retained_prefix_bytes :: "pyval \<Rightarrow> pyerr + nat" where
  "retained_prefix_bytes v =
     (case v of
        PBytes b \<Rightarrow> Inr (length b)
      | PStr s \<Rightarrow>
          if contains_surrogate s then redaction_error ''surrogate_bearing_string''
          else rbind (utf8_encode s) (\<lambda>b. Inr (length b))
      | _ \<Rightarrow> redaction_error ''prefix_not_bytes_or_string'')"

definition non_negative_int :: "pyval \<Rightarrow> pyerr + int" where
  "non_negative_int v =
     (case v of PInt n \<Rightarrow> if n < 0 then redaction_error ''unsigned_int_required'' else Inr n
      | _ \<Rightarrow> redaction_error ''unsigned_int_required'')"

definition strict_bool :: "pyval \<Rightarrow> pyerr + bool" where
  "strict_bool v = (case v of PBool b \<Rightarrow> Inr b | _ \<Rightarrow> redaction_error ''strict_bool_required'')"

definition dget_or :: "string \<Rightarrow> pyval \<Rightarrow> pydict \<Rightarrow> pyval" where
  "dget_or f fallback d = (case dget f d of None \<Rightarrow> fallback | Some v \<Rightarrow> v)"

definition check_depth :: "nat \<Rightarrow> pyerr + unit" where
  "check_depth depth = require (depth \<le> MAX_REDACTION_DEPTH) (RedactionErr ''redaction_depth_exceeded'')"

definition redact_stderr :: "pyval \<Rightarrow> nat \<Rightarrow> pyerr + pyval" where
  "redact_stderr v depth =
     rbind (check_depth depth) (\<lambda>_.
     if \<not> is_dict v then redaction_error ''stderr_not_object''
     else
       let d = dict_of v in
       if \<not> keys_within [''prefix'', ''total_bytes'', ''truncated''] d then redaction_error ''stderr_unsupported_field''
       else
         rbind (retained_prefix_bytes (dget_or ''prefix'' (PBytes []) d)) (\<lambda>original.
         rbind (non_negative_int (dget_none ''total_bytes'' d)) (\<lambda>total.
         rbind (strict_bool (dget_or ''truncated'' (PBool False) d)) (\<lambda>truncated_input.
         if total < int original then redaction_error ''stderr_prefix_too_long_for_total''
         else
           let retained = int (if original > MAX_STDERR_BYTES_PER_CONNECTION then MAX_STDERR_BYTES_PER_CONNECTION else original);
               truncated = (truncated_input \<or> total > retained)
           in if truncated \<and> total = retained then redaction_error ''stderr_truncation_without_discard''
              else Inr (PDict [(sv ''total_bytes'', PInt total), (sv ''retained_bytes'', PInt retained),
                               (sv ''truncated'', PBool truncated)])))))"

section \<open>Occurrence timestamps\<close>

text \<open>
  \<open>datetime.fromisoformat\<close> on the extended format with an optional fraction and offset: the offset in minutes, no offset,
  or a \<open>ValueError\<close> on a field out of range. Other texts (the basic and week formats the library also reads, or no
  timestamp at all) are \<open>IsoOther\<close>, on which the model takes no position.
\<close>

datatype iso_outcome = IsoNaive | IsoOffset int | IsoInvalid | IsoOther

definition two_digits :: "pystr \<Rightarrow> nat \<Rightarrow> nat" where
  "two_digits s i = digits_value (take 2 (drop i s))"

definition leap_year :: "nat \<Rightarrow> bool" where
  "leap_year y \<longleftrightarrow> y mod 4 = 0 \<and> (y mod 100 \<noteq> 0 \<or> y mod 400 = 0)"

definition days_in_month :: "nat \<Rightarrow> nat \<Rightarrow> nat" where
  "days_in_month y m = (if m = 2 then (if leap_year y then 29 else 28) else if m \<in> {4, 6, 9, 11} then 30 else 31)"

definition fits_template :: "string \<Rightarrow> pystr \<Rightarrow> bool" where
  "fits_template t s \<longleftrightarrow> length t = length s \<and>
     list_all (\<lambda>(a, c). if a = of_char (CHR ''0'') then is_digit c else a = c) (zip (lit t) s)"

definition iso_offset :: "pystr \<Rightarrow> iso_outcome" where
  "iso_offset r =
     (if r = [] then IsoNaive
      else if fits_template ''+00:00'' r \<or> fits_template ''-00:00'' r then
        (let h = two_digits r 1; m = two_digits r 4 in
         if h \<le> 23 \<and> m \<le> 59 then IsoOffset (if hd r = 45 then - int (60 * h + m) else int (60 * h + m)) else IsoOther)
      else IsoOther)"

definition fromisoformat :: "pystr \<Rightarrow> iso_outcome" where
  "fromisoformat s =
     (let base = take 19 s; rest = drop 19 s;
          frac = (if take 1 rest = [46] then takeWhile is_digit (drop 1 rest) else []);
          tz = (if frac = [] then rest else drop (Suc (length frac)) rest);
          y = digits_value (take 4 base); mo = two_digits base 5; d = two_digits base 8 in
      if \<not> (fits_template ''0000-00-00T00:00:00'' base \<and> length frac \<in> {0, 3, 6}) \<or> two_digits base 11 = 24 then IsoOther
      else if iso_offset tz = IsoOther then IsoOther
      else if 1 \<le> y \<and> 1 \<le> mo \<and> mo \<le> 12 \<and> 1 \<le> d \<and> d \<le> days_in_month y mo \<and>
              two_digits base 11 < 24 \<and> two_digits base 14 < 60 \<and> two_digits base 17 < 60
      then iso_offset tz else IsoInvalid)"

text \<open>\<open>value.replace("Z", "+00:00")\<close>.\<close>

definition replace_z :: "pystr \<Rightarrow> pystr" where
  "replace_z s = concat (map (\<lambda>c. if c = 90 then lit ''+00:00'' else [c]) s)"

definition redact_occurrence :: "pyval \<Rightarrow> pyerr + pyval" where
  "redact_occurrence v =
     (case v of
        PStr s \<Rightarrow>
          rbind (redact_string s) (\<lambda>t.
          case fromisoformat (replace_z t) of
            IsoOther \<Rightarrow> Inl (Unmodelled ''a timestamp outside the extended format'')
          | IsoOffset z \<Rightarrow> if z = 0 then Inr (PStr t) else redaction_error ''occurrence_not_timestamp''
          | _ \<Rightarrow> redaction_error ''occurrence_not_timestamp'')
      | _ \<Rightarrow> redaction_error ''occurrence_not_timestamp'')"

section \<open>Documents\<close>

text \<open>Every field but the two nested mappings.\<close>

definition redact_leaf :: "schema \<Rightarrow> pystr \<Rightarrow> pyval \<Rightarrow> nat \<Rightarrow> pyerr + pyval option" where
  "redact_leaf sch k raw depth =
     (let keep = (\<lambda>m. rbind m (\<lambda>v. Inr (Some v))) in
      if one_of k [''stderr''] then keep (redact_stderr raw depth)
      else if one_of k [''attempts''] then keep (redact_attempts sch raw)
      else if one_of k [''review_references''] then keep (redact_review_references sch raw)
      else if one_of k [''occurrence_at_utc''] then keep (redact_occurrence raw)
      else if one_of k REDACTED_TEXT_FIELDS then redact_text raw
      else if one_of k HASHED_IDENTIFIER_FIELDS then keep (hash_identifier raw)
      else if one_of k [''diagnostic_id'', ''incident_id''] then keep (validated_s2_token sch raw)
      else if one_of k SCHEMA_IDENTITY_FIELDS \<or> one_of k [''capability_set_id'', ''capability_set_revision'']
        then keep (schema_identity raw)
      else if one_of k [''delivery_id''] then keep (delivery_token sch raw ''delivery_id'')
      else if one_of k [''attempt_id''] then keep (delivery_token sch raw ''attempt_id'')
      else if one_of k [''original_request_id'', ''request_id''] then keep (redact_request_id raw)
      else if one_of k [''health_failure_reason''] then closed_string raw HEALTH_FAILURE_VALUES
      else if one_of k [''fault''] then closed_string raw FAULT_VALUES
      else if one_of k [''method''] then closed_string raw METHOD_VALUES
      else if one_of k [''code''] then redact_text raw
      else keep (redact_scalar raw))"

text \<open>A field and an entry of a mapping, over the transform \<open>nested\<close> of the mapping inside a diagnostic.\<close>

definition redact_field ::
  "schema \<Rightarrow> (pydict \<Rightarrow> pyerr + pydict) \<Rightarrow> pystr \<Rightarrow> pyval \<Rightarrow> nat \<Rightarrow> pyerr + pyval option" where
  "redact_field sch nested k raw depth =
     rbind (check_depth depth) (\<lambda>_.
     if one_of k [''diagnostic'', ''context''] then
       (case raw of
          PDict e \<Rightarrow> rbind (nested e) (\<lambda>r. Inr (if r = [] then None else Some (PDict r)))
        | _ \<Rightarrow> redaction_error ''mapping_field_not_object'')
     else redact_leaf sch k raw depth)"

definition redact_entry ::
  "schema \<Rightarrow> string list \<Rightarrow> (pydict \<Rightarrow> pyerr + pydict) \<Rightarrow> nat \<Rightarrow> pyval \<times> pyval \<Rightarrow> pyerr + pydict" where
  "redact_entry sch allowed nested depth kv =
     (case fst kv of
        PStr k \<Rightarrow>
          if 0 \<in> set k then redaction_error ''unsafe_key''
          else if one_of k DROP_ONLY_FIELDS \<or> \<not> one_of k allowed then Inr []
          else rbind (redact_field sch nested k (snd kv) (Suc depth))
                 (\<lambda>r. Inr (case r of None \<Rightarrow> [] | Some v \<Rightarrow> [(PStr k, v)]))
      | _ \<Rightarrow> redaction_error ''unsafe_key'')"

lemma redact_entry_cong [fundef_cong]:
  assumes "sch = sch'" and "allowed = allowed'" and "depth = depth'" and "kv = kv'"
    and "\<And>e. snd kv' = PDict e \<Longrightarrow> nested e = nested' e"
  shows "redact_entry sch allowed nested depth kv = redact_entry sch' allowed' nested' depth' kv'"
  using assms by (auto simp: redact_entry_def redact_field_def split: pyval.splits)

fun redact_mapping :: "schema \<Rightarrow> string list \<Rightarrow> nat \<Rightarrow> pydict \<Rightarrow> pyerr + pydict" where
  "redact_mapping sch allowed depth d =
     rbind (check_depth depth) (\<lambda>_.
     rbind (rmap (\<lambda>kv. redact_entry sch allowed (\<lambda>e. redact_mapping sch SAFE_DIAGNOSTIC_FIELDS (Suc depth) e) depth kv) d)
       (\<lambda>parts. Inr (concat parts)))"

declare redact_mapping.simps [simp del]

text \<open>A redacted document can only come from \<open>redact_document\<close>; its payload is frozen (lists become tuples).\<close>

fun freeze :: "pyval \<Rightarrow> pyval" where
  "freeze (PDict d) = PDict (map (\<lambda>kv. (fst kv, freeze (snd kv))) d)"
| "freeze (PList xs) = PTuple (map freeze xs)"
| "freeze v = v"

fun thaw :: "pyval \<Rightarrow> pyval" where
  "thaw (PDict d) = PDict (map (\<lambda>kv. (fst kv, thaw (snd kv))) d)"
| "thaw (PTuple xs) = PList (map thaw xs)"
| "thaw v = v"

datatype redaction_result = RedactedDocument pyval | RedactionFailure string

definition as_dict :: "redaction_result \<Rightarrow> pyval" where
  "as_dict r = (case r of RedactedDocument p \<Rightarrow> thaw p | RedactionFailure _ \<Rightarrow> PNone)"

definition redact_document :: "schema \<Rightarrow> pyval \<Rightarrow> pyerr + redaction_result" where
  "redact_document sch v =
     (case v of
        PDict d \<Rightarrow>
          (case redact_mapping sch SAFE_TOP_LEVEL_FIELDS 0 d of
             Inr r \<Rightarrow> Inr (if r = [] then RedactionFailure ''no_allowlisted_fields'' else RedactedDocument (freeze (PDict r)))
           | Inl (RedactionErr reason) \<Rightarrow> Inr (RedactionFailure (safe_redaction_reason reason))
           | Inl (Unmodelled why) \<Rightarrow> Inl (Unmodelled why)
           | Inl _ \<Rightarrow> Inr (RedactionFailure ''unexpected_redaction_exception''))
      | _ \<Rightarrow> Inr (RedactionFailure ''non_mapping_root''))"

section \<open>What a redacted document contains\<close>

definition clean_text :: "pystr \<Rightarrow> bool" where
  "clean_text s \<longleftrightarrow> \<not> contains_surrogate s"

fun plain_scalar :: "pyval \<Rightarrow> bool" where
  "plain_scalar PNone = True"
| "plain_scalar (PBool b) = True"
| "plain_scalar (PInt n) = True"
| "plain_scalar (PFloat (Fin q)) = True"
| "plain_scalar (PFloat NegZero) = True"
| "plain_scalar _ = False"

text \<open>A safe value: string-keyed trees without bytes, tuples, surrogates, infinities or NaN.\<close>

fun safe_value :: "pyval \<Rightarrow> bool" where
  "safe_value (PStr s) = clean_text s"
| "safe_value (PList xs) = (\<forall>x \<in> set xs. safe_value x)"
| "safe_value (PDict d) = (\<forall>kv \<in> set d. (\<exists>k. fst kv = PStr k \<and> clean_text k) \<and> safe_value (snd kv))"
| "safe_value v = plain_scalar v"

definition stderr_ok :: "pyval \<Rightarrow> bool" where
  "stderr_ok v \<longleftrightarrow> (\<exists>t r b. v = PDict [(sv ''total_bytes'', PInt t), (sv ''retained_bytes'', PInt r), (sv ''truncated'', PBool b)] \<and>
     0 \<le> r \<and> r \<le> t \<and> r \<le> int MAX_STDERR_BYTES_PER_CONNECTION \<and> (b \<longleftrightarrow> r < t))"

definition digest_ok :: "pyval \<Rightarrow> bool" where
  "digest_ok v \<longleftrightarrow> (\<exists>h. v = PStr (lit ''sha256:'' @ h) \<and> length h = 64 \<and> (\<forall>c \<in> set h. is_hex_digit c))"

definition literal_of :: "string list \<Rightarrow> pyval \<Rightarrow> bool" where
  "literal_of names v \<longleftrightarrow> (\<exists>n \<in> set names. v = sv n)"

definition leaf_ok :: "pystr \<Rightarrow> pyval \<Rightarrow> bool" where
  "leaf_ok k v \<longleftrightarrow> safe_value v \<and>
     (one_of k [''stderr''] \<longrightarrow> stderr_ok v) \<and>
     (one_of k [''reason'', ''detail'', ''code''] \<longrightarrow> plain_scalar v) \<and>
     (one_of k HASHED_IDENTIFIER_FIELDS \<longrightarrow> digest_ok v) \<and>
     (one_of k [''fault''] \<longrightarrow> literal_of FAULT_VALUES v) \<and>
     (one_of k [''method''] \<longrightarrow> literal_of METHOD_VALUES v) \<and>
     (one_of k [''health_failure_reason''] \<longrightarrow> literal_of HEALTH_FAILURE_VALUES v)"

fun redacted_ok :: "string list \<Rightarrow> pydict \<Rightarrow> bool" where
  "redacted_ok allowed d \<longleftrightarrow>
     (\<forall>kv \<in> set d. \<exists>k. fst kv = PStr k \<and> one_of k allowed \<and> \<not> one_of k DROP_ONLY_FIELDS \<and>
        (if one_of k [''diagnostic'', ''context''] then
           (case snd kv of PDict e \<Rightarrow> e \<noteq> [] \<and> redacted_ok SAFE_DIAGNOSTIC_FIELDS e | _ \<Rightarrow> False)
         else leaf_ok k (snd kv)))"

declare redacted_ok.simps [simp del]

named_theorems redact_safe \<open>what each field transform returns\<close>

lemma lit_clean [simp]: "clean_text (lit s)"
  using str_ok_lit [of True s] by (simp add: clean_text_def contains_surrogate_def list_ex_iff str_ok_def)

lemma redact_string_safe [redact_safe]: "redact_string s = Inr t \<Longrightarrow> clean_text t \<and> t = s"
  by (auto simp: redact_string_def clean_text_def split: if_splits)

lemma decoded_clean: "decode_prefix b = Some s \<Longrightarrow> clean_text s"
  by (force simp: decode_prefix_def clean_text_def contains_surrogate_def list_ex_iff list_all_iff is_surrogate_def
      split: if_splits)

lemma redact_scalar_safe [redact_safe]:
  "redact_scalar v = Inr w \<Longrightarrow> safe_value w \<and> (\<not> is_str w \<longrightarrow> plain_scalar w)"
  by (auto simp: redact_scalar_def rbind_Inr_iff split: pyval.splits pyfloat.splits option.splits
      dest!: redact_string_safe decoded_clean)

lemma redact_text_safe [redact_safe]: "redact_text v = Inr (Some w) \<Longrightarrow> safe_value w \<and> plain_scalar w"
  by (auto simp: redact_text_def rbind_Inr_iff split: if_splits dest!: redact_scalar_safe)

lemma closed_string_safe [redact_safe]:
  assumes "closed_string v names = Inr (Some w)"
  shows "safe_value w \<and> literal_of names w"
proof -
  obtain x where x: "redact_scalar v = Inr x" "(case x of PStr s \<Rightarrow> Inr (if one_of s names then Some x else None)
        | _ \<Rightarrow> redaction_error ''closed_literal_not_string'') = Inr (Some w)"
    using assms by (auto simp: closed_string_def rbind_Inr_iff split: if_splits)
  then show ?thesis
    using redact_scalar_safe [OF x(1)] by (cases x) (auto simp: literal_of_def one_of_def list_ex_iff split: if_splits)
qed

lemma hash_identifier_safe [redact_safe]: "hash_identifier v = Inr w \<Longrightarrow> safe_value w \<and> digest_ok w"
proof -
  assume h: "hash_identifier v = Inr w"
  then obtain b where w: "w = PStr (lit ''sha256:'' @ sha256_hex b)"
    by (auto simp: hash_identifier_def rbind_Inr_iff split: pyval.splits)
  have "\<not> is_surrogate c" if "is_hex_digit c" for c using that by (auto simp: is_hex_digit_def is_surrogate_def)
  then have "clean_text (sha256_hex b)"
    using sha256_hex_shape(2) by (auto simp: clean_text_def contains_surrogate_def list_ex_iff)
  then have "clean_text (lit ''sha256:'' @ sha256_hex b)"
    using lit_clean [of "''sha256:''"] by (auto simp: clean_text_def contains_surrogate_def)
  then show ?thesis using sha256_hex_shape w by (auto simp: digest_ok_def)
qed

lemma schema_identity_safe [redact_safe]: "schema_identity v = Inr w \<Longrightarrow> safe_value w"
  by (auto simp: schema_identity_def rbind_Inr_iff split: pyval.splits dest!: redact_string_safe)

lemma token_clean: "token_text s \<Longrightarrow> clean_text s"
  by (auto simp: token_text_def clean_text_def contains_surrogate_def list_all_iff list_ex_iff word_char_def is_surrogate_def)

lemma value_error_as_Inr [simp]: "value_error_as r m = Inr v \<longleftrightarrow> m = Inr v"
  by (cases m) (auto simp: value_error_as_def)

lemma schema_scalar_safe [redact_safe]:
  assumes "strings_only sch"
  shows "validated_s2_token sch v = Inr w \<Longrightarrow> safe_value w" and "delivery_token sch v f = Inr w \<Longrightarrow> safe_value w"
proof -
  have "safe_value v" if "sch name v" for name v using assms that token_clean by (fastforce simp: strings_only_def)
  then show "validated_s2_token sch v = Inr w \<Longrightarrow> safe_value w" and "delivery_token sch v f = Inr w \<Longrightarrow> safe_value w"
    by (auto simp: validated_s2_token_def validate_s2_token_def delivery_token_def validate_delivery_scalar_def split: if_splits)
qed

lemma request_id_safe [redact_safe]: "redact_request_id v = Inr w \<Longrightarrow> safe_value w"
  by (auto simp: redact_request_id_def validate_request_id_scalar_def is_request_id_def utf8_encode_def clean_text_def
      split: if_splits pyval.splits)

lemma attempts_safe [redact_safe]:
  assumes "strings_only sch" and "redact_attempts sch v = Inr w"
  shows "safe_value w"
proof -
  have "safe_value y" if "redact_attempt sch x = Inr y" for x y
    using that by (auto simp: redact_attempt_def rbind_Inr_iff Let_def split: if_splits
        dest: schema_scalar_safe [OF assms(1)] request_id_safe)
  moreover obtain xs ys where "rmap (redact_attempt sch) xs = Inr ys" "w = PList ys"
    using assms(2) by (auto simp: redact_attempts_def rbind_Inr_iff split: option.splits)
  ultimately show ?thesis using rmap_all [of "redact_attempt sch" xs ys safe_value] by auto
qed

lemma reviews_safe [redact_safe]:
  assumes "strings_only sch" and "redact_review_references sch v = Inr w"
  shows "safe_value w"
proof -
  have "safe_value y" if "redact_review sch x = Inr y" for x y
    using that by (auto simp: redact_review_def rbind_Inr_iff Let_def split: if_splits
        dest: schema_scalar_safe [OF assms(1)] schema_identity_safe)
  moreover obtain xs ys where "rmap (redact_review sch) xs = Inr ys" "w = PList ys"
    using assms(2) by (auto simp: redact_review_references_def rbind_Inr_iff split: option.splits if_splits)
  ultimately show ?thesis using rmap_all [of "redact_review sch" xs ys safe_value] by auto
qed

lemma stderr_safe [redact_safe]: "redact_stderr v depth = Inr w \<Longrightarrow> safe_value w \<and> stderr_ok w"
  by (auto simp: redact_stderr_def rbind_Inr_iff Let_def stderr_ok_def split: if_splits)

lemma occurrence_safe [redact_safe]:
  assumes "redact_occurrence v = Inr w"
  shows "safe_value w"
proof -
  obtain s t where t: "v = PStr s" "redact_string s = Inr t" "w = PStr t"
  proof (cases v)
    case (PStr s)
    then obtain t where "redact_string s = Inr t" "w = PStr t"
      using assms
      by (cases "redact_string s"; cases "fromisoformat (replace_z s)")
        (auto simp: redact_occurrence_def dest: redact_string_safe split: iso_outcome.splits if_splits)
    then show ?thesis using that PStr by blast
  qed (use assms in \<open>simp_all add: redact_occurrence_def\<close>)
  then show ?thesis using redact_string_safe by auto
qed

lemma one_of_lit [simp]: "one_of (lit a) names \<longleftrightarrow> a \<in> set names"
  by (auto simp: one_of_def list_ex_iff)

lemma one_of_iff: "one_of k names \<longleftrightarrow> (\<exists>n \<in> set names. k = lit n)"
  by (simp add: one_of_def list_ex_iff)

lemma leaf_safe:
  assumes "strings_only sch" and "redact_leaf sch k raw depth = Inr (Some w)"
  shows "safe_value w"
proof -
  let ?safe = "\<lambda>m. (\<forall>x. m = Inr x \<longrightarrow> safe_value x)"
  have plain: "?safe (redact_stderr raw depth)" "?safe (redact_attempts sch raw)" "?safe (redact_review_references sch raw)"
    "?safe (redact_occurrence raw)" "?safe (hash_identifier raw)" "?safe (validated_s2_token sch raw)" "?safe (schema_identity raw)"
    "?safe (delivery_token sch raw f)" "?safe (redact_request_id raw)" "?safe (redact_scalar raw)" for f
    by (auto dest: stderr_safe attempts_safe [OF assms(1)] reviews_safe [OF assms(1)] occurrence_safe hash_identifier_safe
        schema_scalar_safe [OF assms(1)] schema_identity_safe request_id_safe redact_scalar_safe)
  have keep: "rbind m (\<lambda>v. Inr (Some v)) = Inr (Some w) \<Longrightarrow> ?safe m \<Longrightarrow> safe_value w" for m :: "pyerr + pyval"
    by (cases m rule: sum.exhaust) auto
  have text_ok: "redact_text raw = Inr (Some w) \<Longrightarrow> safe_value w" using redact_text_safe by blast
  have closed: "closed_string raw names = Inr (Some w) \<Longrightarrow> safe_value w" for names using closed_string_safe by blast
  have branch: "(if b then x else y) = z \<Longrightarrow> (x = z \<Longrightarrow> P) \<Longrightarrow> (y = z \<Longrightarrow> P) \<Longrightarrow> P"
    for b and x y z :: "pyerr + pyval option" and P by (cases b) simp_all
  show ?thesis
    using assms(2) unfolding redact_leaf_def Let_def
    by (elim branch) (erule closed text_ok | (erule keep, rule plain))+
qed

lemmas leaf_tables = HASHED_IDENTIFIER_FIELDS_def REDACTED_TEXT_FIELDS_def SCHEMA_IDENTITY_FIELDS_def

lemma leaf_special:
  "redact_leaf sch (lit ''stderr'') raw depth = rbind (redact_stderr raw depth) (\<lambda>v. Inr (Some v))"
  "redact_leaf sch (lit ''reason'') raw depth = redact_text raw"
  "redact_leaf sch (lit ''detail'') raw depth = redact_text raw"
  "redact_leaf sch (lit ''code'') raw depth = redact_text raw"
  "redact_leaf sch (lit ''native_session_id'') raw depth = rbind (hash_identifier raw) (\<lambda>v. Inr (Some v))"
  "redact_leaf sch (lit ''session_ref_id'') raw depth = rbind (hash_identifier raw) (\<lambda>v. Inr (Some v))"
  "redact_leaf sch (lit ''fault'') raw depth = closed_string raw FAULT_VALUES"
  "redact_leaf sch (lit ''method'') raw depth = closed_string raw METHOD_VALUES"
  "redact_leaf sch (lit ''health_failure_reason'') raw depth = closed_string raw HEALTH_FAILURE_VALUES"
  by (simp_all add: redact_leaf_def leaf_tables Let_def)

lemma redact_leaf_ok:
  assumes "strings_only sch" and "redact_leaf sch k raw depth = Inr (Some w)"
  shows "leaf_ok k w"
proof -
  have "stderr_ok w" if "one_of k [''stderr'']"
    using that assms(2) by (auto simp: one_of_iff leaf_special rbind_Inr_iff dest: stderr_safe)
  moreover have "plain_scalar w" if "one_of k [''reason'', ''detail'', ''code'']"
    using that assms(2) by (auto simp: one_of_iff leaf_special dest: redact_text_safe)
  moreover have "digest_ok w" if "one_of k HASHED_IDENTIFIER_FIELDS"
    using that assms(2)
    by (auto simp: one_of_iff leaf_special HASHED_IDENTIFIER_FIELDS_def rbind_Inr_iff dest: hash_identifier_safe)
  moreover have "literal_of FAULT_VALUES w" if "one_of k [''fault'']"
    using that assms(2) by (auto simp: one_of_iff leaf_special dest: closed_string_safe)
  moreover have "literal_of METHOD_VALUES w" if "one_of k [''method'']"
    using that assms(2) by (auto simp: one_of_iff leaf_special dest: closed_string_safe)
  moreover have "literal_of HEALTH_FAILURE_VALUES w" if "one_of k [''health_failure_reason'']"
    using that assms(2) by (auto simp: one_of_iff leaf_special dest: closed_string_safe)
  ultimately show ?thesis using leaf_safe [OF assms] by (simp add: leaf_ok_def)
qed

text \<open>One key of the input contributes nothing, or one checked field.\<close>

definition field_ok :: "string list \<Rightarrow> pyval \<times> pyval \<Rightarrow> bool" where
  "field_ok allowed kv \<longleftrightarrow> (\<exists>k. fst kv = PStr k \<and> one_of k allowed \<and> \<not> one_of k DROP_ONLY_FIELDS \<and>
        (if one_of k [''diagnostic'', ''context''] then
           (case snd kv of PDict e \<Rightarrow> e \<noteq> [] \<and> redacted_ok SAFE_DIAGNOSTIC_FIELDS e | _ \<Rightarrow> False)
         else leaf_ok k (snd kv)))"

lemma field_ok_simps [simp]:
  "field_ok allowed (PStr k, w) \<longleftrightarrow> one_of k allowed \<and> \<not> one_of k DROP_ONLY_FIELDS \<and>
     (if one_of k [''diagnostic'', ''context''] then
        (case w of PDict e \<Rightarrow> e \<noteq> [] \<and> redacted_ok SAFE_DIAGNOSTIC_FIELDS e | _ \<Rightarrow> False)
      else leaf_ok k w)"
  by (simp add: field_ok_def)

lemma redacted_ok_iff: "redacted_ok allowed d \<longleftrightarrow> (\<forall>kv \<in> set d. field_ok allowed kv)"
  unfolding redacted_ok.simps [of allowed d] field_ok_def ..

lemma redact_entry_ok:
  assumes "strings_only sch" and "\<And>e r. snd kv = PDict e \<Longrightarrow> nested e = Inr r \<Longrightarrow> redacted_ok SAFE_DIAGNOSTIC_FIELDS r"
    and "redact_entry sch allowed nested depth kv = Inr out"
  shows "\<forall>x \<in> set out. field_ok allowed x"
proof -
  obtain k where k: "fst kv = PStr k" using assms(3) by (cases "fst kv") (simp_all add: redact_entry_def)
  show ?thesis
  proof (cases "one_of k DROP_ONLY_FIELDS \<or> \<not> one_of k allowed")
    case True
    then show ?thesis using assms(3) k by (simp add: redact_entry_def split: if_split_asm)
  next
    case False
    obtain r where r: "redact_field sch nested k (snd kv) (Suc depth) = Inr r" "out = (case r of None \<Rightarrow> [] | Some v \<Rightarrow> [(PStr k, v)])"
      using assms(3) k False by (auto simp: redact_entry_def rbind_Inr_iff split: if_split_asm)
    have "field_ok allowed (PStr k, w)" if w: "r = Some w" for w
    proof (cases "one_of k [''diagnostic'', ''context'']")
      case True
      then obtain e r' where "snd kv = PDict e" "nested e = Inr r'" "r' \<noteq> []" "w = PDict r'"
        using r(1) w by (cases "snd kv") (auto simp: redact_field_def rbind_Inr_iff split: if_split_asm)
      then show ?thesis using assms(2) False True by simp
    next
      case leaf: False
      then have "redact_leaf sch k (snd kv) (Suc depth) = Inr (Some w)"
        using r(1) w by (simp add: redact_field_def rbind_Inr_iff)
      then show ?thesis using leaf False redact_leaf_ok [OF assms(1)] by simp
    qed
    then show ?thesis using r(2) by (cases r) simp_all
  qed
qed

lemma redact_mapping_ok:
  "redact_mapping sch allowed depth d = Inr r \<Longrightarrow> strings_only sch \<Longrightarrow> redacted_ok allowed r"
proof (induction sch allowed depth d arbitrary: r rule: redact_mapping.induct)
  case (1 sch allowed depth d)
  obtain parts where parts: "rmap (redact_entry sch allowed (redact_mapping sch SAFE_DIAGNOSTIC_FIELDS (Suc depth)) depth) d = Inr parts"
    "r = concat parts"
    using "1.prems"(1) by (subst (asm) redact_mapping.simps) (auto simp: rbind_Inr_iff)
  have "\<forall>out \<in> set parts. \<forall>x \<in> set out. field_ok allowed x"
  proof (rule rmap_all [OF parts(1)])
    fix kv out assume kv: "kv \<in> set d"
      and "redact_entry sch allowed (redact_mapping sch SAFE_DIAGNOSTIC_FIELDS (Suc depth)) depth kv = Inr out"
    then show "\<forall>x \<in> set out. field_ok allowed x"
      by (intro redact_entry_ok [OF "1.prems"(2)]) (auto intro: "1.IH" [OF kv] "1.prems"(2))
  qed
  then show ?case unfolding redacted_ok_iff parts(2) by auto
qed

lemma redacted_safe: "redacted_ok allowed d \<Longrightarrow> safe_value (PDict d)"
proof (induction allowed d rule: redacted_ok.induct)
  case (1 allowed d)
  have "(\<exists>k. fst kv = PStr k \<and> clean_text k) \<and> safe_value (snd kv)" if kv: "kv \<in> set d" for kv
  proof -
    have f: "field_ok allowed kv" using "1.prems" kv by (simp add: redacted_ok_iff)
    then obtain k where k: "fst kv = PStr k" "one_of k allowed" by (auto simp: field_ok_def)
    have "safe_value (snd kv)"
    proof (cases "one_of k [''diagnostic'', ''context'']")
      case True
      then obtain e where "snd kv = PDict e" "redacted_ok SAFE_DIAGNOSTIC_FIELDS e"
        using f k by (auto simp: field_ok_def split: pyval.splits)
      then show ?thesis using "1.IH" [OF kv True] by simp
    next
      case False
      then show ?thesis using f k by (auto simp: field_ok_def leaf_ok_def)
    qed
    moreover have "clean_text k" using k(2) by (auto simp: one_of_iff)
    ultimately show ?thesis using k(1) by blast
  qed
  then show ?case by simp
qed

lemma thaw_freeze: "safe_value v \<Longrightarrow> thaw (freeze v) = v"
  by (induction v rule: safe_value.induct) (auto simp: map_idI)

text \<open>
  C3. Whatever the document, a redacted document is not empty and holds only what it may: every top-level key is allow-listed and
  none is a drop-only field, diagnostics hold only diagnostic fields (nested in turn), native session ids and session
  references are SHA-256 digests, reasons, details and codes are never text, faults, methods and health reasons are
  literals of their vocabulary, standard error is reduced to consistent counts within the bound, and every
  value is free of bytes, surrogates, infinities and NaN.
\<close>

theorem redacted_document_safe:
  assumes "strings_only sch" and "redact_document sch v = Inr (RedactedDocument p)"
  shows "\<exists>d. as_dict (RedactedDocument p) = PDict d \<and> d \<noteq> [] \<and> redacted_ok SAFE_TOP_LEVEL_FIELDS d \<and> safe_value (PDict d)"
proof -
  obtain doc r where "v = PDict doc" "redact_mapping sch SAFE_TOP_LEVEL_FIELDS 0 doc = Inr r" and r: "r \<noteq> []" "p = freeze (PDict r)"
    using assms(2) by (auto simp: redact_document_def split: pyval.splits sum.splits pyerr.splits if_splits)
  then have "redacted_ok SAFE_TOP_LEVEL_FIELDS r" using redact_mapping_ok [OF _ assms(1)] by blast
  moreover note redacted_safe [OF this]
  ultimately show ?thesis using r thaw_freeze [of "PDict r"] by (simp add: as_dict_def del: freeze.simps thaw.simps)
qed

definition demo_document :: pyval where
  "demo_document = PDict [(sv ''native_session_id'', sv ''s''), (sv ''raw_payload'', sv ''secret''),
     (sv ''reason'', sv ''secret''), (sv ''fault'', sv ''HEALTH_TIMEOUT''),
     (sv ''diagnostic'', PDict [(sv ''detail'', sv ''secret''), (sv ''code'', PInt 7)])]"

lemmas redaction_eval = redact_document_def redact_mapping.simps redact_entry_def redact_field_def check_depth_def
  MAX_REDACTION_DEPTH_def SAFE_TOP_LEVEL_FIELDS_def SAFE_DIAGNOSTIC_FIELDS_def DROP_ONLY_FIELDS_def redact_text_def
  redact_scalar_def redact_string_def closed_string_def hash_identifier_def

lemma zero_lit [simp]: "0 \<in> set (lit s) \<longleftrightarrow> CHR 0x00 \<in> set s"
proof -
  have z: "of_char (CHR 0x00) = (0::nat)" by simp
  have "(0 :: nat) = of_char c \<longleftrightarrow> CHR 0x00 = c" for c :: char
    unfolding z [symmetric] by (rule of_char_eq_iff)
  then show ?thesis unfolding lit_def by (auto simp: image_iff)
qed
lemma lit_surrogates [simp]: "\<not> contains_surrogate (lit s)"
  using lit_clean [of s] by (simp add: clean_text_def)

lemma demo_redacted:
  "\<exists>b. redact_document schema_scalar demo_document =
     Inr (RedactedDocument (freeze (PDict [(sv ''native_session_id'', PStr (lit ''sha256:'' @ sha256_hex b)),
       (sv ''fault'', sv ''HEALTH_TIMEOUT''), (sv ''diagnostic'', PDict [(sv ''code'', PInt 7)])])))"
  by (simp add: demo_document_def redaction_eval leaf_special utf8_encode_def FAULT_VALUES_def; blast)

theorem redacted_document_safe_witness:
  "\<exists>p d. redact_document schema_scalar demo_document = Inr (RedactedDocument p) \<and>
     as_dict (RedactedDocument p) = PDict d \<and> dget ''raw_payload'' d = None \<and> redacted_ok SAFE_TOP_LEVEL_FIELDS d"
proof -
  obtain b where r: "redact_document schema_scalar demo_document =
     Inr (RedactedDocument (freeze (PDict [(sv ''native_session_id'', PStr (lit ''sha256:'' @ sha256_hex b)),
       (sv ''fault'', sv ''HEALTH_TIMEOUT''), (sv ''diagnostic'', PDict [(sv ''code'', PInt 7)])])))"
    using demo_redacted by blast
  show ?thesis
    using redacted_document_safe [OF schema_scalar_strings r] r by (auto simp: as_dict_def)
qed

section \<open>Failure reasons\<close>

fun closed_failure :: "pyerr \<Rightarrow> bool" where
  "closed_failure (RedactionErr r) = (r \<in> set REDACTION_REASON_CODES \<and> r \<noteq> ''unexpected_redaction_exception'')"
| "closed_failure (Unmodelled _) = True"
| "closed_failure _ = False"

abbreviation closed :: "pyerr + 'a \<Rightarrow> bool" where
  "closed \<equiv> never (\<lambda>e. \<not> closed_failure e)"

lemma closed_leaves [never_intros]:
  "closed (redact_string s)" "closed (redact_scalar v)" "closed (schema_identity v)" "closed (check_depth n)"
  "closed (non_negative_int v)" "closed (strict_bool v)" "closed (retained_prefix_bytes v)" "closed (hash_identifier v)"
  "closed (validated_s2_token sch v)" "closed (delivery_token sch v ''delivery_id'')" "closed (delivery_token sch v ''attempt_id'')"
  "closed (redact_request_id v)" "closed (redact_occurrence v)" "closed (redact_text v)" "closed (closed_string v names)"
proof -
  show str: "closed (redact_string s)" for s by (simp add: redact_string_def REDACTION_REASON_CODES_def)
  show scalar: "closed (redact_scalar v)"
    by (cases v) (auto simp: redact_scalar_def REDACTION_REASON_CODES_def intro!: never_intros str split: pyfloat.splits option.splits)
  show "closed (schema_identity v)"
    by (cases v) (auto simp: schema_identity_def REDACTION_REASON_CODES_def intro!: never_intros str)
  show "closed (check_depth n)" by (auto simp: check_depth_def REDACTION_REASON_CODES_def intro!: never_intros)
  show "closed (non_negative_int v)" "closed (strict_bool v)"
    by (cases v; simp add: non_negative_int_def strict_bool_def REDACTION_REASON_CODES_def)+
  show "closed (retained_prefix_bytes v)"
    by (cases v) (simp_all add: retained_prefix_bytes_def utf8_encode_def REDACTION_REASON_CODES_def)
  show "closed (hash_identifier v)"
    by (cases v) (auto simp: hash_identifier_def utf8_encode_def REDACTION_REASON_CODES_def intro!: never_intros str
        dest!: redact_string_safe simp: clean_text_def)
  show "closed (validated_s2_token sch v)" "closed (delivery_token sch v ''delivery_id'')" "closed (delivery_token sch v ''attempt_id'')"
    "closed (redact_request_id v)"
    by (simp_all add: validated_s2_token_def validate_s2_token_def delivery_token_def validate_delivery_scalar_def
        redact_request_id_def validate_request_id_scalar_def value_error_as_def REDACTION_REASON_CODES_def)
  show "closed (redact_occurrence v)"
    by (cases v) (auto simp: redact_occurrence_def REDACTION_REASON_CODES_def intro!: never_intros str split: iso_outcome.splits)
  show "closed (redact_text v)" by (auto simp: redact_text_def intro!: never_intros scalar)
  show "closed (closed_string v names)"
    by (auto simp: closed_string_def REDACTION_REASON_CODES_def intro!: never_intros scalar split: pyval.splits)
qed

lemma closed_fields [never_intros]:
  "closed (redact_stderr v depth)" "closed (redact_attempts sch v)" "closed (redact_review_references sch v)"
proof -
  show "closed (redact_stderr v depth)"
    unfolding redact_stderr_def Let_def by (intro never_intros) (simp_all add: REDACTION_REASON_CODES_def)
  have "closed (redact_attempt sch x)" "closed (redact_review sch x)" for x
    unfolding redact_attempt_def redact_review_def Let_def
    by (intro never_intros; simp add: REDACTION_REASON_CODES_def)+
  then show "closed (redact_attempts sch v)" "closed (redact_review_references sch v)"
    unfolding redact_attempts_def redact_review_references_def
    by (intro never_intros; simp add: REDACTION_REASON_CODES_def)+
qed

lemma closed_leaf [never_intros]: "closed (redact_leaf sch k raw depth)"
  unfolding redact_leaf_def Let_def by (intro never_intros) simp_all

lemma closed_mapping: "closed (redact_mapping sch allowed depth d)"
proof (induction sch allowed depth d rule: redact_mapping.induct)
  case (1 sch allowed depth d)
  have "closed (redact_entry sch allowed (redact_mapping sch SAFE_DIAGNOSTIC_FIELDS (Suc depth)) depth kv)" if kv: "kv \<in> set d" for kv
    by (cases "fst kv"; cases "snd kv")
      (auto simp: redact_entry_def redact_field_def REDACTION_REASON_CODES_def intro!: never_intros "1.IH" [OF kv])
  then show ?case
    by (subst redact_mapping.simps) (auto intro!: never_intros)
qed

text \<open>
  Redaction fails closed: a failure always carries one of the closed reason codes, the catch-all for an unexpected exception
  is never needed, and no exception escapes.
\<close>

theorem redaction_fails_closed:
  shows "(redact_document sch v = Inr (RedactionFailure r) \<longrightarrow>
      r \<in> set REDACTION_REASON_CODES \<and> r \<noteq> ''unexpected_redaction_exception'') \<and>
    (redact_document sch v = Inl e \<longrightarrow> (\<exists>why. e = Unmodelled why))"
proof (cases v)
  case (PDict d)
  show ?thesis
  proof (cases "redact_mapping sch SAFE_TOP_LEVEL_FIELDS 0 d")
    case (Inl e')
    then have "closed_failure e'" using neverD [OF closed_mapping] by blast
    then show ?thesis using PDict Inl by (cases e') (auto simp: redact_document_def safe_redaction_reason_def)
  next
    case (Inr r')
    then show ?thesis using PDict by (auto simp: redact_document_def REDACTION_REASON_CODES_def)
  qed
qed (auto simp: redact_document_def REDACTION_REASON_CODES_def)

theorem redaction_fails_closed_witness:
  "redact_document schema_scalar (PDict [(sv ''adapter_id'', PInt 7)]) = Inr (RedactionFailure ''schema_identity_not_string'') \<and>
   ''schema_identity_not_string'' \<in> set REDACTION_REASON_CODES"
proof -
  have "redact_document schema_scalar (PDict [(sv ''adapter_id'', PInt 7)]) = Inr (RedactionFailure ''schema_identity_not_string'')"
    by (simp add: redaction_eval redact_leaf_def leaf_tables schema_identity_def safe_redaction_reason_def
        REDACTION_REASON_CODES_def)
  then show ?thesis using redaction_fails_closed [of schema_scalar "PDict [(sv ''adapter_id'', PInt 7)]"] by blast
qed

end
