(* ===== verification/AdapterState.thy ===== *)
theory AdapterState
  imports Redaction
begin

text \<open>
  The append-only quarantine and recovery store: \<open>llm_collab/runtime_adapter_state.py\<close>. A database is its schema version
  and its event rows; every event is a redacted document stored as canonical JSON with its SHA-256 digest, and a
  record's state is folded from its rows on every read. \<open>sch\<close> is the scalar schema validator (see \<open>Conformance\<close>). The
  values SQLite stores are taken to have the column's declared type.
\<close>

section \<open>Constants\<close>

definition SCHEMA_VERSION :: int where [simp]: "SCHEMA_VERSION = 2"
definition FRESH_HEALTHY_SEQUENCE_LENGTH :: nat where "FRESH_HEALTHY_SEQUENCE_LENGTH = 3"
definition MAX_ADAPTER_STATE_EVENTS :: nat where "MAX_ADAPTER_STATE_EVENTS = 4096"

datatype event_kind =
  QuarantineOpened | RecoveryAuthorized | AttemptReconciled | FreshHandshake | HealthFailed | ValidHealth | ReleaseReviewed | Released

definition IDENTITY_FIELDS :: "string list" where
  "IDENTITY_FIELDS = [''adapter_id'', ''adapter_revision'', ''manifest_id'', ''manifest_revision'', ''profile_id'',
     ''capability_set_id'', ''capability_set_revision'', ''endpoint_id'', ''workspace_id'', ''scope_identity'']"

definition LEGACY_IDENTITY_FIELDS :: "string list" where
  "LEGACY_IDENTITY_FIELDS = [''adapter_id'', ''adapter_revision'', ''manifest_id'', ''manifest_revision'', ''profile_id'',
     ''endpoint_id'', ''workspace_id'', ''scope_identity'']"

section \<open>Canonical text\<close>

definition canonical_json :: "pyval \<Rightarrow> pyerr + pystr" where
  "canonical_json v = dumps False v"

definition json_load :: "pystr \<Rightarrow> pyerr + pyval" where
  "json_load s = loads plain_opts s"

section \<open>Attempt tuples\<close>

type_synonym attempt = "pyval \<times> pyval \<times> pyval"

definition attempt_key :: "attempt \<Rightarrow> attempt" where
  "attempt_key a = (case a of (x, y, z) \<Rightarrow> (py_key x, py_key y, py_key z))"

definition attempt_in :: "attempt \<Rightarrow> attempt list \<Rightarrow> bool" where
  "attempt_in a as \<longleftrightarrow> list_ex (\<lambda>b. attempt_key b = attempt_key a) as"

text \<open>Sets of attempts as lists without equal members: \<open>update\<close> and \<open>difference_update\<close>.\<close>

definition attempts_update :: "attempt list \<Rightarrow> attempt list \<Rightarrow> attempt list" where
  "attempts_update s as = fold (\<lambda>a s. if attempt_in a s then s else s @ [a]) as s"

definition attempts_minus :: "attempt list \<Rightarrow> attempt list \<Rightarrow> attempt list" where
  "attempts_minus s as = filter (\<lambda>a. \<not> attempt_in a as) s"

text \<open>
  Sorting tuples of scalars compares the request ids first. Two ids of different kinds (text, number, none) have no order, and
  sorting must compare neighbours of the result, so it raises exactly when two kinds occur.
\<close>

fun order_class :: "pyval \<Rightarrow> nat" where
  "order_class (PStr _) = 0"
| "order_class (PInt _) = 1"
| "order_class (PFloat _) = 1"
| "order_class _ = 2"

fun number_of :: "pyval \<Rightarrow> rat" where
  "number_of (PInt n) = of_int n"
| "number_of (PFloat (Fin q)) = q"
| "number_of _ = 0"

definition attempt_le :: "attempt \<Rightarrow> attempt \<Rightarrow> bool" where
  "attempt_le a b =
     (case (a, b) of ((x, y, z), (x', y', z')) \<Rightarrow>
        if py_key x \<noteq> py_key x' then
          (if order_class x = 0 then str_of x < str_of x' else number_of x < number_of x')
        else if y \<noteq> y' then str_of y < str_of y'
        else str_of z \<le> str_of z')"

fun insert_by :: "('a \<Rightarrow> 'a \<Rightarrow> bool) \<Rightarrow> 'a \<Rightarrow> 'a list \<Rightarrow> 'a list" where
  "insert_by le a [] = [a]"
| "insert_by le a (b # bs) = (if le a b then a # b # bs else b # insert_by le a bs)"

definition sort_by :: "('a \<Rightarrow> 'a \<Rightarrow> bool) \<Rightarrow> 'a list \<Rightarrow> 'a list" where
  "sort_by le as = foldr (insert_by le) as []"

definition comparable :: "attempt list \<Rightarrow> bool" where
  "comparable as \<longleftrightarrow> (\<forall>a \<in> set as. \<forall>b \<in> set as. order_class (fst a) = order_class (fst b))"

definition sorted_attempts :: "attempt list \<Rightarrow> pyerr + attempt list" where
  "sorted_attempts as =
     (if comparable as then Inr (sort_by attempt_le as)
      else Inl (TypeErr ''not supported between instances of different types''))"

definition attempt_tuple :: "attempt \<Rightarrow> pyval" where
  "attempt_tuple a = (case a of (x, y, z) \<Rightarrow> PTuple [x, y, z])"

section \<open>Scalars of a payload\<close>

definition unsafe_text :: "pystr \<Rightarrow> bool" where
  "unsafe_text s \<longleftrightarrow> 0 \<in> set s \<or> contains_surrogate s"

definition required_incident_id :: "schema \<Rightarrow> pydict \<Rightarrow> pyerr + pyval" where
  "required_incident_id sch p =
     (case validate_s2_token sch (dget_none ''incident_id'' p) of
        Inr v \<Rightarrow> Inr v
      | Inl e \<Rightarrow> if is_value_error e then Inl (ValueErr ''redacted record requires a valid incident_id'') else Inl e)"

definition bounded_text :: "pyval \<Rightarrow> bool" where
  "bounded_text v = (case v of PStr s \<Rightarrow> s \<noteq> [] \<and> length s \<le> 128 \<and> \<not> unsafe_text s | _ \<Rightarrow> False)"

definition legacy_incident_id :: "pydict \<Rightarrow> pyerr + pyval" where
  "legacy_incident_id p =
     (let v = dget_none ''incident_id'' p in
      if bounded_text v then Inr v else Inl (ValueErr ''legacy adapter-state incident_id is invalid''))"

definition legacy_request_id :: "pyval \<Rightarrow> pyerr + pyval" where
  "legacy_request_id v =
     (case v of
        PNone \<Rightarrow> Inr v
      | PInt n \<Rightarrow> Inr v
      | PFloat (Fin q) \<Rightarrow> Inr v
      | PFloat NegZero \<Rightarrow> Inr v
      | PStr s \<Rightarrow> if unsafe_text s then Inl (ValueErr ''legacy RequestId is invalid'') else Inr v
      | _ \<Rightarrow> Inl (ValueErr ''legacy RequestId is invalid''))"

definition legacy_delivery_scalar :: "pyval \<Rightarrow> string \<Rightarrow> pyerr + pyval" where
  "legacy_delivery_scalar v field =
     (let prefix = (if field = ''delivery_id'' then lit ''delivery_'' else lit ''attempt_'') in
      case v of
        PStr s \<Rightarrow>
          if starts_with prefix s \<and> length s \<le> 128 \<and> \<not> unsafe_text s then Inr v
          else Inl (ValueErr ''legacy DeliveryV1 scalar is invalid'')
      | _ \<Rightarrow> Inl (ValueErr ''legacy DeliveryV1 scalar is invalid''))"

definition legacy_valid_identity :: "pyval \<Rightarrow> bool" where
  "legacy_valid_identity v = bounded_text v"

definition valid_s2_token :: "schema \<Rightarrow> pyval \<Rightarrow> bool" where
  "valid_s2_token sch v = (case validate_s2_token sch v of Inr _ \<Rightarrow> True | Inl e \<Rightarrow> \<not> is_value_error e)"

definition required_identity :: "pydict \<Rightarrow> string \<Rightarrow> pyerr + pyval" where
  "required_identity p field =
     (case dget field p of
        None \<Rightarrow> Inl (ValueErr ''redacted record missing required identity field'')
      | Some v \<Rightarrow>
          if v = PNone then Inl (ValueErr ''redacted record missing required identity field'') else Inr v)"

section \<open>Scope and identity\<close>

text \<open>\<open>segment.removeprefix(prefix)\<close> for the segments that have it.\<close>

definition scope_project_id :: "pyval \<Rightarrow> pyerr + pystr option" where
  "scope_project_id v =
     (case v of
        PStr s \<Rightarrow>
          let vals = map (drop 8) (filter (starts_with (lit ''project:'')) (split_on 124 s)) in
          if length vals > 1 \<or> list_ex (\<lambda>x. x = []) vals then
            Inl (ValueErr ''adapter-state scope_identity has invalid project scope'')
          else Inr (case vals of [] \<Rightarrow> None | x # _ \<Rightarrow> Some x)
      | _ \<Rightarrow> Inl AttributeErr)"

definition has_scope_segment :: "pyval \<Rightarrow> string \<Rightarrow> pyerr + bool" where
  "has_scope_segment v kind =
     (case v of
        PStr s \<Rightarrow> let prefix = lit (kind @ '':'') in
          Inr (list_ex (\<lambda>seg. starts_with prefix seg \<and> seg \<noteq> prefix) (split_on 124 s))
      | _ \<Rightarrow> Inl AttributeErr)"

text \<open>The project id of a scope, agreeing with the payload; the messages differ between the two grammars.\<close>

definition scoped_project :: "pydict \<Rightarrow> pyval \<Rightarrow> pyerr + pydict" where
  "scoped_project p scope =
     rbind (scope_project_id scope) (\<lambda>project.
     case project of
       Some pr \<Rightarrow>
         rbind (required_identity p ''project_id'') (\<lambda>v.
         if py_eq v (PStr pr) then Inr [(sv ''project_id'', v)]
         else Inl (ValueErr ''project_id must match scope_identity''))
     | None \<Rightarrow>
         rbind (has_scope_segment scope ''workspace'') (\<lambda>ws.
         if ws then
           (if dget_none ''project_id'' p \<noteq> PNone then Inl (ValueErr ''workspace-scope records must not carry project_id'')
            else Inr [])
         else Inl (ValueErr ''scope_identity must denote project or workspace scope'')))"

definition identity_fields :: "string list \<Rightarrow> pydict \<Rightarrow> pyerr + pydict" where
  "identity_fields names p = rmap (\<lambda>f. rbind (required_identity p f) (\<lambda>v. Inr (sv f, v))) names"

definition base_identity :: "pydict \<Rightarrow> pyerr + pydict" where
  "base_identity p =
     rbind (identity_fields IDENTITY_FIELDS p) (\<lambda>ident.
     rbind (scoped_project p (dget_none ''scope_identity'' ident)) (\<lambda>project.
     Inr (ident @ project)))"

definition record_identity :: "schema \<Rightarrow> pydict \<Rightarrow> pyerr + pydict" where
  "record_identity sch p =
     rbind (required_incident_id sch p) (\<lambda>i. rbind (base_identity p) (\<lambda>b. Inr ((sv ''incident_id'', i) # b)))"

definition legacy_base_identity :: "pydict \<Rightarrow> pyerr + pydict" where
  "legacy_base_identity p =
     rbind (identity_fields LEGACY_IDENTITY_FIELDS p) (\<lambda>ident.
     rbind (rmap (\<lambda>fv. require (bounded_text (snd fv)) (ValueErr ''legacy adapter-state field is invalid'')) ident) (\<lambda>_.
     rbind (scoped_project p (dget_none ''scope_identity'' ident)) (\<lambda>_.
     Inr ident)))"

section \<open>Payload validation\<close>

definition scalar_tuple :: "schema \<Rightarrow> int \<Rightarrow> pydict \<Rightarrow> pyerr + attempt" where
  "scalar_tuple sch version a =
     (let original = dget_none ''original_request_id'' a; delivery = dget_none ''delivery_id'' a;
          att = dget_none ''attempt_id'' a in
      if version = 1 then
        rbind (legacy_request_id original) (\<lambda>x.
        rbind (legacy_delivery_scalar delivery ''delivery_id'') (\<lambda>y.
        rbind (legacy_delivery_scalar att ''attempt_id'') (\<lambda>z. Inr (x, y, z))))
      else
        rbind (validate_request_id_scalar original) (\<lambda>x.
        rbind (validate_delivery_scalar sch delivery ''delivery_id'') (\<lambda>y.
        rbind (validate_delivery_scalar sch att ''attempt_id'') (\<lambda>z. Inr (x, y, z)))))"

definition add_attempt :: "schema \<Rightarrow> int \<Rightarrow> attempt list \<Rightarrow> pyval \<Rightarrow> pyerr + attempt list" where
  "add_attempt sch version acc v =
     (if \<not> (is_dict v \<and> keys_are ATTEMPT_FIELDS (dict_of v)) then
        Inl (ValueErr ''adapter-state attempt tuple is incomplete'')
      else
        rbind (case scalar_tuple sch version (dict_of v) of
                 Inr t \<Rightarrow> Inr t
               | Inl e \<Rightarrow> if is_value_error e then Inl (ValueErr ''adapter-state attempt tuple scalar is invalid'') else Inl e)
          (\<lambda>t. if attempt_in t acc then Inl (ValueErr ''adapter-state attempt tuple is duplicated'')
               else Inr (acc @ [t])))"

definition attempt_tuples :: "schema \<Rightarrow> int \<Rightarrow> pydict \<Rightarrow> pyerr + attempt list" where
  "attempt_tuples sch version p =
     (case dget_none ''attempts'' p of
        PList as \<Rightarrow> rfold (add_attempt sch version) [] as
      | _ \<Rightarrow> Inl (ValueErr ''adapter-state attempts are required''))"

definition review_matches :: "schema \<Rightarrow> int \<Rightarrow> pydict \<Rightarrow> pyval \<Rightarrow> bool" where
  "review_matches sch version p v \<longleftrightarrow> is_dict v \<and> keys_are REVIEW_REFERENCE_FIELDS (dict_of v) \<and>
     list_all (\<lambda>f. py_eq (dget_none f (dict_of v)) (dget_none f p))
       [''manifest_id'', ''manifest_revision'', ''capability_set_id'', ''capability_set_revision''] \<and>
     (if version = SCHEMA_VERSION then valid_s2_token sch (dget_none ''diagnostic_id'' (dict_of v))
      else legacy_valid_identity (dget_none ''diagnostic_id'' (dict_of v)))"

definition review_matches_incident :: "schema \<Rightarrow> int \<Rightarrow> pydict \<Rightarrow> bool" where
  "review_matches_incident sch version p =
     (case dget_none ''review_references'' p of
        PList refs \<Rightarrow> refs \<noteq> [] \<and> list_all (review_matches sch version p) refs
      | _ \<Rightarrow> False)"

definition legacy_markers :: "string list" where
  "legacy_markers = [''incident_id'', ''occurrence_at_utc'', ''attempts'', ''capability_set_id'', ''capability_set_revision'']"

text \<open>\<open>field in payload\<close> for whatever the JSON text decoded to.\<close>

definition contains_name :: "string \<Rightarrow> pyval \<Rightarrow> pyerr + bool" where
  "contains_name f v =
     (case v of
        PDict d \<Rightarrow> Inr (has_key f d)
      | PList xs \<Rightarrow> Inr (sv f \<in> set xs)
      | PStr s \<Rightarrow> Inr (sublist (lit f) s)
      | _ \<Rightarrow> Inl (TypeErr ''argument is not iterable''))"

fun any_missing :: "string list \<Rightarrow> pyval \<Rightarrow> pyerr + bool" where
  "any_missing [] v = Inr False"
| "any_missing (f # fs) v = rbind (contains_name f v) (\<lambda>there. if there then any_missing fs v else Inr True)"

definition is_true_legacy_payload :: "pyval \<Rightarrow> pyerr + bool" where
  "is_true_legacy_payload v = any_missing legacy_markers v"

definition validate_legacy_event_payload :: "pydict \<Rightarrow> pyerr + unit" where
  "validate_legacy_event_payload p =
     rbind (legacy_base_identity p) (\<lambda>_.
     case dget ''request_id'' p of None \<Rightarrow> Inr () | Some v \<Rightarrow> rbind (legacy_request_id v) (\<lambda>_. Inr ()))"

definition validate_event_payload :: "schema \<Rightarrow> event_kind \<Rightarrow> int \<Rightarrow> pyval \<Rightarrow> pyerr + unit" where
  "validate_event_payload sch kind version v =
     (if \<not> is_dict v then Inl (ValueErr ''adapter-state payload must be an object'')
      else if version \<notin> {1, SCHEMA_VERSION} then Inl (ValueErr ''adapter-state event schema version is invalid'')
      else
        let p = dict_of v in
        rbind (is_true_legacy_payload v) (\<lambda>legacy.
        if version = 1 \<and> legacy then validate_legacy_event_payload p
        else
          rbind (if version = 1 then legacy_incident_id p else required_incident_id sch p) (\<lambda>_.
          rbind (required_identity p ''occurrence_at_utc'') (\<lambda>occ.
          rbind (require (is_str occ \<and> ends_with (lit ''Z'') (str_of occ)) (ValueErr ''adapter-state occurrence timestamp is invalid'')) (\<lambda>_.
          rbind (base_identity p) (\<lambda>_.
          rbind (attempt_tuples sch version p) (\<lambda>as.
          rbind (require (kind = AttemptReconciled \<longrightarrow> length as = 1) (ValueErr ''attempt_reconciled requires exactly one attempt'')) (\<lambda>_.
          rbind (require (kind = HealthFailed \<longrightarrow> truthy (dget_none ''health_failure_reason'' p)) (ValueErr ''health_failed requires a failure reason'')) (\<lambda>_.
          require (kind = ReleaseReviewed \<longrightarrow> review_matches_incident sch version p)
            (ValueErr ''release_reviewed requires matching review references''))))))))))"

section \<open>Rows and the fold\<close>

record event_row =
  er_sequence :: int
  er_record_id :: pystr
  er_kind :: event_kind
  er_payload_json :: pystr
  er_payload_sha256 :: pystr
  er_version :: int
  er_append_time :: pystr

record record_state =
  rs_incident_id :: pyval
  rs_opened :: bool
  rs_recovery_authorized :: bool
  rs_unresolved :: "attempt list"
  rs_reconciled :: "attempt list"
  rs_fresh_handshake :: bool
  rs_valid_health_count :: nat
  rs_health_failure_count :: nat
  rs_release_reviewed :: bool
  rs_release_event_seen :: bool
  rs_released :: bool
  rs_event_count :: nat

definition empty_state :: record_state where
  "empty_state =
     \<lparr>rs_incident_id = PStr [], rs_opened = False, rs_recovery_authorized = False, rs_unresolved = [],
      rs_reconciled = [], rs_fresh_handshake = False, rs_valid_health_count = 0, rs_health_failure_count = 0,
      rs_release_reviewed = False, rs_release_event_seen = False, rs_released = False, rs_event_count = 0\<rparr>"

text \<open>What the state machine reads of one event, once its row is checked.\<close>

record event =
  ev_kind :: event_kind
  ev_version :: int
  ev_attempts :: "attempt list"
  ev_review_ok :: bool

definition apply_event :: "event \<Rightarrow> record_state \<Rightarrow> record_state" where
  "apply_event e s =
     (let as = ev_attempts e in
      case ev_kind e of
        QuarantineOpened \<Rightarrow> s\<lparr>rs_opened := True, rs_unresolved := attempts_update (rs_unresolved s) as\<rparr>
      | RecoveryAuthorized \<Rightarrow>
          if rs_opened s then s\<lparr>rs_recovery_authorized := True, rs_release_reviewed := False,
            rs_fresh_handshake := False, rs_valid_health_count := 0\<rparr> else s
      | AttemptReconciled \<Rightarrow>
          if rs_fresh_handshake s then s\<lparr>rs_reconciled := attempts_update (rs_reconciled s) as,
            rs_unresolved := attempts_minus (rs_unresolved s) as\<rparr> else s
      | FreshHandshake \<Rightarrow>
          if rs_recovery_authorized s then s\<lparr>rs_fresh_handshake := True, rs_valid_health_count := 0\<rparr> else s
      | HealthFailed \<Rightarrow> s\<lparr>rs_health_failure_count := Suc (rs_health_failure_count s), rs_fresh_handshake := False,
          rs_valid_health_count := 0\<rparr>
      | ValidHealth \<Rightarrow>
          if rs_fresh_handshake s then s\<lparr>rs_valid_health_count := Suc (rs_valid_health_count s)\<rparr> else s
      | ReleaseReviewed \<Rightarrow> if ev_review_ok e then s\<lparr>rs_release_reviewed := True\<rparr> else s
      | Released \<Rightarrow>
          s\<lparr>rs_release_event_seen := True,
            rs_released := rs_released s \<or>
              (rs_opened s \<and> rs_recovery_authorized s \<and> (rs_release_reviewed s \<or> ev_version e = 1) \<and>
               rs_unresolved s = [] \<and> rs_fresh_handshake s \<and>
               FRESH_HEALTHY_SEQUENCE_LENGTH \<le> rs_valid_health_count s)\<rparr>)"

text \<open>Errors that \<open>except (TypeError, ValueError, json.JSONDecodeError)\<close> turns into an integrity error.\<close>

definition integrity_checked :: "pyerr + 'a \<Rightarrow> pyerr + 'a" where
  "integrity_checked m =
     (case m of Inr v \<Rightarrow> Inr v
      | Inl e \<Rightarrow> if is_value_error e \<or> is_type_error e then Inl (IntegrityErr ''adapter-state event payload is invalid'')
                 else Inl e)"

definition check_digest :: "event_row \<Rightarrow> pyerr + unit" where
  "check_digest r =
     rbind (digest_of (er_payload_json r)) (\<lambda>h.
     require (h = er_payload_sha256 r) (IntegrityErr ''adapter-state payload digest mismatch''))"

type_synonym dedupe_key = "event_kind \<times> pyval \<times> pystr"

definition row_payload :: "schema \<Rightarrow> int \<Rightarrow> event_row \<Rightarrow> pyerr + pydict" where
  "row_payload sch version r =
     integrity_checked (rbind (json_load (er_payload_json r)) (\<lambda>v.
       rbind (validate_event_payload sch (er_kind r) version v) (\<lambda>_. Inr (dict_of v))))"

text \<open>\<open>set(_attempt_tuples(payload))\<close>: the validated attempts are already distinct.\<close>

definition event_of :: "schema \<Rightarrow> event_row \<Rightarrow> pydict \<Rightarrow> pyerr + event \<times> dedupe_key" where
  "event_of sch r p =
     rbind (attempt_tuples sch (er_version r) p) (\<lambda>as.
     rbind (case dget ''occurrence_at_utc'' p of None \<Rightarrow> Inl KeyErr | Some v \<Rightarrow> Inr v) (\<lambda>occ.
     rbind (sorted_attempts as) (\<lambda>sorted_as.
     rbind (canonical_json (PList (map attempt_tuple sorted_as))) (\<lambda>t.
     rbind (require (hashable occ) (TypeErr ''unhashable type'')) (\<lambda>_.
     Inr (\<lparr>ev_kind = er_kind r, ev_version = er_version r, ev_attempts = as,
           ev_review_ok = review_matches_incident sch (er_version r) p\<rparr>, (er_kind r, py_key occ, t)))))))"

definition check_incident :: "pydict \<Rightarrow> record_state \<Rightarrow> pyerr + record_state" where
  "check_incident p s =
     rbind (case dget ''incident_id'' p of None \<Rightarrow> Inl KeyErr | Some v \<Rightarrow> Inr v) (\<lambda>v.
     let s' = (if truthy (rs_incident_id s) then s else s\<lparr>rs_incident_id := v\<rparr>) in
     rbind (require (py_eq v (rs_incident_id s')) (IntegrityErr ''adapter-state incident identity mismatch'')) (\<lambda>_. Inr s'))"

definition fold_row :: "schema \<Rightarrow> record_state \<times> dedupe_key list \<Rightarrow> event_row \<Rightarrow> pyerr + record_state \<times> dedupe_key list" where
  "fold_row sch acc r =
     (case acc of (s, seen) \<Rightarrow>
      rbind (check_digest r) (\<lambda>_.
      rbind (require (er_version r \<in> {1, SCHEMA_VERSION}) (IntegrityErr ''adapter-state event schema version is invalid'')) (\<lambda>_.
      rbind (row_payload sch (er_version r) r) (\<lambda>p.
      rbind (check_incident p s) (\<lambda>s'.
      rbind (event_of sch r p) (\<lambda>(e, key).
      if key \<in> set seen then Inr (s', seen)
      else Inr ((apply_event e s')\<lparr>rs_event_count := Suc (rs_event_count s')\<rparr>, seen @ [key])))))))"

text \<open>The state a reader gets, with the attempts sorted and labelled.\<close>

record adapter_record_state =
  ars_record_id :: pystr
  ars_incident_id :: pyval
  ars_opened :: bool
  ars_recovery_authorized :: bool
  ars_unresolved_attempts :: "pystr list"
  ars_reconciled_attempts :: "pystr list"
  ars_unresolved_tuples :: "attempt list"
  ars_reconciled_tuples :: "attempt list"
  ars_fresh_handshake :: bool
  ars_valid_health_count :: nat
  ars_health_failure_count :: nat
  ars_release_reviewed :: bool
  ars_release_event_seen :: bool
  ars_released :: bool
  ars_event_count :: nat
  ars_journal :: "(int \<times> event_kind \<times> pystr) list"

definition attempt_label :: "attempt \<Rightarrow> pyerr + pystr" where
  "attempt_label a = canonical_json (PDict [(sv ''request_id'', fst a)])"

definition labels :: "attempt list \<Rightarrow> pyerr + pystr list" where
  "labels as = rbind (rmap attempt_label as) (\<lambda>ts. Inr (sort ts))"

definition finish :: "(attempt list \<Rightarrow> pyerr + attempt list) \<Rightarrow> pystr \<Rightarrow> record_state \<Rightarrow> pyerr + adapter_record_state" where
  "finish order rid s =
     rbind (labels (rs_unresolved s)) (\<lambda>ul.
     rbind (labels (rs_reconciled s)) (\<lambda>rl.
     rbind (order (rs_unresolved s)) (\<lambda>ut.
     rbind (order (rs_reconciled s)) (\<lambda>rt.
     Inr \<lparr>ars_record_id = rid, ars_incident_id = rs_incident_id s, ars_opened = rs_opened s,
          ars_recovery_authorized = rs_recovery_authorized s, ars_unresolved_attempts = ul, ars_reconciled_attempts = rl,
          ars_unresolved_tuples = ut, ars_reconciled_tuples = rt, ars_fresh_handshake = rs_fresh_handshake s,
          ars_valid_health_count = rs_valid_health_count s, ars_health_failure_count = rs_health_failure_count s,
          ars_release_reviewed = rs_release_reviewed s, ars_release_event_seen = rs_release_event_seen s,
          ars_released = rs_released s, ars_event_count = rs_event_count s, ars_journal = []\<rparr>))))"

section \<open>The legacy journal\<close>

definition kind_name :: "event_kind \<Rightarrow> string" where
  "kind_name k =
     (case k of QuarantineOpened \<Rightarrow> ''quarantine_opened'' | RecoveryAuthorized \<Rightarrow> ''recovery_authorized''
      | AttemptReconciled \<Rightarrow> ''attempt_reconciled'' | FreshHandshake \<Rightarrow> ''fresh_handshake'' | HealthFailed \<Rightarrow> ''health_failed''
      | ValidHealth \<Rightarrow> ''valid_health'' | ReleaseReviewed \<Rightarrow> ''release_reviewed'' | Released \<Rightarrow> ''released'')"

definition legacy_key :: "event_row \<Rightarrow> pystr option \<Rightarrow> pyerr + event_kind \<times> pystr" where
  "legacy_key r label =
     (let k = er_kind r in
      if k = QuarantineOpened then Inr (k, lit ''record'')
      else if k \<in> {HealthFailed, ReleaseReviewed} then rbind (int_text (er_sequence r)) (\<lambda>t. Inr (k, t))
      else Inr (k, case label of None \<Rightarrow> lit (''missing-'' @ kind_name k @ ''-request'') | Some t \<Rightarrow> t))"

definition apply_legacy :: "event_kind \<Rightarrow> attempt option \<Rightarrow> record_state \<Rightarrow> record_state" where
  "apply_legacy k att s =
     (let as = (case att of None \<Rightarrow> [] | Some a \<Rightarrow> [a]) in
      case k of
        QuarantineOpened \<Rightarrow> s\<lparr>rs_opened := True, rs_unresolved := attempts_update (rs_unresolved s) as\<rparr>
      | RecoveryAuthorized \<Rightarrow>
          if rs_opened s then s\<lparr>rs_recovery_authorized := True, rs_fresh_handshake := False, rs_valid_health_count := 0\<rparr> else s
      | AttemptReconciled \<Rightarrow>
          if rs_fresh_handshake s then s\<lparr>rs_reconciled := attempts_update (rs_reconciled s) as,
            rs_unresolved := attempts_minus (rs_unresolved s) as\<rparr> else s
      | FreshHandshake \<Rightarrow>
          if rs_recovery_authorized s then s\<lparr>rs_fresh_handshake := True, rs_valid_health_count := 0\<rparr> else s
      | ValidHealth \<Rightarrow>
          if rs_fresh_handshake s \<and> att \<noteq> None then s\<lparr>rs_valid_health_count := Suc (rs_valid_health_count s)\<rparr> else s
      | Released \<Rightarrow>
          s\<lparr>rs_release_event_seen := True,
            rs_released := rs_released s \<or>
              (rs_opened s \<and> rs_recovery_authorized s \<and> rs_unresolved s = [] \<and> rs_fresh_handshake s \<and>
               FRESH_HEALTHY_SEQUENCE_LENGTH \<le> rs_valid_health_count s)\<rparr>
      | _ \<Rightarrow> s)"

definition legacy_row ::
  "schema \<Rightarrow> record_state \<times> (event_kind \<times> pystr) list \<Rightarrow> event_row \<Rightarrow> pyerr + record_state \<times> (event_kind \<times> pystr) list" where
  "legacy_row sch acc r =
     (case acc of (s, seen) \<Rightarrow>
      rbind (check_digest r) (\<lambda>_.
      rbind (row_payload sch 1 r) (\<lambda>p.
      let rid = dget_none ''request_id'' p in
      rbind (legacy_request_id rid) (\<lambda>a.
      rbind (if a = PNone then Inr None else rbind (attempt_label (a, PNone, PNone)) (\<lambda>t. Inr (Some t))) (\<lambda>label.
      rbind (legacy_key r label) (\<lambda>key.
      if key \<in> set seen then Inr (s, seen)
      else Inr ((apply_legacy (er_kind r) (if a = PNone then None else Some (a, PNone, PNone)) s)
                  \<lparr>rs_event_count := Suc (rs_event_count s)\<rparr>, seen @ [key])))))))"

definition sort_by_text :: "attempt list \<Rightarrow> pyerr + attempt list" where
  "sort_by_text as =
     rbind (rmap (\<lambda>a. rbind (canonical_json (attempt_tuple a)) (\<lambda>t. Inr (t, a))) as)
       (\<lambda>its. Inr (map snd (sort_key fst its)))"

text \<open>A value of the legacy grammar that decodes to JSON but is no container makes the membership test itself raise.\<close>

definition row_is_legacy :: "event_row \<Rightarrow> pyerr + bool" where
  "row_is_legacy r =
     (if er_version r \<noteq> 1 then Inr False
      else
        case json_load (er_payload_json r) of
          Inr v \<Rightarrow> is_true_legacy_payload v
        | Inl JSONDecodeErr \<Rightarrow> Inr False
        | Inl e \<Rightarrow> Inl e)"

fun all_true_legacy_v1 :: "event_row list \<Rightarrow> pyerr + bool" where
  "all_true_legacy_v1 [] = Inr True"
| "all_true_legacy_v1 (r # rs) = rbind (row_is_legacy r) (\<lambda>b. if b then all_true_legacy_v1 rs else Inr False)"

definition fold_rows :: "schema \<Rightarrow> pystr \<Rightarrow> event_row list \<Rightarrow> pyerr + adapter_record_state" where
  "fold_rows sch rid rows =
     rbind (if rows = [] then Inr False else all_true_legacy_v1 rows) (\<lambda>legacy.
     if legacy then
       rbind (rfold (legacy_row sch) (empty_state, []) rows) (\<lambda>acc.
       finish sort_by_text rid (fst acc))
     else
       rbind (rfold (fold_row sch) (empty_state, []) rows) (\<lambda>acc.
       finish sorted_attempts rid (fst acc)))"

section \<open>The database\<close>

text \<open>
  A database file: whether it exists, its schema version, and its table, absent before initialization. \<open>db_v2_columns\<close> says
  whether the table has the version column. Sequence numbers are never reused.
\<close>

record adapter_db =
  db_exists :: bool
  db_user_version :: int
  db_table :: "event_row list option"
  db_v2_columns :: bool

definition no_database :: adapter_db where
  "no_database = \<lparr>db_exists = False, db_user_version = 0, db_table = None, db_v2_columns = False\<rparr>"

definition rows_of :: "adapter_db \<Rightarrow> event_row list" where
  "rows_of db = (case db_table db of None \<Rightarrow> [] | Some rows \<Rightarrow> rows)"

definition record_rows :: "pystr \<Rightarrow> event_row list \<Rightarrow> event_row list" where
  "record_rows rid rows = filter (\<lambda>r. er_record_id r = rid) (sort_key er_sequence rows)"

definition unsupported :: "pyerr + 'a" where
  "unsupported = Inl (StoreErr ''adapter-state store schema version is unsupported'')"

definition preflight_v1_record :: "schema \<Rightarrow> pystr \<Rightarrow> event_row list \<Rightarrow> pyerr + unit" where
  "preflight_v1_record sch rid rows =
     rbind (fold_rows sch rid (map (\<lambda>r. r\<lparr>er_version := 1\<rparr>) rows)) (\<lambda>st.
     if ars_released st then Inr ()
     else
       rbind (case required_incident_id sch [(sv ''incident_id'', ars_incident_id st)] of
                Inr _ \<Rightarrow> Inr ()
              | Inl e \<Rightarrow> if is_value_error e then Inl (StoreErr ''incident identity is not writable under v2'') else Inl e) (\<lambda>_.
       let writable = (\<lambda>a. case attempt_tuples sch SCHEMA_VERSION [(sv ''attempts'', PList [PDict
              [(sv ''original_request_id'', fst a), (sv ''delivery_id'', fst (snd a)), (sv ''attempt_id'', snd (snd a))]])] of
              Inr _ \<Rightarrow> True | Inl e \<Rightarrow> \<not> (is_type_error e \<or> is_value_error e));
           blocked = filter (\<lambda>a. \<not> writable a) (ars_unresolved_tuples st) in
       if blocked = [] then Inr ()
       else rbind (sorted_attempts blocked) (\<lambda>_.
            Inl (StoreErr ''unresolved legacy attempt tuples are not writable under v2''))))"

text \<open>
  The rows in record order; a record is folded when the next one starts, and the count of rows is checked at each row.
\<close>

fun preflight_rows :: "schema \<Rightarrow> nat \<Rightarrow> event_row list \<Rightarrow> event_row list \<Rightarrow> pyerr + unit" where
  "preflight_rows sch n grp [] =
     (case grp of [] \<Rightarrow> Inr () | r # _ \<Rightarrow> preflight_v1_record sch (er_record_id r) grp)"
| "preflight_rows sch n grp (r # rs) =
     (if n \<ge> MAX_ADAPTER_STATE_EVENTS then Inl (StoreErr ''more than the maximum of v1 events'')
      else
        case grp of
          [] \<Rightarrow> preflight_rows sch (Suc n) [r] rs
        | g # _ \<Rightarrow>
            if er_record_id r \<noteq> er_record_id g then
              rbind (preflight_v1_record sch (er_record_id g) grp) (\<lambda>_. preflight_rows sch (Suc n) [r] rs)
            else preflight_rows sch (Suc n) (grp @ [r]) rs)"

definition preflight_v1_records :: "schema \<Rightarrow> event_row list \<Rightarrow> pyerr + unit" where
  "preflight_v1_records sch rows = preflight_rows sch 0 [] (sort_key er_record_id (sort_key er_sequence rows))"

definition migrate_schema_v1_to_v2 :: "schema \<Rightarrow> adapter_db \<Rightarrow> pyerr + adapter_db" where
  "migrate_schema_v1_to_v2 sch db =
     rbind (preflight_v1_records sch (rows_of db)) (\<lambda>_.
     Inr (db\<lparr>db_table := Some (map (\<lambda>r. r\<lparr>er_version := 1\<rparr>) (sort_key er_sequence (rows_of db))),
             db_v2_columns := True, db_user_version := SCHEMA_VERSION\<rparr>))"

definition ensure_schema :: "schema \<Rightarrow> adapter_db \<Rightarrow> pyerr + adapter_db" where
  "ensure_schema sch db =
     (let db' = db\<lparr>db_exists := True\<rparr> in
      case db_table db' of
        None \<Rightarrow>
          if db_user_version db' \<notin> {0, SCHEMA_VERSION} then unsupported
          else Inr (db'\<lparr>db_table := Some [], db_v2_columns := True, db_user_version := SCHEMA_VERSION\<rparr>)
      | Some _ \<Rightarrow>
          if db_user_version db' = SCHEMA_VERSION then (if db_v2_columns db' then Inr db' else unsupported)
          else if db_user_version db' \<noteq> 1 then unsupported
          else migrate_schema_v1_to_v2 sch db')"

definition require_schema :: "adapter_db \<Rightarrow> pyerr + unit" where
  "require_schema db =
     require (db_user_version db = SCHEMA_VERSION \<and> db_table db \<noteq> None) (StoreErr ''adapter-state store is not initialized'')"

definition is_hex :: "nat \<Rightarrow> bool" where
  "is_hex c \<longleftrightarrow> is_hex_digit c"

definition record_prefix :: pystr where "record_prefix = lit ''adapter_record_''"

definition require_record_id :: "pystr \<Rightarrow> pyerr + unit" where
  "require_record_id rid =
     require (starts_with record_prefix rid \<and> length rid = length record_prefix + 64 \<and> list_all is_hex (drop (length record_prefix) rid))
       (ValueErr ''invalid adapter-state record_id'')"

definition record_id_for :: "schema \<Rightarrow> pydict \<Rightarrow> pyerr + pystr" where
  "record_id_for sch p =
     rbind (required_incident_id sch p) (\<lambda>v.
     rbind (digest_of (str_of v)) (\<lambda>h. Inr (record_prefix @ h)))"

definition payload_of :: "redaction_result \<Rightarrow> pyerr + pydict" where
  "payload_of r =
     (case r of RedactedDocument _ \<Rightarrow> Inr (dict_of (as_dict r))
      | RedactionFailure _ \<Rightarrow> Inl (TypeErr ''adapter-state writes require RedactedDocument''))"

definition check_row_digest :: "event_row \<Rightarrow> pyerr + pydict" where
  "check_row_digest r =
     rbind (check_digest r) (\<lambda>_.
     rbind (json_load (er_payload_json r)) (\<lambda>v. if is_dict v then Inr (dict_of v) else Inl AttributeErr))"

definition require_matching_record_identity :: "schema \<Rightarrow> pystr \<Rightarrow> pydict \<Rightarrow> event_row list \<Rightarrow> pyerr + unit" where
  "require_matching_record_identity sch rid p rows =
     (case filter (\<lambda>r. er_kind r = QuarantineOpened) (record_rows rid rows) of
        [] \<Rightarrow> Inl (StoreErr ''adapter-state record is not initialized'')
      | r # _ \<Rightarrow>
          rbind (check_row_digest r) (\<lambda>stored.
          rbind (record_identity sch stored) (\<lambda>a.
          rbind (record_identity sch p) (\<lambda>b.
          require (py_eq (PDict a) (PDict b)) (ValueErr ''adapter-state event identity does not match record'')))))"

definition fold_record_rows :: "schema \<Rightarrow> pystr \<Rightarrow> event_row list \<Rightarrow> pyerr + adapter_record_state" where
  "fold_record_rows sch rid rows =
     (if length (record_rows rid rows) > MAX_ADAPTER_STATE_EVENTS then
        Inl (IntegrityErr ''adapter-state record exceeds the maximum of stored events'')
      else fold_rows sch rid (record_rows rid rows))"

definition next_sequence :: "event_row list \<Rightarrow> int" where
  "next_sequence rows = fold max (map er_sequence rows) 0 + 1"

text \<open>
  The write transaction on an open, migrated database: the checks in their order, then one row at the end. An error leaves the
  rows as they were.
\<close>

definition insert_event ::
  "schema \<Rightarrow> event_kind \<Rightarrow> pystr \<Rightarrow> pydict \<Rightarrow> pystr \<Rightarrow> pystr \<Rightarrow> pystr \<Rightarrow> event_row list \<Rightarrow> pyerr + event_row list" where
  "insert_event sch kind rid p json sha now rows =
     (let existing = (record_rows rid rows \<noteq> []);
          releases = filter (\<lambda>r. er_kind r = Released) (record_rows rid rows) in
      rbind (if kind \<noteq> QuarantineOpened \<or> existing then require_matching_record_identity sch rid p rows else Inr ()) (\<lambda>_.
      rbind (if releases \<noteq> [] then
               rbind (fold_record_rows sch rid rows) (\<lambda>st.
               require (\<not> ars_released st) (ValueErr ''released adapter incident rejects later evidence; create a new incident_id''))
             else Inr ()) (\<lambda>_.
      Inr (rows @ [\<lparr>er_sequence = next_sequence rows, er_record_id = rid, er_kind = kind, er_payload_json = json,
                    er_payload_sha256 = sha, er_version = SCHEMA_VERSION, er_append_time = now\<rparr>]))))"

definition prepare_event ::
  "schema \<Rightarrow> event_kind \<Rightarrow> redaction_result \<Rightarrow> pystr option \<Rightarrow> pyval option \<Rightarrow> pyerr + pystr \<times> pydict \<times> pystr \<times> pystr" where
  "prepare_event sch kind redacted record_id incident_id =
     rbind (payload_of redacted) (\<lambda>p.
     rbind (validate_event_payload sch kind SCHEMA_VERSION (PDict p)) (\<lambda>_.
     rbind (required_incident_id sch p) (\<lambda>payload_incident.
     rbind (if kind = QuarantineOpened then
              (case (record_id, incident_id) of
                 (None, Some i) \<Rightarrow>
                   if \<not> py_eq payload_incident i then Inl (ValueErr ''producer incident_id does not match redacted incident_id'')
                   else record_id_for sch p
               | _ \<Rightarrow> Inl (ValueErr ''quarantine_opened requires a producer incident_id''))
            else
              (case record_id of None \<Rightarrow> Inl (ValueErr ''adapter-state event requires a record_id'') | Some r \<Rightarrow> Inr r)) (\<lambda>rid.
     rbind (require_record_id rid) (\<lambda>_.
     rbind (canonical_json (PDict p)) (\<lambda>json.
     rbind (digest_of json) (\<lambda>sha. Inr (rid, p, json, sha))))))))"

definition append_event ::
  "schema \<Rightarrow> event_kind \<Rightarrow> redaction_result \<Rightarrow> pystr option \<Rightarrow> pyval option \<Rightarrow> pystr \<Rightarrow> adapter_db \<Rightarrow>
   (pyerr + pystr) \<times> adapter_db" where
  "append_event sch kind redacted record_id incident_id now db =
     (case prepare_event sch kind redacted record_id incident_id of
        Inl e \<Rightarrow> (Inl e, db)
      | Inr (rid, p, json, sha) \<Rightarrow>
          (case ensure_schema sch db of
             Inl e \<Rightarrow> (Inl e, db\<lparr>db_exists := True\<rparr>)
           | Inr db' \<Rightarrow>
               (case insert_event sch kind rid p json sha now (rows_of db') of
                  Inl e \<Rightarrow> (Inl e, db')
                | Inr rows \<Rightarrow> (Inr rid, db'\<lparr>db_table := Some rows\<rparr>))))"

definition initialize_store :: "schema \<Rightarrow> adapter_db \<Rightarrow> (pyerr + unit) \<times> adapter_db" where
  "initialize_store sch db =
     (case ensure_schema sch db of Inl e \<Rightarrow> (Inl e, db\<lparr>db_exists := True\<rparr>) | Inr db' \<Rightarrow> (Inr (), db'))"

text \<open>The two call forms of \<open>record_quarantine_opened\<close>: with the producer's incident id, or reading it off the document.\<close>

definition record_quarantine_opened ::
  "schema \<Rightarrow> pyval option \<Rightarrow> redaction_result \<Rightarrow> pystr \<Rightarrow> adapter_db \<Rightarrow> (pyerr + pystr) \<times> adapter_db" where
  "record_quarantine_opened sch incident redacted now db =
     (case incident of
        Some i \<Rightarrow> if is_str i then append_event sch QuarantineOpened redacted None (Some i) now db
                  else (Inl (TypeErr ''incident_id must be text''), db)
      | None \<Rightarrow>
          (case rbind (payload_of redacted) (required_incident_id sch) of
             Inl e \<Rightarrow> (Inl e, db)
           | Inr i \<Rightarrow> if is_str i then append_event sch QuarantineOpened redacted None (Some i) now db
                      else (Inl (TypeErr ''incident_id must be text''), db)))"

definition record_recovery_authorized where
  "record_recovery_authorized sch rid redacted now db = append_event sch RecoveryAuthorized redacted (Some rid) None now db"
definition record_attempt_reconciled where
  "record_attempt_reconciled sch rid redacted now db = append_event sch AttemptReconciled redacted (Some rid) None now db"
definition record_fresh_handshake where
  "record_fresh_handshake sch rid redacted now db = append_event sch FreshHandshake redacted (Some rid) None now db"
definition record_valid_health where
  "record_valid_health sch rid redacted now db = append_event sch ValidHealth redacted (Some rid) None now db"
definition record_health_failed where
  "record_health_failed sch rid redacted now db = append_event sch HealthFailed redacted (Some rid) None now db"
definition record_release_reviewed where
  "record_release_reviewed sch rid redacted now db = append_event sch ReleaseReviewed redacted (Some rid) None now db"
definition record_release where
  "record_release sch rid redacted now db = append_event sch Released redacted (Some rid) None now db"

definition journal_occurrence :: "event_row \<Rightarrow> pyerr + pystr" where
  "journal_occurrence r =
     rbind (json_load (er_payload_json r)) (\<lambda>v.
     rbind (if er_version r \<noteq> 1 then Inr False else is_true_legacy_payload v) (\<lambda>legacy.
     if \<not> is_dict v then Inl AttributeErr
     else if \<not> legacy then
       (case dget_none ''occurrence_at_utc'' (dict_of v) of
          PStr s \<Rightarrow> Inr s
        | _ \<Rightarrow> Inl (IntegrityErr ''adapter-state occurrence_at_utc is not stored text''))
     else canonical_json (dget_none ''request_id'' (dict_of v))))"

definition read_record :: "schema \<Rightarrow> pystr \<Rightarrow> adapter_db \<Rightarrow> pyerr + adapter_record_state" where
  "read_record sch rid db =
     rbind (require_record_id rid) (\<lambda>_.
     rbind (require (db_exists db) (StoreErr ''adapter-state store is not initialized'')) (\<lambda>_.
     rbind (require_schema db) (\<lambda>_.
     let rows = record_rows rid (rows_of db) in
     if length rows > MAX_ADAPTER_STATE_EVENTS then
       Inl (IntegrityErr ''adapter-state record exceeds the maximum of stored events'')
     else
       rbind (rmap (\<lambda>r. rbind (journal_occurrence r) (\<lambda>t. Inr (er_sequence r, er_kind r, t))) rows) (\<lambda>journal.
       rbind (fold_rows sch rid rows) (\<lambda>st.
       Inr (st\<lparr>ars_journal := journal\<rparr>))))))"

end
