(* ===== verification/ReadBack.thy ===== *)
theory ReadBack
  imports AdapterState
begin

text \<open>
  A payload of the quarantine and recovery store, written as canonical JSON and parsed again: what changes (\<open>json_norm\<close>) and
  why the parsed payload passes the validation the written one passed.
\<close>

section \<open>Validation of a payload that was read back\<close>

text \<open>
  Reading back sorts dictionaries and turns tuples into lists; scalars stay. Validation looks only at the members and their
  scalars, so a payload that was valid when it was written is valid when it is read.
\<close>

fun scalar :: "pyval \<Rightarrow> bool" where
  "scalar (PList _) = False"
| "scalar (PTuple _) = False"
| "scalar (PDict _) = False"
| "scalar _ = True"

lemma json_norm_scalar [simp]: "scalar v \<Longrightarrow> json_norm v = v"
  by (cases v) auto

lemma json_norm_kind [simp]:
  "json_norm v = PStr s \<longleftrightarrow> v = PStr s" "json_norm v = PNone \<longleftrightarrow> v = PNone" "json_norm v = PInt n \<longleftrightarrow> v = PInt n"
  "json_ok a v \<Longrightarrow> is_dict (json_norm v) = is_dict v"
  "is_str (json_norm v) = is_str v" "str_of (json_norm v) = str_of v"
  by (cases v; auto simp: str_of_def split: option.splits)+

lemma json_norm_schema: "strings_only sch \<Longrightarrow> sch name (json_norm v) \<longleftrightarrow> sch name v"
  unfolding strings_only_def by (metis json_norm_kind(1))

lemma schema_scalar_norm: "strings_only sch \<Longrightarrow> sch name v \<Longrightarrow> json_norm v = v"
  by (auto simp: strings_only_def dest!: spec [of _ name] spec [of _ v])

lemma json_norm_request_id: "is_request_id (json_norm v) = is_request_id v"
  by (cases v) (auto simp: is_request_id_def split: option.splits)

lemma is_request_id_scalar: "is_request_id v \<Longrightarrow> json_norm v = v"
  by (cases v) (auto simp: is_request_id_def)

text \<open>\<open>norm_of p q\<close>: \<open>q\<close> is what reading \<open>p\<close> back gives.\<close>

definition norm_of :: "pydict \<Rightarrow> pydict \<Rightarrow> bool" where
  "norm_of p q \<longleftrightarrow> json_ok False (PDict p) \<and> json_norm (PDict p) = PDict q"

lemma norm_of_ex: "json_ok False (PDict p) \<Longrightarrow> \<exists>q. norm_of p q"
  by (auto simp: norm_of_def split: option.splits)

lemma norm_of_facts:
  assumes "norm_of p q"
  shows "dget f q = map_option json_norm (dget f p)" and "dget_none f q = json_norm (dget_none f p)"
    and "has_key f q = has_key f p" and "keys_are fs q = keys_are fs p"
proof -
  obtain kvs where "str_items p = Some kvs" "distinct (map fst kvs)"
    using assms by (auto simp: norm_of_def split: option.splits)
  then obtain d' where d: "json_norm (PDict p) = PDict d'" "\<And>f. dget f d' = map_option json_norm (dget f p)"
    "set (map fst d') = set (map fst p)"
    by (rule json_norm_dict) blast
  have q: "q = d'" using assms d(1) unfolding norm_of_def by simp
  show "dget f q = map_option json_norm (dget f p)" unfolding q by (rule d(2))
  then show "dget_none f q = json_norm (dget_none f p)" by (auto simp: dget_none_def split: option.split)
  show "has_key f q = has_key f p" using d(2) by (simp add: q has_key_def)
  show "keys_are fs q = keys_are fs p" using keys_are_cong [OF d(3)] q by simp
qed

lemma norm_of_member:
  assumes "json_ok False (PDict p)" and "dget f p = Some v"
  shows "json_ok False v"
proof -
  obtain kvs where kvs: "str_items p = Some kvs" "\<forall>kv \<in> set kvs. json_ok False (snd kv)"
    using assms(1) by (auto split: option.splits)
  have "(sv f, v) \<in> set p" using assms(2) by (auto simp: dget_def dest: map_of_SomeD)
  then have "\<exists>k. (k, v) \<in> set kvs" using str_items_map [OF kvs(1)] by auto
  then show ?thesis using kvs(2) by auto
qed

lemma norm_of_get:
  "json_ok False (PDict p) \<Longrightarrow> json_ok False (dget_none f p)"
  using norm_of_member [of p f] by (cases "dget f p") (simp_all add: dget_none_def del: json_ok.simps(9))

lemma dict_value: "json_ok False v \<Longrightarrow> is_dict v \<Longrightarrow> norm_of (dict_of v) (dict_of (json_norm v))"
  by (cases v) (auto simp: norm_of_def split: option.splits)

text \<open>Equality of values survives.\<close>

lemma py_same_norm:
  "py_same a b \<Longrightarrow> json_ok x a \<Longrightarrow> json_ok x b \<Longrightarrow> py_same (json_norm a) (json_norm b)"
proof (induction a b rule: py_same.induct)
  case (1 a w)
  then obtain b where w: "w = PDict b" by (cases w) auto
  obtain ka where ka: "str_items a = Some ka" "\<forall>kv \<in> set ka. json_ok x (snd kv)"
    using "1.prems"(2) by (auto split: option.splits)
  obtain kb where kb: "str_items b = Some kb" "\<forall>kv \<in> set kb. json_ok x (snd kv)"
    using "1.prems"(3) w by (auto split: option.splits)
  have len: "length ka = length kb"
    using "1.prems"(1) str_items_map [OF ka(1)] str_items_map [OF kb(1)] by (simp add: w)
  have m: "\<exists>kv' \<in> set kb. fst kv = fst kv' \<and> py_same (json_norm (snd kv)) (json_norm (snd kv'))" if kv: "kv \<in> set ka" for kv
  proof -
    obtain k v where k: "kv = (k, v)" by (cases kv)
    have ia: "(PStr k, v) \<in> set a" using str_items_mem [OF ka(1)] kv k by simp
    then obtain k' v' where b: "(k', v') \<in> set b" "py_key (PStr k) = py_key k'" "py_same v v'"
      using "1.prems"(1) by (auto simp: w list_all_iff list_ex_iff)
    then have "(k, v') \<in> set kb" using str_items_map [OF kb(1)] by auto
    moreover have "py_same (json_norm v) (json_norm v')"
      using "1.IH" [OF w ia b(1)] b(3) ka(2) kb(2) kv k \<open>(k, v') \<in> set kb\<close> by force
    ultimately show ?thesis using k by force
  qed
  show ?case using m len by (fastforce simp: w ka(1) kb(1) list_all_iff list_ex_iff)
next
  case (2 xs w)
  then obtain ys where w: "w = PList ys" by (cases w) auto
  have "py_same (json_norm (fst p)) (json_norm (snd p))" if p: "p \<in> set (zip xs ys)" for p
  proof -
    have "fst p \<in> set xs" "snd p \<in> set ys" using p by (metis prod.collapse set_zip_leftD set_zip_rightD)+
    then show ?thesis using "2.IH" [OF w p] "2.prems" p by (simp add: w list_all_iff)
  qed
  then show ?case using "2.prems" by (auto simp: w list_all_iff zip_map_map)
next
  case (3 xs w)
  then obtain ys where w: "w = PTuple ys" by (cases w) auto
  have "py_same (json_norm (fst p)) (json_norm (snd p))" if p: "p \<in> set (zip xs ys)" for p
  proof -
    have "fst p \<in> set xs" "snd p \<in> set ys" using p by (metis prod.collapse set_zip_leftD set_zip_rightD)+
    then show ?thesis using "3.IH" [OF w p] "3.prems" p by (simp add: w list_all_iff)
  qed
  then show ?case using "3.prems" by (auto simp: w list_all_iff zip_map_map)
next
  case (5 b w)
  then show ?case by (cases w) auto
next
  case (6 n w)
  then show ?case by (cases w) auto
qed auto

lemma py_eq_norm: "py_eq a b \<Longrightarrow> json_ok x a \<Longrightarrow> json_ok x b \<Longrightarrow> py_eq (json_norm a) (json_norm b)"
  unfolding py_eq_def using py_same_norm [of a b x] by (cases a) (auto split: option.splits)

text \<open>Each check of the validation, on what was read back.\<close>

lemma norm_required:
  "norm_of p q \<Longrightarrow> required_identity p f = Inr v \<Longrightarrow> required_identity q f = Inr (json_norm v)"
  by (auto simp: required_identity_def norm_of_facts split: option.splits if_splits)

lemma norm_incident:
  assumes "strings_only sch" and "norm_of p q"
  shows "required_incident_id sch q = required_incident_id sch p"
proof -
  have "json_norm v = v" if "sch ''token'' v" for v
    using that assms(1) unfolding strings_only_def by (metis json_norm.simps(8))
  then show ?thesis
    by (auto simp: required_incident_id_def validate_s2_token_def norm_of_facts(2) [OF assms(2)] json_norm_schema [OF assms(1)])
qed

lemma norm_identity:
  "norm_of p q \<Longrightarrow> identity_fields fs p = Inr ident \<Longrightarrow>
   identity_fields fs q = Inr (map (\<lambda>(k, v). (k, json_norm v)) ident)"
  unfolding identity_fields_def
  by (induction fs arbitrary: ident) (auto simp: rbind_Inr_iff dest!: norm_required split: sum.splits)

lemma norm_scoped:
  assumes n: "norm_of p q" and a: "scoped_project p scope = Inr pr"
  shows "scoped_project q (json_norm scope) = Inr pr"
proof -
  obtain s where s: "scope = PStr s" using a by (cases scope) (auto simp: scoped_project_def scope_project_id_def)
  obtain pj where pj: "scope_project_id (PStr s) = Inr pj" using a by (auto simp: s scoped_project_def rbind_Inr_iff)
  show ?thesis
  proof (cases pj)
    case None
    have "\<exists>ws. has_scope_segment (PStr s) ''workspace'' = Inr ws" by (simp add: has_scope_segment_def Let_def)
    then obtain ws where "has_scope_segment (PStr s) ''workspace'' = Inr ws" by blast
    then show ?thesis using a pj None
      by (simp add: s scoped_project_def norm_of_facts(2) [OF n] split: if_splits)
  next
    case (Some y)
    then have "required_identity p ''project_id'' = Inr (PStr y)" and pr: "pr = [(sv ''project_id'', PStr y)]"
      using a pj by (auto simp: s scoped_project_def rbind_Inr_iff split: if_splits)
    from norm_required [OF n this(1)] show ?thesis using pj Some pr by (simp add: s scoped_project_def)
  qed
qed

lemma norm_base:
  assumes n: "norm_of p q" and a: "base_identity p = Inr b"
  shows "\<exists>b'. base_identity q = Inr b'"
proof -
  obtain ident pr where i: "identity_fields IDENTITY_FIELDS p = Inr ident"
    "scoped_project p (dget_none ''scope_identity'' ident) = Inr pr"
    using a by (auto simp: base_identity_def rbind_Inr_iff)
  let ?j = "map (\<lambda>(k, v). (k, json_norm v)) ident"
  have "dget_none ''scope_identity'' ?j = json_norm (dget_none ''scope_identity'' ident)"
    by (simp add: dget_none_def dget_def map_of_map split: option.split)
  then show ?thesis using norm_scoped [OF n i(2)] norm_identity [OF n i(1)] by (simp add: base_identity_def)
qed

lemma norm_scalars:
  assumes "strings_only sch" and "scalar_tuple sch 2 a = Inr t" and "norm_of a b"
  shows "scalar_tuple sch 2 b = Inr t"
proof -
  note get = norm_of_facts [OF assms(3)]
  have d: "validate_delivery_scalar sch (json_norm v) f = validate_delivery_scalar sch v f" for v f
    using json_norm_schema [OF assms(1), of f v] schema_scalar_norm [OF assms(1), of f v]
    by (auto simp: validate_delivery_scalar_def)
  have "validate_request_id_scalar (json_norm v) = validate_request_id_scalar v" for v
    using is_request_id_scalar [of v] by (auto simp: validate_request_id_scalar_def json_norm_request_id)
  then show ?thesis using assms(2) by (simp add: scalar_tuple_def get d)
qed

lemma norm_add:
  assumes s: "strings_only sch" and a: "add_attempt sch 2 acc v = Inr acc'" and ok: "json_ok False v"
  shows "add_attempt sch 2 acc (json_norm v) = Inr acc'"
proof -
  have v: "is_dict v" "keys_are ATTEMPT_FIELDS (dict_of v)" using a by (auto simp: add_attempt_def split: if_splits)
  note n = dict_value [OF ok v(1)]
  obtain t where "scalar_tuple sch 2 (dict_of v) = Inr t"
    using a v by (cases "scalar_tuple sch 2 (dict_of v)") (auto simp: add_attempt_def split: if_splits)
  then show ?thesis
    using a ok norm_scalars [OF s _ n] v norm_of_facts(4) [OF n] by (simp add: add_attempt_def)
qed

lemma norm_add_all:
  assumes "strings_only sch" and "rfold (add_attempt sch 2) acc vs = Inr as" and "\<forall>v \<in> set vs. json_ok False v"
  shows "rfold (add_attempt sch 2) acc (map json_norm vs) = Inr as"
  using assms(2,3)
proof (induction vs arbitrary: acc)
  case (Cons v vs)
  then obtain acc' where a: "add_attempt sch 2 acc v = Inr acc'" "rfold (add_attempt sch 2) acc' vs = Inr as"
    by (auto split: sum.splits)
  have "json_ok False v" using Cons.prems by simp
  from norm_add [OF assms(1) a(1) this] Cons.IH [OF a(2)] Cons.prems(2) show ?case by simp
qed simp

lemma norm_attempts:
  assumes "strings_only sch" and "norm_of p q" and "attempt_tuples sch 2 p = Inr as"
  shows "attempt_tuples sch 2 q = Inr as"
proof -
  obtain vs where vs: "dget_none ''attempts'' p = PList vs" "rfold (add_attempt sch 2) [] vs = Inr as"
    using assms(3) by (auto simp: attempt_tuples_def split: pyval.splits)
  have "\<forall>v \<in> set vs. json_ok False v"
    using norm_of_get [of p "''attempts''"] assms(2) vs(1) by (simp add: norm_of_def)
  from norm_add_all [OF assms(1) vs(2) this] show ?thesis
    using vs(1) norm_of_facts(2) [OF assms(2), of "''attempts''"] by (simp add: attempt_tuples_def)
qed

lemma norm_review:
  assumes s: "strings_only sch" and n: "norm_of p q" and v: "review_matches sch 2 p v" "json_ok False v"
  shows "review_matches sch 2 q (json_norm v)"
proof -
  have d: "is_dict v" using v(1) by (simp add: review_matches_def)
  note m = dict_value [OF v(2) d]
  have "valid_s2_token sch (json_norm w) = valid_s2_token sch w" for w
    by (auto simp: valid_s2_token_def validate_s2_token_def json_norm_schema [OF s])
  moreover have "py_eq (dget_none f (dict_of (json_norm v))) (dget_none f q)"
    if "py_eq (dget_none f (dict_of v)) (dget_none f p)" for f
    unfolding norm_of_facts(2) [OF m] norm_of_facts(2) [OF n]
    by (rule py_eq_norm [OF that norm_of_get norm_of_get]) (use m n in \<open>simp_all add: norm_of_def\<close>)
  ultimately show ?thesis
    using v d norm_of_facts(2,4) [OF m] by (auto simp: review_matches_def list_all_iff)
qed

lemma norm_reviews:
  assumes "strings_only sch" and "norm_of p q" and "review_matches_incident sch 2 p"
  shows "review_matches_incident sch 2 q"
proof -
  obtain vs where vs: "dget_none ''review_references'' p = PList vs" "vs \<noteq> []" "list_all (review_matches sch 2 p) vs"
    using assms(3) by (auto simp: review_matches_incident_def split: pyval.splits)
  have "\<forall>v \<in> set vs. json_ok False v"
    using norm_of_get [of p "''review_references''"] assms(2) vs(1) by (simp add: norm_of_def)
  then show ?thesis
    using vs norm_review [OF assms(1,2)] norm_of_facts(2) [OF assms(2), of "''review_references''"]
    by (simp add: review_matches_incident_def list_all_iff)
qed

lemma truthy_norm: "truthy v \<Longrightarrow> truthy (json_norm v)"
proof (cases v)
  case (PDict d)
  assume "truthy v"
  then have "kvs \<noteq> []" if "str_items d = Some kvs" for kvs using that PDict str_items_map by force
  moreover have "sort_key fst kvs \<noteq> []" if "kvs \<noteq> []" for kvs :: "(pystr \<times> pyval) list"
    using that by (metis length_0_conv length_sort)
  ultimately show ?thesis using PDict \<open>truthy v\<close> by (auto split: option.split)
qed auto

lemma norm_validates:
  assumes s: "strings_only sch" and n: "norm_of p q" and v: "validate_event_payload sch kind 2 (PDict p) = Inr ()"
  shows "validate_event_payload sch kind 2 (PDict q) = Inr ()"
proof -
  note get = norm_of_facts [OF n]
  have legacy: "is_true_legacy_payload (PDict q) = is_true_legacy_payload (PDict p)"
    by (simp add: is_true_legacy_payload_def legacy_markers_def contains_name_def get)
  obtain b i occ b' as where x: "is_true_legacy_payload (PDict p) = Inr b" "required_incident_id sch p = Inr i"
    "required_identity p ''occurrence_at_utc'' = Inr occ" "is_str occ \<and> ends_with (lit ''Z'') (str_of occ)"
    "base_identity p = Inr b'" "attempt_tuples sch 2 p = Inr as" "kind = AttemptReconciled \<longrightarrow> length as = 1"
    "kind = HealthFailed \<longrightarrow> truthy (dget_none ''health_failure_reason'' p)"
    "kind = ReleaseReviewed \<longrightarrow> review_matches_incident sch 2 p"
    using v by (auto simp: validate_event_payload_def rbind_Inr_iff Let_def)
  then show ?thesis
    using norm_base [OF n x(5)] norm_attempts [OF s n x(6)] norm_reviews [OF s n] norm_required [OF n x(3)] truthy_norm
    by (auto simp: validate_event_payload_def legacy norm_incident [OF s n] get rbind_Inr_iff)
qed

end
