(* ===== verification/StateProps.thy ===== *)
theory StateProps
  imports ReadBack
begin

text \<open>
  What the quarantine and recovery store guarantees.
\<close>

section \<open>The evidence a release needs\<close>

text \<open>
  The specification of a release, over the events of one record in their order: an authorization after an opening; a
  handshake after it, followed by healthy checks with no failure, authorization or handshake in between; a
  matching review after the last authorization; and a reconciliation, while a handshake stands, of every attempt that
  was opened.
\<close>

definition authorized :: "event list \<Rightarrow> bool" where
  "authorized es \<longleftrightarrow> (\<exists>a x b r c. es = a @ x # b @ r # c \<and> ev_kind x = QuarantineOpened \<and> ev_kind r = RecoveryAuthorized)"

definition standing_handshake :: "event_kind set \<Rightarrow> nat \<Rightarrow> event list \<Rightarrow> bool" where
  "standing_handshake breaks n es \<longleftrightarrow>
     (\<exists>pre h post. es = pre @ h # post \<and> ev_kind h = FreshHandshake \<and> authorized pre \<and>
        (\<forall>e \<in> set post. ev_kind e \<notin> breaks) \<and> n \<le> length (filter (\<lambda>e. ev_kind e = ValidHealth) post))"

definition shaken :: "event list \<Rightarrow> bool" where
  "shaken = standing_handshake {HealthFailed, RecoveryAuthorized} 0"

definition healthy_run :: "nat \<Rightarrow> event list \<Rightarrow> bool" where
  "healthy_run = standing_handshake {HealthFailed, RecoveryAuthorized, FreshHandshake}"

definition reviewed :: "event list \<Rightarrow> bool" where
  "reviewed es \<longleftrightarrow> (\<exists>pre r post. es = pre @ r # post \<and> ev_kind r = ReleaseReviewed \<and> ev_review_ok r \<and>
     (\<forall>e \<in> set post. ev_kind e \<noteq> RecoveryAuthorized))"

definition reconciled_in :: "event list \<Rightarrow> event list \<Rightarrow> attempt \<Rightarrow> bool" where
  "reconciled_in pre post a \<longleftrightarrow> (\<exists>p r q. post = p @ r # q \<and> ev_kind r = AttemptReconciled \<and> attempt_in a (ev_attempts r) \<and>
     shaken (pre @ p))"

definition pending_attempt :: "event list \<Rightarrow> attempt \<Rightarrow> bool" where
  "pending_attempt es a \<longleftrightarrow> (\<exists>pre x post. es = pre @ x # post \<and> ev_kind x = QuarantineOpened \<and> attempt_in a (ev_attempts x) \<and>
     \<not> reconciled_in (pre @ [x]) post a)"

definition releasable :: "int \<Rightarrow> event list \<Rightarrow> bool" where
  "releasable version es \<longleftrightarrow> authorized es \<and> (reviewed es \<or> version = 1) \<and> (\<forall>a. \<not> pending_attempt es a) \<and>
     healthy_run FRESH_HEALTHY_SEQUENCE_LENGTH es"

definition released_by :: "event list \<Rightarrow> bool" where
  "released_by es \<longleftrightarrow> (\<exists>pre r post. es = pre @ r # post \<and> ev_kind r = Released \<and> releasable (ev_version r) pre)"

text \<open>Each notion when one more event arrives.\<close>

lemma snoc_split:
  "(\<exists>a x b. es @ [e] = a @ x # b \<and> P a x b) \<longleftrightarrow> P es e [] \<or> (\<exists>a x b. es = a @ x # b \<and> P a x (b @ [e]))"
proof
  assume "\<exists>a x b. es @ [e] = a @ x # b \<and> P a x b"
  then obtain a x b where s: "es @ [e] = a @ x # b" "P a x b" by blast
  show "P es e [] \<or> (\<exists>a x b. es = a @ x # b \<and> P a x (b @ [e]))"
    using s by (cases b rule: rev_exhaust) auto
next
  assume "P es e [] \<or> (\<exists>a x b. es = a @ x # b \<and> P a x (b @ [e]))"
  then show "\<exists>a x b. es @ [e] = a @ x # b \<and> P a x b" by fastforce
qed

definition opened_in :: "event list \<Rightarrow> bool" where
  "opened_in es \<longleftrightarrow> (\<exists>e \<in> set es. ev_kind e = QuarantineOpened)"

lemma authorized_alt:
  "authorized es \<longleftrightarrow> (\<exists>a r c. es = a @ r # c \<and> ev_kind r = RecoveryAuthorized \<and> opened_in a)"
proof
  assume "authorized es"
  then obtain a x b r c where "es = (a @ x # b) @ r # c" "ev_kind x = QuarantineOpened" "ev_kind r = RecoveryAuthorized"
    unfolding authorized_def by auto
  then show "\<exists>a r c. es = a @ r # c \<and> ev_kind r = RecoveryAuthorized \<and> opened_in a"
    unfolding opened_in_def by (intro exI [of _ "a @ x # b"] exI conjI) auto
next
  assume "\<exists>a r c. es = a @ r # c \<and> ev_kind r = RecoveryAuthorized \<and> opened_in a"
  then obtain a r c where e: "es = a @ r # c" "ev_kind r = RecoveryAuthorized" "opened_in a" by blast
  obtain x where "x \<in> set a" and x: "ev_kind x = QuarantineOpened" using e(3) by (auto simp: opened_in_def)
  then obtain p q where "a = p @ x # q" by (auto dest: split_list)
  then have "es = p @ x # q @ r # c" using e(1) by simp
  then show "authorized es" unfolding authorized_def using e(2) x by blast
qed

lemma opened_snoc: "opened_in (es @ [e]) \<longleftrightarrow> opened_in es \<or> ev_kind e = QuarantineOpened"
  by (auto simp: opened_in_def)

lemma authorized_snoc: "authorized (es @ [e]) \<longleftrightarrow> authorized es \<or> opened_in es \<and> ev_kind e = RecoveryAuthorized"
  unfolding authorized_alt snoc_split [of es e "\<lambda>a r c. ev_kind r = RecoveryAuthorized \<and> opened_in a"] by auto

lemma authorized_opened: "authorized es \<Longrightarrow> opened_in es"
  by (auto simp: authorized_alt opened_in_def)

lemma standing_snoc:
  "standing_handshake B n (es @ [e]) \<longleftrightarrow>
     ev_kind e = FreshHandshake \<and> authorized es \<and> n = 0 \<or>
     ev_kind e \<notin> B \<and> standing_handshake B (if ev_kind e = ValidHealth then n - 1 else n) es"
  unfolding standing_handshake_def
    snoc_split [of es e "\<lambda>a x b. ev_kind x = FreshHandshake \<and> authorized a \<and> (\<forall>e \<in> set b. ev_kind e \<notin> B) \<and>
      n \<le> length (filter (\<lambda>e. ev_kind e = ValidHealth) b)"]
  by (auto simp: le_diff_conv Suc_le_eq)

lemma reviewed_snoc:
  "reviewed (es @ [e]) \<longleftrightarrow> ev_kind e = ReleaseReviewed \<and> ev_review_ok e \<or> ev_kind e \<noteq> RecoveryAuthorized \<and> reviewed es"
  unfolding reviewed_def
    snoc_split [of es e "\<lambda>a x b. ev_kind x = ReleaseReviewed \<and> ev_review_ok x \<and> (\<forall>e \<in> set b. ev_kind e \<noteq> RecoveryAuthorized)"]
  by auto

lemma reconciled_snoc:
  "reconciled_in pre (post @ [e]) a \<longleftrightarrow>
     ev_kind e = AttemptReconciled \<and> attempt_in a (ev_attempts e) \<and> shaken (pre @ post) \<or> reconciled_in pre post a"
  unfolding reconciled_in_def
    snoc_split [of post e "\<lambda>p r q. ev_kind r = AttemptReconciled \<and> attempt_in a (ev_attempts r) \<and> shaken (pre @ p)"]
  by auto

lemma pending_snoc:
  "pending_attempt (es @ [e]) a \<longleftrightarrow>
     ev_kind e = QuarantineOpened \<and> attempt_in a (ev_attempts e) \<or>
     pending_attempt es a \<and> \<not> (ev_kind e = AttemptReconciled \<and> attempt_in a (ev_attempts e) \<and> shaken es)"
proof -
  have "\<not> reconciled_in pre [] a" for pre by (simp add: reconciled_in_def)
  then show ?thesis
    unfolding pending_attempt_def
      snoc_split [of es e "\<lambda>p x q. ev_kind x = QuarantineOpened \<and> attempt_in a (ev_attempts x) \<and> \<not> reconciled_in (p @ [x]) q a"]
    by (auto simp: reconciled_snoc)
qed

lemma released_snoc:
  "released_by (es @ [e]) \<longleftrightarrow> released_by es \<or> ev_kind e = Released \<and> releasable (ev_version e) es"
  unfolding released_by_def snoc_split [of es e "\<lambda>a r b. ev_kind r = Released \<and> releasable (ev_version r) a"] by auto

lemma empty_history [simp]:
  "\<not> opened_in []" "\<not> authorized []" "\<not> standing_handshake B n []" "\<not> reviewed []" "\<not> pending_attempt [] a" "\<not> released_by []"
  by (simp_all add: opened_in_def authorized_def standing_handshake_def reviewed_def pending_attempt_def released_by_def)


section \<open>The fold refines it\<close>

definition states :: "event list \<Rightarrow> record_state" where
  "states es = fold apply_event es empty_state"

lemma states_snoc [simp]: "states [] = empty_state" "states (es @ [e]) = apply_event e (states es)"
  by (simp_all add: states_def)

lemma attempt_in_update: "attempt_in a (attempts_update s as) \<longleftrightarrow> attempt_in a s \<or> attempt_in a as"
proof (induction as arbitrary: s)
  case (Cons b as)
  have "attempt_in a (if attempt_in b s then s else s @ [b]) \<longleftrightarrow> attempt_in a s \<or> attempt_key b = attempt_key a"
    by (auto simp: attempt_in_def list_ex_iff)
  then show ?case
    unfolding attempts_update_def fold.simps comp_def
    using Cons [unfolded attempts_update_def, of "if attempt_in b s then s else s @ [b]"]
    by (auto simp: attempt_in_def)
qed (simp add: attempts_update_def attempt_in_def)

lemma attempt_in_minus: "attempt_in a (attempts_minus s as) \<longleftrightarrow> attempt_in a s \<and> \<not> attempt_in a as"
  by (auto simp: attempts_minus_def attempt_in_def list_ex_iff) metis+

lemma no_attempts: "as = [] \<longleftrightarrow> (\<forall>a. \<not> attempt_in a as)"
proof
  assume "\<forall>a. \<not> attempt_in a as"
  then show "as = []" by (cases as) (auto simp: attempt_in_def)
qed (simp add: attempt_in_def)

lemma states_opened: "rs_opened (states es) = opened_in es"
  by (induction es rule: rev_induct)
    (auto simp: empty_state_def apply_event_def Let_def opened_snoc split: event_kind.split)

lemma states_authorized: "rs_recovery_authorized (states es) = authorized es"
  by (induction es rule: rev_induct)
    (auto simp: empty_state_def apply_event_def Let_def authorized_snoc states_opened split: event_kind.split)

lemma states_shaken: "rs_fresh_handshake (states es) = shaken es"
proof (induction es rule: rev_induct)
  case (snoc e es)
  have "shaken es \<Longrightarrow> authorized es" for es
    unfolding shaken_def standing_handshake_def authorized_def by force
  then show ?case using snoc
    by (auto simp: apply_event_def Let_def shaken_def standing_snoc states_authorized states_opened
        dest!: authorized_opened split: event_kind.split)
qed (simp add: empty_state_def shaken_def)

lemma states_healthy: "rs_fresh_handshake (states es) \<and> n \<le> rs_valid_health_count (states es) \<longleftrightarrow> healthy_run n es"
proof (induction es arbitrary: n rule: rev_induct)
  case (snoc e es)
  have "healthy_run n es \<Longrightarrow> authorized es" for n es
    unfolding healthy_run_def standing_handshake_def authorized_def by force
  then show ?case
    using snoc [of n] snoc [of "n - 1"]
    by (cases "ev_kind e") (auto simp: apply_event_def Let_def healthy_run_def standing_snoc states_authorized states_opened
        dest!: authorized_opened)
qed (simp add: empty_state_def healthy_run_def)

lemma states_reviewed: "authorized es \<Longrightarrow> rs_release_reviewed (states es) = reviewed es"
  by (induction es rule: rev_induct)
    (auto simp: apply_event_def Let_def authorized_snoc reviewed_snoc states_opened split: event_kind.splits
      dest: authorized_opened)

lemma states_pending: "attempt_in a (rs_unresolved (states es)) = pending_attempt es a"
  by (induction es rule: rev_induct)
    (auto simp: empty_state_def attempt_in_def [of a "[]"] apply_event_def Let_def pending_snoc attempt_in_update attempt_in_minus
      states_shaken split: event_kind.split)

lemma states_releasable:
  "releasable v es \<longleftrightarrow>
     rs_opened (states es) \<and> rs_recovery_authorized (states es) \<and> (rs_release_reviewed (states es) \<or> v = 1) \<and>
     rs_unresolved (states es) = [] \<and> rs_fresh_handshake (states es) \<and>
     FRESH_HEALTHY_SEQUENCE_LENGTH \<le> rs_valid_health_count (states es)"
  using states_healthy [of es FRESH_HEALTHY_SEQUENCE_LENGTH] states_reviewed [of es] authorized_opened [of es]
  unfolding releasable_def states_authorized states_opened no_attempts [of "rs_unresolved (states es)"] states_pending
  by blast

lemma states_released: "rs_released (states es) = released_by es"
proof (induction es rule: rev_induct)
  case (snoc e es)
  then show ?case
    by (cases "ev_kind e") (auto simp: apply_event_def Let_def released_snoc states_releasable)
qed (simp add: empty_state_def)


section \<open>From rows to events\<close>

text \<open>The event of a row with its deduplication key, and the events that are applied: the first of each key.\<close>

definition row_event :: "schema \<Rightarrow> event_row \<Rightarrow> pyerr + event \<times> dedupe_key" where
  "row_event sch r = rbind (row_payload sch (er_version r) r) (event_of sch r)"

fun first_of_each :: "'k list \<Rightarrow> ('a \<times> 'k) list \<Rightarrow> 'a list" where
  "first_of_each seen [] = []"
| "first_of_each seen ((e, k) # eks) =
     (if k \<in> set seen then first_of_each seen eks else e # first_of_each (seen @ [k]) eks)"

text \<open>The state without the incident id and the event count, which events do not touch.\<close>

definition core :: "record_state \<Rightarrow> record_state" where
  "core s = s\<lparr>rs_incident_id := PStr [], rs_event_count := 0\<rparr>"

lemma core_apply: "core (apply_event e s) = apply_event e (core s)"
  by (simp add: core_def apply_event_def Let_def split: event_kind.split)

lemma core_simps [simp]: "core (s\<lparr>rs_event_count := n\<rparr>) = core s" "core (s\<lparr>rs_incident_id := v\<rparr>) = core s"
  by (simp_all add: core_def)

lemma apply_event_count [simp]: "rs_event_count (apply_event e s) = rs_event_count s"
  by (simp add: apply_event_def Let_def split: event_kind.split)

lemma check_incident_core:
  "check_incident p s = Inr s' \<Longrightarrow> core s' = core s \<and> rs_event_count s' = rs_event_count s"
  by (auto simp: check_incident_def rbind_Inr_iff Let_def split: if_splits)

lemma fold_row_event:
  assumes "fold_row sch (s, seen) r = Inr (s', seen')"
  obtains e k where "row_event sch r = Inr (e, k)"
    and "seen' = (if k \<in> set seen then seen else seen @ [k])"
    and "core s' = (if k \<in> set seen then core s else apply_event e (core s))"
    and "rs_event_count s' = (if k \<in> set seen then rs_event_count s else Suc (rs_event_count s))"
    and "check_digest r = Inr ()"
proof -
  obtain p t e k where p: "row_payload sch (er_version r) r = Inr p" "check_incident p s = Inr t" "event_of sch r p = Inr (e, k)"
    and d: "check_digest r = Inr ()"
    and s': "(if k \<in> set seen then (t, seen) else ((apply_event e t)\<lparr>rs_event_count := Suc (rs_event_count t)\<rparr>, seen @ [k])) = (s', seen')"
    using assms by (auto simp: fold_row_def rbind_Inr_iff split: if_splits)
  show thesis
    by (rule that [of e k]) (use p d s' check_incident_core [OF p(2)] in \<open>auto simp: row_event_def core_apply split: if_splits\<close>)
qed

lemma fold_rows_events:
  assumes "rfold (fold_row sch) (s, seen) rows = Inr (s', seen')"
  obtains eks where "rmap (row_event sch) rows = Inr eks"
    and "core s' = fold apply_event (first_of_each seen eks) (core s)"
    and "rs_event_count s' = rs_event_count s + length (first_of_each seen eks)"
    and "\<forall>r \<in> set rows. check_digest r = Inr ()"
  using assms
proof (induction rows arbitrary: s seen thesis)
  case Nil
  then show ?case by simp
next
  case (Cons r rows)
  obtain t seen1 where t: "fold_row sch (s, seen) r = Inr (t, seen1)" "rfold (fold_row sch) (t, seen1) rows = Inr (s', seen')"
    using Cons.prems(2) by (auto split: sum.splits)
  obtain e k where e: "row_event sch r = Inr (e, k)" "seen1 = (if k \<in> set seen then seen else seen @ [k])"
    "core t = (if k \<in> set seen then core s else apply_event e (core s))"
    "rs_event_count t = (if k \<in> set seen then rs_event_count s else Suc (rs_event_count s))" "check_digest r = Inr ()"
    by (rule fold_row_event [OF t(1)])
  obtain eks where "rmap (row_event sch) rows = Inr eks" "core s' = fold apply_event (first_of_each seen1 eks) (core t)"
    "rs_event_count s' = rs_event_count t + length (first_of_each seen1 eks)" "\<forall>r \<in> set rows. check_digest r = Inr ()"
    by (rule Cons.IH [OF _ t(2)])
  then show ?case by (intro Cons.prems(1) [of "(e, k) # eks"]) (use e in auto)
qed

lemma finish_fields:
  "finish order rid s = Inr st \<Longrightarrow> ars_released st = rs_released s \<and> ars_event_count st = rs_event_count s \<and>
     ars_record_id st = rid \<and> ars_incident_id st = rs_incident_id s"
  by (auto simp: finish_def rbind_Inr_iff)

lemma core_empty [simp]: "core empty_state = empty_state"
  by (simp add: core_def empty_state_def)

lemma core_released [simp]: "rs_released (core s) = rs_released s"
  by (simp add: core_def)

text \<open>
  C9. A release is what its specification says: when the rows of a record (not all of the first grammar) fold to a state, every
  row carries its own digest, and the state is released exactly when some release event comes after the evidence it
  needs, in the events that remain when repeated ones are dropped. The event count is their number.
\<close>

theorem release_needs_evidence:
  assumes "fold_rows sch rid rows = Inr st" and "rows = [] \<or> all_true_legacy_v1 rows = Inr False"
  shows "\<exists>eks. rmap (row_event sch) rows = Inr eks \<and> (\<forall>r \<in> set rows. check_digest r = Inr ()) \<and>
    ars_event_count st = length (first_of_each [] eks) \<and> (ars_released st \<longleftrightarrow> released_by (first_of_each [] eks))"
proof -
  obtain acc where acc: "rfold (fold_row sch) (empty_state, []) rows = Inr acc" "finish sorted_attempts rid (fst acc) = Inr st"
    using assms by (auto simp: fold_rows_def rbind_Inr_iff split: if_splits)
  obtain s' seen' where s': "acc = (s', seen')" by (cases acc)
  obtain eks where e: "rmap (row_event sch) rows = Inr eks" "core s' = fold apply_event (first_of_each [] eks) (core empty_state)"
    "rs_event_count s' = rs_event_count empty_state + length (first_of_each [] eks)" "\<forall>r \<in> set rows. check_digest r = Inr ()"
    by (rule fold_rows_events [OF acc(1) [unfolded s']])
  have "rs_released s' = released_by (first_of_each [] eks)"
    using states_released [of "first_of_each [] eks"] e(2) core_released [of s'] by (simp add: states_def)
  then show ?thesis
    using e finish_fields [OF acc(2)] s' by (auto simp: empty_state_def)
qed


section \<open>The store as a transition system\<close>

text \<open>
  A step is any append, successful or not, or an initialization. It may start from no database, an empty one, or one of the
  first schema version.
\<close>

inductive store_step :: "schema \<Rightarrow> adapter_db \<Rightarrow> adapter_db \<Rightarrow> bool" for sch where
  append_step: "append_event sch kind redacted record_id incident_id now db = (r, db') \<Longrightarrow> store_step sch db db'"
| init_step: "initialize_store sch db = (r, db') \<Longrightarrow> store_step sch db db'"

inductive_cases store_stepE: "store_step sch db db'"

definition numbered :: "event_row list \<Rightarrow> bool" where
  "numbered rows \<longleftrightarrow> sorted_wrt (<) (map er_sequence rows) \<and> (\<forall>r \<in> set rows. 0 < er_sequence r)"

definition store_ready :: "adapter_db \<Rightarrow> bool" where
  "store_ready db \<longleftrightarrow> db_exists db \<and> db_user_version db = SCHEMA_VERSION \<and> db_v2_columns db \<and> db_table db \<noteq> None"

definition store_start :: "adapter_db \<Rightarrow> bool" where
  "store_start db \<longleftrightarrow> db_table db = None \<or> db_user_version db = 1 \<and> numbered (rows_of db)"

definition store_inv :: "adapter_db \<Rightarrow> bool" where
  "store_inv db \<longleftrightarrow> store_start db \<or>
     store_ready db \<and> numbered (rows_of db) \<and> (\<forall>r \<in> set (rows_of db). check_digest r = Inr ())"

lemma insort_key_last: "f y \<le> f x \<Longrightarrow> insort_key f y (zs @ [x]) = insort_key f y zs @ [x]"
  by (induction zs) auto

lemma sort_key_last: "\<forall>y \<in> set xs. f y \<le> f x \<Longrightarrow> sort_key f (xs @ [x]) = sort_key f xs @ [x]"
  by (induction xs) (auto simp: insort_key_last)

lemma numbered_sort: "numbered rows \<Longrightarrow> sort_key er_sequence rows = rows"
  by (rule sort_key_id_if_sorted) (auto simp: numbered_def strict_sorted_iff)

lemma next_sequence_bound:
  "r \<in> set rows \<Longrightarrow> er_sequence r < next_sequence rows" "0 < next_sequence rows"
proof -
  have "x \<le> fold max xs m \<longleftrightarrow> x \<le> m \<or> (\<exists>y \<in> set xs. x \<le> y)" for x m :: int and xs
    by (induction xs arbitrary: m) auto
  then show "r \<in> set rows \<Longrightarrow> er_sequence r < next_sequence rows" "0 < next_sequence rows"
    by (force simp: next_sequence_def)+
qed

lemma numbered_snoc: "numbered rows \<Longrightarrow> er_sequence r = next_sequence rows \<Longrightarrow> numbered (rows @ [r])"
  using next_sequence_bound(1) [of _ rows] next_sequence_bound(2) [of rows] by (auto simp: numbered_def sorted_wrt_append)

lemma record_rows_snoc:
  "numbered rows \<Longrightarrow> er_sequence r = next_sequence rows \<Longrightarrow>
     record_rows rid (rows @ [r]) = record_rows rid rows @ (if er_record_id r = rid then [r] else [])"
  using numbered_snoc [of rows r] by (simp add: record_rows_def numbered_sort)

text \<open>What a successful insertion adds.\<close>

lemma insert_eventE:
  assumes "insert_event sch kind rid p json sha now rows = Inr rows'"
  obtains r where "rows' = rows @ [r]" and "er_sequence r = next_sequence rows" and "er_record_id r = rid"
    and "er_kind r = kind" and "er_payload_json r = json" and "er_payload_sha256 r = sha" and "er_version r = SCHEMA_VERSION"
    and "record_rows rid rows \<noteq> [] \<Longrightarrow> require_matching_record_identity sch rid p rows = Inr ()"
    and "\<And>st. \<exists>r \<in> set (record_rows rid rows). er_kind r = Released \<Longrightarrow> fold_record_rows sch rid rows = Inr st \<Longrightarrow> \<not> ars_released st"
  using assms by (auto simp: insert_event_def Let_def rbind_Inr_iff filter_empty_conv split: if_splits)

lemma prepare_eventE:
  assumes "prepare_event sch kind redacted record_id incident_id = Inr (rid, p, json, sha)"
  shows "payload_of redacted = Inr p" and "validate_event_payload sch kind SCHEMA_VERSION (PDict p) = Inr ()"
    and "require_record_id rid = Inr ()" and "canonical_json (PDict p) = Inr json" and "digest_of json = Inr sha"
  using assms by (auto simp: prepare_event_def rbind_Inr_iff)

lemma digest_checked: "digest_of (er_payload_json r) = Inr (er_payload_sha256 r) \<Longrightarrow> check_digest r = Inr ()"
  by (simp add: check_digest_def)


lemma legacy_row_digest: "legacy_row sch acc r = Inr acc' \<Longrightarrow> check_digest r = Inr ()"
  by (cases acc) (auto simp: legacy_row_def rbind_Inr_iff)

lemma legacy_rows_digest:
  "rfold (legacy_row sch) acc rows = Inr acc' \<Longrightarrow> \<forall>r \<in> set rows. check_digest r = Inr ()"
  by (induction rows arbitrary: acc) (auto split: sum.splits dest: legacy_row_digest)

lemma legacy_row_released:
  "legacy_row sch acc r = Inr acc' \<Longrightarrow> rs_released (fst acc') \<Longrightarrow> rs_released (fst acc) \<or> er_kind r = Released"
  by (cases acc) (auto simp: legacy_row_def rbind_Inr_iff Let_def apply_legacy_def split: if_splits event_kind.splits)

lemma legacy_rows_released:
  "rfold (legacy_row sch) acc rows = Inr acc' \<Longrightarrow> rs_released (fst acc') \<Longrightarrow>
     rs_released (fst acc) \<or> (\<exists>r \<in> set rows. er_kind r = Released)"
  by (induction rows arbitrary: acc) (auto split: sum.splits dest: legacy_row_released)

lemma first_of_each_subset: "set (first_of_each seen eks) \<subseteq> fst ` set eks"
  by (induction seen eks rule: first_of_each.induct) auto

lemma row_event_kind: "row_event sch r = Inr (e, k) \<Longrightarrow> ev_kind e = er_kind r"
  by (auto simp: row_event_def event_of_def rbind_Inr_iff)

text \<open>What every successful fold shows of its rows, in either grammar.\<close>

lemma fold_rows_facts:
  assumes "fold_rows sch rid rows = Inr st"
  shows "\<forall>r \<in> set rows. check_digest r = Inr ()" and "ars_released st \<Longrightarrow> \<exists>r \<in> set rows. er_kind r = Released"
proof -
  have "(\<forall>r \<in> set rows. check_digest r = Inr ()) \<and> (ars_released st \<longrightarrow> (\<exists>r \<in> set rows. er_kind r = Released))"
  proof (cases "rows \<noteq> [] \<and> all_true_legacy_v1 rows = Inr True")
    case True
    then obtain acc where acc: "rfold (legacy_row sch) (empty_state, []) rows = Inr acc" "finish sort_by_text rid (fst acc) = Inr st"
      using assms by (auto simp: fold_rows_def rbind_Inr_iff)
    then show ?thesis
      using legacy_rows_digest [OF acc(1)] legacy_rows_released [OF acc(1)] finish_fields [OF acc(2)]
      by (auto simp: empty_state_def)
  next
    case False
    then have "rows = [] \<or> all_true_legacy_v1 rows = Inr False"
      using assms by (auto simp: fold_rows_def rbind_Inr_iff split: if_splits)
    then obtain acc where acc: "rfold (fold_row sch) (empty_state, []) rows = Inr acc" "finish sorted_attempts rid (fst acc) = Inr st"
      using assms by (auto simp: fold_rows_def rbind_Inr_iff split: if_splits)
    obtain s' seen' where s': "acc = (s', seen')" by (cases acc)
    obtain eks where e: "rmap (row_event sch) rows = Inr eks" "core s' = fold apply_event (first_of_each [] eks) (core empty_state)"
      "\<forall>r \<in> set rows. check_digest r = Inr ()"
      by (rule fold_rows_events [OF acc(1) [unfolded s']])
    have "\<exists>r \<in> set rows. er_kind r = Released" if "rs_released s'"
    proof -
      have "released_by (first_of_each [] eks)"
        using that e(2) states_released [of "first_of_each [] eks"] core_released [of s'] by (simp add: states_def)
      then obtain x where x: "ev_kind x = Released" "x \<in> set (first_of_each [] eks)"
        unfolding released_by_def by (metis in_set_conv_decomp)
      then obtain k where "(x, k) \<in> set eks" using first_of_each_subset [of "[]" eks] by auto
      then show ?thesis
        using rmap_Inr_mem_back [OF e(1)] row_event_kind x(1) by metis
    qed
    then show ?thesis using e(3) finish_fields [OF acc(2)] s' by auto
  qed
  then show "\<forall>r \<in> set rows. check_digest r = Inr ()" and "ars_released st \<Longrightarrow> \<exists>r \<in> set rows. er_kind r = Released"
    by blast+
qed

lemma check_digest_version [simp]: "check_digest (r\<lparr>er_version := v\<rparr>) = check_digest r"
  by (simp add: check_digest_def)

lemma preflight_record_digests:
  assumes "preflight_v1_record sch rid grp = Inr ()"
  shows "\<forall>r \<in> set grp. check_digest r = Inr ()"
proof -
  obtain st where "fold_rows sch rid (map (\<lambda>r. r\<lparr>er_version := 1\<rparr>) grp) = Inr st"
    using assms by (auto simp: preflight_v1_record_def rbind_Inr_iff)
  then show ?thesis using fold_rows_facts(1) by fastforce
qed

lemma preflight_digests:
  "preflight_rows sch n grp rows = Inr () \<Longrightarrow> \<forall>r \<in> set grp \<union> set rows. check_digest r = Inr ()"
proof (induction sch n grp rows rule: preflight_rows.induct)
  case (1 sch n grp)
  then show ?case using preflight_record_digests by (cases grp) auto
next
  case (2 sch n grp r rows)
  then show ?case
    using preflight_record_digests [of sch _ grp]
    by (cases grp) (auto simp: rbind_Inr_iff split: if_splits)
qed

text \<open>Opening the store: it is ready afterwards, and its rows are the old ones but for their schema version.\<close>

lemma ensure_schema_facts:
  assumes e: "ensure_schema sch db = Inr db'" and i: "store_inv db"
  shows "store_ready db'" and "store_inv db'" and "store_ready db \<Longrightarrow> db' = db"
    and "\<exists>f. rows_of db' = map f (rows_of db) \<and> (\<forall>r. f r = r \<or> f r = r\<lparr>er_version := 1\<rparr>)"
    and "numbered (rows_of db')" and "\<forall>r \<in> set (rows_of db'). check_digest r = Inr ()"
proof -
  let ?f = "\<lambda>r. r\<lparr>er_version := 1\<rparr>"
  consider (fresh) "db_table db = None" | (old) "store_start db" "db_table db \<noteq> None" | (ready) "store_ready db"
    using i by (auto simp: store_inv_def)
  then have "store_ready db' \<and> (store_ready db \<longrightarrow> db' = db) \<and> numbered (rows_of db') \<and>
      (\<forall>r \<in> set (rows_of db'). check_digest r = Inr ()) \<and>
      (\<exists>f. rows_of db' = map f (rows_of db) \<and> (\<forall>r. f r = r \<or> f r = ?f r))"
  proof cases
    case fresh
    then show ?thesis
      using e by (auto simp: ensure_schema_def Let_def unsupported_def store_ready_def rows_of_def numbered_def split: if_splits)
  next
    case old
    then have v: "db_user_version db = 1" "numbered (rows_of db)" by (auto simp: store_start_def)
    then have m: "migrate_schema_v1_to_v2 sch (db\<lparr>db_exists := True\<rparr>) = Inr db'"
      using e old(2) by (auto simp: ensure_schema_def)
    have r: "rows_of (db\<lparr>db_exists := True\<rparr>) = rows_of db" by (simp add: rows_of_def)
    have p: "preflight_v1_records sch (rows_of db) = Inr ()" and d: "rows_of db' = map ?f (rows_of db)" "store_ready db'"
      using m v by (auto simp: migrate_schema_v1_to_v2_def r rbind_Inr_iff numbered_sort rows_of_def [of "_\<lparr>db_table := _\<rparr>"] store_ready_def rows_of_def)
    have "\<forall>r \<in> set (rows_of db'). check_digest r = Inr ()"
      using preflight_digests [OF p [unfolded preflight_v1_records_def]] by (simp add: d)
    moreover have "numbered (rows_of db')" using v(2) by (simp add: d numbered_def comp_def)
    ultimately show ?thesis using d v by (auto simp: store_ready_def)
  next
    case ready
    then have "store_inv db \<Longrightarrow> numbered (rows_of db) \<and> (\<forall>r \<in> set (rows_of db). check_digest r = Inr ())"
      by (auto simp: store_inv_def store_start_def store_ready_def)
    moreover have "db' = db"
      using e ready by (auto simp: ensure_schema_def Let_def store_ready_def unsupported_def split: if_splits)
    ultimately show ?thesis using ready i by (auto intro!: exI [of _ id])
  qed
  then show "store_ready db'" and "store_ready db \<Longrightarrow> db' = db" and "numbered (rows_of db')"
    and "\<forall>r \<in> set (rows_of db'). check_digest r = Inr ()"
    and "\<exists>f. rows_of db' = map f (rows_of db) \<and> (\<forall>r. f r = r \<or> f r = ?f r)" and "store_inv db'"
    by (auto simp: store_inv_def)
qed

lemma append_event_cases:
  assumes "append_event sch kind redacted record_id incident_id now db = (res, db')"
  obtains (refused) e where "res = Inl e" "db' = db \<or> db' = db\<lparr>db_exists := True\<rparr>"
  | (opened) e where "res = Inl e" "ensure_schema sch db = Inr db'"
  | (added) rid p json sha db1 rows where "res = Inr rid"
      "prepare_event sch kind redacted record_id incident_id = Inr (rid, p, json, sha)" "ensure_schema sch db = Inr db1"
      "insert_event sch kind rid p json sha now (rows_of db1) = Inr rows" "db' = db1\<lparr>db_table := Some rows\<rparr>"
  using assms by (auto simp: append_event_def split: sum.splits)

lemma rows_of_updates [simp]: "rows_of (db\<lparr>db_exists := b\<rparr>) = rows_of db" "rows_of (db\<lparr>db_table := Some rows\<rparr>) = rows"
  by (simp_all add: rows_of_def)

lemma inv_exists: "store_inv db \<Longrightarrow> store_inv (db\<lparr>db_exists := True\<rparr>)"
  by (auto simp: store_inv_def store_start_def store_ready_def)

text \<open>A step leaves the rows alone up to the migration, or adds one row at the end of the opened store.\<close>

lemma store_step_cases:
  assumes "store_step sch db db'" and i: "store_inv db"
  obtains (same) "db' = db \<or> db' = db\<lparr>db_exists := True\<rparr>"
  | (opened) "ensure_schema sch db = Inr db'"
  | (added) kind redacted record_id incident_id now db1 rid p json sha r where "ensure_schema sch db = Inr db1"
      "db' = db1\<lparr>db_table := Some (rows_of db1 @ [r])\<rparr>" "er_sequence r = next_sequence (rows_of db1)" "er_record_id r = rid"
      "check_digest r = Inr ()" "prepare_event sch kind redacted record_id incident_id = Inr (rid, p, json, sha)"
      "insert_event sch kind rid p json sha now (rows_of db1) = Inr (rows_of db1 @ [r])"
  using assms(1)
proof (cases rule: store_step.cases)
  case (append_step kind redacted record_id incident_id now res)
  then show thesis
  proof (cases rule: append_event_cases)
    case (added rid p json sha db1 rows)
    obtain r where r: "rows = rows_of db1 @ [r]" "er_sequence r = next_sequence (rows_of db1)" "er_record_id r = rid"
      "er_payload_json r = json" "er_payload_sha256 r = sha"
      using insert_eventE [OF added(4)] by metis
    have "check_digest r = Inr ()"
      using prepare_eventE(5) [OF added(2)] r(4,5) by (simp add: digest_checked)
    then show thesis using that(3) [OF added(3) _ r(2,3) _ added(2)] added(4,5) r(1) by blast
  qed (use that in blast)+
next
  case (init_step res)
  then show thesis using that by (auto simp: initialize_store_def split: sum.splits)
qed

lemma store_inv_step:
  assumes "store_inv db" and "store_step sch db db'"
  shows "store_inv db'"
  using assms(2,1)
proof (cases rule: store_step_cases)
  case (added kind redacted record_id incident_id now db1 rid p json sha r)
  note f = ensure_schema_facts [OF added(1) assms(1)]
  have "store_ready db'" using f(1) added(2) by (simp add: store_ready_def)
  moreover have "numbered (rows_of db')" using numbered_snoc [OF f(5) added(3)] added(2) by simp
  ultimately show ?thesis using f(6) added(2,5) by (auto simp: store_inv_def)
qed (use assms(1) inv_exists ensure_schema_facts(2) in auto)

interpretation store: invariant_system store_start "store_step sch" store_inv for sch
proof unfold_locales
  show "store_inv db" if "store_start db" for db using that by (simp add: store_inv_def)
  show "store_inv db'" if "store_inv db" "store_step sch db db'" for db db' using that by (rule store_inv_step)
qed

text \<open>A ready store only grows.\<close>

lemma ready_step:
  assumes "store_inv db" and "store_step sch db db'" and "store_ready db"
  shows "store_ready db' \<and> (db' = db \<or> (\<exists>r. rows_of db' = rows_of db @ [r]))"
  using assms(2,1)
proof (cases rule: store_step_cases)
  case same
  then show ?thesis using assms(3) by (auto simp: store_ready_def)
next
  case opened
  then show ?thesis using ensure_schema_facts(3) [OF opened assms(1,3)] assms(3) by simp
next
  case (added kind redacted record_id incident_id now db1 rid p json sha r)
  then show ?thesis using ensure_schema_facts(3) [OF added(1) assms(1,3)] assms(3) by (auto simp: store_ready_def)
qed

lemma ready_run:
  assumes "(store_step sch)\<^sup>*\<^sup>* db db'" and "store_inv db" and "store_ready db"
  shows "store_ready db' \<and> prefix (rows_of db) (rows_of db')"
proof -
  have "prefix (rows_of db) (rows_of t') \<and> store_ready t'"
    if "store_inv t" "store_step sch t t'" "prefix (rows_of db) (rows_of t) \<and> store_ready t" for t t'
    using ready_step [OF that(1,2)] that(3) by (auto simp: prefix_def)
  from store.stable_run [where P = "\<lambda>t. prefix (rows_of db) (rows_of t) \<and> store_ready t", OF this assms(1,2)] assms(3)
  show ?thesis by simp
qed

text \<open>
  The rows as the first schema stores them: without the version, a column the migration adds. A store before the migration only has these.
\<close>

definition unversioned :: "event_row \<Rightarrow> event_row" where
  "unversioned r = r\<lparr>er_version := 0\<rparr>"

lemma unversioned_map:
  "\<exists>f. rows' = map f rows \<and> (\<forall>r. f r = r \<or> f r = r\<lparr>er_version := 1\<rparr>) \<Longrightarrow> map unversioned rows' = map unversioned rows"
proof -
  assume "\<exists>f. rows' = map f rows \<and> (\<forall>r. f r = r \<or> f r = r\<lparr>er_version := 1\<rparr>)"
  then obtain f where f: "rows' = map f rows" "\<And>r. f r = r \<or> f r = r\<lparr>er_version := 1\<rparr>" by blast
  have "unversioned (f r) = unversioned r" for r using f(2) [of r] by (auto simp: unversioned_def)
  then show ?thesis by (simp add: f(1))
qed

lemma step_keeps_rows:
  assumes "store_inv db" and "store_step sch db db'"
  shows "prefix (map unversioned (rows_of db)) (map unversioned (rows_of db'))"
  using assms(2,1)
proof (cases rule: store_step_cases)
  case opened
  then show ?thesis using unversioned_map [OF ensure_schema_facts(4) [OF opened assms(1)]] by simp
next
  case (added kind redacted record_id incident_id now db1 rid p json sha r)
  then show ?thesis using unversioned_map [OF ensure_schema_facts(4) [OF added(1) assms(1)]] by simp
qed auto

lemma run_keeps_rows:
  assumes "(store_step sch)\<^sup>*\<^sup>* db db'" and "store_inv db"
  shows "prefix (map unversioned (rows_of db)) (map unversioned (rows_of db'))"
proof -
  let ?P = "\<lambda>t. prefix (map unversioned (rows_of db)) (map unversioned (rows_of t))"
  have "?P t'" if "store_inv t" "store_step sch t t'" "?P t" for t t'
    using step_keeps_rows [OF that(1,2)] that(3) prefix_order.trans by blast
  from store.stable_run [where P = ?P, OF this assms] show ?thesis by simp
qed

text \<open>
  C11. The store is append-only. Whatever sequence of appends and initializations follows, in whatever order and with whatever arguments,
  and whether or not the store was initialized or migrated before, its rows remain the first rows of the later store in every
  column of the first schema, record, kind, payload, digest, sequence number and time of append; in a store that was ready, and so stays ready, in the
  version too. Once a store is ready its sequence numbers are positive and strictly increasing, and every row, old or new, carries the digest
  of its own payload.
\<close>

theorem store_append_only:
  assumes "store_start db0" and "(store_step sch)\<^sup>*\<^sup>* db0 db" and "(store_step sch)\<^sup>*\<^sup>* db db'"
  shows "prefix (map unversioned (rows_of db)) (map unversioned (rows_of db')) \<and>
    (store_ready db \<longrightarrow> store_ready db' \<and> prefix (rows_of db) (rows_of db')) \<and>
    (store_ready db' \<longrightarrow> numbered (rows_of db') \<and> (\<forall>r \<in> set (rows_of db'). check_digest r = Inr ()))"
proof -
  have i: "store_inv db" using store.inv_reachable [OF assms(1,2)] .
  have "store_inv db'" by (rule store.inv_run [OF assms(3) i])
  then have "store_ready db' \<longrightarrow> numbered (rows_of db') \<and> (\<forall>r \<in> set (rows_of db'). check_digest r = Inr ())"
    by (auto simp: store_inv_def store_start_def store_ready_def)
  then show ?thesis using run_keeps_rows [OF assms(3) i] ready_run [OF assms(3) i] by blast
qed

text \<open>A reader sees the rows of one record only.\<close>

definition record_readable :: "schema \<Rightarrow> pystr \<Rightarrow> event_row list \<Rightarrow> adapter_record_state \<Rightarrow> bool" where
  "record_readable sch rid rows st \<longleftrightarrow> length rows \<le> MAX_ADAPTER_STATE_EVENTS \<and>
     (\<exists>journal st0. rmap (\<lambda>r. rbind (journal_occurrence r) (\<lambda>t. Inr (er_sequence r, er_kind r, t))) rows = Inr journal \<and>
        fold_rows sch rid rows = Inr st0 \<and> st = st0\<lparr>ars_journal := journal\<rparr>)"

lemma read_record_iff:
  "read_record sch rid db = Inr st \<longleftrightarrow>
     require_record_id rid = Inr () \<and> db_exists db \<and> db_user_version db = SCHEMA_VERSION \<and> db_table db \<noteq> None \<and>
     record_readable sch rid (record_rows rid (rows_of db)) st"
  by (auto simp: read_record_def require_schema_def record_readable_def rbind_Inr_iff Let_def)

text \<open>The rows of a record when some event is appended to the store.\<close>

lemma record_rows_step:
  assumes i: "store_inv db" and s: "store_step sch db db'" and r: "store_ready db"
  shows "record_rows rid (rows_of db') = record_rows rid (rows_of db) \<or>
    (\<exists>kind p json sha now x. record_rows rid (rows_of db') = record_rows rid (rows_of db) @ [x] \<and>
       insert_event sch kind rid p json sha now (rows_of db) = Inr (rows_of db'))"
  using s i
proof (cases rule: store_step_cases)
  case opened
  then show ?thesis using ensure_schema_facts(3) [OF opened i r] by simp
next
  case (added kind redacted record_id incident_id now db1 rid' p json sha x)
  have "db1 = db" using ensure_schema_facts(3) [OF added(1) i r] .
  moreover have "numbered (rows_of db)" using ensure_schema_facts(5) [OF added(1) i] \<open>db1 = db\<close> by simp
  ultimately show ?thesis
    using record_rows_snoc [of "rows_of db" x rid] added(2,3,4,7) by (cases "rid' = rid") (auto, blast)
qed auto

lemma released_rows_closed:
  assumes "record_readable sch rid (record_rows rid rows) st" and "ars_released st"
  shows "insert_event sch kind rid p json sha now rows \<noteq> Inr rows'"
proof
  assume a: "insert_event sch kind rid p json sha now rows = Inr rows'"
  obtain st0 where st0: "fold_rows sch rid (record_rows rid rows) = Inr st0" "ars_released st0"
    "length (record_rows rid rows) \<le> MAX_ADAPTER_STATE_EVENTS"
    using assms by (auto simp: record_readable_def)
  have "fold_record_rows sch rid rows = Inr st0" using st0 by (simp add: fold_record_rows_def)
  moreover have "\<exists>r \<in> set (record_rows rid rows). er_kind r = Released" by (rule fold_rows_facts(2) [OF st0(1,2)])
  ultimately show False using st0(2) by (metis insert_eventE [OF a])
qed

text \<open>What can be read is in a ready store, and opening that changes nothing.\<close>

lemma read_ready: "read_record sch rid db = Inr st \<Longrightarrow> store_inv db \<Longrightarrow> store_ready db"
  by (auto simp: read_record_iff store_inv_def store_start_def SCHEMA_VERSION_def)

lemma ready_ensure: "store_ready db \<Longrightarrow> ensure_schema sch db = Inr db"
  by (auto simp: store_ready_def ensure_schema_def Let_def)

lemma released_append_refused:
  assumes "store_ready db" and "record_readable sch rid (record_rows rid (rows_of db)) st" and "ars_released st"
  shows "fst (append_event sch kind redacted record_id incident_id now db) \<noteq> Inr rid"
    and "kind \<noteq> QuarantineOpened \<Longrightarrow> record_id = Some rid \<Longrightarrow> \<exists>e. fst (append_event sch kind redacted record_id incident_id now db) = Inl e"
    and "prepare_event sch kind redacted record_id incident_id = Inr (rid, p, json, sha) \<Longrightarrow>
      require_matching_record_identity sch rid p (rows_of db) = Inr () \<Longrightarrow>
      append_event sch kind redacted record_id incident_id now db =
        (Inl (ValueErr ''released adapter incident rejects later evidence; create a new incident_id''), db)"
proof -
  note closed = released_rows_closed [OF assms(2,3)]
  show no: "fst (append_event sch kind redacted record_id incident_id now db) \<noteq> Inr rid"
    using closed by (auto simp: append_event_def ready_ensure [OF assms(1)] split: sum.splits)
  show "\<exists>e. fst (append_event sch kind redacted record_id incident_id now db) = Inl e"
    if "kind \<noteq> QuarantineOpened" "record_id = Some rid"
    using that no by (auto simp: append_event_def prepare_event_def rbind_Inr_iff split: sum.splits)
  obtain st0 where st0: "fold_rows sch rid (record_rows rid (rows_of db)) = Inr st0" "ars_released st0"
    "length (record_rows rid (rows_of db)) \<le> MAX_ADAPTER_STATE_EVENTS"
    using assms(2,3) by (auto simp: record_readable_def)
  have f: "fold_record_rows sch rid (rows_of db) = Inr st0" using st0 by (simp add: fold_record_rows_def)
  have "\<exists>r \<in> set (record_rows rid (rows_of db)). er_kind r = Released" by (rule fold_rows_facts(2) [OF st0(1,2)])
  then have k: "filter (\<lambda>r. er_kind r = Released) (record_rows rid (rows_of db)) \<noteq> []" by (auto simp: filter_empty_conv)
  then have "insert_event sch kind rid p json sha now (rows_of db) =
      Inl (ValueErr ''released adapter incident rejects later evidence; create a new incident_id'')"
    if "require_matching_record_identity sch rid p (rows_of db) = Inr ()"
    using that f st0(2) by (simp add: insert_event_def Let_def require_def)
  then show "append_event sch kind redacted record_id incident_id now db =
        (Inl (ValueErr ''released adapter incident rejects later evidence; create a new incident_id''), db)"
    if "prepare_event sch kind redacted record_id incident_id = Inr (rid, p, json, sha)"
      "require_matching_record_identity sch rid p (rows_of db) = Inr ()"
    using that by (simp add: append_event_def ready_ensure [OF assms(1)])
qed

text \<open>
  C10. A released incident is closed for good. Once a record reads as released, whatever is appended to the store later, it reads as exactly
  the same state, journal included, and every append to it is refused: none returns its id, one that names it raises, and evidence
  that is valid and of the record's own identity is refused with the error that asks for a new incident, changing nothing.
\<close>

theorem released_is_final:
  assumes "store_start db0" and "(store_step sch)\<^sup>*\<^sup>* db0 db"
    and "read_record sch rid db = Inr st" and "ars_released st" and "(store_step sch)\<^sup>*\<^sup>* db db'"
  shows "read_record sch rid db' = Inr st \<and>
    fst (append_event sch kind redacted record_id incident_id now db') \<noteq> Inr rid \<and>
    (kind \<noteq> QuarantineOpened \<and> record_id = Some rid \<longrightarrow>
       (\<exists>e. fst (append_event sch kind redacted record_id incident_id now db') = Inl e)) \<and>
    (prepare_event sch kind redacted record_id incident_id = Inr (rid, p, json, sha) \<and>
       require_matching_record_identity sch rid p (rows_of db') = Inr () \<longrightarrow>
       append_event sch kind redacted record_id incident_id now db' =
         (Inl (ValueErr ''released adapter incident rejects later evidence; create a new incident_id''), db'))"
proof -
  have i: "store_inv db" using store.inv_reachable [OF assms(1,2)] .
  let ?P = "\<lambda>t. store_ready t \<and> record_rows rid (rows_of t) = record_rows rid (rows_of db)"
  have readable: "record_readable sch rid (record_rows rid (rows_of db)) st" and rid: "require_record_id rid = Inr ()"
    using assms(3) by (simp_all add: read_record_iff)
  have P: "?P db'"
  proof (rule store.stable_run [where P = ?P, OF _ assms(5) i])
    show "?P t'" if "store_inv t" "store_step sch t t'" "?P t" for t t'
      using ready_step [OF that(1,2)] record_rows_step [OF that(1,2), of rid] that(3)
        released_rows_closed [of sch rid "rows_of t" st] readable assms(4) by metis
  qed (simp add: read_ready [OF assms(3) i])
  then have "record_readable sch rid (record_rows rid (rows_of db')) st" "store_ready db'" using readable by simp_all
  note refused = released_append_refused [OF this(2,1) assms(4)]
  have "read_record sch rid db' = Inr st" using P readable rid by (simp add: read_record_iff store_ready_def)
  then show ?thesis using refused by (intro conjI impI) auto
qed

section \<open>Attempts without an order\<close>

text \<open>
  A row whose attempts cannot be sorted: its request ids are of two kinds. Nothing on the way in checks this.
\<close>

definition unsortable_row :: "schema \<Rightarrow> event_row \<Rightarrow> bool" where
  "unsortable_row sch r \<longleftrightarrow> er_version r = SCHEMA_VERSION \<and>
     (\<exists>p as. row_payload sch SCHEMA_VERSION r = Inr p \<and> attempt_tuples sch SCHEMA_VERSION p = Inr as \<and> \<not> comparable as)"

lemma unsortable_event: "unsortable_row sch r \<Longrightarrow> row_event sch r \<noteq> Inr ek"
  by (auto simp: unsortable_row_def row_event_def event_of_def rbind_Inr_iff sorted_attempts_def)

lemma rows_of_second_grammar: "r \<in> set rows \<Longrightarrow> er_version r \<noteq> 1 \<Longrightarrow> all_true_legacy_v1 rows \<noteq> Inr True"
  by (induction rows) (auto simp: rbind_Inr_iff row_is_legacy_def split: if_splits)

lemma unsortable_unreadable:
  assumes "r \<in> set rows" and "unsortable_row sch r"
  shows "fold_rows sch rid rows \<noteq> Inr st"
proof
  assume f: "fold_rows sch rid rows = Inr st"
  have "all_true_legacy_v1 rows \<noteq> Inr True"
    using rows_of_second_grammar [OF assms(1)] assms(2) by (simp add: unsortable_row_def)
  then have "rows = [] \<or> all_true_legacy_v1 rows = Inr False"
    using f by (auto simp: fold_rows_def rbind_Inr_iff split: if_splits)
  then obtain acc where acc: "rfold (fold_row sch) (empty_state, []) rows = Inr acc"
    using f by (auto simp: fold_rows_def rbind_Inr_iff split: if_splits)
  obtain s' seen' where "acc = (s', seen')" by (cases acc)
  obtain eks where "rmap (row_event sch) rows = Inr eks" by (rule fold_rows_events [OF acc [unfolded \<open>acc = _\<close>]])
  then show False using rmap_Inr_mem [OF _ assms(1)] unsortable_event [OF assms(2)] by blast
qed

section \<open>What is written reads back\<close>

text \<open>A row stores \<open>p\<close>: parsing it gives \<open>q\<close>, the same payload with its dictionaries in key order.\<close>

lemma row_payload_stored:
  assumes "strings_only sch" and n: "norm_of p q" and "canonical_json (PDict p) = Inr (er_payload_json r)"
    and "validate_event_payload sch (er_kind r) SCHEMA_VERSION (PDict p) = Inr ()"
  shows "row_payload sch SCHEMA_VERSION r = Inr q"
proof -
  have "json_load (er_payload_json r) = Inr (PDict q)"
    using loads_dumps [OF assms(3) [unfolded canonical_json_def], of plain_opts] n by (simp add: json_load_def norm_of_def)
  then show ?thesis
    using norm_validates [OF assms(1) n] assms(4) by (simp add: row_payload_def integrity_checked_def)
qed

lemma append_adds:
  assumes "append_event sch kind redacted record_id incident_id now db = (Inr rid, db')" and i: "store_inv db"
    and s: "strings_only sch" and p: "payload_of redacted = Inr p" and f: "norm_of p q"
  obtains rows r where "rows_of db' = rows @ [r]" and "er_record_id r = rid" and "er_kind r = kind" and "er_version r = SCHEMA_VERSION"
    and "check_digest r = Inr ()" and "row_payload sch SCHEMA_VERSION r = Inr q" and "store_ready db \<Longrightarrow> rows = rows_of db"
    and "store_ready db'"
  using assms(1)
proof (cases rule: append_event_cases)
  case (added rid' p' json sha db1 rows')
  note v = prepare_eventE [OF added(2)]
  obtain r where r: "rows' = rows_of db1 @ [r]" "er_record_id r = rid'" "er_kind r = kind" "er_payload_json r = json"
    "er_payload_sha256 r = sha" "er_version r = SCHEMA_VERSION"
    using insert_eventE [OF added(4)] by metis
  have "p' = p" and "rid' = rid" using v(1) p added(1) by simp_all
  have "row_payload sch SCHEMA_VERSION r = Inr q"
    by (rule row_payload_stored [OF s f]) (use v(2,4) r(3,4) \<open>p' = p\<close> in simp_all)
  moreover have "check_digest r = Inr ()" using v(5) r(4,5) by (simp add: digest_checked)
  ultimately show thesis
    using that [of "rows_of db1" r] added(5) r \<open>rid' = rid\<close> ensure_schema_facts(1,3) [OF added(3) i]
    by (simp add: store_ready_def)
qed simp_all

text \<open>
  C12. Read after write: when an event is accepted whose payload is plain JSON data, its record gets a last row with the digest of
  its text, parsing and validating that row gives exactly the redacted payload that was appended, in key order, and on a
  ready store the earlier rows are the ones that were there.
\<close>

theorem append_reads_back:
  assumes "store_start db0" and "(store_step sch)\<^sup>*\<^sup>* db0 db" and "strings_only sch"
    and "append_event sch kind redacted record_id incident_id now db = (Inr rid, db')"
    and "payload_of redacted = Inr p" and "json_ok False (PDict p)"
  shows "\<exists>rows r q. rows_of db' = rows @ [r] \<and> er_record_id r = rid \<and> er_kind r = kind \<and> check_digest r = Inr () \<and>
    row_payload sch (er_version r) r = Inr q \<and> PDict q = json_norm (PDict p) \<and> (store_ready db \<longrightarrow> rows = rows_of db)"
proof -
  have i: "store_inv db" using store.inv_reachable [OF assms(1,2)] .
  obtain q where q: "norm_of p q" using norm_of_ex [OF assms(6)] by blast
  then have "PDict q = json_norm (PDict p)" by (simp add: norm_of_def)
  then show ?thesis using append_adds [OF assms(4) i assms(3,5) q] by metis
qed

text \<open>
  C13. Attempts whose request ids are of two kinds poison a record: when an event with such attempts is accepted (nothing on
  the way in refuses it), no read of that record ever succeeds again, whatever is appended afterwards, so it can never
  be seen to be released.
\<close>

theorem mixed_attempts_poison_record:
  assumes "store_start db0" and "(store_step sch)\<^sup>*\<^sup>* db0 db" and "strings_only sch"
    and "append_event sch kind redacted record_id incident_id now db = (Inr rid, db1)"
    and "payload_of redacted = Inr p" and "json_ok False (PDict p)"
    and "attempt_tuples sch SCHEMA_VERSION p = Inr as" and "\<not> comparable as"
    and "(store_step sch)\<^sup>*\<^sup>* db1 db'"
  shows "read_record sch rid db' \<noteq> Inr st"
proof
  assume "read_record sch rid db' = Inr st"
  then have readable: "record_readable sch rid (record_rows rid (rows_of db')) st" by (simp add: read_record_iff)
  have i: "store_inv db" using store.inv_reachable [OF assms(1,2)] .
  obtain q where q: "norm_of p q" using norm_of_ex [OF assms(6)] by blast
  obtain rows r where r: "rows_of db1 = rows @ [r]" "er_record_id r = rid" "er_version r = SCHEMA_VERSION"
    "row_payload sch SCHEMA_VERSION r = Inr q" and d: "store_ready db1"
    by (rule append_adds [OF assms(4) i assms(3,5) q])
  have "store_inv db1" by (rule store_inv_step [OF i append_step [OF assms(4)]])
  then have "r \<in> set (rows_of db')"
    using ready_run [OF assms(9) _ d] r(1) by (auto simp: prefix_def)
  then have "r \<in> set (record_rows rid (rows_of db'))" using r(2) by (simp add: record_rows_def)
  moreover have "unsortable_row sch r"
    using r(3,4) norm_attempts [OF assms(3) q] assms(7,8) by (auto simp: unsortable_row_def)
  ultimately show False using unsortable_unreadable readable by (metis record_readable_def)
qed

end
