(* ===== verification/JsonTotal.thy ===== *)
theory JsonTotal
  imports Conformance
begin

text \<open>
  The JSON parser is total: its fuel is always enough, so what it raises is what Python raises. Consumption bounds for every part of
  the parser, then the outcomes of loading a frame. What is rendered from encodable text is encodable.
\<close>

section \<open>Every part of the parser consumes\<close>

lemma skip_ws_length: "length (skip_ws s) \<le> length s"
  by (induction s) auto

lemma read_hex4_length: "read_hex4 s = Some (u, r) \<Longrightarrow> length r < length s"
  by (induction s rule: read_hex4.induct) (auto split: option.splits)

lemma unicode_escape_length: "unicode_escape s = Some (u, r) \<Longrightarrow> length r < length s"
  by (subst (asm) unicode_escape.simps) (fastforce split: option.splits list.splits if_splits dest: read_hex4_length)

declare unicode_escape.simps [simp del]

lemma scan_string_length: "scan_string n s = Some (t, r) \<Longrightarrow> length r < length s"
proof (induction n s arbitrary: t rule: scan_string.induct)
  case (3 n c s)
  then show ?case
    by (auto split: if_splits list.splits option.splits dest!: unicode_escape_length)
      (fastforce dest: unicode_escape_length)+
qed auto

text \<open>A string scan with one unit of fuel per character never runs out: more fuel changes nothing.\<close>

lemma scan_string_fuel: "length s < n \<Longrightarrow> scan_string (Suc n) s = scan_string n s"
proof (induction n arbitrary: s)
  case (Suc n)
  show ?case
  proof (cases s)
    case (Cons c r)
    have u: "scan_string (Suc n) r' = scan_string n r'" if "unicode_escape q = Some (x, r')" "r = e # q" for e q x r'
      by (rule Suc.IH) (use Suc.prems Cons that unicode_escape_length [OF that(1)] in simp)
    have q: "scan_string (Suc n) q = scan_string n q" if "r = e # q" for e q
      by (rule Suc.IH) (use Suc.prems Cons that in simp)
    have r: "scan_string (Suc n) r = scan_string n r" by (rule Suc.IH) (use Suc.prems Cons in simp)
    show ?thesis unfolding Cons
      by (simp only: scan_string.simps) (auto simp del: scan_string.simps simp: u q r split: list.split option.split)
  qed simp
qed simp

lemma dropWhile_length: "length s \<le> n \<Longrightarrow> length (dropWhile P s) \<le> n"
  by (induction s) auto

lemma int_part_length: "int_part s = Some (ip, r) \<Longrightarrow> length r < length s"
  by (cases s) (auto simp: int_part_def less_Suc_eq_le intro!: dropWhile_length split: if_splits)

lemma frac_part_length: "frac_part s = (fp, r) \<Longrightarrow> length r \<le> length s"
  by (cases s) (auto simp: frac_part_def intro!: dropWhile_length split: if_splits)

lemma exp_part_length: "exp_part s = (ex, r) \<Longrightarrow> length r \<le> length s"
  by (cases s) (auto simp: exp_part_def Let_def intro!: dropWhile_length split: if_splits list.splits)

lemma parse_constant_length: "parse_constant opts f r = Inr (v, r') \<Longrightarrow> r' = r"
  by (auto simp: parse_constant_def split: if_splits)

lemma parse_number_length:
  assumes "parse_number opts s = Inr (v, r)"
  shows "length r < length s"
proof -
  obtain neg q where q: "(case s of [] \<Rightarrow> (False, s) | c # r \<Rightarrow> if c = 45 then (True, r) else (False, s)) = (neg, q)"
    by (cases "case s of [] \<Rightarrow> (False, s) | c # r \<Rightarrow> if c = 45 then (True, r) else (False, s)")
  then have le: "length q \<le> length s" by (auto split: list.splits if_splits)
  show ?thesis
  proof (cases "int_part q")
    case None
    then show ?thesis
      using assms q
      by (cases s) (auto simp: parse_number_def lit_def starts_with_def dest!: parse_constant_length split: if_splits)
  next
    case (Some a)
    obtain ip r1 where a: "a = (ip, r1)" by (cases a)
    obtain fp r2 where f: "frac_part r1 = (fp, r2)" by (cases "frac_part r1")
    obtain ex r3 where x: "exp_part r2 = (ex, r3)" by (cases "exp_part r2")
    have "r = r3" using assms q Some a f x by (auto simp: parse_number_def rbind_Inr_iff)
    then show ?thesis
      using le int_part_length [of q ip r1] frac_part_length [OF f] exp_part_length [OF x] Some a by simp
  qed
qed

lemma parse_elems_parts:
  assumes "parse_elems opts (Suc n) s = Inr (vs, r)"
  obtains v r1 c r2 where "parse_value opts n s = Inr (v, r1)" and "skip_ws r1 = c # r2"
    and "c = 93 \<and> r = r2 \<or> (\<exists>vs'. parse_elems opts n (skip_ws r2) = Inr (vs', r))"
proof -
  obtain v r1 where v: "parse_value opts n s = Inr (v, r1)"
    using assms by (cases "parse_value opts n s") (auto simp: parse_elems.simps)
  then obtain c r2 where c: "skip_ws r1 = c # r2" using assms by (cases "skip_ws r1") (auto simp: parse_elems.simps)
  then show thesis using that [OF v c] assms v by (auto simp: parse_elems.simps rbind_Inr_iff split: if_splits)
qed

lemma parse_members_parts:
  assumes "parse_members opts (Suc n) s = Inr (ps, r)"
  obtains q r0 k r1 col r2 v r3 c r4 where "s = q # r0" and "scan_string (Suc (length r0)) r0 = Some (k, r1)"
    and "skip_ws r1 = col # r2" and "parse_value opts n (skip_ws r2) = Inr (v, r3)" and "skip_ws r3 = c # r4"
    and "c = 125 \<and> r = r4 \<or> (\<exists>ps'. parse_members opts n (skip_ws r4) = Inr (ps', r))"
proof -
  obtain q r0 where s: "s = q # r0" using assms by (cases s) (auto simp: parse_members.simps)
  obtain k r1 where k: "scan_string (Suc (length r0)) r0 = Some (k, r1)"
    using assms s by (cases "scan_string (Suc (length r0)) r0") (auto simp: parse_members.simps simp del: scan_string.simps split: if_splits)
  obtain col r2 where col: "skip_ws r1 = col # r2"
    using assms s k by (cases "skip_ws r1") (auto simp: parse_members.simps simp del: scan_string.simps split: if_splits)
  obtain v r3 where v: "parse_value opts n (skip_ws r2) = Inr (v, r3)"
    using assms s k col
    by (cases "parse_value opts n (skip_ws r2)") (auto simp: parse_members.simps simp del: scan_string.simps split: if_splits)
  obtain c r4 where c: "skip_ws r3 = c # r4"
    using assms s k col v by (cases "skip_ws r3") (auto simp: parse_members.simps simp del: scan_string.simps split: if_splits)
  show thesis
    by (rule that [OF s k col v c])
      (use assms s k col v c in \<open>auto simp: parse_members.simps rbind_Inr_iff simp del: scan_string.simps split: if_splits\<close>)
qed

lemma parse_length_all:
  "(\<forall>s v r. parse_value opts n s = Inr (v, r) \<longrightarrow> length r < length s) \<and>
   (\<forall>s vs r. parse_elems opts n s = Inr (vs, r) \<longrightarrow> length r < length s) \<and>
   (\<forall>s ps r. parse_members opts n s = Inr (ps, r) \<longrightarrow> length r < length s)"
proof (induction n arbitrary: opts)
  case 0
  then show ?case by (simp add: parse_value.simps parse_elems.simps parse_members.simps)
next
  case (Suc n)
  then have V: "parse_value opts n s = Inr (v, r) \<Longrightarrow> length r < length s"
    and E: "parse_elems opts n s = Inr (vs, r) \<Longrightarrow> length r < length s"
    and M: "parse_members opts n s = Inr (ps, r) \<Longrightarrow> length r < length s" for opts s v vs ps r
    by blast+
  have w: "skip_ws q = d # r \<Longrightarrow> length r < length q" for q d r using skip_ws_length [of q] by simp
  have sk: "length q < k \<Longrightarrow> length (skip_ws q) < k" for q k using skip_ws_length [of q] by simp
  show ?case
  proof (intro conjI allI impI)
    fix s v r assume a: "parse_value opts (Suc n) s = Inr (v, r)"
    then obtain c q where s: "s = c # q" by (cases s) (auto simp: parse_value.simps)
    have m: "length r < length q" if "skip_ws q = d # q'" "parse_members (inner opts) n (d # q') = Inr (ps, r)" for d q' ps
      using M [OF that(2)] w [OF that(1)] by simp
    have e: "length r < length q" if "skip_ws q = d # q'" "parse_elems (inner opts) n (d # q') = Inr (vs, r)" for d q' vs
      using E [OF that(2)] w [OF that(1)] by simp
    show "length r < length s"
      using a unfolding s
      by (auto simp: parse_value.simps rbind_Inr_iff less_Suc_eq split: if_splits option.splits list.splits
          dest!: scan_string_length parse_number_length dest: m e w)
  next
    fix s vs r assume "parse_elems opts (Suc n) s = Inr (vs, r)"
    then obtain v r1 c r2 where p: "parse_value opts n s = Inr (v, r1)" "skip_ws r1 = c # r2"
      "c = 93 \<and> r = r2 \<or> (\<exists>vs'. parse_elems opts n (skip_ws r2) = Inr (vs', r))"
      by (rule parse_elems_parts)
    have "length r2 < length s" using V [OF p(1)] w [OF p(2)] by simp
    then show "length r < length s"
      using p(3) E [of opts "skip_ws r2" _ r] skip_ws_length [of r2] by fastforce
  next
    fix s ps r assume "parse_members opts (Suc n) s = Inr (ps, r)"
    then obtain q r0 k r1 col r2 v r3 c r4 where p: "s = q # r0" "scan_string (Suc (length r0)) r0 = Some (k, r1)"
      "skip_ws r1 = col # r2" "parse_value opts n (skip_ws r2) = Inr (v, r3)" "skip_ws r3 = c # r4"
      "c = 125 \<and> r = r4 \<or> (\<exists>ps'. parse_members opts n (skip_ws r4) = Inr (ps', r))"
      by (rule parse_members_parts)
    have "length r4 < length s"
      using scan_string_length [OF p(2)] w [OF p(3)] V [OF p(4)] skip_ws_length [of r2] w [OF p(5)] p(1) by simp
    then show "length r < length s"
      using p(6) M [of opts "skip_ws r4" _ r] skip_ws_length [of r4] by fastforce
  qed
qed

lemma parse_length:
  "parse_value opts n s = Inr (v, r) \<Longrightarrow> length r < length s"
  "parse_elems opts n s = Inr (vs, r) \<Longrightarrow> length r < length s"
  "parse_members opts n s = Inr (ps, r) \<Longrightarrow> length r < length s"
  using parse_length_all by blast+

section \<open>The fuel is enough\<close>

fun parse_error :: "pyerr \<Rightarrow> bool" where
  "parse_error JSONDecodeErr = True"
| "parse_error (DuplicateMemberErr _) = True"
| "parse_error RecursionErr = True"
| "parse_error (ValueErr m) = (m = ''Exceeds the limit for integer string conversion'')"
| "parse_error _ = False"

abbreviation raises_parse_errors :: "pyerr + 'a \<Rightarrow> bool" where
  "raises_parse_errors \<equiv> never (\<lambda>e. \<not> parse_error e)"

lemma number_errors: "raises_parse_errors (parse_number opts s)"
  by (auto simp: parse_number_def number_value_def parse_constant_def Let_def split: prod.split option.split intro!: never_intros)

lemma object_errors: "raises_parse_errors (object_of_pairs opts ps)"
proof -
  have "raises_parse_errors (dup_object seen ps out)" for seen out
    by (induction seen ps out rule: dup_object.induct) auto
  then show ?thesis by (simp add: object_of_pairs_def duplicate_rejecting_object_def never_rbind)
qed

lemma parse_fuel:
  "(\<forall>s. 2 * length s + 1 \<le> n \<longrightarrow> raises_parse_errors (parse_value opts n s)) \<and>
   (\<forall>s. 2 * length s + 2 \<le> n \<longrightarrow> raises_parse_errors (parse_elems opts n s)) \<and>
   (\<forall>s. 2 * length s + 2 \<le> n \<longrightarrow> raises_parse_errors (parse_members opts n s))"
proof (induction n arbitrary: opts)
  case (Suc n)
  then have V: "2 * length s + 1 \<le> n \<Longrightarrow> raises_parse_errors (parse_value opts n s)"
    and E: "2 * length s + 2 \<le> n \<Longrightarrow> raises_parse_errors (parse_elems opts n s)"
    and M: "2 * length s + 2 \<le> n \<Longrightarrow> raises_parse_errors (parse_members opts n s)" for opts s
    by blast+
  have w: "skip_ws q = d # r \<Longrightarrow> length r < length q" for q d r using skip_ws_length [of q] by simp
  show ?case
  proof (intro conjI allI impI)
    fix s :: pystr assume l: "2 * length s + 1 \<le> Suc n"
    show "raises_parse_errors (parse_value opts (Suc n) s)"
    proof (cases s)
      case (Cons c q)
      have m: "raises_parse_errors (parse_members (inner opts) n (d # q'))" "raises_parse_errors (parse_elems (inner opts) n (d # q'))"
        if "skip_ws q = d # q'" for d q'
        using M [of "d # q'" "inner opts"] E [of "d # q'" "inner opts"] w [OF that] l Cons by simp_all
      show ?thesis
        by (auto simp: Cons parse_value.simps number_errors object_errors m split: option.split list.split prod.split
            intro!: never_intros)
    qed (simp add: parse_value.simps)
  next
    fix s :: pystr assume l: "2 * length s + 2 \<le> Suc n"
    have m: "raises_parse_errors (parse_elems opts n (skip_ws r'))"
      if "parse_value opts n s = Inr (v, r)" "skip_ws r = c # r'" for v r c r'
      using E [of "skip_ws r'" opts] parse_length(1) [OF that(1)] w [OF that(2)] skip_ws_length [of r'] l by simp
    show "raises_parse_errors (parse_elems opts (Suc n) s)"
      using V [of s opts] l by (auto simp: parse_elems.simps m split: list.split prod.split intro!: never_intros)
  next
    fix s :: pystr assume l: "2 * length s + 2 \<le> Suc n"
    show "raises_parse_errors (parse_members opts (Suc n) s)"
    proof (cases s)
      case (Cons q r0)
      have v: "raises_parse_errors (parse_value opts n (skip_ws r2))"
        if "scan_string (Suc (length r0)) r0 = Some (k, r1)" "skip_ws r1 = col # r2" for k r1 col r2
        using V [of "skip_ws r2" opts] scan_string_length [OF that(1)] w [OF that(2)] skip_ws_length [of r2] l Cons by simp
      have m: "raises_parse_errors (parse_members opts n (skip_ws r4))"
        if "scan_string (Suc (length r0)) r0 = Some (k, r1)" "skip_ws r1 = col # r2"
          "parse_value opts n (skip_ws r2) = Inr (v, r3)" "skip_ws r3 = c # r4" for k r1 col r2 v r3 c r4
        using M [of "skip_ws r4" opts] scan_string_length [OF that(1)] w [OF that(2)] skip_ws_length [of r2]
          parse_length(1) [OF that(3)] w [OF that(4)] skip_ws_length [of r4] l Cons by simp
      show ?thesis
        by (auto simp: Cons parse_members.simps v m split: option.split list.split prod.split intro!: never_intros)
    qed (simp add: parse_members.simps)
  qed
qed simp

lemma loads_errors: "raises_parse_errors (loads opts s)"
proof (cases s)
  case (Cons c q)
  have "2 * length (skip_ws s) + 1 \<le> 2 * length s + 2" using skip_ws_length [of s] by simp
  then have "raises_parse_errors (parse_value opts (2 * length s + 2) (skip_ws s))"
    using parse_fuel [where n = "2 * length s + 2"] by blast
  then show ?thesis using Cons by (auto simp: loads_def split: prod.split intro!: never_intros)
qed (simp add: loads_def)

section \<open>Rendered text is encodable\<close>

lemma hex_digit_ascii: "m < 16 \<Longrightarrow> hex_digit m < 128"
  by (simp add: hex_digit_def)

lemma u_escape_ascii: "list_all (\<lambda>x. x < 128) (u_escape c)"
  by (simp add: u_escape_def hex4_def hex_digit_ascii)

lemma escape_ascii: "list_all (\<lambda>x. x < 128 \<or> x = c) (escape_char a c)"
proof -
  have "list_all (\<lambda>x. x < 128 \<or> x = c) (u_escape d)" for d
    using u_escape_ascii [of d] by (simp add: list_all_iff)
  then show ?thesis by (simp add: escape_char_def)
qed

lemma small_clean: "x < 128 \<Longrightarrow> \<not> is_surrogate x"
  by (simp add: is_surrogate_def)

lemma clean_iff: "\<not> contains_surrogate s \<longleftrightarrow> (\<forall>c \<in> set s. \<not> is_surrogate c)"
  by (simp add: contains_surrogate_def list_ex_iff)

lemma quote_clean:
  assumes "str_ok True s"
  shows "\<not> contains_surrogate (quote_str a s)"
proof -
  have "\<not> is_surrogate x" if "c \<in> set s" "x \<in> set (escape_char a c)" for c x
    using that escape_ascii [of c a] assms small_clean [of x] by (auto simp: list_all_iff str_ok_def)
  then show ?thesis by (auto simp: clean_iff quote_str_def is_surrogate_def [of 34])
qed

lemma join_clean: "is_surrogate c = False \<Longrightarrow> \<forall>t \<in> set ts. \<not> contains_surrogate t \<Longrightarrow> \<not> contains_surrogate (join c ts)"
  by (cases ts) (auto simp: clean_iff join_def)

lemma digits_clean:
  assumes "int_text z = Inr t"
  shows "\<not> contains_surrogate t"
proof -
  have "\<not> is_surrogate c" if "c \<in> set (nat_digits n)" for c n
    using nat_digits_digit [OF that] by (simp add: is_digit_def is_surrogate_def)
  then show ?thesis
    using assms by (auto simp: int_text_def clean_iff Let_def is_surrogate_def [of 45] split: if_splits)
qed

lemma lit_text_clean [simp]: "\<not> contains_surrogate (lit s)"
  using str_ok_lit [of True s] by (auto simp: str_ok_def clean_iff)

lemma encode_clean: "encode l a v = Inr t \<Longrightarrow> json_ok True v \<Longrightarrow> \<not> contains_surrogate t"
proof (induction l a v arbitrary: t rule: encode.induct)
  case (3 l a z)
  then show ?case using digits_clean by simp
next
  case (5 l a s)
  then show ?case using quote_clean by auto
next
  case (7 l a xs)
  then obtain ts where ts: "rmap (encode (l - 1) a) xs = Inr ts" "t = 91 # join 44 ts @ [93]" and lv: "l \<noteq> 0"
    by (auto simp: rbind_Inr_iff split: if_splits)
  have "\<forall>u \<in> set ts. \<not> contains_surrogate u"
    by (rule rmap_all [OF ts(1)]) (use 7 lv in auto)
  from join_clean [OF _ this, of 44] show ?case using ts(2) by (simp add: clean_iff is_surrogate_def)
next
  case (8 l a xs)
  then obtain ts where ts: "rmap (encode (l - 1) a) xs = Inr ts" "t = 91 # join 44 ts @ [93]" and lv: "l \<noteq> 0"
    by (auto simp: rbind_Inr_iff split: if_splits)
  have "\<forall>u \<in> set ts. \<not> contains_surrogate u"
    by (rule rmap_all [OF ts(1)]) (use 8 lv in auto)
  from join_clean [OF _ this, of 44] show ?case using ts(2) by (simp add: clean_iff is_surrogate_def)
next
  case (9 l a d)
  obtain kvs where kvs: "str_items d = Some kvs" "\<forall>kv \<in> set kvs. str_ok True (fst kv) \<and> json_ok True (snd kv)"
    using "9.prems"(2) by (auto split: option.splits)
  let ?f = "\<lambda>kv. rbind (encode (l - 1) a (snd kv)) (\<lambda>t. Inr (quote_str a (fst kv) @ 58 # t))"
  obtain ts where ts: "rmap ?f (sort_key fst kvs) = Inr ts" "t = 123 # join 44 ts @ [125]" and lv: "l \<noteq> 0"
    using "9.prems"(1) kvs(1) by (auto simp: rbind_Inr_iff split: if_splits)
  have "\<forall>u \<in> set ts. \<not> contains_surrogate u"
  proof (rule rmap_all [OF ts(1)])
    fix kv u assume kv: "kv \<in> set (sort_key fst kvs)" and u: "?f kv = Inr u"
    obtain w where w: "encode (l - 1) a (snd kv) = Inr w" "u = quote_str a (fst kv) @ 58 # w" using u by (auto simp: rbind_Inr_iff)
    have "\<not> contains_surrogate w" using "9.IH" [OF lv kvs(1) _ w(1)] kvs(2) kv by auto
    then show "\<not> contains_surrogate u"
      using w(2) quote_clean [of "fst kv" a] kvs(2) kv by (auto simp: clean_iff is_surrogate_def)
  qed
  from join_clean [OF _ this, of 44] show ?case using ts(2) by (simp add: clean_iff is_surrogate_def)
qed auto

lemma dumps_clean: "dumps a v = Inr t \<Longrightarrow> json_ok True v \<Longrightarrow> \<not> contains_surrogate t"
  unfolding dumps_def by (rule encode_clean)

lemma json_ok_weaken: "json_ok True v \<Longrightarrow> json_ok False v"
proof (induction "False" v rule: json_ok.induct)
  case (9 d)
  then show ?case by (auto simp: str_ok_def split: option.splits)
qed (auto simp: str_ok_def)

section \<open>Loading a frame\<close>

lemma long_integer:
  assumes "list_all is_digit ds" and "hd ds \<noteq> 48" and "int_max_str_digits < length ds"
  shows "loads opts ds = Inl (ValueErr ''Exceeds the limit for integer string conversion'')"
proof -
  obtain c r where ds: "ds = c # r" using assms(3) by (cases ds) auto
  have c: "is_digit c" "c \<noteq> 48" using assms(1,2) ds by simp_all
  have r: "48 \<le> c" "c \<le> 57" using c(1) by (simp_all add: is_digit_def)
  have all: "takeWhile is_digit ds = ds" "dropWhile is_digit ds = []"
    using assms(1) by (simp_all add: list_all_iff)
  then have "int_part ds = Some (ds, [])" using c by (simp add: int_part_def ds)
  then have "parse_number opts ds = Inl (ValueErr ''Exceeds the limit for integer string conversion'')"
    using assms(3) r by (simp add: parse_number_def ds frac_part_def exp_part_def number_value_def int_max_str_digits_def)
  moreover have "c \<notin> {34, 123, 91}" "skip_ws ds = ds" using r by (auto simp: ds)
  moreover have "\<not> starts_with (lit ''null'') ds" "\<not> starts_with (lit ''true'') ds" "\<not> starts_with (lit ''false'') ds"
    using r by (auto simp: starts_with_def lit_def ds)
  ultimately show ?thesis using r by (simp add: loads_def parse_value.simps ds)
qed

lemma deep_nesting_value:
  "levels opts < k \<Longrightarrow> 2 * k \<le> n \<Longrightarrow> parse_value opts n (replicate k 91 @ s) = Inl RecursionErr"
proof (induction k arbitrary: opts n)
  case (Suc k)
  obtain m where n: "n = Suc (Suc m)" "2 * k \<le> m" using Suc.prems(2) by (cases n; cases "n - 1") auto
  show ?case
  proof (cases "levels opts = 0")
    case False
    then have l: "levels (inner opts) < k" "k \<noteq> 0" using Suc.prems(1) by auto
    then have "parse_value (inner opts) m (replicate k 91 @ s) = Inl RecursionErr" using Suc.IH n(2) by blast
    moreover obtain r where "replicate k 91 @ s = 91 # r" using l(2) by (cases k) auto
    ultimately show ?thesis using False n(1) by (simp add: parse_value.simps parse_elems.simps)
  qed (simp add: n parse_value.simps)
qed simp

lemma deep_nesting: "levels opts < k \<Longrightarrow> loads opts (replicate k 91 @ s) = Inl RecursionErr"
proof -
  assume l: "levels opts < k"
  then obtain r where r: "replicate k 91 @ s = 91 # r" by (cases k) auto
  have "2 * k \<le> 2 * length (replicate k 91 @ s) + 2" by simp
  from deep_nesting_value [OF l this, of s] show ?thesis unfolding r by (simp add: loads_def)
qed

text \<open>
  C16. Loading a frame always ends: it returns a value, or raises one of two conformance failures, or the plain \<open>ValueError\<close> of an
  integer literal beyond Python's digit limit, or the \<open>RecursionError\<close> of nesting beyond the interpreter's limit. The last two
  are neither of the exceptions the code turns into a failure, so they escape to every caller: any longer run of digits is an
  example of the first, any text that opens more arrays of the second.
\<close>

theorem frame_loading_total:
  shows "((\<exists>v. load_json_frame raw = Inr v) \<or>
      load_json_frame raw \<in> {Inl (ConformanceFailure ''duplicate-member'' ''duplicate member''),
        Inl (ConformanceFailure ''parse-json'' ''invalid JSON''), Inl (ValueErr ''Exceeds the limit for integer string conversion''),
        Inl RecursionErr}) \<and>
    (list_all is_digit raw \<and> hd raw \<noteq> 48 \<and> int_max_str_digits < length raw \<longrightarrow>
      load_json_frame raw = Inl (ValueErr ''Exceeds the limit for integer string conversion'')) \<and>
    (json_levels < k \<longrightarrow> load_json_frame (replicate k 91 @ raw) = Inl RecursionErr)"
proof (intro conjI impI)
  show "(\<exists>v. load_json_frame raw = Inr v) \<or>
      load_json_frame raw \<in> {Inl (ConformanceFailure ''duplicate-member'' ''duplicate member''),
        Inl (ConformanceFailure ''parse-json'' ''invalid JSON''), Inl (ValueErr ''Exceeds the limit for integer string conversion''),
        Inl RecursionErr}"
  proof (cases "loads frame_opts raw")
    case (Inl e)
    then show ?thesis using loads_errors [of frame_opts raw] by (cases e) (auto simp: load_json_frame_def)
  qed (simp add: load_json_frame_def)
qed (simp_all add: load_json_frame_def long_integer deep_nesting)

theorem frame_loading_total_witness:
  "load_json_frame (replicate 4301 49) = Inl (ValueErr ''Exceeds the limit for integer string conversion'') \<and>
   load_json_frame (replicate 200000 91 @ replicate 200000 93) = Inl RecursionErr"
proof
  show "load_json_frame (replicate 4301 49) = Inl (ValueErr ''Exceeds the limit for integer string conversion'')"
    using frame_loading_total [of "replicate 4301 49" 0]
    by (simp add: is_digit_def int_max_str_digits_def hd_replicate list_all_iff)
  have "json_levels < 200000" by (simp add: json_levels_def)
  then show "load_json_frame (replicate 200000 91 @ replicate 200000 93) = Inl RecursionErr"
    using frame_loading_total [of "replicate 200000 93" 200000] by blast
qed

end
