(* ===== verification/StateDemo.thy ===== *)
theory StateDemo
  imports StateProps JsonTotal
begin

text \<open>
  Concrete incidents in the quarantine and recovery store: one that is opened, authorized, recovers and is released, and one whose
  attempts have request ids of two kinds. They instantiate the theorems about the store.
\<close>

section \<open>The store's rendering never fails on plain data\<close>

lemma canonical_total:
  assumes "json_ok True v" and "dumpable v" and "nesting v \<le> json_levels"
  obtains t h where "canonical_json v = Inr t" and "digest_of t = Inr h"
proof -
  obtain t where "canonical_json v = Inr t" using dumps_total [of False v] assms(2,3) by (auto simp: canonical_json_def)
  then show thesis
    using that dumps_clean [OF _ assms(1), of False] by (auto simp: canonical_json_def digest_of_def utf8_encode_def)
qed

section \<open>The documents\<close>

definition demo_fields :: "(string \<times> string) list" where
  "demo_fields =
     [(''incident_id'', ''incident_1''), (''adapter_id'', ''adapter''), (''adapter_revision'', ''1''), (''manifest_id'', ''manifest''),
      (''manifest_revision'', ''1''), (''profile_id'', ''profile''), (''capability_set_id'', ''caps''),
      (''capability_set_revision'', ''1''), (''endpoint_id'', ''endpoint''), (''workspace_id'', ''w''),
      (''scope_identity'', ''workspace:w'')]"

definition demo_review :: pyval where
  "demo_review = PDict (map (\<lambda>(f, v). (sv f, sv v)) [(''manifest_id'', ''manifest''), (''manifest_revision'', ''1''),
     (''capability_set_id'', ''caps''), (''capability_set_revision'', ''1''), (''diagnostic_id'', ''review_1'')])"

definition demo_payload :: "string \<Rightarrow> pyval list \<Rightarrow> pydict" where
  "demo_payload occ as = map (\<lambda>(f, v). (sv f, sv v)) demo_fields @
     [(sv ''occurrence_at_utc'', sv occ), (sv ''attempts'', PList as), (sv ''review_references'', PList [demo_review])]"

definition demo_attempt :: "pyval \<Rightarrow> string \<Rightarrow> pyval" where
  "demo_attempt rid n = PDict [(sv ''original_request_id'', rid), (sv ''delivery_id'', sv (''delivery_'' @ n)),
     (sv ''attempt_id'', sv (''attempt_'' @ n))]"

definition demo_document_of :: "pydict \<Rightarrow> redaction_result" where
  "demo_document_of p = RedactedDocument (freeze (PDict p))"

lemma demo_payload_of: "\<forall>v \<in> set as. thaw (freeze v) = v \<Longrightarrow> payload_of (demo_document_of (demo_payload occ as)) = Inr (demo_payload occ as)"
  by (simp add: payload_of_def demo_document_of_def as_dict_def demo_payload_def demo_fields_def demo_review_def comp_def map_idI)

lemma demo_get:
  "dget f (demo_payload occ as) =
     (case map_of demo_fields f of Some v \<Rightarrow> Some (sv v) | None \<Rightarrow>
        if f = ''occurrence_at_utc'' then Some (sv occ) else if f = ''attempts'' then Some (PList as)
        else if f = ''review_references'' then Some (PList [demo_review]) else None)"
  by (simp add: demo_payload_def demo_fields_def)

lemma demo_get_none:
  "dget_none f (demo_payload occ as) =
     (case map_of demo_fields f of Some v \<Rightarrow> sv v | None \<Rightarrow>
        if f = ''occurrence_at_utc'' then sv occ else if f = ''attempts'' then PList as
        else if f = ''review_references'' then PList [demo_review] else PNone)"
  by (auto simp: dget_none_def demo_get split: option.splits)

lemma demo_json: "\<forall>v \<in> set as. json_ok True v \<Longrightarrow> json_ok True (PDict (demo_payload occ as))"
  "\<forall>v \<in> set as. dumpable v \<Longrightarrow> dumpable (PDict (demo_payload occ as))"
  "\<forall>v \<in> set as. nesting v \<le> 2 \<Longrightarrow> nesting (PDict (demo_payload occ as)) \<le> json_levels"
proof -
  have "foldr max (map nesting as) 0 \<le> 2" if "\<forall>v \<in> set as. nesting v \<le> 2" using that by (simp add: foldr_max_le)
  then show "\<forall>v \<in> set as. nesting v \<le> 2 \<Longrightarrow> nesting (PDict (demo_payload occ as)) \<le> json_levels"
    by (simp add: demo_payload_def demo_fields_def demo_review_def json_levels_def)
qed (simp_all add: demo_payload_def demo_fields_def demo_review_def)

lemma demo_token: "schema_scalar ''token'' (sv ''incident_1'')" "schema_scalar ''token'' (sv ''review_1'')"
  by (simp_all add: schema_scalar_def token_text_def word_char_def lit_def)

text \<open>A dictionary with the demonstration's identity, such as its payloads and what they read back as.\<close>

definition demo_like :: "pydict \<Rightarrow> bool" where
  "demo_like q \<longleftrightarrow> (\<forall>(f, v) \<in> set demo_fields. dget f q = Some (sv v)) \<and> dget ''project_id'' q = None"

lemma demo_like_payload: "demo_like (demo_payload occ as)"
  by (simp add: demo_like_def demo_get demo_fields_def)

lemma demo_like_norm: "norm_of (demo_payload occ as) q \<Longrightarrow> demo_like q"
  using demo_like_payload [of occ as] by (auto simp: demo_like_def norm_of_facts)

lemma demo_incident: "demo_like q \<Longrightarrow> required_incident_id schema_scalar q = Inr (sv ''incident_1'')"
  by (simp add: required_incident_id_def demo_like_def demo_fields_def validate_s2_token_def demo_token dget_none_def)

lemma demo_scope: "demo_like q \<Longrightarrow> scoped_project q (sv ''workspace:w'') = Inr []"
proof -
  assume q: "demo_like q"
  have "scope_project_id (sv ''workspace:w'') = Inr None" and "has_scope_segment (sv ''workspace:w'') ''workspace'' = Inr True"
    by (simp_all add: scope_project_id_def has_scope_segment_def lit_def starts_with_def)
  then show ?thesis using q by (simp add: scoped_project_def demo_like_def dget_none_def)
qed

lemma demo_base:
  "demo_like q \<Longrightarrow> base_identity q = Inr (map (\<lambda>f. (sv f, sv (the (map_of demo_fields f)))) IDENTITY_FIELDS)"
  using demo_scope [of q]
  by (simp add: base_identity_def identity_fields_def IDENTITY_FIELDS_def required_identity_def demo_like_def demo_fields_def
      dget_none_def)

lemma demo_reviews: "review_matches_incident schema_scalar 2 (demo_payload occ as)"
  by (simp add: review_matches_incident_def review_matches_def demo_get demo_fields_def demo_review_def keys_are_def
      keys_within_def REVIEW_REFERENCE_FIELDS_def has_key_def dget_none_def valid_s2_token_def validate_s2_token_def demo_token)

lemma demo_valid:
  assumes "ends_with (lit ''Z'') (lit occ)" and "attempt_tuples schema_scalar 2 (demo_payload occ as) = Inr ts"
    and "kind \<noteq> HealthFailed" and "kind = AttemptReconciled \<longrightarrow> length ts = 1"
  shows "validate_event_payload schema_scalar kind 2 (PDict (demo_payload occ as)) = Inr ()"
proof -
  have "is_true_legacy_payload (PDict (demo_payload occ as)) = Inr False"
    by (simp add: is_true_legacy_payload_def legacy_markers_def contains_name_def has_key_def demo_get demo_fields_def)
  moreover have "required_identity (demo_payload occ as) ''occurrence_at_utc'' = Inr (sv occ)"
    by (simp add: required_identity_def demo_get demo_fields_def)
  ultimately show ?thesis
    using assms demo_incident [OF demo_like_payload] demo_reviews [of occ as] demo_base [OF demo_like_payload]
    by (auto simp: validate_event_payload_def rbind_Inr_iff)
qed

lemma demo_tuple:
  assumes "is_request_id rid" and n: "n \<in> {''one'', ''two''}"
  shows "scalar_tuple schema_scalar 2 (dict_of (demo_attempt rid n)) = Inr (rid, sv (''delivery_'' @ n), sv (''attempt_'' @ n))"
proof -
  have "schema_scalar ''delivery_id'' (sv (''delivery_'' @ n))" "schema_scalar ''attempt_id'' (sv (''attempt_'' @ n))"
    using n by (auto simp: schema_scalar_def token_text_def word_char_def lit_def starts_with_def)
  then show ?thesis
    using assms(1) by (simp add: scalar_tuple_def demo_attempt_def dget_none_def validate_request_id_scalar_def validate_delivery_scalar_def)
qed

section \<open>Appending them\<close>

definition demo_record :: pystr where
  "demo_record = record_prefix @ sha256_hex (lit ''incident_1'')"

lemma sha_record: "require_record_id (record_prefix @ sha256_hex b) = Inr ()"
  using sha256_hex_shape(1) [of b] sha256_hex_shape(2) [of _ b]
  by (auto simp: require_record_id_def starts_with_def is_hex_def [abs_def] list_all_iff)

lemma demo_record_id: "record_id_for schema_scalar (demo_payload occ as) = Inr demo_record"
proof -
  have "utf8_char c = [c]" if "c < 128" for c using that by (simp add: utf8_char.simps)
  then have "concat (map utf8_char (lit ''incident_1'')) = lit ''incident_1''" by (simp add: lit_def)
  then show ?thesis
    by (simp add: record_id_for_def demo_incident [OF demo_like_payload] digest_of_def utf8_encode_def demo_record_def)
qed

definition empty_store :: adapter_db where
  "empty_store = \<lparr>db_exists = True, db_user_version = 2, db_table = Some [], db_v2_columns = True\<rparr>"

text \<open>A row that stores a payload.\<close>

definition written :: "event_kind \<Rightarrow> pydict \<Rightarrow> event_row \<Rightarrow> bool" where
  "written kind p r \<longleftrightarrow> er_record_id r = demo_record \<and> er_kind r = kind \<and> er_version r = 2 \<and>
     canonical_json (PDict p) = Inr (er_payload_json r) \<and> digest_of (er_payload_json r) = Inr (er_payload_sha256 r)"

lemma prepare_demo:
  assumes v: "validate_event_payload schema_scalar kind 2 (PDict (demo_payload occ as)) = Inr ()"
    and as: "\<forall>v \<in> set as. json_ok True v \<and> dumpable v \<and> nesting v \<le> 2 \<and> thaw (freeze v) = v"
    and ids: "if kind = QuarantineOpened then (record_id, incident) = (None, Some (sv ''incident_1''))
              else (record_id, incident) = (Some demo_record, None)"
  obtains t h where "prepare_event schema_scalar kind (demo_document_of (demo_payload occ as)) record_id incident =
      Inr (demo_record, demo_payload occ as, t, h)"
    and "canonical_json (PDict (demo_payload occ as)) = Inr t" and "digest_of t = Inr h"
proof -
  have j: "json_ok True (PDict (demo_payload occ as))" "dumpable (PDict (demo_payload occ as))"
    "nesting (PDict (demo_payload occ as)) \<le> json_levels"
    using demo_json [of as occ] as by blast+
  obtain t h where th: "canonical_json (PDict (demo_payload occ as)) = Inr t" "digest_of t = Inr h"
    by (rule canonical_total [OF j])
  have "payload_of (demo_document_of (demo_payload occ as)) = Inr (demo_payload occ as)"
    using demo_payload_of as by blast
  moreover have "require_record_id demo_record = Inr ()" by (simp add: demo_record_def sha_record)
  ultimately show thesis
    using that th v ids by (simp add: prepare_event_def demo_incident [OF demo_like_payload] demo_record_id split: if_splits)
qed

lemma first_append:
  assumes v: "validate_event_payload schema_scalar QuarantineOpened 2 (PDict (demo_payload occ as)) = Inr ()"
    and as: "\<forall>v \<in> set as. json_ok True v \<and> dumpable v \<and> nesting v \<le> 2 \<and> thaw (freeze v) = v"
  obtains r where "append_event schema_scalar QuarantineOpened (demo_document_of (demo_payload occ as)) None
      (Some (sv ''incident_1'')) now no_database = (Inr demo_record, empty_store\<lparr>db_table := Some [r]\<rparr>)"
    and "written QuarantineOpened (demo_payload occ as) r"
proof -
  have ids: "if QuarantineOpened = QuarantineOpened then (None, Some (sv ''incident_1'')) = (None, Some (sv ''incident_1''))
     else (None, Some (sv ''incident_1'')) = (Some demo_record, None)" by simp
  obtain t h where p: "prepare_event schema_scalar QuarantineOpened (demo_document_of (demo_payload occ as)) None
      (Some (sv ''incident_1'')) = Inr (demo_record, demo_payload occ as, t, h)"
    "canonical_json (PDict (demo_payload occ as)) = Inr t" "digest_of t = Inr h"
    by (rule prepare_demo [OF v as ids])
  have e: "ensure_schema schema_scalar no_database = Inr empty_store"
    by (simp add: ensure_schema_def no_database_def empty_store_def)
  let ?r = "\<lparr>er_sequence = 1, er_record_id = demo_record, er_kind = QuarantineOpened, er_payload_json = t,
    er_payload_sha256 = h, er_version = SCHEMA_VERSION, er_append_time = now\<rparr>"
  have "insert_event schema_scalar QuarantineOpened demo_record (demo_payload occ as) t h now (rows_of empty_store) = Inr [?r]"
    by (simp add: insert_event_def rows_of_def empty_store_def record_rows_def next_sequence_def)
  then show thesis
    using that [of ?r] p e by (simp add: append_event_def written_def)
qed

theorem mixed_attempts_poison_record_witness:
  "\<exists>db1. record_quarantine_opened schema_scalar None
      (demo_document_of (demo_payload ''Z'' [demo_attempt (PInt 1) ''one'', demo_attempt (sv ''a'') ''two''])) [] no_database =
      (Inr demo_record, db1) \<and> (\<forall>st. read_record schema_scalar demo_record db1 \<noteq> Inr st)"
proof -
  let ?as = "[demo_attempt (PInt 1) ''one'', demo_attempt (sv ''a'') ''two'']"
  let ?p = "demo_payload ''Z'' ?as"
  let ?ts = "[(PInt 1, sv ''delivery_one'', sv ''attempt_one''), (sv ''a'', sv ''delivery_two'', sv ''attempt_two'')]"
  have fields: "is_dict (demo_attempt i n) \<and> keys_are ATTEMPT_FIELDS (dict_of (demo_attempt i n))" for i n
    by (simp add: demo_attempt_def keys_are_def keys_within_def ATTEMPT_FIELDS_def has_key_def)
  have i: "is_request_id (PInt 1)" "is_request_id (sv ''a'')"
    by (simp_all add: is_request_id_def utf8_encode_def lit_def utf8_char.simps contains_surrogate_def is_surrogate_def)
  have ts: "attempt_tuples schema_scalar 2 ?p = Inr ?ts"
    using fields demo_tuple [OF i(1), of "''one''"] demo_tuple [OF i(2), of "''two''"]
    by (simp add: attempt_tuples_def demo_get_none demo_fields_def add_attempt_def attempt_in_def attempt_key_def)
  have v: "validate_event_payload schema_scalar QuarantineOpened 2 (PDict ?p) = Inr ()"
    by (rule demo_valid [OF _ ts]) (simp_all add: ends_with_def)
  have as: "\<forall>v \<in> set ?as. json_ok True v \<and> dumpable v \<and> nesting v \<le> 2 \<and> thaw (freeze v) = v"
    using small_int_text [of 1] by (simp add: demo_attempt_def)
  obtain r where r: "append_event schema_scalar QuarantineOpened (demo_document_of ?p) None (Some (sv ''incident_1'')) [] no_database =
      (Inr demo_record, empty_store\<lparr>db_table := Some [r]\<rparr>)"
    by (rule first_append [OF v as])
  have p: "payload_of (demo_document_of ?p) = Inr ?p" using demo_payload_of as by blast
  then have rec: "record_quarantine_opened schema_scalar None (demo_document_of ?p) [] no_database =
      (Inr demo_record, empty_store\<lparr>db_table := Some [r]\<rparr>)"
    using r by (simp add: record_quarantine_opened_def demo_incident [OF demo_like_payload])
  have "store_start no_database" by (simp add: store_start_def no_database_def)
  moreover have "json_ok False (PDict ?p)" using demo_json(1) as json_ok_weaken by blast
  moreover have "\<not> comparable ?ts" by (simp add: comparable_def)
  ultimately have "read_record schema_scalar demo_record (empty_store\<lparr>db_table := Some [r]\<rparr>) \<noteq> Inr st" for st
    using mixed_attempts_poison_record [OF _ rtranclp.rtrancl_refl schema_scalar_strings r p _ _ _ rtranclp.rtrancl_refl] ts by simp
  then show ?thesis using rec by blast
qed

section \<open>An incident from its opening to its release\<close>

type_synonym entry = "event_kind \<times> string"

definition entry_ok :: "entry \<Rightarrow> bool" where
  "entry_ok e \<longleftrightarrow> fst e \<noteq> HealthFailed \<and> fst e \<noteq> AttemptReconciled \<and> ends_with (lit ''Z'') (lit (snd e))"

definition entry_row :: "entry \<Rightarrow> event_row \<Rightarrow> bool" where
  "entry_row e r \<longleftrightarrow> entry_ok e \<and> written (fst e) (demo_payload (snd e) []) r"

definition entry_event :: "entry \<Rightarrow> event" where
  "entry_event e = \<lparr>ev_kind = fst e, ev_version = 2, ev_attempts = [], ev_review_ok = True\<rparr>"

lemma demo_no_attempts: "attempt_tuples schema_scalar 2 (demo_payload occ []) = Inr []"
  by (simp add: attempt_tuples_def demo_get_none demo_fields_def)

lemma entry_valid: "entry_ok e \<Longrightarrow> validate_event_payload schema_scalar (fst e) 2 (PDict (demo_payload (snd e) [])) = Inr ()"
  by (rule demo_valid [OF _ demo_no_attempts]) (simp_all add: entry_ok_def)

lemma entry_norm: obtains q where "norm_of (demo_payload occ []) q"
proof -
  have "json_ok False (PDict (demo_payload occ []))" by (intro json_ok_weaken demo_json(1)) simp
  then show thesis using that norm_of_ex by blast
qed

lemma entry_loads:
  assumes "entry_row e r"
  obtains q where "norm_of (demo_payload (snd e) []) q" and "json_load (er_payload_json r) = Inr (PDict q)"
    and "row_payload schema_scalar 2 r = Inr q"
proof -
  obtain q where q: "norm_of (demo_payload (snd e) []) q" by (rule entry_norm)
  have c: "canonical_json (PDict (demo_payload (snd e) [])) = Inr (er_payload_json r)" and k: "er_kind r = fst e"
    using assms by (simp_all add: entry_row_def written_def)
  have "json_load (er_payload_json r) = Inr (PDict q)"
    using loads_dumps [OF c [unfolded canonical_json_def], of plain_opts] q by (simp add: json_load_def norm_of_def)
  moreover have "row_payload schema_scalar SCHEMA_VERSION r = Inr q"
    by (rule row_payload_stored [OF schema_scalar_strings q c]) (use entry_valid assms k in \<open>auto simp: entry_row_def\<close>)
  ultimately show thesis using that q by simp
qed

text \<open>Appending one more event to the record.\<close>

lemma next_append:
  assumes ready: "store_ready db" and num: "numbered (rows_of db)"
    and rows: "list_all2 entry_row ((QuarantineOpened, occ0) # es) (rows_of db)" "\<forall>e \<in> set es. fst e \<noteq> Released"
    and e: "entry_ok e" "fst e \<noteq> QuarantineOpened"
  obtains r where "append_event schema_scalar (fst e) (demo_document_of (demo_payload (snd e) [])) (Some demo_record) None now db =
      (Inr demo_record, db\<lparr>db_table := Some (rows_of db @ [r])\<rparr>)"
    and "entry_row e r" and "er_sequence r = next_sequence (rows_of db)"
proof -
  let ?p = "demo_payload (snd e) []"
  have ids: "if fst e = QuarantineOpened then (Some demo_record, None) = (None, Some (sv ''incident_1''))
     else (Some demo_record, None) = (Some demo_record, None :: pyval option)" using e(2) by simp
  obtain t h where p: "prepare_event schema_scalar (fst e) (demo_document_of ?p) (Some demo_record) None = Inr (demo_record, ?p, t, h)"
    "canonical_json (PDict ?p) = Inr t" "digest_of t = Inr h"
    by (rule prepare_demo [OF entry_valid [OF e(1)] _ ids]) simp
  obtain r0 rs where r0: "rows_of db = r0 # rs" "entry_row (QuarantineOpened, occ0) r0" "list_all2 entry_row es rs"
    using rows(1) by (cases "rows_of db") auto
  obtain q where q: "norm_of (demo_payload (snd (QuarantineOpened, occ0)) []) q" "json_load (er_payload_json r0) = Inr (PDict q)"
    by (rule entry_loads [OF r0(2)])
  have all: "\<forall>r \<in> set (rows_of db). er_record_id r = demo_record \<and> (r \<in> set rs \<longrightarrow> er_kind r \<noteq> Released)"
  proof -
    have "er_record_id r = demo_record \<and> er_kind r \<noteq> Released" if m: "r \<in> set rs" for r
    proof -
      obtain x where "x \<in> set es" "entry_row x r" using list_all2_in_set2 [OF r0(3) m] by blast
      then show ?thesis using rows(2) by (auto simp: entry_row_def written_def)
    qed
    then show ?thesis using r0(1,2) by (auto simp: entry_row_def written_def)
  qed
  then have rr: "record_rows demo_record (rows_of db) = rows_of db"
    by (simp add: record_rows_def numbered_sort [OF num])
  have k0: "er_kind r0 = QuarantineOpened" "check_digest r0 = Inr ()"
    using r0(2) by (simp_all add: entry_row_def written_def check_digest_def)
  have "record_identity schema_scalar q = record_identity schema_scalar ?p"
    using demo_like_norm [OF q(1)] demo_like_payload [of "snd e" "[]"] by (simp add: record_identity_def demo_incident demo_base)
  moreover have "\<exists>d. record_identity schema_scalar ?p = Inr d"
    using demo_like_payload [of "snd e" "[]"] by (simp add: record_identity_def demo_incident demo_base)
  moreover have dict_eq: "py_eq (PDict d) (PDict d)" for d by (simp add: py_eq_def del: py_same.simps)
  ultimately have m: "require_matching_record_identity schema_scalar demo_record ?p (rows_of db) = Inr ()"
    using k0 q(2) rr r0(1) dict_eq by (auto simp: require_matching_record_identity_def check_row_digest_def)
  have rel: "filter (\<lambda>r. er_kind r = Released) (record_rows demo_record (rows_of db)) = []"
    using all r0(1) k0(1) rr by (auto simp: filter_empty_conv)
  let ?r = "\<lparr>er_sequence = next_sequence (rows_of db), er_record_id = demo_record, er_kind = fst e, er_payload_json = t,
    er_payload_sha256 = h, er_version = SCHEMA_VERSION, er_append_time = now\<rparr>"
  have "insert_event schema_scalar (fst e) demo_record ?p t h now (rows_of db) = Inr (rows_of db @ [?r])"
    using m rel by (simp add: insert_event_def Let_def)
  moreover have "ensure_schema schema_scalar db = Inr db"
    using ready by (auto simp: ensure_schema_def store_ready_def Let_def)
  ultimately show thesis
    using that [of ?r] p e(1) by (simp add: append_event_def entry_row_def written_def)
qed

text \<open>Appending a list of events, one by one.\<close>

lemma appends:
  assumes "\<forall>e \<in> set (butlast es). fst e \<noteq> Released" and "\<forall>e \<in> set es. entry_ok e \<and> fst e \<noteq> QuarantineOpened" and "ends_with (lit ''Z'') (lit occ0)"
  obtains db where "(store_step schema_scalar)\<^sup>*\<^sup>* no_database db" and "store_ready db" and "numbered (rows_of db)"
    and "list_all2 entry_row ((QuarantineOpened, occ0) # es) (rows_of db)"
  using assms
proof (induction es arbitrary: thesis rule: rev_induct)
  case Nil
  have ok: "entry_ok (QuarantineOpened, occ0)" using Nil by (simp add: entry_ok_def)
  obtain r where r: "append_event schema_scalar QuarantineOpened (demo_document_of (demo_payload occ0 [])) None
      (Some (sv ''incident_1'')) [] no_database = (Inr demo_record, empty_store\<lparr>db_table := Some [r]\<rparr>)"
    "written QuarantineOpened (demo_payload occ0 []) r"
    by (rule first_append [of occ0 "[]"]) (use entry_valid [OF ok] in simp_all)
  have s: "store_step schema_scalar no_database (empty_store\<lparr>db_table := Some [r]\<rparr>)" by (rule append_step [OF r(1)])
  have "store_inv (empty_store\<lparr>db_table := Some [r]\<rparr>)"
    by (rule store_inv_step [OF _ s]) (simp add: store_inv_def store_start_def no_database_def)
  then have "numbered [r]" by (auto simp: store_inv_def store_start_def store_ready_def empty_store_def rows_of_def)
  moreover have "rows_of (empty_store\<lparr>db_table := Some [r]\<rparr>) = [r]" by (rule rows_of_updates(2))
  moreover have "store_ready (empty_store\<lparr>db_table := Some [r]\<rparr>)" by (simp add: store_ready_def empty_store_def)
  moreover have "entry_row (QuarantineOpened, occ0) r" using r(2) ok by (simp add: entry_row_def)
  ultimately show ?case
    by (intro Nil.prems(1) [OF r_into_rtranclp [of "store_step schema_scalar", OF s]]) simp_all
next
  case (snoc e es)
  have "\<forall>x \<in> set (butlast es). fst x \<noteq> Released" using snoc.prems(2) by (auto dest: in_set_butlastD)
  then obtain db where db: "(store_step schema_scalar)\<^sup>*\<^sup>* no_database db" "store_ready db" "numbered (rows_of db)"
    "list_all2 entry_row ((QuarantineOpened, occ0) # es) (rows_of db)"
    by (rule snoc.IH [rotated]) (use snoc.prems in auto)
  have es: "\<forall>x \<in> set es. fst x \<noteq> Released" and e: "entry_ok e" "fst e \<noteq> QuarantineOpened"
    using snoc.prems by (auto simp: butlast_append)
  obtain r where r: "append_event schema_scalar (fst e) (demo_document_of (demo_payload (snd e) [])) (Some demo_record) None [] db =
      (Inr demo_record, db\<lparr>db_table := Some (rows_of db @ [r])\<rparr>)" "entry_row e r" "er_sequence r = next_sequence (rows_of db)"
    by (rule next_append [OF db(2-4) es e])
  let ?db = "db\<lparr>db_table := Some (rows_of db @ [r])\<rparr>"
  have "list_all2 entry_row ((QuarantineOpened, occ0) # es @ [e]) (rows_of ?db)"
    using list_all2_appendI [OF db(4), of "[e]" "[r]"] r(2) by simp
  moreover have "(store_step schema_scalar)\<^sup>*\<^sup>* no_database ?db"
    by (rule rtranclp.rtrancl_into_rtrancl [OF db(1) append_step [OF r(1)]])
  ultimately show ?case
    using numbered_snoc [OF db(3) r(3)] db(2) by (intro snoc.prems(1) [of ?db]) (auto simp: store_ready_def)
qed

text \<open>Folding the record's rows.\<close>

definition entry_key :: "entry \<Rightarrow> dedupe_key" where
  "entry_key e = (fst e, sv (snd e), lit ''[]'')"

lemma entry_row_event:
  assumes "entry_row e r"
  shows "row_event schema_scalar r = Inr (entry_event e, entry_key e)"
proof -
  obtain q where q: "norm_of (demo_payload (snd e) []) q" "row_payload schema_scalar 2 r = Inr q" by (rule entry_loads [OF assms])
  have r: "er_kind r = fst e" "er_version r = 2" using assms by (simp_all add: entry_row_def written_def)
  have "attempt_tuples schema_scalar 2 q = Inr []" by (rule norm_attempts [OF schema_scalar_strings q(1) demo_no_attempts])
  moreover have "dget ''occurrence_at_utc'' q = Some (sv (snd e))"
    by (simp add: norm_of_facts(1) [OF q(1)] demo_get demo_fields_def)
  moreover have "review_matches_incident schema_scalar 2 q"
    by (rule norm_reviews [OF schema_scalar_strings q(1) demo_reviews])
  moreover have "canonical_json (PList []) = Inr (lit ''[]'')" by (simp add: canonical_json_def dumps_def json_levels_def join_def lit_def)
  ultimately show ?thesis
    using q(2) r by (simp add: row_event_def event_of_def sorted_attempts_def sort_by_def comparable_def entry_event_def entry_key_def)
qed

lemma entry_fold_row:
  assumes "entry_row e r" and "entry_key e \<notin> set seen" and "rs_incident_id s \<in> {PStr [], sv ''incident_1''}"
  obtains s' where "fold_row schema_scalar (s, seen) r = Inr (s', seen @ [entry_key e])"
    and "core s' = apply_event (entry_event e) (core s)" and "rs_incident_id s' = sv ''incident_1''"
proof -
  obtain q where q: "norm_of (demo_payload (snd e) []) q" "row_payload schema_scalar 2 r = Inr q" by (rule entry_loads [OF assms(1)])
  have r: "er_version r = 2" "check_digest r = Inr ()"
    using assms(1) by (simp_all add: entry_row_def written_def check_digest_def)
  have "dget ''incident_id'' q = Some (sv ''incident_1'')"
    by (simp add: norm_of_facts(1) [OF q(1)] demo_get demo_fields_def)
  then have i: "check_incident q s = Inr (s\<lparr>rs_incident_id := sv ''incident_1''\<rparr>)"
    using assms(3) by (auto simp: check_incident_def)
  have ev: "event_of schema_scalar r q = Inr (entry_event e, entry_key e)"
    using entry_row_event [OF assms(1)] q(2) r(1) by (simp add: row_event_def)
  have inc: "rs_incident_id (apply_event x t) = rs_incident_id t" for x t
    by (simp add: apply_event_def Let_def split: event_kind.split)
  let ?t = "s\<lparr>rs_incident_id := sv ''incident_1''\<rparr>"
  show thesis
    by (rule that [of "(apply_event (entry_event e) ?t)\<lparr>rs_event_count := Suc (rs_event_count ?t)\<rparr>"])
      (use q(2) r i ev assms(2) in \<open>simp_all add: fold_row_def inc core_apply\<close>)
qed

lemma entry_fold:
  assumes "list_all2 entry_row es rows" and "distinct (map entry_key es)" and "set (map entry_key es) \<inter> set seen = {}"
    and "rs_incident_id s \<in> {PStr [], sv ''incident_1''}"
  shows "\<exists>s' seen'. rfold (fold_row schema_scalar) (s, seen) rows = Inr (s', seen') \<and>
    core s' = fold apply_event (map entry_event es) (core s)"
  using assms
proof (induction es rows arbitrary: s seen rule: list_all2_induct)
  case (Cons e es r rows)
  obtain s' where s': "fold_row schema_scalar (s, seen) r = Inr (s', seen @ [entry_key e])"
    "core s' = apply_event (entry_event e) (core s)" "rs_incident_id s' = sv ''incident_1''"
    by (rule entry_fold_row [OF Cons.hyps(1)]) (use Cons.prems in auto)
  show ?case using Cons.IH [of "seen @ [entry_key e]" s'] Cons.prems(1,2) s' by auto
qed simp

definition demo_story :: "entry list" where
  "demo_story = [(RecoveryAuthorized, ''1Z''), (FreshHandshake, ''2Z''), (ValidHealth, ''3Z''), (ValidHealth, ''4Z''),
     (ValidHealth, ''5Z''), (ReleaseReviewed, ''6Z''), (Released, ''7Z'')]"

abbreviation demo_entries :: "entry list" where
  "demo_entries \<equiv> (QuarantineOpened, ''0Z'') # demo_story"

lemma first_entry_ok: "entry_ok (QuarantineOpened, ''0Z'')"
  by (simp add: entry_ok_def ends_with_def lit_def)

lemma story_ok: "\<forall>e \<in> set (butlast demo_story). fst e \<noteq> Released" "\<forall>e \<in> set demo_story. entry_ok e \<and> fst e \<noteq> QuarantineOpened"
  by (simp_all add: demo_story_def entry_ok_def ends_with_def lit_def)

lemma story_fold:
  assumes "list_all2 entry_row demo_entries rows"
  obtains st where "fold_rows schema_scalar demo_record rows = Inr st" and "ars_released st"
    and "all_true_legacy_v1 rows = Inr False"
proof -
  obtain r rs where r: "rows = r # rs" "entry_row (QuarantineOpened, ''0Z'') r" using assms by (cases rows) auto
  have l: "all_true_legacy_v1 rows = Inr False"
    using r by (simp add: row_is_legacy_def entry_row_def written_def)
  have "distinct (map entry_key demo_entries)" by (simp add: demo_story_def entry_key_def)
  from entry_fold [OF assms this, of "[]" empty_state] obtain s seen where
    s: "rfold (fold_row schema_scalar) (empty_state, []) rows = Inr (s, seen)"
    "core s = fold apply_event (map entry_event demo_entries) empty_state"
    by (auto simp: empty_state_def [of] core_empty [unfolded empty_state_def])
  then have c: "core s = \<lparr>rs_incident_id = PStr [], rs_opened = True, rs_recovery_authorized = True, rs_unresolved = [],
      rs_reconciled = [], rs_fresh_handshake = True, rs_valid_health_count = 3, rs_health_failure_count = 0,
      rs_release_reviewed = True, rs_release_event_seen = True, rs_released = True, rs_event_count = 0\<rparr>"
    by (simp add: demo_story_def apply_event_def entry_event_def empty_state_def FRESH_HEALTHY_SEQUENCE_LENGTH_def attempts_update_def)
  have "rs_unresolved s = []" "rs_reconciled s = []" "rs_released s"
    using arg_cong [OF c, of rs_unresolved] arg_cong [OF c, of rs_reconciled] arg_cong [OF c, of rs_released]
    by (simp_all add: core_def)
  then have "\<exists>st. finish sorted_attempts demo_record s = Inr st \<and> ars_released st"
    by (simp add: finish_def labels_def sorted_attempts_def comparable_def sort_by_def)
  then show thesis using that s(1) l r(1) by (auto simp: fold_rows_def)
qed

lemma demo_journal:
  assumes "list_all2 entry_row es rows"
  shows "\<exists>j. rmap (\<lambda>r. rbind (journal_occurrence r) (\<lambda>t. Inr (er_sequence r, er_kind r, t))) rows = Inr j"
proof -
  have "\<exists>t. journal_occurrence r = Inr t" if x: "entry_row e r" for e r
  proof -
    obtain q where q: "norm_of (demo_payload (snd e) []) q" "json_load (er_payload_json r) = Inr (PDict q)"
      by (rule entry_loads [OF x])
    have "dget_none ''occurrence_at_utc'' q = sv (snd e)"
      by (simp add: norm_of_facts(2) [OF q(1)] demo_get_none demo_fields_def)
    then show ?thesis using q(2) x by (simp add: journal_occurrence_def entry_row_def written_def)
  qed
  then show ?thesis
    using list_all2_in_set2 [OF assms] by (fastforce simp: rmap_Inr_ex rbind_Inr_ex)
qed

lemma demo_released:
  obtains db st where "(store_step schema_scalar)\<^sup>*\<^sup>* no_database db" and "store_ready db" and "numbered (rows_of db)"
    and "list_all2 entry_row demo_entries (rows_of db)" and "read_record schema_scalar demo_record db = Inr st" and "ars_released st"
proof -
  obtain db where db: "(store_step schema_scalar)\<^sup>*\<^sup>* no_database db" "store_ready db" "numbered (rows_of db)"
    "list_all2 entry_row demo_entries (rows_of db)"
    by (rule appends [OF story_ok, of "''0Z''"]) (simp add: ends_with_def lit_def)
  obtain st where st: "fold_rows schema_scalar demo_record (rows_of db) = Inr st" "ars_released st"
    by (rule story_fold [OF db(4)])
  obtain j where j: "rmap (\<lambda>r. rbind (journal_occurrence r) (\<lambda>t. Inr (er_sequence r, er_kind r, t))) (rows_of db) = Inr j"
    using demo_journal [OF db(4)] by blast
  have "\<forall>r \<in> set (rows_of db). er_record_id r = demo_record"
    using list_all2_in_set2 [OF db(4)] by (force simp: entry_row_def written_def)
  then have rr: "record_rows demo_record (rows_of db) = rows_of db" by (simp add: record_rows_def numbered_sort [OF db(3)])
  have "length (rows_of db) = 8" using list_all2_lengthD [OF db(4)] by (simp add: demo_story_def)
  then have "read_record schema_scalar demo_record db = Inr (st\<lparr>ars_journal := j\<rparr>)"
    using db(2) st(1) j unfolding read_record_iff rr record_readable_def
    by (auto simp: store_ready_def MAX_ADAPTER_STATE_EVENTS_def demo_record_def sha_record)
  then show thesis using that [OF db(1-4)] st(2) by simp
qed

section \<open>Witnesses\<close>

lemma start_empty: "store_start no_database"
  by (simp add: store_start_def no_database_def)

theorem release_needs_evidence_witness:
  "\<exists>rows st es. fold_rows schema_scalar demo_record rows = Inr st \<and> ars_released st \<and> length rows = 8 \<and> released_by es"
proof -
  obtain db where db: "list_all2 entry_row demo_entries (rows_of db)" by (rule demo_released)
  obtain st where st: "fold_rows schema_scalar demo_record (rows_of db) = Inr st" "ars_released st"
    "all_true_legacy_v1 (rows_of db) = Inr False"
    by (rule story_fold [OF db])
  have "length (rows_of db) = 8" using list_all2_lengthD [OF db] by (simp add: demo_story_def)
  then show ?thesis using release_needs_evidence [OF st(1) disjI2 [OF st(3)]] st(1,2) by blast
qed

theorem store_append_only_witness:
  "\<exists>db db'. store_ready db \<and> rows_of db = [] \<and> length (rows_of db') = 1 \<and> numbered (rows_of db') \<and>
     (\<forall>r \<in> set (rows_of db'). check_digest r = Inr ())"
proof -
  note ok = first_entry_ok
  have i: "store_step schema_scalar no_database empty_store"
    by (rule init_step [of _ _ "Inr ()"]) (simp add: initialize_store_def ensure_schema_def no_database_def empty_store_def)
  have "store_ready empty_store" by (simp add: store_ready_def empty_store_def)
  obtain r where r: "append_event schema_scalar QuarantineOpened (demo_document_of (demo_payload ''0Z'' [])) None
      (Some (sv ''incident_1'')) [] no_database = (Inr demo_record, empty_store\<lparr>db_table := Some [r]\<rparr>)"
    by (rule first_append [of "''0Z''" "[]"]) (use entry_valid [OF ok] in simp_all)
  have "ensure_schema schema_scalar no_database = Inr empty_store" "ensure_schema schema_scalar empty_store = Inr empty_store"
    by (simp_all add: ensure_schema_def no_database_def empty_store_def)
  then have "append_event schema_scalar QuarantineOpened (demo_document_of (demo_payload ''0Z'' [])) None
      (Some (sv ''incident_1'')) [] empty_store = (Inr demo_record, empty_store\<lparr>db_table := Some [r]\<rparr>)"
    using r by (auto simp: append_event_def split: sum.splits prod.splits)
  then have s: "store_step schema_scalar empty_store (empty_store\<lparr>db_table := Some [r]\<rparr>)" by (rule append_step)
  from store_append_only [OF start_empty r_into_rtranclp [of "store_step schema_scalar", OF i]
      r_into_rtranclp [of "store_step schema_scalar", OF s]]
  show ?thesis using \<open>store_ready empty_store\<close>
    by (intro exI [of _ empty_store] exI [of _ "empty_store\<lparr>db_table := Some [r]\<rparr>"]) (auto simp: rows_of_def empty_store_def)
qed

theorem released_is_final_witness:
  "\<exists>db st. read_record schema_scalar demo_record db = Inr st \<and> ars_released st \<and>
     (\<exists>e. fst (record_valid_health schema_scalar demo_record (demo_document_of []) [] db) = Inl e)"
proof -
  obtain db st where db: "(store_step schema_scalar)\<^sup>*\<^sup>* no_database db" "store_ready db"
    "read_record schema_scalar demo_record db = Inr st" "ars_released st"
    by (rule demo_released)
  have "\<exists>e. fst (append_event schema_scalar ValidHealth (demo_document_of []) (Some demo_record) None [] db) = Inl e"
    using released_is_final [OF start_empty db(1,3,4) rtranclp.rtrancl_refl, of ValidHealth "demo_document_of []" "Some demo_record" None "[]"]
    by blast
  then show ?thesis using db(3,4) unfolding record_valid_health_def by blast
qed

theorem append_reads_back_witness:
  "\<exists>db' r q. append_event schema_scalar QuarantineOpened (demo_document_of (demo_payload ''0Z'' [])) None
      (Some (sv ''incident_1'')) [] no_database = (Inr demo_record, db') \<and> rows_of db' = [r] \<and>
      row_payload schema_scalar (er_version r) r = Inr q \<and> PDict q = json_norm (PDict (demo_payload ''0Z'' []))"
proof -
  note ok = first_entry_ok
  obtain r where r: "append_event schema_scalar QuarantineOpened (demo_document_of (demo_payload ''0Z'' [])) None
      (Some (sv ''incident_1'')) [] no_database = (Inr demo_record, empty_store\<lparr>db_table := Some [r]\<rparr>)"
    by (rule first_append [of "''0Z''" "[]"]) (use entry_valid [OF ok] in simp_all)
  have p: "payload_of (demo_document_of (demo_payload ''0Z'' [])) = Inr (demo_payload ''0Z'' [])"
    by (rule demo_payload_of) simp
  have "json_ok False (PDict (demo_payload ''0Z'' []))" by (intro json_ok_weaken demo_json(1)) simp
  from append_reads_back [OF start_empty rtranclp.rtrancl_refl schema_scalar_strings r p this]
  show ?thesis using r by (auto simp: rows_of_def)
qed

end
