(* ===== verification/Reference.thy ===== *)
theory Reference
  imports JsonTotal Sha256
begin

text \<open>
  The reference peer of Runtime Adapter JSON-RPC V1: \<open>llm_collab/runtime_adapter_reference.py\<close>. Its state, the handling of one
  frame, and the stdio loop around it. \<open>docs name v\<close> is the third-party JSON Schema validator of a whole document
  (\<open>EndpointV1\<close>, \<open>SessionRefV1\<close>). A fault injection is kept by its name.
\<close>

section \<open>Constants\<close>

definition METHOD_INITIALIZE :: pystr where [simp]: "METHOD_INITIALIZE = lit ''initialize''"

definition FAULT_INJECTIONS :: "string list" where
  "FAULT_INJECTIONS = [''duplicate-output'', ''prohibited-adapter-request'', ''absent-id-request'', ''invalid-framing'',
     ''oversized-message'', ''stderr-overflow'', ''result-shape'', ''closed-envelope'']"

definition MAX_MESSAGE_BYTES :: nat where "MAX_MESSAGE_BYTES = 1048576"
definition MAX_STDERR_BYTES :: nat where "MAX_STDERR_BYTES = 65536"
definition REFERENCE_DRAIN_MS :: int where "REFERENCE_DRAIN_MS = 10000"

section \<open>Reading documents\<close>

text \<open>\<open>d[f]\<close> on a dictionary and on any value.\<close>

definition dsub :: "string \<Rightarrow> pydict \<Rightarrow> pyerr + pyval" where
  "dsub f d = (case dget f d of None \<Rightarrow> Inl KeyErr | Some v \<Rightarrow> Inr v)"

definition vsub :: "string \<Rightarrow> pyval \<Rightarrow> pyerr + pyval" where
  "vsub f v = (case v of PDict d \<Rightarrow> dsub f d | _ \<Rightarrow> Inl (TypeErr ''not subscriptable by text''))"

definition field_is :: "string \<Rightarrow> pyval \<Rightarrow> pyval \<Rightarrow> pyerr + bool" where
  "field_is f v d = rbind (vsub f d) (\<lambda>x. Inr (py_eq x v))"

text \<open>Checks in order, up to the first that fails or raises; and, in order, the first reason to refuse.\<close>

fun all_of :: "(pyerr + bool) list \<Rightarrow> pyerr + bool" where
  "all_of [] = Inr True"
| "all_of (m # ms) = rbind m (\<lambda>b. if b then all_of ms else Inr False)"

fun first_of :: "(pyerr + string option) list \<Rightarrow> pyerr + string option" where
  "first_of [] = Inr None"
| "first_of (m # ms) = rbind m (\<lambda>r. case r of None \<Rightarrow> first_of ms | Some s \<Rightarrow> Inr (Some s))"

definition refuse_unless :: "string \<Rightarrow> bool \<Rightarrow> pyerr + string option" where
  "refuse_unless why b = Inr (if b then None else Some why)"

text \<open>\<open>json.dumps\<close> of the document without its integrity, hashed.\<close>

definition canonical_digest :: "pydict \<Rightarrow> pyerr + pystr" where
  "canonical_digest d =
     rbind (dumps False (PDict (AList.delete (sv ''integrity'') d))) (\<lambda>t.
     rbind (digest_of t) (\<lambda>h. Inr (lit ''sha256:'' @ h)))"

definition with_integrity :: "pydict \<Rightarrow> pyerr + pydict" where
  "with_integrity d = rbind (canonical_digest d) (\<lambda>h. Inr (AList.update (sv ''integrity'') (PStr h) d))"

definition is_token :: "pyval \<Rightarrow> string option \<Rightarrow> bool" where
  "is_token v pre =
     (case v of
        PStr s \<Rightarrow>
          s \<noteq> [] \<and> length s \<le> 128 \<and> list_all (\<lambda>c. 32 \<le> c \<and> c \<noteq> 127) s \<and>
          (case pre of None \<Rightarrow> True | Some p \<Rightarrow> starts_with (lit p) s \<and> length s > length p)
      | _ \<Rightarrow> False)"

definition is_integrity :: "pyval \<Rightarrow> bool" where
  "is_integrity v =
     (case v of
        PStr s \<Rightarrow> length s = 71 \<and> starts_with (lit ''sha256:'') s \<and> list_all is_hex_digit (drop 7 s)
      | _ \<Rightarrow> False)"

definition load_strict_frame :: "pystr \<Rightarrow> pyerr + pyval" where
  "load_strict_frame raw = loads strict_opts raw"

definition closed_schema_mapping :: "pyval \<Rightarrow> pyerr + pydict" where
  "closed_schema_mapping v =
     (if is_dict v then Inr (dict_of v) else Inl (ConformanceFailure ''standalone-schema-shape'' ''must be an object''))"

definition validate_document :: "schema \<Rightarrow> string \<Rightarrow> pyval \<Rightarrow> pyerr + pydict" where
  "validate_document docs name v =
     rbind (closed_schema_mapping v) (\<lambda>d. if docs name (PDict d) then Inr d else Inl SchemaErr)"

definition validate_endpoint_v1 :: "schema \<Rightarrow> pyval \<Rightarrow> pyerr + pydict" where
  "validate_endpoint_v1 docs v = validate_document docs ''EndpointV1'' v"

definition validate_session_ref_v1 :: "schema \<Rightarrow> pyval \<Rightarrow> pyerr + pydict" where
  "validate_session_ref_v1 docs v = validate_document docs ''SessionRefV1'' v"

section \<open>The adapter's identity\<close>

record adapter_identity =
  ai_adapter_id :: pystr
  ai_adapter_revision :: pystr
  ai_manifest_id :: pystr
  ai_manifest_revision :: pystr
  ai_endpoint_id :: pystr
  ai_workspace_id :: pystr
  ai_capability_set_id :: pystr
  ai_capability_set_revision :: pystr
  ai_scope :: pyval

definition workspace_scope :: pydict where
  "workspace_scope = [(sv ''kind'', sv ''workspace'')]"

definition default_identity :: adapter_identity where
  "default_identity =
     \<lparr>ai_adapter_id = lit ''adapter_alpha'', ai_adapter_revision = lit ''adapter_rev1'', ai_manifest_id = lit ''manifest_alpha'',
      ai_manifest_revision = lit ''manifest_rev1'', ai_endpoint_id = lit ''endpoint_alpha'', ai_workspace_id = lit ''ws_alpha'',
      ai_capability_set_id = lit ''caps_alpha'', ai_capability_set_revision = lit ''cap_rev1'', ai_scope = PDict workspace_scope\<rparr>"

text \<open>\<open>dict(v)\<close> of the identity's scope.\<close>

definition scope_dict :: "pyval \<Rightarrow> pyerr + pydict" where
  "scope_dict v = (case v of PDict d \<Rightarrow> Inr d | _ \<Rightarrow> Inl (Unmodelled ''a scope that is not a mapping''))"

definition endpoint_doc :: "adapter_identity \<Rightarrow> pyerr + pydict" where
  "endpoint_doc i =
     rbind (scope_dict (ai_scope i)) (\<lambda>scope.
     Inr [(sv ''schema_version'', PInt 1), (sv ''workspace_id'', PStr (ai_workspace_id i)), (sv ''scope'', PDict scope),
        (sv ''endpoint_id'', PStr (ai_endpoint_id i)), (sv ''agent_id'', sv ''agent_alpha''),
        (sv ''adapter_name'', PStr (ai_adapter_id i)), (sv ''adapter_revision'', PStr (ai_adapter_revision i)),
        (sv ''trust_class'', sv ''managed''), (sv ''capability_set_id'', PStr (ai_capability_set_id i)),
        (sv ''platform'', PDict [(sv ''os'', sv ''other''), (sv ''architecture'', sv ''test'')]),
        (sv ''configuration_ref'', PDict [(sv ''registry_id'', sv ''registry_alpha''), (sv ''revision'', sv ''registry_rev1''),
           (sv ''reference'', sv ''reference_alpha'')])])"

definition capability_evidence :: "adapter_identity \<Rightarrow> pyerr + pydict" where
  "capability_evidence i =
     with_integrity [(sv ''evidence_kind'', sv ''profile_attestation''), (sv ''source_id'', PStr (ai_adapter_id i)),
       (sv ''source_revision'', PStr (ai_adapter_revision i))]"

definition authoritative_capability :: "adapter_identity \<Rightarrow> string \<Rightarrow> pyerr + pyval" where
  "authoritative_capability i capability =
     rbind (capability_evidence i) (\<lambda>e.
     Inr (PDict [(sv ''capability'', sv capability), (sv ''quality'', sv ''authoritative''),
       (sv ''constraints'', PDict [(sv ''access_mode'', sv ''observe_only'')]), (sv ''evidence'', PDict e)]))"

definition initialize_result :: "adapter_identity \<Rightarrow> pyerr + pyval" where
  "initialize_result i =
     rbind (endpoint_doc i) (\<lambda>ep.
     rbind (scope_dict (ai_scope i)) (\<lambda>scope.
     rbind (authoritative_capability i ''runtime.reconcile'') (\<lambda>c1.
     rbind (authoritative_capability i ''runtime_profile'') (\<lambda>c2.
     Inr (PDict
       [(sv ''negotiated_protocol_version'', sv NEGOTIATED_PROTOCOL_VERSION), (sv ''adapter_id'', PStr (ai_adapter_id i)),
        (sv ''adapter_revision'', PStr (ai_adapter_revision i)), (sv ''manifest_id'', PStr (ai_manifest_id i)),
        (sv ''manifest_revision'', PStr (ai_manifest_revision i)), (sv ''endpoint'', PDict ep),
        (sv ''capability_set'', PDict
           [(sv ''schema_version'', PInt 1), (sv ''workspace_id'', PStr (ai_workspace_id i)), (sv ''scope'', PDict scope),
            (sv ''capability_set_id'', PStr (ai_capability_set_id i)), (sv ''revision'', PStr (ai_capability_set_revision i)),
            (sv ''capabilities'', PTuple
               [PDict [(sv ''capability'', sv ''runtime.health''), (sv ''quality'', sv ''unsupported'')], c1, c2])])])))))"

definition reference_health_result :: "adapter_identity \<Rightarrow> pyval option \<Rightarrow> pyval" where
  "reference_health_result i scope =
     (let active = (case scope of Some (PDict d) \<Rightarrow> d | _ \<Rightarrow> workspace_scope);
          kind = (case dget ''kind'' active of None \<Rightarrow> sv ''workspace'' | Some k \<Rightarrow> k) in
      PDict
       ([(sv ''status'', sv ''healthy''), (sv ''negotiated_protocol_version'', sv NEGOTIATED_PROTOCOL_VERSION),
         (sv ''adapter_id'', PStr (ai_adapter_id i)), (sv ''adapter_revision'', PStr (ai_adapter_revision i)),
         (sv ''manifest_id'', PStr (ai_manifest_id i)), (sv ''manifest_revision'', PStr (ai_manifest_revision i)),
         (sv ''endpoint_id'', PStr (ai_endpoint_id i)), (sv ''workspace_id'', PStr (ai_workspace_id i)), (sv ''scope_kind'', kind),
         (sv ''capability_set_id'', PStr (ai_capability_set_id i)),
         (sv ''capability_set_revision'', PStr (ai_capability_set_revision i))] @
        (if py_eq kind (sv ''project'')
         then [(sv ''project_id'', case dget ''project_id'' active of None \<Rightarrow> sv ''project_alpha'' | Some p \<Rightarrow> p)] else [])))"

section \<open>The adapter's state\<close>

record reference_adapter =
  ra_identity :: adapter_identity
  ra_fault :: "string option"
  ra_initialized :: bool
  ra_terminal :: bool
  ra_shutdown :: bool
  ra_scope :: pyval
  ra_deliveries :: "(pyval \<times> pydict) list"

datatype reply = NoReply | TextReply pystr | BytesReply "nat list"

definition delivery_row :: "adapter_identity \<Rightarrow> pydict \<Rightarrow> string \<Rightarrow> string \<Rightarrow> string \<Rightarrow> pydict" where
  "delivery_row i scope message delivery attempt =
     [(sv ''message_id'', sv message), (sv ''delivery_id'', sv delivery), (sv ''attempt_id'', sv attempt),
      (sv ''workspace_id'', PStr (ai_workspace_id i)), (sv ''scope'', PDict scope), (sv ''endpoint_id'', PStr (ai_endpoint_id i)),
      (sv ''session_ref_id'', sv ''session_alpha''), (sv ''native_session_id'', sv ''native-session-alpha'')]"

definition delivery_rows :: "adapter_identity \<Rightarrow> pyerr + (pyval \<times> pydict) list" where
  "delivery_rows i =
     rbind (scope_dict (ai_scope i)) (\<lambda>scope.
     Inr [(sv ''deliver-1'', delivery_row i scope ''msg_alpha'' ''delivery_alpha'' ''attempt_alpha''),
          (PInt 42, delivery_row i scope ''msg_numeric'' ''delivery_numeric'' ''attempt_numeric'')])"

definition new_adapter :: "adapter_identity option \<Rightarrow> string option \<Rightarrow> pyerr + reference_adapter" where
  "new_adapter identity fault =
     (if (case fault of None \<Rightarrow> False | Some f \<Rightarrow> f \<notin> set FAULT_INJECTIONS) then
        Inl (ValueErr ''unknown reference-adapter fault injection'')
      else
        let i = (case identity of None \<Rightarrow> default_identity | Some i \<Rightarrow> i) in
        rbind (scope_dict (ai_scope i)) (\<lambda>scope.
        rbind (delivery_rows i) (\<lambda>rows.
        Inr \<lparr>ra_identity = i, ra_fault = fault, ra_initialized = False, ra_terminal = False, ra_shutdown = False,
             ra_scope = PDict scope, ra_deliveries = rows\<rparr>)))"

section \<open>Replies\<close>

definition error_text :: "pyval \<Rightarrow> string \<Rightarrow> pyerr + reply" where
  "error_text rid name =
     rbind (error_code (lit name)) (\<lambda>c. rbind (dumps True (error_frame rid c (lit name))) (\<lambda>t. Inr (TextReply t)))"

definition result_text :: "pyval \<Rightarrow> pyval \<Rightarrow> pyerr + reply" where
  "result_text rid res = rbind (dumps True (result_frame rid res)) (\<lambda>t. Inr (TextReply t))"

definition dump_text :: "pyval \<Rightarrow> pyerr + reply" where
  "dump_text v = rbind (dumps True v) (\<lambda>t. Inr (TextReply t))"

definition injected_output :: "reference_adapter \<Rightarrow> pyerr + reply option" where
  "injected_output a =
     (case ra_fault a of
        None \<Rightarrow> Inr None
      | Some f \<Rightarrow>
          rbind (if f = ''duplicate-output'' then
                   Inr (TextReply (lit ''{'' @ 34 # lit ''jsonrpc'' @ [34, 58, 34] @ lit ''2.0'' @ [34, 44, 34] @ lit ''id'' @ [34, 58, 34] @
                     lit ''fault'' @ [34, 44, 34] @ lit ''result'' @ [34, 58] @ lit ''{},'' @ 34 # lit ''result'' @ [34, 58] @ lit ''{}}''))
                 else if f = ''prohibited-adapter-request'' then
                   dump_text (PDict [(sv ''jsonrpc'', sv JSONRPC_VERSION), (sv ''id'', sv ''fault''), (sv ''method'', PStr METHOD_HEALTH),
                     (sv ''params'', PDict [])])
                 else if f = ''absent-id-request'' then
                   dump_text (PDict [(sv ''jsonrpc'', sv JSONRPC_VERSION), (sv ''method'', PStr METHOD_HEALTH), (sv ''params'', PDict [])])
                 else if f = ''invalid-framing'' then Inr (BytesReply [255])
                 else if f = ''oversized-message'' then Inr (BytesReply (replicate (MAX_MESSAGE_BYTES + 2) 120))
                 else if f = ''stderr-overflow'' then
                   dump_text (result_frame (sv ''fault'') (reference_health_result (ra_identity a) None))
                 else if f = ''result-shape'' then
                   dump_text (result_frame (sv ''fault'') (PDict [(sv ''status'', sv ''healthy'')]))
                 else if f = ''closed-envelope'' then
                   dump_text (PDict [(sv ''jsonrpc'', sv JSONRPC_VERSION), (sv ''id'', sv ''fault''), (sv ''result'', PDict []),
                     (sv ''extra'', PBool True)])
                 else Inl (AssertionErr ''unreachable fault injection''))
            (\<lambda>r. Inr (Some r)))"

section \<open>Session references and deliveries\<close>

definition AUTHORITY_KEYS :: "string list" where
  "AUTHORITY_KEYS = [''authority_kind'', ''identity'', ''implementation_revision'', ''capability_profile_id'', ''capability_profile_revision'']"

definition trusted_authority :: "adapter_identity \<Rightarrow> pydict \<Rightarrow> bool" where
  "trusted_authority i d \<longleftrightarrow> py_eq (dget_none ''authority_kind'' d) (sv ''trusted_adapter'') \<and>
     py_eq (dget_none ''identity'' d) (PStr (ai_adapter_id i)) \<and>
     py_eq (dget_none ''implementation_revision'' d) (PStr (ai_adapter_revision i))"

definition repository_binding_ok :: "pydict \<Rightarrow> pyval \<Rightarrow> pyerr + bool" where
  "repository_binding_ok scope binding =
     rbind (dsub ''kind'' scope) (\<lambda>kind.
     if py_eq kind (sv ''workspace'') \<and> binding \<noteq> PNone then Inr False
     else if py_eq kind (sv ''project'') then
       (let project = dget_none ''project_id'' scope in
        if \<not> (is_str project \<and> truthy project) then Inr False
        else if binding \<noteq> PNone then field_is ''project_id'' project binding
        else Inr True)
     else Inr True)"

definition session_evidence_ok :: "adapter_identity \<Rightarrow> pydict \<Rightarrow> pyval \<Rightarrow> pydict \<Rightarrow> pyerr + bool" where
  "session_evidence_ok i doc binding ev =
     all_of
       [rbind (dsub ''workspace_id'' ev) (\<lambda>x. rbind (dsub ''workspace_id'' doc) (\<lambda>y. Inr (py_eq x y))),
        rbind (dsub ''scope'' ev) (\<lambda>x. rbind (dsub ''scope'' doc) (\<lambda>y. Inr (py_eq x y))),
        rbind (dsub ''state'' ev) (\<lambda>x. Inr (py_eq x (sv ''visible''))),
        rbind (dsub ''evidence_id'' ev) (\<lambda>x. Inr (is_token x (Some ''evidence_''))),
        rbind (dsub ''correlation_id'' ev) (\<lambda>x. Inr (is_token x (Some ''corr_''))),
        rbind (dsub ''observed_at_utc'' ev) (\<lambda>x. Inr (is_str x \<and> truthy x)),
        rbind (dsub ''authority'' ev) (\<lambda>x. Inr (is_dict x \<and> keys_are AUTHORITY_KEYS (dict_of x) \<and> trusted_authority i (dict_of x))),
        rbind (dsub ''subject'' ev) (\<lambda>x.
          if \<not> (is_dict x \<and> keys_are ([''endpoint_id'', ''session_ref_id'', ''native_session_id''] @
                  (if binding \<noteq> PNone then [''repository_binding''] else [])) (dict_of x)) then Inr False
          else
            all_of (map (\<lambda>f. rbind (dsub f doc) (\<lambda>y. Inr (py_eq (dget_none f (dict_of x)) y)))
                      [''endpoint_id'', ''session_ref_id'', ''native_session_id''] @
                    [Inr (binding \<noteq> PNone \<longrightarrow> py_eq (dget_none ''repository_binding'' (dict_of x)) binding)])),
        rbind (dsub ''integrity'' ev) (\<lambda>x. rbind (canonical_digest ev) (\<lambda>h. Inr (py_eq x (PStr h))))]"

definition valid_session_ref :: "adapter_identity \<Rightarrow> pydict \<Rightarrow> pyerr + bool" where
  "valid_session_ref i doc =
     rbind (endpoint_doc i) (\<lambda>ep.
     let scope = dget_none ''scope'' ep; binding = dget_none ''repository_binding'' doc in
     all_of
       [rbind (dsub ''workspace_id'' doc) (\<lambda>x. Inr (py_eq x (PStr (ai_workspace_id i)))),
        rbind (dsub ''scope'' doc) (\<lambda>x. Inr (py_eq x scope)),
        repository_binding_ok (dict_of scope) binding,
        rbind (dsub ''endpoint_id'' doc) (\<lambda>x. Inr (py_eq x (PStr (ai_endpoint_id i)))),
        rbind (dsub ''evidence'' doc) (\<lambda>ev.
          if is_dict ev then session_evidence_ok i doc binding (dict_of ev) else Inl (TypeErr ''not subscriptable by text''))])"

definition session_matches_delivery :: "pydict \<Rightarrow> pydict \<Rightarrow> pyerr + bool" where
  "session_matches_delivery session_ref delivery =
     all_of (map (\<lambda>f. rbind (dsub f session_ref) (\<lambda>x. rbind (dsub f delivery) (\<lambda>y. Inr (py_eq x y))))
       [''workspace_id'', ''scope'', ''endpoint_id'', ''session_ref_id'', ''native_session_id''])"

definition DELIVERY_KEYS :: "string list" where
  "DELIVERY_KEYS = [''schema_version'', ''workspace_id'', ''scope'', ''delivery_id'', ''message_id'', ''attempt_id'', ''endpoint_id'',
     ''session_ref_id'', ''outcome'', ''evidence'']"

definition EVIDENCE_KEYS :: "string list" where
  "EVIDENCE_KEYS = [''schema_version'', ''workspace_id'', ''scope'', ''evidence_id'', ''evidence_kind'', ''quality'', ''state'',
     ''authority'', ''subject'', ''correlation_id'', ''observed_at_utc'', ''integrity'']"

definition SUBJECT_KEYS :: "string list" where
  "SUBJECT_KEYS = [''message_id'', ''delivery_id'', ''attempt_id'', ''endpoint_id'', ''session_ref_id'']"

definition TOKEN_PREFIXES :: "(string \<times> string) list" where
  "TOKEN_PREFIXES = [(''workspace_id'', ''ws_''), (''delivery_id'', ''delivery_''), (''message_id'', ''msg_''),
     (''attempt_id'', ''attempt_''), (''endpoint_id'', ''endpoint_''), (''session_ref_id'', ''session_'')]"

definition delivery_evidence_shape :: "pydict \<Rightarrow> bool" where
  "delivery_evidence_shape ev \<longleftrightarrow> py_eq (dget_none ''schema_version'' ev) (PInt 1) \<and>
     py_eq (dget_none ''evidence_kind'' ev) (sv ''native_delivery_state'') \<and> py_eq (dget_none ''quality'' ev) (sv ''best_effort'') \<and>
     py_eq (dget_none ''state'' ev) (sv ''routed'') \<and> is_token (dget_none ''evidence_id'' ev) (Some ''evidence_'') \<and>
     is_token (dget_none ''correlation_id'' ev) (Some ''corr_'') \<and>
     is_str (dget_none ''observed_at_utc'' ev) \<and> truthy (dget_none ''observed_at_utc'' ev) \<and> is_integrity (dget_none ''integrity'' ev)"

definition same_member :: "string \<Rightarrow> pydict \<Rightarrow> pydict \<Rightarrow> bool" where
  "same_member f a b \<longleftrightarrow> py_eq (dget_none f a) (dget_none f b)"

definition delivery_validation_status :: "adapter_identity \<Rightarrow> pydict \<Rightarrow> pydict \<Rightarrow> pyerr + string option" where
  "delivery_validation_status i d session_ref =
     (let evidence = dget_none ''evidence'' d; ev = dict_of evidence; authority = dget_none ''authority'' ev;
          subject = dict_of (dget_none ''subject'' ev);
          session_same = (\<lambda>f. rbind (dsub f session_ref) (\<lambda>y. refuse_unless ''identity'' (py_eq (dget_none f d) y))) in
      first_of
       [refuse_unless ''schema'' (keys_are DELIVERY_KEYS d),
        refuse_unless ''schema'' (py_eq (dget_none ''schema_version'' d) (PInt 1) \<and> py_eq (dget_none ''outcome'' d) (sv ''pending'')),
        refuse_unless ''schema'' (list_all (\<lambda>(f, p). is_token (dget_none f d) (Some p)) TOKEN_PREFIXES),
        refuse_unless ''schema'' (is_dict (dget_none ''scope'' d)),
        refuse_unless ''schema'' (is_dict evidence \<and> keys_are EVIDENCE_KEYS ev),
        refuse_unless ''schema'' (delivery_evidence_shape ev),
        refuse_unless ''schema'' (is_dict authority \<and> keys_are AUTHORITY_KEYS (dict_of authority) \<and> trusted_authority i (dict_of authority)),
        rbind (canonical_digest ev) (\<lambda>h. refuse_unless ''integrity'' (py_eq (dget_none ''integrity'' ev) (PStr h))),
        refuse_unless ''schema'' (is_dict (dget_none ''subject'' ev) \<and> keys_are SUBJECT_KEYS subject),
        session_same ''workspace_id'', session_same ''scope'', session_same ''endpoint_id'', session_same ''session_ref_id'',
        refuse_unless ''identity'' (same_member ''workspace_id'' ev d \<and> same_member ''scope'' ev d),
        refuse_unless ''identity'' (list_all (\<lambda>f. same_member f subject d) SUBJECT_KEYS)])"

section \<open>Receipts\<close>

text \<open>The receipt of a delivery in a state, from the identifiers it repeats.\<close>

definition receipt_doc ::
  "adapter_identity \<Rightarrow> pyval \<Rightarrow> pyval \<Rightarrow> pyval \<Rightarrow> pyval \<Rightarrow> pyval \<Rightarrow> pyval \<Rightarrow> pyval \<Rightarrow> string \<Rightarrow> string \<Rightarrow> pyerr + pydict" where
  "receipt_doc i workspace scope message delivery attempt endpoint session state quality =
     (let named = (\<lambda>p. PStr (lit p @ str_of attempt));
          receipt = [(sv ''schema_version'', PInt 1), (sv ''workspace_id'', workspace), (sv ''scope'', scope),
            (sv ''receipt_id'', named ''receipt_''), (sv ''message_id'', message), (sv ''delivery_id'', delivery),
            (sv ''attempt_id'', attempt), (sv ''endpoint_id'', endpoint), (sv ''session_ref_id'', session), (sv ''state'', sv state)];
          evidence = [(sv ''schema_version'', PInt 1), (sv ''workspace_id'', workspace), (sv ''scope'', scope),
            (sv ''evidence_id'', named ''evidence_''), (sv ''evidence_kind'', sv ''native_delivery_state''), (sv ''quality'', sv quality),
            (sv ''state'', sv state),
            (sv ''authority'', PDict [(sv ''authority_kind'', sv ''trusted_adapter''), (sv ''identity'', PStr (ai_adapter_id i)),
               (sv ''implementation_revision'', PStr (ai_adapter_revision i)), (sv ''capability_profile_id'', sv ''runtime_profile''),
               (sv ''capability_profile_revision'', PStr (ai_capability_set_revision i))]),
            (sv ''subject'', PDict [(sv ''message_id'', message), (sv ''delivery_id'', delivery), (sv ''attempt_id'', attempt),
               (sv ''endpoint_id'', endpoint), (sv ''session_ref_id'', session)]),
            (sv ''correlation_id'', named ''corr_''), (sv ''observed_at_utc'', sv ''2026-07-22T00:00:00Z'')]
      in rbind (with_integrity evidence) (\<lambda>e. Inr (receipt @ [(sv ''evidence'', PDict e)])))"

definition reconcile_receipt :: "reference_adapter \<Rightarrow> pydict \<Rightarrow> pydict \<Rightarrow> pyerr + pydict" where
  "reconcile_receipt a session_ref params =
     rbind (dsub ''workspace_id'' session_ref) (\<lambda>workspace.
     rbind (dsub ''scope'' session_ref) (\<lambda>scope.
     rbind (case map_of (ra_deliveries a) (py_key (dget_none ''original_request_id'' params)) of
              None \<Rightarrow> Inl KeyErr | Some row \<Rightarrow> dsub ''message_id'' row) (\<lambda>message.
     rbind (dsub ''endpoint_id'' session_ref) (\<lambda>endpoint.
     rbind (dsub ''session_ref_id'' session_ref) (\<lambda>session.
     receipt_doc (ra_identity a) workspace scope message (dget_none ''delivery_id'' params) (dget_none ''attempt_id'' params)
       endpoint session ''completed'' ''authoritative'')))))"

definition deliver_receipt :: "reference_adapter \<Rightarrow> pydict \<Rightarrow> pydict \<Rightarrow> pyerr + pydict" where
  "deliver_receipt a session_ref delivery =
     rbind (dsub ''workspace_id'' session_ref) (\<lambda>workspace.
     rbind (dsub ''scope'' session_ref) (\<lambda>scope.
     rbind (dsub ''endpoint_id'' session_ref) (\<lambda>endpoint.
     rbind (dsub ''session_ref_id'' session_ref) (\<lambda>session.
     receipt_doc (ra_identity a) workspace scope (dget_none ''message_id'' delivery) (dget_none ''delivery_id'' delivery)
       (dget_none ''attempt_id'' delivery) endpoint session ''routed'' ''best_effort''))))"

section \<open>Handling a frame\<close>

type_synonym handled = "(pyerr + reply) \<times> reference_adapter"

definition refuse :: "pyval \<Rightarrow> string \<Rightarrow> reference_adapter \<Rightarrow> handled" where
  "refuse rid name a = (error_text rid name, a)"

text \<open>Continue with the value of a step that may raise; an error escapes with the state as it is then.\<close>

definition step_then :: "pyerr + 'a \<Rightarrow> ('a \<Rightarrow> handled) \<Rightarrow> reference_adapter \<Rightarrow> handled" where
  "step_then m k a = (case m of Inl e \<Rightarrow> (Inl e, a) | Inr x \<Rightarrow> k x)"

definition handle_initialize :: "schema \<Rightarrow> pyval \<Rightarrow> pydict \<Rightarrow> reference_adapter \<Rightarrow> handled" where
  "handle_initialize docs rid params a =
     (if \<not> keys_are [''requested_protocol_version'', ''adapter_id'', ''adapter_revision'', ''manifest_id'', ''manifest_revision'', ''endpoint''] params
      then refuse rid ''INVALID_PARAMS'' a
      else if \<not> py_eq (dget_none ''requested_protocol_version'' params) (sv NEGOTIATED_PROTOCOL_VERSION) then
        refuse rid ''UNSUPPORTED_PROTOCOL_VERSION'' (a\<lparr>ra_terminal := True\<rparr>)
      else
        case validate_endpoint_v1 docs (dget_none ''endpoint'' params) of
          Inl _ \<Rightarrow> refuse rid ''INVALID_PARAMS'' a
        | Inr endpoint \<Rightarrow>
            step_then (dsub ''scope'' endpoint) (\<lambda>scope.
            let expected = (ra_identity a)\<lparr>ai_scope := scope\<rparr> in
            step_then (endpoint_doc expected) (\<lambda>ep.
            if \<not> py_eq (PDict endpoint) (PDict ep) then refuse rid ''INVALID_PARAMS'' a
            else if \<not> (py_eq (dget_none ''adapter_id'' params) (PStr (ai_adapter_id expected)) \<and>
                       py_eq (dget_none ''adapter_revision'' params) (PStr (ai_adapter_revision expected)) \<and>
                       py_eq (dget_none ''manifest_id'' params) (PStr (ai_manifest_id expected)) \<and>
                       py_eq (dget_none ''manifest_revision'' params) (PStr (ai_manifest_revision expected)))
            then refuse rid ''INVALID_PARAMS'' a
            else
              step_then (delivery_rows expected) (\<lambda>rows.
              let a' = a\<lparr>ra_identity := expected, ra_scope := scope, ra_deliveries := rows, ra_initialized := True\<rparr> in
              step_then (initialize_result expected) (\<lambda>res. (result_text rid res, a')) a') a) a) a)"

definition handle_health :: "pyval \<Rightarrow> pydict \<Rightarrow> reference_adapter \<Rightarrow> handled" where
  "handle_health rid params a =
     (if params \<noteq> [] then refuse rid ''INVALID_PARAMS'' a
      else (result_text rid (reference_health_result (ra_identity a) (Some (ra_scope a))), a))"

definition handle_shutdown :: "pyval \<Rightarrow> pydict \<Rightarrow> reference_adapter \<Rightarrow> handled" where
  "handle_shutdown rid params a =
     (if params \<noteq> [] then refuse rid ''INVALID_PARAMS'' a
      else (result_text rid (PDict [(sv ''status'', sv ''shutdown_started'')]), a\<lparr>ra_shutdown := True\<rparr>))"

definition handle_reconcile :: "schema \<Rightarrow> pyval \<Rightarrow> pydict \<Rightarrow> reference_adapter \<Rightarrow> handled" where
  "handle_reconcile docs rid params a =
     (let original = dget_none ''original_request_id'' params in
      if \<not> keys_are [''session_ref'', ''original_request_id'', ''delivery_id'', ''attempt_id''] params then refuse rid ''INVALID_PARAMS'' a
      else
        case validate_session_ref_v1 docs (dget_none ''session_ref'' params) of
          Inl _ \<Rightarrow> refuse rid ''INVALID_PARAMS'' a
        | Inr session_ref \<Rightarrow>
            step_then (valid_session_ref (ra_identity a) session_ref) (\<lambda>valid.
            if \<not> valid then refuse rid ''INVALID_SESSION_REF'' a
            else if \<not> is_request_id original then refuse rid ''INVALID_PARAMS'' a
            else if \<not> (is_token (dget_none ''delivery_id'' params) None \<and> is_token (dget_none ''attempt_id'' params) None)
            then refuse rid ''INVALID_PARAMS'' a
            else
              case map_of (ra_deliveries a) (py_key original) of
                None \<Rightarrow> refuse rid ''INVALID_PARAMS'' a
              | Some delivery \<Rightarrow>
                  step_then (session_matches_delivery session_ref delivery) (\<lambda>matches.
                  if \<not> matches then refuse rid ''INVALID_SESSION_REF'' a
                  else
                    step_then (rbind (dsub ''delivery_id'' delivery) (\<lambda>x. rbind (dsub ''attempt_id'' delivery) (\<lambda>y.
                        Inr (py_eq x (dget_none ''delivery_id'' params) \<and> py_eq y (dget_none ''attempt_id'' params))))) (\<lambda>same.
                    if \<not> same then refuse rid ''INVALID_DELIVERY'' a
                    else
                      step_then (dsub ''scope'' session_ref) (\<lambda>scope.
                      let a' = a\<lparr>ra_scope := scope\<rparr> in
                      step_then (reconcile_receipt a' session_ref params) (\<lambda>r. (result_text rid (PDict r), a')) a') a) a) a) a)"

definition handle_deliver :: "schema \<Rightarrow> pyval \<Rightarrow> pydict \<Rightarrow> reference_adapter \<Rightarrow> handled" where
  "handle_deliver docs rid params a =
     (let delivery = dget_none ''delivery'' params in
      if \<not> keys_are [''session_ref'', ''delivery''] params then refuse rid ''INVALID_PARAMS'' a
      else if \<not> (is_dict (dget_none ''session_ref'' params) \<and> is_dict delivery) then refuse rid ''INVALID_PARAMS'' a
      else
        case validate_session_ref_v1 docs (dget_none ''session_ref'' params) of
          Inl _ \<Rightarrow> refuse rid ''INVALID_PARAMS'' a
        | Inr session_ref \<Rightarrow>
            step_then (valid_session_ref (ra_identity a) session_ref) (\<lambda>valid.
            if \<not> valid then refuse rid ''INVALID_SESSION_REF'' a
            else
              step_then (delivery_validation_status (ra_identity a) (dict_of delivery) session_ref) (\<lambda>status.
              if status = Some ''schema'' then refuse rid ''INVALID_PARAMS'' a
              else if status \<noteq> None then refuse rid ''INVALID_DELIVERY'' a
              else
                step_then (dsub ''scope'' session_ref) (\<lambda>scope.
                let a' = a\<lparr>ra_scope := scope\<rparr> in
                step_then (deliver_receipt a' session_ref (dict_of delivery)) (\<lambda>r. (result_text rid (PDict r), a')) a') a) a) a)"

text \<open>A request whose envelope is well formed.\<close>

definition dispatch :: "schema \<Rightarrow> pyval \<Rightarrow> pystr \<Rightarrow> pydict \<Rightarrow> reference_adapter \<Rightarrow> handled" where
  "dispatch docs rid m params a =
     (if ra_shutdown a then refuse rid ''SHUTDOWN_IN_PROGRESS'' a
      else if m = METHOD_INITIALIZE then
        (if ra_initialized a then refuse rid ''INVALID_REQUEST'' a else handle_initialize docs rid params a)
      else if \<not> ra_initialized a then refuse rid ''INITIALIZE_REQUIRED'' (a\<lparr>ra_terminal := True\<rparr>)
      else if m = METHOD_HEALTH then handle_health rid params a
      else if m = METHOD_RECONCILE then handle_reconcile docs rid params a
      else if m = METHOD_DELIVER then handle_deliver docs rid params a
      else if m = METHOD_SHUTDOWN then handle_shutdown rid params a
      else if m = METHOD_CANCEL then refuse rid ''INVALID_PARAMS'' a
      else refuse rid ''METHOD_NOT_FOUND'' a)"

definition handle_object :: "schema \<Rightarrow> pydict \<Rightarrow> reference_adapter \<Rightarrow> handled" where
  "handle_object docs d a =
     (let rid = dget_none ''id'' d; closed = a\<lparr>ra_terminal := True\<rparr>; m = dget_none ''method'' d; params = dget_none ''params'' d in
      if has_key ''result'' d \<or> has_key ''error'' d then (Inr NoReply, closed)
      else if \<not> has_key ''id'' d then
        (if keys_are [''jsonrpc'', ''method'', ''params''] d \<and> is_str m \<and> is_dict params then (Inr NoReply, closed)
         else refuse PNone ''INVALID_REQUEST'' closed)
      else if \<not> is_request_id rid then refuse PNone ''INVALID_REQUEST'' closed
      else if \<not> (keys_are [''jsonrpc'', ''id'', ''method'', ''params''] d \<and> py_eq (dget_none ''jsonrpc'' d) (sv JSONRPC_VERSION)) then
        refuse rid ''INVALID_REQUEST'' a
      else if \<not> (is_str m \<and> is_dict params) then refuse rid ''INVALID_REQUEST'' a
      else dispatch docs rid (str_of m) (dict_of params) a)"

definition handle_text :: "schema \<Rightarrow> pystr \<Rightarrow> reference_adapter \<Rightarrow> handled" where
  "handle_text docs raw a =
     (if ra_terminal a then (Inr NoReply, a)
      else
        case injected_output a of
          Inl e \<Rightarrow> (Inl e, a)
        | Inr (Some r) \<Rightarrow> (Inr r, a)
        | Inr None \<Rightarrow>
            (case load_strict_frame raw of
               Inl (DuplicateMemberErr k) \<Rightarrow> refuse PNone ''PARSE_ERROR'' (a\<lparr>ra_terminal := True\<rparr>)
             | Inl RecursionErr \<Rightarrow> refuse PNone ''PARSE_ERROR'' (a\<lparr>ra_terminal := True\<rparr>)
             | Inl JSONDecodeErr \<Rightarrow> refuse PNone ''PARSE_ERROR'' (a\<lparr>ra_terminal := True\<rparr>)
             | Inl e \<Rightarrow> (Inl e, a)
             | Inr (PDict d) \<Rightarrow> handle_object docs d a
             | Inr v \<Rightarrow> refuse PNone ''INVALID_REQUEST'' (a\<lparr>ra_terminal := True\<rparr>)))"

section \<open>The stdio loop\<close>

text \<open>\<open>bytes.decode("utf-8")\<close>, strict.\<close>

definition cont_byte :: "nat \<Rightarrow> bool" where
  "cont_byte b \<longleftrightarrow> 0x80 \<le> b \<and> b \<le> 0xBF"

fun utf8_decode :: "nat list \<Rightarrow> pystr option" where
  "utf8_decode [] = Some []"
| "utf8_decode (b # bs) =
     (if b < 0x80 then map_option (Cons b) (utf8_decode bs)
      else if 0xC2 \<le> b \<and> b \<le> 0xDF then
        (case bs of
           c # rest \<Rightarrow> if cont_byte c then map_option (Cons ((b - 0xC0) * 64 + (c - 0x80))) (utf8_decode rest) else None
         | _ \<Rightarrow> None)
      else if 0xE0 \<le> b \<and> b \<le> 0xEF then
        (case bs of
           c # d # rest \<Rightarrow>
             let n = (b - 0xE0) * 4096 + (c - 0x80) * 64 + (d - 0x80) in
             if cont_byte c \<and> cont_byte d \<and> 0x800 \<le> n \<and> \<not> is_surrogate n
             then map_option (Cons n) (utf8_decode rest) else None
         | _ \<Rightarrow> None)
      else if 0xF0 \<le> b \<and> b \<le> 0xF4 then
        (case bs of
           c # d # e # rest \<Rightarrow>
             let n = (b - 0xF0) * 262144 + (c - 0x80) * 4096 + (d - 0x80) * 64 + (e - 0x80) in
             if cont_byte c \<and> cont_byte d \<and> cont_byte e \<and> 0x10000 \<le> n \<and> n \<le> 0x10FFFF
             then map_option (Cons n) (utf8_decode rest) else None
         | _ \<Rightarrow> None)
      else None)"

text \<open>
  One turn of the loop reads a line at clock time \<open>re_now\<close>: the bytes \<open>readline\<close> returns (nothing at the end of the input),
  which become available at \<open>re_arrives\<close>; \<open>re_written\<close> is the clock when the response has been written. A \<open>select\<close> that
  raises is not modelled.
\<close>

record read_turn =
  re_now :: int
  re_arrives :: int
  re_written :: int
  re_bytes :: "nat list"

definition readline_before_deadline :: "int option \<Rightarrow> read_turn \<Rightarrow> nat list option" where
  "readline_before_deadline deadline t =
     (case deadline of
        None \<Rightarrow> Some (re_bytes t)
      | Some d \<Rightarrow> if d - re_now t \<le> 0 then None else if re_arrives t \<le> d then Some (re_bytes t) else None)"

definition reply_bytes :: "reply \<Rightarrow> pyerr + nat list" where
  "reply_bytes r = (case r of TextReply t \<Rightarrow> utf8_encode t | BytesReply b \<Rightarrow> Inr b | NoReply \<Rightarrow> Inl AttributeErr)"

definition write_response :: "reply \<Rightarrow> bool \<Rightarrow> pyerr + nat list" where
  "write_response r enforce_bound =
     rbind (reply_bytes r) (\<lambda>payload.
     if enforce_bound \<and> length payload > MAX_MESSAGE_BYTES then
       rbind (error_text PNone ''MESSAGE_TOO_LARGE'') (\<lambda>m. rbind (reply_bytes m) (\<lambda>b. Inr (b @ [10])))
     else Inr (payload @ [10]))"

text \<open>The loop over the turns it is given: the lines written to standard output, and how it stopped.\<close>

datatype served = Waiting | Returned | Raised pyerr

definition drop_newlines :: "nat list \<Rightarrow> nat list" where
  "drop_newlines b = rev (dropWhile (\<lambda>c. c = 10) (rev b))"

fun serve :: "schema \<Rightarrow> int \<Rightarrow> int option \<Rightarrow> reference_adapter \<Rightarrow> read_turn list \<Rightarrow> nat list list \<times> served" where
  "serve docs drain deadline a [] = ([], Waiting)"
| "serve docs drain deadline a (t # ts) =
     (case readline_before_deadline deadline t of
        None \<Rightarrow> ([], Returned)
      | Some raw \<Rightarrow>
          if raw = [] then ([], Returned)
          else if length raw > MAX_MESSAGE_BYTES + 1 then
            (case rbind (error_text PNone ''MESSAGE_TOO_LARGE'') (\<lambda>r. write_response r True) of
               Inl e \<Rightarrow> ([], Raised e) | Inr line \<Rightarrow> ([line], Returned))
          else if last raw \<noteq> 10 then ([], Returned)
          else
            case utf8_decode (drop_newlines raw) of
              None \<Rightarrow> ([], Returned)
            | Some txt \<Rightarrow>
                (case handle_text docs txt a of
                   (Inl e, a') \<Rightarrow> ([], Raised e)
                 | (Inr NoReply, a') \<Rightarrow> ([], Returned)
                 | (Inr r, a') \<Rightarrow>
                     (case write_response r (ra_fault a \<notin> {Some ''invalid-framing'', Some ''oversized-message''}) of
                        Inl e \<Rightarrow> ([], Raised e)
                      | Inr line \<Rightarrow>
                          if ra_fault a \<noteq> None then ([line], Returned)
                          else
                            let deadline' = (if ra_shutdown a' \<and> deadline = None then Some (re_written t + drain) else deadline);
                                (lines, how) = serve docs drain deadline' a' ts
                            in (line # lines, how))))"

end
