(* ===== verification/ReferenceProps.thy ===== *)
theory ReferenceProps
  imports Reference
begin

text \<open>
  The protocol the reference peer keeps: what it replies, how its state changes, and what escapes it.
\<close>

section \<open>How the state changes\<close>

text \<open>The changes handling a frame can make, from the state before.\<close>

inductive ra_change :: "reference_adapter \<Rightarrow> reference_adapter \<Rightarrow> bool" where
  unchanged: "ra_change a a"
| closed: "ra_change a (a\<lparr>ra_terminal := True\<rparr>)"
| initialized: "\<not> ra_initialized a \<Longrightarrow> \<not> ra_shutdown a \<Longrightarrow> i = (ra_identity a)\<lparr>ai_scope := scope\<rparr> \<Longrightarrow>
    delivery_rows i = Inr rows \<Longrightarrow>
    ra_change a (a\<lparr>ra_identity := i, ra_scope := scope, ra_deliveries := rows, ra_initialized := True\<rparr>)"
| scoped: "ra_initialized a \<Longrightarrow> \<not> ra_shutdown a \<Longrightarrow> py_eq scope (ai_scope (ra_identity a)) \<Longrightarrow> ra_change a (a\<lparr>ra_scope := scope\<rparr>)"
| stopping: "ra_initialized a \<Longrightarrow> \<not> ra_shutdown a \<Longrightarrow> ra_change a (a\<lparr>ra_shutdown := True\<rparr>)"

inductive_cases ra_changeE: "ra_change a b"

definition refusal_of :: "pyval \<Rightarrow> pyerr + reply \<Rightarrow> bool" where
  "refusal_of rid out \<longleftrightarrow> (\<exists>name. lit name \<in> fst ` set ERROR_CODES \<and> out = error_text rid name)"

text \<open>What a handler does: refuse, answer with a result, or, where \<open>ok\<close> allows it, raise.\<close>

inductive answers :: "bool \<Rightarrow> reference_adapter \<Rightarrow> pyval \<Rightarrow> handled \<Rightarrow> bool" for ok a rid where
  refuses: "refusal_of rid out \<Longrightarrow> a' = a \<or> a' = a\<lparr>ra_terminal := True\<rparr> \<Longrightarrow> answers ok a rid (out, a')"
| gives: "ra_change a a' \<Longrightarrow> ra_initialized a' \<Longrightarrow> \<not> ra_shutdown a \<Longrightarrow> result_text rid res = Inr (TextReply t) \<Longrightarrow>
    answers ok a rid (Inr (TextReply t), a')"
| raises: "ok \<Longrightarrow> ra_change a a' \<Longrightarrow> answers ok a rid (Inl e, a')"

inductive_cases answersE: "answers ok a rid r"

lemma answers_result:
  "ra_change a a' \<Longrightarrow> ra_initialized a' \<Longrightarrow> \<not> ra_shutdown a \<Longrightarrow> (\<And>e. dumps True (result_frame rid res) = Inl e \<Longrightarrow> ok) \<Longrightarrow>
     answers ok a rid (result_text rid res, a')"
  by (cases "dumps True (result_frame rid res)") (auto simp: result_text_def intro: answers.raises answers.gives [where res = res])

lemma known_refusal:
  "lit name \<in> fst ` set ERROR_CODES \<Longrightarrow> answers ok a rid (refuse rid name a)"
  "lit name \<in> fst ` set ERROR_CODES \<Longrightarrow> answers ok a rid (refuse rid name (a\<lparr>ra_terminal := True\<rparr>))"
  unfolding refuse_def by (rule answers.refuses; force simp: refusal_of_def)+

lemma error_names [simp]:
  "\<forall>n \<in> {''INVALID_PARAMS'', ''UNSUPPORTED_PROTOCOL_VERSION'', ''INVALID_SESSION_REF'', ''INVALID_DELIVERY'', ''SHUTDOWN_IN_PROGRESS'',
     ''INVALID_REQUEST'', ''INITIALIZE_REQUIRED'', ''METHOD_NOT_FOUND'', ''PARSE_ERROR'', ''MESSAGE_TOO_LARGE''}. lit n \<in> fst ` set ERROR_CODES"
  by (simp add: ERROR_CODES_def)

lemma answers_step:
  "ok \<Longrightarrow> (\<And>x. m = Inr x \<Longrightarrow> answers ok a rid (k x)) \<Longrightarrow> ra_change a a' \<Longrightarrow> answers ok a rid (step_then m k a')"
  by (cases m) (auto simp: step_then_def intro: answers.raises)

lemma all_of_True: "all_of ms = Inr True \<longleftrightarrow> (\<forall>m \<in> set ms. m = Inr True)"
  by (induction ms) (auto simp: rbind_Inr_iff split: if_splits)

lemma first_of_None: "first_of ms = Inr None \<longleftrightarrow> (\<forall>m \<in> set ms. m = Inr None)"
  by (induction ms) (auto simp: rbind_Inr_iff split: option.splits)

lemma refuse_unless_iff [simp]: "refuse_unless why b = Inr None \<longleftrightarrow> b"
  by (simp add: refuse_unless_def)

lemma valid_session_scope:
  assumes v: "valid_session_ref i doc = Inr True" and s: "dsub ''scope'' doc = Inr scope"
  shows "py_eq scope (ai_scope i)"
proof -
  obtain ep where ep: "endpoint_doc i = Inr ep" using v by (cases "endpoint_doc i") (auto simp: valid_session_ref_def)
  have "rbind (dsub ''scope'' doc) (\<lambda>x. Inr (py_eq x (dget_none ''scope'' ep))) = Inr True"
    using v ep by (simp add: valid_session_ref_def Let_def all_of_True del: all_of.simps)
  moreover have "dget_none ''scope'' ep = ai_scope i"
    using ep by (cases "ai_scope i") (auto simp: endpoint_doc_def scope_dict_def dget_none_def)
  ultimately show ?thesis using s by simp
qed

text \<open>
  Where an exception can escape the handling of a request: after the document it carries has passed its validator
  (an endpoint to initialize with, else a session reference), or in rendering the health of the peer.
\<close>

definition checked_document :: "schema \<Rightarrow> pystr \<Rightarrow> pydict \<Rightarrow> bool" where
  "checked_document docs m params \<longleftrightarrow>
     m = METHOD_INITIALIZE \<and> (\<exists>ep. validate_endpoint_v1 docs (dget_none ''endpoint'' params) = Inr ep) \<or>
     m \<in> {METHOD_RECONCILE, METHOD_DELIVER} \<and> (\<exists>ref. validate_session_ref_v1 docs (dget_none ''session_ref'' params) = Inr ref)"

definition health_fails :: "pyval \<Rightarrow> pystr \<Rightarrow> pydict \<Rightarrow> reference_adapter \<Rightarrow> bool" where
  "health_fails rid m params a \<longleftrightarrow> m = METHOD_HEALTH \<and> params = [] \<and> ra_initialized a \<and>
     (\<exists>e. dumps True (result_frame rid (reference_health_result (ra_identity a) (Some (ra_scope a)))) = Inl e)"

definition request_may_raise :: "schema \<Rightarrow> reference_adapter \<Rightarrow> pyval \<Rightarrow> pystr \<Rightarrow> pydict \<Rightarrow> bool" where
  "request_may_raise docs a rid m params \<longleftrightarrow> \<not> ra_shutdown a \<and> (checked_document docs m params \<or> health_fails rid m params a)"

lemma answers_initialize:
  "\<not> ra_initialized a \<Longrightarrow> \<not> ra_shutdown a \<Longrightarrow>
     answers (\<exists>ep. validate_endpoint_v1 docs (dget_none ''endpoint'' params) = Inr ep) a rid (handle_initialize docs rid params a)"
  unfolding handle_initialize_def Let_def
  by (auto intro!: known_refusal answers_step answers_result ra_change.intros split: sum.split)

lemma answers_health:
  "ra_initialized a \<Longrightarrow> \<not> ra_shutdown a \<Longrightarrow> answers (health_fails rid METHOD_HEALTH params a) a rid (handle_health rid params a)"
  by (auto simp: handle_health_def health_fails_def intro!: known_refusal answers_result ra_change.intros)

lemma usable_id:
  assumes "rid = PNone \<or> is_request_id rid"
  shows "dumpable rid" and "nesting rid = 0"
proof -
  have "\<bar>n\<bar> < 10 ^ Suc 15" if "rid = PInt n" for n using assms that by (auto simp: is_request_id_def)
  then show "dumpable rid" "nesting rid = 0"
    using assms small_int_text by (cases rid; simp add: is_request_id_def)+
qed

lemma shutdown_rendered:
  "is_request_id rid \<Longrightarrow> \<exists>t. dumps True (result_frame rid (PDict [(sv ''status'', sv ''shutdown_started'')])) = Inr t"
  using usable_id [of rid] unfolding dumps_total by (simp add: result_frame_def json_levels_def)

lemma error_text_rendered:
  assumes "rid = PNone \<or> is_request_id rid" and "lit name \<in> fst ` set ERROR_CODES"
  shows "\<exists>t. error_text rid name = Inr (TextReply t)"
proof -
  obtain c where c: "map_of ERROR_CODES (lit name) = Some c" using assms(2) by (metis map_of_eq_None_iff option.exhaust)
  then have "\<exists>n. int_text c = Inr n" using error_codes_text [of "lit name"] by simp
  then have "\<exists>t. dumps True (error_frame rid c (lit name)) = Inr t"
    using usable_id [OF assms(1)] unfolding dumps_total by (simp add: error_frame_def json_levels_def)
  then show ?thesis using c by (auto simp: error_text_def error_code_def)
qed

lemma answers_shutdown:
  "is_request_id rid \<Longrightarrow> ra_initialized a \<Longrightarrow> \<not> ra_shutdown a \<Longrightarrow> answers ok a rid (handle_shutdown rid params a)"
  using shutdown_rendered [of rid]
  by (auto simp: handle_shutdown_def intro!: known_refusal answers_result ra_change.intros)

lemma answers_reconcile:
  "ra_initialized a \<Longrightarrow> \<not> ra_shutdown a \<Longrightarrow>
     answers (\<exists>ref. validate_session_ref_v1 docs (dget_none ''session_ref'' params) = Inr ref) a rid (handle_reconcile docs rid params a)"
  unfolding handle_reconcile_def Let_def
  by (auto intro!: known_refusal answers_step answers_result ra_change.intros valid_session_scope split: sum.split option.split)

lemma answers_deliver:
  "ra_initialized a \<Longrightarrow> \<not> ra_shutdown a \<Longrightarrow>
     answers (\<exists>ref. validate_session_ref_v1 docs (dget_none ''session_ref'' params) = Inr ref) a rid (handle_deliver docs rid params a)"
  unfolding handle_deliver_def Let_def
  by (auto intro!: known_refusal answers_step answers_result ra_change.intros valid_session_scope split: sum.split option.split)

lemma answers_mono: "answers ok a rid r \<Longrightarrow> (ok \<Longrightarrow> ok') \<Longrightarrow> answers ok' a rid r"
  by (auto elim!: answersE intro: answers.intros)

lemma answers_dispatch:
  assumes "is_request_id rid"
  shows "answers (request_may_raise docs a rid m params) a rid (dispatch docs rid m params a)"
  unfolding dispatch_def
  by (auto intro!: known_refusal answers_shutdown assms answers_mono [OF answers_initialize] answers_mono [OF answers_health]
        answers_mono [OF answers_reconcile] answers_mono [OF answers_deliver]
        simp: request_may_raise_def checked_document_def)

text \<open>The id a reply to a text may carry: none, or the usable id of the object it holds.\<close>

definition reply_to :: "pystr \<Rightarrow> pyval \<Rightarrow> bool" where
  "reply_to raw rid \<longleftrightarrow> rid = PNone \<or> (\<exists>d. load_strict_frame raw = Inr (PDict d) \<and> dget ''id'' d = Some rid \<and> is_request_id rid)"

definition silent :: "reference_adapter \<Rightarrow> handled \<Rightarrow> bool" where
  "silent a r \<longleftrightarrow> fst r = Inr NoReply \<and> (snd r = a \<or> snd r = a\<lparr>ra_terminal := True\<rparr>)"

text \<open>
  The texts the peer does not answer, the response and the notification it closes on, and the requests whose handling may raise.
\<close>

definition unanswered :: "pystr \<Rightarrow> bool" where
  "unanswered raw \<longleftrightarrow> (\<exists>d. load_strict_frame raw = Inr (PDict d) \<and>
     (has_key ''result'' d \<or> has_key ''error'' d \<or>
      keys_are [''jsonrpc'', ''method'', ''params''] d \<and> is_str (dget_none ''method'' d) \<and> is_dict (dget_none ''params'' d)))"

definition may_raise :: "schema \<Rightarrow> pystr \<Rightarrow> reference_adapter \<Rightarrow> bool" where
  "may_raise docs raw a \<longleftrightarrow> (\<exists>d rid m params. load_strict_frame raw = Inr (PDict d) \<and>
     keys_are [''jsonrpc'', ''id'', ''method'', ''params''] d \<and> dget_none ''id'' d = rid \<and> is_request_id rid \<and>
     dget_none ''method'' d = PStr m \<and> dget_none ''params'' d = PDict params \<and> request_may_raise docs a rid m params)"

lemma handle_object_answers:
  assumes d: "load_strict_frame raw = Inr (PDict d)"
  shows "if unanswered raw then silent a (handle_object docs d a)
    else \<exists>rid. reply_to raw rid \<and> answers (may_raise docs raw a) a rid (handle_object docs d a)"
proof -
  let ?rid = "dget_none ''id'' d" and ?m = "dget_none ''method'' d" and ?ps = "dget_none ''params'' d"
  have u: "unanswered raw \<longleftrightarrow> has_key ''result'' d \<or> has_key ''error'' d \<or>
      keys_are [''jsonrpc'', ''method'', ''params''] d \<and> is_str ?m \<and> is_dict ?ps"
    using d by (simp add: unanswered_def)
  have n: "reply_to raw PNone" by (simp add: reply_to_def)
  have i: "reply_to raw ?rid" if "has_key ''id'' d" "is_request_id ?rid"
    using that d by (auto simp: reply_to_def has_key_def dget_none_def)
  have no_id: "keys_are [''jsonrpc'', ''method'', ''params''] d \<Longrightarrow> \<not> has_key ''id'' d"
    by (simp add: keys_are_has_key)
  have go: "answers (may_raise docs raw a) a ?rid (dispatch docs ?rid (str_of ?m) (dict_of ?ps) a)"
    if t: "is_request_id ?rid" "keys_are [''jsonrpc'', ''id'', ''method'', ''params''] d" "is_str ?m" "is_dict ?ps"
  proof (rule answers_mono [OF answers_dispatch [OF t(1)]])
    obtain m ps where "?m = PStr m" "?ps = PDict ps" using t(3,4) by (cases ?m; cases ?ps) auto
    then show "request_may_raise docs a ?rid (str_of ?m) (dict_of ?ps) \<Longrightarrow> may_raise docs raw a"
      using t d unfolding may_raise_def by fastforce
  qed
  show ?thesis
  proof (cases "unanswered raw")
    case True
    then show ?thesis using no_id unfolding handle_object_def Let_def by (auto simp: silent_def u)
  next
    case False
    then have nu: "\<not> has_key ''result'' d" "\<not> has_key ''error'' d"
        "\<not> (keys_are [''jsonrpc'', ''method'', ''params''] d \<and> is_str ?m \<and> is_dict ?ps)" using u by auto
    show ?thesis
    proof (cases "has_key ''id'' d \<and> is_request_id ?rid")
      case True
      then have "answers (may_raise docs raw a) a ?rid (handle_object docs d a)"
        using nu go unfolding handle_object_def Let_def by (auto intro!: known_refusal)
      then show ?thesis using i True False by auto
    next
      case f: False
      have "answers (may_raise docs raw a) a PNone (handle_object docs d a)"
        using nu f unfolding handle_object_def Let_def by (auto intro!: known_refusal)
      then show ?thesis using n False by auto
    qed
  qed
qed

text \<open>Loading fails with an error the peer does not catch: an integer literal beyond the digit limit.\<close>

definition load_escapes :: "pystr \<Rightarrow> bool" where
  "load_escapes raw \<longleftrightarrow> load_strict_frame raw = Inl (ValueErr ''Exceeds the limit for integer string conversion'')"

lemma handle_text_cases:
  assumes "ra_fault a = None" and "\<not> ra_terminal a"
  obtains "unanswered raw" "silent a (handle_text docs raw a)"
  | rid where "\<not> unanswered raw" "\<not> load_escapes raw" "reply_to raw rid"
      "answers (may_raise docs raw a) a rid (handle_text docs raw a)"
  | "\<not> unanswered raw" "load_escapes raw"
      "handle_text docs raw a = (Inl (ValueErr ''Exceeds the limit for integer string conversion''), a)"
proof -
  have n: "reply_to raw PNone" by (simp add: reply_to_def)
  have f: "handle_text docs raw a = (case load_strict_frame raw of
       Inl (DuplicateMemberErr k) \<Rightarrow> refuse PNone ''PARSE_ERROR'' (a\<lparr>ra_terminal := True\<rparr>)
     | Inl RecursionErr \<Rightarrow> refuse PNone ''PARSE_ERROR'' (a\<lparr>ra_terminal := True\<rparr>)
     | Inl JSONDecodeErr \<Rightarrow> refuse PNone ''PARSE_ERROR'' (a\<lparr>ra_terminal := True\<rparr>)
     | Inl e \<Rightarrow> (Inl e, a)
     | Inr (PDict d) \<Rightarrow> handle_object docs d a
     | Inr v \<Rightarrow> refuse PNone ''INVALID_REQUEST'' (a\<lparr>ra_terminal := True\<rparr>))"
    using assms by (simp add: handle_text_def injected_output_def)
  show thesis
  proof (cases "load_strict_frame raw")
    case (Inl e)
    have "parse_error e" using loads_errors [of strict_opts raw] Inl by (simp add: load_strict_frame_def)
    moreover have nu: "\<not> unanswered raw" using Inl by (simp add: unanswered_def)
    ultimately consider "load_escapes raw" "e = ValueErr ''Exceeds the limit for integer string conversion''"
      | "\<not> load_escapes raw" "handle_text docs raw a = refuse PNone ''PARSE_ERROR'' (a\<lparr>ra_terminal := True\<rparr>)"
      using Inl by (cases e) (auto simp: f load_escapes_def)
    then show thesis
    proof cases
      case 1
      then show thesis using that(3) [OF nu] Inl by (simp add: f)
    next
      case 2
      show thesis by (rule that(2) [OF nu 2(1) n]) (simp add: 2(2) known_refusal)
    qed
  next
    case (Inr v)
    then have l: "\<not> load_escapes raw" by (simp add: load_escapes_def)
    show thesis
    proof (cases "is_dict v")
      case True
      then obtain d where d: "v = PDict d" by (cases v) auto
      have t: "handle_text docs raw a = handle_object docs d a" using f Inr d by simp
      show thesis
        using handle_object_answers [OF Inr [unfolded d], of a docs] that(1,2) l unfolding t
        by (cases "unanswered raw") auto
    next
      case False
      then have nu: "\<not> unanswered raw" using Inr by (auto simp: unanswered_def)
      have "handle_text docs raw a = refuse PNone ''INVALID_REQUEST'' (a\<lparr>ra_terminal := True\<rparr>)"
        using Inr False by (cases v) (auto simp: f)
      then show thesis using that(2) [OF nu l n] by (simp add: known_refusal)
    qed
  qed
qed

lemma handle_text_answers:
  assumes "ra_fault a = None"
  shows "silent a (handle_text docs raw a) \<or> (\<exists>rid. reply_to raw rid \<and> answers True a rid (handle_text docs raw a))"
proof (cases "ra_terminal a")
  case False
  have n: "reply_to raw PNone" by (simp add: reply_to_def)
  show ?thesis
    by (rule handle_text_cases [OF assms False, of raw docs])
      (use n in \<open>auto intro: answers_mono answers.raises ra_change.intros\<close>)
qed (simp add: handle_text_def silent_def)

lemma handle_text_change:
  assumes "ra_fault a = None" and "handle_text docs raw a = (out, a')"
  shows "ra_change a a'"
  using handle_text_answers [OF assms(1), of docs raw] assms(2)
  by (auto simp: silent_def elim!: answersE intro: ra_change.intros)

section \<open>The peer as a transition system\<close>

definition ra_step :: "schema \<Rightarrow> reference_adapter \<Rightarrow> reference_adapter \<Rightarrow> bool" where
  "ra_step docs a b \<longleftrightarrow> (\<exists>raw out. handle_text docs raw a = (out, b))"

definition ra_start :: "reference_adapter \<Rightarrow> bool" where
  "ra_start a \<longleftrightarrow> (\<exists>i. new_adapter i None = Inr a)"

definition ra_inv :: "reference_adapter \<Rightarrow> bool" where
  "ra_inv a \<longleftrightarrow> ra_fault a = None \<and> (ra_shutdown a \<longrightarrow> ra_initialized a) \<and>
     delivery_rows (ra_identity a) = Inr (ra_deliveries a) \<and> py_eq (ra_scope a) (ai_scope (ra_identity a))"

lemma ra_inv_start: "ra_start a \<Longrightarrow> ra_inv a"
proof -
  assume "ra_start a"
  then obtain j scope rows where j: "scope_dict (ai_scope j) = Inr scope" "delivery_rows j = Inr rows"
    and a: "a = \<lparr>ra_identity = j, ra_fault = None, ra_initialized = False, ra_terminal = False, ra_shutdown = False,
             ra_scope = PDict scope, ra_deliveries = rows\<rparr>"
    by (auto simp: ra_start_def new_adapter_def rbind_Inr_iff Let_def)
  have "ai_scope j = PDict scope" using j(1) by (cases "ai_scope j") (auto simp: scope_dict_def)
  then show ?thesis using j(2) by (simp add: a ra_inv_def py_eq_def del: py_same.simps)
qed

lemma delivery_rows_scope: "delivery_rows i = Inr rows \<Longrightarrow> py_eq (ai_scope i) (ai_scope i)"
  by (cases "ai_scope i") (auto simp: delivery_rows_def scope_dict_def py_eq_def simp del: py_same.simps)

lemma ra_inv_change: "ra_change a b \<Longrightarrow> ra_inv a \<Longrightarrow> ra_inv b"
  by (erule ra_changeE) (auto simp: ra_inv_def dest: delivery_rows_scope)

lemma ra_step_change: "ra_inv a \<Longrightarrow> ra_step docs a b \<Longrightarrow> ra_change a b"
  using handle_text_change by (auto simp: ra_step_def ra_inv_def)

interpretation reference: invariant_system ra_start "ra_step docs" ra_inv for docs
proof unfold_locales
  show "ra_inv a" if "ra_start a" for a using that by (rule ra_inv_start)
  show "ra_inv b" if "ra_inv a" "ra_step docs a b" for a b
    using ra_inv_change ra_step_change that by blast
qed

lemma refusal_loads:
  assumes "refusal_of rid out" and "reply_id rid"
  shows "\<exists>t frame. out = Inr (TextReply t) \<and> load_json_frame t = Inr (PDict frame) \<and> validate_response (PDict frame) rid = Inr frame"
proof -
  obtain name where n: "lit name \<in> fst ` set ERROR_CODES" "out = error_text rid name"
    using assms(1) unfolding refusal_of_def by blast
  then obtain c where c: "map_of ERROR_CODES (lit name) = Some c" by (metis map_of_eq_None_iff option.exhaust)
  obtain t frame where "error_response rid (lit name) = Inr t" "load_json_frame t = Inr (PDict frame)"
    "validate_response (PDict frame) rid = Inr frame"
    using error_response_parses [OF assms(2) str_ok_lit [of True name]] by blast
  then show ?thesis using n(2) c by (auto simp: error_text_def error_code_def error_response_def dumps_frame_def)
qed

text \<open>
  C14. One reply, to the right request. A peer without fault injection, in any state it can reach, is silent on exactly the texts
  that hold a response or a notification, and on every text once it has closed. To any other text it replies once, with a text that carries
  the usable id of the request or none: a refusal that names a catalogued error, which loads and validates as the response to that id, or
  a result, which only an initialized peer that is not shutting down gives. It raises only where an integer literal is beyond
  the digit limit, and then it always does and is unchanged, or on a request whose document has passed its validator (an endpoint for
  initialize, a session reference for reconcile and deliver), or when its health cannot be rendered.
\<close>

theorem reference_replies:
  assumes "ra_start a0" and "(ra_step docs)\<^sup>*\<^sup>* a0 a" and "handle_text docs raw a = (out, a')"
  shows "(out = Inr NoReply \<longleftrightarrow> ra_terminal a \<or> unanswered raw) \<and> (ra_terminal a \<longrightarrow> a' = a) \<and>
    (\<forall>e. out = Inl e \<longrightarrow> load_escapes raw \<and> a' = a \<or> may_raise docs raw a) \<and>
    (load_escapes raw \<and> \<not> ra_terminal a \<longrightarrow> out = Inl (ValueErr ''Exceeds the limit for integer string conversion'')) \<and>
    (\<forall>r. out = Inr r \<and> r \<noteq> NoReply \<longrightarrow> (\<exists>rid t. r = TextReply t \<and> reply_to raw rid \<and>
        (refusal_of rid out \<and> (reply_id rid \<longrightarrow> (\<exists>frame. load_json_frame t = Inr (PDict frame) \<and>
             validate_response (PDict frame) rid = Inr frame)) \<or>
         (\<exists>res. out = result_text rid res \<and> ra_initialized a' \<and> \<not> ra_shutdown a))))"
proof (cases "ra_terminal a")
  case True
  then show ?thesis using assms(3) by (auto simp: handle_text_def)
next
  case False
  have f: "ra_fault a = None" using reference.inv_reachable [OF assms(1,2)] by (simp add: ra_inv_def)
  show ?thesis
  proof (rule handle_text_cases [OF f False, of raw docs])
    assume "unanswered raw" "silent a (handle_text docs raw a)"
    then show ?thesis using False assms(3) by (auto simp: silent_def unanswered_def load_escapes_def)
  next
    fix rid assume r: "\<not> unanswered raw" "\<not> load_escapes raw" "reply_to raw rid"
      and h: "answers (may_raise docs raw a) a rid (handle_text docs raw a)"
    from h [unfolded assms(3)] show ?thesis
    proof cases
      case refuses
      then obtain name where "out = error_text rid name" "lit name \<in> fst ` set ERROR_CODES" by (auto simp: refusal_of_def)
      moreover have "rid = PNone \<or> is_request_id rid" using r(3) by (auto simp: reply_to_def)
      ultimately obtain t where t: "out = Inr (TextReply t)" using error_text_rendered by metis
      show ?thesis using refuses r t False refusal_loads [OF refuses(1)] by auto
    next
      case (gives res t)
      then have "reply_to raw rid \<and> (\<exists>res. out = result_text rid res \<and> ra_initialized a' \<and> \<not> ra_shutdown a)"
        using r(3) by metis
      then show ?thesis using gives(1) r(1,2) False by auto
    qed (use r False in auto)
  next
    assume "\<not> unanswered raw" "load_escapes raw"
      "handle_text docs raw a = (Inl (ValueErr ''Exceeds the limit for integer string conversion''), a)"
    then show ?thesis using assms(3) False by auto
  qed
qed

section \<open>Initialized once, shut down once\<close>

lemma ra_change_initialized:
  "ra_change a b \<Longrightarrow> ra_initialized a \<Longrightarrow>
     ra_initialized b \<and> ra_identity b = ra_identity a \<and> ra_deliveries b = ra_deliveries a \<and> (ra_shutdown a \<longrightarrow> ra_shutdown b) \<and>
     (ra_shutdown a \<longrightarrow> ra_scope b = ra_scope a)"
  by (erule ra_changeE) auto

text \<open>
  C15. The identity is agreed once: after initialization no sequence of texts changes the identity or the table of known deliveries,
  and the scope the peer reports is always equal to the identity's, whatever session references named.
\<close>

theorem initialized_once:
  assumes "ra_start a0" and "(ra_step docs)\<^sup>*\<^sup>* a0 a" and "ra_initialized a" and "(ra_step docs)\<^sup>*\<^sup>* a b"
  shows "ra_initialized b \<and> ra_identity b = ra_identity a \<and> ra_deliveries b = ra_deliveries a \<and>
    py_eq (ra_scope b) (ai_scope (ra_identity a))"
proof -
  have i: "ra_inv a" using reference.inv_reachable [OF assms(1,2)] .
  let ?P = "\<lambda>t. ra_initialized t \<and> ra_identity t = ra_identity a \<and> ra_deliveries t = ra_deliveries a"
  have "?P b"
  proof (rule reference.stable_run [where P = ?P, OF _ assms(4) i])
    show "?P t" if "ra_inv s" "ra_step docs s t" "?P s" for s t
      using ra_change_initialized [OF ra_step_change [OF that(1,2)]] that(3) by simp
  qed (simp add: assms(3))
  moreover have "ra_inv b" by (rule reference.inv_run [OF assms(4) i])
  ultimately show ?thesis by (simp add: ra_inv_def)
qed

text \<open>
  Shutdown is final: once the peer has accepted a shutdown it stays initialized, shutting down and with the same identity and
  scope, and whatever text arrives, however much later, it answers with nothing, with a refusal, or raises; never with a result.
\<close>

theorem shutdown_is_final:
  assumes "ra_start a0" and "(ra_step docs)\<^sup>*\<^sup>* a0 a" and "ra_shutdown a" and "(ra_step docs)\<^sup>*\<^sup>* a b"
    and "handle_text docs raw b = (out, b')"
  shows "ra_shutdown b' \<and> ra_identity b' = ra_identity a \<and> ra_scope b' = ra_scope a \<and>
    (out = Inr NoReply \<or> (\<exists>rid. reply_to raw rid \<and> refusal_of rid out) \<or> (\<exists>e. out = Inl e))"
proof -
  have i: "ra_inv a" using reference.inv_reachable [OF assms(1,2)] .
  have init: "ra_initialized a" using i assms(3) by (simp add: ra_inv_def)
  let ?P = "\<lambda>t. ra_initialized t \<and> ra_shutdown t \<and> ra_identity t = ra_identity a \<and> ra_scope t = ra_scope a"
  have P: "?P t" if "ra_inv s" "ra_step docs s t" "?P s" for s t
    using ra_change_initialized [OF ra_step_change [OF that(1,2)]] that(3) by simp
  have b: "?P b" by (rule reference.stable_run [where P = ?P, OF _ assms(4) i]) (use P init assms(3) in auto)
  have ib: "ra_inv b" by (rule reference.inv_run [OF assms(4) i])
  have "?P b'" by (rule P [OF ib _ b]) (use assms(5) in \<open>auto simp: ra_step_def\<close>)
  moreover have "out = Inr NoReply \<or> (\<exists>rid. reply_to raw rid \<and> refusal_of rid out) \<or> (\<exists>e. out = Inl e)"
    using handle_text_answers [of b docs raw] ib b assms(5)
    by (auto simp: ra_inv_def silent_def elim!: answersE)
  ultimately show ?thesis by blast
qed

end
