(* ===== verification/ReferenceDemo.thy ===== *)
theory ReferenceDemo
  imports ReferenceProps
begin

text \<open>
  The reference peer's contract at concrete inputs: the default peer, a validator that accepts every document, and the frames that
  initialize it, ask for its health and shut it down.
\<close>

section \<open>Requests as texts\<close>

text \<open>The text of a request with id 1 reaches the dispatcher with its method and the parameters as they parse.\<close>

lemma request_text:
  assumes "dumpable (PDict ps)" and "nesting (PDict ps) < json_levels" and "json_ok True (PDict ps)" and "str_ok True m"
  obtains raw where "\<And>docs a. ra_fault a = None \<Longrightarrow> \<not> ra_terminal a \<Longrightarrow>
     handle_text docs raw a = dispatch docs (PInt 1) m (dict_of (json_norm (PDict ps))) a"
proof -
  let ?its = "[(''id'', PInt 1), (''jsonrpc'', sv ''2.0''), (''method'', PStr m), (''params'', PDict ps)]"
  let ?top = "map (\<lambda>kv. (sv (fst kv), snd kv)) ?its"
  obtain d where d: "json_norm (PDict ?top) = PDict d" "\<And>f. dget f d = map_option json_norm (map_of ?its f)"
    "\<And>fs. keys_are fs d \<longleftrightarrow> list_all (\<lambda>f. f \<in> set (map fst ?its)) fs \<and> list_all (\<lambda>f. f \<in> set fs) (map fst ?its)"
    by (rule closed_dict_parses [OF refl, of ?its]) auto
  have "dumpable (PDict ?top)" "nesting (PDict ?top) \<le> json_levels" and ok: "json_ok True (PDict ?top)"
    using small_int_text [of 1] assms by (simp_all del: dumpable.simps(5) json_ok.simps(9) nesting.simps(3) add: nesting.simps(3) [of "_ # _"] dumpable.simps(5) [of "_ # _"] json_ok.simps(9) [of _ "_ # _"])
  then obtain raw where "dumps True (PDict ?top) = Inr raw" using dumps_total [of True "PDict ?top"] by blast
  then have l: "load_strict_frame raw = Inr (PDict d)" using loads_dumps [OF _ ok, of raw strict_opts] d(1) by (simp add: load_strict_frame_def)
  obtain ps' where ps: "json_norm (PDict ps) = PDict ps'" by (cases "str_items ps") auto
  have k: "keys_are [''jsonrpc'', ''id'', ''method'', ''params''] d" unfolding d(3) by simp
  have "handle_text docs raw a = dispatch docs (PInt 1) m (dict_of (json_norm (PDict ps))) a"
    if "ra_fault a = None" "\<not> ra_terminal a" for docs a
    using that l k ps
    by (simp add: handle_text_def injected_output_def handle_object_def dget_none_def has_key_def d(2) is_request_id_def
        str_of_def dict_of_def del: json_norm.simps(3))
  then show thesis by (rule that)
qed

text \<open>Values without tuples equal what they read back as.\<close>

fun tuple_free :: "pyval \<Rightarrow> bool" where
  "tuple_free (PTuple xs) = False"
| "tuple_free (PList xs) = (\<forall>x \<in> set xs. tuple_free x)"
| "tuple_free (PDict d) = (\<forall>kv \<in> set d. tuple_free (snd kv))"
| "tuple_free v = True"

lemma norm_same: "tuple_free v \<Longrightarrow> py_same (json_norm v) v"
proof (induction v rule: json_norm.induct)
  case (1 xs)
  then show ?case by (auto simp: list_all_iff set_zip)
next
  case (3 d)
  show ?case
  proof (cases "str_items d")
    case (Some kvs)
    have d: "d = map (\<lambda>(k, v). (PStr k, v)) kvs" using Some by (rule str_items_map)
    have s: "py_same (json_norm v) v" if "(k, v) \<in> set kvs" for k v
      using 3 Some that str_items_mem [OF Some that] by fastforce
    have "\<exists>kv' \<in> set d. py_key (PStr k) = py_key (fst kv') \<and> py_same (json_norm v) (snd kv')" if "(k, v) \<in> set kvs" for k v
      using str_items_mem [OF Some that] s [OF that] by force
    moreover have "length d = length kvs" by (simp add: d)
    ultimately have "py_same (PDict (map (\<lambda>kv. (PStr (fst kv), json_norm (snd kv))) (sort_key fst kvs))) (PDict d)"
      by (simp only: py_same.simps pyval.case list_all_iff list_ex_iff) auto
    then show ?thesis using Some by (simp del: py_same.simps)
  qed simp
qed simp_all

section \<open>The default peer, initialized and shut down\<close>

definition demo_peer :: reference_adapter where
  "demo_peer = \<lparr>ra_identity = default_identity, ra_fault = None, ra_initialized = False, ra_terminal = False, ra_shutdown = False,
     ra_scope = PDict workspace_scope,
     ra_deliveries = (case delivery_rows default_identity of Inl _ \<Rightarrow> [] | Inr rows \<Rightarrow> rows)\<rparr>"

definition demo_endpoint :: pydict where
  "demo_endpoint = (case endpoint_doc default_identity of Inl _ \<Rightarrow> [] | Inr d \<Rightarrow> d)"

definition demo_params :: pydict where
  "demo_params = [(sv ''requested_protocol_version'', sv NEGOTIATED_PROTOCOL_VERSION), (sv ''adapter_id'', sv ''adapter_alpha''),
     (sv ''adapter_revision'', sv ''adapter_rev1''), (sv ''manifest_id'', sv ''manifest_alpha''),
     (sv ''manifest_revision'', sv ''manifest_rev1''), (sv ''endpoint'', PDict demo_endpoint)]"

lemma demo_start: "ra_start demo_peer"
  unfolding ra_start_def
  by (rule exI [of _ None])
    (simp add: new_adapter_def demo_peer_def default_identity_def workspace_scope_def delivery_rows_def scope_dict_def Let_def)

lemma demo_endpoint_ok:
  "endpoint_doc default_identity = Inr demo_endpoint" "dumpable (PDict demo_endpoint)" "json_ok True (PDict demo_endpoint)"
  "tuple_free (PDict demo_endpoint)" "dget ''scope'' demo_endpoint = Some (PDict workspace_scope)"
  "nesting (PDict demo_endpoint) = 2" "map fst demo_endpoint = map sv [''schema_version'', ''workspace_id'', ''scope'', ''endpoint_id'', ''agent_id'',
     ''adapter_name'', ''adapter_revision'', ''trust_class'', ''capability_set_id'', ''platform'', ''configuration_ref'']"
  using small_int_text [of 1]
  by (simp_all add: demo_endpoint_def endpoint_doc_def default_identity_def workspace_scope_def scope_dict_def)

lemma demo_peer_initialized: "\<exists>raw. \<exists>out. handle_text (\<lambda>_ _. True) raw demo_peer = (out, demo_peer\<lparr>ra_initialized := True\<rparr>)"
proof -
  have "dumpable (PDict demo_params)" "nesting (PDict demo_params) < json_levels" "json_ok True (PDict demo_params)"
    using demo_endpoint_ok(2,3,6) by (simp_all add: json_levels_def demo_params_def nesting.simps(3) [of "_ # _"] dumpable.simps(5) [of "_ # _"] json_ok.simps(9) [of _ "_ # _"] del: dumpable.simps(5) json_ok.simps(9) nesting.simps(3))
  then obtain raw where raw: "\<And>docs a. ra_fault a = None \<Longrightarrow> \<not> ra_terminal a \<Longrightarrow>
     handle_text docs raw a = dispatch docs (PInt 1) METHOD_INITIALIZE (dict_of (json_norm (PDict demo_params))) a"
    by (rule request_text [where m = METHOD_INITIALIZE]) auto
  let ?its = "[(''requested_protocol_version'', sv NEGOTIATED_PROTOCOL_VERSION), (''adapter_id'', sv ''adapter_alpha''),
     (''adapter_revision'', sv ''adapter_rev1''), (''manifest_id'', sv ''manifest_alpha''),
     (''manifest_revision'', sv ''manifest_rev1''), (''endpoint'', PDict demo_endpoint)]"
  obtain ps where ps: "json_norm (PDict demo_params) = PDict ps" "\<And>f. dget f ps = map_option json_norm (map_of ?its f)"
    "\<And>fs. keys_are fs ps \<longleftrightarrow> list_all (\<lambda>f. f \<in> set (map fst ?its)) fs \<and> list_all (\<lambda>f. f \<in> set fs) (map fst ?its)"
    by (rule closed_dict_parses [of demo_params ?its]) (auto simp: demo_params_def)
  obtain e where e: "json_norm (PDict demo_endpoint) = PDict e" by (cases "str_items demo_endpoint") auto
  have same: "py_eq (PDict e) (PDict demo_endpoint)"
    using norm_same [OF demo_endpoint_ok(4)] e by (simp add: py_eq_def del: py_same.simps json_norm.simps)
  have scope: "dsub ''scope'' e = Inr (PDict workspace_scope)"
  proof -
    obtain kvs where k: "str_items demo_endpoint = Some kvs" "distinct (map fst kvs)"
      using demo_endpoint_ok(3) by (cases "str_items demo_endpoint") auto
    have "dget ''scope'' e = map_option json_norm (dget ''scope'' demo_endpoint)"
      by (rule json_norm_dict [OF k]) (use e in auto)
    then show ?thesis by (simp add: demo_endpoint_ok(5) dsub_def workspace_scope_def)
  qed
  obtain rows where "delivery_rows default_identity = Inr rows"
    by (simp add: delivery_rows_def default_identity_def scope_dict_def)
  moreover have "default_identity\<lparr>ai_scope := PDict workspace_scope\<rparr> = default_identity"
    "ai_adapter_id default_identity = lit ''adapter_alpha''" "ai_adapter_revision default_identity = lit ''adapter_rev1''"
    "ai_manifest_id default_identity = lit ''manifest_alpha''" "ai_manifest_revision default_identity = lit ''manifest_rev1''"
    by (simp_all add: default_identity_def)
  ultimately have "\<exists>out. dispatch (\<lambda>_ _. True) (PInt 1) METHOD_INITIALIZE ps demo_peer = (out, demo_peer\<lparr>ra_initialized := True\<rparr>)"
    using scope same ps(3) demo_endpoint_ok(1)
    by (simp add: dispatch_def demo_peer_def handle_initialize_def ps(2) dget_none_def validate_endpoint_v1_def validate_document_def
        closed_schema_mapping_def e step_then_def Let_def split: sum.split del: json_norm.simps(3))
  moreover have "handle_text (\<lambda>_ _. True) raw demo_peer = dispatch (\<lambda>_ _. True) (PInt 1) METHOD_INITIALIZE ps demo_peer"
    using raw [of demo_peer "\<lambda>_ _. True"] by (simp only: ps(1) dict_of_def pyval.case) (simp add: demo_peer_def)
  ultimately show ?thesis by metis
qed

lemma demo_shut_down:
  "\<exists>raw out. handle_text (\<lambda>_ _. True) raw (demo_peer\<lparr>ra_initialized := True\<rparr>) = (out, demo_peer\<lparr>ra_initialized := True, ra_shutdown := True\<rparr>)"
proof -
  obtain raw where raw: "\<And>docs a. ra_fault a = None \<Longrightarrow> \<not> ra_terminal a \<Longrightarrow>
     handle_text docs raw a = dispatch docs (PInt 1) METHOD_SHUTDOWN (dict_of (json_norm (PDict []))) a"
    by (rule request_text [of "[]" METHOD_SHUTDOWN]) (auto simp: METHOD_SHUTDOWN_def json_levels_def)
  show ?thesis
    by (intro exI [of _ raw], subst raw)
      (auto simp: demo_peer_def dispatch_def handle_shutdown_def dict_of_def METHOD_SHUTDOWN_def METHOD_HEALTH_def METHOD_RECONCILE_def
        METHOD_DELIVER_def)
qed

lemma demo_runs:
  "(ra_step (\<lambda>_ _. True))\<^sup>*\<^sup>* demo_peer (demo_peer\<lparr>ra_initialized := True\<rparr>)"
  "(ra_step (\<lambda>_ _. True))\<^sup>*\<^sup>* demo_peer (demo_peer\<lparr>ra_initialized := True, ra_shutdown := True\<rparr>)"
proof -
  have a: "ra_step (\<lambda>_ _. True) demo_peer (demo_peer\<lparr>ra_initialized := True\<rparr>)"
    using demo_peer_initialized by (auto simp: ra_step_def)
  have b: "ra_step (\<lambda>_ _. True) (demo_peer\<lparr>ra_initialized := True\<rparr>) (demo_peer\<lparr>ra_initialized := True, ra_shutdown := True\<rparr>)"
    using demo_shut_down by (auto simp: ra_step_def)
  show "(ra_step (\<lambda>_ _. True))\<^sup>*\<^sup>* demo_peer (demo_peer\<lparr>ra_initialized := True\<rparr>)" using a by blast
  then show "(ra_step (\<lambda>_ _. True))\<^sup>*\<^sup>* demo_peer (demo_peer\<lparr>ra_initialized := True, ra_shutdown := True\<rparr>)"
    using b by (rule rtranclp.rtrancl_into_rtrancl)
qed

lemma demo_empty_text:
  assumes "ra_fault a = None" and "\<not> ra_terminal a"
  shows "handle_text docs [] a = (error_text PNone ''PARSE_ERROR'', a\<lparr>ra_terminal := True\<rparr>)"
    and "\<exists>t. error_text PNone ''PARSE_ERROR'' = Inr (TextReply t)"
proof -
  show "handle_text docs [] a = (error_text PNone ''PARSE_ERROR'', a\<lparr>ra_terminal := True\<rparr>)"
    using assms by (simp add: handle_text_def injected_output_def load_strict_frame_def loads_def refuse_def)
  have "refusal_of PNone (error_text PNone ''PARSE_ERROR'')" by (auto simp: refusal_of_def ERROR_CODES_def)
  then show "\<exists>t. error_text PNone ''PARSE_ERROR'' = Inr (TextReply t)"
    using refusal_loads [of PNone "error_text PNone ''PARSE_ERROR''"] by (auto simp: reply_id_def)
qed

theorem reference_replies_witness:
  "\<exists>t frame. handle_text (\<lambda>_ _. True) [] demo_peer = (Inr (TextReply t), demo_peer\<lparr>ra_terminal := True\<rparr>) \<and>
     load_json_frame t = Inr (PDict frame) \<and> validate_response (PDict frame) PNone = Inr frame"
proof -
  have p: "ra_fault demo_peer = None" "\<not> ra_terminal demo_peer" by (simp_all add: demo_peer_def)
  obtain t where t: "error_text PNone ''PARSE_ERROR'' = Inr (TextReply t)" using demo_empty_text(2) [OF p] by blast
  have h: "handle_text (\<lambda>_ _. True) [] demo_peer = (Inr (TextReply t), demo_peer\<lparr>ra_terminal := True\<rparr>)"
    using demo_empty_text(1) [OF p] t by simp
  have n: "reply_to [] rid \<Longrightarrow> rid = PNone" for rid by (auto simp: reply_to_def load_strict_frame_def loads_def)
  have "reply_id PNone" by (simp add: reply_id_def)
  then show ?thesis
    using reference_replies [OF demo_start rtranclp.rtrancl_refl h] h by (auto dest!: n simp: demo_peer_def)
qed

theorem initialized_once_witness:
  "\<exists>b. (ra_step (\<lambda>_ _. True))\<^sup>*\<^sup>* (demo_peer\<lparr>ra_initialized := True\<rparr>) b \<and> ra_shutdown b \<and> ra_identity b = default_identity"
proof -
  let ?a = "demo_peer\<lparr>ra_initialized := True\<rparr>" and ?b = "demo_peer\<lparr>ra_initialized := True, ra_shutdown := True\<rparr>"
  have r: "(ra_step (\<lambda>_ _. True))\<^sup>*\<^sup>* ?a ?b"
    using demo_shut_down by (intro r_into_rtranclp) (auto simp: ra_step_def)
  moreover have "ra_identity ?b = ra_identity ?a" using initialized_once [OF demo_start demo_runs(1) _ r] by simp
  ultimately show ?thesis by (intro exI [of _ ?b]) (simp add: demo_peer_def)
qed

theorem shutdown_is_final_witness:
  "\<exists>b t b'. (ra_step (\<lambda>_ _. True))\<^sup>*\<^sup>* demo_peer b \<and> ra_shutdown b \<and>
     handle_text (\<lambda>_ _. True) [] b = (Inr (TextReply t), b') \<and> ra_shutdown b' \<and> refusal_of PNone (Inr (TextReply t))"
proof -
  let ?b = "demo_peer\<lparr>ra_initialized := True, ra_shutdown := True\<rparr>"
  have p: "ra_fault ?b = None" "\<not> ra_terminal ?b" by (simp_all add: demo_peer_def)
  obtain t where t: "error_text PNone ''PARSE_ERROR'' = Inr (TextReply t)" using demo_empty_text(2) [OF p] by blast
  have h: "handle_text (\<lambda>_ _. True) [] ?b = (Inr (TextReply t), ?b\<lparr>ra_terminal := True\<rparr>)"
    using demo_empty_text(1) [OF p] t by simp
  have n: "reply_to [] rid \<Longrightarrow> rid = PNone" for rid by (auto simp: reply_to_def load_strict_frame_def loads_def)
  have "ra_shutdown (?b\<lparr>ra_terminal := True\<rparr>) \<and> refusal_of PNone (Inr (TextReply t))"
    using shutdown_is_final [OF demo_start demo_runs(2) _ rtranclp.rtrancl_refl h] by (auto dest!: n)
  then show ?thesis using demo_runs(2) h by (intro exI [of _ ?b]) auto
qed

end
