(* ===== verification/Manifest.thy ===== *)
theory Manifest
  imports Conformance
begin

text \<open>
  Trusted manifests: \<open>llm_collab/runtime_adapter_manifest.py\<close>. A registry is the dictionary of reviewed records it was
  built from; resolving one adapter id yields the execution facts of its record, and the identity an initialized
  adapter declares is checked against them.
\<close>

section \<open>Definitions\<close>

definition MANIFEST_FIELDS :: "string list" where
  "MANIFEST_FIELDS = [''adapter_id'', ''adapter_revision'', ''manifest_id'', ''manifest_revision'', ''endpoint'', ''executable'', ''argv'',
     ''working_directory'', ''environment'', ''environment_allowlist'']"

record resolved_adapter =
  rv_adapter_id :: pystr
  rv_adapter_revision :: pystr
  rv_manifest_id :: pystr
  rv_manifest_revision :: pystr
  rv_endpoint :: pydict
  rv_executable :: pystr
  rv_argv :: "pystr list"
  rv_working_directory :: pystr
  rv_environment :: pydict

definition reject_manifest :: "string \<Rightarrow> pyerr + 'a" where
  "reject_manifest msg = Inl (ManifestResolutionErr msg)"

definition new_manifest_registry :: "pyval \<Rightarrow> pyerr + pydict" where
  "new_manifest_registry v =
     (if is_dict v then Inr (dict_of v) else reject_manifest ''manifest registry must be a mapping'')"

definition nonempty_text :: "pyval \<Rightarrow> bool" where
  "nonempty_text v \<longleftrightarrow> is_str v \<and> truthy v"

definition manifest_string :: "pyval \<Rightarrow> string \<Rightarrow> pyerr + pystr" where
  "manifest_string v name =
     (if nonempty_text v then Inr (str_of v) else reject_manifest (name @ '' must be a non-empty string''))"

fun seq_items :: "pyval \<Rightarrow> pyval list option" where
  "seq_items (PList xs) = Some xs"
| "seq_items (PTuple xs) = Some xs"
| "seq_items _ = None"

definition string_tuple :: "pyval \<Rightarrow> string \<Rightarrow> pyerr + pystr list" where
  "string_tuple v name =
     (case seq_items v of
        None \<Rightarrow> reject_manifest (name @ '' must be a non-empty sequence'')
      | Some xs \<Rightarrow>
          if xs = [] then reject_manifest (name @ '' must be a non-empty sequence'')
          else if \<not> list_all nonempty_text xs then reject_manifest (name @ '' entries must be non-empty strings'')
          else Inr (map str_of xs))"

definition string_mapping :: "pyval \<Rightarrow> string \<Rightarrow> pyerr + pydict" where
  "string_mapping v name =
     (if \<not> is_dict v then reject_manifest (name @ '' must be a mapping'')
      else if \<not> list_all (\<lambda>kv. nonempty_text (fst kv) \<and> is_str (snd kv)) (dict_of v)
      then reject_manifest (name @ '' entries must be string:string'')
      else Inr (dict_of v))"

definition manifest_record :: "pystr \<Rightarrow> pydict \<Rightarrow> pyerr + pydict" where
  "manifest_record key manifests =
     (case map_of manifests (PStr key) of
        None \<Rightarrow> reject_manifest ''adapter_id is not in the trusted manifest registry''
      | Some m \<Rightarrow> if is_dict m then Inr (dict_of m) else reject_manifest ''manifest record must be a mapping'')"

definition identity_matches :: "pystr \<Rightarrow> pystr \<Rightarrow> pystr \<Rightarrow> pystr \<Rightarrow> pystr \<Rightarrow> pydict \<Rightarrow> pydict \<Rightarrow> bool" where
  "identity_matches trusted_key adapter_id adapter_revision manifest_id manifest_revision endpoint manifest \<longleftrightarrow>
     adapter_id = trusted_key \<and>
     py_eq (PStr adapter_id) (dget_none ''adapter_name'' endpoint) \<and>
     py_eq (PStr adapter_revision) (dget_none ''adapter_revision'' endpoint) \<and>
     py_eq (PStr manifest_id) (dget_none ''manifest_id'' manifest) \<and>
     py_eq (PStr manifest_revision) (dget_none ''manifest_revision'' manifest)"

definition require_identity :: "pystr \<Rightarrow> pystr \<Rightarrow> pystr \<Rightarrow> pystr \<Rightarrow> pystr \<Rightarrow> pydict \<Rightarrow> pydict \<Rightarrow> pyerr + unit" where
  "require_identity trusted_key adapter_id adapter_revision manifest_id manifest_revision endpoint manifest =
     (if identity_matches trusted_key adapter_id adapter_revision manifest_id manifest_revision endpoint manifest then Inr ()
      else reject_manifest ''adapter, endpoint, and manifest identities must match exactly'')"

text \<open>The facts of one record under its key, checked in the code's order.\<close>

definition manifest_facts :: "pystr \<Rightarrow> pydict \<Rightarrow> pyerr + resolved_adapter" where
  "manifest_facts key m =
     (if \<not> keys_within MANIFEST_FIELDS m then reject_manifest ''manifest record contains fields outside the trusted schema''
      else if \<not> is_dict (dget_none ''endpoint'' m) then reject_manifest ''endpoint must be a mapping''
      else
        let endpoint = dict_of (dget_none ''endpoint'' m) in
        rbind (manifest_string (dget_none ''adapter_id'' m) ''adapter_id'') (\<lambda>adapter_id.
        rbind (manifest_string (dget_none ''adapter_revision'' m) ''adapter_revision'') (\<lambda>adapter_revision.
        rbind (manifest_string (dget_none ''manifest_id'' m) ''manifest_id'') (\<lambda>manifest_id.
        rbind (manifest_string (dget_none ''manifest_revision'' m) ''manifest_revision'') (\<lambda>manifest_revision.
        rbind (manifest_string (dget_none ''executable'' m) ''executable'') (\<lambda>executable.
        rbind (string_tuple (dget_none ''argv'' m) ''argv'') (\<lambda>argv.
        rbind (manifest_string (dget_none ''working_directory'' m) ''working_directory'') (\<lambda>working_directory.
        rbind (string_mapping (case dget ''environment'' m of None \<Rightarrow> PDict [] | Some e \<Rightarrow> e) ''environment'') (\<lambda>environment.
        rbind (string_tuple (dget_none ''environment_allowlist'' m) ''environment_allowlist'') (\<lambda>allowlist.
        if \<not> list_all (\<lambda>kv. str_of (fst kv) \<in> set allowlist) environment
        then reject_manifest ''environment contains keys outside the manifest allowlist''
        else
          rbind (require_identity key adapter_id adapter_revision manifest_id manifest_revision endpoint m) (\<lambda>_.
          Inr \<lparr>rv_adapter_id = adapter_id, rv_adapter_revision = adapter_revision, rv_manifest_id = manifest_id,
               rv_manifest_revision = manifest_revision, rv_endpoint = endpoint, rv_executable = executable, rv_argv = argv,
               rv_working_directory = working_directory, rv_environment = environment\<rparr>)))))))))))"

definition resolve_adapter_manifest :: "pyval \<Rightarrow> pydict \<Rightarrow> pyerr + resolved_adapter" where
  "resolve_adapter_manifest v manifests =
     rbind (manifest_string v ''adapter_id'') (\<lambda>key. rbind (manifest_record key manifests) (\<lambda>m. manifest_facts key m))"

definition resolve :: "pyval \<Rightarrow> pydict \<Rightarrow> pyerr + resolved_adapter" where
  "resolve v registry = resolve_adapter_manifest v registry"

definition validate_initialized_identity :: "resolved_adapter \<Rightarrow> pyval \<Rightarrow> pyerr + unit" where
  "validate_initialized_identity resolved v =
     (if \<not> is_dict v then reject_manifest ''initialized identity must be a mapping''
      else
        let d = dict_of v; endpoint = dget_none ''endpoint'' d in
        if \<not> is_dict endpoint then reject_manifest ''initialized endpoint must be a mapping''
        else
          rbind (manifest_string (dget_none ''adapter_id'' d) ''adapter_id'') (\<lambda>adapter_id.
          rbind (manifest_string (dget_none ''adapter_revision'' d) ''adapter_revision'') (\<lambda>adapter_revision.
          rbind (manifest_string (dget_none ''manifest_id'' d) ''manifest_id'') (\<lambda>manifest_id.
          rbind (manifest_string (dget_none ''manifest_revision'' d) ''manifest_revision'') (\<lambda>manifest_revision.
          require_identity (rv_adapter_id resolved) adapter_id adapter_revision manifest_id manifest_revision (dict_of endpoint)
            [(sv ''manifest_id'', PStr (rv_manifest_id resolved)), (sv ''manifest_revision'', PStr (rv_manifest_revision resolved))])))))"

section \<open>What resolving accepts\<close>

lemma nonempty_text_iff [simp]: "nonempty_text v \<longleftrightarrow> (\<exists>s. v = PStr s \<and> s \<noteq> [])"
  by (cases v) (auto simp: nonempty_text_def)

lemma reject_manifest_simps [simp]: "reject_manifest m \<noteq> Inr x" "reject_manifest m = Inl e \<longleftrightarrow> e = ManifestResolutionErr m"
  by (auto simp: reject_manifest_def)

lemma manifest_string_iff: "manifest_string v n = Inr s \<longleftrightarrow> v = PStr s \<and> s \<noteq> []"
  by (auto simp: manifest_string_def str_of_def)

lemma nonempty_texts: "list_all nonempty_text xs \<longleftrightarrow> (\<exists>ss. xs = map PStr ss \<and> [] \<notin> set ss)"
proof
  assume "list_all nonempty_text xs"
  then show "\<exists>ss. xs = map PStr ss \<and> [] \<notin> set ss"
    by (intro exI [of _ "map str_of xs"]) (induction xs; auto simp: str_of_def)
qed (auto simp: list_all_iff)

text \<open>A sequence of these non-empty texts; an environment of non-empty names and texts.\<close>

definition holds_texts :: "pyval \<Rightarrow> pystr list \<Rightarrow> bool" where
  "holds_texts v ss \<longleftrightarrow> v \<in> {PList (map PStr ss), PTuple (map PStr ss)} \<and> ss \<noteq> [] \<and> [] \<notin> set ss"

definition text_pairs :: "pydict \<Rightarrow> bool" where
  "text_pairs e \<longleftrightarrow> (\<forall>kv \<in> set e. \<exists>k t. kv = (PStr k, PStr t) \<and> k \<noteq> [])"

lemma string_tuple_iff: "string_tuple v n = Inr ss \<longleftrightarrow> holds_texts v ss"
proof -
  have m: "map str_of (map PStr us) = us" for us by (induction us) (auto simp: str_of_def)
  have s: "string_tuple v n = Inr ss \<longleftrightarrow> (\<exists>xs. seq_items v = Some xs \<and> xs \<noteq> [] \<and> xs = map PStr ss \<and> [] \<notin> set ss)"
    using m [of ss] m by (auto simp: string_tuple_def nonempty_texts split: option.splits)
  show ?thesis unfolding s holds_texts_def by (cases v) auto
qed

lemma string_mapping_iff: "string_mapping v n = Inr e \<longleftrightarrow> v = PDict e \<and> text_pairs e"
proof -
  have "nonempty_text (fst kv) \<and> is_str (snd kv) \<longleftrightarrow> (\<exists>k t. kv = (PStr k, PStr t) \<and> k \<noteq> [])" for kv
    by (cases kv; cases "snd kv") auto
  then show ?thesis by (cases v) (auto simp: string_mapping_def dict_of_def list_all_iff text_pairs_def)
qed

text \<open>The declarative contract of a reviewed record: what its fields are, and which execution facts they stand for.\<close>

definition trusted_manifest :: "pystr \<Rightarrow> pydict \<Rightarrow> resolved_adapter \<Rightarrow> bool" where
  "trusted_manifest key m r \<longleftrightarrow>
     keys_within MANIFEST_FIELDS m \<and>
     (\<forall>(f, s) \<in> {(''adapter_id'', rv_adapter_id r), (''adapter_revision'', rv_adapter_revision r), (''manifest_id'', rv_manifest_id r),
        (''manifest_revision'', rv_manifest_revision r), (''executable'', rv_executable r), (''working_directory'', rv_working_directory r)}.
        dget f m = Some (PStr s) \<and> s \<noteq> []) \<and>
     rv_adapter_id r = key \<and>
     dget ''endpoint'' m = Some (PDict (rv_endpoint r)) \<and>
     dget ''adapter_name'' (rv_endpoint r) = Some (PStr key) \<and>
     dget ''adapter_revision'' (rv_endpoint r) = Some (PStr (rv_adapter_revision r)) \<and>
     holds_texts (dget_none ''argv'' m) (rv_argv r) \<and> text_pairs (rv_environment r) \<and>
     (dget ''environment'' m = Some (PDict (rv_environment r)) \<or> dget ''environment'' m = None \<and> rv_environment r = []) \<and>
     (\<exists>allowed. holds_texts (dget_none ''environment_allowlist'' m) allowed \<and>
        (\<forall>kv \<in> set (rv_environment r). str_of (fst kv) \<in> set allowed))"

lemma dget_none_shapes:
  "dget_none f d = PStr s \<longleftrightarrow> dget f d = Some (PStr s)" "dget_none f d = PDict e \<longleftrightarrow> dget f d = Some (PDict e)"
  "dget_none f d = PList xs \<longleftrightarrow> dget f d = Some (PList xs)" "dget_none f d = PTuple xs \<longleftrightarrow> dget f d = Some (PTuple xs)"
  "PStr s = dget_none f d \<longleftrightarrow> dget f d = Some (PStr s)"
  by (auto simp: dget_none_def split: option.splits)

lemma is_dict_iff: "is_dict v \<longleftrightarrow> (\<exists>d. v = PDict d)"
  by (cases v) auto

lemma dict_of_iff: "is_dict v \<and> dict_of v = d \<longleftrightarrow> v = PDict d"
  by (cases v) (auto simp: dict_of_def)

lemma reject_unless: "(if b then reject_manifest msg else x) = Inr y \<longleftrightarrow> \<not> b \<and> x = Inr y"
  by simp

lemma require_identity_iff: "require_identity key a b c d e m = Inr u \<longleftrightarrow> identity_matches key a b c d e m"
  by (simp add: require_identity_def)

lemma manifest_facts_iff: "manifest_facts key m = Inr r \<longleftrightarrow> trusted_manifest key m r"
proof (cases r)
  case (fields a b c d e f g h i)
  have env: "(case dget ''environment'' m of None \<Rightarrow> PDict [] | Some e \<Rightarrow> e) = PDict i \<longleftrightarrow>
      dget ''environment'' m = Some (PDict i) \<or> dget ''environment'' m = None \<and> i = []"
    by (auto split: option.splits)
  have ep: "is_dict (dget_none ''endpoint'' m) \<and> dict_of (dget_none ''endpoint'' m) = e \<longleftrightarrow> dget ''endpoint'' m = Some (PDict e)"
    unfolding dict_of_iff dget_none_shapes ..
  have id: "identity_matches key a b c d e m \<longleftrightarrow> a = key \<and> dget ''adapter_name'' e = Some (PStr a) \<and>
      dget ''adapter_revision'' e = Some (PStr b) \<and> dget ''manifest_id'' m = Some (PStr c) \<and> dget ''manifest_revision'' m = Some (PStr d)"
    by (simp add: identity_matches_def dget_none_shapes)
  let ?allowed = "\<lambda>w. \<forall>kv \<in> set i. str_of (fst kv) \<in> set w"
  have "manifest_facts key m = Inr r \<longleftrightarrow> keys_within MANIFEST_FIELDS m \<and> is_dict (dget_none ''endpoint'' m) \<and>
      dict_of (dget_none ''endpoint'' m) = e \<and>
      (\<forall>(f, s) \<in> {(''adapter_id'', a), (''adapter_revision'', b), (''manifest_id'', c), (''manifest_revision'', d),
         (''executable'', f), (''working_directory'', h)}. dget_none f m = PStr s \<and> s \<noteq> []) \<and>
      holds_texts (dget_none ''argv'' m) g \<and>
      (case dget ''environment'' m of None \<Rightarrow> PDict [] | Some e \<Rightarrow> e) = PDict i \<and> text_pairs i \<and>
      (\<exists>w. holds_texts (dget_none ''environment_allowlist'' m) w \<and> ?allowed w) \<and> identity_matches key a b c d e m"
    unfolding manifest_facts_def Let_def reject_unless not_not rbind_Inr_iff manifest_string_iff string_tuple_iff string_mapping_iff
      require_identity_iff list_all_iff fields sum.inject resolved_adapter.ext_inject
    by (auto; blast)
  also have "\<dots> \<longleftrightarrow> trusted_manifest key m r"
    using ep unfolding env id trusted_manifest_def dget_none_shapes fields resolved_adapter.select_convs by auto
  finally show ?thesis .
qed

lemma resolve_iff:
  "resolve v registry = Inr r \<longleftrightarrow>
     (\<exists>key m. v = PStr key \<and> key \<noteq> [] \<and> map_of registry (PStr key) = Some (PDict m) \<and> trusted_manifest key m r)"
proof -
  have "manifest_record key registry = Inr m \<longleftrightarrow> map_of registry (PStr key) = Some (PDict m)" for key m
    by (auto simp: manifest_record_def dict_of_def is_dict_iff split: option.splits)
  then show ?thesis
    unfolding resolve_def resolve_adapter_manifest_def rbind_Inr_iff manifest_string_iff manifest_facts_iff by auto
qed

text \<open>
  C17. Resolving trusts the reviewed record and nothing else: an adapter id resolves exactly when the registry holds a well-formed
  record under it, and the result is that record's own identity, executable, arguments, working directory, endpoint and
  environment, every variable of which the record's allow-list names; every failure is the one documented error.
\<close>

theorem resolve_exact:
  shows "(resolve v registry = Inr r \<longleftrightarrow>
      (\<exists>key m. v = PStr key \<and> key \<noteq> [] \<and> map_of registry (PStr key) = Some (PDict m) \<and> trusted_manifest key m r)) \<and>
    (resolve v registry = Inl e \<longrightarrow> (\<exists>msg. e = ManifestResolutionErr msg))"
proof (intro conjI impI)
  show "resolve v registry = Inr r \<longleftrightarrow>
      (\<exists>key m. v = PStr key \<and> key \<noteq> [] \<and> map_of registry (PStr key) = Some (PDict m) \<and> trusted_manifest key m r)"
    by (rule resolve_iff)
next
  assume "resolve v registry = Inl e"
  moreover have leaf: "never other (manifest_string v n)" "never other (string_tuple v n)" "never other (string_mapping v n)"
    "never other (manifest_record key registry)" "never other (require_identity key a b c d ep m)" "never other (reject_manifest msg)"
    if "other = (\<lambda>e. \<not> (\<exists>msg. e = ManifestResolutionErr msg))" for other v n key a b c d ep m msg
    using that by (auto simp: manifest_string_def string_tuple_def string_mapping_def manifest_record_def require_identity_def
        reject_manifest_def split: option.split)
  then have "never (\<lambda>e. \<not> (\<exists>msg. e = ManifestResolutionErr msg)) (resolve v registry)"
    unfolding resolve_def resolve_adapter_manifest_def manifest_facts_def Let_def
    by (intro never_intros) (auto intro: leaf)
  ultimately show "\<exists>msg. e = ManifestResolutionErr msg" by simp
qed

definition demo_manifest :: pydict where
  "demo_manifest = [(sv ''adapter_id'', sv ''adapter_alpha''), (sv ''adapter_revision'', sv ''adapter_rev1''),
     (sv ''manifest_id'', sv ''manifest_alpha''), (sv ''manifest_revision'', sv ''manifest_rev1''),
     (sv ''endpoint'', PDict [(sv ''adapter_name'', sv ''adapter_alpha''), (sv ''adapter_revision'', sv ''adapter_rev1'')]),
     (sv ''executable'', sv ''/usr/bin/python3''), (sv ''argv'', PList [sv ''python3'', sv ''adapter.py'']),
     (sv ''working_directory'', sv ''/srv''), (sv ''environment'', PDict [(sv ''LANG'', sv ''C'')]),
     (sv ''environment_allowlist'', PList [sv ''LANG'', sv ''PATH''])]"

definition demo_resolved :: resolved_adapter where
  "demo_resolved = \<lparr>rv_adapter_id = lit ''adapter_alpha'', rv_adapter_revision = lit ''adapter_rev1'',
     rv_manifest_id = lit ''manifest_alpha'', rv_manifest_revision = lit ''manifest_rev1'',
     rv_endpoint = [(sv ''adapter_name'', sv ''adapter_alpha''), (sv ''adapter_revision'', sv ''adapter_rev1'')],
     rv_executable = lit ''/usr/bin/python3'', rv_argv = [lit ''python3'', lit ''adapter.py''], rv_working_directory = lit ''/srv'',
     rv_environment = [(sv ''LANG'', sv ''C'')]\<rparr>"

theorem resolve_exact_witness:
  "resolve (sv ''adapter_alpha'') [(sv ''adapter_alpha'', PDict demo_manifest)] = Inr demo_resolved"
proof -
  have "holds_texts (PList [sv ''LANG'', sv ''PATH'']) [lit ''LANG'', lit ''PATH'']" by (simp add: holds_texts_def)
  then have "trusted_manifest (lit ''adapter_alpha'') demo_manifest demo_resolved"
    by (simp add: trusted_manifest_def demo_manifest_def demo_resolved_def keys_within_def MANIFEST_FIELDS_def dget_none_def
        holds_texts_def text_pairs_def str_of_def)
      (rule exI [of _ "[lit ''LANG'', lit ''PATH'']"], simp)
  then show ?thesis
    using resolve_exact [of "sv ''adapter_alpha''" "[(sv ''adapter_alpha'', PDict demo_manifest)]" demo_resolved undefined] by simp
qed

section \<open>The identity an initialized adapter declares\<close>

lemma initialized_identity_iff:
  "validate_initialized_identity r v = Inr u \<longleftrightarrow>
     (\<exists>d ep. v = PDict d \<and> dget ''endpoint'' d = Some (PDict ep) \<and>
        (\<forall>(f, s) \<in> {(''adapter_id'', rv_adapter_id r), (''manifest_id'', rv_manifest_id r), (''manifest_revision'', rv_manifest_revision r)}.
           dget f d = Some (PStr s) \<and> s \<noteq> []) \<and>
        (\<exists>rev. rev \<noteq> [] \<and> dget ''adapter_revision'' d = Some (PStr rev) \<and> dget ''adapter_revision'' ep = Some (PStr rev)) \<and>
        dget ''adapter_name'' ep = Some (PStr (rv_adapter_id r)))"
proof (cases "\<exists>d ep. v = PDict d \<and> dget ''endpoint'' d = Some (PDict ep)")
  case True
  then obtain d ep where v: "v = PDict d" "dget ''endpoint'' d = Some (PDict ep)" by blast
  then have e: "dget_none ''endpoint'' d = PDict ep" by (simp add: dget_none_def)
  have id: "identity_matches (rv_adapter_id r) a b c m ep
      [(sv ''manifest_id'', PStr (rv_manifest_id r)), (sv ''manifest_revision'', PStr (rv_manifest_revision r))] \<longleftrightarrow>
      a = rv_adapter_id r \<and> dget ''adapter_name'' ep = Some (PStr a) \<and> dget ''adapter_revision'' ep = Some (PStr b) \<and>
      c = rv_manifest_id r \<and> m = rv_manifest_revision r" for a b c m
    by (auto simp: identity_matches_def dget_none_shapes)
  show ?thesis
    unfolding validate_initialized_identity_def v(1) Let_def
    by (simp add: v(2) e dict_of_def rbind_Inr_iff manifest_string_iff require_identity_iff id dget_none_shapes) blast
next
  case False
  then show ?thesis
    by (auto simp: validate_initialized_identity_def Let_def is_dict_iff dget_none_shapes dict_of_def)
qed

text \<open>
  The identity an initialized adapter declares is accepted exactly when its adapter id, manifest id and manifest revision are the
  resolved ones and the endpoint it declares names that adapter. Its adapter revision is compared with the endpoint the
  adapter itself declares and with nothing that was resolved.
\<close>

theorem initialized_identity_exact:
  "validate_initialized_identity r v = Inr u \<longleftrightarrow>
     (\<exists>d ep. v = PDict d \<and> dget ''endpoint'' d = Some (PDict ep) \<and>
        (\<forall>(f, s) \<in> {(''adapter_id'', rv_adapter_id r), (''manifest_id'', rv_manifest_id r), (''manifest_revision'', rv_manifest_revision r)}.
           dget f d = Some (PStr s) \<and> s \<noteq> []) \<and>
        (\<exists>rev. rev \<noteq> [] \<and> dget ''adapter_revision'' d = Some (PStr rev) \<and> dget ''adapter_revision'' ep = Some (PStr rev)) \<and>
        dget ''adapter_name'' ep = Some (PStr (rv_adapter_id r)))"
  by (rule initialized_identity_iff)

theorem initialized_identity_exact_witness:
  "validate_initialized_identity demo_resolved (PDict
      [(sv ''adapter_id'', sv ''adapter_alpha''), (sv ''adapter_revision'', sv ''unreviewed''), (sv ''manifest_id'', sv ''manifest_alpha''),
       (sv ''manifest_revision'', sv ''manifest_rev1''),
       (sv ''endpoint'', PDict [(sv ''adapter_name'', sv ''adapter_alpha''), (sv ''adapter_revision'', sv ''unreviewed'')])]) = Inr () \<and>
   rv_adapter_revision demo_resolved \<noteq> lit ''unreviewed''"
  unfolding initialized_identity_exact by (simp add: demo_resolved_def)

end
