(* ===== verification/Capability.thy ===== *)
theory Capability
  imports Manifest Reference
begin

text \<open>
  Capability authority: \<open>llm_collab/runtime_adapter_capability.py\<close>. A registry is the dictionary of host-reviewed
  authority records; binding an initialized adapter checks its declaration against the record and the resolved manifest, and
  session methods and evidence profiles are authorized from the record's relations over the bound capability set.
\<close>

section \<open>Constants\<close>

definition SESSION_METHODS :: "pystr list" where
  "SESSION_METHODS = [METHOD_DELIVER, METHOD_CANCEL, METHOD_RECONCILE]"

definition PROTOCOL_CONTROL_METHODS :: "pystr list" where
  "PROTOCOL_CONTROL_METHODS = [METHOD_HEALTH, METHOD_SHUTDOWN]"

definition AUTHORITY_RECORD_FIELDS :: "string list" where
  "AUTHORITY_RECORD_FIELDS = [''adapter_id'', ''endpoint'', ''capability_set'', ''session_action_relations'', ''evidence_profiles'']"

definition ENDPOINT_FIELDS :: "string list" where
  "ENDPOINT_FIELDS = [''schema_version'', ''workspace_id'', ''scope'', ''endpoint_id'', ''agent_id'', ''adapter_name'', ''adapter_revision'',
     ''trust_class'', ''capability_set_id'', ''platform'', ''configuration_ref'']"

definition CAPABILITY_SET_FIELDS :: "string list" where
  "CAPABILITY_SET_FIELDS = [''schema_version'', ''workspace_id'', ''scope'', ''capability_set_id'', ''revision'', ''capabilities'']"

definition CAPABILITY_FIELDS :: "string list" where
  "CAPABILITY_FIELDS = [''capability'', ''quality'', ''constraints'', ''evidence'']"

definition UNSUPPORTED_CAPABILITY_FIELDS :: "string list" where
  "UNSUPPORTED_CAPABILITY_FIELDS = [''capability'', ''quality'']"

definition ATTESTATION_FIELDS :: "string list" where
  "ATTESTATION_FIELDS = [''evidence_kind'', ''source_id'', ''source_revision'', ''integrity'']"

definition SESSION_ACTION_RELATION_FIELDS :: "string list" where
  "SESSION_ACTION_RELATION_FIELDS = [''capability_set_id'', ''capability_set_revision'', ''method'', ''selected_capability'', ''required_quality'']"

definition EVIDENCE_PROFILE_FIELDS :: "string list" where
  "EVIDENCE_PROFILE_FIELDS = [''capability_profile_id'', ''capability_profile_revision'']"

definition EVIDENCE_QUALITIES :: "pystr list" where
  "EVIDENCE_QUALITIES = [lit ''best_effort'', lit ''authoritative'']"

section \<open>Decisions\<close>

record bound_context =
  bc_adapter_id :: pystr
  bc_adapter_revision :: pystr
  bc_manifest_id :: pystr
  bc_manifest_revision :: pystr
  bc_endpoint :: pydict
  bc_capability_set :: pydict

record capability_decision =
  cd_method :: pystr
  cd_selected_capability :: pystr
  cd_selected_quality :: pystr

record evidence_profile_decision =
  ed_capability_profile_id :: pystr
  ed_capability_profile_revision :: pystr
  ed_evidence_kind :: pystr
  ed_evidence_quality :: pystr

record stage_decision =
  sd_method :: pystr
  sd_protocol_control :: bool
  sd_action :: "capability_decision option"
  sd_evidence_profiles :: "evidence_profile_decision list"

section \<open>Shapes\<close>

definition reject_authority :: "string \<Rightarrow> pyerr + 'a" where
  "reject_authority msg = Inl (CapabilityAuthorityErr msg)"

definition accept_if :: "bool \<Rightarrow> string \<Rightarrow> pyerr + unit" where
  "accept_if b msg = require b (CapabilityAuthorityErr msg)"

definition validate_record_key :: "pyval \<Rightarrow> pyerr + unit" where
  "validate_record_key v = accept_if (nonempty_text v) ''authority registry keys must be non-empty adapter ids''"

definition as_mapping :: "pyval \<Rightarrow> string \<Rightarrow> pyerr + pydict" where
  "as_mapping v name = (if is_dict v then Inr (dict_of v) else reject_authority (name @ '' must be a mapping''))"

definition carried_evidence :: "pyval \<Rightarrow> string \<Rightarrow> pyerr + pydict" where
  "carried_evidence v name =
     rbind (as_mapping v name) (\<lambda>d. as_mapping (dget_none ''evidence'' d) (name @ '' evidence''))"

definition capability_token :: "pyval \<Rightarrow> pyerr + pystr" where
  "capability_token v =
     (if nonempty_text v \<and> list_all (\<lambda>c. 32 \<le> c \<and> c \<noteq> 127) (str_of v) then Inr (str_of v)
      else reject_authority ''capability token must be a non-empty string without controls'')"

definition validate_scope :: "pyval \<Rightarrow> pyerr + unit" where
  "validate_scope v =
     rbind (as_mapping v ''scope'') (\<lambda>d.
     if py_eq (dget_none ''kind'' d) (sv ''workspace'') then
       accept_if (keys_are [''kind''] d) ''workspace scope must omit project_id''
     else if py_eq (dget_none ''kind'' d) (sv ''project'') then
       rbind (accept_if (keys_are [''kind'', ''project_id''] d) ''project scope must contain only kind and project_id'') (\<lambda>_.
       accept_if (nonempty_text (dget_none ''project_id'' d)) ''project scope requires non-empty project_id'')
     else reject_authority ''scope kind must be workspace or project'')"

definition validate_endpoint_shape :: "pydict \<Rightarrow> pyerr + unit" where
  "validate_endpoint_shape d =
     rbind (accept_if (keys_are ENDPOINT_FIELDS d) ''endpoint contains fields outside the trusted schema'') (\<lambda>_.
     rbind (accept_if (list_all (\<lambda>f. nonempty_text (dget_none f d))
         [''workspace_id'', ''endpoint_id'', ''adapter_name'', ''adapter_revision'', ''capability_set_id''])
       ''endpoint field must be a non-empty string'') (\<lambda>_.
     validate_scope (dget_none ''scope'' d)))"

definition validate_capability_set_shape :: "pydict \<Rightarrow> pyerr + unit" where
  "validate_capability_set_shape d =
     rbind (accept_if (keys_are CAPABILITY_SET_FIELDS d) ''CapabilitySetV1 contains fields outside the trusted schema'') (\<lambda>_.
     rbind (accept_if (list_all (\<lambda>f. nonempty_text (dget_none f d)) [''workspace_id'', ''capability_set_id'', ''revision''])
       ''CapabilitySetV1 field must be a non-empty string'') (\<lambda>_.
     rbind (validate_scope (dget_none ''scope'' d)) (\<lambda>_.
     accept_if (seq_items (dget_none ''capabilities'' d) \<noteq> None) ''CapabilitySetV1 capabilities must be a sequence'')))"

definition validate_session_action_relation_shape :: "pyval \<Rightarrow> pyerr + pydict" where
  "validate_session_action_relation_shape v =
     rbind (as_mapping v ''session action relation'') (\<lambda>d.
     rbind (accept_if (keys_are SESSION_ACTION_RELATION_FIELDS d) ''session action relation contains fields outside the trusted schema'') (\<lambda>_.
     rbind (accept_if (list_all (\<lambda>f. nonempty_text (dget_none f d))
         [''capability_set_id'', ''capability_set_revision'', ''selected_capability'', ''required_quality''])
       ''session action relation field must be a non-empty string'') (\<lambda>_.
     rbind (in_names (dget_none ''method'' d) SESSION_METHODS) (\<lambda>known.
     rbind (accept_if known ''session action relation method must be a product session method'') (\<lambda>_. Inr d)))))"

definition validate_evidence_profile_shape :: "pyval \<Rightarrow> pyerr + pydict" where
  "validate_evidence_profile_shape v =
     rbind (as_mapping v ''evidence profile'') (\<lambda>d.
     rbind (accept_if (keys_are EVIDENCE_PROFILE_FIELDS d) ''evidence profile contains fields outside the trusted schema'') (\<lambda>_.
     rbind (capability_token (dget_none ''capability_profile_id'' d)) (\<lambda>_.
     rbind (capability_token (dget_none ''capability_profile_revision'' d)) (\<lambda>_. Inr d))))"

definition sequence_of :: "pyval \<Rightarrow> string \<Rightarrow> pyerr + pyval list" where
  "sequence_of v name = (case seq_items v of None \<Rightarrow> reject_authority (name @ '' must be a sequence'') | Some xs \<Rightarrow> Inr xs)"

definition validate_authority_record :: "pyval \<Rightarrow> pyval \<Rightarrow> pyerr + unit" where
  "validate_authority_record adapter_id v =
     rbind (as_mapping v ''capability authority record'') (\<lambda>d.
     rbind (accept_if (keys_are AUTHORITY_RECORD_FIELDS d) ''capability authority record contains fields outside the trusted schema'') (\<lambda>_.
     rbind (accept_if (py_eq (dget_none ''adapter_id'' d) adapter_id) ''authority record adapter_id must match its trusted key'') (\<lambda>_.
     rbind (as_mapping (dget_none ''endpoint'' d) ''trusted endpoint'') (\<lambda>endpoint.
     rbind (as_mapping (dget_none ''capability_set'' d) ''trusted capability_set'') (\<lambda>capability_set.
     rbind (validate_endpoint_shape endpoint) (\<lambda>_.
     rbind (validate_capability_set_shape capability_set) (\<lambda>_.
     rbind (sequence_of (dget_none ''session_action_relations'' d) ''session action relations'') (\<lambda>relations.
     rbind (rmap validate_session_action_relation_shape relations) (\<lambda>_.
     rbind (sequence_of (dget_none ''evidence_profiles'' d) ''evidence profiles'') (\<lambda>profiles.
     rbind (rmap validate_evidence_profile_shape profiles) (\<lambda>_. Inr ())))))))))))"

definition new_authority_registry :: "pyval \<Rightarrow> pyerr + pydict" where
  "new_authority_registry v =
     rbind (as_mapping v ''capability authority registry'') (\<lambda>records.
     rbind (rmap (\<lambda>kv. rbind (validate_record_key (fst kv)) (\<lambda>_. validate_authority_record (fst kv) (snd kv))) records) (\<lambda>_.
     Inr records))"

section \<open>Binding\<close>

definition require_supported_entry :: "pydict \<Rightarrow> pydict \<Rightarrow> pyerr + unit" where
  "require_supported_entry endpoint d =
     rbind (accept_if (keys_are CAPABILITY_FIELDS d) ''supported capability entry contains fields outside the trusted schema'') (\<lambda>_.
     rbind (capability_token (dget_none ''capability'' d)) (\<lambda>_.
     rbind (accept_if (\<not> py_eq (dget_none ''quality'' d) (sv ''unsupported'')) ''selected capability is unsupported'') (\<lambda>_.
     rbind (accept_if (nonempty_text (dget_none ''quality'' d)) ''selected capability quality must be a non-empty string'') (\<lambda>_.
     rbind (accept_if (is_dict (dget_none ''constraints'' d)) ''selected capability constraints must be a mapping'') (\<lambda>_.
     rbind (as_mapping (dget_none ''evidence'' d) ''capability attestation'') (\<lambda>ev.
     rbind (accept_if (keys_are ATTESTATION_FIELDS ev) ''capability attestation contains fields outside the trusted schema'') (\<lambda>_.
     rbind (accept_if (py_eq (dget_none ''evidence_kind'' ev) (sv ''profile_attestation'')) ''capability attestation kind must be profile_attestation'') (\<lambda>_.
     rbind (dsub ''adapter_name'' endpoint) (\<lambda>name.
     rbind (accept_if (py_eq (dget_none ''source_id'' ev) name) ''capability attestation source_id must match endpoint adapter'') (\<lambda>_.
     rbind (dsub ''adapter_revision'' endpoint) (\<lambda>rev.
     rbind (accept_if (py_eq (dget_none ''source_revision'' ev) rev) ''capability attestation source_revision must match endpoint adapter revision'') (\<lambda>_.
     accept_if (is_integrity (dget_none ''integrity'' ev)) ''capability attestation integrity must be a sha256 digest''))))))))))))"

definition validate_capability_entry :: "pydict \<Rightarrow> pyval \<Rightarrow> pyerr + unit" where
  "validate_capability_entry endpoint v =
     rbind (accept_if (is_dict v) ''capability entries must be mappings'') (\<lambda>_.
     let d = dict_of v in
     if py_eq (dget_none ''quality'' d) (sv ''unsupported'') then
       rbind (accept_if (keys_are UNSUPPORTED_CAPABILITY_FIELDS d) ''unsupported capability entry contains unsupported authority fields'') (\<lambda>_.
       rbind (capability_token (dget_none ''capability'' d)) (\<lambda>_. Inr ()))
     else require_supported_entry endpoint d)"

text \<open>\<open>for entry in capability_set["capabilities"]\<close>: the member is a sequence wherever its shape was validated.\<close>

definition capability_entries :: "pydict \<Rightarrow> pyerr + pyval list" where
  "capability_entries capability_set =
     rbind (dsub ''capabilities'' capability_set) (\<lambda>v.
     case seq_items v of None \<Rightarrow> Inl (Unmodelled ''iterating over capabilities that are not a sequence'') | Some xs \<Rightarrow> Inr xs)"

definition validate_capability_entries :: "pydict \<Rightarrow> pydict \<Rightarrow> pyerr + unit" where
  "validate_capability_entries endpoint capability_set =
     rbind (capability_entries capability_set) (\<lambda>xs.
     rbind (rmap (validate_capability_entry endpoint) xs) (\<lambda>_. Inr ()))"

definition require_exact_endpoint :: "resolved_adapter \<Rightarrow> pydict \<Rightarrow> pydict \<Rightarrow> pyerr + unit" where
  "require_exact_endpoint resolved initialized_endpoint trusted_endpoint =
     rbind (validate_endpoint_shape initialized_endpoint) (\<lambda>_.
     rbind (accept_if (py_eq (PDict initialized_endpoint) (PDict (rv_endpoint resolved)))
       ''initialized endpoint must come from the single resolved manifest'') (\<lambda>_.
     accept_if (py_eq (PDict initialized_endpoint) (PDict trusted_endpoint))
       ''initialized endpoint diverges from trusted capability authority''))"

text \<open>\<open>dict(v)\<close> of a validated scope.\<close>

definition mapping_member :: "string \<Rightarrow> pydict \<Rightarrow> pyerr + pydict" where
  "mapping_member f d =
     rbind (dsub f d) (\<lambda>v. if is_dict v then Inr (dict_of v) else Inl (Unmodelled ''dict() of a value that is not a mapping''))"

definition same_members :: "string \<Rightarrow> pydict \<Rightarrow> pydict \<Rightarrow> string \<Rightarrow> pyerr + unit" where
  "same_members f a b msg = rbind (dsub f a) (\<lambda>x. rbind (dsub f b) (\<lambda>y. accept_if (py_eq x y) msg))"

definition require_exact_capability_set :: "pydict \<Rightarrow> pydict \<Rightarrow> pydict \<Rightarrow> pyerr + unit" where
  "require_exact_capability_set endpoint initialized_set trusted_set =
     rbind (validate_capability_set_shape initialized_set) (\<lambda>_.
     rbind (accept_if (py_eq (PDict initialized_set) (PDict trusted_set)) ''adapter-declared capability set diverges from trusted registry'') (\<lambda>_.
     rbind (same_members ''workspace_id'' initialized_set endpoint ''CapabilitySetV1 workspace must match endpoint'') (\<lambda>_.
     rbind (mapping_member ''scope'' initialized_set) (\<lambda>a. rbind (mapping_member ''scope'' endpoint) (\<lambda>b.
     rbind (accept_if (py_eq (PDict a) (PDict b)) ''CapabilitySetV1 scope must match endpoint'') (\<lambda>_.
     same_members ''capability_set_id'' initialized_set endpoint ''CapabilitySetV1 id must match endpoint''))))))"

fun freeze_view :: "pyval \<Rightarrow> pyval" where
  "freeze_view (PDict d) = PDict (map (\<lambda>kv. (fst kv, freeze_view (snd kv))) d)"
| "freeze_view (PList xs) = PTuple (map freeze_view xs)"
| "freeze_view (PTuple xs) = PTuple (map freeze_view xs)"
| "freeze_view v = v"

definition registry_record :: "pydict \<Rightarrow> pystr \<Rightarrow> pyerr + pydict" where
  "registry_record registry adapter_id =
     (case map_of registry (PStr adapter_id) of
        None \<Rightarrow> reject_authority ''adapter has no trusted capability authority record''
      | Some v \<Rightarrow> Inr (dict_of v))"

definition bind_initialized :: "pydict \<Rightarrow> resolved_adapter \<Rightarrow> pyval \<Rightarrow> pyerr + bound_context" where
  "bind_initialized registry resolved v =
     rbind (accept_if (is_dict v) ''initialized result must be a mapping'') (\<lambda>_.
     let initialized = dict_of v in
     rbind (case validate_initialized_identity resolved v of
              Inl e \<Rightarrow> reject_authority ''initialized identity is not trusted'' | Inr u \<Rightarrow> Inr u) (\<lambda>_.
     rbind (registry_record registry (rv_adapter_id resolved)) (\<lambda>record.
     rbind (as_mapping (dget_none ''endpoint'' initialized) ''initialized endpoint'') (\<lambda>endpoint.
     rbind (as_mapping (dget_none ''capability_set'' initialized) ''initialized capability_set'') (\<lambda>capability_set.
     rbind (as_mapping (dget_none ''endpoint'' record) ''trusted endpoint'') (\<lambda>trusted_endpoint.
     rbind (as_mapping (dget_none ''capability_set'' record) ''trusted capability_set'') (\<lambda>trusted_set.
     rbind (require_exact_endpoint resolved endpoint trusted_endpoint) (\<lambda>_.
     rbind (require_exact_capability_set endpoint capability_set trusted_set) (\<lambda>_.
     rbind (validate_capability_entries endpoint capability_set) (\<lambda>_.
     Inr \<lparr>bc_adapter_id = rv_adapter_id resolved, bc_adapter_revision = rv_adapter_revision resolved,
          bc_manifest_id = rv_manifest_id resolved, bc_manifest_revision = rv_manifest_revision resolved,
          bc_endpoint = dict_of (freeze_view (PDict endpoint)), bc_capability_set = dict_of (freeze_view (PDict capability_set))\<rparr>))))))))))"

section \<open>Authorizing\<close>

text \<open>\<open>len(matches) != 1\<close>.\<close>

definition the_only :: "'a list \<Rightarrow> string \<Rightarrow> pyerr + 'a" where
  "the_only xs msg = (case xs of [x] \<Rightarrow> Inr x | _ \<Rightarrow> reject_authority msg)"

definition select_capability :: "pydict \<Rightarrow> pyval \<Rightarrow> pyerr + pydict" where
  "select_capability capability_set v =
     rbind (capability_token v) (\<lambda>token.
     rbind (capability_entries capability_set) (\<lambda>xs.
     the_only (filter (\<lambda>d. py_eq (dget_none ''capability'' d) (PStr token)) (map dict_of (filter is_dict xs)))
       ''selected capability must occur exactly once''))"

definition require_capability_entry :: "bound_context \<Rightarrow> pyval \<Rightarrow> pyerr + pydict" where
  "require_capability_entry bound capability =
     rbind (select_capability (bc_capability_set bound) capability) (\<lambda>entry.
     rbind (require_supported_entry (bc_endpoint bound) entry) (\<lambda>_.
     Inr (dict_of (freeze_view (PDict entry)))))"

definition relation_matches :: "bound_context \<Rightarrow> pyval \<Rightarrow> pydict \<Rightarrow> pyerr + bool" where
  "relation_matches bound m d =
     all_of
       [rbind (dsub ''capability_set_id'' (bc_endpoint bound)) (\<lambda>x. Inr (py_eq (dget_none ''capability_set_id'' d) x)),
        rbind (dsub ''revision'' (bc_capability_set bound)) (\<lambda>x. Inr (py_eq (dget_none ''capability_set_revision'' d) x)),
        Inr (py_eq (dget_none ''method'' d) m)]"

text \<open>The relations in order: each is validated, then compared; the matches.\<close>

definition select_session_action_relation :: "pyval list \<Rightarrow> bound_context \<Rightarrow> pyval \<Rightarrow> pyerr + pydict" where
  "select_session_action_relation relations bound m =
     rbind (rmap (\<lambda>v. rbind (validate_session_action_relation_shape v) (\<lambda>d.
         rbind (relation_matches bound m d) (\<lambda>b. Inr (d, b)))) relations) (\<lambda>rows.
     the_only (map fst (filter snd rows)) ''session action relation must match exactly once'')"

definition select_evidence_profile :: "pyval list \<Rightarrow> pystr \<Rightarrow> pystr \<Rightarrow> pyerr + pydict" where
  "select_evidence_profile profiles profile_id profile_revision =
     rbind (rmap validate_evidence_profile_shape profiles) (\<lambda>ds.
     the_only (filter (\<lambda>d. py_eq (dget_none ''capability_profile_id'' d) (PStr profile_id) \<and>
         py_eq (dget_none ''capability_profile_revision'' d) (PStr profile_revision)) ds)
       ''evidence profile must match exactly once'')"

definition record_sequence :: "string \<Rightarrow> pydict \<Rightarrow> pyerr + pyval list" where
  "record_sequence f record =
     rbind (dsub f record) (\<lambda>v.
     case seq_items v of None \<Rightarrow> Inl (Unmodelled ''iterating over a value that is not a sequence'') | Some xs \<Rightarrow> Inr xs)"

definition validate_request_authority :: "pydict \<Rightarrow> bound_context \<Rightarrow> pyval \<Rightarrow> pyval \<Rightarrow> pyerr + capability_decision" where
  "validate_request_authority registry bound m caller_authority_fields =
     rbind (accept_if (caller_authority_fields = PNone) ''caller-supplied authority fields are not trusted'') (\<lambda>_.
     rbind (in_names m SESSION_METHODS) (\<lambda>session_method.
     rbind (accept_if session_method ''method is not a product capability session action'') (\<lambda>_.
     rbind (registry_record registry (bc_adapter_id bound)) (\<lambda>record.
     rbind (record_sequence ''session_action_relations'' record) (\<lambda>relations.
     rbind (select_session_action_relation relations bound m) (\<lambda>relation.
     rbind (dsub ''selected_capability'' relation) (\<lambda>selected.
     rbind (select_capability (bc_capability_set bound) selected) (\<lambda>entry.
     rbind (require_supported_entry (bc_endpoint bound) entry) (\<lambda>_.
     rbind (dsub ''quality'' entry) (\<lambda>quality.
     rbind (dsub ''required_quality'' relation) (\<lambda>required.
     rbind (accept_if (py_eq quality required) ''selected capability quality does not match trusted action relation'') (\<lambda>_.
     Inr \<lparr>cd_method = str_of m, cd_selected_capability = str_of selected, cd_selected_quality = str_of quality\<rparr>))))))))))))"

definition require_evidence_quality_ceiling :: "pyval \<Rightarrow> pyval \<Rightarrow> pyerr + unit" where
  "require_evidence_quality_ceiling profile_quality evidence_quality =
     rbind (in_names profile_quality EVIDENCE_QUALITIES) (\<lambda>known.
     rbind (accept_if (known \<or> py_eq profile_quality (sv ''unsupported'')) ''evidence profile quality must be best_effort or authoritative'') (\<lambda>_.
     accept_if (\<not> (py_eq evidence_quality (sv ''authoritative'') \<and> py_eq profile_quality (sv ''best_effort'')))
       ''authoritative evidence requires an authoritative capability profile''))"

definition validate_evidence_profile_authority ::
  "pydict \<Rightarrow> bound_context \<Rightarrow> pyval \<Rightarrow> pyval \<Rightarrow> pyerr + evidence_profile_decision" where
  "validate_evidence_profile_authority registry bound v caller_authority_fields =
     rbind (accept_if (caller_authority_fields = PNone) ''caller-supplied evidence-profile authority fields are not trusted'') (\<lambda>_.
     rbind (as_mapping v ''evidence'') (\<lambda>evidence.
     let evidence_quality = dget_none ''quality'' evidence; evidence_kind = dget_none ''evidence_kind'' evidence in
     rbind (in_names evidence_quality EVIDENCE_QUALITIES) (\<lambda>known.
     rbind (accept_if known ''evidence quality must be best_effort or authoritative'') (\<lambda>_.
     rbind (accept_if (nonempty_text evidence_kind) ''evidence kind must be a non-empty string'') (\<lambda>_.
     rbind (as_mapping (dget_none ''authority'' evidence) ''evidence authority'') (\<lambda>authority.
     rbind (capability_token (dget_none ''capability_profile_id'' authority)) (\<lambda>profile_id.
     rbind (capability_token (dget_none ''capability_profile_revision'' authority)) (\<lambda>profile_revision.
     rbind (dsub ''revision'' (bc_capability_set bound)) (\<lambda>revision.
     rbind (accept_if (py_eq (PStr profile_revision) revision)
       ''evidence capability-profile revision must equal the bound CapabilitySetV1 revision'') (\<lambda>_.
     rbind (registry_record registry (bc_adapter_id bound)) (\<lambda>record.
     rbind (record_sequence ''evidence_profiles'' record) (\<lambda>profiles.
     rbind (select_evidence_profile profiles profile_id profile_revision) (\<lambda>_.
     rbind (select_capability (bc_capability_set bound) (PStr profile_id)) (\<lambda>entry.
     rbind (require_supported_entry (bc_endpoint bound) entry) (\<lambda>_.
     rbind (dsub ''quality'' entry) (\<lambda>quality.
     rbind (require_evidence_quality_ceiling quality evidence_quality) (\<lambda>_.
     Inr \<lparr>ed_capability_profile_id = profile_id, ed_capability_profile_revision = profile_revision,
          ed_evidence_kind = str_of evidence_kind, ed_evidence_quality = str_of evidence_quality\<rparr>)))))))))))))))))"

definition evidence_of :: "pydict \<Rightarrow> bound_context \<Rightarrow> pyval \<Rightarrow> string \<Rightarrow> pyerr + evidence_profile_decision" where
  "evidence_of registry bound v name =
     rbind (carried_evidence v name) (\<lambda>ev. validate_evidence_profile_authority registry bound (PDict ev) PNone)"

definition decide_ordered_stage_authority ::
  "pydict \<Rightarrow> bound_context \<Rightarrow> pyval \<Rightarrow> pyval \<Rightarrow> pyval \<Rightarrow> pyval \<Rightarrow> pyval \<Rightarrow> pyerr + stage_decision" where
  "decide_ordered_stage_authority registry bound m session_ref delivery receipt caller_authority_fields =
     rbind (accept_if (caller_authority_fields = PNone) ''caller-supplied ordered-stage authority fields are not trusted'') (\<lambda>_.
     rbind (in_names m PROTOCOL_CONTROL_METHODS) (\<lambda>control.
     if control then Inr \<lparr>sd_method = str_of m, sd_protocol_control = True, sd_action = None, sd_evidence_profiles = []\<rparr>
     else
       rbind (in_names m SESSION_METHODS) (\<lambda>session_method.
       rbind (accept_if session_method ''method is not a P6-authorized session method'') (\<lambda>_.
       rbind (validate_request_authority registry bound m PNone) (\<lambda>action.
       rbind (evidence_of registry bound session_ref ''session_ref'') (\<lambda>first.
       rbind (if py_eq m (PStr METHOD_DELIVER) then rbind (evidence_of registry bound delivery ''delivery'') (\<lambda>e. Inr [e])
              else if py_eq m (PStr METHOD_RECONCILE) \<and> receipt \<noteq> PNone then
                rbind (evidence_of registry bound receipt ''receipt'') (\<lambda>e. Inr [e])
              else Inr []) (\<lambda>more.
       Inr \<lparr>sd_method = str_of m, sd_protocol_control = False, sd_action = Some action, sd_evidence_profiles = first # more\<rparr>)))))))"

definition method_requires_product_capability :: "pyval \<Rightarrow> pyerr + bool" where
  "method_requires_product_capability m = in_names m SESSION_METHODS"

section \<open>Authority failures\<close>

fun authority_error :: "pyerr \<Rightarrow> bool" where
  "authority_error (CapabilityAuthorityErr _) = True"
| "authority_error _ = False"

text \<open>The computation raises the documented error or nothing.\<close>

abbreviation fails_closed :: "pyerr + 'a \<Rightarrow> bool" where
  "fails_closed \<equiv> never (\<lambda>e. \<not> authority_error e)"

lemma accept_if_iff [simp]:
  "accept_if b msg = Inr u \<longleftrightarrow> b" "accept_if b msg = Inl e \<longleftrightarrow> \<not> b \<and> e = CapabilityAuthorityErr msg"
  by (auto simp: accept_if_def)

lemma reject_authority_simps [simp]:
  "reject_authority msg \<noteq> Inr x" "Inr x \<noteq> reject_authority msg" "reject_authority msg = Inl e \<longleftrightarrow> e = CapabilityAuthorityErr msg"
  by (auto simp: reject_authority_def)

lemma as_mapping_iff [simp]: "as_mapping v name = Inr d \<longleftrightarrow> v = PDict d"
  by (cases v) (auto simp: as_mapping_def dict_of_def)

lemma capability_token_iff:
  "capability_token v = Inr s \<longleftrightarrow> v = PStr s \<and> s \<noteq> [] \<and> list_all (\<lambda>c. 32 \<le> c \<and> c \<noteq> 127) s"
  by (auto simp: capability_token_def str_of_def)

lemma closed_leaves_of_authority [never_intros]:
  "fails_closed (accept_if b msg)" "fails_closed (reject_authority msg)" "fails_closed (as_mapping v name)"
  "fails_closed (capability_token v)" "fails_closed (sequence_of v name)" "fails_closed (the_only xs msg)"
  "fails_closed (registry_record registry k)"
  by (auto simp: accept_if_def reject_authority_def as_mapping_def capability_token_def sequence_of_def the_only_def
      registry_record_def require_def split: option.split list.split)

lemma closed_scope [never_intros]: "fails_closed (validate_scope v)"
  unfolding validate_scope_def by (intro never_intros)

lemma closed_shapes [never_intros]:
  "fails_closed (validate_endpoint_shape d)" "fails_closed (validate_capability_set_shape d)" "fails_closed (validate_record_key v)"
  "fails_closed (validate_evidence_profile_shape v)"
  unfolding validate_endpoint_shape_def validate_capability_set_shape_def validate_record_key_def validate_evidence_profile_shape_def
  by (intro never_intros; simp)+

text \<open>What a validated endpoint and capability set hold.\<close>

lemma validated_scope:
  assumes "validate_scope v = Inr u"
  obtains d where "v = PDict d"
  using assms by (auto simp: validate_scope_def rbind_Inr_iff)

lemma text_members:
  "list_all (\<lambda>f. nonempty_text (dget_none f d)) fs \<Longrightarrow> f \<in> set fs \<Longrightarrow> \<exists>s. dget f d = Some (PStr s)"
  unfolding list_all_iff nonempty_text_iff dget_none_shapes by blast

lemma validated_endpoint:
  assumes "validate_endpoint_shape d = Inr u"
  shows "\<exists>name r set_id ws scope. dget ''adapter_name'' d = Some (PStr name) \<and> dget ''adapter_revision'' d = Some (PStr r) \<and>
    dget ''capability_set_id'' d = Some (PStr set_id) \<and> dget ''workspace_id'' d = Some (PStr ws) \<and> dget ''scope'' d = Some (PDict scope)"
proof -
  have l: "list_all (\<lambda>f. nonempty_text (dget_none f d))
      [''workspace_id'', ''endpoint_id'', ''adapter_name'', ''adapter_revision'', ''capability_set_id'']"
    and "\<exists>scope. dget ''scope'' d = Some (PDict scope)"
    using assms unfolding validate_endpoint_shape_def rbind_Inr_iff accept_if_iff
    by (blast elim: validated_scope dest: iffD1 [OF dget_none_shapes(2)])+
  then show ?thesis
    using text_members [OF l, of "''workspace_id''"] text_members [OF l, of "''adapter_name''"]
      text_members [OF l, of "''adapter_revision''"] text_members [OF l, of "''capability_set_id''"] by simp
qed

lemma validated_capability_set:
  assumes "validate_capability_set_shape d = Inr u"
  shows "\<exists>r set_id ws scope v xs. dget ''revision'' d = Some (PStr r) \<and> dget ''capability_set_id'' d = Some (PStr set_id) \<and>
    dget ''workspace_id'' d = Some (PStr ws) \<and> dget ''scope'' d = Some (PDict scope) \<and>
    dget ''capabilities'' d = Some v \<and> seq_items v = Some xs"
proof -
  have l: "list_all (\<lambda>f. nonempty_text (dget_none f d)) [''workspace_id'', ''capability_set_id'', ''revision'']"
    and sc: "\<exists>scope. dget ''scope'' d = Some (PDict scope)"
    using assms unfolding validate_capability_set_shape_def rbind_Inr_iff accept_if_iff
    by (blast elim: validated_scope dest: iffD1 [OF dget_none_shapes(2)])+
  obtain xs where "seq_items (dget_none ''capabilities'' d) = Some xs"
    using assms unfolding validate_capability_set_shape_def rbind_Inr_iff accept_if_iff by blast
  then have "\<exists>v. dget ''capabilities'' d = Some v \<and> seq_items v = Some xs"
    by (cases "dget ''capabilities'' d") (auto simp: dget_none_def)
  then show ?thesis
    using sc text_members [OF l, of "''workspace_id''"] text_members [OF l, of "''capability_set_id''"]
      text_members [OF l, of "''revision''"] by auto
qed

lemma capability_entries_iff:
  "capability_entries d = Inr xs \<longleftrightarrow> (\<exists>v. dget ''capabilities'' d = Some v \<and> seq_items v = Some xs)"
  by (auto simp: capability_entries_def dsub_def split: option.splits)

lemma closed_supported:
  assumes "dget ''adapter_name'' ep = Some name" and "dget ''adapter_revision'' ep = Some r"
  shows "fails_closed (require_supported_entry ep d)"
  unfolding require_supported_entry_def
  by (intro never_intros) (simp_all add: dsub_def assms)

lemma closed_binding: "fails_closed (bind_initialized registry resolved v)"
proof -
  have supported: "fails_closed (validate_capability_entries ep cs)"
    if e: "validate_endpoint_shape ep = Inr ()" and c: "validate_capability_set_shape cs = Inr ()" for ep cs
  proof -
    obtain name r where ep: "dget ''adapter_name'' ep = Some name" "dget ''adapter_revision'' ep = Some r"
      using validated_endpoint [OF e] by blast
    obtain xs where xs: "capability_entries cs = Inr xs"
      using validated_capability_set [OF c] by (auto simp: capability_entries_iff)
    have "fails_closed (validate_capability_entry ep v)" for v
      unfolding validate_capability_entry_def Let_def
      by (intro never_intros closed_supported [OF ep]) auto
    then show ?thesis unfolding validate_capability_entries_def xs by (auto intro!: never_intros)
  qed
  have exact_set: "fails_closed (require_exact_capability_set ep cs tcs)" if "validate_endpoint_shape ep = Inr ()" for ep cs tcs
  proof -
    have "fails_closed (same_members f cs ep msg)" "fails_closed (mapping_member ''scope'' cs)" "fails_closed (mapping_member ''scope'' ep)"
      if "validate_capability_set_shape cs = Inr u" "f \<in> {''workspace_id'', ''capability_set_id''}" for f msg u
      using validated_endpoint [OF \<open>validate_endpoint_shape ep = Inr ()\<close>] validated_capability_set [OF that(1)] that(2)
      by (auto simp: same_members_def mapping_member_def dsub_def intro!: never_intros)
    then show ?thesis unfolding require_exact_capability_set_def by (intro never_intros) auto
  qed
  have "fails_closed (require_exact_endpoint resolved ep tep)" for ep tep
    unfolding require_exact_endpoint_def by (intro never_intros)
  moreover have "validate_endpoint_shape ep = Inr ()" if "require_exact_endpoint resolved ep tep = Inr u" for ep tep u
    using that by (simp add: require_exact_endpoint_def rbind_Inr_iff)
  moreover have "validate_capability_set_shape cs = Inr ()" if "require_exact_capability_set ep cs tcs = Inr u" for ep cs tcs u
    using that by (simp add: require_exact_capability_set_def rbind_Inr_iff)
  ultimately show ?thesis
    unfolding bind_initialized_def Let_def
    by (intro never_intros) (auto intro: supported exact_set closed_leaves_of_authority split: sum.split)
qed

section \<open>What a bound context holds\<close>

lemma dget_freeze: "dget f (dict_of (freeze_view (PDict d))) = map_option freeze_view (dget f d)"
  by (induction d) (auto simp: dict_of_def dget_def)

lemma seq_freeze: "seq_items v = Some xs \<Longrightarrow> seq_items (freeze_view v) = Some (map freeze_view xs)"
  by (cases v) auto

lemma freeze_PStr [simp]: "freeze_view v = PStr s \<longleftrightarrow> v = PStr s"
  by (cases v) auto

text \<open>The members the authorization checks read from a bound context and from the record of its adapter.\<close>

definition bound_ok :: "bound_context \<Rightarrow> bool" where
  "bound_ok b \<longleftrightarrow>
     (\<exists>name r set_id rev' v xs. dget ''adapter_name'' (bc_endpoint b) = Some (PStr name) \<and>
        dget ''adapter_revision'' (bc_endpoint b) = Some (PStr r) \<and> dget ''capability_set_id'' (bc_endpoint b) = Some (PStr set_id) \<and>
        dget ''revision'' (bc_capability_set b) = Some (PStr rev') \<and> dget ''capabilities'' (bc_capability_set b) = Some v \<and>
        seq_items v = Some xs)"

definition record_ok :: "pydict \<Rightarrow> bool" where
  "record_ok record \<longleftrightarrow>
     (\<exists>relations profiles rs ps. record_sequence ''session_action_relations'' record = Inr relations \<and>
        record_sequence ''evidence_profiles'' record = Inr profiles \<and>
        rmap validate_session_action_relation_shape relations = Inr rs \<and> rmap validate_evidence_profile_shape profiles = Inr ps)"

lemma bindE:
  assumes "bind_initialized registry resolved v = Inr b"
  obtains d ep cs rd tep tcs where "v = PDict d" and "validate_initialized_identity resolved v = Inr ()"
    and "registry_record registry (rv_adapter_id resolved) = Inr rd"
    and "dget ''endpoint'' d = Some (PDict ep)" and "dget ''capability_set'' d = Some (PDict cs)"
    and "dget ''endpoint'' rd = Some (PDict tep)" and "dget ''capability_set'' rd = Some (PDict tcs)"
    and "require_exact_endpoint resolved ep tep = Inr ()" and "require_exact_capability_set ep cs tcs = Inr ()"
    and "validate_capability_entries ep cs = Inr ()"
    and "b = \<lparr>bc_adapter_id = rv_adapter_id resolved, bc_adapter_revision = rv_adapter_revision resolved,
          bc_manifest_id = rv_manifest_id resolved, bc_manifest_revision = rv_manifest_revision resolved,
          bc_endpoint = dict_of (freeze_view (PDict ep)), bc_capability_set = dict_of (freeze_view (PDict cs))\<rparr>"
proof -
  let ?id = "case validate_initialized_identity resolved v of
      Inl e \<Rightarrow> reject_authority ''initialized identity is not trusted'' | Inr u \<Rightarrow> Inr u"
  obtain d where d: "v = PDict d"
    using assms unfolding bind_initialized_def rbind_Inr_iff accept_if_iff is_dict_iff by blast
  have "\<exists>u. ?id = Inr u"
    using assms unfolding bind_initialized_def Let_def rbind_Inr_iff by blast
  then have i: "validate_initialized_identity resolved v = Inr ()"
    by (cases "validate_initialized_identity resolved v") auto
  have "dict_of v = d" by (simp add: d dict_of_def)
  then show thesis
    using assms unfolding bind_initialized_def Let_def rbind_Inr_iff as_mapping_iff dget_none_shapes
    by (elim exE conjE) (rule that [OF d i]; auto)
qed

lemma bind_bound_ok:
  assumes "bind_initialized registry resolved v = Inr b"
  shows "bound_ok b"
proof -
  obtain d ep cs rd tep tcs where "require_exact_endpoint resolved ep tep = Inr ()" "require_exact_capability_set ep cs tcs = Inr ()"
    and b: "b = \<lparr>bc_adapter_id = rv_adapter_id resolved, bc_adapter_revision = rv_adapter_revision resolved,
          bc_manifest_id = rv_manifest_id resolved, bc_manifest_revision = rv_manifest_revision resolved,
          bc_endpoint = dict_of (freeze_view (PDict ep)), bc_capability_set = dict_of (freeze_view (PDict cs))\<rparr>"
    using assms by (rule bindE) 
  then have "validate_endpoint_shape ep = Inr ()" "validate_capability_set_shape cs = Inr ()"
    by (simp_all add: require_exact_endpoint_def require_exact_capability_set_def rbind_Inr_iff)
  from validated_endpoint [OF this(1)] validated_capability_set [OF this(2)] show ?thesis
    unfolding bound_ok_def b bound_context.select_convs dget_freeze by (fastforce dest: seq_freeze)
qed

lemma registry_record_ok:
  assumes "new_authority_registry v = Inr registry" and "registry_record registry k = Inr rd"
  shows "record_ok rd"
proof -
  obtain ys where ys: "rmap (\<lambda>kv. rbind (validate_record_key (fst kv)) (\<lambda>_. validate_authority_record (fst kv) (snd kv))) registry = Inr ys"
    using assms(1) by (auto simp: new_authority_registry_def rbind_Inr_iff)
  obtain w where w: "(PStr k, w) \<in> set registry" "rd = dict_of w"
    using assms(2) by (auto simp: registry_record_def dest: map_of_SomeD split: option.splits)
  have "validate_authority_record (PStr k) w = Inr ()"
    using rmap_Inr_mem [OF ys w(1)] by (auto simp: rbind_Inr_iff)
  then obtain d relations profiles rs ps where "w = PDict d" "keys_are AUTHORITY_RECORD_FIELDS d"
      "sequence_of (dget_none ''session_action_relations'' d) ''session action relations'' = Inr relations"
      "rmap validate_session_action_relation_shape relations = Inr rs"
      "sequence_of (dget_none ''evidence_profiles'' d) ''evidence profiles'' = Inr profiles"
      "rmap validate_evidence_profile_shape profiles = Inr ps"
    unfolding validate_authority_record_def rbind_Inr_iff as_mapping_iff accept_if_iff by blast
  moreover have "record_sequence f d = Inr xs" if "sequence_of (dget_none f d) n = Inr xs" for f n xs
    using that by (cases "dget f d") (auto simp: record_sequence_def sequence_of_def dsub_def dget_none_def split: option.splits)
  ultimately show ?thesis using w(2) by (auto simp: record_ok_def dict_of_def)
qed

section \<open>Authorization fails closed\<close>

lemma in_names_hashable: "hashable v \<Longrightarrow> in_names v ns = Inr (\<exists>n \<in> set ns. v = PStr n)"
  by (simp add: in_names_def)

lemma closed_entries:
  assumes "bound_ok b"
  shows "fails_closed (capability_entries (bc_capability_set b))" "fails_closed (select_capability (bc_capability_set b) v)"
    "fails_closed (require_supported_entry (bc_endpoint b) d)" "fails_closed (dsub ''revision'' (bc_capability_set b))"
    "fails_closed (dsub ''capability_set_id'' (bc_endpoint b))"
proof -
  obtain name r set_id r' w xs where b: "dget ''adapter_name'' (bc_endpoint b) = Some (PStr name)"
    "dget ''adapter_revision'' (bc_endpoint b) = Some (PStr r)" "dget ''capability_set_id'' (bc_endpoint b) = Some (PStr set_id)"
    "dget ''revision'' (bc_capability_set b) = Some (PStr r')" "dget ''capabilities'' (bc_capability_set b) = Some w"
    "seq_items w = Some xs"
    using assms unfolding bound_ok_def by blast
  have e: "capability_entries (bc_capability_set b) = Inr xs" using b(5,6) by (auto simp: capability_entries_iff)
  then show "fails_closed (capability_entries (bc_capability_set b))" by simp
  show "fails_closed (select_capability (bc_capability_set b) v)"
    unfolding select_capability_def by (intro never_intros) (simp add: e)
  show "fails_closed (require_supported_entry (bc_endpoint b) d)" by (rule closed_supported [OF b(1,2)])
  show "fails_closed (dsub ''revision'' (bc_capability_set b))" "fails_closed (dsub ''capability_set_id'' (bc_endpoint b))"
    using b by (simp_all add: dsub_def)
qed

lemma supported_quality:
  assumes "require_supported_entry ep d = Inr u"
  obtains q where "dsub ''quality'' d = Inr (PStr q)" and "q \<noteq> []" and "q \<noteq> lit ''unsupported''"
proof -
  have "\<exists>q. dget ''quality'' d = Some (PStr q) \<and> q \<noteq> [] \<and> q \<noteq> lit ''unsupported''"
    using assms unfolding require_supported_entry_def rbind_Inr_iff accept_if_iff nonempty_text_iff dget_none_shapes
    by (auto simp: dget_none_def)
  then show thesis using that by (auto simp: dsub_def)
qed

lemma rmap_pairs:
  "rmap f xs = Inr ys \<Longrightarrow> (\<And>x y. f x = Inr y \<Longrightarrow> never P (g y)) \<Longrightarrow> never P (rmap (\<lambda>x. rbind (f x) g) xs)"
  by (rule never_rmap) (metis never_rbind never_simps(2) rmap_Inr_mem)

lemma the_only_iff [simp]: "the_only xs msg = Inr x \<longleftrightarrow> xs = [x]"
  by (auto simp: the_only_def split: list.splits)

text \<open>The selected relation is one of the record's, validated, and the only one that names the bound set and the method.\<close>

lemma selected_relation:
  assumes "select_session_action_relation relations b m = Inr d"
  obtains v where "v \<in> set relations" and "validate_session_action_relation_shape v = Inr d" and "relation_matches b m d = Inr True"
proof -
  let ?f = "\<lambda>v. rbind (validate_session_action_relation_shape v) (\<lambda>d. rbind (relation_matches b m d) (\<lambda>b. Inr (d, b)))"
  obtain rows where rows: "rmap ?f relations = Inr rows" "map fst (filter snd rows) = [d]"
    using assms by (auto simp: select_session_action_relation_def rbind_Inr_iff)
  have "d \<in> set (map fst (filter snd rows))" by (simp add: rows(2))
  then have "(d, True) \<in> set rows" by auto
  then obtain v where "v \<in> set relations" "?f v = Inr (d, True)" using rmap_Inr_mem_back [OF rows(1)] by blast
  then show thesis using that by (auto simp: rbind_Inr_iff)
qed

lemma relation_members:
  assumes "validate_session_action_relation_shape v = Inr d"
  obtains c q where "dsub ''selected_capability'' d = Inr (PStr c)" and "dsub ''required_quality'' d = Inr (PStr q)"
proof -
  have l: "list_all (\<lambda>f. nonempty_text (dget_none f d))
      [''capability_set_id'', ''capability_set_revision'', ''selected_capability'', ''required_quality'']"
    using assms unfolding validate_session_action_relation_shape_def rbind_Inr_iff accept_if_iff sum.inject by blast
  show thesis
    using that text_members [OF l, of "''selected_capability''"] text_members [OF l, of "''required_quality''"] by (auto simp: dsub_def)
qed

lemma closed_request:
  assumes "bound_ok b" and "new_authority_registry v = Inr registry" and "hashable m"
  shows "fails_closed (validate_request_authority registry b m caller)"
proof -
  note leaves = closed_entries [OF assms(1)] closed_leaves_of_authority
  have relation: "fails_closed (select_session_action_relation relations b m)"
    if r: "record_sequence ''session_action_relations'' rd = Inr relations" "record_ok rd" for rd relations
  proof -
    obtain rs where rs: "rmap validate_session_action_relation_shape relations = Inr rs"
      using r by (auto simp: record_ok_def)
    have "fails_closed (relation_matches b m d)" for d
      unfolding relation_matches_def all_of.simps by (intro never_intros leaves) simp_all
    then show ?thesis
      unfolding select_session_action_relation_def
      by (intro never_intros leaves rmap_pairs [OF rs]) auto
  qed
  have relations: "fails_closed (record_sequence ''session_action_relations'' rd)" if "registry_record registry k = Inr rd" for k rd
    using registry_record_ok [OF assms(2) that] by (auto simp: record_ok_def)
  have members: "fails_closed (dsub ''selected_capability'' d)" "fails_closed (dsub ''required_quality'' d)"
    if "select_session_action_relation relations b m = Inr d" for relations d
    using that by (elim selected_relation relation_members, simp)+
  have quality: "fails_closed (dsub ''quality'' d)" if "require_supported_entry (bc_endpoint b) d = Inr u" for d u
    using that by (elim supported_quality) simp
  show ?thesis
    unfolding validate_request_authority_def
    by (intro never_intros leaves relation relations members quality registry_record_ok [OF assms(2)])
      (simp_all add: in_names_hashable assms(3))
qed

lemma closed_profile:
  assumes "bound_ok b" and "new_authority_registry v = Inr registry" and "\<And>d. ev = PDict d \<Longrightarrow> hashable (dget_none ''quality'' d)"
  shows "fails_closed (validate_evidence_profile_authority registry b ev caller)"
proof -
  note leaves = closed_entries [OF assms(1)] closed_leaves_of_authority
  have profiles: "fails_closed (record_sequence ''evidence_profiles'' rd)" if "registry_record registry k = Inr rd" for k rd
    using registry_record_ok [OF assms(2) that] by (auto simp: record_ok_def)
  have select: "fails_closed (select_evidence_profile ps i r)" for ps i r
    unfolding select_evidence_profile_def by (intro never_intros leaves)
  have ceiling: "fails_closed (require_evidence_quality_ceiling q e)"
    if s: "require_supported_entry (bc_endpoint b) d = Inr u" and q: "dsub ''quality'' d = Inr q" for d u e q
  proof -
    have "hashable q" using s q by (elim supported_quality) auto
    then show ?thesis
      unfolding require_evidence_quality_ceiling_def by (intro never_intros leaves) (simp add: in_names_hashable)
  qed
  have quality: "fails_closed (dsub ''quality'' d)" if "require_supported_entry (bc_endpoint b) d = Inr u" for d u
    using that by (elim supported_quality) simp
  have known: "fails_closed (in_names (dget_none ''quality'' d) EVIDENCE_QUALITIES)" if "as_mapping ev n = Inr d" for n d
    using assms(3) that by (simp add: in_names_hashable)
  show ?thesis
    unfolding validate_evidence_profile_authority_def Let_def
    by (intro never_intros leaves profiles select quality known; (rule ceiling | simp); assumption)
qed

text \<open>
  C20. Authority fails closed: binding, for every registry and every declaration, raises the documented error or nothing. In a context
  that a validated registry bound, so do request and evidence authorization, with one exception each: an unhashable
  method, and an unhashable quality in the evidence an adapter or a session carries, escape as a \<open>TypeError\<close>.
\<close>

theorem authority_fails_closed:
  assumes "new_authority_registry v = Inr registry"
  shows "(bind_initialized registry resolved declared = Inl e \<longrightarrow> authority_error e) \<and>
    (bind_initialized registry resolved declared = Inr b \<longrightarrow>
      (validate_request_authority registry b m PNone = Inl e \<longrightarrow>
         authority_error e \<or> \<not> hashable m \<and> e = TypeErr ''unhashable type'') \<and>
      (validate_evidence_profile_authority registry b (PDict ev) PNone = Inl e \<longrightarrow>
         authority_error e \<or> \<not> hashable (dget_none ''quality'' ev) \<and> e = TypeErr ''unhashable type'')) \<and>
    (\<not> hashable (dget_none ''quality'' ev) \<longrightarrow>
       validate_evidence_profile_authority registry b (PDict ev) PNone = Inl (TypeErr ''unhashable type''))"
proof (intro conjI impI)
  show "authority_error e" if "bind_initialized registry resolved declared = Inl e"
    using neverD [OF closed_binding that] by simp
next
  assume "bind_initialized registry resolved declared = Inr b"
  then have b: "bound_ok b" by (rule bind_bound_ok)
  show "authority_error e \<or> \<not> hashable m \<and> e = TypeErr ''unhashable type''"
    if "validate_request_authority registry b m PNone = Inl e"
  proof (cases "hashable m")
    case True
    then show ?thesis using neverD [OF closed_request [OF b assms True] that] by simp
  qed (use that in \<open>simp add: validate_request_authority_def in_names_def accept_if_def\<close>)
  show "authority_error e \<or> \<not> hashable (dget_none ''quality'' ev) \<and> e = TypeErr ''unhashable type''"
    if "validate_evidence_profile_authority registry b (PDict ev) PNone = Inl e"
  proof (cases "hashable (dget_none ''quality'' ev)")
    case True
    then show ?thesis using neverD [OF closed_profile [OF b assms] that] by simp
  qed (use that in \<open>simp add: validate_evidence_profile_authority_def as_mapping_def dict_of_def in_names_def accept_if_def\<close>)
qed (simp add: validate_evidence_profile_authority_def as_mapping_def dict_of_def in_names_def accept_if_def)

section \<open>What binding establishes\<close>

text \<open>Equal dictionaries have equal texts under every name.\<close>

lemma same_text_member:
  assumes "py_eq (PDict a) (PDict b)" and "distinct (map fst b)" and "dget f a = Some (PStr s)"
  shows "dget f b = Some (PStr s)"
proof -
  have "(sv f, PStr s) \<in> set a" using assms(3) by (simp add: dget_def map_of_SomeD)
  moreover have "list_all (\<lambda>kv. list_ex (\<lambda>kv'. py_key (fst kv) = py_key (fst kv') \<and> py_same (snd kv) (snd kv')) b) a"
    using assms(1) by (simp only: py_eq_def py_same.simps pyval.case)
  ultimately obtain kv' where "kv' \<in> set b" "py_key (sv f) = py_key (fst kv')" "py_same (PStr s) (snd kv')"
    unfolding list_all_iff list_ex_iff by fastforce
  then have "(sv f, PStr s) \<in> set b" by (metis prod.collapse py_key.simps(5) py_key_PStr_iff(2) py_same.simps(8))
  then show ?thesis using assms(2) by (simp add: dget_def)
qed

text \<open>An entry of a bound set: unsupported and bare, or attested by the adapter the endpoint names.\<close>

definition attested :: "pydict \<Rightarrow> pyval \<Rightarrow> bool" where
  "attested ep v \<longleftrightarrow>
     (\<exists>d. v = PDict d \<and>
        (keys_are UNSUPPORTED_CAPABILITY_FIELDS d \<and> dget ''quality'' d = Some (sv ''unsupported'') \<or>
         (\<exists>q ev s. keys_are CAPABILITY_FIELDS d \<and> dget ''quality'' d = Some (PStr q) \<and> q \<noteq> lit ''unsupported'' \<and>
            dget ''evidence'' d = Some (PDict ev) \<and> dget_none ''source_id'' ev = dget_none ''adapter_name'' ep \<and>
            dget_none ''source_revision'' ev = dget_none ''adapter_revision'' ep \<and>
            dget ''integrity'' ev = Some (PStr s) \<and> length s = 71)))"

lemma supported_attested:
  assumes "require_supported_entry ep d = Inr u" and "validate_endpoint_shape ep = Inr u'"
  shows "attested ep (PDict d)"
proof -
  obtain name r where ep: "dget ''adapter_name'' ep = Some (PStr name)" "dget ''adapter_revision'' ep = Some (PStr r)"
    using validated_endpoint [OF assms(2)] by blast
  obtain ev where ev: "keys_are CAPABILITY_FIELDS d" "dget ''evidence'' d = Some (PDict ev)"
      "py_eq (dget_none ''source_id'' ev) (PStr name)" "py_eq (dget_none ''source_revision'' ev) (PStr r)"
      "is_integrity (dget_none ''integrity'' ev)"
    using assms(1) ep unfolding require_supported_entry_def rbind_Inr_iff accept_if_iff as_mapping_iff dget_none_shapes dsub_def
    by auto
  obtain q where q: "dsub ''quality'' d = Inr (PStr q)" "q \<noteq> lit ''unsupported''"
    using assms(1) by (rule supported_quality)
  moreover obtain s where "dget ''integrity'' ev = Some (PStr s)" "length s = 71"
    using ev(5) by (cases "dget_none ''integrity'' ev") (auto simp: is_integrity_def dget_none_shapes)
  ultimately show ?thesis
    using ev ep by (auto simp: attested_def dget_none_def dsub_def split: option.splits)
qed

text \<open>
  C18. A bound context is host-trusted: what an adapter declares is bound only if its endpoint equals the resolved manifest's and the
  reviewed record's, its capability set equals the record's, every entry is unsupported or attested by that very
  adapter, and its declared adapter revision is the manifest's. The context carries that endpoint and set, frozen.
\<close>

theorem bound_is_trusted:
  assumes "resolve key manifests = Inr r" and "distinct (map fst (rv_endpoint r))"
    and "bind_initialized registry r declared = Inr b"
  shows "\<exists>d ep cs rd tep tcs w xs. declared = PDict d \<and> registry_record registry (rv_adapter_id r) = Inr rd \<and>
    dget ''endpoint'' d = Some (PDict ep) \<and> dget ''capability_set'' d = Some (PDict cs) \<and>
    dget ''endpoint'' rd = Some (PDict tep) \<and> dget ''capability_set'' rd = Some (PDict tcs) \<and>
    py_eq (PDict ep) (PDict (rv_endpoint r)) \<and> py_eq (PDict ep) (PDict tep) \<and> py_eq (PDict cs) (PDict tcs) \<and>
    dget ''adapter_id'' d = Some (PStr (rv_adapter_id r)) \<and> dget ''adapter_revision'' d = Some (PStr (rv_adapter_revision r)) \<and>
    dget ''capabilities'' cs = Some w \<and> seq_items w = Some xs \<and> (\<forall>x \<in> set xs. attested ep x) \<and>
    PDict (bc_endpoint b) = freeze_view (PDict ep) \<and> PDict (bc_capability_set b) = freeze_view (PDict cs)"
proof -
  obtain d ep cs rd tep tcs where p: "declared = PDict d" "validate_initialized_identity r declared = Inr ()"
    "registry_record registry (rv_adapter_id r) = Inr rd"
    "dget ''endpoint'' d = Some (PDict ep)" "dget ''capability_set'' d = Some (PDict cs)"
    "dget ''endpoint'' rd = Some (PDict tep)" "dget ''capability_set'' rd = Some (PDict tcs)"
    "require_exact_endpoint r ep tep = Inr ()" "require_exact_capability_set ep cs tcs = Inr ()"
    "validate_capability_entries ep cs = Inr ()"
    and b: "b = \<lparr>bc_adapter_id = rv_adapter_id r, bc_adapter_revision = rv_adapter_revision r,
          bc_manifest_id = rv_manifest_id r, bc_manifest_revision = rv_manifest_revision r,
          bc_endpoint = dict_of (freeze_view (PDict ep)), bc_capability_set = dict_of (freeze_view (PDict cs))\<rparr>"
    using assms(3) by (rule bindE)
  have e: "validate_endpoint_shape ep = Inr ()" "py_eq (PDict ep) (PDict (rv_endpoint r))" "py_eq (PDict ep) (PDict tep)"
    using p(8) unfolding require_exact_endpoint_def rbind_Inr_iff accept_if_iff by auto
  have c: "py_eq (PDict cs) (PDict tcs)"
    using p(9) unfolding require_exact_capability_set_def rbind_Inr_iff accept_if_iff by auto
  obtain w xs ys where x: "dget ''capabilities'' cs = Some w" "seq_items w = Some xs" "rmap (validate_capability_entry ep) xs = Inr ys"
    using p(10) by (auto simp: validate_capability_entries_def rbind_Inr_iff capability_entries_iff)
  have "attested ep v" if "v \<in> set xs" for v
  proof -
    have v: "validate_capability_entry ep v = Inr ()" using rmap_Inr_mem [OF x(3) that] by auto
    then obtain dd where "v = PDict dd" by (auto simp: validate_capability_entry_def rbind_Inr_iff is_dict_iff)
    then show ?thesis
      using v e(1) by (auto simp: validate_capability_entry_def Let_def dict_of_def rbind_Inr_iff attested_def dget_none_shapes
          split: if_splits dest: supported_attested)
  qed
  moreover obtain dr where "dget ''adapter_id'' d = Some (PStr (rv_adapter_id r))" "dget ''adapter_revision'' d = Some (PStr dr)"
    "dget ''adapter_revision'' ep = Some (PStr dr)"
    using p(2,4) unfolding p(1) initialized_identity_iff by auto
  moreover have "dget ''adapter_revision'' (rv_endpoint r) = Some (PStr (rv_adapter_revision r))"
    using assms(1) by (auto simp: resolve_iff trusted_manifest_def)
  ultimately show ?thesis
    using p e c x b same_text_member [OF e(2) assms(2)] by (auto simp: dict_of_def)
qed

section \<open>What authorization establishes\<close>

text \<open>The one entry of the bound set with this capability, supported and attested.\<close>

definition grants :: "bound_context \<Rightarrow> pystr \<Rightarrow> pystr \<Rightarrow> bool" where
  "grants b c q \<longleftrightarrow>
     (\<exists>xs entry. capability_entries (bc_capability_set b) = Inr xs \<and>
        filter (\<lambda>d. dget ''capability'' d = Some (PStr c)) (map dict_of (filter is_dict xs)) = [entry] \<and>
        dget ''quality'' entry = Some (PStr q) \<and> q \<noteq> lit ''unsupported'' \<and> require_supported_entry (bc_endpoint b) entry = Inr ())"

lemma selected_grants:
  assumes "select_capability (bc_capability_set b) v = Inr entry" and "require_supported_entry (bc_endpoint b) entry = Inr u"
    and "dsub ''quality'' entry = Inr w"
  obtains c q where "v = PStr c" and "w = PStr q" and "grants b c q"
proof -
  obtain c xs where c: "v = PStr c" "capability_entries (bc_capability_set b) = Inr xs"
      "filter (\<lambda>d. dget ''capability'' d = Some (PStr c)) (map dict_of (filter is_dict xs)) = [entry]"
    using assms(1) unfolding select_capability_def rbind_Inr_iff capability_token_iff the_only_iff py_eq_PStr_right dget_none_shapes
    by blast
  obtain q where "dsub ''quality'' entry = Inr (PStr q)" "q \<noteq> lit ''unsupported''" using assms(2) by (rule supported_quality)
  then show thesis
    using that [OF c(1), of q] c(2,3) assms(2,3) by (auto simp: grants_def dsub_def split: option.splits)
qed

lemma evidence_decision:
  assumes "validate_evidence_profile_authority registry b v caller = Inr d"
  obtains ev au q where "caller = PNone" and "v = PDict ev" and "dget ''authority'' ev = Some (PDict au)"
    and "dget ''quality'' ev = Some (PStr (ed_evidence_quality d))" and "ed_evidence_quality d \<in> set EVIDENCE_QUALITIES"
    and "dget ''capability_profile_id'' au = Some (PStr (ed_capability_profile_id d))"
    and "dget ''revision'' (bc_capability_set b) = Some (PStr (ed_capability_profile_revision d))"
    and "grants b (ed_capability_profile_id d) q" and "q \<in> set EVIDENCE_QUALITIES"
    and "ed_evidence_quality d = lit ''authoritative'' \<Longrightarrow> q = lit ''authoritative''"
proof -
  obtain ev au i r rw rd profiles p entry w where
    e: "caller = PNone" "v = PDict ev" "in_names (dget_none ''quality'' ev) EVIDENCE_QUALITIES = Inr True"
      "dget ''authority'' ev = Some (PDict au)" "capability_token (dget_none ''capability_profile_id'' au) = Inr i"
      "dsub ''revision'' (bc_capability_set b) = Inr rw" "py_eq (PStr r) rw"
      "select_capability (bc_capability_set b) (PStr i) = Inr entry" "require_supported_entry (bc_endpoint b) entry = Inr ()"
      "dsub ''quality'' entry = Inr w" "require_evidence_quality_ceiling w (dget_none ''quality'' ev) = Inr ()"
      "ed_capability_profile_id d = i" "ed_capability_profile_revision d = r"
      "ed_evidence_quality d = str_of (dget_none ''quality'' ev)"
    using assms unfolding validate_evidence_profile_authority_def Let_def rbind_Inr_iff accept_if_iff as_mapping_iff dget_none_shapes
    by auto
  obtain q where q: "w = PStr q" "grants b i q" using e(8-10) by (auto elim: selected_grants)
  obtain n where n: "dget ''quality'' ev = Some (PStr n)" "n \<in> set EVIDENCE_QUALITIES"
    using e(3) by (auto simp: in_names_def dget_none_shapes split: if_splits)
  have k: "q \<in> set EVIDENCE_QUALITIES" "n = lit ''authoritative'' \<Longrightarrow> q = lit ''authoritative''"
    using e(11) n q by (auto simp: require_evidence_quality_ceiling_def rbind_Inr_iff in_names_def dget_none_def grants_def EVIDENCE_QUALITIES_def)
  have str: "ed_evidence_quality d = n" using e(14) n(1) by (simp add: dget_none_def str_of_def)
  show thesis
    by (rule that [of ev au q])
      (use e q n k str in \<open>auto simp: capability_token_iff dget_none_shapes dsub_def split: option.splits\<close>)
qed

text \<open>
  Evidence never exceeds what was bound: an accepted evidence profile carries the bound capability-set revision, names a capability
  the bound set holds exactly once and the bound adapter attests, and authoritative evidence is accepted only for a
  capability whose bound quality is authoritative.
\<close>

theorem evidence_within_bound:
  assumes "validate_evidence_profile_authority registry b v caller = Inr d"
  shows "caller = PNone \<and>
    (\<exists>ev au q. v = PDict ev \<and> dget ''authority'' ev = Some (PDict au) \<and>
       dget ''quality'' ev = Some (PStr (ed_evidence_quality d)) \<and> ed_evidence_quality d \<in> set EVIDENCE_QUALITIES \<and>
       dget ''capability_profile_id'' au = Some (PStr (ed_capability_profile_id d)) \<and>
       dget ''revision'' (bc_capability_set b) = Some (PStr (ed_capability_profile_revision d)) \<and>
       grants b (ed_capability_profile_id d) q \<and> q \<in> set EVIDENCE_QUALITIES \<and>
       (ed_evidence_quality d = lit ''authoritative'' \<longrightarrow> q = lit ''authoritative''))"
  using assms by (rule evidence_decision) blast

lemma request_decision:
  assumes "validate_request_authority registry b m caller = Inr d"
  obtains rd relations v rel where "caller = PNone" and "m = PStr (cd_method d)" and "cd_method d \<in> set SESSION_METHODS"
    and "registry_record registry (bc_adapter_id b) = Inr rd" and "record_sequence ''session_action_relations'' rd = Inr relations"
    and "v \<in> set relations" and "validate_session_action_relation_shape v = Inr rel" and "relation_matches b m rel = Inr True"
    and "dget ''selected_capability'' rel = Some (PStr (cd_selected_capability d))"
    and "dget ''required_quality'' rel = Some (PStr (cd_selected_quality d))"
    and "grants b (cd_selected_capability d) (cd_selected_quality d)"
proof -
  obtain rd relations rel sel entry w req where
    e: "caller = PNone" "in_names m SESSION_METHODS = Inr True" "registry_record registry (bc_adapter_id b) = Inr rd"
      "record_sequence ''session_action_relations'' rd = Inr relations"
      "select_session_action_relation relations b m = Inr rel" "dsub ''selected_capability'' rel = Inr sel"
      "select_capability (bc_capability_set b) sel = Inr entry" "require_supported_entry (bc_endpoint b) entry = Inr ()"
      "dsub ''quality'' entry = Inr w" "dsub ''required_quality'' rel = Inr req" "py_eq w req"
      "d = \<lparr>cd_method = str_of m, cd_selected_capability = str_of sel, cd_selected_quality = str_of w\<rparr>"
    using assms unfolding validate_request_authority_def rbind_Inr_iff accept_if_iff sum.inject by auto
  obtain v where v: "v \<in> set relations" "validate_session_action_relation_shape v = Inr rel" "relation_matches b m rel = Inr True"
    using e(5) by (rule selected_relation)
  obtain n where n: "m = PStr n" "n \<in> set SESSION_METHODS" using e(2) by (auto simp: in_names_def split: if_splits)
  obtain c q where c: "sel = PStr c" "w = PStr q" "grants b c q" using e(7-9) by (rule selected_grants)
  show thesis
    by (rule that [OF e(1) _ _ e(3,4) v])
      (use e n c in \<open>auto simp: str_of_def dsub_def split: option.splits\<close>)
qed

text \<open>
  What an action rests on: a reviewed relation of the adapter's record that names the bound set, its revision and the method, and selects
  a capability the context grants with exactly the required quality. What an evidence decision stays within.
\<close>

definition authorized_action :: "pydict \<Rightarrow> bound_context \<Rightarrow> capability_decision \<Rightarrow> bool" where
  "authorized_action registry b a \<longleftrightarrow>
     cd_method a \<in> set SESSION_METHODS \<and> grants b (cd_selected_capability a) (cd_selected_quality a) \<and>
     (\<exists>rd relations v rel. registry_record registry (bc_adapter_id b) = Inr rd \<and>
        record_sequence ''session_action_relations'' rd = Inr relations \<and> v \<in> set relations \<and>
        validate_session_action_relation_shape v = Inr rel \<and> relation_matches b (PStr (cd_method a)) rel = Inr True \<and>
        dget ''selected_capability'' rel = Some (PStr (cd_selected_capability a)) \<and>
        dget ''required_quality'' rel = Some (PStr (cd_selected_quality a)))"

definition within_context :: "bound_context \<Rightarrow> evidence_profile_decision \<Rightarrow> bool" where
  "within_context b e \<longleftrightarrow>
     dget ''revision'' (bc_capability_set b) = Some (PStr (ed_capability_profile_revision e)) \<and>
     (\<exists>q. grants b (ed_capability_profile_id e) q \<and> (ed_evidence_quality e = lit ''authoritative'' \<longrightarrow> q = lit ''authoritative''))"

text \<open>
  A decision about the evidence a document carries: it repeats the kind, the quality and the profile this very evidence claims, the profile is one the
  adapter's record reviewed, and the decision stays within the context.
\<close>

definition carries_evidence :: "pyval \<Rightarrow> evidence_profile_decision \<Rightarrow> bool" where
  "carries_evidence v e \<longleftrightarrow>
     (\<exists>d ev au. v = PDict d \<and> dget ''evidence'' d = Some (PDict ev) \<and> dget ''evidence_kind'' ev = Some (PStr (ed_evidence_kind e)) \<and>
        dget ''quality'' ev = Some (PStr (ed_evidence_quality e)) \<and> dget ''authority'' ev = Some (PDict au) \<and>
        dget ''capability_profile_id'' au = Some (PStr (ed_capability_profile_id e)) \<and>
        dget ''capability_profile_revision'' au = Some (PStr (ed_capability_profile_revision e)))"

definition reviewed_profile :: "pydict \<Rightarrow> bound_context \<Rightarrow> evidence_profile_decision \<Rightarrow> bool" where
  "reviewed_profile registry b e \<longleftrightarrow>
     (\<exists>rd profiles x p. registry_record registry (bc_adapter_id b) = Inr rd \<and> record_sequence ''evidence_profiles'' rd = Inr profiles \<and>
        x \<in> set profiles \<and> validate_evidence_profile_shape x = Inr p \<and>
        dget ''capability_profile_id'' p = Some (PStr (ed_capability_profile_id e)) \<and>
        dget ''capability_profile_revision'' p = Some (PStr (ed_capability_profile_revision e)))"

definition evidence_decided :: "pydict \<Rightarrow> bound_context \<Rightarrow> pyval \<Rightarrow> evidence_profile_decision \<Rightarrow> bool" where
  "evidence_decided registry b v e \<longleftrightarrow> carries_evidence v e \<and> reviewed_profile registry b e \<and> within_context b e"

lemma selected_profile:
  assumes "select_evidence_profile profiles i r = Inr p"
  shows "\<exists>x \<in> set profiles. validate_evidence_profile_shape x = Inr p \<and> dget ''capability_profile_id'' p = Some (PStr i) \<and>
    dget ''capability_profile_revision'' p = Some (PStr r)"
proof -
  obtain ds where ds: "rmap validate_evidence_profile_shape profiles = Inr ds"
    "filter (\<lambda>d. py_eq (dget_none ''capability_profile_id'' d) (PStr i) \<and> py_eq (dget_none ''capability_profile_revision'' d) (PStr r)) ds = [p]"
    using assms by (auto simp: select_evidence_profile_def rbind_Inr_iff)
  have "p \<in> set (filter (\<lambda>d. py_eq (dget_none ''capability_profile_id'' d) (PStr i) \<and> py_eq (dget_none ''capability_profile_revision'' d) (PStr r)) ds)"
    unfolding ds(2) by simp
  then have "p \<in> set ds" "dget_none ''capability_profile_id'' p = PStr i" "dget_none ''capability_profile_revision'' p = PStr r" by auto
  moreover from this(1) obtain x where "x \<in> set profiles" "validate_evidence_profile_shape x = Inr p"
    using rmap_Inr_mem_back [OF ds(1)] by blast
  ultimately show ?thesis by (auto simp: dget_none_shapes)
qed

lemma evidence_of_decided:
  assumes "evidence_of registry b v name = Inr e"
  shows "evidence_decided registry b v e"
proof -
  obtain d ev where v: "v = PDict d" "dget ''evidence'' d = Some (PDict ev)"
    and w: "validate_evidence_profile_authority registry b (PDict ev) PNone = Inr e"
    using assms by (auto simp: evidence_of_def carried_evidence_def rbind_Inr_iff dget_none_shapes)
  have "within_context b e" using w by (elim evidence_decision) (auto simp: within_context_def)
  moreover obtain au rd profiles p where
    "dget ''authority'' ev = Some (PDict au)" "dget ''quality'' ev = Some (PStr (ed_evidence_quality e))"
    "nonempty_text (dget_none ''evidence_kind'' ev)" "ed_evidence_kind e = str_of (dget_none ''evidence_kind'' ev)"
    "capability_token (dget_none ''capability_profile_id'' au) = Inr (ed_capability_profile_id e)"
    "capability_token (dget_none ''capability_profile_revision'' au) = Inr (ed_capability_profile_revision e)"
    and r: "registry_record registry (bc_adapter_id b) = Inr rd" "record_sequence ''evidence_profiles'' rd = Inr profiles"
      "select_evidence_profile profiles (ed_capability_profile_id e) (ed_capability_profile_revision e) = Inr p"
    using w evidence_decision [OF w]
    unfolding validate_evidence_profile_authority_def Let_def rbind_Inr_iff accept_if_iff as_mapping_iff dget_none_shapes
    by (fastforce simp: dget_none_shapes)
  moreover from this(3) obtain k where k: "dget ''evidence_kind'' ev = Some (PStr k)" by (auto simp: dget_none_shapes)
  moreover have "reviewed_profile registry b e"
    using r selected_profile [OF r(3)] unfolding reviewed_profile_def by blast
  ultimately show ?thesis
    using v unfolding evidence_decided_def carries_evidence_def
    by (auto simp: capability_token_iff dget_none_shapes k dget_none_def [of "''evidence_kind''"] str_of_def)
qed

text \<open>The documents whose evidence a method needs, in order.\<close>

definition needed_documents :: "pystr \<Rightarrow> pyval \<Rightarrow> pyval \<Rightarrow> pyval \<Rightarrow> pyval list" where
  "needed_documents m session delivery receipt =
     session # (if m = METHOD_DELIVER then [delivery] else if m = METHOD_RECONCILE \<and> receipt \<noteq> PNone then [receipt] else [])"

text \<open>
  C19. No session method without authority: an ordered-stage decision is either for health or shutdown, and decides nothing else, or names
  a session method whose action is authorized, and for each document it needs, the session's, then the delivery's or the receipt's where the
  method has one, it holds one decision about the evidence of that very document, of a reviewed profile and within the bounds of the context.
\<close>

theorem stage_decisions_authorized:
  assumes "decide_ordered_stage_authority registry b m session delivery receipt caller = Inr d"
  shows "caller = PNone \<and> m = PStr (sd_method d) \<and>
    (sd_method d \<in> set PROTOCOL_CONTROL_METHODS \<and> sd_protocol_control d \<and> sd_action d = None \<and> sd_evidence_profiles d = [] \<or>
     (\<exists>a. sd_action d = Some a \<and> \<not> sd_protocol_control d \<and> cd_method a = sd_method d \<and> authorized_action registry b a \<and>
        list_all2 (evidence_decided registry b) (needed_documents (sd_method d) session delivery receipt) (sd_evidence_profiles d)))"
proof -
  have caller: "caller = PNone" using assms unfolding decide_ordered_stage_authority_def rbind_Inr_iff accept_if_iff by blast
  obtain control where control: "in_names m PROTOCOL_CONTROL_METHODS = Inr control"
    using assms unfolding decide_ordered_stage_authority_def rbind_Inr_iff by blast
  show ?thesis
  proof (cases control)
    case True
    then obtain n where "m = PStr n" "n \<in> set PROTOCOL_CONTROL_METHODS" using control by (auto simp: in_names_def split: if_splits)
    then show ?thesis using assms caller control True by (auto simp: decide_ordered_stage_authority_def rbind_Inr_iff str_of_def)
  next
    case False
    obtain a first more where p: "validate_request_authority registry b m PNone = Inr a"
        "evidence_of registry b session ''session_ref'' = Inr first"
        "(if py_eq m (PStr METHOD_DELIVER) then rbind (evidence_of registry b delivery ''delivery'') (\<lambda>e. Inr [e])
              else if py_eq m (PStr METHOD_RECONCILE) \<and> receipt \<noteq> PNone then
                rbind (evidence_of registry b receipt ''receipt'') (\<lambda>e. Inr [e])
              else Inr []) = Inr more"
        "d = \<lparr>sd_method = str_of m, sd_protocol_control = False, sd_action = Some a, sd_evidence_profiles = first # more\<rparr>"
      using assms control False unfolding decide_ordered_stage_authority_def rbind_Inr_iff accept_if_iff
      by (auto simp: rbind_Inr_iff [where m = "in_names m SESSION_METHODS"] rbind_Inr_iff [where m = "accept_if _ _"]
          rbind_Inr_iff [where m = "validate_request_authority _ _ _ _"] rbind_Inr_iff [where m = "evidence_of _ _ _ ''session_ref''"]
          rbind_Inr_iff [where m = "if _ then _ else _"] simp del: py_eq_PStr_right split del: if_split)
    have a: "m = PStr (cd_method a)" "authorized_action registry b a"
      using p(1) by (elim request_decision; auto simp: authorized_action_def)+
    have "list_all2 (evidence_decided registry b) (needed_documents (cd_method a) session delivery receipt) (first # more)"
      using p(3) a(1) evidence_of_decided [OF p(2)]
      by (auto simp: needed_documents_def rbind_Inr_iff evidence_of_decided split: if_splits)
    then show ?thesis using caller a p(4) by (auto simp: str_of_def)
  qed
qed

end
