(* ===== verification/Binding.thy ===== *)
theory Binding
  imports Capability ReferenceDemo
begin

text \<open>
  The reference peer against the host's authority: the initialize result the peer renders binds to a registry that reviewed it, and
  the bound context authorizes what the record relates. Concrete instances of the theorems about authority.
\<close>

section \<open>The peer's own result binds\<close>

lemma peer_evidence:
  assumes "capability_evidence i = Inr e"
  obtains h where "e = [(sv ''evidence_kind'', sv ''profile_attestation''), (sv ''source_id'', PStr (ai_adapter_id i)),
       (sv ''source_revision'', PStr (ai_adapter_revision i)), (sv ''integrity'', PStr h)]" and "is_integrity (PStr h)"
proof -
  let ?e = "[(sv ''evidence_kind'', sv ''profile_attestation''), (sv ''source_id'', PStr (ai_adapter_id i)),
       (sv ''source_revision'', PStr (ai_adapter_revision i))]"
  obtain h where h: "canonical_digest ?e = Inr h" "e = AList.update (sv ''integrity'') (PStr h) ?e"
    using assms by (auto simp: capability_evidence_def with_integrity_def rbind_Inr_iff)
  obtain m where m: "h = lit ''sha256:'' @ sha256_hex m"
    using h(1) by (auto simp: canonical_digest_def digest_of_def rbind_Inr_iff)
  have "length (lit ''sha256:'') = 7" by simp
  then have "is_integrity (PStr h)"
    unfolding m is_integrity_def by (simp add: sha256_hex_shape starts_with_def list_all_iff)
  then show thesis using that [of h] h(2) by simp
qed

definition peer_capabilities :: "adapter_identity \<Rightarrow> pystr \<Rightarrow> pyval list" where
  "peer_capabilities i h =
     (let entry = (\<lambda>c. PDict [(sv ''capability'', sv c), (sv ''quality'', sv ''authoritative''),
            (sv ''constraints'', PDict [(sv ''access_mode'', sv ''observe_only'')]),
            (sv ''evidence'', PDict [(sv ''evidence_kind'', sv ''profile_attestation''), (sv ''source_id'', PStr (ai_adapter_id i)),
               (sv ''source_revision'', PStr (ai_adapter_revision i)), (sv ''integrity'', PStr h)])]) in
      [PDict [(sv ''capability'', sv ''runtime.health''), (sv ''quality'', sv ''unsupported'')], entry ''runtime.reconcile'', entry ''runtime_profile''])"

lemma peer_result:
  assumes "initialize_result i = Inr res"
  obtains scope ep h where "ai_scope i = PDict scope" and "endpoint_doc i = Inr ep" and "is_integrity (PStr h)"
    and "res = PDict
       [(sv ''negotiated_protocol_version'', sv NEGOTIATED_PROTOCOL_VERSION), (sv ''adapter_id'', PStr (ai_adapter_id i)),
        (sv ''adapter_revision'', PStr (ai_adapter_revision i)), (sv ''manifest_id'', PStr (ai_manifest_id i)),
        (sv ''manifest_revision'', PStr (ai_manifest_revision i)), (sv ''endpoint'', PDict ep),
        (sv ''capability_set'', PDict
           [(sv ''schema_version'', PInt 1), (sv ''workspace_id'', PStr (ai_workspace_id i)), (sv ''scope'', PDict scope),
            (sv ''capability_set_id'', PStr (ai_capability_set_id i)), (sv ''revision'', PStr (ai_capability_set_revision i)),
            (sv ''capabilities'', PTuple (peer_capabilities i h))])]"
proof -
  obtain e where e: "capability_evidence i = Inr e"
    using assms by (auto simp: initialize_result_def authoritative_capability_def rbind_Inr_iff)
  obtain h where h: "e = [(sv ''evidence_kind'', sv ''profile_attestation''), (sv ''source_id'', PStr (ai_adapter_id i)),
       (sv ''source_revision'', PStr (ai_adapter_revision i)), (sv ''integrity'', PStr h)]" "is_integrity (PStr h)"
    using e by (rule peer_evidence)
  obtain scope where s: "ai_scope i = PDict scope"
    using assms by (cases "ai_scope i") (auto simp: initialize_result_def endpoint_doc_def scope_dict_def rbind_Inr_iff)
  obtain ep where ep: "endpoint_doc i = Inr ep" using assms by (auto simp: initialize_result_def rbind_Inr_iff)
  show thesis
    by (rule that [OF s ep h(2)])
      (use assms s ep in \<open>simp add: initialize_result_def authoritative_capability_def e h(1) scope_dict_def peer_capabilities_def\<close>)
qed

lemma peer_endpoint_shape:
  assumes "endpoint_doc i = Inr ep" and "validate_scope (ai_scope i) = Inr ()"
    and "\<forall>n \<in> {ai_workspace_id i, ai_endpoint_id i, ai_adapter_id i, ai_adapter_revision i, ai_capability_set_id i}. n \<noteq> []"
  shows "validate_endpoint_shape ep = Inr ()" and "dget ''adapter_name'' ep = Some (PStr (ai_adapter_id i))"
    and "dget ''adapter_revision'' ep = Some (PStr (ai_adapter_revision i))" and "dget ''scope'' ep = Some (ai_scope i)"
    and "dget ''workspace_id'' ep = Some (PStr (ai_workspace_id i))" and "dget ''capability_set_id'' ep = Some (PStr (ai_capability_set_id i))"
proof -
  obtain scope where s: "ai_scope i = PDict scope" using assms(2) by (rule validated_scope)
  have ep: "ep = [(sv ''schema_version'', PInt 1), (sv ''workspace_id'', PStr (ai_workspace_id i)), (sv ''scope'', PDict scope),
        (sv ''endpoint_id'', PStr (ai_endpoint_id i)), (sv ''agent_id'', sv ''agent_alpha''),
        (sv ''adapter_name'', PStr (ai_adapter_id i)), (sv ''adapter_revision'', PStr (ai_adapter_revision i)),
        (sv ''trust_class'', sv ''managed''), (sv ''capability_set_id'', PStr (ai_capability_set_id i)),
        (sv ''platform'', PDict [(sv ''os'', sv ''other''), (sv ''architecture'', sv ''test'')]),
        (sv ''configuration_ref'', PDict [(sv ''registry_id'', sv ''registry_alpha''), (sv ''revision'', sv ''registry_rev1''),
           (sv ''reference'', sv ''reference_alpha'')])]"
    using assms(1) by (simp add: endpoint_doc_def s scope_dict_def)
  show "validate_endpoint_shape ep = Inr ()"
    using assms(2,3)
    by (simp add: validate_endpoint_shape_def ep s keys_are_def keys_within_def ENDPOINT_FIELDS_def has_key_def dget_none_def accept_if_def)
  show "dget ''adapter_name'' ep = Some (PStr (ai_adapter_id i))" "dget ''adapter_revision'' ep = Some (PStr (ai_adapter_revision i))"
    "dget ''scope'' ep = Some (ai_scope i)" "dget ''workspace_id'' ep = Some (PStr (ai_workspace_id i))"
    "dget ''capability_set_id'' ep = Some (PStr (ai_capability_set_id i))"
    by (simp_all add: ep s)
qed

lemma peer_entries:
  assumes "is_integrity (PStr h)" and "dget ''adapter_name'' ep = Some (PStr (ai_adapter_id i))"
    and "dget ''adapter_revision'' ep = Some (PStr (ai_adapter_revision i))"
  shows "\<exists>ys. rmap (validate_capability_entry ep) (peer_capabilities i h) = Inr ys"
proof -
  have tok: "capability_token (sv s) = Inr (lit s)" if "s \<in> {''runtime.health'', ''runtime.reconcile'', ''runtime_profile''}" for s
    using that by (auto simp: capability_token_iff) (auto simp: lit_def)
  show ?thesis
    using assms(1)
    by (simp add: peer_capabilities_def Let_def validate_capability_entry_def dict_of_def dget_none_def keys_are_def keys_within_def has_key_def
        UNSUPPORTED_CAPABILITY_FIELDS_def CAPABILITY_FIELDS_def ATTESTATION_FIELDS_def require_supported_entry_def tok accept_if_def
        as_mapping_def dsub_def assms(2,3))
qed

lemma peer_grants:
  assumes "is_integrity (PStr h)" and "dget ''adapter_name'' (bc_endpoint b) = Some (PStr (ai_adapter_id i))"
    and "dget ''adapter_revision'' (bc_endpoint b) = Some (PStr (ai_adapter_revision i))"
    and "capability_entries (bc_capability_set b) = Inr (peer_capabilities i h)"
  shows "grants b (lit ''runtime.reconcile'') (lit ''authoritative'')" and "grants b (lit ''runtime_profile'') (lit ''authoritative'')"
    and "\<not> grants b (lit ''runtime.health'') q"
proof -
  have tok: "capability_token (sv s) = Inr (lit s)" if "s \<in> {''runtime.reconcile'', ''runtime_profile''}" for s
    using that by (auto simp: capability_token_iff) (auto simp: lit_def)
  show "grants b (lit ''runtime.reconcile'') (lit ''authoritative'')" "grants b (lit ''runtime_profile'') (lit ''authoritative'')"
    using assms(1)
    by (simp_all add: grants_def assms(2-4) peer_capabilities_def Let_def dict_of_def require_supported_entry_def keys_are_def keys_within_def
        has_key_def dget_none_def CAPABILITY_FIELDS_def ATTESTATION_FIELDS_def tok accept_if_def as_mapping_def dsub_def)
  show "\<not> grants b (lit ''runtime.health'') q"
    by (auto simp: grants_def assms(4) peer_capabilities_def Let_def dict_of_def)
qed

lemma peer_binds:
  assumes "initialize_result i = Inr (PDict res)" and "endpoint_doc i = Inr ep" and "validate_scope (ai_scope i) = Inr ()"
    and "\<forall>n \<in> {ai_workspace_id i, ai_endpoint_id i, ai_adapter_id i, ai_adapter_revision i, ai_capability_set_id i,
      ai_capability_set_revision i, ai_manifest_id i, ai_manifest_revision i}. n \<noteq> []"
    and "rv_adapter_id r = ai_adapter_id i" and "rv_manifest_id r = ai_manifest_id i" and "rv_manifest_revision r = ai_manifest_revision i"
    and "rv_endpoint r = ep"
    and "registry_record registry (ai_adapter_id i) = Inr rd" and "dget ''endpoint'' rd = Some (PDict ep)"
    and "dget ''capability_set'' rd = dget ''capability_set'' res"
  shows "\<exists>b h. bind_initialized registry r (PDict res) = Inr b \<and> is_integrity (PStr h) \<and> bc_adapter_id b = ai_adapter_id i \<and>
    dget ''adapter_name'' (bc_endpoint b) = Some (PStr (ai_adapter_id i)) \<and>
    dget ''adapter_revision'' (bc_endpoint b) = Some (PStr (ai_adapter_revision i)) \<and>
    dget ''capability_set_id'' (bc_endpoint b) = Some (PStr (ai_capability_set_id i)) \<and>
    dget ''revision'' (bc_capability_set b) = Some (PStr (ai_capability_set_revision i)) \<and>
    capability_entries (bc_capability_set b) = Inr (peer_capabilities i h)"
proof -
  obtain scope h where s: "ai_scope i = PDict scope" and h: "is_integrity (PStr h)"
    and res: "PDict res = PDict
       [(sv ''negotiated_protocol_version'', sv NEGOTIATED_PROTOCOL_VERSION), (sv ''adapter_id'', PStr (ai_adapter_id i)),
        (sv ''adapter_revision'', PStr (ai_adapter_revision i)), (sv ''manifest_id'', PStr (ai_manifest_id i)),
        (sv ''manifest_revision'', PStr (ai_manifest_revision i)), (sv ''endpoint'', PDict ep),
        (sv ''capability_set'', PDict
           [(sv ''schema_version'', PInt 1), (sv ''workspace_id'', PStr (ai_workspace_id i)), (sv ''scope'', PDict scope),
            (sv ''capability_set_id'', PStr (ai_capability_set_id i)), (sv ''revision'', PStr (ai_capability_set_revision i)),
            (sv ''capabilities'', PTuple (peer_capabilities i h))])]" (is "_ = PDict [_, _, _, _, _, _, (_, PDict ?cs)]")
    using peer_result [OF assms(1)] assms(2) by (metis sum.inject(2))
  have ne: "\<forall>n \<in> {ai_workspace_id i, ai_endpoint_id i, ai_adapter_id i, ai_adapter_revision i, ai_capability_set_id i}. n \<noteq> []"
    using assms(4) by simp
  note ep = peer_endpoint_shape [OF assms(2,3) ne]
  have id: "validate_initialized_identity r (PDict res) = Inr ()"
    unfolding initialized_identity_iff using assms(4-7) ep by (simp add: res)
  have shape: "validate_capability_set_shape ?cs = Inr ()"
    using assms(3,4)
    by (simp add: validate_capability_set_shape_def s keys_are_def keys_within_def CAPABILITY_SET_FIELDS_def has_key_def dget_none_def
        accept_if_def)
  have cs: "require_exact_capability_set ep ?cs ?cs = Inr ()"
    unfolding require_exact_capability_set_def shape
    by (simp add: py_eq_def accept_if_def same_members_def mapping_member_def dsub_def ep s dict_of_def del: py_same.simps)
  have valid: "validate_capability_entries ep ?cs = Inr ()"
    using peer_entries [OF h ep(2,3)] by (auto simp: validate_capability_entries_def capability_entries_def dsub_def)
  have exact: "require_exact_endpoint r ep ep = Inr ()"
    by (simp add: require_exact_endpoint_def ep(1) assms(8) py_eq_def accept_if_def del: py_same.simps)
  let ?b = "\<lparr>bc_adapter_id = rv_adapter_id r, bc_adapter_revision = rv_adapter_revision r,
          bc_manifest_id = rv_manifest_id r, bc_manifest_revision = rv_manifest_revision r,
          bc_endpoint = dict_of (freeze_view (PDict ep)), bc_capability_set = dict_of (freeze_view (PDict ?cs))\<rparr>"
  have "bind_initialized registry r (PDict res) = Inr ?b"
    unfolding bind_initialized_def Let_def id assms(5,9)
    using res assms(10,11)
    by (simp add: accept_if_def dict_of_def dget_none_def as_mapping_def exact cs valid del: freeze_view.simps)
  moreover have entries: "capability_entries (bc_capability_set ?b) = Inr (peer_capabilities i h)"
  proof -
    have "map freeze_view (peer_capabilities i h) = peer_capabilities i h" by (simp add: peer_capabilities_def Let_def)
    then show ?thesis
      unfolding capability_entries_iff bound_context.select_convs dget_freeze by simp
  qed
  moreover have frozen: "dget ''adapter_name'' (bc_endpoint ?b) = Some (PStr (ai_adapter_id i))"
    "dget ''adapter_revision'' (bc_endpoint ?b) = Some (PStr (ai_adapter_revision i))"
    "dget ''capability_set_id'' (bc_endpoint ?b) = Some (PStr (ai_capability_set_id i))"
    "dget ''revision'' (bc_capability_set ?b) = Some (PStr (ai_capability_set_revision i))"
    unfolding bound_context.select_convs dget_freeze by (simp_all add: ep)
  moreover have "bc_adapter_id ?b = ai_adapter_id i" using assms(5) by simp
  ultimately show ?thesis using h by blast
qed

text \<open>
  C21. The reference peer composes with the authority: for an identity with non-empty names and a well-formed scope, the result the
  peer gives to initialization binds against the manifest of that identity and any registry whose record reviewed that
  endpoint and capability set, and the context then grants reconciliation and the runtime profile but not health.
\<close>

theorem reference_initialize_binds:
  assumes "initialize_result i = Inr (PDict res)" and "endpoint_doc i = Inr ep" and "validate_scope (ai_scope i) = Inr ()"
    and "\<forall>n \<in> {ai_workspace_id i, ai_endpoint_id i, ai_adapter_id i, ai_adapter_revision i, ai_capability_set_id i,
      ai_capability_set_revision i, ai_manifest_id i, ai_manifest_revision i}. n \<noteq> []"
    and "rv_adapter_id r = ai_adapter_id i" and "rv_manifest_id r = ai_manifest_id i" and "rv_manifest_revision r = ai_manifest_revision i"
    and "rv_endpoint r = ep"
    and "registry_record registry (ai_adapter_id i) = Inr rd" and "dget ''endpoint'' rd = Some (PDict ep)"
    and "dget ''capability_set'' rd = dget ''capability_set'' res"
  shows "\<exists>b. bind_initialized registry r (PDict res) = Inr b \<and>
    grants b (lit ''runtime.reconcile'') (lit ''authoritative'') \<and> grants b (lit ''runtime_profile'') (lit ''authoritative'') \<and>
    (\<forall>q. \<not> grants b (lit ''runtime.health'') q)"
  using peer_binds [OF assms] peer_grants by blast

section \<open>Witnesses\<close>

lemma demo_initialize_result: "\<exists>res. initialize_result default_identity = Inr (PDict res)"
proof -
  let ?e = "[(sv ''evidence_kind'', sv ''profile_attestation''), (sv ''source_id'', PStr (ai_adapter_id default_identity)),
       (sv ''source_revision'', PStr (ai_adapter_revision default_identity))]"
  have ok: "dumpable (PDict ?e)" "json_ok True (PDict ?e)" "nesting (PDict ?e) \<le> json_levels"
    by (simp_all add: default_identity_def json_levels_def)
  then obtain t where t: "dumps False (PDict ?e) = Inr t" using dumps_total [of False "PDict ?e"] by blast
  then obtain m where "digest_of t = Inr m" using dumps_clean [OF t ok(2)] by (simp add: digest_of_def utf8_encode_def)
  then obtain ev where "capability_evidence default_identity = Inr ev"
    using t by (simp add: capability_evidence_def with_integrity_def canonical_digest_def)
  then show ?thesis
    using demo_endpoint_ok(1) by (simp add: initialize_result_def authoritative_capability_def scope_dict_def) (simp add: default_identity_def)
qed

definition demo_relation :: pydict where
  "demo_relation = [(sv ''capability_set_id'', sv ''caps_alpha''), (sv ''capability_set_revision'', sv ''cap_rev1''),
     (sv ''method'', PStr METHOD_RECONCILE), (sv ''selected_capability'', sv ''runtime.reconcile''),
     (sv ''required_quality'', sv ''authoritative'')]"

definition demo_profile :: pydict where
  "demo_profile = [(sv ''capability_profile_id'', sv ''runtime_profile''), (sv ''capability_profile_revision'', sv ''cap_rev1'')]"

definition demo_record :: "pydict \<Rightarrow> pydict" where
  "demo_record res = [(sv ''adapter_id'', sv ''adapter_alpha''), (sv ''endpoint'', PDict demo_endpoint),
     (sv ''capability_set'', dget_none ''capability_set'' res), (sv ''session_action_relations'', PList [PDict demo_relation]),
     (sv ''evidence_profiles'', PList [PDict demo_profile])]"

definition demo_authority :: "pydict \<Rightarrow> pydict" where
  "demo_authority res = [(sv ''adapter_alpha'', PDict (demo_record res))]"

definition demo_adapter :: resolved_adapter where
  "demo_adapter = demo_resolved\<lparr>rv_endpoint := demo_endpoint\<rparr>"

lemma demo_binding:
  obtains res b h where "initialize_result default_identity = Inr (PDict res)"
    and "bind_initialized (demo_authority res) demo_adapter (PDict res) = Inr b"
    and "is_integrity (PStr h)" and "bc_adapter_id b = lit ''adapter_alpha''"
    and "dget ''adapter_name'' (bc_endpoint b) = Some (PStr (ai_adapter_id default_identity))"
    and "dget ''adapter_revision'' (bc_endpoint b) = Some (PStr (ai_adapter_revision default_identity))"
    and "dget ''capability_set_id'' (bc_endpoint b) = Some (sv ''caps_alpha'')"
    and "dget ''revision'' (bc_capability_set b) = Some (sv ''cap_rev1'')"
    and "capability_entries (bc_capability_set b) = Inr (peer_capabilities default_identity h)"
    and "new_authority_registry (PDict (demo_authority res)) = Inr (demo_authority res)"
proof -
  obtain res where res: "initialize_result default_identity = Inr (PDict res)" using demo_initialize_result by blast
  have scope: "validate_scope (ai_scope default_identity) = Inr ()"
    by (simp add: default_identity_def workspace_scope_def validate_scope_def as_mapping_def dict_of_def dget_none_def keys_are_def
        keys_within_def has_key_def accept_if_def)
  have names: "\<forall>n \<in> {ai_workspace_id default_identity, ai_endpoint_id default_identity, ai_adapter_id default_identity,
      ai_adapter_revision default_identity, ai_capability_set_id default_identity, ai_capability_set_revision default_identity,
      ai_manifest_id default_identity, ai_manifest_revision default_identity}. n \<noteq> []"
    by (simp add: default_identity_def)
  obtain scope h where h: "is_integrity (PStr h)" and shape: "PDict res = PDict
       [(sv ''negotiated_protocol_version'', sv NEGOTIATED_PROTOCOL_VERSION), (sv ''adapter_id'', PStr (ai_adapter_id default_identity)),
        (sv ''adapter_revision'', PStr (ai_adapter_revision default_identity)), (sv ''manifest_id'', PStr (ai_manifest_id default_identity)),
        (sv ''manifest_revision'', PStr (ai_manifest_revision default_identity)), (sv ''endpoint'', PDict demo_endpoint),
        (sv ''capability_set'', PDict
           [(sv ''schema_version'', PInt 1), (sv ''workspace_id'', PStr (ai_workspace_id default_identity)), (sv ''scope'', PDict scope),
            (sv ''capability_set_id'', PStr (ai_capability_set_id default_identity)),
            (sv ''revision'', PStr (ai_capability_set_revision default_identity)),
            (sv ''capabilities'', PTuple (peer_capabilities default_identity h))])]" (is "_ = PDict [_, _, _, _, _, _, (_, PDict ?cs)]")
    and s: "ai_scope default_identity = PDict scope"
    using peer_result [OF res] demo_endpoint_ok(1) by (metis sum.inject(2))
  have get: "dget ''capability_set'' res = Some (PDict ?cs)" using shape by simp
  have rd: "registry_record (demo_authority res) (ai_adapter_id default_identity) = Inr (demo_record res)"
    by (simp add: registry_record_def demo_authority_def default_identity_def dict_of_def)
  have "\<exists>b h. bind_initialized (demo_authority res) demo_adapter (PDict res) = Inr b \<and> is_integrity (PStr h) \<and>
    bc_adapter_id b = ai_adapter_id default_identity \<and>
    dget ''adapter_name'' (bc_endpoint b) = Some (PStr (ai_adapter_id default_identity)) \<and>
    dget ''adapter_revision'' (bc_endpoint b) = Some (PStr (ai_adapter_revision default_identity)) \<and>
    dget ''capability_set_id'' (bc_endpoint b) = Some (PStr (ai_capability_set_id default_identity)) \<and>
    dget ''revision'' (bc_capability_set b) = Some (PStr (ai_capability_set_revision default_identity)) \<and>
    capability_entries (bc_capability_set b) = Inr (peer_capabilities default_identity h)"
    by (rule peer_binds [OF res demo_endpoint_ok(1) scope names _ _ _ _ rd])
      (simp_all add: demo_adapter_def demo_resolved_def default_identity_def demo_record_def get dget_none_def)
  moreover have "new_authority_registry (PDict (demo_authority res)) = Inr (demo_authority res)"
  proof -
    have ep: "validate_endpoint_shape demo_endpoint = Inr ()"
      by (rule peer_endpoint_shape(1) [OF demo_endpoint_ok(1) scope]) (use names in simp)
    have cs: "validate_capability_set_shape ?cs = Inr ()"
      using scope names by (simp add: s validate_capability_set_shape_def keys_are_def keys_within_def CAPABILITY_SET_FIELDS_def has_key_def
          dget_none_def accept_if_def)
    have rel: "validate_session_action_relation_shape (PDict demo_relation) = Inr demo_relation"
      by (simp add: validate_session_action_relation_shape_def as_mapping_def dict_of_def demo_relation_def keys_are_def keys_within_def
          SESSION_ACTION_RELATION_FIELDS_def has_key_def dget_none_def accept_if_def in_names_def SESSION_METHODS_def)
    have "capability_token (sv c) = Inr (lit c)" if "c \<in> {''runtime_profile'', ''cap_rev1''}" for c
      using that by (auto simp: capability_token_iff) (auto simp: lit_def)
    then have prof: "validate_evidence_profile_shape (PDict demo_profile) = Inr demo_profile"
      by (simp add: validate_evidence_profile_shape_def as_mapping_def dict_of_def demo_profile_def keys_are_def keys_within_def
          EVIDENCE_PROFILE_FIELDS_def has_key_def dget_none_def accept_if_def)
    have keys: "keys_are AUTHORITY_RECORD_FIELDS (demo_record res)"
      by (simp add: demo_record_def keys_are_def keys_within_def AUTHORITY_RECORD_FIELDS_def has_key_def)
    have members: "dget_none ''adapter_id'' (demo_record res) = sv ''adapter_alpha''"
      "dget_none ''endpoint'' (demo_record res) = PDict demo_endpoint" "dget_none ''capability_set'' (demo_record res) = PDict ?cs"
      "dget_none ''session_action_relations'' (demo_record res) = PList [PDict demo_relation]"
      "dget_none ''evidence_profiles'' (demo_record res) = PList [PDict demo_profile]"
      using get by (simp_all add: demo_record_def dget_none_def)
    have "validate_authority_record (sv ''adapter_alpha'') (PDict (demo_record res)) = Inr ()"
      unfolding validate_authority_record_def
      by (simp add: as_mapping_def dict_of_def keys members accept_if_def ep cs sequence_of_def rel prof)
    then show ?thesis
      by (simp add: new_authority_registry_def as_mapping_def dict_of_def demo_authority_def validate_record_key_def accept_if_def)
  qed
  ultimately show thesis using that [OF res] by (auto simp: default_identity_def)
qed

definition demo_evidence :: pydict where
  "demo_evidence = [(sv ''quality'', sv ''authoritative''), (sv ''evidence_kind'', sv ''native_delivery_state''),
     (sv ''authority'', PDict demo_profile)]"

lemma demo_tokens: "s \<in> {''runtime.reconcile'', ''runtime_profile'', ''cap_rev1''} \<Longrightarrow> capability_token (sv s) = Inr (lit s)"
  by (auto simp: capability_token_iff) (auto simp: lit_def)

text \<open>The entry a token selects from the peer's capabilities, and its check against the endpoint.\<close>

lemma demo_selected:
  assumes "is_integrity (PStr h)" and "dget ''adapter_name'' (bc_endpoint b) = Some (PStr (ai_adapter_id i))"
    and "dget ''adapter_revision'' (bc_endpoint b) = Some (PStr (ai_adapter_revision i))"
    and "capability_entries (bc_capability_set b) = Inr (peer_capabilities i h)" and "c \<in> {''runtime.reconcile'', ''runtime_profile''}"
  obtains entry where "select_capability (bc_capability_set b) (sv c) = Inr entry" and "require_supported_entry (bc_endpoint b) entry = Inr ()"
    and "dsub ''quality'' entry = Inr (sv ''authoritative'')"
proof -
  obtain entry where "select_capability (bc_capability_set b) (sv c) = Inr entry" "dsub ''quality'' entry = Inr (sv ''authoritative'')"
    using assms(5)
    by (auto simp: select_capability_def demo_tokens assms(4) peer_capabilities_def Let_def dict_of_def the_only_def dget_none_def dsub_def)
  moreover have "require_supported_entry (bc_endpoint b) entry = Inr ()"
    if "select_capability (bc_capability_set b) (sv c) = Inr entry" for entry
    using that assms(1,5)
    by (auto simp: select_capability_def demo_tokens assms(2-4) peer_capabilities_def Let_def dict_of_def dget_none_def
        require_supported_entry_def keys_are_def keys_within_def has_key_def CAPABILITY_FIELDS_def ATTESTATION_FIELDS_def accept_if_def
        as_mapping_def dsub_def)
  ultimately show thesis using that by blast
qed

lemma demo_record_parts:
  assumes "bc_adapter_id b = lit ''adapter_alpha''"
  shows "registry_record (demo_authority res) (bc_adapter_id b) = Inr (demo_record res)"
    and "record_sequence ''session_action_relations'' (demo_record res) = Inr [PDict demo_relation]"
    and "record_sequence ''evidence_profiles'' (demo_record res) = Inr [PDict demo_profile]"
    and "validate_evidence_profile_shape (PDict demo_profile) = Inr demo_profile"
    and "validate_session_action_relation_shape (PDict demo_relation) = Inr demo_relation"
  by (simp_all add: registry_record_def demo_authority_def assms dict_of_def record_sequence_def demo_record_def dsub_def
      validate_evidence_profile_shape_def validate_session_action_relation_shape_def as_mapping_def demo_profile_def demo_relation_def
      keys_are_def keys_within_def EVIDENCE_PROFILE_FIELDS_def SESSION_ACTION_RELATION_FIELDS_def has_key_def dget_none_def accept_if_def
      demo_tokens in_names_def SESSION_METHODS_def)

lemma demo_evidence_accepted:
  assumes "is_integrity (PStr h)" and "bc_adapter_id b = lit ''adapter_alpha''"
    and "dget ''adapter_name'' (bc_endpoint b) = Some (PStr (ai_adapter_id i))"
    and "dget ''adapter_revision'' (bc_endpoint b) = Some (PStr (ai_adapter_revision i))"
    and "dget ''revision'' (bc_capability_set b) = Some (sv ''cap_rev1'')"
    and "capability_entries (bc_capability_set b) = Inr (peer_capabilities i h)"
  shows "validate_evidence_profile_authority (demo_authority res) b (PDict demo_evidence) PNone =
    Inr \<lparr>ed_capability_profile_id = lit ''runtime_profile'', ed_capability_profile_revision = lit ''cap_rev1'',
         ed_evidence_kind = lit ''native_delivery_state'', ed_evidence_quality = lit ''authoritative''\<rparr>"
proof -
  obtain entry where entry: "select_capability (bc_capability_set b) (sv ''runtime_profile'') = Inr entry"
    "require_supported_entry (bc_endpoint b) entry = Inr ()" "dsub ''quality'' entry = Inr (sv ''authoritative'')"
    by (rule demo_selected [OF assms(1,3,4,6), of "''runtime_profile''"]) auto
  have "select_evidence_profile [PDict demo_profile] (lit ''runtime_profile'') (lit ''cap_rev1'') = Inr demo_profile"
    using demo_record_parts(4) [OF assms(2)] by (simp add: select_evidence_profile_def the_only_def) (simp add: demo_profile_def dget_none_def)
  moreover have "dget_none ''quality'' demo_evidence = sv ''authoritative''" "dget_none ''evidence_kind'' demo_evidence = sv ''native_delivery_state''"
    "dget_none ''authority'' demo_evidence = PDict demo_profile" "dget_none ''capability_profile_id'' demo_profile = sv ''runtime_profile''"
    "dget_none ''capability_profile_revision'' demo_profile = sv ''cap_rev1''"
    by (simp_all add: demo_evidence_def demo_profile_def dget_none_def)
  ultimately show ?thesis
    using demo_record_parts [OF assms(2)] entry
    by (simp add: validate_evidence_profile_authority_def as_mapping_def dict_of_def accept_if_def in_names_def EVIDENCE_QUALITIES_def
        demo_tokens dsub_def assms(5) str_of_def require_evidence_quality_ceiling_def)
qed

theorem authority_fails_closed_witness:
  "\<exists>registry b res. new_authority_registry (PDict registry) = Inr registry \<and>
     bind_initialized registry demo_adapter (PDict res) = Inr b \<and>
     validate_evidence_profile_authority registry b (PDict [(sv ''quality'', PList [])]) PNone = Inl (TypeErr ''unhashable type'')"
proof -
  obtain res b where d: "bind_initialized (demo_authority res) demo_adapter (PDict res) = Inr b"
    "new_authority_registry (PDict (demo_authority res)) = Inr (demo_authority res)"
    by (rule demo_binding)
  have "\<not> hashable (dget_none ''quality'' [(sv ''quality'', PList [])])" by (simp add: dget_none_def)
  then show ?thesis
    using authority_fails_closed [OF d(2), of demo_adapter "PDict res" undefined b PNone "[(sv ''quality'', PList [])]"] d by blast
qed

theorem bound_is_trusted_witness:
  "\<exists>manifests res b ep w xs. resolve (sv ''adapter_alpha'') manifests = Inr demo_adapter \<and>
     bind_initialized (demo_authority res) demo_adapter (PDict res) = Inr b \<and> dget ''endpoint'' res = Some (PDict ep) \<and>
     py_eq (PDict ep) (PDict demo_endpoint) \<and> seq_items w = Some xs \<and> (\<forall>x \<in> set xs. attested ep x)"
proof -
  let ?m = "AList.update (sv ''endpoint'') (PDict demo_endpoint) demo_manifest"
  have ep: "dget ''adapter_name'' demo_endpoint = Some (sv ''adapter_alpha'')" "dget ''adapter_revision'' demo_endpoint = Some (sv ''adapter_rev1'')"
    by (simp_all add: demo_endpoint_def endpoint_doc_def default_identity_def scope_dict_def)
  have "holds_texts (PList [sv ''LANG'', sv ''PATH'']) [lit ''LANG'', lit ''PATH'']" by (simp add: holds_texts_def)
  then have "trusted_manifest (lit ''adapter_alpha'') ?m demo_adapter"
    using ep
    by (simp add: trusted_manifest_def demo_manifest_def demo_adapter_def demo_resolved_def keys_within_def MANIFEST_FIELDS_def dget_none_def
        holds_texts_def text_pairs_def str_of_def)
      (rule exI [of _ "[lit ''LANG'', lit ''PATH'']"], simp)
  then have r: "resolve (sv ''adapter_alpha'') [(sv ''adapter_alpha'', PDict ?m)] = Inr demo_adapter"
    by (simp add: resolve_iff)
  have dist: "distinct (map fst (rv_endpoint demo_adapter))" by (simp add: demo_adapter_def demo_endpoint_ok(7))
  obtain res b where d: "bind_initialized (demo_authority res) demo_adapter (PDict res) = Inr b" by (rule demo_binding)
  have "rv_endpoint demo_adapter = demo_endpoint" by (simp add: demo_adapter_def)
  then show ?thesis using bound_is_trusted [OF r dist d] r d by auto
qed

theorem evidence_within_bound_witness:
  "\<exists>res b q. bind_initialized (demo_authority res) demo_adapter (PDict res) = Inr b \<and> grants b (lit ''runtime_profile'') q \<and>
     q = lit ''authoritative''"
proof -
  obtain res b h where d: "bind_initialized (demo_authority res) demo_adapter (PDict res) = Inr b"
    "is_integrity (PStr h)" "bc_adapter_id b = lit ''adapter_alpha''"
    "dget ''adapter_name'' (bc_endpoint b) = Some (PStr (ai_adapter_id default_identity))"
    "dget ''adapter_revision'' (bc_endpoint b) = Some (PStr (ai_adapter_revision default_identity))"
    "dget ''revision'' (bc_capability_set b) = Some (sv ''cap_rev1'')"
    "capability_entries (bc_capability_set b) = Inr (peer_capabilities default_identity h)"
    by (rule demo_binding)
  show ?thesis using evidence_within_bound [OF demo_evidence_accepted [OF d(2-7)]] d(1) by auto
qed

theorem reference_initialize_binds_witness:
  "\<exists>res b. initialize_result default_identity = Inr (PDict res) \<and>
     bind_initialized (demo_authority res) demo_adapter (PDict res) = Inr b \<and>
     grants b (lit ''runtime.reconcile'') (lit ''authoritative'') \<and> (\<forall>q. \<not> grants b (lit ''runtime.health'') q)"
proof -
  obtain res where res: "initialize_result default_identity = Inr (PDict res)" using demo_initialize_result by blast
  have scope: "validate_scope (ai_scope default_identity) = Inr ()"
    by (simp add: default_identity_def workspace_scope_def validate_scope_def as_mapping_def dict_of_def dget_none_def keys_are_def
        keys_within_def has_key_def accept_if_def)
  obtain v where get: "dget ''capability_set'' res = Some v" using res by (rule peer_result) simp
  have rd: "registry_record (demo_authority res) (ai_adapter_id default_identity) = Inr (demo_record res)"
    by (simp add: registry_record_def demo_authority_def default_identity_def dict_of_def)
  have "\<exists>b. bind_initialized (demo_authority res) demo_adapter (PDict res) = Inr b \<and>
    grants b (lit ''runtime.reconcile'') (lit ''authoritative'') \<and> grants b (lit ''runtime_profile'') (lit ''authoritative'') \<and>
    (\<forall>q. \<not> grants b (lit ''runtime.health'') q)"
    by (rule reference_initialize_binds [OF res demo_endpoint_ok(1) scope _ _ _ _ _ rd])
      (simp_all add: demo_adapter_def demo_resolved_def default_identity_def demo_record_def get dget_none_def)
  then show ?thesis using res by blast
qed

theorem stage_decisions_authorized_witness:
  "\<exists>res b d. bind_initialized (demo_authority res) demo_adapter (PDict res) = Inr b \<and>
     decide_ordered_stage_authority (demo_authority res) b (PStr METHOD_RECONCILE) (PDict [(sv ''evidence'', PDict demo_evidence)])
       PNone PNone PNone = Inr d \<and> (\<exists>a. sd_action d = Some a \<and> authorized_action (demo_authority res) b a)"
proof -
  obtain res b h where d: "bind_initialized (demo_authority res) demo_adapter (PDict res) = Inr b"
    "is_integrity (PStr h)" "bc_adapter_id b = lit ''adapter_alpha''"
    "dget ''adapter_name'' (bc_endpoint b) = Some (PStr (ai_adapter_id default_identity))"
    "dget ''adapter_revision'' (bc_endpoint b) = Some (PStr (ai_adapter_revision default_identity))"
    "dget ''revision'' (bc_capability_set b) = Some (sv ''cap_rev1'')"
    "capability_entries (bc_capability_set b) = Inr (peer_capabilities default_identity h)"
    and set_id: "dget ''capability_set_id'' (bc_endpoint b) = Some (sv ''caps_alpha'')"
    by (rule demo_binding)
  obtain entry where entry: "select_capability (bc_capability_set b) (sv ''runtime.reconcile'') = Inr entry"
    "require_supported_entry (bc_endpoint b) entry = Inr ()" "dsub ''quality'' entry = Inr (sv ''authoritative'')"
    by (rule demo_selected [OF d(2,4,5,7), of "''runtime.reconcile''"]) auto
  have "relation_matches b (PStr METHOD_RECONCILE) demo_relation = Inr True"
    by (simp add: relation_matches_def dsub_def set_id d(6) demo_relation_def dget_none_def)
  then have rel: "select_session_action_relation [PDict demo_relation] b (PStr METHOD_RECONCILE) = Inr demo_relation"
    using demo_record_parts(5) [OF d(3)] by (simp add: select_session_action_relation_def the_only_def)
  have "dsub ''selected_capability'' demo_relation = Inr (sv ''runtime.reconcile'')" "dsub ''required_quality'' demo_relation = Inr (sv ''authoritative'')"
    by (simp_all add: dsub_def demo_relation_def)
  then have req: "validate_request_authority (demo_authority res) b (PStr METHOD_RECONCILE) PNone =
      Inr \<lparr>cd_method = METHOD_RECONCILE, cd_selected_capability = lit ''runtime.reconcile'', cd_selected_quality = lit ''authoritative''\<rparr>"
    using rel entry demo_record_parts [OF d(3)]
    by (simp add: validate_request_authority_def accept_if_def in_names_def SESSION_METHODS_def str_of_def)
  have "evidence_of (demo_authority res) b (PDict [(sv ''evidence'', PDict demo_evidence)]) n =
      validate_evidence_profile_authority (demo_authority res) b (PDict demo_evidence) PNone" for n
    by (simp add: evidence_of_def carried_evidence_def as_mapping_def dict_of_def dget_none_def)
  then obtain dd where dd: "decide_ordered_stage_authority (demo_authority res) b (PStr METHOD_RECONCILE)
      (PDict [(sv ''evidence'', PDict demo_evidence)]) PNone PNone PNone = Inr dd" "\<not> sd_protocol_control dd"
    using demo_evidence_accepted [OF d(2-7)] req
    by (auto simp: decide_ordered_stage_authority_def accept_if_def in_names_def PROTOCOL_CONTROL_METHODS_def SESSION_METHODS_def)
  show ?thesis using stage_decisions_authorized [OF dd(1)] dd d(1) by blast
qed

end
