(* ===== verification/Supervisor.thy ===== *)
theory Supervisor
  imports Manifest Reference
begin

text \<open>
  The process boundary of an adapter: \<open>llm_collab/runtime_adapter_supervisor.py\<close>. Three threads of the host share the state below:
  the reader of standard output, the drainer of standard error, and the caller of \<open>request\<close> and \<open>close\<close>; the child process is
  the environment. Every action of a thread on shared state (a queue, an event, a pipe, a lock-protected update) is one step, so a run
  of \<open>supervisor_step\<close> is an interleaving the interpreter can produce. A pipe is the bytes written to it and not yet read.

  Assumptions: one thread calls \<open>request\<close> and \<open>close\<close>; \<open>kill\<close> ends the process; a descriptor number is not reused after
  \<open>close\<close>; \<open>process.stdin\<close>, \<open>stdout\<close> and \<open>stderr\<close> exist, as \<open>Popen\<close> is called with three pipes. A run starts where
  \<open>__enter__\<close> has started both threads.
\<close>

section \<open>Data\<close>

definition MAX_MESSAGE_BYTES :: nat where "MAX_MESSAGE_BYTES = 1048576"
definition MAX_STDERR_BYTES_PER_CONNECTION :: nat where "MAX_STDERR_BYTES_PER_CONNECTION = 65536"

record supervisor_outcome =
  so_response :: "pystr option"
  so_fault :: "string option"
  so_should_close :: bool
  so_stderr :: "nat list"
  so_stderr_truncated :: bool

text \<open>What the stdout queue carries: a line or the end-of-stream sentinel, with the mark of its barrier (see \<open>su_mark\<close>).\<close>

type_synonym frame = "nat list option"
type_synonym item = "frame \<times> nat"

text \<open>Where each thread is. The arguments are the thread's local variables.\<close>

datatype drainer_pc =
    DrainStart | DrainRegister | DrainSelect | DrainWake
  | DrainTake "nat list" | DrainRead "nat list" | DrainError "nat list" | DrainSet "nat list" bool
  | DrainFail | DrainFailPut | DrainDone | DrainRelease "nat list" | DrainReleaseSet "nat list" | DrainStopped

datatype reader_pc =
    ReadLine | ReadBroken | PubPut frame | PubCheck nat frame | PubRelease nat frame "nat list" | PubReleaseSet nat frame "nat list"
  | PubWake nat frame | PubWait nat frame | PubEnqueue nat frame | ReadStopped

datatype close_pc =
    CloseTearing | CloseStdin | CloseTerminate | CloseWake | CloseStdout | CloseStderr | CloseDone
  | CloseRelease "nat list" | CloseReleaseSet "nat list" | CloseJoin | CloseWakeup

datatype host_pc =
    HostIdle | HostFailed pystr | HostRunning pystr | HostWrite "nat list" | HostGet | HostGot frame | HostLimit "nat list"
  | HostReply pystr | HostFault string | HostClose close_pc "string option"

text \<open>
  The shared state. \<open>su_written\<close>, \<open>su_out_written\<close>, \<open>su_mark\<close> and \<open>su_taken\<close> are history that no step reads: all bytes the
  child wrote to standard error and to standard output; for a barrier, how many bytes of standard error were written when it was queued;
  the items the caller took from the stdout queue.
\<close>

record supervisor =
  su_running :: bool
  su_stdin :: "nat list"
  su_stdin_closed :: bool
  su_out_pipe :: "nat list"
  su_out_eof :: bool
  su_out_closed :: bool
  su_err_pipe :: "nat list"
  su_err_eof :: bool
  su_err_closed :: bool
  su_err_broken :: bool
  su_wake :: nat
  su_wake_open :: bool
  su_stdout :: "item list"
  su_stderr :: "nat list"
  su_stderr_truncated :: bool
  su_barriers :: "nat list"
  su_signalled :: "nat set"
  su_next :: nat
  su_done :: bool
  su_tearing_down :: bool
  su_failed :: bool
  su_drainer :: drainer_pc
  su_reader :: reader_pc
  su_host :: host_pc
  su_results :: "(pyerr + supervisor_outcome) list"
  su_written :: "nat list"
  su_out_written :: "nat list"
  su_mark :: "nat \<Rightarrow> nat"
  su_taken :: "item list"

definition is_absolute :: "pystr \<Rightarrow> bool" where
  "is_absolute p \<longleftrightarrow> (\<exists>c\<in>set (take 1 p). c = of_char CHR ''/'')"

definition validate_spawn_paths :: "resolved_adapter \<Rightarrow> pyerr + unit" where
  "validate_spawn_paths resolved =
     (if \<not> is_absolute (rv_executable resolved) then reject_manifest ''executable must be absolute before spawn''
      else if \<not> is_absolute (rv_working_directory resolved) then reject_manifest ''working_directory must be absolute before spawn''
      else Inr ())"

text \<open>\<open>__init__\<close> and a successful \<open>__enter__\<close>: the child runs, the wake pipe is open, both threads have started.\<close>

definition entered :: supervisor where
  "entered =
     \<lparr>su_running = True, su_stdin = [], su_stdin_closed = False, su_out_pipe = [], su_out_eof = False, su_out_closed = False,
      su_err_pipe = [], su_err_eof = False, su_err_closed = False, su_err_broken = False, su_wake = 0, su_wake_open = True, su_stdout = [], su_stderr = [],
      su_stderr_truncated = False, su_barriers = [], su_signalled = {}, su_next = 0, su_done = False, su_tearing_down = False,
      su_failed = False, su_drainer = DrainStart, su_reader = ReadLine, su_host = HostIdle, su_results = [], su_written = [],
      su_out_written = [], su_mark = (\<lambda>_. 0), su_taken = []\<rparr>"

definition enter :: "resolved_adapter \<Rightarrow> pyerr + supervisor" where
  "enter resolved = rbind (validate_spawn_paths resolved) (\<lambda>_. Inr entered)"

section \<open>Shared operations\<close>

text \<open>One \<open>get_nowait\<close> of \<open>_take_stderr_barriers\<close>: the next barrier, or none when the queue is empty.\<close>

definition take_barrier :: "supervisor \<Rightarrow> (nat \<times> supervisor) option" where
  "take_barrier s = (case su_barriers s of [] \<Rightarrow> None | b # bs \<Rightarrow> Some (b, s\<lparr>su_barriers := bs\<rparr>))"

definition signal :: "nat \<Rightarrow> supervisor \<Rightarrow> supervisor" where
  "signal b s = s\<lparr>su_signalled := insert b (su_signalled s)\<rparr>"

text \<open>One byte to the wake pipe; when the pipe is full the write would block and is dropped.\<close>

definition PIPE_CAPACITY :: nat where "PIPE_CAPACITY = 65536"

definition wake_stderr :: "supervisor \<Rightarrow> supervisor" where
  "wake_stderr s =
     (if \<not> su_wake_open s then s else if su_wake s < PIPE_CAPACITY then s\<lparr>su_wake := su_wake s + 1\<rparr> else s)"

definition close_in_progress :: "supervisor \<Rightarrow> bool" where
  "close_in_progress s = (case su_host s of HostClose _ _ \<Rightarrow> True | _ \<Rightarrow> False)"

definition put_stdout :: "item \<Rightarrow> supervisor \<Rightarrow> supervisor" where
  "put_stdout x s = s\<lparr>su_stdout := su_stdout s @ [x]\<rparr>"

definition outcome :: "pystr option \<Rightarrow> string option \<Rightarrow> bool \<Rightarrow> supervisor \<Rightarrow> supervisor_outcome" where
  "outcome response fault should_close s =
     \<lparr>so_response = response, so_fault = fault, so_should_close = should_close, so_stderr = su_stderr s,
      so_stderr_truncated = su_stderr_truncated s\<rparr>"

section \<open>The drainer of standard error\<close>

text \<open>
  What \<open>os.read\<close> on standard error does next: it returns some of the bytes there are, or fails with an \<open>OSError\<close>, which it does on a
  descriptor that is in error or closed. The selector returns for a wake byte, for bytes, for the end of the stream or for an error of the
  descriptor, and for nothing else.
\<close>

datatype os_read = ReadChunk nat | ReadError

definition absorb :: "nat list \<Rightarrow> supervisor \<Rightarrow> supervisor" where
  "absorb chunk s =
     (let remaining = int MAX_STDERR_BYTES_PER_CONNECTION - int (length (su_stderr s)) in
      s\<lparr>su_stderr := (if remaining > 0 then su_stderr s @ take (nat remaining) chunk else su_stderr s),
        su_stderr_truncated := (su_stderr_truncated s \<or> int (length chunk) > remaining)\<rparr>)"

definition drain_stderr_fd :: "os_read \<Rightarrow> nat list \<Rightarrow> supervisor \<Rightarrow> supervisor option" where
  "drain_stderr_fd r bs s =
     (case r of
        ReadError \<Rightarrow> if su_err_broken s \<or> su_err_closed s then Some (s\<lparr>su_drainer := DrainError bs\<rparr>) else None
      | ReadChunk n \<Rightarrow>
          if su_err_closed s then None
          else if su_err_pipe s = [] then Some (s\<lparr>su_drainer := DrainSet bs (su_err_eof s)\<rparr>)
          else if 0 < n \<and> n \<le> 4096 \<and> n \<le> length (su_err_pipe s) then
            Some (absorb (take n (su_err_pipe s)) s\<lparr>su_err_pipe := drop n (su_err_pipe s)\<rparr>)
          else None)"

definition drain_step :: "os_read \<Rightarrow> supervisor \<Rightarrow> supervisor option" where
  "drain_step r s =
     (case su_drainer s of
        DrainStart \<Rightarrow>
          Some (s\<lparr>su_drainer := (if \<not> su_wake_open s then DrainDone else if su_err_closed s then DrainStopped else DrainRegister)\<rparr>)
      | DrainRegister \<Rightarrow>
          Some (s\<lparr>su_drainer := (if su_err_closed s \<or> \<not> su_wake_open s then DrainFail else DrainSelect)\<rparr>)
      | DrainSelect \<Rightarrow>
          if su_wake s > 0 then Some (s\<lparr>su_drainer := DrainWake\<rparr>)
          else if \<not> su_err_closed s \<and> (su_err_pipe s \<noteq> [] \<or> su_err_eof s \<or> su_err_broken s) then Some (s\<lparr>su_drainer := DrainTake []\<rparr>)
          else None
      | DrainWake \<Rightarrow>
          if su_wake s = 0 then Some (s\<lparr>su_drainer := DrainTake []\<rparr>) else Some (s\<lparr>su_wake := su_wake s - min (su_wake s) 4096\<rparr>)
      | DrainTake bs \<Rightarrow>
          (case take_barrier s of
             None \<Rightarrow> Some (s\<lparr>su_drainer := DrainRead bs\<rparr>)
           | Some (b, t) \<Rightarrow> Some (t\<lparr>su_drainer := DrainTake (bs @ [b])\<rparr>))
      | DrainRead bs \<Rightarrow> drain_stderr_fd r bs s
      | DrainError bs \<Rightarrow> Some (s\<lparr>su_drainer := (if su_tearing_down s then DrainSet bs True else DrainFail)\<rparr>)
      | DrainSet [] eof \<Rightarrow> Some (s\<lparr>su_drainer := (if eof then DrainDone else DrainSelect)\<rparr>)
      | DrainSet (b # bs) eof \<Rightarrow> Some (signal b s\<lparr>su_drainer := DrainSet bs eof\<rparr>)
      | DrainFail \<Rightarrow> Some (s\<lparr>su_failed := True, su_drainer := DrainFailPut\<rparr>)
      | DrainFailPut \<Rightarrow> Some (put_stdout (None, 0) s\<lparr>su_drainer := DrainDone\<rparr>)
      | DrainDone \<Rightarrow> Some (s\<lparr>su_done := True, su_drainer := DrainRelease []\<rparr>)
      | DrainRelease bs \<Rightarrow>
          (case take_barrier s of
             None \<Rightarrow> Some (s\<lparr>su_drainer := DrainReleaseSet bs\<rparr>)
           | Some (b, t) \<Rightarrow> Some (t\<lparr>su_drainer := DrainRelease (bs @ [b])\<rparr>))
      | DrainReleaseSet [] \<Rightarrow> Some (s\<lparr>su_drainer := DrainStopped\<rparr>)
      | DrainReleaseSet (b # bs) \<Rightarrow> Some (signal b s\<lparr>su_drainer := DrainReleaseSet bs\<rparr>)
      | DrainStopped \<Rightarrow> None)"

section \<open>The reader of standard output\<close>

text \<open>\<open>readline(limit)\<close>: up to the next newline, at most \<open>limit\<close> bytes, the rest at the end of the stream; otherwise it blocks.\<close>

fun line_length :: "nat list \<Rightarrow> nat option" where
  "line_length [] = None"
| "line_length (c # cs) = (if c = 10 then Some 1 else map_option Suc (line_length cs))"

definition read_line :: "nat \<Rightarrow> bool \<Rightarrow> nat list \<Rightarrow> (nat list \<times> nat list) option" where
  "read_line limit eof bs =
     (case line_length (take limit bs) of
        Some n \<Rightarrow> Some (take n bs, drop n bs)
      | None \<Rightarrow> if limit \<le> length bs then Some (take limit bs, drop limit bs) else if eof then Some (bs, []) else None)"

definition publish_step :: "bool \<Rightarrow> supervisor \<Rightarrow> supervisor option" where
  "publish_step os_error s =
     (case su_reader s of
        ReadLine \<Rightarrow>
          if os_error then Some (s\<lparr>su_reader := ReadBroken\<rparr>)
          else if su_out_closed s then Some (s\<lparr>su_reader := ReadStopped\<rparr>)
          else
            (case read_line (MAX_MESSAGE_BYTES + 2) (su_out_eof s) (su_out_pipe s) of
               None \<Rightarrow> None
             | Some (line, rest) \<Rightarrow>
                 Some (s\<lparr>su_out_pipe := rest, su_reader := PubPut (if line = [] then None else Some line)\<rparr>))
      | ReadBroken \<Rightarrow> Some (put_stdout (None, 0) s\<lparr>su_reader := ReadStopped\<rparr>)
      | PubPut f \<Rightarrow>
          Some (s\<lparr>su_barriers := su_barriers s @ [su_next s], su_next := su_next s + 1,
                 su_mark := (su_mark s)(su_next s := length (su_written s)), su_reader := PubCheck (su_next s) f\<rparr>)
      | PubCheck b f \<Rightarrow> Some (s\<lparr>su_reader := (if su_done s then PubRelease b f [] else PubWake b f)\<rparr>)
      | PubRelease b f bs \<Rightarrow>
          (case take_barrier s of
             None \<Rightarrow> Some (s\<lparr>su_reader := PubReleaseSet b f bs\<rparr>)
           | Some (c, t) \<Rightarrow> Some (t\<lparr>su_reader := PubRelease b f (bs @ [c])\<rparr>))
      | PubReleaseSet b f [] \<Rightarrow> Some (s\<lparr>su_reader := PubWait b f\<rparr>)
      | PubReleaseSet b f (c # cs) \<Rightarrow> Some (signal c s\<lparr>su_reader := PubReleaseSet b f cs\<rparr>)
      | PubWake b f \<Rightarrow> if close_in_progress s then None else Some (wake_stderr s\<lparr>su_reader := PubWait b f\<rparr>)
      | PubWait b f \<Rightarrow> if b \<in> su_signalled s then Some (s\<lparr>su_reader := PubEnqueue b f\<rparr>) else None
      | PubEnqueue b f \<Rightarrow>
          Some (put_stdout (f, su_mark s b) s\<lparr>su_reader := (if f = None then ReadStopped else ReadLine)\<rparr>)
      | ReadStopped \<Rightarrow> None)"

section \<open>The caller\<close>

text \<open>What happens next where it is not determined: a call while idle, an \<open>OSError\<close> of the write, the timeout of the queue.\<close>

datatype host_choice = CallRequest pystr | CallClose | Proceed | Trouble

definition finish_call :: "pyerr + supervisor_outcome \<Rightarrow> supervisor \<Rightarrow> supervisor" where
  "finish_call r s = s\<lparr>su_results := su_results s @ [r], su_host := HostIdle\<rparr>"

definition fault_and_close :: "string \<Rightarrow> supervisor \<Rightarrow> supervisor option" where
  "fault_and_close fault s = Some (s\<lparr>su_host := HostClose CloseTearing (Some fault)\<rparr>)"

definition close_step :: "close_pc \<Rightarrow> string option \<Rightarrow> supervisor \<Rightarrow> supervisor" where
  "close_step pc fault s =
     (case pc of
        CloseTearing \<Rightarrow> s\<lparr>su_tearing_down := True, su_host := HostClose CloseStdin fault\<rparr>
      | CloseStdin \<Rightarrow> s\<lparr>su_stdin_closed := True, su_host := HostClose CloseTerminate fault\<rparr>
      | CloseTerminate \<Rightarrow> s\<lparr>su_running := False, su_host := HostClose CloseWake fault\<rparr>
      | CloseWake \<Rightarrow> wake_stderr s\<lparr>su_host := HostClose CloseStdout fault\<rparr>
      | CloseStdout \<Rightarrow> s\<lparr>su_out_closed := True, su_host := HostClose CloseStderr fault\<rparr>
      | CloseStderr \<Rightarrow> s\<lparr>su_err_closed := True, su_host := HostClose CloseDone fault\<rparr>
      | CloseDone \<Rightarrow> s\<lparr>su_done := True, su_host := HostClose (CloseRelease []) fault\<rparr>
      | CloseRelease bs \<Rightarrow>
          (case take_barrier s of
             None \<Rightarrow> s\<lparr>su_host := HostClose (CloseReleaseSet bs) fault\<rparr>
           | Some (b, t) \<Rightarrow> t\<lparr>su_host := HostClose (CloseRelease (bs @ [b])) fault\<rparr>)
      | CloseReleaseSet [] \<Rightarrow> s\<lparr>su_host := HostClose CloseJoin fault\<rparr>
      | CloseReleaseSet (b # bs) \<Rightarrow> signal b s\<lparr>su_host := HostClose (CloseReleaseSet bs) fault\<rparr>
      | CloseJoin \<Rightarrow> s\<lparr>su_host := HostClose CloseWakeup fault\<rparr>
      | CloseWakeup \<Rightarrow>
          s\<lparr>su_wake_open := False, su_wake := 0, su_host := (case fault of None \<Rightarrow> HostIdle | Some f \<Rightarrow> HostFault f)\<rparr>)"

definition host_step :: "host_choice \<Rightarrow> supervisor \<Rightarrow> supervisor option" where
  "host_step c s =
     (case su_host s of
        HostIdle \<Rightarrow>
          (case c of
             CallRequest frame \<Rightarrow> Some (s\<lparr>su_host := HostFailed frame\<rparr>)
           | CallClose \<Rightarrow> Some (s\<lparr>su_host := HostClose CloseTearing None\<rparr>)
           | _ \<Rightarrow> None)
      | HostFailed frame \<Rightarrow>
          if su_failed s then fault_and_close ''STDERR_DRAIN_FAILED'' s else Some (s\<lparr>su_host := HostRunning frame\<rparr>)
      | HostRunning frame \<Rightarrow>
          if \<not> su_running s then Some (finish_call (Inl (RuntimeErr ''supervisor process is not running'')) s)
          else
            (case utf8_encode frame of
               Inl e \<Rightarrow> Some (finish_call (Inl e) s)
             | Inr b \<Rightarrow> Some (s\<lparr>su_host := HostWrite b\<rparr>))
      | HostWrite b \<Rightarrow>
          if su_stdin_closed s then Some (finish_call (Inl (ValueErr ''write to closed file'')) s)
          else if c = Trouble then Some (s\<lparr>su_host := HostFault ''PROCESS_CLOSED''\<rparr>)
          else Some (s\<lparr>su_stdin := su_stdin s @ b @ [10], su_host := HostGet\<rparr>)
      | HostGet \<Rightarrow>
          (case su_stdout s of
             [] \<Rightarrow> if c = Trouble then fault_and_close ''REQUEST_TIMEOUT'' s else None
           | x # xs \<Rightarrow> Some (s\<lparr>su_stdout := xs, su_taken := su_taken s @ [x], su_host := HostGot (fst x)\<rparr>))
      | HostGot raw \<Rightarrow>
          if su_failed s then fault_and_close ''STDERR_DRAIN_FAILED'' s
          else
            (case raw of
               None \<Rightarrow> Some (s\<lparr>su_host := HostFault ''PROCESS_CLOSED''\<rparr>)
             | Some line \<Rightarrow>
                 if length line > MAX_MESSAGE_BYTES + 1 \<or> last line \<noteq> 10 then fault_and_close ''MESSAGE_TOO_LARGE'' s
                 else Some (s\<lparr>su_host := HostLimit line\<rparr>))
      | HostLimit line \<Rightarrow>
          if su_stderr_truncated s then Some (s\<lparr>su_host := HostFault ''STDERR_LIMIT_EXCEEDED''\<rparr>)
          else
            (case utf8_decode (butlast line) of
               None \<Rightarrow> fault_and_close ''INVALID_FRAMING'' s
             | Some t \<Rightarrow> Some (s\<lparr>su_host := HostReply t\<rparr>))
      | HostReply t \<Rightarrow> Some (finish_call (Inr (outcome (Some t) None False s)) s)
      | HostFault f \<Rightarrow> Some (finish_call (Inr (outcome None (Some f) True s)) s)
      | HostClose pc fault \<Rightarrow> Some (close_step pc fault s))"

section \<open>Interleavings\<close>

text \<open>The child (and what it leaves behind) writes to its two streams, closes them and exits, whenever it likes; standard error may break.\<close>

inductive child_step :: "supervisor \<Rightarrow> supervisor \<Rightarrow> bool" where
  child_out: "\<not> su_out_eof s \<Longrightarrow>
    child_step s (s\<lparr>su_out_pipe := su_out_pipe s @ bs, su_out_written := su_out_written s @ bs\<rparr>)"
| child_err: "\<not> su_err_eof s \<Longrightarrow>
    child_step s (s\<lparr>su_err_pipe := su_err_pipe s @ bs, su_written := su_written s @ bs\<rparr>)"
| child_out_eof: "child_step s (s\<lparr>su_out_eof := True\<rparr>)"
| child_err_eof: "child_step s (s\<lparr>su_err_eof := True\<rparr>)"
| child_err_break: "child_step s (s\<lparr>su_err_broken := True\<rparr>)"
| child_exit: "child_step s (s\<lparr>su_running := False\<rparr>)"

inductive supervisor_step :: "supervisor \<Rightarrow> supervisor \<Rightarrow> bool" where
  of_drainer: "drain_step r s = Some t \<Longrightarrow> supervisor_step s t"
| of_reader: "publish_step e s = Some t \<Longrightarrow> supervisor_step s t"
| of_host: "host_step c s = Some t \<Longrightarrow> supervisor_step s t"
| of_child: "child_step s t \<Longrightarrow> supervisor_step s t"

end
