(* ===== verification/SupervisorProps.thy ===== *)
theory SupervisorProps
  imports Supervisor
begin

text \<open>
  What the supervisor guarantees in every interleaving: the diagnostics buffer holds exactly the first bytes the child wrote to
  standard error, a response is handed over only with the diagnostics that precede it, and a frame that waits for its barrier is
  released by the drainer, or by \<open>close\<close>, without help from the child.
\<close>

section \<open>The invariant\<close>

text \<open>How many bytes of standard error have left the pipe.\<close>

definition drained :: "supervisor \<Rightarrow> nat" where
  "drained s = length (su_written s) - length (su_err_pipe s)"

definition excused :: "supervisor \<Rightarrow> bool" where
  "excused s \<longleftrightarrow> su_tearing_down s \<or> su_failed s"

definition exhausted :: "supervisor \<Rightarrow> bool" where
  "exhausted s \<longleftrightarrow> su_err_pipe s = [] \<and> su_err_eof s \<or> excused s"

definition covered :: "supervisor \<Rightarrow> nat \<Rightarrow> bool" where
  "covered s m \<longleftrightarrow> m \<le> drained s \<or> excused s"

text \<open>The barriers a thread has taken from the queue and not yet signalled.\<close>

fun drainer_held :: "drainer_pc \<Rightarrow> nat list" where
  "drainer_held (DrainTake bs) = bs"
| "drainer_held (DrainRead bs) = bs"
| "drainer_held (DrainError bs) = bs"
| "drainer_held (DrainSet bs _) = bs"
| "drainer_held (DrainRelease bs) = bs"
| "drainer_held (DrainReleaseSet bs) = bs"
| "drainer_held _ = []"

fun drainer_clears :: "drainer_pc \<Rightarrow> nat list" where
  "drainer_clears (DrainSet bs _) = bs"
| "drainer_clears (DrainRelease bs) = bs"
| "drainer_clears (DrainReleaseSet bs) = bs"
| "drainer_clears _ = []"

fun drainer_ends :: "drainer_pc \<Rightarrow> bool" where
  "drainer_ends (DrainSet _ eof) = eof"
| "drainer_ends DrainFailPut = True"
| "drainer_ends DrainDone = True"
| "drainer_ends (DrainRelease _) = True"
| "drainer_ends (DrainReleaseSet _) = True"
| "drainer_ends DrainStopped = True"
| "drainer_ends _ = False"

fun reader_held :: "reader_pc \<Rightarrow> nat list" where
  "reader_held (PubRelease b f bs) = bs"
| "reader_held (PubReleaseSet b f bs) = bs"
| "reader_held _ = []"

fun reader_releases :: "reader_pc \<Rightarrow> bool" where
  "reader_releases (PubRelease b f bs) = True"
| "reader_releases (PubReleaseSet b f bs) = True"
| "reader_releases _ = False"

fun reader_barrier :: "reader_pc \<Rightarrow> nat option" where
  "reader_barrier (PubCheck b f) = Some b"
| "reader_barrier (PubRelease b f bs) = Some b"
| "reader_barrier (PubReleaseSet b f bs) = Some b"
| "reader_barrier (PubWake b f) = Some b"
| "reader_barrier (PubWait b f) = Some b"
| "reader_barrier (PubEnqueue b f) = Some b"
| "reader_barrier _ = None"

fun host_held :: "host_pc \<Rightarrow> nat list" where
  "host_held (HostClose (CloseRelease bs) f) = bs"
| "host_held (HostClose (CloseReleaseSet bs) f) = bs"
| "host_held _ = []"

fun host_tearing :: "host_pc \<Rightarrow> bool" where
  "host_tearing (HostClose pc f) \<longleftrightarrow> pc \<noteq> CloseTearing"
| "host_tearing _ = False"

fun host_serving :: "host_pc \<Rightarrow> bool" where
  "host_serving (HostWrite b) = True"
| "host_serving HostGet = True"
| "host_serving (HostGot f) = True"
| "host_serving (HostLimit l) = True"
| "host_serving (HostReply t) = True"
| "host_serving _ = False"

definition fresh_inv :: "supervisor \<Rightarrow> bool" where
  "fresh_inv s \<longleftrightarrow>
     (\<forall>b\<in>su_signalled s. b < su_next s) \<and> (\<forall>b\<in>set (su_barriers s). b < su_next s) \<and>
     (\<forall>b\<in>set (drainer_held (su_drainer s)). b < su_next s) \<and> (\<forall>b\<in>set (reader_held (su_reader s)). b < su_next s) \<and>
     (\<forall>b\<in>set (host_held (su_host s)). b < su_next s) \<and>
     (\<forall>b. reader_barrier (su_reader s) = Some b \<longrightarrow> b < su_next s) \<and> (\<forall>b. su_mark s b \<le> length (su_written s))"

definition buffer_inv :: "supervisor \<Rightarrow> bool" where
  "buffer_inv s \<longleftrightarrow>
     (\<exists>d. su_written s = d @ su_err_pipe s \<and> su_stderr s = take MAX_STDERR_BYTES_PER_CONNECTION d \<and>
          su_stderr_truncated s = (MAX_STDERR_BYTES_PER_CONNECTION < length d))"

definition tearing_inv :: "supervisor \<Rightarrow> bool" where
  "tearing_inv s \<longleftrightarrow>
     (su_out_closed s \<or> su_err_closed s \<or> \<not> su_wake_open s \<or> su_stdin_closed s \<or> host_tearing (su_host s) \<longrightarrow> su_tearing_down s) \<and>
     (su_tearing_down s \<longrightarrow> \<not> su_running s \<or> (\<exists>f. su_host s \<in> {HostClose CloseStdin f, HostClose CloseTerminate f})) \<and>
     (host_serving (su_host s) \<longrightarrow> \<not> su_tearing_down s)"

definition reply_inv :: "supervisor \<Rightarrow> bool" where
  "reply_inv s \<longleftrightarrow>
     (case su_host s of
        HostGot f \<Rightarrow> su_taken s \<noteq> [] \<and> fst (last (su_taken s)) = f \<and> (f \<noteq> None \<longrightarrow> covered s (snd (last (su_taken s))))
      | HostLimit line \<Rightarrow>
          su_taken s \<noteq> [] \<and> fst (last (su_taken s)) = Some line \<and> length line \<le> MAX_MESSAGE_BYTES + 1 \<and> last line = 10 \<and>
          snd (last (su_taken s)) \<le> drained s
      | HostReply t \<Rightarrow>
          su_taken s \<noteq> [] \<and>
          (\<exists>line. fst (last (su_taken s)) = Some line \<and> length line \<le> MAX_MESSAGE_BYTES + 1 \<and> last line = 10 \<and>
             utf8_decode (butlast line) = Some t) \<and>
          snd (last (su_taken s)) \<le> drained s \<and> snd (last (su_taken s)) \<le> MAX_STDERR_BYTES_PER_CONNECTION
      | _ \<Rightarrow> True)"

definition coverage_inv :: "supervisor \<Rightarrow> bool" where
  "coverage_inv s \<longleftrightarrow>
     (su_done s \<or> drainer_ends (su_drainer s) \<or> reader_releases (su_reader s) \<longrightarrow> exhausted s) \<and>
     (\<forall>b\<in>set (drainer_clears (su_drainer s)). covered s (su_mark s b)) \<and>
     (\<forall>b\<in>su_signalled s. covered s (su_mark s b)) \<and>
     (\<forall>b f. su_reader s = PubEnqueue b f \<longrightarrow> b \<in> su_signalled s) \<and>
     (\<forall>x\<in>set (su_stdout s). fst x \<noteq> None \<longrightarrow> covered s (snd x))"

definition supervisor_inv :: "supervisor \<Rightarrow> bool" where
  "supervisor_inv s \<longleftrightarrow> fresh_inv s \<and> buffer_inv s \<and> tearing_inv s \<and> coverage_inv s \<and> reply_inv s"

lemmas sup_ops = take_barrier_def signal_def wake_stderr_def close_in_progress_def put_stdout_def finish_call_def fault_and_close_def

lemma supervisor_inv_start: "supervisor_inv entered"
  by (simp add: supervisor_inv_def fresh_inv_def buffer_inv_def tearing_inv_def coverage_inv_def reply_inv_def entered_def exhausted_def)

section \<open>Each thread keeps it\<close>

text \<open>One case per program point of the drainer.\<close>

lemmas drain_step_unfold = drain_step_def drain_stderr_fd_def

lemma drain_stepE:
  assumes "drain_step r s = Some t"
  obtains
    (start) pc where "su_drainer s = DrainStart" "t = s\<lparr>su_drainer := pc\<rparr>"
      "pc = (if \<not> su_wake_open s then DrainDone else if su_err_closed s then DrainStopped else DrainRegister)"
  | (register) pc where "su_drainer s = DrainRegister" "t = s\<lparr>su_drainer := pc\<rparr>"
      "pc = (if su_err_closed s \<or> \<not> su_wake_open s then DrainFail else DrainSelect)"
  | (woken) "su_drainer s = DrainSelect" "su_wake s > 0" "t = s\<lparr>su_drainer := DrainWake\<rparr>"
  | (readable) "su_drainer s = DrainSelect \<or> su_drainer s = DrainWake" "su_wake s = 0" "t = s\<lparr>su_drainer := DrainTake []\<rparr>"
  | (wake) "su_drainer s = DrainWake" "t = s\<lparr>su_wake := su_wake s - min (su_wake s) 4096\<rparr>"
  | (take) bs b rest where "su_drainer s = DrainTake bs" "su_barriers s = b # rest"
      "t = s\<lparr>su_barriers := rest, su_drainer := DrainTake (bs @ [b])\<rparr>"
  | (taken) bs where "su_drainer s = DrainTake bs" "su_barriers s = []" "t = s\<lparr>su_drainer := DrainRead bs\<rparr>"
  | (read_error) bs where "su_drainer s = DrainRead bs" "t = s\<lparr>su_drainer := DrainError bs\<rparr>"
  | (empty) bs where "su_drainer s = DrainRead bs" "su_err_pipe s = []" "t = s\<lparr>su_drainer := DrainSet bs (su_err_eof s)\<rparr>"
  | (chunk) bs n where "su_drainer s = DrainRead bs" "0 < n" "n \<le> length (su_err_pipe s)"
      "t = absorb (List.take n (su_err_pipe s)) s\<lparr>su_err_pipe := drop n (su_err_pipe s)\<rparr>"
  | (excuse) bs where "su_drainer s = DrainError bs" "su_tearing_down s" "t = s\<lparr>su_drainer := DrainSet bs True\<rparr>"
  | (error) bs where "su_drainer s = DrainError bs" "\<not> su_tearing_down s" "t = s\<lparr>su_drainer := DrainFail\<rparr>"
  | (set) b bs eof where "su_drainer s = DrainSet (b # bs) eof"
      "t = s\<lparr>su_signalled := insert b (su_signalled s), su_drainer := DrainSet bs eof\<rparr>"
  | (all_set) eof where "su_drainer s = DrainSet [] eof" "t = s\<lparr>su_drainer := (if eof then DrainDone else DrainSelect)\<rparr>"
  | (fail) "su_drainer s = DrainFail" "t = s\<lparr>su_failed := True, su_drainer := DrainFailPut\<rparr>"
  | (fail_put) "su_drainer s = DrainFailPut" "t = s\<lparr>su_stdout := su_stdout s @ [(None, 0)], su_drainer := DrainDone\<rparr>"
  | (finish) "su_drainer s = DrainDone" "t = s\<lparr>su_done := True, su_drainer := DrainRelease []\<rparr>"
  | (release) bs b rest where "su_drainer s = DrainRelease bs" "su_barriers s = b # rest"
      "t = s\<lparr>su_barriers := rest, su_drainer := DrainRelease (bs @ [b])\<rparr>"
  | (released) bs where "su_drainer s = DrainRelease bs" "su_barriers s = []" "t = s\<lparr>su_drainer := DrainReleaseSet bs\<rparr>"
  | (release_set) b bs where "su_drainer s = DrainReleaseSet (b # bs)"
      "t = s\<lparr>su_signalled := insert b (su_signalled s), su_drainer := DrainReleaseSet bs\<rparr>"
  | (stop) "su_drainer s = DrainReleaseSet []" "t = s\<lparr>su_drainer := DrainStopped\<rparr>"
proof (cases "su_drainer s")
  case (DrainTake bs)
  show ?thesis using take [OF DrainTake] taken [OF DrainTake] assms
    by (cases "su_barriers s") (simp_all add: drain_step_def take_barrier_def DrainTake)
next
  case (DrainRead bs)
  show ?thesis
  proof (cases r)
    case ReadError
    then show ?thesis using read_error [OF DrainRead] assms by (simp add: drain_step_unfold DrainRead split: if_splits)
  next
    case (ReadChunk n)
    then show ?thesis using empty [OF DrainRead] chunk [OF DrainRead, of n] assms
      by (simp add: drain_step_unfold DrainRead split: if_splits)
  qed
next
  case (DrainSet bs eof)
  show ?thesis using set [of _ _ eof] all_set [of eof] assms
    by (cases bs) (simp_all add: drain_step_def signal_def DrainSet)
next
  case (DrainRelease bs)
  show ?thesis using release [OF DrainRelease] released [OF DrainRelease] assms
    by (cases "su_barriers s") (simp_all add: drain_step_def take_barrier_def DrainRelease)
next
  case (DrainReleaseSet bs)
  show ?thesis using release_set stop assms
    by (cases bs) (simp_all add: drain_step_def signal_def DrainReleaseSet)
next
  case DrainSelect
  show ?thesis
  proof (cases "su_wake s = 0")
    case True
    then show ?thesis using readable [OF disjI1 [OF DrainSelect] True] assms by (simp add: drain_step_def DrainSelect split: if_splits)
  next
    case False
    then show ?thesis using woken [OF DrainSelect] assms by (simp add: drain_step_def DrainSelect)
  qed
next
  case DrainWake
  show ?thesis
  proof (cases "su_wake s = 0")
    case True
    then show ?thesis using readable [OF disjI2 [OF DrainWake] True] assms by (simp add: drain_step_def DrainWake)
  next
    case False
    then show ?thesis using wake [OF DrainWake] assms by (simp add: drain_step_def DrainWake)
  qed
next
  case DrainStart
  show ?thesis by (rule start [OF DrainStart _ refl]) (use assms in \<open>simp add: drain_step_def DrainStart\<close>)
next
  case DrainRegister
  show ?thesis by (rule register [OF DrainRegister _ refl]) (use assms in \<open>simp add: drain_step_def DrainRegister\<close>)
next
  case (DrainError bs)
  show ?thesis
    using excuse [OF DrainError] error [OF DrainError] assms
    by (cases "su_tearing_down s") (simp_all add: drain_step_def DrainError)
next
  case DrainFail
  show ?thesis by (rule fail [OF DrainFail]) (use assms in \<open>simp add: drain_step_def DrainFail\<close>)
next
  case DrainFailPut
  show ?thesis by (rule fail_put [OF DrainFailPut]) (use assms in \<open>simp add: drain_step_def DrainFailPut put_stdout_def\<close>)
next
  case DrainDone
  show ?thesis by (rule finish [OF DrainDone]) (use assms in \<open>simp add: drain_step_def DrainDone\<close>)
next
  case DrainStopped
  then show ?thesis using assms by (simp add: drain_step_def)
qed

lemma publish_stepE:
  assumes "publish_step e s = Some t"
  obtains
    (broken) "su_reader s = ReadLine" "t = s\<lparr>su_reader := ReadBroken\<rparr>"
  | (unreadable) "su_reader s = ReadLine" "su_out_closed s" "t = s\<lparr>su_reader := ReadStopped\<rparr>"
  | (line) line rest where "su_reader s = ReadLine" "read_line (MAX_MESSAGE_BYTES + 2) (su_out_eof s) (su_out_pipe s) = Some (line, rest)"
      "t = s\<lparr>su_out_pipe := rest, su_reader := PubPut (if line = [] then None else Some line)\<rparr>"
  | (sentinel) "su_reader s = ReadBroken" "t = s\<lparr>su_stdout := su_stdout s @ [(None, 0)], su_reader := ReadStopped\<rparr>"
  | (queue) f where "su_reader s = PubPut f"
      "t = s\<lparr>su_barriers := su_barriers s @ [su_next s], su_next := su_next s + 1,
         su_mark := (su_mark s)(su_next s := length (su_written s)), su_reader := PubCheck (su_next s) f\<rparr>"
  | (check) b f where "su_reader s = PubCheck b f" "su_done s" "t = s\<lparr>su_reader := PubRelease b f []\<rparr>"
  | (live) b f where "su_reader s = PubCheck b f" "\<not> su_done s" "t = s\<lparr>su_reader := PubWake b f\<rparr>"
  | (release) b f bs c rest where "su_reader s = PubRelease b f bs" "su_barriers s = c # rest"
      "t = s\<lparr>su_barriers := rest, su_reader := PubRelease b f (bs @ [c])\<rparr>"
  | (released) b f bs where "su_reader s = PubRelease b f bs" "su_barriers s = []" "t = s\<lparr>su_reader := PubReleaseSet b f bs\<rparr>"
  | (release_set) b f c cs where "su_reader s = PubReleaseSet b f (c # cs)"
      "t = s\<lparr>su_signalled := insert c (su_signalled s), su_reader := PubReleaseSet b f cs\<rparr>"
  | (all_set) b f where "su_reader s = PubReleaseSet b f []" "t = s\<lparr>su_reader := PubWait b f\<rparr>"
  | (wake) b f n where "su_reader s = PubWake b f" "\<not> close_in_progress s"
      "n = (if su_wake_open s \<and> su_wake s < PIPE_CAPACITY then su_wake s + 1 else su_wake s)"
      "t = s\<lparr>su_wake := n, su_reader := PubWait b f\<rparr>"
  | (signalled) b f where "su_reader s = PubWait b f" "b \<in> su_signalled s" "t = s\<lparr>su_reader := PubEnqueue b f\<rparr>"
  | (enqueue) b f pc where "su_reader s = PubEnqueue b f" "pc = (if f = None then ReadStopped else ReadLine)"
      "t = s\<lparr>su_stdout := su_stdout s @ [(f, su_mark s b)], su_reader := pc\<rparr>"
proof (cases "su_reader s")
  case ReadLine
  consider "e" | "\<not> e" "su_out_closed s" | "\<not> e" "\<not> su_out_closed s" by blast
  then show ?thesis
  proof cases
    case 1
    then show ?thesis using broken [OF ReadLine] assms by (simp add: publish_step_def ReadLine)
  next
    case 2
    then show ?thesis using unreadable [OF ReadLine] assms by (simp add: publish_step_def ReadLine)
  next
    case 3
    then show ?thesis using line [OF ReadLine] assms
      by (simp add: publish_step_def ReadLine split: option.splits prod.splits)
  qed
next
  case (PubCheck b f)
  then show ?thesis using check [OF PubCheck] live [OF PubCheck] assms by (cases "su_done s") (simp_all add: publish_step_def)
next
  case (PubRelease b f bs)
  show ?thesis using release [OF PubRelease] released [OF PubRelease] assms
    by (cases "su_barriers s") (simp_all add: publish_step_def take_barrier_def PubRelease)
next
  case (PubReleaseSet b f bs)
  show ?thesis using release_set [of b f] all_set [of b f] assms
    by (cases bs) (simp_all add: publish_step_def signal_def PubReleaseSet)
next
  case (PubWake b f)
  have "wake_stderr s = s\<lparr>su_wake := (if su_wake_open s \<and> su_wake s < PIPE_CAPACITY then su_wake s + 1 else su_wake s)\<rparr>"
    by (simp add: wake_stderr_def)
  then show ?thesis using wake [OF PubWake _ refl] assms by (simp add: publish_step_def PubWake split: if_splits)
next
  case (PubWait b f)
  show ?thesis using signalled [OF PubWait] assms by (simp add: publish_step_def PubWait split: if_splits)
next
  case (PubEnqueue b f)
  show ?thesis using enqueue [OF PubEnqueue refl] assms by (simp add: publish_step_def PubEnqueue put_stdout_def)
next
  case ReadBroken
  show ?thesis using sentinel [OF ReadBroken] assms by (simp add: publish_step_def ReadBroken put_stdout_def)
next
  case (PubPut f)
  show ?thesis using queue [OF PubPut] assms by (simp add: publish_step_def PubPut)
next
  case ReadStopped
  then show ?thesis using assms by (simp add: publish_step_def)
qed

lemma close_in_progress_iff: "close_in_progress s \<longleftrightarrow> (\<exists>pc f. su_host s = HostClose pc f)"
  by (cases "su_host s") (simp_all add: close_in_progress_def)

lemma close_stepE:
  assumes "host_step c s = Some t" and "su_host s = HostClose pc f"
  obtains
    (tear) "pc = CloseTearing" "t = s\<lparr>su_tearing_down := True, su_host := HostClose CloseStdin f\<rparr>"
  | (stdin) "pc = CloseStdin" "t = s\<lparr>su_stdin_closed := True, su_host := HostClose CloseTerminate f\<rparr>"
  | (terminate) "pc = CloseTerminate" "t = s\<lparr>su_running := False, su_host := HostClose CloseWake f\<rparr>"
  | (stdout) "pc = CloseStdout" "t = s\<lparr>su_out_closed := True, su_host := HostClose CloseStderr f\<rparr>"
  | (stderr) "pc = CloseStderr" "t = s\<lparr>su_err_closed := True, su_host := HostClose CloseDone f\<rparr>"
  | (finish) "pc = CloseDone" "t = s\<lparr>su_done := True, su_host := HostClose (CloseRelease []) f\<rparr>"
  | (join) "pc = CloseJoin" "t = s\<lparr>su_host := HostClose CloseWakeup f\<rparr>"
  | (wake) n where "pc = CloseWake" "n = (if su_wake_open s \<and> su_wake s < PIPE_CAPACITY then su_wake s + 1 else su_wake s)"
      "t = s\<lparr>su_wake := n, su_host := HostClose CloseStdout f\<rparr>"
  | (release) bs b rest where "pc = CloseRelease bs" "su_barriers s = b # rest"
      "t = s\<lparr>su_barriers := rest, su_host := HostClose (CloseRelease (bs @ [b])) f\<rparr>"
  | (released) bs where "pc = CloseRelease bs" "su_barriers s = []" "t = s\<lparr>su_host := HostClose (CloseReleaseSet bs) f\<rparr>"
  | (release_set) b bs where "pc = CloseReleaseSet (b # bs)"
      "t = s\<lparr>su_signalled := insert b (su_signalled s), su_host := HostClose (CloseReleaseSet bs) f\<rparr>"
  | (all_set) "pc = CloseReleaseSet []" "t = s\<lparr>su_host := HostClose CloseJoin f\<rparr>"
  | (close_wakeup) h where "pc = CloseWakeup" "h = (case f of None \<Rightarrow> HostIdle | Some g \<Rightarrow> HostFault g)"
      "t = s\<lparr>su_wake_open := False, su_wake := 0, su_host := h\<rparr>"
proof -
  have t: "t = close_step pc f s" using assms by (simp add: host_step_def)
  show ?thesis
  proof (cases pc)
    case (CloseRelease bs)
    show ?thesis using release [OF CloseRelease] released [OF CloseRelease]
      by (cases "su_barriers s") (simp_all add: t close_step_def take_barrier_def CloseRelease)
  next
    case (CloseReleaseSet bs)
    show ?thesis using release_set all_set by (cases bs) (simp_all add: t close_step_def signal_def CloseReleaseSet)
  next
    case CloseWake
    have "wake_stderr s = s\<lparr>su_wake := (if su_wake_open s \<and> su_wake s < PIPE_CAPACITY then su_wake s + 1 else su_wake s)\<rparr>"
      by (simp add: wake_stderr_def)
    then show ?thesis using wake [OF CloseWake refl] by (simp add: t close_step_def CloseWake)
  next
    case CloseTearing
    show ?thesis using tear [OF CloseTearing] by (simp add: t close_step_def CloseTearing)
  next
    case CloseStdin
    show ?thesis using stdin [OF CloseStdin] by (simp add: t close_step_def CloseStdin)
  next
    case CloseTerminate
    show ?thesis using terminate [OF CloseTerminate] by (simp add: t close_step_def CloseTerminate)
  next
    case CloseStdout
    show ?thesis using stdout [OF CloseStdout] by (simp add: t close_step_def CloseStdout)
  next
    case CloseStderr
    show ?thesis using stderr [OF CloseStderr] by (simp add: t close_step_def CloseStderr)
  next
    case CloseDone
    show ?thesis using finish [OF CloseDone] by (simp add: t close_step_def CloseDone)
  next
    case CloseJoin
    show ?thesis using join [OF CloseJoin] by (simp add: t close_step_def CloseJoin)
  next
    case CloseWakeup
    show ?thesis using close_wakeup [OF CloseWakeup refl] by (simp add: t close_step_def CloseWakeup)
  qed
qed

lemma request_stepE:
  assumes "host_step c s = Some t" and "\<not> close_in_progress s"
  obtains
    (call) f where "su_host s = HostIdle" "t = s\<lparr>su_host := HostFailed f\<rparr>"
  | (close) f where "\<not> host_tearing (su_host s)" "t = s\<lparr>su_host := HostClose CloseTearing f\<rparr>"
  | (alive) f where "su_host s = HostFailed f" "t = s\<lparr>su_host := HostRunning f\<rparr>"
  | (raised) e where "t = s\<lparr>su_results := su_results s @ [Inl e], su_host := HostIdle\<rparr>"
  | (encoded) f b where "su_host s = HostRunning f" "su_running s" "utf8_encode f = Inr b" "t = s\<lparr>su_host := HostWrite b\<rparr>"
  | (fault) f where "t = s\<lparr>su_host := HostFault f\<rparr>"
  | (written) b where "su_host s = HostWrite b" "t = s\<lparr>su_stdin := su_stdin s @ b @ [10], su_host := HostGet\<rparr>"
  | (got) x xs where "su_host s = HostGet" "su_stdout s = x # xs"
      "t = s\<lparr>su_stdout := xs, su_taken := su_taken s @ [x], su_host := HostGot (fst x)\<rparr>"
  | (accepted) line where "su_host s = HostGot (Some line)" "\<not> su_failed s" "length line \<le> MAX_MESSAGE_BYTES + 1" "last line = 10"
      "t = s\<lparr>su_host := HostLimit line\<rparr>"
  | (decoded) line r where "su_host s = HostLimit line" "\<not> su_stderr_truncated s" "utf8_decode (butlast line) = Some r"
      "t = s\<lparr>su_host := HostReply r\<rparr>"
  | (reply) r where "su_host s = HostReply r"
      "t = s\<lparr>su_results := su_results s @ [Inr (outcome (Some r) None False s)], su_host := HostIdle\<rparr>"
  | (refused) f where "su_host s = HostFault f"
      "t = s\<lparr>su_results := su_results s @ [Inr (outcome None (Some f) True s)], su_host := HostIdle\<rparr>"
proof (cases "su_host s")
  case HostIdle
  show ?thesis
  proof (cases c)
    case (CallRequest f)
    show ?thesis by (rule call [OF HostIdle, of f]) (use assms(1) CallRequest in \<open>simp add: host_step_def HostIdle\<close>)
  next
    case CallClose
    show ?thesis by (rule close [of None]) (use assms(1) CallClose in \<open>simp_all add: host_step_def HostIdle\<close>)
  qed (use assms(1) in \<open>simp_all add: host_step_def HostIdle\<close>)
next
  case (HostFailed f)
  from assms(1) consider f where "t = s\<lparr>su_host := HostClose CloseTearing (Some f)\<rparr>"
    | "t = s\<lparr>su_host := HostRunning f\<rparr>"
    by (auto simp: host_step_def HostFailed fault_and_close_def split: if_splits)
  then show ?thesis
  proof cases
    case 1
    show ?thesis by (rule close [OF _ 1]) (simp add: HostFailed)
  next
    case 2
    show ?thesis by (rule alive [OF HostFailed 2])
  qed
next
  case (HostRunning f)
  show ?thesis
  proof (cases "su_running s")
    case False
    show ?thesis by (rule raised) (use assms(1) False in \<open>auto simp: host_step_def HostRunning finish_call_def\<close>)
  next
    case True
    show ?thesis
    proof (cases "utf8_encode f")
      case (Inl e)
      show ?thesis by (rule raised [of e]) (use assms(1) True Inl in \<open>simp add: host_step_def HostRunning finish_call_def\<close>)
    next
      case (Inr b)
      show ?thesis
        by (rule encoded [OF HostRunning True Inr]) (use assms(1) True Inr in \<open>simp add: host_step_def HostRunning\<close>)
    qed
  qed
next
  case (HostWrite b)
  consider "su_stdin_closed s" | "\<not> su_stdin_closed s" "c = Trouble" | "\<not> su_stdin_closed s" "c \<noteq> Trouble" by blast
  then show ?thesis
  proof cases
    case 1
    show ?thesis by (rule raised) (use assms(1) 1 in \<open>auto simp: host_step_def HostWrite finish_call_def\<close>)
  next
    case 2
    show ?thesis by (rule fault) (use assms(1) 2 in \<open>auto simp: host_step_def HostWrite\<close>)
  next
    case 3
    show ?thesis by (rule written [OF HostWrite]) (use assms(1) 3 in \<open>simp add: host_step_def HostWrite\<close>)
  qed
next
  case HostGet
  from assms(1) consider f where "t = s\<lparr>su_host := HostClose CloseTearing (Some f)\<rparr>"
    | x xs where "su_stdout s = x # xs" "t = s\<lparr>su_stdout := xs, su_taken := su_taken s @ [x], su_host := HostGot (fst x)\<rparr>"
    by (auto simp: host_step_def HostGet fault_and_close_def split: if_splits list.splits)
  then show ?thesis
  proof cases
    case 1
    show ?thesis by (rule close [OF _ 1]) (simp add: HostGet)
  next
    case 2
    show ?thesis by (rule got [OF HostGet 2])
  qed
next
  case (HostGot raw)
  consider "su_failed s" | "\<not> su_failed s" "raw = None"
    | line where "\<not> su_failed s" "raw = Some line" "length line > MAX_MESSAGE_BYTES + 1 \<or> last line \<noteq> 10"
    | line where "\<not> su_failed s" "raw = Some line" "length line \<le> MAX_MESSAGE_BYTES + 1" "last line = 10"
    by (metis not_less option.exhaust)
  then show ?thesis
  proof cases
    case 1
    show ?thesis
      by (rule close [of "Some ''STDERR_DRAIN_FAILED''"]) (use assms(1) 1 in \<open>simp_all add: host_step_def fault_and_close_def HostGot\<close>)
  next
    case 2
    show ?thesis by (rule fault [of "''PROCESS_CLOSED''"]) (use assms(1) 2 in \<open>simp add: host_step_def HostGot\<close>)
  next
    case 3
    show ?thesis
      by (rule close [of "Some ''MESSAGE_TOO_LARGE''"])
        (use assms(1) 3 in \<open>simp_all add: host_step_def fault_and_close_def HostGot split: if_splits\<close>)
  next
    case 4
    show ?thesis
      by (rule accepted [OF _ 4(1,3,4)]) (use assms(1) 4 in \<open>simp_all add: host_step_def HostGot\<close>)
  qed
next
  case (HostLimit line)
  show ?thesis
  proof (cases "su_stderr_truncated s")
    case True
    show ?thesis by (rule fault [of "''STDERR_LIMIT_EXCEEDED''"]) (use assms(1) True in \<open>simp add: host_step_def HostLimit\<close>)
  next
    case False
    show ?thesis
    proof (cases "utf8_decode (butlast line)")
      case None
      show ?thesis
        by (rule close [of "Some ''INVALID_FRAMING''"])
          (use assms(1) False None in \<open>simp_all add: host_step_def fault_and_close_def HostLimit\<close>)
    next
      case (Some r)
      show ?thesis by (rule decoded [OF HostLimit False Some]) (use assms(1) False Some in \<open>simp add: host_step_def HostLimit\<close>)
    qed
  qed
next
  case (HostReply r)
  show ?thesis by (rule reply [OF HostReply]) (use assms(1) in \<open>simp add: host_step_def finish_call_def HostReply\<close>)
next
  case (HostFault f)
  show ?thesis by (rule refused [OF HostFault]) (use assms(1) in \<open>simp add: host_step_def finish_call_def HostFault\<close>)
next
  case (HostClose pc f)
  then show ?thesis using assms(2) by (simp add: close_in_progress_def)
qed

lemma fresh_drain: "fresh_inv s \<Longrightarrow> drain_step r s = Some t \<Longrightarrow> fresh_inv t"
  by (erule drain_stepE) (simp_all add: fresh_inv_def absorb_def Let_def)

lemma fresh_publish: "fresh_inv s \<Longrightarrow> publish_step e s = Some t \<Longrightarrow> fresh_inv t"
  by (erule publish_stepE) (simp_all add: fresh_inv_def less_Suc_eq)

lemma fresh_child: "fresh_inv s \<Longrightarrow> child_step s t \<Longrightarrow> fresh_inv t"
  by (erule child_step.cases) (simp_all add: fresh_inv_def trans_le_add1)

lemma buffer_child: "buffer_inv s \<Longrightarrow> child_step s t \<Longrightarrow> buffer_inv t"
  by (auto elim!: child_step.cases simp: buffer_inv_def)

lemma buffer_publish: "buffer_inv s \<Longrightarrow> publish_step e s = Some t \<Longrightarrow> buffer_inv t"
  by (erule publish_stepE) (simp_all add: buffer_inv_def)

lemma absorb_exact:
  assumes "su_stderr s = take MAX_STDERR_BYTES_PER_CONNECTION d"
    and "su_stderr_truncated s = (MAX_STDERR_BYTES_PER_CONNECTION < length d)"
  shows "su_stderr (absorb c s) = take MAX_STDERR_BYTES_PER_CONNECTION (d @ c)"
    and "c \<noteq> [] \<Longrightarrow> su_stderr_truncated (absorb c s) = (MAX_STDERR_BYTES_PER_CONNECTION < length (d @ c))"
  using assms by (auto simp: absorb_def Let_def min_def nat_diff_distrib)

lemma buffer_drain:
  assumes "buffer_inv s" and "drain_step r s = Some t"
  shows "buffer_inv t"
  using assms(2)
proof (cases rule: drain_stepE)
  case (chunk bs n)
  obtain d where d: "su_written s = d @ su_err_pipe s" "su_stderr s = take MAX_STDERR_BYTES_PER_CONNECTION d"
      "su_stderr_truncated s = (MAX_STDERR_BYTES_PER_CONNECTION < length d)"
    using assms(1) by (auto simp: buffer_inv_def)
  let ?c = "take n (su_err_pipe s)"
  have "?c \<noteq> []" using chunk by auto
  then show ?thesis unfolding buffer_inv_def
    by (intro exI [of _ "d @ ?c"]) (use absorb_exact [OF d(2,3), of ?c] d(1) chunk in \<open>simp add: absorb_def Let_def\<close>)
qed (use assms(1) in \<open>simp_all add: buffer_inv_def\<close>)

lemma host_invI:
  assumes "host_step c s = Some t"
    and "\<And>pc f. su_host s = HostClose pc f \<Longrightarrow> P t"
    and "\<not> close_in_progress s \<Longrightarrow> P t"
  shows "P t"
  using assms by (meson close_in_progress_iff)

lemma fresh_host:
  assumes "fresh_inv s" and "host_step c s = Some t"
  shows "fresh_inv t"
  using assms(2)
proof (rule host_invI)
  fix pc f assume h: "su_host s = HostClose pc f"
  from assms(2) this show "fresh_inv t"
    by (rule close_stepE) (use assms(1) h in \<open>simp_all add: fresh_inv_def split: option.split\<close>)
next
  assume "\<not> close_in_progress s"
  from assms(2) this show "fresh_inv t" by (rule request_stepE) (use assms(1) in \<open>simp_all add: fresh_inv_def\<close>)
qed

lemma buffer_host:
  assumes "buffer_inv s" and "host_step c s = Some t"
  shows "buffer_inv t"
  using assms(2)
proof (rule host_invI)
  fix pc f assume "su_host s = HostClose pc f"
  from assms(2) this show "buffer_inv t" by (rule close_stepE) (use assms(1) in \<open>simp_all add: buffer_inv_def\<close>)
next
  assume "\<not> close_in_progress s"
  from assms(2) this show "buffer_inv t" by (rule request_stepE) (use assms(1) in \<open>simp_all add: buffer_inv_def\<close>)
qed

lemma tearing_child: "tearing_inv s \<Longrightarrow> child_step s t \<Longrightarrow> tearing_inv t"
  by (auto elim!: child_step.cases simp: tearing_inv_def)

lemma tearing_publish: "tearing_inv s \<Longrightarrow> publish_step e s = Some t \<Longrightarrow> tearing_inv t"
  by (erule publish_stepE) (auto simp: tearing_inv_def)

lemma tearing_drain: "tearing_inv s \<Longrightarrow> drain_step r s = Some t \<Longrightarrow> tearing_inv t"
  by (erule drain_stepE) (auto simp: tearing_inv_def absorb_def Let_def)

lemma tearing_host:
  assumes "tearing_inv s" and "host_step c s = Some t"
  shows "tearing_inv t"
  using assms(2)
proof (rule host_invI)
  fix pc f assume h: "su_host s = HostClose pc f"
  from assms(2) this show "tearing_inv t"
    by (rule close_stepE) (use assms(1) h in \<open>simp_all add: tearing_inv_def split: option.split\<close>)
next
  assume n: "\<not> close_in_progress s"
  from assms(2) this show "tearing_inv t"
    by (rule request_stepE) (use assms(1) n in \<open>auto simp: tearing_inv_def close_in_progress_def\<close>)
qed

text \<open>Coverage needs the other parts: what is drained never shrinks, and a fresh barrier was never signalled.\<close>

lemma drained_frame [simp]:
  shows
    "drained (su_running_update f1 s) = drained s" "drained (su_stdin_update f2 s) = drained s"
    "drained (su_stdin_closed_update f3 s) = drained s" "drained (su_out_pipe_update f4 s) = drained s"
    "drained (su_out_eof_update f5 s) = drained s" "drained (su_out_closed_update f6 s) = drained s"
    "drained (su_err_eof_update f7 s) = drained s" "drained (su_err_closed_update f8 s) = drained s"
    "drained (su_wake_update f9 s) = drained s" "drained (su_wake_open_update f10 s) = drained s"
    "drained (su_stdout_update f11 s) = drained s" "drained (su_stderr_update f12 s) = drained s"
    "drained (su_stderr_truncated_update f13 s) = drained s" "drained (su_barriers_update f14 s) = drained s"
    "drained (su_signalled_update f15 s) = drained s" "drained (su_next_update f16 s) = drained s"
    "drained (su_done_update f17 s) = drained s" "drained (su_drainer_update f18 s) = drained s"
    "drained (su_reader_update f19 s) = drained s" "drained (su_host_update f20 s) = drained s"
    "drained (su_results_update f21 s) = drained s" "drained (su_out_written_update f22 s) = drained s"
    "drained (su_mark_update f23 s) = drained s" "drained (su_taken_update f24 s) = drained s"
    "drained (su_tearing_down_update f25 s) = drained s" "drained (su_failed_update f26 s) = drained s"
    "drained (su_err_broken_update f53 s) = drained s"
  by (simp_all add: drained_def)

lemma excused_frame [simp]:
  shows
    "excused (su_running_update f27 s) = excused s" "excused (su_stdin_update f28 s) = excused s"
    "excused (su_stdin_closed_update f29 s) = excused s" "excused (su_out_pipe_update f30 s) = excused s"
    "excused (su_out_eof_update f31 s) = excused s" "excused (su_out_closed_update f32 s) = excused s"
    "excused (su_err_eof_update f33 s) = excused s" "excused (su_err_closed_update f34 s) = excused s"
    "excused (su_wake_update f35 s) = excused s" "excused (su_wake_open_update f36 s) = excused s"
    "excused (su_stdout_update f37 s) = excused s" "excused (su_stderr_update f38 s) = excused s"
    "excused (su_stderr_truncated_update f39 s) = excused s" "excused (su_barriers_update f40 s) = excused s"
    "excused (su_signalled_update f41 s) = excused s" "excused (su_next_update f42 s) = excused s"
    "excused (su_done_update f43 s) = excused s" "excused (su_drainer_update f44 s) = excused s"
    "excused (su_reader_update f45 s) = excused s" "excused (su_host_update f46 s) = excused s"
    "excused (su_results_update f47 s) = excused s" "excused (su_out_written_update f48 s) = excused s"
    "excused (su_mark_update f49 s) = excused s" "excused (su_taken_update f50 s) = excused s"
    "excused (su_err_pipe_update f51 s) = excused s" "excused (su_written_update f52 s) = excused s"
    "excused (su_err_broken_update f54 s) = excused s"
  by (simp_all add: excused_def)

lemma exhausted_covered: "exhausted s \<Longrightarrow> fresh_inv s \<Longrightarrow> covered s (su_mark s b)"
  by (auto simp: exhausted_def covered_def drained_def fresh_inv_def)

lemmas coverage_unfold = coverage_inv_def covered_def exhausted_def

lemma coverage_child:
  assumes "coverage_inv s" and "buffer_inv s" and "child_step s t"
  shows "coverage_inv t"
  using assms(3)
proof cases
  case (child_err bs)
  then have "drained t = drained s" "excused t = excused s" using assms(2) by (auto simp: drained_def buffer_inv_def)
  then show ?thesis using assms(1) child_err by (simp add: coverage_unfold)
qed (use assms(1) in \<open>auto simp: coverage_unfold\<close>)

lemma coverage_publish:
  assumes "coverage_inv s" and "fresh_inv s" and "publish_step e s = Some t"
  shows "coverage_inv t"
proof -
  have "su_signalled s \<subseteq> {b. b < su_next s}" "\<forall>b\<in>set (drainer_held (su_drainer s)). b < su_next s"
    using assms(2) by (auto simp: fresh_inv_def)
  moreover have "set (drainer_clears pc) \<subseteq> set (drainer_held pc)" for pc by (cases pc) simp_all
  ultimately have fresh: "su_next s \<notin> su_signalled s" "su_next s \<notin> set (drainer_clears (su_drainer s))" by auto
  have ex: "exhausted s \<Longrightarrow> covered s (su_mark s b)" for b by (rule exhausted_covered [OF _ assms(2)])
  show ?thesis using assms(3)
  proof (cases rule: publish_stepE)
    case (queue f)
    have "b \<noteq> su_next s" if "b \<in> su_signalled s \<or> b \<in> set (drainer_clears (su_drainer s))" for b using that fresh by auto
    then show ?thesis using assms(1) queue by (simp add: coverage_unfold)
  next
    case (release_set b f c cs)
    then show ?thesis using assms(1) ex by (simp add: coverage_unfold)
  qed (use assms(1) in \<open>auto simp: coverage_unfold\<close>)
qed

lemma coverage_drain:
  assumes "coverage_inv s" and "fresh_inv s" and "buffer_inv s" and "tearing_inv s" and "drain_step r s = Some t"
  shows "coverage_inv t"
proof -
  have ex: "exhausted s \<Longrightarrow> covered s (su_mark s b)" for b by (rule exhausted_covered [OF _ assms(2)])
  show ?thesis using assms(5)
  proof (cases rule: drain_stepE)
    case (chunk bs n)
    then have "drained s \<le> drained t" "excused t = excused s" by (auto simp: drained_def absorb_def Let_def excused_def)
    then show ?thesis using assms(1) chunk by (auto simp: coverage_unfold absorb_def Let_def)
  next
    case (empty bs)
    then show ?thesis using assms(1,2) by (simp add: coverage_unfold) (simp add: drained_def fresh_inv_def)
  next
    case fail
    then have "excused t" by (simp add: excused_def)
    then show ?thesis using assms(1) fail by (simp add: coverage_unfold)
  next
    case (start pc)
    then show ?thesis using assms(1,4) by (simp add: coverage_unfold tearing_inv_def excused_def)
  next
    case (excuse bs)
    then have "excused s" by (simp add: excused_def)
    then show ?thesis using assms(1) excuse by (simp add: coverage_unfold)
  next
    case (release bs b rest)
    then show ?thesis using assms(1) ex by (simp add: coverage_unfold)
  qed (use assms(1) in \<open>auto simp: coverage_unfold\<close>)
qed

lemma coverage_host:
  assumes "coverage_inv s" and "fresh_inv s" and "tearing_inv s" and "host_step c s = Some t"
  shows "coverage_inv t"
  using assms(4)
proof (rule host_invI)
  fix pc f assume h: "su_host s = HostClose pc f"
  have "excused s" if "pc \<noteq> CloseTearing" using that h assms(3) by (simp add: tearing_inv_def excused_def)
  moreover have "excused t" if "su_tearing_down t" using that by (simp add: excused_def)
  moreover from assms(4) h have "pc = CloseTearing \<and> su_tearing_down t \<or> pc \<noteq> CloseTearing \<and> excused t = excused s"
    by (rule close_stepE) simp_all
  ultimately have "excused t" "pc \<noteq> CloseTearing \<Longrightarrow> excused s" by auto
  from assms(4) h show "coverage_inv t"
    by (rule close_stepE) (use assms(1) \<open>excused t\<close> in \<open>simp_all add: coverage_unfold\<close>)
next
  assume "\<not> close_in_progress s"
  from assms(4) this show "coverage_inv t"
    by (rule request_stepE) (use assms(1) in \<open>simp_all add: coverage_unfold\<close>)
qed

text \<open>What the caller holds stays covered while the other threads run.\<close>

definition same_call :: "supervisor \<Rightarrow> supervisor \<Rightarrow> bool" where
  "same_call s t \<longleftrightarrow> su_host t = su_host s \<and> su_taken t = su_taken s \<and> drained s \<le> drained t \<and> (excused s \<longrightarrow> excused t)"

lemma reply_same_call: "same_call s t \<Longrightarrow> reply_inv s \<Longrightarrow> reply_inv t"
  unfolding reply_inv_def covered_def same_call_def
  by (cases "su_host s") (auto intro: order_trans)

lemma same_call_child: "buffer_inv s \<Longrightarrow> child_step s t \<Longrightarrow> same_call s t"
  by (erule child_step.cases) (auto simp: same_call_def drained_def excused_def buffer_inv_def)

lemma same_call_publish: "publish_step e s = Some t \<Longrightarrow> same_call s t"
  by (erule publish_stepE) (simp_all add: same_call_def)

lemma same_call_drain: "drain_step r s = Some t \<Longrightarrow> same_call s t"
  by (erule drain_stepE) (simp_all add: same_call_def absorb_def Let_def drained_def excused_def)

lemma reply_host:
  assumes "reply_inv s" and "coverage_inv s" and "buffer_inv s" and "tearing_inv s" and "host_step c s = Some t"
  shows "reply_inv t"
  using assms(5)
proof (rule host_invI)
  fix pc f assume h: "su_host s = HostClose pc f"
  from assms(5) this show "reply_inv t"
    by (rule close_stepE) (simp_all add: reply_inv_def split: option.split)
next
  assume "\<not> close_in_progress s"
  from assms(5) this show "reply_inv t"
  proof (rule request_stepE)
    fix x xs assume "su_stdout s = x # xs" "t = s\<lparr>su_stdout := xs, su_taken := su_taken s @ [x], su_host := HostGot (fst x)\<rparr>"
    then show ?thesis using assms(2) by (simp add: reply_inv_def coverage_inv_def covered_def)
  next
    fix line assume l: "su_host s = HostGot (Some line)" "\<not> su_failed s" "length line \<le> MAX_MESSAGE_BYTES + 1" "last line = 10"
      "t = s\<lparr>su_host := HostLimit line\<rparr>"
    then have "\<not> excused s" using assms(4) by (simp add: tearing_inv_def excused_def)
    then show ?thesis using assms(1) l by (simp add: reply_inv_def covered_def)
  next
    fix line r assume l: "su_host s = HostLimit line" "\<not> su_stderr_truncated s" "utf8_decode (butlast line) = Some r"
      "t = s\<lparr>su_host := HostReply r\<rparr>"
    have "drained s \<le> MAX_STDERR_BYTES_PER_CONNECTION" using assms(3) l(2) by (auto simp: buffer_inv_def drained_def)
    then show ?thesis using assms(1) l by (auto simp: reply_inv_def)
  qed (simp_all add: reply_inv_def)
qed

section \<open>The supervisor as a transition system\<close>

lemma supervisor_inv_step:
  assumes "supervisor_inv s" and "supervisor_step s t"
  shows "supervisor_inv t"
proof -
  have i: "fresh_inv s" "buffer_inv s" "tearing_inv s" "coverage_inv s" "reply_inv s"
    using assms(1) by (simp_all add: supervisor_inv_def)
  show ?thesis using assms(2)
  proof cases
    case (of_drainer r)
    then show ?thesis unfolding supervisor_inv_def
      using fresh_drain buffer_drain tearing_drain coverage_drain reply_same_call same_call_drain i by meson
  next
    case (of_reader e)
    then show ?thesis unfolding supervisor_inv_def
      using fresh_publish buffer_publish tearing_publish coverage_publish reply_same_call same_call_publish i by meson
  next
    case (of_host c)
    then show ?thesis unfolding supervisor_inv_def
      using fresh_host buffer_host tearing_host coverage_host reply_host i by meson
  next
    case of_child
    then show ?thesis unfolding supervisor_inv_def
      using fresh_child buffer_child tearing_child coverage_child reply_same_call same_call_child i by meson
  qed
qed

definition supervisor_start :: "supervisor \<Rightarrow> bool" where
  "supervisor_start s \<longleftrightarrow> (\<exists>resolved. enter resolved = Inr s)"

lemma supervisor_start_iff: "supervisor_start s \<Longrightarrow> s = entered"
  by (auto simp: supervisor_start_def enter_def rbind_Inr_iff)

interpretation supervisor: invariant_system supervisor_start supervisor_step supervisor_inv
  by unfold_locales (auto dest: supervisor_start_iff intro: supervisor_inv_start supervisor_inv_step)

text \<open>
  C24. At every moment of every interleaving the diagnostics kept are exactly the first 65536 of the bytes of standard error that have
  been read so far, in order, and the truncation flag says exactly whether more were read; nothing that is read is lost or invented.
\<close>

theorem diagnostics_exact:
  assumes "supervisor_start s" and "supervisor_step\<^sup>*\<^sup>* s t"
  shows "\<exists>d. su_written t = d @ su_err_pipe t \<and> su_stderr t = take MAX_STDERR_BYTES_PER_CONNECTION d \<and>
    su_stderr_truncated t = (MAX_STDERR_BYTES_PER_CONNECTION < length d)"
  using supervisor.inv_reachable [OF assms] by (auto simp: supervisor_inv_def buffer_inv_def)

text \<open>
  C22. A response is handed over only with the diagnostics that precede it. Whenever a request returns a response, the frame it
  took from the queue was a whole line of at most 1048576 bytes that decodes to that response, and the diagnostics returned with it
  extend everything the child had written to standard error when the frame was queued; the connection was not being torn down
  and the call reports no fault.
\<close>

theorem response_after_diagnostics:
  assumes "supervisor_start s" and "supervisor_step\<^sup>*\<^sup>* s t" and "host_step c t = Some u"
    and "su_results u = su_results t @ [Inr out]" and "so_response out = Some r"
  shows "\<exists>line m. su_taken t \<noteq> [] \<and> last (su_taken t) = (Some line, m) \<and> last line = 10 \<and>
    length line \<le> MAX_MESSAGE_BYTES + 1 \<and> utf8_decode (butlast line) = Some r \<and>
    m \<le> length (so_stderr out) \<and> take m (so_stderr out) = take m (su_written t) \<and>
    so_fault out = None \<and> \<not> so_should_close out \<and> \<not> su_tearing_down t"
proof -
  have i: "buffer_inv t" "tearing_inv t" "reply_inv t"
    using supervisor.inv_reachable [OF assms(1,2)] by (simp_all add: supervisor_inv_def)
  have "\<not> close_in_progress t"
  proof
    assume "close_in_progress t"
    then obtain pc f where "su_host t = HostClose pc f" by (auto simp: close_in_progress_iff)
    with assms(3) show False by (rule close_stepE) (use assms(4) in simp_all)
  qed
  from assms(3) this have "su_host t = HostReply r \<and> out = outcome (Some r) None False t"
    by (rule request_stepE) (use assms(4,5) in \<open>auto simp: outcome_def\<close>)
  then have h: "su_host t = HostReply r" "out = outcome (Some r) None False t" by simp_all
  obtain d where d: "su_written t = d @ su_err_pipe t" "su_stderr t = take MAX_STDERR_BYTES_PER_CONNECTION d"
    using i(1) by (auto simp: buffer_inv_def)
  obtain line where line: "su_taken t \<noteq> []" "fst (last (su_taken t)) = Some line" "length line \<le> MAX_MESSAGE_BYTES + 1"
      "last line = 10" "utf8_decode (butlast line) = Some r" and m: "snd (last (su_taken t)) \<le> length d"
      "snd (last (su_taken t)) \<le> MAX_STDERR_BYTES_PER_CONNECTION"
    using i(3) h(1) d(1) by (auto simp: reply_inv_def drained_def)
  show ?thesis
    by (intro exI [of _ line] exI [of _ "snd (last (su_taken t))"])
      (use line m d h i(2) in \<open>auto simp: outcome_def tearing_inv_def prod_eq_iff min_def\<close>)
qed

end
