(* ===== verification/SupervisorLive.thy ===== *)
theory SupervisorLive
  imports SupervisorProps
begin

section \<open>No frame waits for ever\<close>

text \<open>The drain has failed or is about to say so: the barriers the drainer held are lost, and the caller is told.\<close>

definition failing :: "supervisor \<Rightarrow> bool" where
  "failing s \<longleftrightarrow> su_failed s \<or> su_drainer s = DrainFail"

fun awaited :: "reader_pc \<Rightarrow> nat option" where
  "awaited (PubWake b f) = Some b"
| "awaited (PubWait b f) = Some b"
| "awaited _ = None"

fun reader_pending :: "reader_pc \<Rightarrow> nat option" where
  "reader_pending (PubCheck b f) = Some b"
| "reader_pending (PubRelease b f bs) = Some b"
| "reader_pending (PubReleaseSet b f bs) = Some b"
| "reader_pending (PubWake b f) = Some b"
| "reader_pending (PubWait b f) = Some b"
| "reader_pending _ = None"

fun before_done :: "close_pc \<Rightarrow> bool" where
  "before_done (CloseRelease _) = False"
| "before_done (CloseReleaseSet _) = False"
| "before_done CloseJoin = False"
| "before_done CloseWakeup = False"
| "before_done _ = True"

fun will_release :: "drainer_pc \<Rightarrow> bool" where
  "will_release DrainWake = True"
| "will_release (DrainTake _) = True"
| "will_release (DrainSet _ eof) = eof"
| "will_release DrainFail = True"
| "will_release DrainFailPut = True"
| "will_release DrainDone = True"
| "will_release _ = False"

fun host_will_release :: "host_pc \<Rightarrow> bool" where
  "host_will_release (HostClose pc f) = before_done pc"
| "host_will_release _ = False"

fun host_releases :: "host_pc \<Rightarrow> bool" where
  "host_releases (HostClose (CloseRelease bs) f) = True"
| "host_releases _ = False"

fun drainer_releases :: "drainer_pc \<Rightarrow> bool" where
  "drainer_releases (DrainRelease bs) = True"
| "drainer_releases _ = False"

fun drainer_over :: "drainer_pc \<Rightarrow> bool" where
  "drainer_over (DrainRelease bs) = True"
| "drainer_over (DrainReleaseSet bs) = True"
| "drainer_over DrainStopped = True"
| "drainer_over _ = False"

definition close_order_inv :: "supervisor \<Rightarrow> bool" where
  "close_order_inv s \<longleftrightarrow>
     (\<not> su_wake_open s \<longrightarrow> su_done s) \<and>
     (su_err_closed s \<longrightarrow> su_done s \<or> (\<exists>f. su_host s = HostClose CloseDone f)) \<and>
     (\<forall>pc f. su_host s = HostClose pc f \<and> \<not> before_done pc \<longrightarrow> su_done s) \<and>
     (drainer_over (su_drainer s) \<longrightarrow> su_done s \<or> (\<exists>f. su_host s = HostClose CloseDone f))"

definition held_inv :: "supervisor \<Rightarrow> bool" where
  "held_inv s \<longleftrightarrow>
     (\<forall>b. reader_pending (su_reader s) = Some b \<and> b \<notin> su_signalled s \<longrightarrow>
        b \<in> set (su_barriers s) \<or> b \<in> set (drainer_held (su_drainer s)) \<or> b \<in> set (reader_held (su_reader s)) \<or>
        b \<in> set (host_held (su_host s)) \<or> failing s) \<and>
     (\<forall>b f cs. su_reader s = PubReleaseSet b f cs \<longrightarrow> su_barriers s = [])"

definition attended_inv :: "supervisor \<Rightarrow> bool" where
  "attended_inv s \<longleftrightarrow>
     (\<forall>b. awaited (su_reader s) = Some b \<and> b \<in> set (su_barriers s) \<and> su_done s \<longrightarrow>
        drainer_releases (su_drainer s) \<or> host_releases (su_host s)) \<and>
     (\<forall>b f. su_reader s = PubWait b f \<and> b \<in> set (su_barriers s) \<and> \<not> su_done s \<longrightarrow>
        0 < su_wake s \<or> will_release (su_drainer s) \<or> host_will_release (su_host s))"

lemma order_drain: "close_order_inv s \<Longrightarrow> drain_step r s = Some t \<Longrightarrow> close_order_inv t"
  by (erule drain_stepE) (auto simp: close_order_inv_def absorb_def Let_def)

lemma order_publish: "close_order_inv s \<Longrightarrow> publish_step e s = Some t \<Longrightarrow> close_order_inv t"
  by (erule publish_stepE) (simp_all add: close_order_inv_def)

lemma order_child: "close_order_inv s \<Longrightarrow> child_step s t \<Longrightarrow> close_order_inv t"
  by (erule child_step.cases) (simp_all add: close_order_inv_def)

lemma order_host:
  assumes "close_order_inv s" and "host_step c s = Some t"
  shows "close_order_inv t"
  using assms(2)
proof (rule host_invI)
  fix pc f assume h: "su_host s = HostClose pc f"
  from assms(2) this show "close_order_inv t"
    by (rule close_stepE) (use assms(1) h in \<open>auto simp: close_order_inv_def split: option.split\<close>)
next
  assume n: "\<not> close_in_progress s"
  from assms(2) this show "close_order_inv t"
    by (rule request_stepE) (use assms(1) n in \<open>auto simp: close_order_inv_def close_in_progress_iff\<close>)
qed

lemma held_drain: "held_inv s \<Longrightarrow> drain_step r s = Some t \<Longrightarrow> held_inv t"
  by (erule drain_stepE) (auto simp: held_inv_def failing_def absorb_def Let_def)

lemma held_publish: "held_inv s \<Longrightarrow> publish_step e s = Some t \<Longrightarrow> held_inv t"
  by (erule publish_stepE) (auto simp: held_inv_def failing_def)

lemma held_child: "held_inv s \<Longrightarrow> child_step s t \<Longrightarrow> held_inv t"
  by (erule child_step.cases) (simp_all add: held_inv_def failing_def)

lemma held_host:
  assumes "held_inv s" and "host_step c s = Some t"
  shows "held_inv t"
  using assms(2)
proof (rule host_invI)
  fix pc f assume h: "su_host s = HostClose pc f"
  from assms(2) this show "held_inv t"
    by (rule close_stepE) (use assms(1) h in \<open>auto simp: held_inv_def failing_def split: option.split\<close>)
next
  assume n: "\<not> close_in_progress s"
  then have "host_held (su_host s) = []" by (cases "su_host s") (auto simp: close_in_progress_iff)
  note h = this
  from assms(2) n show "held_inv t"
    by (rule request_stepE) (use assms(1) h in \<open>auto simp: held_inv_def failing_def\<close>)
qed

lemma attended_drain:
  "attended_inv s \<Longrightarrow> close_order_inv s \<Longrightarrow> drain_step r s = Some t \<Longrightarrow> attended_inv t"
  by (erule drain_stepE) (auto simp: attended_inv_def close_order_inv_def absorb_def Let_def)

lemma attended_publish:
  assumes "attended_inv s" and "held_inv s" and "close_order_inv s" and "publish_step e s = Some t"
  shows "attended_inv t"
  using assms(4)
proof (cases rule: publish_stepE)
  case (wake b f n)
  then show ?thesis using assms(1,3) by (auto simp: attended_inv_def close_order_inv_def PIPE_CAPACITY_def)
next
  case (all_set b f)
  then show ?thesis using assms(2) by (auto simp: attended_inv_def held_inv_def)
qed (use assms(1) in \<open>auto simp: attended_inv_def\<close>)

lemma attended_child: "attended_inv s \<Longrightarrow> child_step s t \<Longrightarrow> attended_inv t"
  by (erule child_step.cases) (simp_all add: attended_inv_def)

lemma attended_host:
  assumes "attended_inv s" and "close_order_inv s" and "host_step c s = Some t"
  shows "attended_inv t"
  using assms(3)
proof (rule host_invI)
  fix pc f assume h: "su_host s = HostClose pc f"
  from assms(3) this show "attended_inv t"
    by (rule close_stepE) (use assms(1,2) h in \<open>auto simp: attended_inv_def close_order_inv_def split: option.split\<close>)
next
  assume n: "\<not> close_in_progress s"
  then have h: "\<not> host_releases (su_host s)" "\<not> host_will_release (su_host s)"
    by (cases "su_host s"; auto simp: close_in_progress_iff)+
  from assms(3) n show "attended_inv t"
    by (rule request_stepE) (use assms(1) h in \<open>auto simp: attended_inv_def\<close>)
qed

definition release_inv :: "supervisor \<Rightarrow> bool" where
  "release_inv s \<longleftrightarrow> supervisor_inv s \<and> close_order_inv s \<and> held_inv s \<and> attended_inv s"

lemma release_inv_step:
  assumes "release_inv s" and "supervisor_step s t"
  shows "release_inv t"
proof -
  have i: "supervisor_inv s" "close_order_inv s" "held_inv s" "attended_inv s"
    using assms(1) by (simp_all add: release_inv_def)
  show ?thesis unfolding release_inv_def
    using assms(2)
  proof (intro conjI supervisor_inv_step [OF i(1) assms(2)]; cases)
  qed (use i in \<open>auto intro: order_drain order_publish order_child order_host held_drain held_publish held_child held_host
      attended_drain attended_publish attended_child attended_host\<close>)
qed

interpretation release: invariant_system supervisor_start supervisor_step release_inv
proof unfold_locales
  show "release_inv s" if "supervisor_start s" for s
    using supervisor_start_iff [OF that] supervisor_inv_start
    by (simp add: release_inv_def close_order_inv_def held_inv_def attended_inv_def entered_def)
qed (rule release_inv_step)

text \<open>
  The steps of the host's own threads that bring a waiting frame its barrier: the drainer, and \<open>close\<close> once it has begun. Neither the
  child nor the reader has to move.
\<close>

inductive service_step :: "supervisor \<Rightarrow> supervisor \<Rightarrow> bool" where
  service_drain: "drain_step r s = Some t \<Longrightarrow> service_step s t"
| service_close: "close_in_progress s \<Longrightarrow> host_step Proceed s = Some t \<Longrightarrow> service_step s t"

definition leads :: "supervisor \<Rightarrow> nat \<Rightarrow> bool" where
  "leads s b \<longleftrightarrow> (\<exists>t. service_step\<^sup>*\<^sup>* s t \<and> (b \<in> su_signalled t \<or> su_failed t))"

lemma leads_now: "b \<in> su_signalled s \<or> su_failed s \<Longrightarrow> leads s b"
  unfolding leads_def by blast

lemma leads_drain:
  assumes "drain_step r s = Some t" and "leads t b"
  shows "leads s b"
  using assms unfolding leads_def by (meson service_drain converse_rtranclp_into_rtranclp)

lemma leads_close:
  assumes "su_host s = HostClose pc f" and "leads (close_step pc f s) b"
  shows "leads s b"
proof -
  have "service_step s (close_step pc f s)"
    using assms(1) by (intro service_close) (auto simp: close_in_progress_iff host_step_def)
  then show ?thesis using assms(2) unfolding leads_def by (meson converse_rtranclp_into_rtranclp)
qed

lemma leads_set: "su_drainer s = DrainSet bs eof \<Longrightarrow> b \<in> set bs \<Longrightarrow> leads s b"
proof (induction bs arbitrary: s)
  case (Cons c bs)
  show ?case
    by (rule leads_drain [where t = "signal c s\<lparr>su_drainer := DrainSet bs eof\<rparr>" and r = ReadError])
      (use Cons in \<open>auto simp: drain_step_def signal_def intro: leads_now\<close>)
qed simp

lemma leads_release_set: "su_drainer s = DrainReleaseSet bs \<Longrightarrow> b \<in> set bs \<Longrightarrow> leads s b"
proof (induction bs arbitrary: s)
  case (Cons c bs)
  show ?case
    by (rule leads_drain [where t = "signal c s\<lparr>su_drainer := DrainReleaseSet bs\<rparr>" and r = ReadError])
      (use Cons in \<open>auto simp: drain_step_def signal_def intro: leads_now\<close>)
qed simp

lemma drain_step_release:
  "su_drainer s = DrainRelease bs \<Longrightarrow> su_barriers s = c # rest \<Longrightarrow>
   drain_step ReadError s = Some (s\<lparr>su_barriers := rest, su_drainer := DrainRelease (bs @ [c])\<rparr>)"
  by (simp add: drain_step_def take_barrier_def)

lemma drain_step_released:
  "su_drainer s = DrainRelease bs \<Longrightarrow> su_barriers s = [] \<Longrightarrow>
   drain_step ReadError s = Some (s\<lparr>su_drainer := DrainReleaseSet bs\<rparr>)"
  by (simp add: drain_step_def take_barrier_def)

lemma drain_step_take:
  "su_drainer s = DrainTake bs \<Longrightarrow> su_barriers s = c # rest \<Longrightarrow>
   drain_step ReadError s = Some (s\<lparr>su_barriers := rest, su_drainer := DrainTake (bs @ [c])\<rparr>)"
  by (simp add: drain_step_def take_barrier_def)

lemma drain_step_taken:
  "su_drainer s = DrainTake bs \<Longrightarrow> su_barriers s = [] \<Longrightarrow> drain_step ReadError s = Some (s\<lparr>su_drainer := DrainRead bs\<rparr>)"
  by (simp add: drain_step_def take_barrier_def)

lemma drain_step_empty:
  "su_drainer s = DrainRead bs \<Longrightarrow> \<not> su_err_closed s \<Longrightarrow> su_err_pipe s = [] \<Longrightarrow>
   drain_step (ReadChunk 1) s = Some (s\<lparr>su_drainer := DrainSet bs (su_err_eof s)\<rparr>)"
  by (simp add: drain_step_def drain_stderr_fd_def)

lemma leads_release: "su_drainer s = DrainRelease bs \<Longrightarrow> b \<in> set bs \<or> b \<in> set (su_barriers s) \<Longrightarrow> leads s b"
proof (induction "su_barriers s" arbitrary: s bs)
  case Nil
  then have q: "su_barriers s = []" "b \<in> set bs" by simp_all
  show ?case by (rule leads_drain [OF drain_step_released [OF Nil(2) q(1)]]) (simp add: leads_release_set q(2))
next
  case (Cons c rest)
  have q: "su_barriers s = c # rest" using Cons(2) by simp
  have "leads (s\<lparr>su_barriers := rest, su_drainer := DrainRelease (bs @ [c])\<rparr>) b"
    by (rule Cons(1)) (use Cons(4) q in auto)
  then show ?case by (rule leads_drain [OF drain_step_release [OF Cons(3) q]])
qed

lemma leads_done: "su_drainer s = DrainDone \<Longrightarrow> b \<in> set (su_barriers s) \<Longrightarrow> leads s b"
  by (rule leads_drain [where t = "s\<lparr>su_done := True, su_drainer := DrainRelease []\<rparr>" and r = ReadError])
    (auto simp: drain_step_def intro: leads_release)

lemma leads_fail: "su_drainer s = DrainFail \<Longrightarrow> leads s b"
  by (rule leads_drain [where t = "s\<lparr>su_failed := True, su_drainer := DrainFailPut\<rparr>" and r = ReadError])
    (auto simp: drain_step_def intro: leads_now)

lemma leads_error:
  assumes "su_drainer s = DrainError bs"
    and "\<And>t. t = s\<lparr>su_drainer := DrainSet bs True\<rparr> \<Longrightarrow> leads t b"
  shows "leads s b"
proof (cases "su_tearing_down s")
  case True
  show ?thesis
    by (rule leads_drain [OF _ assms(2) [OF refl], where r = ReadError]) (simp add: drain_step_def assms(1) True)
next
  case False
  show ?thesis
    by (rule leads_drain [OF _ leads_fail, where t = "s\<lparr>su_drainer := DrainFail\<rparr>" and r = ReadError])
      (simp_all add: drain_step_def assms(1) False)
qed

text \<open>Reading standard error ends: nobody refills the pipe.\<close>

lemma leads_read:
  assumes "su_drainer s = DrainRead bs"
    and "\<And>t eof. su_drainer t = DrainSet bs eof \<Longrightarrow> su_barriers t = su_barriers s \<Longrightarrow> su_wake t = su_wake s \<Longrightarrow> leads t b"
  shows "leads s b"
proof (cases "su_err_closed s")
  case True
  have "leads (s\<lparr>su_drainer := DrainError bs\<rparr>) b" by (rule leads_error) (auto intro: assms(2))
  then show ?thesis by (rule leads_drain [rotated, where r = ReadError]) (simp add: drain_step_def drain_stderr_fd_def assms(1) True)
next
  case False
  then show ?thesis using assms
  proof (induction "length (su_err_pipe s)" arbitrary: s)
    case 0
    then have "su_err_pipe s = []" by simp
    then show ?case by (rule leads_drain [OF drain_step_empty [OF 0(3,2)]]) (simp_all add: 0(4))
  next
    case (Suc n)
    let ?t = "absorb (take 1 (su_err_pipe s)) s\<lparr>su_err_pipe := drop 1 (su_err_pipe s)\<rparr>"
    have "drain_step (ReadChunk 1) s = Some ?t"
      using Suc(2,3,4) by (cases "su_err_pipe s") (simp_all add: drain_step_def drain_stderr_fd_def)
    moreover have "leads ?t b"
      by (rule Suc(1)) (use Suc(2-) in \<open>auto simp: absorb_def Let_def\<close>)
    ultimately show ?case by (rule leads_drain)
  qed
qed

lemma leads_read_held: "su_drainer s = DrainRead bs \<Longrightarrow> b \<in> set bs \<Longrightarrow> leads s b"
  by (erule leads_read) (rule leads_set)

lemma leads_take: "su_drainer s = DrainTake bs \<Longrightarrow> b \<in> set bs \<or> b \<in> set (su_barriers s) \<Longrightarrow> leads s b"
proof (induction "su_barriers s" arbitrary: s bs)
  case Nil
  then have q: "su_barriers s = []" "b \<in> set bs" by simp_all
  show ?case by (rule leads_drain [OF drain_step_taken [OF Nil(2) q(1)]]) (simp add: leads_read_held q(2))
next
  case (Cons c rest)
  have q: "su_barriers s = c # rest" using Cons(2) by simp
  have "leads (s\<lparr>su_barriers := rest, su_drainer := DrainTake (bs @ [c])\<rparr>) b"
    by (rule Cons(1)) (use Cons(4) q in auto)
  then show ?case by (rule leads_drain [OF drain_step_take [OF Cons(3) q]])
qed

lemma leads_wake: "su_drainer s = DrainWake \<Longrightarrow> b \<in> set (su_barriers s) \<Longrightarrow> leads s b"
proof (induction "su_wake s" arbitrary: s rule: less_induct)
  case less
  show ?case
  proof (cases "su_wake s = 0")
    case True
    show ?thesis
      by (rule leads_drain [where t = "s\<lparr>su_drainer := DrainTake []\<rparr>" and r = ReadError])
        (use True less(2,3) in \<open>auto simp: drain_step_def intro: leads_take\<close>)
  next
    case False
    show ?thesis
      by (rule leads_drain [where t = "s\<lparr>su_wake := su_wake s - min (su_wake s) 4096\<rparr>" and r = ReadError])
        (use False less in \<open>auto simp: drain_step_def min_def\<close>)
  qed
qed

lemma leads_select: "su_drainer s = DrainSelect \<Longrightarrow> 0 < su_wake s \<Longrightarrow> b \<in> set (su_barriers s) \<Longrightarrow> leads s b"
  by (rule leads_drain [where t = "s\<lparr>su_drainer := DrainWake\<rparr>" and r = ReadError]) (auto simp: drain_step_def intro: leads_wake)

lemma leads_set_queue:
  "su_drainer s = DrainSet bs eof \<Longrightarrow> eof \<or> 0 < su_wake s \<Longrightarrow> b \<in> set (su_barriers s) \<Longrightarrow> leads s b"
proof (induction bs arbitrary: s)
  case Nil
  show ?case
    by (rule leads_drain [where t = "s\<lparr>su_drainer := (if eof then DrainDone else DrainSelect)\<rparr>" and r = ReadError])
      (use Nil in \<open>auto simp: drain_step_def intro: leads_done leads_select\<close>)
next
  case (Cons c bs)
  show ?case
    by (rule leads_drain [where t = "signal c s\<lparr>su_drainer := DrainSet bs eof\<rparr>" and r = ReadError])
      (use Cons in \<open>auto simp: drain_step_def signal_def\<close>)
qed

lemma leads_register: "su_drainer s = DrainRegister \<Longrightarrow> 0 < su_wake s \<Longrightarrow> b \<in> set (su_barriers s) \<Longrightarrow> leads s b"
  by (rule leads_drain [where r = ReadError and
        t = "s\<lparr>su_drainer := (if su_err_closed s \<or> \<not> su_wake_open s then DrainFail else DrainSelect)\<rparr>"])
    (auto simp: drain_step_def intro: leads_fail leads_select)

lemma leads_start:
  "su_drainer s = DrainStart \<Longrightarrow> 0 < su_wake s \<Longrightarrow> \<not> su_err_closed s \<Longrightarrow> b \<in> set (su_barriers s) \<Longrightarrow> leads s b"
  by (rule leads_drain [where r = ReadError and t = "s\<lparr>su_drainer := (if \<not> su_wake_open s then DrainDone else DrainRegister)\<rparr>"])
    (auto simp: drain_step_def intro: leads_done leads_register)

text \<open>\<open>close\<close> releases what it finds in the queue.\<close>

lemma leads_close_set: "su_host s = HostClose (CloseReleaseSet bs) f \<Longrightarrow> b \<in> set bs \<Longrightarrow> leads s b"
proof (induction bs arbitrary: s)
  case (Cons c bs)
  show ?case
    by (rule leads_close [OF Cons(2)]) (use Cons in \<open>auto simp: close_step_def signal_def intro: leads_now\<close>)
qed simp

lemma leads_close_release:
  "su_host s = HostClose (CloseRelease bs) f \<Longrightarrow> b \<in> set bs \<or> b \<in> set (su_barriers s) \<Longrightarrow> leads s b"
proof (induction "su_barriers s" arbitrary: s bs)
  case Nil
  then have "close_step (CloseRelease bs) f s = s\<lparr>su_host := HostClose (CloseReleaseSet bs) f\<rparr>"
    by (simp add: close_step_def take_barrier_def)
  moreover have "b \<in> set bs" using Nil by simp
  ultimately show ?case by (intro leads_close [OF Nil(2)]) (simp add: leads_close_set)
next
  case (Cons c rest)
  have q: "su_barriers s = c # rest" using Cons(2) by simp
  then have "close_step (CloseRelease bs) f s = s\<lparr>su_barriers := rest, su_host := HostClose (CloseRelease (bs @ [c])) f\<rparr>"
    by (simp add: close_step_def take_barrier_def)
  moreover have "leads (s\<lparr>su_barriers := rest, su_host := HostClose (CloseRelease (bs @ [c])) f\<rparr>) b"
    by (rule Cons(1)) (use Cons(4) q in auto)
  ultimately show ?case by (intro leads_close [OF Cons(3)]) simp
qed

lemma leads_close_begun:
  assumes "su_host s = HostClose pc f" and "before_done pc" and "b \<in> set (su_barriers s)"
  shows "leads s b"
proof -
  have finish: "leads s b" if "su_host s = HostClose CloseDone f" "b \<in> set (su_barriers s)" for s
    by (rule leads_close [OF that(1)]) (use that(2) in \<open>auto simp: close_step_def intro: leads_close_release\<close>)
  have stderr: "leads s b" if "su_host s = HostClose CloseStderr f" "b \<in> set (su_barriers s)" for s
    by (rule leads_close [OF that(1)]) (use that(2) in \<open>auto simp: close_step_def intro: finish\<close>)
  have stdout: "leads s b" if "su_host s = HostClose CloseStdout f" "b \<in> set (su_barriers s)" for s
    by (rule leads_close [OF that(1)]) (use that(2) in \<open>auto simp: close_step_def intro: stderr\<close>)
  have wake: "leads s b" if "su_host s = HostClose CloseWake f" "b \<in> set (su_barriers s)" for s
    by (rule leads_close [OF that(1)]) (use that(2) in \<open>auto simp: close_step_def wake_stderr_def intro: stdout\<close>)
  have terminate: "leads s b" if "su_host s = HostClose CloseTerminate f" "b \<in> set (su_barriers s)" for s
    by (rule leads_close [OF that(1)]) (use that(2) in \<open>auto simp: close_step_def intro: wake\<close>)
  have stdin: "leads s b" if "su_host s = HostClose CloseStdin f" "b \<in> set (su_barriers s)" for s
    by (rule leads_close [OF that(1)]) (use that(2) in \<open>auto simp: close_step_def intro: terminate\<close>)
  have tearing: "leads s b" if "su_host s = HostClose CloseTearing f" "b \<in> set (su_barriers s)" for s
    by (rule leads_close [OF that(1)]) (use that(2) in \<open>auto simp: close_step_def intro: stdin\<close>)
  show ?thesis using assms by (cases pc) (auto intro: finish stderr stdout wake terminate stdin tearing)
qed

lemma leads_held:
  assumes "b \<in> set (drainer_held (su_drainer s))"
  shows "leads s b"
proof (cases "su_drainer s")
  case (DrainError bs)
  show ?thesis by (rule leads_error [OF DrainError]) (rule leads_set; use assms DrainError in simp)
qed (use assms leads_take leads_read_held leads_set leads_release leads_release_set in \<open>simp_all\<close>)

lemma leads_host_held: "b \<in> set (host_held (su_host s)) \<Longrightarrow> leads s b"
  by (cases "su_host s" rule: host_held.cases) (simp_all add: leads_close_release leads_close_set)

lemma leads_queue:
  assumes "release_inv s" and "su_reader s = PubWait b f" and "b \<in> set (su_barriers s)"
  shows "leads s b"
proof -
  have i: "close_order_inv s" "attended_inv s" using assms(1) by (simp_all add: release_inv_def)
  consider "host_will_release (su_host s)" | "host_releases (su_host s)" | "drainer_releases (su_drainer s)"
    | "will_release (su_drainer s)" | "0 < su_wake s" "\<not> su_done s" "\<not> host_will_release (su_host s)"
    using i(2) assms(2,3) by (auto simp: attended_inv_def)
  then show ?thesis
  proof cases
    case 1
    then show ?thesis using assms(3) by (cases "su_host s") (auto intro: leads_close_begun)
  next
    case 2
    then show ?thesis using assms(3) by (auto elim!: host_releases.elims intro: leads_close_release)
  next
    case 3
    then show ?thesis using assms(3) by (auto elim!: drainer_releases.elims intro: leads_release)
  next
    case 4
    have put: "leads s b" if "su_drainer s = DrainFailPut"
      by (rule leads_drain [where t = "put_stdout (None, 0) s\<lparr>su_drainer := DrainDone\<rparr>" and r = ReadError])
        (use that assms(3) in \<open>auto simp: drain_step_def put_stdout_def intro: leads_done\<close>)
    show ?thesis using 4 assms(3)
      by (cases "su_drainer s") (auto intro: leads_wake leads_take leads_set_queue leads_fail leads_done put)
  next
    case 5
    have live: "\<not> su_err_closed s" "\<not> drainer_over (su_drainer s)" using i(1) 5(2,3) by (auto simp: close_order_inv_def)
    have put: "leads s b" if "su_drainer s = DrainFailPut"
      by (rule leads_drain [where t = "put_stdout (None, 0) s\<lparr>su_drainer := DrainDone\<rparr>" and r = ReadError])
        (use that assms(3) in \<open>auto simp: drain_step_def put_stdout_def intro: leads_done\<close>)
    have error: "leads s b" if "su_drainer s = DrainError bs" for bs
      by (rule leads_error [OF that]) (rule leads_set_queue [where eof = True]; use assms(3) in simp)
    have read: "leads s b" if "su_drainer s = DrainRead bs" for bs
      by (rule leads_read [OF that]) (rule leads_set_queue; use assms(3) 5(1) in simp)
    show ?thesis using 5(1) live assms(3)
      by (cases "su_drainer s")
        (simp_all add: leads_start leads_register leads_select leads_wake leads_take leads_set_queue leads_fail leads_done put error read)
  qed
qed

text \<open>
  C23. No lost wakeup. In every reachable state in which the reader of standard output waits for the barrier of the frame it read, steps
  of the drainer and of a \<open>close\<close> that has begun are enough to signal that barrier, or else the failure of the drain has been
  recorded, which every later request reports; no byte from the child and no further call is needed.
\<close>

theorem waiting_frame_released:
  assumes "supervisor_start s" and "supervisor_step\<^sup>*\<^sup>* s t" and "su_reader t = PubWait b f"
  shows "\<exists>u. service_step\<^sup>*\<^sup>* t u \<and> (b \<in> su_signalled u \<or> su_failed u)"
proof -
  have r: "release_inv t" by (rule release.inv_reachable [OF assms(1,2)])
  then have "held_inv t" by (simp add: release_inv_def)
  then consider "b \<in> su_signalled t" | "b \<in> set (su_barriers t)" | "b \<in> set (drainer_held (su_drainer t))"
    | "b \<in> set (host_held (su_host t))" | "failing t"
    using assms(3) by (auto simp: held_inv_def)
  then have "leads t b"
  proof cases
    case 2
    with r assms(3) show ?thesis by (rule leads_queue)
  qed (auto simp: failing_def intro: leads_now leads_held leads_host_held leads_fail)
  then show ?thesis by (simp add: leads_def)
qed

end
