(* ===== verification/SupervisorDemo.thy ===== *)
theory SupervisorDemo
  imports SupervisorLive
begin

text \<open>
  One exchange with a child, step by step: the child writes a diagnostic and a frame, the frame waits for the drainer, and the request
  returns it with the diagnostic. The script of a run is a list of actions, so that it evaluates.
\<close>

datatype sup_action = ChildWrites "nat list" | ChildLogs "nat list" | Drains os_read | Reads | Calls host_choice

fun act :: "sup_action \<Rightarrow> supervisor \<Rightarrow> supervisor option" where
  "act (ChildWrites bs) s =
     (if su_out_eof s then None else Some (s\<lparr>su_out_pipe := su_out_pipe s @ bs, su_out_written := su_out_written s @ bs\<rparr>))"
| "act (ChildLogs bs) s =
     (if su_err_eof s then None else Some (s\<lparr>su_err_pipe := su_err_pipe s @ bs, su_written := su_written s @ bs\<rparr>))"
| "act (Drains r) s = drain_step r s"
| "act Reads s = publish_step False s"
| "act (Calls c) s = host_step c s"

fun script :: "sup_action list \<Rightarrow> supervisor \<Rightarrow> supervisor option" where
  "script [] s = Some s"
| "script (a # as) s = (case act a s of None \<Rightarrow> None | Some t \<Rightarrow> script as t)"

lemma act_step: "act a s = Some t \<Longrightarrow> supervisor_step s t"
  by (cases a) (auto split: if_splits intro: supervisor_step.intros child_step.intros)

lemma script_run: "script as s = Some t \<Longrightarrow> supervisor_step\<^sup>*\<^sup>* s t"
  by (induction as arbitrary: s) (auto split: option.splits intro: converse_rtranclp_into_rtranclp act_step)

definition demo_resolved :: resolved_adapter where
  "demo_resolved =
     \<lparr>rv_adapter_id = lit ''a'', rv_adapter_revision = lit ''1'', rv_manifest_id = lit ''m'', rv_manifest_revision = lit ''1'',
      rv_endpoint = [], rv_executable = lit ''/bin/adapter'', rv_argv = [lit ''adapter''], rv_working_directory = lit ''/tmp'',
      rv_environment = []\<rparr>"

lemma exchange_start: "supervisor_start entered"
  unfolding supervisor_start_def
  by (rule exI [of _ demo_resolved])
    (simp add: enter_def validate_spawn_paths_def is_absolute_def demo_resolved_def lit_def rbind_def)

definition demo_waiting :: "sup_action list" where
  "demo_waiting =
     [Calls (CallRequest (lit ''{}'')), Calls Proceed, Calls Proceed, Calls Proceed, ChildLogs [33], ChildWrites [123, 125, 10],
      Reads, Reads, Reads, Reads]"

definition demo_drained :: "sup_action list" where
  "demo_drained =
     [Drains ReadError, Drains ReadError, Drains ReadError, Drains ReadError, Drains ReadError, Drains ReadError, Drains ReadError,
      Drains (ReadChunk 1), Drains (ReadChunk 1), Drains ReadError, Drains ReadError, Reads, Reads,
      Calls Proceed, Calls Proceed, Calls Proceed]"

definition demo_state :: supervisor where
  "demo_state =
     entered\<lparr>su_stdin := [123, 125, 10], su_wake := 1, su_barriers := [0], su_next := 1, su_err_pipe := [33], su_written := [33],
       su_out_written := [123, 125, 10], su_mark := (\<lambda>_. 0)(0 := 1), su_reader := PubWait 0 (Some [123, 125, 10]), su_host := HostGet\<rparr>"

lemma utf8_demo: "utf8_encode (lit ''{}'') = Inr [123, 125]"
  by (simp add: utf8_encode_def lit_def utf8_char.simps contains_surrogate_def is_surrogate_def)

lemma demo_waits: "script demo_waiting entered = Some demo_state"
  by (simp add: demo_waiting_def demo_state_def entered_def host_step_def publish_step_def utf8_demo read_line_def MAX_MESSAGE_BYTES_def
      wake_stderr_def close_in_progress_def PIPE_CAPACITY_def)

definition demo_served :: supervisor where
  "demo_served =
     demo_state\<lparr>su_wake := 0, su_barriers := [], su_err_pipe := [], su_stderr := [33], su_signalled := {0}, su_drainer := DrainSelect,
       su_reader := ReadLine, su_host := HostReply (lit ''{}''), su_taken := [(Some [123, 125, 10], 1)]\<rparr>"

lemma demo_serves: "script demo_drained demo_state = Some demo_served"
  by (simp add: demo_drained_def demo_served_def demo_state_def entered_def drain_step_def drain_stderr_fd_def take_barrier_def
      absorb_def signal_def put_stdout_def host_step_def publish_step_def MAX_STDERR_BYTES_PER_CONNECTION_def MAX_MESSAGE_BYTES_def
      lit_def)

lemma demo_reaches: "supervisor_step\<^sup>*\<^sup>* entered demo_state" "supervisor_step\<^sup>*\<^sup>* entered demo_served"
  using script_run [OF demo_waits] script_run [OF demo_serves] by (auto intro: rtranclp_trans)

text \<open>The frame of the run waits, and is released; the response of the run comes with the diagnostic.\<close>

theorem waiting_frame_released_witness:
  "\<exists>u. service_step\<^sup>*\<^sup>* demo_state u \<and> (0 \<in> su_signalled u \<or> su_failed u)"
  by (rule waiting_frame_released [OF exchange_start demo_reaches(1), where f = "Some [123, 125, 10]"]) (simp add: demo_state_def)

theorem diagnostics_exact_witness:
  "\<exists>d. su_written demo_served = d @ su_err_pipe demo_served \<and> su_stderr demo_served = take MAX_STDERR_BYTES_PER_CONNECTION d \<and>
     su_stderr_truncated demo_served = (MAX_STDERR_BYTES_PER_CONNECTION < length d)"
  by (rule diagnostics_exact [OF exchange_start demo_reaches(2)])

definition demo_answer :: supervisor_outcome where
  "demo_answer = outcome (Some (lit ''{}'')) None False demo_served"

theorem response_after_diagnostics_witness:
  "\<exists>line m. su_taken demo_served \<noteq> [] \<and> last (su_taken demo_served) = (Some line, m) \<and> last line = 10 \<and>
     length line \<le> MAX_MESSAGE_BYTES + 1 \<and> utf8_decode (butlast line) = Some (lit ''{}'') \<and>
     m \<le> length (so_stderr demo_answer) \<and> take m (so_stderr demo_answer) = take m (su_written demo_served) \<and>
     so_fault demo_answer = None \<and> \<not> so_should_close demo_answer \<and> \<not> su_tearing_down demo_served"
  by (rule response_after_diagnostics [OF exchange_start demo_reaches(2), where c = Proceed and u = "finish_call (Inr demo_answer) demo_served"])
    (simp_all add: demo_served_def demo_state_def entered_def host_step_def finish_call_def demo_answer_def outcome_def)

end
