(* ===== verification/Serve.thy ===== *)
theory Serve
  imports ReferenceDemo JsonTotal Supervisor
begin

text \<open>
  The two ends of the pipe together: what the reference peer's loop (\<open>serve\<close> in \<open>runtime_adapter_reference.py\<close>) writes is what the
  supervisor's reader and its frame checks accept (\<open>runtime_adapter_supervisor.py\<close>).
\<close>

section \<open>Rendered documents are printable ASCII\<close>

definition printable :: "pystr \<Rightarrow> bool" where
  "printable t \<longleftrightarrow> list_all (\<lambda>c. 32 \<le> c \<and> c < 127) t"

lemma printable_simps [simp]:
  "printable []" "printable (c # t) \<longleftrightarrow> 32 \<le> c \<and> c < 127 \<and> printable t" "printable (s @ t) \<longleftrightarrow> printable s \<and> printable t"
  "printable (replicate n c) \<longleftrightarrow> n = 0 \<or> 32 \<le> c \<and> c < 127"
  by (auto simp: printable_def list_all_iff)

lemma printable_subset: "printable s \<Longrightarrow> set t \<subseteq> set s \<Longrightarrow> printable t"
  by (auto simp: printable_def list_all_iff)

lemma printable_concat: "printable (concat ts) \<longleftrightarrow> (\<forall>t \<in> set ts. printable t)"
  by (auto simp: printable_def list_all_iff)

lemma printable_digits [simp]: "printable (nat_digits n)"
proof -
  have "32 \<le> c \<and> c < 127" if "c \<in> set (nat_digits n)" for c
    using nat_digits_digit [OF that] by (simp add: is_digit_def)
  then show ?thesis by (simp add: printable_def list_all_iff)
qed

lemma printable_stripped:
  "printable (rev (dropWhile P (rev (nat_digits n))))"
  "printable (take k (rev (dropWhile P (rev (nat_digits n)))))" "printable (drop k (rev (dropWhile P (rev (nat_digits n)))))"
proof -
  show r: "printable (rev (dropWhile P (rev (nat_digits n))))"
    by (rule printable_subset [OF printable_digits [of n]]) (auto dest: set_dropWhileD)
  show "printable (take k (rev (dropWhile P (rev (nat_digits n)))))" by (rule printable_subset [OF r set_take_subset])
  show "printable (drop k (rev (dropWhile P (rev (nat_digits n)))))" by (rule printable_subset [OF r set_drop_subset])
qed

lemma printable_exponent: "printable (exponent_text e)"
  by (simp add: exponent_text_def Let_def lit_def)

lemma printable_float: "printable (float_text f)"
proof (cases f)
  case (Fin q)
  have split: "printable (case ds of [] \<Rightarrow> [] | [c] \<Rightarrow> [c] | c # d # cs \<Rightarrow> c # 46 # d # cs)" if "printable ds" for ds
    using that by (cases ds; cases "tl ds") auto
  show ?thesis
    using split printable_exponent printable_stripped
    by (auto simp: float_text_def Fin Let_def lit_def split: prod.split list.split)
qed (simp_all add: float_text_def lit_def)

lemma printable_escape: "printable (escape_char True c)"
proof -
  have "32 \<le> hex_digit m \<and> hex_digit m < 127" if "m < 16" for m using that by (simp add: hex_digit_def)
  then have "printable (u_escape n)" for n by (simp add: u_escape_def hex4_def)
  then show ?thesis by (simp add: escape_char_def)
qed

lemma printable_quote: "printable (quote_str True s)"
  using printable_escape by (auto simp: quote_str_def printable_concat)

lemma printable_join: "printable [c] \<Longrightarrow> \<forall>t \<in> set ts. printable t \<Longrightarrow> printable (join c ts)"
  by (cases ts) (auto simp: join_def printable_concat)

lemma encode_printable: "encode l True v = Inr t \<Longrightarrow> printable t"
proof (induction l "True" v arbitrary: t rule: encode.induct)
  case (3 l z)
  then show ?case by (auto simp: int_text_def Let_def split: if_splits)
next
  case (7 l xs)
  then obtain ts where ts: "rmap (encode (l - 1) True) xs = Inr ts" "t = 91 # join 44 ts @ [93]" "l \<noteq> 0"
    by (auto simp: rbind_Inr_iff split: if_splits)
  have "\<forall>u \<in> set ts. printable u" by (rule rmap_all [OF ts(1)]) (use 7 ts(3) in auto)
  then show ?case using ts(2) printable_join [of 44 ts] by simp
next
  case (8 l xs)
  then obtain ts where ts: "rmap (encode (l - 1) True) xs = Inr ts" "t = 91 # join 44 ts @ [93]" "l \<noteq> 0"
    by (auto simp: rbind_Inr_iff split: if_splits)
  have "\<forall>u \<in> set ts. printable u" by (rule rmap_all [OF ts(1)]) (use 8 ts(3) in auto)
  then show ?case using ts(2) printable_join [of 44 ts] by simp
next
  case (9 l d)
  obtain kvs where kvs: "str_items d = Some kvs" using 9 by (auto split: option.splits if_splits)
  let ?f = "\<lambda>kv. rbind (encode (l - 1) True (snd kv)) (\<lambda>t. Inr (quote_str True (fst kv) @ 58 # t))"
  obtain ts where ts: "rmap ?f (sort_key fst kvs) = Inr ts" "t = 123 # join 44 ts @ [125]" "l \<noteq> 0"
    using "9.prems" kvs by (auto simp: rbind_Inr_iff split: if_splits)
  have "\<forall>u \<in> set ts. printable u"
    by (rule rmap_all [OF ts(1)]) (use "9.hyps" [OF ts(3) kvs] printable_quote in \<open>auto simp: rbind_Inr_iff\<close>)
  then show ?case using ts(2) printable_join [of 44 ts] by simp
qed (auto simp: printable_float printable_quote lit_def)

lemma dumps_printable: "dumps True v = Inr t \<Longrightarrow> printable t"
  unfolding dumps_def by (rule encode_printable)

section \<open>Printable text on the wire\<close>

lemma utf8_printable: "printable t \<Longrightarrow> utf8_encode t = Inr t \<and> utf8_decode t = Some t"
proof (induction t)
  case (Cons c t)
  then show ?case by (auto simp: utf8_encode_def contains_surrogate_def is_surrogate_def utf8_char.simps split: if_splits)
qed (simp add: utf8_encode_def contains_surrogate_def)

lemma line_length_printable: "printable t \<Longrightarrow> line_length (t @ 10 # rest) = Some (Suc (length t))"
  by (induction t) auto

lemma read_line_printable:
  assumes "printable t" and "length t < n"
  shows "read_line n eof (t @ 10 # rest) = Some (t @ [10], rest)"
proof -
  obtain k where "n = Suc (length t) + k" using assms(2) by (metis add.commute less_natE add_Suc_right add_Suc)
  then have "take n (t @ 10 # rest) = t @ 10 # take k rest" by simp
  then show ?thesis using line_length_printable [OF assms(1)] by (simp add: read_line_def)
qed

text \<open>The texts the peer answers with.\<close>

definition rendered :: "reply \<Rightarrow> bool" where
  "rendered r \<longleftrightarrow> (\<exists>v t. r = TextReply t \<and> dumps True v = Inr t)"

lemma error_rendered: "error_text rid name = Inr r \<Longrightarrow> rendered r"
  by (auto simp: error_text_def rendered_def rbind_Inr_iff)

lemma result_rendered: "result_text rid res = Inr r \<Longrightarrow> rendered r"
  by (auto simp: result_text_def rendered_def rbind_Inr_iff)

lemma handle_text_rendered:
  assumes "ra_fault a = None" and "handle_text docs raw a = (Inr r, a')"
  shows "r = NoReply \<or> rendered r"
proof (cases "silent a (handle_text docs raw a)")
  case True
  then show ?thesis using assms(2) by (simp add: silent_def)
next
  case False
  then obtain rid where "answers True a rid (Inr r, a')" using handle_text_answers [OF assms(1), of docs raw] assms(2) by auto
  then show ?thesis
    by cases (metis refusal_of_def error_rendered, metis result_rendered)
qed

lemma too_large_text: "\<exists>t. error_text PNone ''MESSAGE_TOO_LARGE'' = Inr (TextReply t) \<and> length t \<le> Reference.MAX_MESSAGE_BYTES"
proof -
  have "int_text (-32001) = Inr [45, 51, 50, 48, 48, 49]" by (simp add: int_text_def nat_digits.simps int_max_str_digits_def)
  then show ?thesis
    by (simp add: error_text_def error_code_def ERROR_CODES_def error_frame_def JSONRPC_VERSION_def lit_def quote_str_def
        dumps_def json_levels_def escape_char_def join_def Reference.MAX_MESSAGE_BYTES_def)
qed

definition wire_line :: "nat list \<Rightarrow> bool" where
  "wire_line line \<longleftrightarrow> (\<exists>v t. line = t @ [10] \<and> dumps True v = Inr t \<and> length t \<le> Reference.MAX_MESSAGE_BYTES)"

lemma reply_bytes_rendered: "rendered r \<Longrightarrow> \<exists>v t. reply_bytes r = Inr t \<and> dumps True v = Inr t"
  using dumps_printable utf8_printable by (fastforce simp: rendered_def reply_bytes_def)

lemma write_response_wire:
  assumes "rendered r"
  shows "\<exists>line. write_response r True = Inr line \<and> wire_line line"
proof -
  obtain m where m: "error_text PNone ''MESSAGE_TOO_LARGE'' = Inr (TextReply m)" "length m \<le> Reference.MAX_MESSAGE_BYTES"
    using too_large_text by blast
  obtain w where w: "reply_bytes (TextReply m) = Inr m" "dumps True w = Inr m"
    using reply_bytes_rendered [OF error_rendered [OF m(1)]] error_rendered [OF m(1)]
    by (auto simp: rendered_def reply_bytes_def dest: dumps_printable utf8_printable)
  obtain v t where t: "reply_bytes r = Inr t" "dumps True v = Inr t" using reply_bytes_rendered [OF assms(1)] by blast
  have "wire_line (m @ [10])" "\<not> Reference.MAX_MESSAGE_BYTES < length t \<Longrightarrow> wire_line (t @ [10])"
    using m(2) w(2) t(2) unfolding wire_line_def by (blast, auto)
  then show ?thesis using t m w by (simp add: write_response_def)
qed

lemma write_response_written: "rendered r \<Longrightarrow> write_response r True = Inr line \<Longrightarrow> wire_line line"
  using write_response_wire by fastforce

lemma serve_wire_lines:
  assumes "ra_fault a = None" and "serve docs drain deadline a turns = (lines, how)"
  shows "length lines \<le> length turns \<and> (\<forall>line \<in> set lines. wire_line line)"
  using assms
proof (induction turns arbitrary: deadline a lines how)
  case (Cons t ts)
  note run = Cons.prems(2)
  show ?case
  proof (cases "readline_before_deadline deadline t")
    case None
    then show ?thesis using run by simp
  next
    case (Some raw)
    consider "raw = []" | "raw \<noteq> []" "length raw > Reference.MAX_MESSAGE_BYTES + 1"
      | "raw \<noteq> []" "\<not> length raw > Reference.MAX_MESSAGE_BYTES + 1" "last raw \<noteq> 10"
      | "raw \<noteq> []" "\<not> length raw > Reference.MAX_MESSAGE_BYTES + 1" "last raw = 10" "utf8_decode (drop_newlines raw) = None"
      | tx where "raw \<noteq> []" "\<not> length raw > Reference.MAX_MESSAGE_BYTES + 1" "last raw = 10" "utf8_decode (drop_newlines raw) = Some tx"
      by (cases "utf8_decode (drop_newlines raw)") auto
    then show ?thesis
    proof cases
      case 1
      then show ?thesis using run Some by simp
    next
      case 2
      then show ?thesis
        using run Some by (auto simp: rbind_Inr_iff split: sum.splits intro: write_response_written error_rendered)
    next
      case 3
      then show ?thesis using run Some by simp
    next
      case 4
      then show ?thesis using run Some by simp
    next
      case 5
      obtain out a' where h: "handle_text docs tx a = (out, a')" by fastforce
      have f: "ra_fault a' = None" using handle_text_change [OF Cons.prems(1) h] Cons.prems(1) by (auto elim!: ra_changeE)
      show ?thesis
      proof (cases "\<exists>r line. out = Inr r \<and> r \<noteq> NoReply \<and> write_response r True = Inr line")
        case True
        then obtain r line where r: "out = Inr r" "r \<noteq> NoReply" "write_response r True = Inr line" by blast
        then have "wire_line line" using handle_text_rendered [OF Cons.prems(1)] h write_response_written by blast
        moreover obtain more where "lines = line # more" "\<exists>how d. serve docs drain d a' ts = (more, how)"
          using run Some 5 h r Cons.prems(1) by (cases r) (auto simp: Let_def split: prod.splits)
        ultimately show ?thesis using Cons.IH [OF f] by auto
      next
        case False
        then have "lines = []"
          using run Some 5 h Cons.prems(1) by (cases out) (auto split: reply.splits sum.splits)
        then show ?thesis by simp
      qed
    qed
  qed
qed simp

section \<open>The supervisor reads it back\<close>

lemma wire_lineE:
  assumes "wire_line line"
  obtains v t where "line = t @ [10]" "dumps True v = Inr t" "printable t" "length t \<le> Supervisor.MAX_MESSAGE_BYTES" "utf8_decode t = Some t"
  using assms dumps_printable utf8_printable
  by (fastforce simp: wire_line_def Reference.MAX_MESSAGE_BYTES_def Supervisor.MAX_MESSAGE_BYTES_def)

text \<open>
  C25. What the peer writes, the supervisor accepts. Of whatever turns the loop of a peer without fault injection is given, it
  writes at most one line a turn, and each is a rendered document and a newline that the other end takes whole: however the
  line arrives and whatever follows it, a supervisor whose reader is at the start of that line hands over just that line,
  and a caller that gets it (no drain failure, diagnostics not truncated) passes it through the bounds, framing and
  decoding checks and is left with exactly the text of the document.
\<close>

theorem serve_lines_accepted:
  assumes "ra_fault a = None" and "serve docs drain deadline a turns = (lines, how)"
  shows "length lines \<le> length turns \<and>
    (\<forall>line \<in> set lines. \<exists>v t. line = t @ [10] \<and> dumps True v = Inr t \<and>
      (\<forall>s rest. su_reader s = ReadLine \<and> \<not> su_out_closed s \<and> su_out_pipe s = line @ rest \<longrightarrow>
         publish_step False s = Some (s\<lparr>su_out_pipe := rest, su_reader := PubPut (Some line)\<rparr>)) \<and>
      (\<forall>c s. su_host s = HostGot (Some line) \<and> \<not> su_failed s \<longrightarrow> host_step c s = Some (s\<lparr>su_host := HostLimit line\<rparr>)) \<and>
      (\<forall>c s. su_host s = HostLimit line \<and> \<not> su_stderr_truncated s \<longrightarrow> host_step c s = Some (s\<lparr>su_host := HostReply t\<rparr>)))"
proof (intro conjI ballI)
  show "length lines \<le> length turns" using serve_wire_lines [OF assms] by blast
  fix line assume "line \<in> set lines"
  then have "wire_line line" using serve_wire_lines [OF assms] by blast
  then obtain v t where t: "line = t @ [10]" "dumps True v = Inr t" "printable t" "length t \<le> Supervisor.MAX_MESSAGE_BYTES" "utf8_decode t = Some t"
    by (rule wire_lineE)
  have "read_line (Supervisor.MAX_MESSAGE_BYTES + 2) eof (line @ rest) = Some (line, rest)" for eof rest
    using read_line_printable [OF t(3), of "Supervisor.MAX_MESSAGE_BYTES + 2" eof rest] t(1,4) by simp
  then show "\<exists>v t. line = t @ [10] \<and> dumps True v = Inr t \<and>
      (\<forall>s rest. su_reader s = ReadLine \<and> \<not> su_out_closed s \<and> su_out_pipe s = line @ rest \<longrightarrow>
         publish_step False s = Some (s\<lparr>su_out_pipe := rest, su_reader := PubPut (Some line)\<rparr>)) \<and>
      (\<forall>c s. su_host s = HostGot (Some line) \<and> \<not> su_failed s \<longrightarrow> host_step c s = Some (s\<lparr>su_host := HostLimit line\<rparr>)) \<and>
      (\<forall>c s. su_host s = HostLimit line \<and> \<not> su_stderr_truncated s \<longrightarrow> host_step c s = Some (s\<lparr>su_host := HostReply t\<rparr>))"
    using t by (intro exI [of _ v] exI [of _ t]) (auto simp: publish_step_def host_step_def)
qed

theorem serve_lines_accepted_witness:
  "\<exists>t how. serve (\<lambda>_ _. True) 5000 None demo_peer [\<lparr>re_now = 0, re_arrives = 0, re_written = 1, re_bytes = [10]\<rparr>] = ([t @ [10]], how) \<and>
     (\<forall>c s. su_host s = HostLimit (t @ [10]) \<and> \<not> su_stderr_truncated s \<longrightarrow> host_step c s = Some (s\<lparr>su_host := HostReply t\<rparr>))"
proof -
  let ?turn = "\<lparr>re_now = 0, re_arrives = 0, re_written = 1, re_bytes = [10]\<rparr> :: read_turn"
  have p: "ra_fault demo_peer = None" "\<not> ra_terminal demo_peer" by (simp_all add: demo_peer_def)
  obtain t where t: "error_text PNone ''PARSE_ERROR'' = Inr (TextReply t)" using demo_empty_text(2) [OF p] by blast
  have h: "handle_text (\<lambda>_ _. True) [] demo_peer = (Inr (TextReply t), demo_peer\<lparr>ra_terminal := True\<rparr>)"
    using demo_empty_text(1) [OF p] t by simp
  obtain line where l: "write_response (TextReply t) True = Inr line" using write_response_wire [OF error_rendered [OF t]] by blast
  have run: "serve (\<lambda>_ _. True) 5000 None demo_peer [?turn] = ([line], Waiting)"
    using h l by (simp add: readline_before_deadline_def Reference.MAX_MESSAGE_BYTES_def drop_newlines_def p)
  show ?thesis using serve_lines_accepted [OF p(1) run] run by auto
qed

end
