(* ===== verification/Fixtures.thy ===== *)
theory Fixtures
  imports Reference
begin

text \<open>
  Replay fixtures and their validation: \<open>llm_collab/runtime_adapter_fixtures.py\<close>. A fixture is a trace of frames with the result or the
  refusal it expects; validation derives from the frames alone what a conforming adapter may answer and compares. The table of fixtures
  itself is data and not modelled; the clauses and error codes that are extracted from the Markdown of the protocol are parameters, as is
  the JSON Schema validator \<open>docs\<close>.
\<close>

section \<open>Data\<close>

definition POLARITY_CONFORMING :: string where [simp]: "POLARITY_CONFORMING = ''conforming''"
definition POLARITY_VIOLATING :: string where [simp]: "POLARITY_VIOLATING = ''violating''"
definition POLARITIES :: "string list" where [simp]: "POLARITIES = [POLARITY_CONFORMING, POLARITY_VIOLATING]"
definition NO_STATE_CHANGE :: string where [simp]: "NO_STATE_CHANGE = ''no_state_change''"

record clause_reference =
  cr_clause_key :: pystr
  cr_text_sha256 :: pystr
  cr_polarity :: string
  cr_non_classifying :: bool

record trace_frame =
  tf_sender :: string
  tf_receiver :: string
  tf_frame :: pyval

record expected_refusal =
  er_error_name :: pystr
  er_error_code :: int
  er_state_effect :: string
  er_response_emitted :: bool
  er_accepted :: bool
  er_closes_connection :: bool

record expected_result =
  ex_method :: pystr
  ex_result :: pyval
  ex_state_effect :: string

datatype expectation = ExpectedResult expected_result | ExpectedRefusal expected_refusal

record fixture =
  fx_fixture_id :: pystr
  fx_polarity :: string
  fx_clause_refs :: "clause_reference list"
  fx_trace :: "trace_frame list"
  fx_expectation :: expectation

text \<open>What a refusal looks like from outside: its name, its code, whether a response is sent, whether the connection closes.\<close>

type_synonym refusal_view = "pystr \<times> int \<times> bool \<times> bool"

fun thaw :: "pyval \<Rightarrow> pyval" where
  "thaw (PDict d) = PDict (map (\<lambda>kv. (fst kv, thaw (snd kv))) d)"
| "thaw (PTuple xs) = PList (map thaw xs)"
| "thaw v = v"

definition thawed :: "trace_frame \<Rightarrow> pyval" where
  "thawed t = thaw (tf_frame t)"

definition from_host :: "trace_frame \<Rightarrow> bool" where
  "from_host t \<longleftrightarrow> tf_sender t = ''host'' \<and> tf_receiver t = ''adapter''"

definition from_adapter :: "trace_frame \<Rightarrow> bool" where
  "from_adapter t \<longleftrightarrow> tf_sender t = ''adapter'' \<and> tf_receiver t = ''host''"

definition SCOPE :: pyval where "SCOPE = PDict [(sv ''kind'', sv ''workspace'')]"

definition ENDPOINT :: pydict where
  "ENDPOINT =
     [(sv ''schema_version'', PInt 1), (sv ''workspace_id'', sv ''ws_alpha''), (sv ''scope'', SCOPE),
      (sv ''endpoint_id'', sv ''endpoint_alpha''), (sv ''agent_id'', sv ''agent_alpha''), (sv ''adapter_name'', sv ''adapter_alpha''),
      (sv ''adapter_revision'', sv ''adapter_rev1''), (sv ''trust_class'', sv ''managed''), (sv ''capability_set_id'', sv ''caps_alpha''),
      (sv ''platform'', PDict [(sv ''os'', sv ''other''), (sv ''architecture'', sv ''test'')]),
      (sv ''configuration_ref'', PDict [(sv ''registry_id'', sv ''registry_alpha''), (sv ''revision'', sv ''registry_rev1''),
         (sv ''reference'', sv ''reference_alpha'')])]"

definition project_scope :: pyval where
  "project_scope = PDict [(sv ''kind'', sv ''project''), (sv ''project_id'', sv ''project_alpha'')]"

definition project_endpoint :: pydict where
  "project_endpoint = AList.update (sv ''scope'') project_scope ENDPOINT"

section \<open>Checks\<close>

text \<open>\<open>v.get(f)\<close>; a check of several conditions, in order; every exception turned into one failure; failures caught.\<close>

definition vget :: "string \<Rightarrow> pyval \<Rightarrow> pyerr + pyval" where
  "vget f v = (case v of PDict d \<Rightarrow> Inr (dget_none f d) | _ \<Rightarrow> Inl AttributeErr)"

definition check :: "string \<Rightarrow> string \<Rightarrow> (pyerr + bool) list \<Rightarrow> pyerr + unit" where
  "check clause message bs = rbind (all_of bs) (\<lambda>ok. fail_unless ok clause message)"

definition same_field :: "string \<Rightarrow> pyval \<Rightarrow> pyval \<Rightarrow> pyerr + bool" where
  "same_field f v w = rbind (vsub f v) (\<lambda>x. rbind (vsub f w) (\<lambda>y. Inr (py_eq x y)))"

definition failing_as :: "string \<Rightarrow> string \<Rightarrow> pyerr + 'a \<Rightarrow> pyerr + 'a" where
  "failing_as clause message m = (case m of Inl _ \<Rightarrow> Inl (ConformanceFailure clause message) | Inr x \<Rightarrow> Inr x)"

definition on_failure :: "(string \<Rightarrow> pyerr + 'a) \<Rightarrow> pyerr + 'a \<Rightarrow> pyerr + 'a" where
  "on_failure h m = (case m of Inl (ConformanceFailure clause _) \<Rightarrow> h clause | _ \<Rightarrow> m)"

definition closed_mapping :: "pyval \<Rightarrow> string list \<Rightarrow> bool" where
  "closed_mapping v keys \<longleftrightarrow> is_dict v \<and> keys_are keys (dict_of v)"

definition nonempty_string :: "pyval \<Rightarrow> bool" where
  "nonempty_string v \<longleftrightarrow> (case v of PStr s \<Rightarrow> s \<noteq> [] | _ \<Rightarrow> False)"

definition is_scope :: "pyval \<Rightarrow> bool" where
  "is_scope v \<longleftrightarrow>
     closed_mapping v [''kind''] \<and> dget_none ''kind'' (dict_of v) = sv ''workspace'' \<or>
     closed_mapping v [''kind'', ''project_id''] \<and> dget_none ''kind'' (dict_of v) = sv ''project'' \<and>
       nonempty_string (dget_none ''project_id'' (dict_of v))"

definition validate_schema_version :: "pydict \<Rightarrow> string \<Rightarrow> pyerr + unit" where
  "validate_schema_version d label = fail_unless (dget_none ''schema_version'' d = PInt 1) ''fixture-result-shape'' label"

definition canonical_digest_without_integrity :: "pyval \<Rightarrow> pyerr + pystr" where
  "canonical_digest_without_integrity v =
     (case thaw v of PDict d \<Rightarrow> canonical_digest d | _ \<Rightarrow> Inl AttributeErr)"

definition validate_evidence_integrity :: "pyval \<Rightarrow> pyerr + unit" where
  "validate_evidence_integrity evidence =
     rbind (vget ''integrity'' evidence) (\<lambda>i.
     rbind (canonical_digest_without_integrity evidence) (\<lambda>h.
     fail_unless (i = PStr h) ''fixture-evidence-integrity'' ''state evidence''))"

section \<open>Results of initialize\<close>

definition ENDPOINT_STRINGS :: "string list" where
  "ENDPOINT_STRINGS = [''workspace_id'', ''endpoint_id'', ''agent_id'', ''adapter_name'', ''adapter_revision'', ''trust_class'',
     ''capability_set_id'']"

definition text_fields :: "string list \<Rightarrow> pyval \<Rightarrow> (pyerr + bool) list" where
  "text_fields keys v = map (\<lambda>k. rbind (vsub k v) (\<lambda>x. Inr (nonempty_string x))) keys"

definition validate_initialize_result :: "schema \<Rightarrow> pyval \<Rightarrow> pyerr + unit" where
  "validate_initialize_result docs r =
     (let bad = (\<lambda>bs. check ''fixture-conforming-trace'' ''initialize'' bs) in
      rbind (bad [Inr (closed_mapping r [''negotiated_protocol_version'', ''adapter_id'', ''adapter_revision'', ''manifest_id'',
         ''manifest_revision'', ''endpoint'', ''capability_set''])]) (\<lambda>_.
      rbind (bad [field_is ''negotiated_protocol_version'' (sv ''1.0'') r]) (\<lambda>_.
      rbind (bad (text_fields [''adapter_id'', ''adapter_revision'', ''manifest_id'', ''manifest_revision''] r)) (\<lambda>_.
      rbind (vsub ''endpoint'' r) (\<lambda>endpoint.
      rbind (failing_as ''fixture-conforming-trace'' ''initialize'' (validate_endpoint_v1 docs endpoint)) (\<lambda>_.
      rbind (bad (text_fields ENDPOINT_STRINGS endpoint)) (\<lambda>_.
      rbind (bad [rbind (vsub ''scope'' endpoint) (\<lambda>s. Inr (is_scope s))]) (\<lambda>_.
      rbind (bad [rbind (vsub ''platform'' endpoint) (\<lambda>p. Inr (closed_mapping p [''os'', ''architecture'']))]) (\<lambda>_.
      rbind (bad [rbind (vsub ''configuration_ref'' endpoint) (\<lambda>c. Inr (closed_mapping c [''registry_id'', ''revision'', ''reference'']))]) (\<lambda>_.
      rbind (vsub ''capability_set'' r) (\<lambda>caps.
      rbind (bad [Inr (closed_mapping caps [''schema_version'', ''workspace_id'', ''scope'', ''capability_set_id'', ''revision'',
         ''capabilities''])]) (\<lambda>_.
      rbind (validate_schema_version (dict_of caps) ''initialize'') (\<lambda>_.
      rbind (bad (text_fields [''workspace_id'', ''capability_set_id'', ''revision''] caps)) (\<lambda>_.
      rbind (bad [rbind (vsub ''scope'' caps) (\<lambda>s. Inr (is_scope s))]) (\<lambda>_.
      bad [rbind (vsub ''capabilities'' caps) (\<lambda>c. Inr (case c of PList xs \<Rightarrow> xs \<noteq> [] | PTuple xs \<Rightarrow> xs \<noteq> [] | _ \<Rightarrow> False))])))))))))))))))"

definition same_get :: "string \<Rightarrow> pydict \<Rightarrow> string \<Rightarrow> pydict \<Rightarrow> bool" where
  "same_get f d g e \<longleftrightarrow> py_eq (dget_none f d) (dget_none g e)"

definition initialize_result_matches_request :: "pydict \<Rightarrow> pydict \<Rightarrow> bool" where
  "initialize_result_matches_request params result \<longleftrightarrow>
     same_get ''requested_protocol_version'' params ''negotiated_protocol_version'' result \<and>
     list_all (\<lambda>k. same_get k params k result) [''adapter_id'', ''adapter_revision'', ''manifest_id'', ''manifest_revision''] \<and>
     is_dict (dget_none ''endpoint'' result) \<and> is_dict (dget_none ''capability_set'' result) \<and>
     (let endpoint = dict_of (dget_none ''endpoint'' result); caps = dict_of (dget_none ''capability_set'' result) in
      py_eq (dget_none ''endpoint'' params) (PDict endpoint) \<and>
      same_get ''adapter_name'' endpoint ''adapter_id'' result \<and> same_get ''adapter_revision'' endpoint ''adapter_revision'' result \<and>
      same_get ''workspace_id'' endpoint ''workspace_id'' caps \<and> same_get ''scope'' endpoint ''scope'' caps \<and>
      same_get ''capability_set_id'' endpoint ''capability_set_id'' caps)"

section \<open>Session references, deliveries and receipts\<close>

text \<open>The identity half of a session reference, after its schema accepted it.\<close>

definition validate_session_ref :: "schema \<Rightarrow> pyval \<Rightarrow> pyerr + unit" where
  "validate_session_ref docs v =
     (let identity = check ''fixture-session-ref-identity'' in
      rbind (failing_as ''fixture-session-ref'' ''session_ref'' (validate_session_ref_v1 docs v)) (\<lambda>d.
      let r = PDict d in
      rbind (vsub ''scope'' r) (\<lambda>scope.
      rbind (vget ''kind'' scope) (\<lambda>kind.
      let endpoint = PDict (if kind = sv ''project'' then project_endpoint else ENDPOINT); binding = dget_none ''repository_binding'' d in
      rbind (identity ''workspace'' [same_field ''workspace_id'' r endpoint]) (\<lambda>_.
      rbind (identity ''scope'' [same_field ''scope'' r endpoint]) (\<lambda>_.
      rbind (identity ''repository_binding'' [rbind (vsub ''kind'' scope) (\<lambda>k. Inr (\<not> (k = sv ''workspace'' \<and> binding \<noteq> PNone)))]) (\<lambda>_.
      rbind (vsub ''kind'' scope) (\<lambda>k.
      rbind (if k = sv ''project'' \<and> binding \<noteq> PNone
             then identity ''repository_binding'' [same_field ''project_id'' binding scope] else Inr ()) (\<lambda>_.
      rbind (identity ''endpoint'' [same_field ''endpoint_id'' r endpoint]) (\<lambda>_.
      rbind (vsub ''evidence'' r) (\<lambda>evidence.
      rbind (identity ''session evidence scope'' [same_field ''workspace_id'' evidence r, same_field ''scope'' evidence r]) (\<lambda>_.
      rbind (identity ''session evidence''
        [field_is ''evidence_kind'' (sv ''exact_session_binding'') evidence, field_is ''quality'' (sv ''authoritative'') evidence]) (\<lambda>_.
      rbind (vsub ''subject'' evidence) (\<lambda>subject.
      rbind (identity ''session subject'' [Inr (closed_mapping subject ([''endpoint_id'', ''session_ref_id'', ''native_session_id''] @
        (if binding \<noteq> PNone then [''repository_binding''] else [])))]) (\<lambda>_.
      rbind (identity ''session subject mismatch'' [same_field ''endpoint_id'' subject r, same_field ''session_ref_id'' subject r]) (\<lambda>_.
      rbind (identity ''native session mismatch'' [same_field ''native_session_id'' subject r]) (\<lambda>_.
      rbind (if binding \<noteq> PNone then identity ''repository binding mismatch'' [field_is ''repository_binding'' binding subject] else Inr ()) (\<lambda>_.
      on_failure (\<lambda>_. Inl (ConformanceFailure ''fixture-session-ref-identity'' ''session evidence integrity''))
        (validate_evidence_integrity evidence)))))))))))))))))))"

definition STATE_EVIDENCE_KEYS :: "string list" where
  "STATE_EVIDENCE_KEYS = [''schema_version'', ''workspace_id'', ''scope'', ''evidence_id'', ''evidence_kind'', ''quality'', ''state'',
     ''authority'', ''subject'', ''correlation_id'', ''observed_at_utc'', ''integrity'']"

definition STATE_SUBJECT_KEYS :: "string list" where
  "STATE_SUBJECT_KEYS = [''message_id'', ''delivery_id'', ''attempt_id'', ''endpoint_id'', ''session_ref_id'']"

definition validate_delivery_evidence :: "pyval \<Rightarrow> pyval \<Rightarrow> bool \<Rightarrow> pyerr + unit" where
  "validate_delivery_evidence evidence carrier recompute_integrity =
     (let shape = check ''fixture-evidence-shape'' ''runtime.deliver'' in
      rbind (shape [Inr (closed_mapping evidence STATE_EVIDENCE_KEYS)]) (\<lambda>_.
      rbind (validate_schema_version (dict_of evidence) ''runtime.deliver'') (\<lambda>_.
      rbind (shape ([same_field ''workspace_id'' evidence carrier, same_field ''scope'' evidence carrier,
        field_is ''evidence_kind'' (sv ''native_delivery_state'') evidence, field_is ''quality'' (sv ''best_effort'') evidence,
        field_is ''state'' (sv ''routed'') evidence] @ text_fields [''evidence_id'', ''correlation_id'', ''observed_at_utc''] evidence @
        [rbind (vsub ''integrity'' evidence) (\<lambda>i. Inr (is_integrity i))])) (\<lambda>_.
      rbind (vsub ''authority'' evidence) (\<lambda>authority.
      rbind (shape [Inr (closed_mapping authority [''authority_kind'', ''identity'', ''implementation_revision'',
        ''capability_profile_id'', ''capability_profile_revision''])]) (\<lambda>_.
      rbind (shape [field_is ''authority_kind'' (sv ''trusted_adapter'') authority]) (\<lambda>_.
      rbind (vsub ''subject'' evidence) (\<lambda>subject.
      rbind (shape [Inr (closed_mapping subject STATE_SUBJECT_KEYS)]) (\<lambda>_.
      rbind (check ''fixture-evidence-identity'' ''runtime.deliver'' (map (\<lambda>k. same_field k subject carrier) STATE_SUBJECT_KEYS)) (\<lambda>_.
      if recompute_integrity then validate_evidence_integrity evidence else Inr ()))))))))))"

definition validate_delivery :: "pyval \<Rightarrow> pyval \<Rightarrow> pyerr + unit" where
  "validate_delivery delivery session_ref =
     (let shape = check ''fixture-request-params'' ''runtime.deliver''; identity = check ''fixture-delivery-identity'' ''runtime.deliver'' in
      rbind (shape [Inr (closed_mapping delivery [''schema_version'', ''workspace_id'', ''scope'', ''delivery_id'', ''message_id'',
        ''attempt_id'', ''endpoint_id'', ''session_ref_id'', ''outcome'', ''evidence''])]) (\<lambda>_.
      rbind (validate_schema_version (dict_of delivery) ''runtime.deliver'') (\<lambda>_.
      rbind (shape [field_is ''outcome'' (sv ''pending'') delivery]) (\<lambda>_.
      rbind (identity [same_field ''workspace_id'' delivery session_ref, same_field ''scope'' delivery session_ref]) (\<lambda>_.
      rbind (identity [same_field ''endpoint_id'' delivery session_ref, same_field ''session_ref_id'' delivery session_ref]) (\<lambda>_.
      rbind (vsub ''evidence'' delivery) (\<lambda>evidence. validate_delivery_evidence evidence delivery False)))))))"

definition validate_request_params :: "schema \<Rightarrow> pystr \<Rightarrow> pydict \<Rightarrow> pyerr + unit" where
  "validate_request_params docs m params =
     (let p = PDict params in
      rbind (if m = METHOD_INITIALIZE then
               rbind (fail_unless (dget_none ''requested_protocol_version'' params = sv ''1.0'') ''fixture-unsupported-version'' ''initialize'') (\<lambda>_.
               rbind (failing_as ''fixture-request-params'' ''initialize''
                 (rbind (vsub ''endpoint'' p) (validate_endpoint_v1 docs))) (\<lambda>_. Inr ()))
             else Inr ()) (\<lambda>_.
      rbind (if m = METHOD_DELIVER then
               rbind (vsub ''session_ref'' p) (\<lambda>s. rbind (validate_session_ref docs s) (\<lambda>_.
               rbind (vsub ''delivery'' p) (\<lambda>d. validate_delivery d s)))
             else Inr ()) (\<lambda>_.
      rbind (if m = METHOD_RECONCILE then rbind (vsub ''session_ref'' p) (validate_session_ref docs) else Inr ()) (\<lambda>_.
      if m = METHOD_CANCEL \<or> m = METHOD_RECONCILE then
        check ''fixture-request-params'' ''method'' (text_fields [''original_request_id'', ''delivery_id'', ''attempt_id''] p)
      else Inr ()))))"

definition HEALTH_RESULT_KEYS :: "string list" where
  "HEALTH_RESULT_KEYS = [''status'', ''negotiated_protocol_version'', ''adapter_id'', ''adapter_revision'', ''manifest_id'',
     ''manifest_revision'', ''endpoint_id'', ''workspace_id'', ''scope_kind'', ''capability_set_id'', ''capability_set_revision'']"

definition validate_health_result :: "pyval \<Rightarrow> pyerr + unit" where
  "validate_health_result r =
     (let bad = check ''fixture-result-shape'' ''runtime.health'';
          project = is_dict r \<and> dget_none ''scope_kind'' (dict_of r) = sv ''project'';
          plain = filter (\<lambda>k. k \<notin> set [''status'', ''negotiated_protocol_version'', ''scope_kind'']) HEALTH_RESULT_KEYS in
      rbind (bad [Inr (closed_mapping r (HEALTH_RESULT_KEYS @ (if project then [''project_id''] else [])))]) (\<lambda>_.
      rbind (bad [field_is ''status'' (sv ''healthy'') r, field_is ''negotiated_protocol_version'' (sv ''1.0'') r]) (\<lambda>_.
      rbind (bad [rbind (vsub ''scope_kind'' r) (\<lambda>k. in_names k [lit ''workspace'', lit ''project''])]) (\<lambda>_.
      rbind (bad [rbind (vsub ''scope_kind'' r) (\<lambda>k. Inr (\<not> (k = sv ''workspace'' \<and> has_key ''project_id'' (dict_of r))))]) (\<lambda>_.
      rbind (bad (text_fields plain r)) (\<lambda>_.
      if has_key ''project_id'' (dict_of r) then bad (text_fields [''project_id''] r) else Inr ()))))))"

definition validate_shutdown_result :: "pyval \<Rightarrow> pyerr + unit" where
  "validate_shutdown_result r =
     check ''fixture-result-shape'' ''runtime.shutdown'' [Inr (closed_mapping r [''status'']), field_is ''status'' (sv ''shutdown_started'') r]"

definition RECEIPT_KEYS :: "string list" where
  "RECEIPT_KEYS = [''schema_version'', ''workspace_id'', ''scope'', ''receipt_id'', ''message_id'', ''delivery_id'', ''attempt_id'',
     ''endpoint_id'', ''session_ref_id'', ''state'', ''evidence'']"

definition validate_receipt_result :: "pyval \<Rightarrow> pyval \<Rightarrow> pystr \<Rightarrow> pyerr + unit" where
  "validate_receipt_result r params m =
     (let shape = check ''fixture-result-shape'' ''method''; identity = check ''fixture-result-identity'' ''method'' in
      rbind (shape [Inr (closed_mapping r RECEIPT_KEYS)]) (\<lambda>_.
      rbind (validate_schema_version (dict_of r) ''method'') (\<lambda>_.
      rbind (vsub ''session_ref'' params) (\<lambda>session_ref.
      rbind (if m = METHOD_DELIVER then
               rbind (vsub ''delivery'' params) (\<lambda>delivery.
               rbind (shape [field_is ''state'' (sv ''routed'') r]) (\<lambda>_.
               rbind (identity [same_field ''message_id'' r delivery]) (\<lambda>_. Inr delivery)))
             else if m = METHOD_RECONCILE then
               rbind (shape [rbind (vsub ''state'' r) (\<lambda>s. in_names s [lit ''accepted'', lit ''completed'', lit ''rejected_before_acceptance''])])
                 (\<lambda>_. Inr params)
             else Inl (ConformanceFailure ''fixture-result-method'' ''method'')) (\<lambda>delivery.
      rbind (identity [same_field ''workspace_id'' r session_ref, same_field ''scope'' r session_ref]) (\<lambda>_.
      rbind (identity [same_field ''delivery_id'' r delivery, same_field ''attempt_id'' r delivery]) (\<lambda>_.
      rbind (identity [same_field ''endpoint_id'' r session_ref, same_field ''session_ref_id'' r session_ref]) (\<lambda>_.
      rbind (vsub ''evidence'' r) (\<lambda>evidence.
      rbind (shape [Inr (closed_mapping evidence STATE_EVIDENCE_KEYS)]) (\<lambda>_.
      rbind (validate_schema_version (dict_of evidence) ''method'') (\<lambda>_.
      rbind (shape [field_is ''quality'' (sv (if m = METHOD_DELIVER then ''best_effort'' else ''authoritative'')) evidence,
        same_field ''state'' evidence r]) (\<lambda>_.
      rbind (vsub ''subject'' evidence) (\<lambda>subject.
      rbind (shape [Inr (closed_mapping subject STATE_SUBJECT_KEYS)]) (\<lambda>_.
      rbind (identity (map (\<lambda>k. same_field k subject r) STATE_SUBJECT_KEYS)) (\<lambda>_.
      if m = METHOD_RECONCILE then validate_evidence_integrity evidence
      else shape [rbind (vsub ''integrity'' evidence) (\<lambda>i. Inr (is_integrity i))])))))))))))))))"

section \<open>What a frame may be answered with\<close>

definition host_request :: "schema \<Rightarrow> pyval \<Rightarrow> pyerr + pyval \<times> pystr \<times> pydict" where
  "host_request docs frame =
     rbind (validate_request frame) (\<lambda>(rid, m, params). rbind (validate_request_params docs m params) (\<lambda>_. Inr (rid, m, params)))"

definition direction_valid_request :: "schema \<Rightarrow> trace_frame \<Rightarrow> pyerr + bool \<times> pyval option \<times> pystr option" where
  "direction_valid_request docs t =
     on_failure (\<lambda>_. Inr (False, None, None))
       (rbind (classify_direction (tf_sender t) (tf_receiver t) (thawed t)) (\<lambda>o'.
        if \<not> do_direction_valid o' then Inr (False, None, None)
        else if from_host t then rbind (host_request docs (thawed t)) (\<lambda>(rid, m, _). Inr (True, Some rid, Some m))
        else Inr (True, None, None)))"

definition request_would_be_accepted :: "schema \<Rightarrow> trace_frame \<Rightarrow> pyerr + bool" where
  "request_would_be_accepted docs t =
     on_failure (\<lambda>_. Inr False)
       (rbind (classify_direction (tf_sender t) (tf_receiver t) (thawed t)) (\<lambda>o'.
        if \<not> do_direction_valid o' then Inr False
        else if from_host t then rbind (host_request docs (thawed t)) (\<lambda>_. Inr True)
        else Inr True))"

definition code_of :: "(pystr \<times> int) list \<Rightarrow> string \<Rightarrow> pyerr + int" where
  "code_of codes name = (case map_of codes (lit name) of None \<Rightarrow> Inl KeyErr | Some c \<Rightarrow> Inr c)"

definition refusal_with :: "(pystr \<times> int) list \<Rightarrow> string \<Rightarrow> bool \<Rightarrow> bool \<Rightarrow> pyerr + refusal_view option" where
  "refusal_with codes name sent closes = rbind (code_of codes name) (\<lambda>c. Inr (Some (lit name, c, sent, closes)))"

definition refusal_for_clause :: "(pystr \<times> int) list \<Rightarrow> string \<Rightarrow> pyerr + refusal_view option" where
  "refusal_for_clause codes clause =
     (if clause = ''closed-method-set'' then refusal_with codes ''METHOD_NOT_FOUND'' True False
      else if clause = ''notification-rejected'' then refusal_with codes ''INVALID_REQUEST'' False True
      else if clause = ''request-id'' then refusal_with codes ''INVALID_REQUEST'' True True
      else if clause = ''fixture-session-ref-identity'' then refusal_with codes ''INVALID_SESSION_REF'' True False
      else if clause \<in> {''fixture-delivery-identity'', ''fixture-evidence-identity''} then refusal_with codes ''INVALID_DELIVERY'' True False
      else if clause \<in> {''closed-params'', ''fixture-request-params'', ''fixture-session-ref''} then refusal_with codes ''INVALID_PARAMS'' True False
      else refusal_with codes ''INVALID_REQUEST'' True False)"

definition derived_refusal :: "schema \<Rightarrow> (pystr \<times> int) list \<Rightarrow> trace_frame \<Rightarrow> pyerr + refusal_view option" where
  "derived_refusal docs codes t =
     (case classify_direction (tf_sender t) (tf_receiver t) (thawed t) of
        Inl (ConformanceFailure _ _) \<Rightarrow> Inr None
      | Inl e \<Rightarrow> Inl e
      | Inr o' \<Rightarrow>
          if \<not> do_direction_valid o' then
            (case do_fault o' of None \<Rightarrow> Inr None | Some f \<Rightarrow> refusal_with codes f (do_send_response o') (do_should_close o'))
          else if from_host t then
            on_failure (refusal_for_clause codes)
              (rbind (validate_request (thawed t)) (\<lambda>(rid, m, params).
               if m = METHOD_INITIALIZE \<and> dget_none ''requested_protocol_version'' params \<noteq> sv ''1.0''
               then refusal_with codes ''UNSUPPORTED_PROTOCOL_VERSION'' True True
               else rbind (validate_request_params docs m params) (\<lambda>_. Inr None)))
          else Inr None)"

section \<open>Conforming traces\<close>

record trace_state =
  ts_requests :: "pyval list"
  ts_methods :: "pystr list"
  ts_initialized :: bool
  ts_initialize_id :: "pyval option"
  ts_initialize_params :: "pydict option"

definition trace_start :: trace_state where
  "trace_start = \<lparr>ts_requests = [], ts_methods = [], ts_initialized = False, ts_initialize_id = None, ts_initialize_params = None\<rparr>"

definition conforming :: "bool \<Rightarrow> pyerr + unit" where
  "conforming b = fail_unless b ''fixture-conforming-trace'' ''fixture_id''"

definition conforming_request :: "schema \<Rightarrow> pyval \<Rightarrow> trace_state \<Rightarrow> pyerr + trace_state" where
  "conforming_request docs frame s =
     rbind (validate_request frame) (\<lambda>(rid, m, params).
     rbind (if m = METHOD_INITIALIZE then conforming (ts_methods s = []) else conforming (ts_initialized s)) (\<lambda>_.
     let s' = (if m = METHOD_INITIALIZE then s\<lparr>ts_initialize_id := Some rid, ts_initialize_params := Some params\<rparr> else s) in
     rbind (validate_request_params docs m params) (\<lambda>_.
     Inr (s'\<lparr>ts_requests := py_key rid # ts_requests s', ts_methods := ts_methods s' @ [m]\<rparr>))))"

definition conforming_response :: "schema \<Rightarrow> pyval \<Rightarrow> trace_state \<Rightarrow> pyerr + trace_state" where
  "conforming_response docs frame s =
     (let rid = (if is_dict frame then dget_none ''id'' (dict_of frame) else PNone) in
      rbind (require (hashable rid) (TypeErr ''unhashable type'')) (\<lambda>_.
      rbind (conforming (py_key rid \<in> set (ts_requests s))) (\<lambda>_.
      rbind (validate_response frame rid) (\<lambda>d.
      if \<not> (case ts_initialize_id s of None \<Rightarrow> False | Some i \<Rightarrow> py_eq rid i) then Inr s
      else
        rbind (conforming (has_key ''result'' d)) (\<lambda>_.
        rbind (validate_initialize_result docs (dget_none ''result'' d)) (\<lambda>_.
        rbind (conforming (case ts_initialize_params s of
            None \<Rightarrow> False | Some p \<Rightarrow> initialize_result_matches_request p (dict_of (dget_none ''result'' d)))) (\<lambda>_.
        Inr (s\<lparr>ts_initialized := True\<rparr>))))))))"

definition conforming_step :: "schema \<Rightarrow> trace_state \<Rightarrow> trace_frame \<Rightarrow> pyerr + trace_state" where
  "conforming_step docs s t =
     on_failure (\<lambda>_. Inl (ConformanceFailure ''fixture-conforming-trace'' ''fixture_id''))
       (rbind (classify_direction (tf_sender t) (tf_receiver t) (thawed t)) (\<lambda>o'.
        rbind (conforming (do_direction_valid o')) (\<lambda>_.
        if from_host t then conforming_request docs (thawed t) s
        else if from_adapter t then conforming_response docs (thawed t) s
        else Inr s)))"

definition validate_conforming_trace :: "schema \<Rightarrow> fixture \<Rightarrow> pyerr + pystr list" where
  "validate_conforming_trace docs fx =
     rbind (rfold (conforming_step docs) trace_start (fx_trace fx)) (\<lambda>s. Inr (ts_methods s))"

fun first_params :: "pystr \<Rightarrow> pyval list \<Rightarrow> pyval option" where
  "first_params m [] = None"
| "first_params m (f # fs) =
     (if is_dict f \<and> dget_none ''method'' (dict_of f) = PStr m \<and> is_dict (dget_none ''params'' (dict_of f))
      then Some (dget_none ''params'' (dict_of f)) else first_params m fs)"

definition validate_result_shape :: "fixture \<Rightarrow> pystr list \<Rightarrow> pyerr + unit" where
  "validate_result_shape fx methods =
     (case fx_expectation fx of
        ExpectedRefusal _ \<Rightarrow> Inl (ConformanceFailure ''fixture-conforming-expectation'' ''fixture_id'')
      | ExpectedResult x \<Rightarrow>
          if ex_method x \<notin> set methods then Inl (ConformanceFailure ''fixture-result-method'' ''fixture_id'')
          else if \<not> is_dict (ex_result x) then Inl (ConformanceFailure ''fixture-result-shape'' ''method'')
          else if ex_method x = METHOD_HEALTH then validate_health_result (ex_result x)
          else if ex_method x = METHOD_SHUTDOWN then validate_shutdown_result (ex_result x)
          else if ex_method x \<in> {METHOD_DELIVER, METHOD_RECONCILE} then
            (case first_params (ex_method x) (map thawed (fx_trace fx)) of
               None \<Rightarrow> Inl (ConformanceFailure ''fixture-result-method'' ''fixture_id'')
             | Some params \<Rightarrow> validate_receipt_result (ex_result x) params (ex_method x))
          else Inl (ConformanceFailure ''fixture-result-method'' ''fixture_id''))"

section \<open>Refusals that depend on what came before\<close>

definition unless_failure :: "pyerr + refusal_view option \<Rightarrow> pyerr + refusal_view option" where
  "unless_failure m = on_failure (\<lambda>_. Inr None) m"

definition stateful_post_shutdown_refusal :: "schema \<Rightarrow> fixture \<Rightarrow> refusal_view \<Rightarrow> pyerr + refusal_view option" where
  "stateful_post_shutdown_refusal docs fx expected =
     (let trace = fx_trace fx; hosts = map thawed (filter from_host trace); n = length hosts in
      if expected \<noteq> (lit ''SHUTDOWN_IN_PROGRESS'', -32016, True, False) then Inr None
      else if length trace < 4 then Inr None
      else if n < 3 then Inr None
      else
        unless_failure
          (rbind (validate_request (hosts ! 0)) (\<lambda>(init_id, init_method, init_params).
           if init_method \<noteq> METHOD_INITIALIZE then Inr None
           else if \<not> from_adapter (trace ! 1) then Inr None
           else
             rbind (validate_response (thawed (trace ! 1)) init_id) (\<lambda>reply.
             if \<not> has_key ''result'' reply then Inr None
             else
               rbind (validate_initialize_result docs (dget_none ''result'' reply)) (\<lambda>_.
               if \<not> initialize_result_matches_request init_params (dict_of (dget_none ''result'' reply)) then Inr None
               else
                 rbind (validate_request (hosts ! (n - 2))) (\<lambda>(_, shutdown_method, shutdown_params).
                 if shutdown_method \<noteq> METHOD_SHUTDOWN \<or> shutdown_params \<noteq> [] then Inr None
                 else
                   rbind (validate_request (hosts ! (n - 1))) (\<lambda>(_, final_method, final_params).
                   if final_method \<noteq> METHOD_HEALTH \<or> final_params \<noteq> [] then Inr None
                   else if \<not> from_host (last trace) \<or> \<not> py_eq (thawed (last trace)) (hosts ! (n - 1)) then Inr None
                   else Inr (Some expected))))))))"

definition pre_initialize_refusal :: "schema \<Rightarrow> fixture \<Rightarrow> refusal_view \<Rightarrow> pyerr + refusal_view option" where
  "pre_initialize_refusal docs fx expected =
     (if expected \<noteq> (lit ''INITIALIZE_REQUIRED'', -32005, True, True) \<or> length (fx_trace fx) \<noteq> 1 then Inr None
      else if \<not> from_host (hd (fx_trace fx)) then Inr None
      else
        unless_failure
          (rbind (host_request docs (thawed (hd (fx_trace fx)))) (\<lambda>(_, m, _).
           Inr (if m = METHOD_INITIALIZE then None else Some expected))))"

section \<open>Validation\<close>

fun validate_refs :: "fixture \<Rightarrow> (pystr \<Rightarrow> clause_occurrence option) \<Rightarrow> clause_reference list \<Rightarrow> pyerr + unit" where
  "validate_refs fx live [] = Inr ()"
| "validate_refs fx live (r # rs) =
     (if cr_polarity r \<noteq> fx_polarity fx then Inl (ConformanceFailure ''fixture-polarity-ref'' ''fixture_id'')
      else if cr_polarity r \<notin> set POLARITIES then Inl (ConformanceFailure ''fixture-polarity'' ''fixture_id'')
      else
        case live (cr_clause_key r) of
          None \<Rightarrow> Inl (ConformanceFailure ''fixture-clause-key'' ''clause_key'')
        | Some c \<Rightarrow>
            if cr_non_classifying r \<and> cr_polarity r \<noteq> POLARITY_CONFORMING
            then Inl (ConformanceFailure ''fixture-non-classifying-polarity'' ''fixture_id'')
            else if cr_non_classifying r \<and> co_keyword c \<noteq> lit ''MUST NOT''
            then Inl (ConformanceFailure ''fixture-non-classifying-keyword'' ''clause_key'')
            else if cr_text_sha256 r \<noteq> co_text_sha256 c then Inl (ConformanceFailure ''fixture-text-hash'' ''clause_key'')
            else validate_refs fx live rs)"

definition validate_clause_refs :: "fixture \<Rightarrow> (pystr \<Rightarrow> clause_occurrence option) \<Rightarrow> pyerr + unit" where
  "validate_clause_refs fx live =
     (if fx_clause_refs fx = [] then Inl (ConformanceFailure ''fixture-clause-ref'' ''fixture_id'')
      else validate_refs fx live (fx_clause_refs fx))"

definition refusal_view_of :: "expected_refusal \<Rightarrow> refusal_view" where
  "refusal_view_of x = (er_error_name x, er_error_code x, er_response_emitted x, er_closes_connection x)"

text \<open>What is checked of an expected refusal before the trace is looked at.\<close>

definition refusal_well_stated :: "(pystr \<times> int) list \<Rightarrow> expected_refusal \<Rightarrow> pyerr + unit" where
  "refusal_well_stated codes x =
     rbind (fail_unless (\<not> er_accepted x) ''fixture-violating-accepted'' ''fixture_id'') (\<lambda>_.
     rbind (fail_unless (er_state_effect x = NO_STATE_CHANGE) ''fixture-violating-state-effect'' ''fixture_id'') (\<lambda>_.
     rbind (fail_unless (er_error_name x \<notin> {lit ''ANY_ERROR'', lit ''*'', []}) ''fixture-violating-refusal'' ''fixture_id'') (\<lambda>_.
     fail_unless (map_of codes (er_error_name x) = Some (er_error_code x)) ''fixture-violating-refusal'' ''fixture_id'')))"

definition validate_violation :: "schema \<Rightarrow> (pystr \<times> int) list \<Rightarrow> fixture \<Rightarrow> expected_refusal \<Rightarrow> pyerr + unit" where
  "validate_violation docs codes fx x =
     rbind (refusal_well_stated codes x) (\<lambda>_.
     let expected = refusal_view_of x in
     rbind (stateful_post_shutdown_refusal docs fx expected) (\<lambda>stateful.
     rbind (pre_initialize_refusal docs fx expected) (\<lambda>pre.
     rbind (all_of (map (request_would_be_accepted docs) (fx_trace fx))) (\<lambda>accepted.
     if accepted \<and> stateful = None \<and> pre = None then Inl (ConformanceFailure ''fixture-violating-trace'' ''fixture_id'')
     else
       rbind (rmap (derived_refusal docs codes) (fx_trace fx)) (\<lambda>derived.
       fail_unless (Some expected \<in> set (derived @ [stateful, pre])) ''fixture-violating-refusal'' ''fixture_id'')))))"

definition validate_expectation :: "schema \<Rightarrow> (pystr \<times> int) list \<Rightarrow> fixture \<Rightarrow> pyerr + unit" where
  "validate_expectation docs codes fx =
     (if fx_polarity fx = POLARITY_CONFORMING then
        (case fx_expectation fx of
           ExpectedRefusal _ \<Rightarrow> Inl (ConformanceFailure ''fixture-conforming-expectation'' ''fixture_id'')
         | ExpectedResult x \<Rightarrow>
             if ex_method x = [] \<or> ex_state_effect x = NO_STATE_CHANGE
             then Inl (ConformanceFailure ''fixture-conforming-expectation'' ''fixture_id'')
             else rbind (validate_conforming_trace docs fx) (validate_result_shape fx))
      else if fx_polarity fx \<noteq> POLARITY_VIOLATING then Inl (ConformanceFailure ''fixture-polarity'' ''fixture_id'')
      else
        case fx_expectation fx of
          ExpectedResult _ \<Rightarrow> Inl (ConformanceFailure ''fixture-violating-expectation'' ''fixture_id'')
        | ExpectedRefusal x \<Rightarrow> validate_violation docs codes fx x)"

definition by_key :: "clause_occurrence list \<Rightarrow> pystr \<Rightarrow> clause_occurrence option" where
  "by_key clauses = map_of (rev (map (\<lambda>c. (co_clause_key c, c)) clauses))"

definition validate_fixture :: "schema \<Rightarrow> (pystr \<times> int) list \<Rightarrow> clause_occurrence list \<Rightarrow> fixture \<Rightarrow> pyerr + unit" where
  "validate_fixture docs codes clauses fx =
     (if fx_polarity fx \<notin> set POLARITIES then Inl (ConformanceFailure ''fixture-polarity'' ''fixture_id'')
      else if fx_trace fx = [] then Inl (ConformanceFailure ''fixture-trace'' ''fixture_id'')
      else rbind (validate_clause_refs fx (by_key clauses)) (\<lambda>_. validate_expectation docs codes fx))"

text \<open>
  \<open>clauses\<close> and \<open>codes\<close> are what \<open>extract_clause_occurrences\<close> and \<open>protocol_error_codes\<close> find in the text of the protocol.
\<close>

definition validate_fixtures ::
    "schema \<Rightarrow> pyerr + clause_occurrence list \<Rightarrow> pyerr + (pystr \<times> int) list \<Rightarrow> fixture list \<Rightarrow> pyerr + fixture list" where
  "validate_fixtures docs clauses codes fixtures =
     rbind clauses (\<lambda>cs.
     rbind (case codes of Inl (ConformanceFailure _ m) \<Rightarrow> Inl (ConformanceFailure ''fixture-error-codes'' m) | _ \<Rightarrow> codes) (\<lambda>known.
     if fixtures = [] then Inl (ConformanceFailure ''fixture-empty'' ''no fixtures'')
     else rbind (rmap (validate_fixture docs known cs) fixtures) (\<lambda>_. Inr fixtures)))"

end
