(* ===== verification/Claim.thy ===== *)
theory Claim
  imports Fixtures
begin

text \<open>
  Publication of a conformance claim: \<open>llm_collab/runtime_adapter_claim.py\<close>. The fixtures are validated, replayed against the reference
  peer, and a claim is built only if every clause of the protocol was exercised. Writing the artifact to a file is not modelled.
\<close>

section \<open>Definitions\<close>

datatype coverage = Unreferenced | ReferencedNotExercised | ExercisedConforming

definition GAP_STATES :: "coverage set" where [simp]: "GAP_STATES = {Unreferenced, ReferencedNotExercised}"

datatype claim =
    ClaimFailure "(pystr \<times> coverage) list"
  | ClaimSuccess "(pystr \<times> coverage) list"

text \<open>Does a reference count for a clause of this keyword?\<close>

definition relevant_ref :: "pystr \<Rightarrow> clause_reference \<Rightarrow> bool" where
  "relevant_ref keyword r \<longleftrightarrow>
     keyword = lit ''MUST NOT'' \<and> cr_polarity r = ''violating'' \<or> keyword = lit ''MUST NOT'' \<and> cr_non_classifying r \<or>
     keyword \<noteq> lit ''MUST NOT''"

type_synonym coverage_map = "(pystr \<times> coverage) list"

definition cover_ref :: "(pystr \<Rightarrow> pystr option) \<Rightarrow> bool \<Rightarrow> clause_reference \<Rightarrow> coverage_map \<Rightarrow> coverage_map" where
  "cover_ref keywords exercised r states =
     (case keywords (cr_clause_key r) of
        None \<Rightarrow> states
      | Some keyword \<Rightarrow>
          if exercised \<and> relevant_ref keyword r then AList.update (cr_clause_key r) ExercisedConforming states
          else if relevant_ref keyword r \<and> map_of states (cr_clause_key r) = Some Unreferenced
          then AList.update (cr_clause_key r) ReferencedNotExercised states
          else states)"

definition cover_fixture :: "(pystr \<Rightarrow> pystr option) \<Rightarrow> pystr set \<Rightarrow> fixture \<Rightarrow> coverage_map \<Rightarrow> coverage_map" where
  "cover_fixture keywords exercised fx states = fold (cover_ref keywords (fx_fixture_id fx \<in> exercised)) (fx_clause_refs fx) states"

definition coverage_states :: "clause_occurrence list \<Rightarrow> fixture list \<Rightarrow> pystr set \<Rightarrow> coverage_map" where
  "coverage_states clauses fixtures exercised =
     (let states = fold (\<lambda>c. AList.update (co_clause_key c) Unreferenced) clauses [];
          keywords = map_of (rev (map (\<lambda>c. (co_clause_key c, co_keyword c)) clauses)) in
      fold (cover_fixture keywords exercised) fixtures states)"

definition claim_from_checked :: "clause_occurrence list \<Rightarrow> fixture list \<Rightarrow> pystr set \<Rightarrow> claim" where
  "claim_from_checked clauses fixtures exercised =
     (let states = sort_key fst (coverage_states clauses fixtures exercised);
          gaps = filter (\<lambda>ks. snd ks \<in> GAP_STATES) states in
      if gaps \<noteq> [] then ClaimFailure gaps else ClaimSuccess states)"

definition matches_result :: "expectation \<Rightarrow> pyval \<Rightarrow> pyval \<Rightarrow> pyerr + bool" where
  "matches_result expectation frame payload =
     (case expectation of
        ExpectedRefusal _ \<Rightarrow> Inr False
      | ExpectedResult x \<Rightarrow>
          if \<not> is_dict payload then Inr False
          else rbind (vget ''method'' frame) (\<lambda>m. Inr (m = PStr (ex_method x) \<and> py_eq (dget_none ''result'' (dict_of payload)) (ex_result x))))"

text \<open>\<open>json.loads\<close> of a reply. The peer the fixtures are replayed on injects no faults, so its replies are text.\<close>

definition reply_payload :: "reply \<Rightarrow> pyerr + pyval" where
  "reply_payload r =
     (case r of
        TextReply t \<Rightarrow> loads plain_opts t
      | BytesReply _ \<Rightarrow> Inl (Unmodelled ''JSON text given as bytes'')
      | NoReply \<Rightarrow> Inl (TypeErr ''the JSON object must be str, bytes or bytearray''))"

definition matches_refusal :: "expectation \<Rightarrow> reply \<Rightarrow> pyerr + bool" where
  "matches_refusal expectation r =
     (case expectation of
        ExpectedResult _ \<Rightarrow> Inr False
      | ExpectedRefusal x \<Rightarrow>
          if r = NoReply then Inr (\<not> er_response_emitted x \<and> er_closes_connection x)
          else
            rbind (reply_payload r) (\<lambda>payload.
            let error = (if is_dict payload then dget_none ''error'' (dict_of payload) else PNone) in
            Inr (is_dict error \<and> py_eq (dget_none ''code'' (dict_of error)) (PInt (er_error_code x)) \<and>
                 dget_none ''message'' (dict_of error) = PStr (er_error_name x))))"

text \<open>\<open>"error" in payload\<close>; every reply of the peer is a mapping.\<close>

definition has_error_member :: "pyval \<Rightarrow> pyerr + bool" where
  "has_error_member v = (case v of PDict d \<Rightarrow> Inr (has_key ''error'' d) | _ \<Rightarrow> Inl (Unmodelled ''membership in a reply that is not a mapping''))"

fun replay :: "schema \<Rightarrow> fixture \<Rightarrow> bool \<Rightarrow> reference_adapter \<Rightarrow> pyval list \<Rightarrow> pyerr + bool" where
  "replay docs fx saw a [] = Inr saw"
| "replay docs fx saw a (frame # frames) =
     rbind (dumps True frame) (\<lambda>t.
     let (out, a') = handle_text docs t a in
     rbind out (\<lambda>response.
     rbind (if fx_polarity fx = POLARITY_VIOLATING \<and> frames = [] then matches_refusal (fx_expectation fx) response else Inr False) (\<lambda>refused.
     if refused then Inr True
     else if response = NoReply then Inr False
     else
       rbind (reply_payload response) (\<lambda>payload.
       rbind (has_error_member payload) (\<lambda>error.
       if error then Inr False
       else
         rbind (if fx_polarity fx = POLARITY_CONFORMING then matches_result (fx_expectation fx) frame payload else Inr False) (\<lambda>m.
         replay docs fx (saw \<or> m) a' frames))))))"

definition fixture_replays :: "schema \<Rightarrow> fixture \<Rightarrow> pyerr + bool" where
  "fixture_replays docs fx =
     rbind (new_adapter None None) (\<lambda>a. replay docs fx False a (map thawed (filter from_host (fx_trace fx))))"

definition replayed_fixture_ids :: "schema \<Rightarrow> fixture list \<Rightarrow> pyerr + pystr set" where
  "replayed_fixture_ids docs fixtures =
     rbind (rmap (fixture_replays docs) fixtures) (\<lambda>rs.
     Inr (fx_fixture_id ` {fx. (fx, True) \<in> set (zip fixtures rs)}))"

definition build_claim ::
    "schema \<Rightarrow> pyerr + clause_occurrence list \<Rightarrow> pyerr + (pystr \<times> int) list \<Rightarrow> fixture list \<Rightarrow> pyerr + claim" where
  "build_claim docs clauses codes fixtures =
     rbind (validate_fixtures docs clauses codes fixtures) (\<lambda>checked.
     rbind clauses (\<lambda>cs.
     rbind (replayed_fixture_ids docs checked) (\<lambda>exercised.
     Inr (claim_from_checked cs checked exercised))))"

section \<open>What the coverage of a clause means\<close>

text \<open>
  The specification of coverage, without the order in which fixtures and references are visited: a clause is exercised if some relevant
  reference to it belongs to a fixture whose id was replayed, and else referenced if some reference is relevant.
\<close>

definition refs_to :: "fixture list \<Rightarrow> pystr \<Rightarrow> pystr \<Rightarrow> (pystr \<times> clause_reference) set" where
  "refs_to fixtures k keyword =
     {(fx_fixture_id fx, r) | fx r. fx \<in> set fixtures \<and> r \<in> set (fx_clause_refs fx) \<and> cr_clause_key r = k \<and> relevant_ref keyword r}"

definition coverage_spec :: "fixture list \<Rightarrow> pystr set \<Rightarrow> pystr \<Rightarrow> pystr \<Rightarrow> coverage" where
  "coverage_spec fixtures exercised k keyword =
     (if fst ` refs_to fixtures k keyword \<inter> exercised \<noteq> {} then ExercisedConforming
      else if refs_to fixtures k keyword \<noteq> {} then ReferencedNotExercised else Unreferenced)"

definition keyword_of :: "clause_occurrence list \<Rightarrow> pystr \<Rightarrow> pystr option" where
  "keyword_of clauses = map_of (rev (map (\<lambda>c. (co_clause_key c, co_keyword c)) clauses))"

lemma keyword_of_None_iff: "keyword_of clauses k = None \<longleftrightarrow> k \<notin> co_clause_key ` set clauses"
  by (simp add: keyword_of_def map_of_eq_None_iff image_image)

text \<open>One visit: what it does to the state of one key.\<close>

definition visit :: "pystr \<Rightarrow> pystr \<Rightarrow> bool \<times> clause_reference \<Rightarrow> coverage \<Rightarrow> coverage" where
  "visit k keyword er v =
     (if cr_clause_key (snd er) = k \<and> relevant_ref keyword (snd er)
      then (if fst er then ExercisedConforming else if v = Unreferenced then ReferencedNotExercised else v) else v)"

lemma cover_ref_lookup:
  "map_of (cover_ref keywords e r states) k =
     (case keywords k of None \<Rightarrow> map_of states k
      | Some keyword \<Rightarrow>
          if map_of states k = None then (if cr_clause_key r = k \<and> relevant_ref keyword r \<and> e then Some ExercisedConforming else None)
          else map_option (visit k keyword (e, r)) (map_of states k))"
  by (auto simp: cover_ref_def visit_def update_conv' split: option.splits)

lemma cover_refs_lookup:
  assumes "keywords k = Some keyword" and "map_of states k = Some v"
  shows "map_of (fold (cover_ref keywords e) rs states) k = Some (fold (\<lambda>r. visit k keyword (e, r)) rs v)"
  using assms(2) by (induction rs arbitrary: states v) (simp_all add: cover_ref_lookup assms(1))

lemma cover_fixtures_lookup:
  assumes "keywords k = Some keyword" and "map_of states k = Some v"
  shows "map_of (fold (cover_fixture keywords exercised) fixtures states) k =
    Some (fold (visit k keyword) (concat (map (\<lambda>fx. map (Pair (fx_fixture_id fx \<in> exercised)) (fx_clause_refs fx)) fixtures)) v)"
  using assms(2)
proof (induction fixtures arbitrary: states v)
  case (Cons fx fixtures)
  have "map_of (cover_fixture keywords exercised fx states) k =
      Some (fold (\<lambda>r. visit k keyword (fx_fixture_id fx \<in> exercised, r)) (fx_clause_refs fx) v)"
    unfolding cover_fixture_def by (rule cover_refs_lookup) (rule assms(1), rule Cons(2))
  from Cons(1) [OF this] show ?case by (simp add: fold_map comp_def)
qed simp

lemma fold_coverage:
  "fold (\<lambda>x v. if R x then (if E x then ExercisedConforming else if v = Unreferenced then ReferencedNotExercised else v) else v) xs v =
     (if \<exists>x\<in>set xs. R x \<and> E x then ExercisedConforming
      else if v = Unreferenced \<and> (\<exists>x\<in>set xs. R x) then ReferencedNotExercised else v)"
proof (induction xs arbitrary: v)
  case (Cons x xs)
  show ?case by (cases "R x"; cases "E x"; simp add: Cons; blast)
qed simp

lemma visits:
  "fold (visit k keyword) ers v =
     (if \<exists>er\<in>set ers. (cr_clause_key (snd er) = k \<and> relevant_ref keyword (snd er)) \<and> fst er then ExercisedConforming
      else if v = Unreferenced \<and> (\<exists>er\<in>set ers. cr_clause_key (snd er) = k \<and> relevant_ref keyword (snd er)) then ReferencedNotExercised
      else v)"
proof -
  have "visit k keyword = (\<lambda>er v. if cr_clause_key (snd er) = k \<and> relevant_ref keyword (snd er)
      then (if fst er then ExercisedConforming else if v = Unreferenced then ReferencedNotExercised else v) else v)"
    by (simp add: visit_def fun_eq_iff)
  then show ?thesis by (simp only: fold_coverage)
qed

lemma start_lookup:
  "map_of (fold (\<lambda>c. AList.update (co_clause_key c) Unreferenced) clauses s) k =
     (if k \<in> co_clause_key ` set clauses then Some Unreferenced else map_of s k)"
  by (induction clauses arbitrary: s) (auto simp: update_conv')

lemma untracked:
  assumes "keywords k = None"
  shows "map_of (fold (cover_fixture keywords exercised) fixtures s) k = map_of s k"
proof -
  have "map_of (fold (cover_ref keywords e) rs s) k = map_of s k" for e rs s
    by (induction rs arbitrary: s) (simp_all add: cover_ref_lookup assms)
  then show ?thesis by (induction fixtures arbitrary: s) (simp_all add: cover_fixture_def)
qed

lemma coverage_lookup:
  "map_of (coverage_states clauses fixtures exercised) k =
     map_option (coverage_spec fixtures exercised k) (keyword_of clauses k)"
proof (cases "keyword_of clauses k")
  case None
  then have "k \<notin> co_clause_key ` set clauses" by (simp add: keyword_of_None_iff)
  then show ?thesis using None
    by (simp add: coverage_states_def keyword_of_def [symmetric] untracked start_lookup)
next
  case (Some keyword)
  then have k: "k \<in> co_clause_key ` set clauses" using keyword_of_None_iff [of clauses k] by auto
  let ?ers = "concat (map (\<lambda>fx. map (Pair (fx_fixture_id fx \<in> exercised)) (fx_clause_refs fx)) fixtures)"
  have over: "(\<exists>er\<in>set ?ers. P er) \<longleftrightarrow> (\<exists>fx\<in>set fixtures. \<exists>r\<in>set (fx_clause_refs fx). P (fx_fixture_id fx \<in> exercised, r))" for P
    by auto
  have inter: "fst ` A \<inter> B \<noteq> {} \<longleftrightarrow> (\<exists>p\<in>A. fst p \<in> B)" for A :: "(pystr \<times> clause_reference) set" and B by auto
  have hits: "(\<exists>er\<in>set ?ers. (cr_clause_key (snd er) = k \<and> relevant_ref keyword (snd er)) \<and> fst er) \<longleftrightarrow>
      fst ` refs_to fixtures k keyword \<inter> exercised \<noteq> {}"
    unfolding over inter refs_to_def by (simp; blast)
  have refs: "(\<exists>er\<in>set ?ers. cr_clause_key (snd er) = k \<and> relevant_ref keyword (snd er)) \<longleftrightarrow> refs_to fixtures k keyword \<noteq> {}"
    unfolding over refs_to_def by auto
  have "map_of (coverage_states clauses fixtures exercised) k = Some (fold (visit k keyword) ?ers Unreferenced)"
    unfolding coverage_states_def Let_def keyword_of_def [symmetric]
    by (rule cover_fixtures_lookup) (simp_all add: Some start_lookup k)
  also have "fold (visit k keyword) ?ers Unreferenced = coverage_spec fixtures exercised k keyword"
    by (simp only: visits coverage_spec_def hits refs simp_thms)
  finally show ?thesis using Some by simp
qed

section \<open>The claim\<close>

lemma distinct_coverage: "distinct (map fst (coverage_states clauses fixtures exercised))"
proof -
  have ref: "distinct (map fst (cover_ref kws e r s))" if "distinct (map fst s)" for kws e r and s :: coverage_map
    using that by (auto simp: cover_ref_def distinct_update split: option.split)
  have refs: "distinct (map fst (fold (cover_ref kws e) rs s))" if "distinct (map fst s)" for kws e rs and s :: coverage_map
    using that by (induction rs arbitrary: s) (simp_all add: ref)
  have all: "distinct (map fst (fold (cover_fixture kws exercised) fxs s))"
    if "distinct (map fst s)" for kws fxs and s :: coverage_map
    using that by (induction fxs arbitrary: s) (simp_all add: cover_fixture_def refs)
  have start: "distinct (map fst (fold (\<lambda>c. AList.update (co_clause_key c) Unreferenced) cs s))"
    if "distinct (map fst s)" for cs and s :: coverage_map
    using that by (induction cs arbitrary: s) (simp_all add: distinct_update)
  show ?thesis unfolding coverage_states_def Let_def by (intro all start) simp
qed

lemma coverage_mem:
  "(k, v) \<in> set (coverage_states clauses fixtures exercised) \<longleftrightarrow>
     (\<exists>keyword. keyword_of clauses k = Some keyword \<and> v = coverage_spec fixtures exercised k keyword)"
  using coverage_lookup [of clauses fixtures exercised k]
  by (auto simp: map_of_eq_Some_iff [OF distinct_coverage, symmetric])

lemma claim_from_checked_cases:
  "claim_from_checked clauses fixtures exercised =
     (let states = sort_key fst (coverage_states clauses fixtures exercised) in
      if \<forall>kv\<in>set states. snd kv = ExercisedConforming then ClaimSuccess states
      else ClaimFailure (filter (\<lambda>kv. snd kv \<noteq> ExercisedConforming) states))"
proof -
  have gap: "v \<in> GAP_STATES \<longleftrightarrow> v \<noteq> ExercisedConforming" for v by (cases v) auto
  show ?thesis unfolding claim_from_checked_def Let_def gap by (auto simp: filter_empty_conv)
qed

lemma spec_exercised_iff:
  "coverage_spec fixtures exercised k keyword = ExercisedConforming \<longleftrightarrow>
     (\<exists>fx\<in>set fixtures. fx_fixture_id fx \<in> exercised \<and>
        (\<exists>r\<in>set (fx_clause_refs fx). cr_clause_key r = k \<and> relevant_ref keyword r))"
proof -
  have inter: "fst ` A \<inter> B \<noteq> {} \<longleftrightarrow> (\<exists>p\<in>A. fst p \<in> B)" for A :: "(pystr \<times> clause_reference) set" and B by auto
  have "coverage_spec fixtures exercised k keyword = ExercisedConforming \<longleftrightarrow> (\<exists>p\<in>refs_to fixtures k keyword. fst p \<in> exercised)"
    unfolding inter [symmetric] by (simp add: coverage_spec_def)
  then show ?thesis unfolding refs_to_def by (simp; blast)
qed

lemma replayed_ids:
  assumes "replayed_fixture_ids docs fixtures = Inr ids"
  shows "i \<in> ids \<longleftrightarrow> (\<exists>fx\<in>set fixtures. fx_fixture_id fx = i \<and> fixture_replays docs fx = Inr True)"
proof -
  obtain rs where rs: "rmap (fixture_replays docs) fixtures = Inr rs" "ids = fx_fixture_id ` {fx. (fx, True) \<in> set (zip fixtures rs)}"
    using assms by (auto simp: replayed_fixture_ids_def rbind_Inr_iff)
  have "(fx, True) \<in> set (zip fixtures rs) \<longleftrightarrow> fx \<in> set fixtures \<and> fixture_replays docs fx = Inr True" for fx
    using rmap_Inr_map [OF rs(1)] rmap_Inr_length [OF rs(1)]
    by (auto simp: set_zip in_set_conv_nth list_eq_iff_nth_eq)
  then show ?thesis unfolding rs(2) by auto
qed

lemma validated:
  assumes "validate_fixtures docs clauses codes fixtures = Inr checked"
  obtains cs known where "clauses = Inr cs" "codes = Inr known" "checked = fixtures" "fixtures \<noteq> []"
    "\<And>fx. fx \<in> set fixtures \<Longrightarrow> validate_fixture docs known cs fx = Inr ()"
proof -
  obtain cs known us where "clauses = Inr cs" "codes = Inr known" "checked = fixtures" "fixtures \<noteq> []"
      and us: "rmap (validate_fixture docs known cs) fixtures = Inr us"
    using assms by (auto simp: validate_fixtures_def rbind_Inr_iff split: sum.splits pyerr.splits if_splits)
  moreover have "validate_fixture docs known cs fx = Inr ()" if m: "fx \<in> set fixtures" for fx
    using rmap_Inr_mem [OF us m] by auto
  ultimately show thesis using that by blast
qed

text \<open>
  C26. The claim is complete and its gaps are exact. When a claim is built, every fixture passed validation; it succeeds exactly when for every
  clause of the protocol some relevant reference belongs to a fixture whose id is that of a fixture that replayed on the reference peer, and
  otherwise it lists, in the order of their keys, precisely the clauses for which that fails, each with the state its references give it.
\<close>

theorem claim_exact:
  assumes "build_claim docs (Inr cs) codes fixtures = Inr claim"
  shows "\<exists>ids. (\<forall>i. i \<in> ids \<longleftrightarrow> (\<exists>fx\<in>set fixtures. fx_fixture_id fx = i \<and> fixture_replays docs fx = Inr True)) \<and>
    ((\<exists>states. claim = ClaimSuccess states) \<longleftrightarrow>
       (\<forall>k keyword. keyword_of cs k = Some keyword \<longrightarrow>
          (\<exists>fx\<in>set fixtures. fx_fixture_id fx \<in> ids \<and> (\<exists>r\<in>set (fx_clause_refs fx). cr_clause_key r = k \<and> relevant_ref keyword r)))) \<and>
    (\<forall>gaps. claim = ClaimFailure gaps \<longrightarrow> sorted (map fst gaps) \<and>
       set gaps = {(k, coverage_spec fixtures ids k keyword) | k keyword. keyword_of cs k = Some keyword \<and>
         coverage_spec fixtures ids k keyword \<noteq> ExercisedConforming})"
proof -
  obtain ids where ids: "replayed_fixture_ids docs fixtures = Inr ids" "claim = claim_from_checked cs fixtures ids"
    using assms by (auto simp: build_claim_def rbind_Inr_iff elim: validated)
  let ?s = "sort_key fst (coverage_states cs fixtures ids)"
  have mem: "(k, v) \<in> set ?s \<longleftrightarrow> (\<exists>keyword. keyword_of cs k = Some keyword \<and> v = coverage_spec fixtures ids k keyword)" for k v
    by (simp add: coverage_mem)
  have all: "(\<forall>kv\<in>set ?s. snd kv = ExercisedConforming) \<longleftrightarrow>
      (\<forall>k keyword. keyword_of cs k = Some keyword \<longrightarrow> coverage_spec fixtures ids k keyword = ExercisedConforming)"
    using mem by force
  have claim: "claim = (if \<forall>kv\<in>set ?s. snd kv = ExercisedConforming then ClaimSuccess ?s
      else ClaimFailure (filter (\<lambda>kv. snd kv \<noteq> ExercisedConforming) ?s))"
    unfolding ids(2) claim_from_checked_cases Let_def ..
  have gaps: "set (filter (\<lambda>kv. snd kv \<noteq> ExercisedConforming) ?s) =
      {(k, coverage_spec fixtures ids k keyword) | k keyword. keyword_of cs k = Some keyword \<and>
         coverage_spec fixtures ids k keyword \<noteq> ExercisedConforming}"
    using mem by auto
  show ?thesis
    unfolding spec_exercised_iff [symmetric]
    using replayed_ids [OF ids(1)] claim all gaps
    by (intro exI [of _ ids]) (auto simp: sorted_filter split: if_splits)
qed

section \<open>What a validated fixture expects\<close>

lemma validate_refs_iff:
  "validate_refs fx live rs = Inr () \<longleftrightarrow>
     (\<forall>r\<in>set rs. cr_polarity r = fx_polarity fx \<and> cr_polarity r \<in> set POLARITIES \<and>
        (\<exists>c. live (cr_clause_key r) = Some c \<and> cr_text_sha256 r = co_text_sha256 c \<and>
           (cr_non_classifying r \<longrightarrow> cr_polarity r = POLARITY_CONFORMING \<and> co_keyword c = lit ''MUST NOT'')))"
  by (induction rs) (auto split: option.splits)

lemma by_key_mem: "by_key cs k = Some c \<Longrightarrow> c \<in> set cs \<and> co_clause_key c = k"
  unfolding by_key_def by (drule map_of_SomeD) auto

text \<open>
  A fixture that passed validation refers, with the right polarity, only to clauses of the protocol whose text has not changed; and if it
  is a violating one, it expects a refusal of the protocol's catalogue that changes no state, and exactly that refusal (name, code, whether a
  response is sent, whether the connection closes) is what its own frames call for: one frame alone, or the last after a shutdown, or the
  only one before initialization.
\<close>

theorem violation_validated:
  assumes "validate_fixtures docs (Inr cs) (Inr codes) fixtures = Inr checked" and "fx \<in> set fixtures"
  shows "(\<forall>r\<in>set (fx_clause_refs fx). cr_polarity r = fx_polarity fx \<and>
      (\<exists>c\<in>set cs. co_clause_key c = cr_clause_key r \<and> co_text_sha256 c = cr_text_sha256 r)) \<and>
    (fx_polarity fx = POLARITY_VIOLATING \<longrightarrow>
      (\<exists>x. fx_expectation fx = ExpectedRefusal x \<and> map_of codes (er_error_name x) = Some (er_error_code x) \<and>
         er_state_effect x = NO_STATE_CHANGE \<and> \<not> er_accepted x \<and>
         ((\<exists>t\<in>set (fx_trace fx). derived_refusal docs codes t = Inr (Some (refusal_view_of x))) \<or>
          stateful_post_shutdown_refusal docs fx (refusal_view_of x) = Inr (Some (refusal_view_of x)) \<or>
          pre_initialize_refusal docs fx (refusal_view_of x) = Inr (Some (refusal_view_of x)))))"
proof -
  have v: "validate_fixture docs codes cs fx = Inr ()" using assms by (auto elim: validated)
  then have r: "validate_refs fx (by_key cs) (fx_clause_refs fx) = Inr ()" and e: "validate_expectation docs codes fx = Inr ()"
    by (auto simp: validate_fixture_def validate_clause_refs_def rbind_Inr_iff split: if_splits)
  have "\<exists>x. fx_expectation fx = ExpectedRefusal x \<and> validate_violation docs codes fx x = Inr ()" if "fx_polarity fx = POLARITY_VIOLATING"
    using e that by (auto simp: validate_expectation_def split: expectation.splits)
  moreover have "map_of codes (er_error_name x) = Some (er_error_code x) \<and>
      er_state_effect x = NO_STATE_CHANGE \<and> \<not> er_accepted x \<and>
      ((\<exists>t\<in>set (fx_trace fx). derived_refusal docs codes t = Inr (Some (refusal_view_of x))) \<or>
       stateful_post_shutdown_refusal docs fx (refusal_view_of x) = Inr (Some (refusal_view_of x)) \<or>
       pre_initialize_refusal docs fx (refusal_view_of x) = Inr (Some (refusal_view_of x)))"
    if "validate_violation docs codes fx x = Inr ()" for x
    using that unfolding validate_violation_def refusal_well_stated_def Let_def
    by (auto simp: rbind_Inr_iff split: if_splits dest: rmap_Inr_mem_back)
  moreover have "cr_polarity c = fx_polarity fx \<and> (\<exists>l\<in>set cs. co_clause_key l = cr_clause_key c \<and> co_text_sha256 l = cr_text_sha256 c)"
    if "c \<in> set (fx_clause_refs fx)" for c
    using r that by_key_mem [of cs "cr_clause_key c"] by (fastforce simp: validate_refs_iff)
  ultimately show ?thesis by blast
qed

lemma refusal_with_Some: "refusal_with codes name sent closes = Inr v \<Longrightarrow> v \<noteq> None"
  by (auto simp: refusal_with_def rbind_Inr_iff)

lemma refusal_for_clause_Some: "refusal_for_clause codes clause = Inr v \<Longrightarrow> v \<noteq> None"
  by (simp only: refusal_for_clause_def split: if_split_asm) (erule refusal_with_Some)+

lemma on_failure_Inr:
  "on_failure h m = Inr v \<longleftrightarrow> m = Inr v \<or> (\<exists>clause msg. m = Inl (ConformanceFailure clause msg) \<and> h clause = Inr v)"
proof (cases m)
  case (Inl e)
  then show ?thesis by (cases e) (simp_all add: on_failure_def)
qed (simp add: on_failure_def)

lemma classify_fault: "classify_direction a b v = Inr o' \<Longrightarrow> \<not> do_direction_valid o' \<Longrightarrow> do_fault o' \<noteq> None"
  by (auto simp: classify_direction_def Let_def split: pyval.splits if_splits)

lemma wrong_version: "dget_none ''requested_protocol_version'' params \<noteq> sv ''1.0'' \<Longrightarrow>
  validate_request_params docs METHOD_INITIALIZE params =
    Inl (ConformanceFailure ''fixture-unsupported-version'' ''initialize'')"
  by (simp add: validate_request_params_def fail_unless_def require_def Let_def)

text \<open>
  The two readings of a frame agree: a frame whose direction can be told would be accepted exactly when no refusal is derived for it.
\<close>

theorem accepted_iff_not_refused:
  assumes "classify_direction (tf_sender t) (tf_receiver t) (thawed t) = Inr o'"
    and "derived_refusal docs codes t = Inr refused" and "request_would_be_accepted docs t = Inr accepted"
  shows "accepted \<longleftrightarrow> refused = None"
proof (cases "do_direction_valid o' \<and> from_host t")
  case False
  then show ?thesis using assms classify_fault [OF assms(1)]
    by (auto simp: derived_refusal_def request_would_be_accepted_def on_failure_Inr split: if_splits option.splits dest: refusal_with_Some)
next
  case True
  show ?thesis
  proof (cases "validate_request (thawed t)")
    case (Inl e)
    then show ?thesis using assms True
      by (auto simp: derived_refusal_def request_would_be_accepted_def on_failure_Inr host_request_def dest: refusal_for_clause_Some)
  next
    case (Inr r)
    obtain rid m params where r: "r = (rid, m, params)" by (cases r)
    show ?thesis
    proof (cases "m = METHOD_INITIALIZE \<and> dget_none ''requested_protocol_version'' params \<noteq> sv ''1.0''")
      case True
      then show ?thesis using assms \<open>do_direction_valid o' \<and> from_host t\<close> Inr r wrong_version [of params docs]
        by (auto simp: derived_refusal_def request_would_be_accepted_def on_failure_Inr host_request_def dest: refusal_with_Some refusal_for_clause_Some)
    next
      case False
      then show ?thesis using assms True Inr r
        by (cases "validate_request_params docs m params")
          (auto simp: derived_refusal_def request_would_be_accepted_def on_failure_Inr host_request_def dest: refusal_for_clause_Some)
    qed
  qed
qed

section \<open>The conformance checks and the reference peer\<close>

text \<open>A request envelope whose members have the right types.\<close>

definition typed_envelope :: "pydict \<Rightarrow> pystr \<Rightarrow> pydict \<Rightarrow> bool" where
  "typed_envelope d m params \<longleftrightarrow>
     keys_are [''jsonrpc'', ''id'', ''method'', ''params''] d \<and> dget_none ''jsonrpc'' d = sv JSONRPC_VERSION \<and>
     is_request_id (dget_none ''id'' d) \<and> dget_none ''method'' d = PStr m \<and> dget_none ''params'' d = PDict params"

lemma typed_envelope_request:
  assumes "typed_envelope d m params"
  shows "validate_request (PDict d) =
    (if m \<notin> set METHODS then Inl (ConformanceFailure ''closed-method-set'' ''unknown method'')
     else if keys_are (the (map_of REQUEST_PARAM_KEYS m)) params then Inr (dget_none ''id'' d, m, params)
     else Inl (ConformanceFailure ''closed-params'' ''params mismatch''))"
proof -
  have "map_of REQUEST_PARAM_KEYS m \<noteq> None" if "m \<in> set METHODS"
    using that by (auto simp: METHODS_def REQUEST_PARAM_KEYS_def)
  then show ?thesis using assms
    by (auto simp: typed_envelope_def validate_request_def Let_def in_names_def fail_unless_def split: option.split)
qed

lemma typed_envelope_keys:
  assumes "typed_envelope d m params"
  shows "has_key ''id'' d" "has_key ''method'' d" "\<not> has_key ''result'' d" "\<not> has_key ''error'' d"
  using keys_are_has_key [of "[''jsonrpc'', ''id'', ''method'', ''params'']" d] assms by (simp_all add: typed_envelope_def)

lemma envelope_handled:
  assumes "ra_initialized a" "\<not> ra_shutdown a" "\<not> ra_terminal a" "ra_fault a = None"
    and "load_strict_frame raw = Inr (PDict d)" and "typed_envelope d m params"
  shows "handle_text docs raw a = dispatch docs (dget_none ''id'' d) m params a"
  using assms typed_envelope_keys [OF assms(6)]
  by (simp add: handle_text_def handle_object_def injected_output_def typed_envelope_def Let_def)

lemma envelope_derived:
  assumes "from_host t" "thawed t = PDict d" and "typed_envelope d m params"
    and "validate_request (PDict d) = Inl (ConformanceFailure clause msg)"
  shows "derived_refusal docs ERROR_CODES t = refusal_for_clause ERROR_CODES clause"
  using assms typed_envelope_keys [OF assms(3)]
  by (simp add: derived_refusal_def from_host_def classify_direction_def is_response_form_def Let_def on_failure_def)

lemma params_refused:
  assumes "ra_initialized a" "\<not> ra_shutdown a" and "m \<in> set METHODS" "m \<noteq> METHOD_INITIALIZE"
    and "\<not> keys_are (the (map_of REQUEST_PARAM_KEYS m)) params"
  shows "dispatch docs rid m params a = refuse rid ''INVALID_PARAMS'' a"
proof -
  from assms(3,4) consider "m = METHOD_DELIVER" | "m = METHOD_CANCEL" | "m = METHOD_RECONCILE" | "m = METHOD_HEALTH" | "m = METHOD_SHUTDOWN"
    by (auto simp: METHODS_def)
  then show ?thesis
    using assms(1,2,5)
    by cases (simp_all add: dispatch_def handle_deliver_def handle_reconcile_def handle_health_def handle_shutdown_def
        REQUEST_PARAM_KEYS_def keys_are_iff Let_def)
qed

text \<open>What the oracle derives for a refusal of this name that is answered.\<close>

definition refused_as :: "string \<Rightarrow> bool \<Rightarrow> pyerr + refusal_view option" where
  "refused_as name closes = Inr (Some (lit name, the (map_of ERROR_CODES (lit name)), True, closes))"

text \<open>The params have exactly the members their method asks for.\<close>

definition params_shaped :: "pystr \<Rightarrow> pydict \<Rightarrow> bool" where
  "params_shaped m params \<longleftrightarrow> keys_are (the (map_of REQUEST_PARAM_KEYS m)) params"

lemma refused_clauses:
  "refusal_for_clause ERROR_CODES ''closed-method-set'' = refused_as ''METHOD_NOT_FOUND'' False"
  "refusal_for_clause ERROR_CODES ''closed-params'' = refused_as ''INVALID_PARAMS'' False"
  "refusal_for_clause ERROR_CODES ''fixture-request-params'' = refused_as ''INVALID_PARAMS'' False"
  "refusal_for_clause ERROR_CODES ''fixture-session-ref'' = refused_as ''INVALID_PARAMS'' False"
  "refusal_with ERROR_CODES ''UNSUPPORTED_PROTOCOL_VERSION'' True True = refused_as ''UNSUPPORTED_PROTOCOL_VERSION'' True"
  by (simp_all add: refusal_for_clause_def refusal_with_def refused_as_def code_of_def ERROR_CODES_def)

text \<open>What the oracle derives for a well-typed envelope of known method and shape is what the check of its params says.\<close>

lemma shaped_derived:
  assumes "from_host t" "thawed t = PDict d" and "typed_envelope d m params" and "m \<in> set METHODS" "params_shaped m params"
  shows "derived_refusal docs ERROR_CODES t =
    (if m = METHOD_INITIALIZE \<and> dget_none ''requested_protocol_version'' params \<noteq> sv ''1.0''
     then refused_as ''UNSUPPORTED_PROTOCOL_VERSION'' True
     else on_failure (refusal_for_clause ERROR_CODES) (rbind (validate_request_params docs m params) (\<lambda>_. Inr None)))"
  using assms typed_envelope_keys [OF assms(3)] typed_envelope_request [OF assms(3)]
  by (simp add: derived_refusal_def from_host_def classify_direction_def is_response_form_def Let_def params_shaped_def refused_clauses)
    (simp add: refused_as_def on_failure_def)

lemma session_refused:
  assumes "\<And>s. validate_session_ref_v1 docs v \<noteq> Inr s"
  shows "validate_session_ref docs v = Inl (ConformanceFailure ''fixture-session-ref'' ''session_ref'')"
proof (cases "validate_session_ref_v1 docs v")
  case (Inl e)
  then show ?thesis by (simp add: validate_session_ref_def failing_as_def Let_def)
qed (use assms in blast)

lemma shaped_member: "params_shaped m params \<Longrightarrow> m \<in> set METHODS \<Longrightarrow> f \<in> set (the (map_of REQUEST_PARAM_KEYS m)) \<Longrightarrow>
    vsub f (PDict params) = Inr (dget_none f params)"
  using keys_are_has_key [of "the (map_of REQUEST_PARAM_KEYS m)" params f]
  by (auto simp: params_shaped_def vsub_def dsub_def dget_none_def has_key_def split: option.splits)

lemma cancel_params:
  assumes "params_shaped METHOD_CANCEL params"
  shows "validate_request_params docs METHOD_CANCEL params =
    (if list_all (\<lambda>k. nonempty_string (dget_none k params)) [''original_request_id'', ''delivery_id'', ''attempt_id''] then Inr ()
     else Inl (ConformanceFailure ''fixture-request-params'' ''method''))"
proof -
  have "vsub f (PDict params) = Inr (dget_none f params)" if "f \<in> {''original_request_id'', ''delivery_id'', ''attempt_id''}" for f
    using that by (intro shaped_member [OF assms]) (auto simp: METHODS_def REQUEST_PARAM_KEYS_def)
  then show ?thesis
    by (simp add: validate_request_params_def check_def text_fields_def fail_unless_def require_def Let_def)
qed

lemma initialize_params:
  assumes "params_shaped METHOD_INITIALIZE params" and "dget_none ''requested_protocol_version'' params = sv ''1.0''"
  shows "validate_request_params docs METHOD_INITIALIZE params =
    (if \<exists>e. validate_endpoint_v1 docs (dget_none ''endpoint'' params) = Inr e then Inr ()
     else Inl (ConformanceFailure ''fixture-request-params'' ''initialize''))"
proof -
  have "vsub ''endpoint'' (PDict params) = Inr (dget_none ''endpoint'' params)"
    by (intro shaped_member [OF assms(1)]) (auto simp: METHODS_def REQUEST_PARAM_KEYS_def)
  then show ?thesis using assms(2)
    by (cases "validate_endpoint_v1 docs (dget_none ''endpoint'' params)")
      (simp_all add: validate_request_params_def failing_as_def fail_unless_def require_def Let_def)
qed

lemma session_params:
  assumes "m = METHOD_DELIVER \<or> m = METHOD_RECONCILE" "params_shaped m params"
    and "\<And>s. validate_session_ref_v1 docs (dget_none ''session_ref'' params) \<noteq> Inr s"
  shows "validate_request_params docs m params = Inl (ConformanceFailure ''fixture-session-ref'' ''session_ref'')"
proof -
  have "vsub ''session_ref'' (PDict params) = Inr (dget_none ''session_ref'' params)"
    using assms(1) by (intro shaped_member [OF assms(2)]) (auto simp: METHODS_def REQUEST_PARAM_KEYS_def)
  then show ?thesis using assms(1) session_refused [OF assms(3)] by (auto simp: validate_request_params_def Let_def)
qed

text \<open>A serving peer on a request of known method and shape.\<close>

lemma shaped_dispatch:
  assumes "ra_initialized a" "\<not> ra_shutdown a" "params_shaped m params"
  shows "m = METHOD_HEALTH \<Longrightarrow> dispatch docs rid m params a = (result_text rid (reference_health_result (ra_identity a) (Some (ra_scope a))), a)"
    "m = METHOD_SHUTDOWN \<Longrightarrow> dispatch docs rid m params a =
       (result_text rid (PDict [(sv ''status'', sv ''shutdown_started'')]), a\<lparr>ra_shutdown := True\<rparr>)"
    "m = METHOD_CANCEL \<Longrightarrow> dispatch docs rid m params a = refuse rid ''INVALID_PARAMS'' a"
    "m = METHOD_DELIVER \<or> m = METHOD_RECONCILE \<Longrightarrow>
       (\<And>s. validate_session_ref_v1 docs (dget_none ''session_ref'' params) \<noteq> Inr s) \<Longrightarrow>
       dispatch docs rid m params a = refuse rid ''INVALID_PARAMS'' a"
proof -
  show "m = METHOD_HEALTH \<Longrightarrow> dispatch docs rid m params a = (result_text rid (reference_health_result (ra_identity a) (Some (ra_scope a))), a)"
    using assms by (simp add: dispatch_def handle_health_def params_shaped_def REQUEST_PARAM_KEYS_def keys_are_iff)
  show "m = METHOD_SHUTDOWN \<Longrightarrow> dispatch docs rid m params a =
       (result_text rid (PDict [(sv ''status'', sv ''shutdown_started'')]), a\<lparr>ra_shutdown := True\<rparr>)"
    using assms by (simp add: dispatch_def handle_shutdown_def params_shaped_def REQUEST_PARAM_KEYS_def keys_are_iff)
  show "m = METHOD_CANCEL \<Longrightarrow> dispatch docs rid m params a = refuse rid ''INVALID_PARAMS'' a"
    using assms by (simp add: dispatch_def)
  assume m: "m = METHOD_DELIVER \<or> m = METHOD_RECONCILE"
    and "\<And>s. validate_session_ref_v1 docs (dget_none ''session_ref'' params) \<noteq> Inr s"
  then obtain e where "validate_session_ref_v1 docs (dget_none ''session_ref'' params) = Inl e"
    by (cases "validate_session_ref_v1 docs (dget_none ''session_ref'' params)") auto
  then show "dispatch docs rid m params a = refuse rid ''INVALID_PARAMS'' a"
    using assms m by (auto simp: dispatch_def handle_deliver_def handle_reconcile_def Let_def)
qed

text \<open>
  C27. The fixtures' oracle, which follows the conformance checks, and a serving reference peer, on any text of a request whose envelope is well
  typed. A method that does not exist both refuse with METHOD_NOT_FOUND. Params of the wrong shape, and a delivery or a
  reconciliation whose session reference its schema refuses, both refuse with INVALID_PARAMS, and health and shutdown both accept. They differ
  in two methods: the peer refuses every cancel, which the oracle accepts when its three identifiers are non-empty text, and the peer refuses
  another initialize with INVALID_REQUEST, where the oracle judges its version, its shape and its endpoint. No refusal changes the peer. (On a delivery or
  a reconciliation whose session reference its schema accepts nothing is said.)
\<close>

theorem envelope_refusals_agree:
  assumes serving: "ra_initialized a" "\<not> ra_shutdown a" "\<not> ra_terminal a" "ra_fault a = None"
    and frame: "load_strict_frame raw = Inr (PDict d)" "from_host t" "thawed t = PDict d"
    and envelope: "typed_envelope d m params"
  shows "let rid = dget_none ''id'' d; peer = handle_text docs raw a; derived = derived_refusal docs ERROR_CODES t in
    (m \<notin> set METHODS \<longrightarrow> derived = refused_as ''METHOD_NOT_FOUND'' False \<and> peer = refuse rid ''METHOD_NOT_FOUND'' a) \<and>
    (m \<in> set METHODS \<and> \<not> params_shaped m params \<and> m \<noteq> METHOD_INITIALIZE \<longrightarrow>
       derived = refused_as ''INVALID_PARAMS'' False \<and> peer = refuse rid ''INVALID_PARAMS'' a) \<and>
    (m \<in> {METHOD_DELIVER, METHOD_RECONCILE} \<and> params_shaped m params \<and>
         (\<forall>s. validate_session_ref_v1 docs (dget_none ''session_ref'' params) \<noteq> Inr s) \<longrightarrow>
       derived = refused_as ''INVALID_PARAMS'' False \<and> peer = refuse rid ''INVALID_PARAMS'' a) \<and>
    (m = METHOD_HEALTH \<and> params_shaped m params \<longrightarrow>
       derived = Inr None \<and> peer = (result_text rid (reference_health_result (ra_identity a) (Some (ra_scope a))), a)) \<and>
    (m = METHOD_SHUTDOWN \<and> params_shaped m params \<longrightarrow>
       derived = Inr None \<and> peer = (result_text rid (PDict [(sv ''status'', sv ''shutdown_started'')]), a\<lparr>ra_shutdown := True\<rparr>)) \<and>
    (m = METHOD_CANCEL \<and> params_shaped m params \<longrightarrow>
       peer = refuse rid ''INVALID_PARAMS'' a \<and>
       derived = (if list_all (\<lambda>k. nonempty_string (dget_none k params)) [''original_request_id'', ''delivery_id'', ''attempt_id'']
                 then Inr None else refused_as ''INVALID_PARAMS'' False)) \<and>
    (m = METHOD_INITIALIZE \<longrightarrow>
       peer = refuse rid ''INVALID_REQUEST'' a \<and>
       derived = (if \<not> params_shaped m params then refused_as ''INVALID_PARAMS'' False
                 else if dget_none ''requested_protocol_version'' params \<noteq> sv ''1.0'' then refused_as ''UNSUPPORTED_PROTOCOL_VERSION'' True
                 else if \<exists>e. validate_endpoint_v1 docs (dget_none ''endpoint'' params) = Inr e then Inr None
                 else refused_as ''INVALID_PARAMS'' False))"
proof -
  define rid where "rid = dget_none ''id'' d"
  define peer where "peer = handle_text docs raw a"
  define derived where "derived = derived_refusal docs ERROR_CODES t"
  have peer: "peer = dispatch docs rid m params a"
    unfolding peer_def rid_def by (rule envelope_handled [OF serving frame(1) envelope])
  have refused: "derived = refusal_for_clause ERROR_CODES clause"
    if "validate_request (PDict d) = Inl (ConformanceFailure clause msg)" for clause msg
    unfolding derived_def by (rule envelope_derived [OF frame(2,3) envelope that])
  note request = typed_envelope_request [OF envelope]
  have unknown: "derived = refused_as ''METHOD_NOT_FOUND'' False" "peer = refuse rid ''METHOD_NOT_FOUND'' a" if "m \<notin> set METHODS"
    using that refused request serving(1,2) by (simp_all add: refused_clauses peer dispatch_def METHODS_def)
  have misshapen: "derived = refused_as ''INVALID_PARAMS'' False" if "m \<in> set METHODS" "\<not> params_shaped m params"
    using that refused request by (simp add: refused_clauses params_shaped_def)
  have misshapen_peer: "peer = refuse rid ''INVALID_PARAMS'' a" if "m \<in> set METHODS" "\<not> params_shaped m params" "m \<noteq> METHOD_INITIALIZE"
    unfolding peer using params_refused [OF serving(1,2) that(1,3)] that(2) by (simp add: params_shaped_def)
  have known: "m \<in> set METHODS"
    if "m \<in> {METHOD_INITIALIZE, METHOD_DELIVER, METHOD_CANCEL, METHOD_RECONCILE, METHOD_HEALTH, METHOD_SHUTDOWN}"
    using that by (auto simp: METHODS_def)
  note shaped = shaped_derived [OF frame(2,3) envelope, of docs, folded derived_def]
  note served = shaped_dispatch [OF serving(1,2), of m params docs rid, folded peer]
  have plain: "derived = Inr None" if "m = METHOD_HEALTH \<or> m = METHOD_SHUTDOWN" "params_shaped m params"
    using shaped that known by (auto simp: validate_request_params_def on_failure_def)
  have session: "derived = refused_as ''INVALID_PARAMS'' False"
    if "m = METHOD_DELIVER \<or> m = METHOD_RECONCILE" "params_shaped m params"
      "\<And>s. validate_session_ref_v1 docs (dget_none ''session_ref'' params) \<noteq> Inr s"
    using shaped that known session_params [OF that] by (auto simp: on_failure_def refused_clauses)
  have cancel: "derived = (if list_all (\<lambda>k. nonempty_string (dget_none k params)) [''original_request_id'', ''delivery_id'', ''attempt_id'']
                 then Inr None else refused_as ''INVALID_PARAMS'' False)" if "m = METHOD_CANCEL" "params_shaped m params"
    using shaped that known cancel_params [of params docs] by (auto simp: on_failure_def refused_clauses)
  have initialize: "derived = (if dget_none ''requested_protocol_version'' params \<noteq> sv ''1.0'' then refused_as ''UNSUPPORTED_PROTOCOL_VERSION'' True
                 else if \<exists>e. validate_endpoint_v1 docs (dget_none ''endpoint'' params) = Inr e then Inr None
                 else refused_as ''INVALID_PARAMS'' False)" if "m = METHOD_INITIALIZE" "params_shaped m params"
    using shaped that known initialize_params [of params docs] by (auto simp: on_failure_def refused_clauses)
  have again: "peer = refuse rid ''INVALID_REQUEST'' a" if "m = METHOD_INITIALIZE"
    using that serving(1,2) by (simp add: peer dispatch_def)
  have first: "derived = (if \<not> params_shaped m params then refused_as ''INVALID_PARAMS'' False
                 else if dget_none ''requested_protocol_version'' params \<noteq> sv ''1.0'' then refused_as ''UNSUPPORTED_PROTOCOL_VERSION'' True
                 else if \<exists>e. validate_endpoint_v1 docs (dget_none ''endpoint'' params) = Inr e then Inr None
                 else refused_as ''INVALID_PARAMS'' False)" if m: "m = METHOD_INITIALIZE"
  proof (cases "params_shaped m params")
    case True
    then show ?thesis unfolding initialize [OF m True] by simp
  next
    case False
    then show ?thesis using misshapen [OF known False] m by simp
  qed
  show ?thesis
    unfolding Let_def rid_def [symmetric] peer_def [symmetric] derived_def [symmetric]
    by (intro conjI impI; (elim conjE)?)
      (rule unknown misshapen misshapen_peer session served plain cancel again first; (assumption | simp))+
qed

end
