(* ===== verification/ClaimDemo.thy ===== *)
theory ClaimDemo
  imports Claim ReferenceDemo
begin

text \<open>
  A protocol of one clause and a fixture that exercises it: a health request before initialization, which the peer must refuse and close.
\<close>

definition plain_request :: "pystr \<Rightarrow> pyval" where
  "plain_request m = PDict [(sv ''id'', PInt 1), (sv ''jsonrpc'', sv ''2.0''), (sv ''method'', PStr m), (sv ''params'', PDict [])]"

lemma plain_request_text:
  assumes "str_ok True m"
  obtains raw d where "dumps True (plain_request m) = Inr raw" "load_strict_frame raw = Inr (PDict d)" "typed_envelope d m []"
    "dget_none ''id'' d = PInt 1" "json_norm (plain_request m) = PDict d"
proof -
  let ?its = "[(''id'', PInt 1), (''jsonrpc'', sv ''2.0''), (''method'', PStr m), (''params'', PDict [])]"
  let ?top = "map (\<lambda>kv. (sv (fst kv), snd kv)) ?its"
  obtain d where d: "json_norm (PDict ?top) = PDict d" "\<And>f. dget f d = map_option json_norm (map_of ?its f)"
    "\<And>fs. keys_are fs d \<longleftrightarrow> list_all (\<lambda>f. f \<in> set (map fst ?its)) fs \<and> list_all (\<lambda>f. f \<in> set fs) (map fst ?its)"
    by (rule closed_dict_parses [OF refl, of ?its]) auto
  have top: "plain_request m = PDict ?top" by (simp add: plain_request_def)
  have "dumpable (PDict ?top)" "nesting (PDict ?top) \<le> json_levels" and ok: "json_ok True (PDict ?top)"
    using small_int_text [of 1] assms by (simp_all add: json_levels_def)
  then obtain raw where raw: "dumps True (PDict ?top) = Inr raw" using dumps_total [of True "PDict ?top"] by blast
  then have "load_strict_frame raw = Inr (PDict d)" using loads_dumps [OF _ ok, of raw strict_opts] d(1) by (simp add: load_strict_frame_def)
  moreover have "typed_envelope d m []"
    unfolding typed_envelope_def d(3) by (simp add: dget_none_def d(2) is_request_id_def)
  moreover have "dget_none ''id'' d = PInt 1" by (simp add: dget_none_def d(2))
  ultimately show thesis using that raw top d(1) by metis
qed

text \<open>What was read as JSON has no tuples left to thaw.\<close>

lemma thaw_norm: "json_ok a v \<Longrightarrow> thaw (json_norm v) = json_norm v"
proof (induction v rule: json_norm.induct)
  case (3 d)
  show ?case
  proof (cases "str_items d")
    case (Some kvs)
    have "thaw (json_norm x) = json_norm x" if "(k, x) \<in> set kvs" for k x
      using 3 Some that str_items_mem [OF Some that] by (fastforce simp: list_all_iff)
    then show ?thesis using Some by auto
  qed (use 3 in simp)
qed simp_all

section \<open>A refusal as it reads back\<close>

lemma error_reads_back:
  assumes "str_ok True name" and "int_text c = Inr n"
  obtains t frame err where "dumps True (error_frame (PInt 1) c name) = Inr t" "loads plain_opts t = Inr (PDict frame)"
    "dget ''error'' frame = Some (PDict err)" "dget ''code'' err = Some (PInt c)" "dget ''message'' err = Some (PStr name)"
proof -
  have r: "reply_id (PInt 1)" by (simp add: reply_id_def is_request_id_def)
  note ok = error_frame_ok [OF r assms(1), of c]
  obtain t where t: "dumps True (error_frame (PInt 1) c name) = Inr t" using ok(2) assms(2) by (auto simp: dumps_frame_def)
  let ?data = "PDict [(sv ''name'', PStr name), (sv ''retryable'', PBool False), (sv ''request_id'', PInt 1)]"
  let ?err = "[(''code'', PInt c), (''message'', PStr name), (''data'', ?data)]"
  obtain err where err: "json_norm (PDict (map (\<lambda>kv. (sv (fst kv), snd kv)) ?err)) = PDict err"
      "\<And>f. dget f err = map_option json_norm (map_of ?err f)"
    by (rule closed_dict_parses [OF refl, of ?err]) auto
  let ?top = "[(''jsonrpc'', sv ''2.0''), (''id'', PInt 1), (''error'', PDict (map (\<lambda>kv. (sv (fst kv), snd kv)) ?err))]"
  obtain frame where f: "json_norm (PDict (map (\<lambda>kv. (sv (fst kv), snd kv)) ?top)) = PDict frame"
      "\<And>f. dget f frame = map_option json_norm (map_of ?top f)"
    by (rule closed_dict_parses [OF refl, of ?top]) auto
  have "error_frame (PInt 1) c name = PDict (map (\<lambda>kv. (sv (fst kv), snd kv)) ?top)" by (simp add: error_frame_def)
  then have "loads plain_opts t = Inr (PDict frame)" using loads_dumps [OF t ok(1), of plain_opts] assms(2) f(1) by simp
  moreover have "dget ''error'' frame = Some (PDict err)" using f(2) [of "''error''"] err(1) by simp
  ultimately show thesis using that t err(2) by simp
qed

section \<open>The fixture\<close>

definition claim_clause :: clause_occurrence where
  "claim_clause = \<lparr>co_clause_key = lit ''C1'', co_text_sha256 = lit ''h'', co_normalized_sentence = lit ''s'', co_keyword = lit ''MUST'',
     co_source_line = 1, co_section = lit ''C01''\<rparr>"

definition demo_refusal :: expected_refusal where
  "demo_refusal = \<lparr>er_error_name = lit ''INITIALIZE_REQUIRED'', er_error_code = -32005, er_state_effect = NO_STATE_CHANGE,
     er_response_emitted = True, er_accepted = False, er_closes_connection = True\<rparr>"

definition demo_trace :: trace_frame where
  "demo_trace = \<lparr>tf_sender = ''host'', tf_receiver = ''adapter'', tf_frame = plain_request METHOD_HEALTH\<rparr>"

definition demo_fixture :: fixture where
  "demo_fixture = \<lparr>fx_fixture_id = lit ''pre-initialize'', fx_polarity = POLARITY_VIOLATING,
     fx_clause_refs = [\<lparr>cr_clause_key = lit ''C1'', cr_text_sha256 = lit ''h'', cr_polarity = POLARITY_VIOLATING, cr_non_classifying = False\<rparr>],
     fx_trace = [demo_trace], fx_expectation = ExpectedRefusal demo_refusal\<rparr>"

abbreviation any_document :: schema where "any_document \<equiv> \<lambda>_ _. True"

lemma demo_request: "validate_request (thawed demo_trace) = Inr (PInt 1, METHOD_HEALTH, [])"
  by (simp add: thawed_def demo_trace_def plain_request_def validate_request_def Let_def fail_unless_def in_names_def METHODS_def
      REQUEST_PARAM_KEYS_def is_request_id_def dget_none_def keys_are_def keys_within_def has_key_def dget_def)

lemma demo_thawed: "thawed demo_trace = plain_request METHOD_HEALTH"
  by (simp add: thawed_def demo_trace_def plain_request_def)

lemma demo_direction: "classify_direction ''host'' ''adapter'' (plain_request METHOD_HEALTH) = Inr
   \<lparr>do_direction_valid = True, do_form = ''request'', do_fault = None, do_should_close = False, do_should_quarantine = False,
    do_send_response = True\<rparr>"
  by (simp add: classify_direction_def plain_request_def is_response_form_def has_key_def dget_def)

lemma demo_host: "from_host demo_trace" "tf_sender demo_trace = ''host''" "tf_receiver demo_trace = ''adapter''"
  by (simp_all add: from_host_def demo_trace_def)

lemma demo_accepted: "host_request docs (thawed demo_trace) = Inr (PInt 1, METHOD_HEALTH, [])"
  by (simp add: host_request_def demo_request validate_request_params_def)

lemma demo_readings:
  "request_would_be_accepted docs demo_trace = Inr True" "derived_refusal docs codes demo_trace = Inr None"
  using demo_accepted [of docs] demo_direction demo_request
  by (simp_all add: request_would_be_accepted_def derived_refusal_def demo_host demo_thawed on_failure_def validate_request_params_def)

lemma demo_validates: "validate_fixtures any_document (Inr [claim_clause]) (Inr ERROR_CODES) [demo_fixture] = Inr [demo_fixture]"
proof -
  have "refusal_well_stated ERROR_CODES demo_refusal = Inr ()"
    by (simp add: refusal_well_stated_def demo_refusal_def ERROR_CODES_def fail_unless_def)
  moreover have "stateful_post_shutdown_refusal any_document demo_fixture (refusal_view_of demo_refusal) = Inr None"
    by (simp add: stateful_post_shutdown_refusal_def refusal_view_of_def demo_refusal_def)
  moreover have "pre_initialize_refusal any_document demo_fixture (refusal_view_of demo_refusal) = Inr (Some (refusal_view_of demo_refusal))"
    by (simp add: pre_initialize_refusal_def refusal_view_of_def demo_refusal_def demo_fixture_def demo_host unless_failure_def
        on_failure_def demo_accepted)
  ultimately have "validate_violation any_document ERROR_CODES demo_fixture demo_refusal = Inr ()"
    by (simp add: validate_violation_def demo_readings demo_fixture_def fail_unless_def)
  then have "validate_expectation any_document ERROR_CODES demo_fixture = Inr ()"
    by (simp add: validate_expectation_def demo_fixture_def)
  then show ?thesis
    by (simp add: validate_fixtures_def validate_fixture_def validate_clause_refs_def demo_fixture_def by_key_def claim_clause_def)
qed

lemma demo_replays: "fixture_replays any_document demo_fixture = Inr True"
proof -
  obtain raw d where raw: "dumps True (plain_request METHOD_HEALTH) = Inr raw" "load_strict_frame raw = Inr (PDict d)"
      "typed_envelope d METHOD_HEALTH []" "dget_none ''id'' d = PInt 1"
    by (rule plain_request_text) auto
  have k: "keys_are [''jsonrpc'', ''id'', ''method'', ''params''] d" using raw(3) by (simp add: typed_envelope_def)
  have keys: "has_key ''id'' d" "\<not> has_key ''result'' d" "\<not> has_key ''error'' d" using keys_are_has_key [OF k] by simp_all
  obtain t frame err where t: "dumps True (error_frame (PInt 1) (-32005) (lit ''INITIALIZE_REQUIRED'')) = Inr t"
      "loads plain_opts t = Inr (PDict frame)" "dget ''error'' frame = Some (PDict err)" "dget ''code'' err = Some (PInt (-32005))"
      "dget ''message'' err = Some (PStr (lit ''INITIALIZE_REQUIRED''))"
    using small_int_text [of "-32005"] by (auto intro: error_reads_back [OF str_ok_lit])
  have "error_text (PInt 1) ''INITIALIZE_REQUIRED'' = Inr (TextReply t)"
    by (simp add: error_text_def error_code_def ERROR_CODES_def t(1))
  then have h: "handle_text any_document raw demo_peer = (Inr (TextReply t), demo_peer\<lparr>ra_terminal := True\<rparr>)"
    using raw(2-4) keys
    by (simp add: handle_text_def handle_object_def injected_output_def typed_envelope_def dispatch_def refuse_def demo_peer_def Let_def)
  have m: "matches_refusal (ExpectedRefusal demo_refusal) (TextReply t) = Inr True"
    using t(2-5) by (simp add: py_eq_def matches_refusal_def reply_payload_def dget_none_def demo_refusal_def Let_def)
  have "new_adapter None None = Inr demo_peer"
    by (simp add: new_adapter_def demo_peer_def default_identity_def workspace_scope_def delivery_rows_def scope_dict_def Let_def)
  then show ?thesis using raw(1) h m
    by (simp add: fixture_replays_def demo_fixture_def demo_host demo_thawed)
qed

lemma demo_claim: "build_claim any_document (Inr [claim_clause]) (Inr ERROR_CODES) [demo_fixture] = Inr (ClaimSuccess [(lit ''C1'', ExercisedConforming)])"
proof -
  have "replayed_fixture_ids any_document [demo_fixture] = Inr {lit ''pre-initialize''}"
    by (simp add: replayed_fixture_ids_def demo_replays) (simp add: demo_fixture_def)
  then have "build_claim any_document (Inr [claim_clause]) (Inr ERROR_CODES) [demo_fixture] =
      Inr (claim_from_checked [claim_clause] [demo_fixture] {lit ''pre-initialize''})"
    by (simp add: build_claim_def demo_validates)
  then show ?thesis
    by (simp add: claim_from_checked_def coverage_states_def cover_fixture_def cover_ref_def relevant_ref_def demo_fixture_def
        claim_clause_def)
qed

section \<open>The theorems at the example\<close>

theorem claim_exact_witness:
  "\<exists>ids. (\<forall>i. i \<in> ids \<longleftrightarrow> (\<exists>fx\<in>set [demo_fixture]. fx_fixture_id fx = i \<and> fixture_replays any_document fx = Inr True)) \<and>
    (\<forall>k keyword. keyword_of [claim_clause] k = Some keyword \<longrightarrow>
       (\<exists>fx\<in>set [demo_fixture]. fx_fixture_id fx \<in> ids \<and>
          (\<exists>r\<in>set (fx_clause_refs fx). cr_clause_key r = k \<and> relevant_ref keyword r)))"
  using claim_exact [OF demo_claim] by blast

theorem violation_validated_witness:
  "\<exists>x. fx_expectation demo_fixture = ExpectedRefusal x \<and> map_of ERROR_CODES (er_error_name x) = Some (er_error_code x) \<and>
     er_state_effect x = NO_STATE_CHANGE \<and> \<not> er_accepted x"
proof -
  have "demo_fixture \<in> set [demo_fixture]" "fx_polarity demo_fixture = POLARITY_VIOLATING" by (simp_all add: demo_fixture_def)
  with violation_validated [OF demo_validates] show ?thesis by blast
qed

theorem accepted_iff_not_refused_witness:
  "request_would_be_accepted any_document demo_trace = Inr True \<and> derived_refusal any_document ERROR_CODES demo_trace = Inr None \<and>
     (True \<longleftrightarrow> (None :: refusal_view option) = None)"
  using accepted_iff_not_refused [where t = demo_trace and docs = any_document and codes = ERROR_CODES and accepted = True and refused = None]
    demo_readings [of any_document] demo_direction demo_host demo_thawed by simp

theorem envelope_refusals_agree_witness:
  "(\<exists>raw t. dumps True (plain_request (lit ''runtime.other'')) = Inr raw \<and>
     derived_refusal any_document ERROR_CODES t = refused_as ''METHOD_NOT_FOUND'' False \<and>
     handle_text any_document raw (demo_peer\<lparr>ra_initialized := True\<rparr>) =
       refuse (PInt 1) ''METHOD_NOT_FOUND'' (demo_peer\<lparr>ra_initialized := True\<rparr>)) \<and>
   (\<exists>raw t. dumps True (plain_request METHOD_INITIALIZE) = Inr raw \<and>
     derived_refusal any_document ERROR_CODES t = refused_as ''INVALID_PARAMS'' False \<and>
     handle_text any_document raw (demo_peer\<lparr>ra_initialized := True\<rparr>) =
       refuse (PInt 1) ''INVALID_REQUEST'' (demo_peer\<lparr>ra_initialized := True\<rparr>))"
proof -
  let ?a = "demo_peer\<lparr>ra_initialized := True\<rparr>"
  have a: "ra_initialized ?a" "\<not> ra_shutdown ?a" "\<not> ra_terminal ?a" "ra_fault ?a = None" by (simp_all add: demo_peer_def)
  have frame: "\<exists>raw d t. dumps True (plain_request m) = Inr raw \<and> load_strict_frame raw = Inr (PDict d) \<and> typed_envelope d m [] \<and>
      dget_none ''id'' d = PInt 1 \<and> from_host t \<and> thawed t = PDict d" if m: "str_ok True m" for m
  proof -
    obtain raw d where raw: "dumps True (plain_request m) = Inr raw" "load_strict_frame raw = Inr (PDict d)"
        "typed_envelope d m []" "dget_none ''id'' d = PInt 1" "json_norm (plain_request m) = PDict d"
      by (rule plain_request_text [OF m])
    let ?t = "\<lparr>tf_sender = ''host'', tf_receiver = ''adapter'', tf_frame = PDict d\<rparr>"
    have "from_host ?t" "thawed ?t = PDict d"
      using thaw_norm [of True "plain_request m"] raw(5) m
      by (simp_all add: from_host_def thawed_def) (simp add: plain_request_def)
    then show ?thesis using raw by blast
  qed
  obtain raw d t where f: "dumps True (plain_request (lit ''runtime.other'')) = Inr raw" "load_strict_frame raw = Inr (PDict d)"
      "typed_envelope d (lit ''runtime.other'') []" "dget_none ''id'' d = PInt 1" "from_host t" "thawed t = PDict d"
    using frame [OF str_ok_lit, of "''runtime.other''"] by auto
  have "lit ''runtime.other'' \<notin> set METHODS" by (simp add: METHODS_def)
  then have other: "\<exists>raw t. dumps True (plain_request (lit ''runtime.other'')) = Inr raw \<and>
     derived_refusal any_document ERROR_CODES t = refused_as ''METHOD_NOT_FOUND'' False \<and>
     handle_text any_document raw ?a = refuse (PInt 1) ''METHOD_NOT_FOUND'' ?a"
    using envelope_refusals_agree [OF a f(2,5,6,3), of any_document] f(1,4) unfolding Let_def by metis
  obtain raw d t where f: "dumps True (plain_request METHOD_INITIALIZE) = Inr raw" "load_strict_frame raw = Inr (PDict d)"
      "typed_envelope d METHOD_INITIALIZE []" "dget_none ''id'' d = PInt 1" "from_host t" "thawed t = PDict d"
    using frame [of METHOD_INITIALIZE] str_ok_lit by auto
  have "\<not> params_shaped METHOD_INITIALIZE []" by (simp add: params_shaped_def REQUEST_PARAM_KEYS_def keys_are_iff)
  then have "\<exists>raw t. dumps True (plain_request METHOD_INITIALIZE) = Inr raw \<and>
     derived_refusal any_document ERROR_CODES t = refused_as ''INVALID_PARAMS'' False \<and>
     handle_text any_document raw ?a = refuse (PInt 1) ''INVALID_REQUEST'' ?a"
    using envelope_refusals_agree [OF a f(2,5,6,3), of any_document] f(1,4) unfolding Let_def by metis
  with other show ?thesis by blast
qed

end
