(* ===== verification/BbClient.thy ===== *)
theory BbClient
  imports JsonTotal
begin

text \<open>
  The client of the bb command line: \<open>llm_collab/bb_client.py\<close>, the only place a bb response is parsed. A transport, which runs the external
  program and is not part of the model, is a parameter: it answers an argument vector, given all the calls made before. The client
  is a record with the log of its calls; an operation returns a value, refuses (a \<open>BbRefusal\<close> the code returns) or lets an
  exception escape, and the new client. The detail of a refusal keeps its fixed text; interpolated values are left out.
\<close>

section \<open>Data\<close>

definition PINNED_BB_VERSION :: string where "PINNED_BB_VERSION = ''0.38.0''"
definition MAX_RESPONSE_CHARS :: nat where "MAX_RESPONSE_CHARS = 1048576"
definition MAX_EVENT_PAGE :: int where "MAX_EVENT_PAGE = 100"
definition EXECUTION_PROBE_EVENTS :: int where "EXECUTION_PROBE_EVENTS = 3"
definition SPAWN_EVENT_TYPE :: string where "SPAWN_EVENT_TYPE = ''client/turn/requested''"
definition SPAWN_EVENT_SOURCE :: string where "SPAWN_EVENT_SOURCE = ''spawn''"
definition VISIBLE_THREAD_VISIBILITY :: string where "VISIBLE_THREAD_VISIBILITY = ''visible''"

definition REFUSAL_DISABLED :: string where "REFUSAL_DISABLED = ''bb_adapter_disabled''"
definition REFUSAL_VERSION_MISMATCH :: string where "REFUSAL_VERSION_MISMATCH = ''bb_version_mismatch''"
definition REFUSAL_MALFORMED_RESPONSE :: string where "REFUSAL_MALFORMED_RESPONSE = ''bb_malformed_response''"
definition REFUSAL_TRANSPORT_FAILED :: string where "REFUSAL_TRANSPORT_FAILED = ''bb_transport_failed''"
definition REFUSAL_TIMED_OUT :: string where "REFUSAL_TIMED_OUT = ''bb_timed_out''"
definition REFUSAL_AMBIGUOUS :: string where "REFUSAL_AMBIGUOUS = ''bb_ambiguous_outcome''"
definition REFUSAL_PROFILE_MISMATCH :: string where "REFUSAL_PROFILE_MISMATCH = ''bb_profile_mismatch''"
definition REFUSAL_IDENTITY_MISMATCH :: string where "REFUSAL_IDENTITY_MISMATCH = ''bb_identity_mismatch''"
definition REFUSAL_ORPHANED_THREAD :: string where "REFUSAL_ORPHANED_THREAD = ''bb_orphaned_thread''"

lemmas refusal_reasons = REFUSAL_DISABLED_def REFUSAL_VERSION_MISMATCH_def REFUSAL_MALFORMED_RESPONSE_def REFUSAL_TRANSPORT_FAILED_def
  REFUSAL_TIMED_OUT_def REFUSAL_AMBIGUOUS_def REFUSAL_PROFILE_MISMATCH_def REFUSAL_IDENTITY_MISMATCH_def REFUSAL_ORPHANED_THREAD_def

record bb_refusal =
  rf_reason :: string
  rf_detail :: string
  rf_native_thread_id :: "pystr option"
  rf_task_attempted :: "bool option"

definition bb_refuse :: "string \<Rightarrow> string \<Rightarrow> bb_refusal" where
  "bb_refuse reason detail = \<lparr>rf_reason = reason, rf_detail = detail, rf_native_thread_id = None, rf_task_attempted = None\<rparr>"

record bb_profile =
  pf_provider :: pystr
  pf_model :: pystr
  pf_reasoning_level :: pystr

definition SLICE_1A_PROFILE :: bb_profile where
  "SLICE_1A_PROFILE = \<lparr>pf_provider = lit ''pi'', pf_model = lit ''kimi-coding/k3'', pf_reasoning_level = lit ''high''\<rparr>"

record bb_thread =
  th_thread_id :: pystr
  th_project_id :: pystr
  th_environment_id :: pystr
  th_provider_id :: pystr
  th_status :: pystr

record bb_execution =
  ex_model :: pystr
  ex_reasoning_level :: pystr

record bb_queued =
  qu_thread_id :: pystr
  qu_mode :: pystr

record bb_plugin_status =
  pl_plugin_id :: pystr
  pl_status :: pystr

record bb_event =
  ev_seq :: int
  ev_event_id :: pystr
  ev_event_type :: pystr
  ev_data :: pydict
  ev_turn_id :: "pystr option"

record bb_event_page =
  pg_events :: "bb_event list"
  pg_truncated :: bool
  pg_next_after_seq :: "int option"

record bb_transport_result =
  tr_exit_code :: int
  tr_stdout :: pystr
  tr_stderr :: pystr

text \<open>What a transport does with a call: answer, raise one of the two classes the client knows (with their message), or raise another.\<close>

datatype transport_outcome =
    Answered bb_transport_result
  | ReadErrorRaised string
  | TimeoutRaised string
  | OtherRaised pyerr

type_synonym bb_transport = "pystr list list \<Rightarrow> pystr list \<Rightarrow> transport_outcome"

record bb_client =
  bc_enabled :: bool
  bc_verified_version :: "pystr option"
  bc_calls :: "pystr list list"

definition new_client :: "bool \<Rightarrow> bb_client" where
  "new_client enabled = \<lparr>bc_enabled = enabled, bc_verified_version = None, bc_calls = []\<rparr>"

section \<open>Operations on a client\<close>

datatype bb_fail = Refused bb_refusal | Escaped pyerr

type_synonym 'a bb_act = "bb_client \<Rightarrow> (bb_fail + 'a) \<times> bb_client"

definition give :: "'a \<Rightarrow> 'a bb_act" where
  "give x c = (Inr x, c)"

definition refused :: "string \<Rightarrow> string \<Rightarrow> 'a bb_act" where
  "refused reason detail c = (Inl (Refused (bb_refuse reason detail)), c)"

definition and_then :: "('s \<Rightarrow> ('f + 'a) \<times> 's) \<Rightarrow> ('a \<Rightarrow> 's \<Rightarrow> ('f + 'b) \<times> 's) \<Rightarrow> 's \<Rightarrow> ('f + 'b) \<times> 's" where
  "and_then m f c = (case m c of (Inl e, c') \<Rightarrow> (Inl e, c') | (Inr x, c') \<Rightarrow> f x c')"

text \<open>A check without effect: the refusal it returns, or its value.\<close>

definition checked :: "bb_refusal + 'a \<Rightarrow> 'a bb_act" where
  "checked r c = (case r of Inl e \<Rightarrow> (Inl (Refused e), c) | Inr x \<Rightarrow> (Inr x, c))"

text \<open>A computation of the interpreter: the exception it raises, or its value.\<close>

definition computed :: "pyerr + 'a \<Rightarrow> 'a bb_act" where
  "computed r c = (case r of Inl e \<Rightarrow> (Inl (Escaped e), c) | Inr x \<Rightarrow> (Inr x, c))"

text \<open>What replaces a refusal on its way to the caller.\<close>

definition refusing :: "'a bb_act \<Rightarrow> (bb_refusal \<Rightarrow> bb_refusal) \<Rightarrow> 'a bb_act" where
  "refusing m f c = (case m c of (Inl (Refused r), c') \<Rightarrow> (Inl (Refused (f r)), c') | out \<Rightarrow> out)"

section \<open>Values of a response\<close>

definition require_str :: "string \<Rightarrow> pydict \<Rightarrow> pystr option" where
  "require_str key payload = (case dget key payload of Some (PStr s) \<Rightarrow> (if s = [] then None else Some s) | _ \<Rightarrow> None)"

definition require_seq :: "pyval \<Rightarrow> int option" where
  "require_seq v = (case v of PInt z \<Rightarrow> Some z | _ \<Rightarrow> None)"

text \<open>\<open>str.strip()\<close>.\<close>

definition py_space :: "nat \<Rightarrow> bool" where
  "py_space c \<longleftrightarrow> 9 \<le> c \<and> c \<le> 13 \<or> 28 \<le> c \<and> c \<le> 32 \<or> c \<in> {133, 160, 5760, 8232, 8233, 8239, 8287, 12288} \<or> 8192 \<le> c \<and> c \<le> 8202"

definition py_strip :: "pystr \<Rightarrow> pystr" where
  "py_strip s = rev (dropWhile py_space (rev (dropWhile py_space s)))"

section \<open>The transport\<close>

definition decode :: "bb_transport_result \<Rightarrow> bb_refusal + pyval" where
  "decode r =
     (case loads plain_opts (tr_stdout r) of
        Inr v \<Rightarrow> Inr v
      | Inl JSONDecodeErr \<Rightarrow> Inl (bb_refuse REFUSAL_MALFORMED_RESPONSE ''response is not JSON'')
      | Inl RecursionErr \<Rightarrow> Inl (bb_refuse REFUSAL_MALFORMED_RESPONSE ''response nesting exceeded the decoder limit'')
      | Inl _ \<Rightarrow> Inl (bb_refuse REFUSAL_MALFORMED_RESPONSE ''response exceeded a decoder limit''))"

definition oversized :: "bb_transport_result \<Rightarrow> string option" where
  "oversized r =
     (if MAX_RESPONSE_CHARS < length (tr_stdout r) then Some ''stdout is over the bound''
      else if MAX_RESPONSE_CHARS < length (tr_stderr r) then Some ''stderr is over the bound'' else None)"

definition bounded :: "bb_transport_result \<Rightarrow> bb_refusal + bb_transport_result" where
  "bounded r =
     (case oversized r of
        Some detail \<Rightarrow>
          if tr_exit_code r \<noteq> 0 then Inl (bb_refuse REFUSAL_TRANSPORT_FAILED (''exit: '' @ detail))
          else Inl (bb_refuse REFUSAL_MALFORMED_RESPONSE detail)
      | None \<Rightarrow> if tr_exit_code r \<noteq> 0 then Inl (bb_refuse REFUSAL_TRANSPORT_FAILED ''exit'') else Inr r)"

definition call :: "bb_transport \<Rightarrow> pystr list \<Rightarrow> bb_transport_result bb_act" where
  "call tr argv c =
     (let c' = c\<lparr>bc_calls := bc_calls c @ [argv]\<rparr> in
      case tr (bc_calls c) argv of
        ReadErrorRaised m \<Rightarrow> refused REFUSAL_MALFORMED_RESPONSE (if m = '''' then ''response could not be read'' else m) c'
      | TimeoutRaised m \<Rightarrow> refused REFUSAL_TIMED_OUT m c'
      | OtherRaised e \<Rightarrow> (Inl (Escaped e), c')
      | Answered r \<Rightarrow> checked (bounded r) c')"

definition read_json :: "bb_transport \<Rightarrow> pystr list \<Rightarrow> pyval bb_act" where
  "read_json tr argv = and_then (call tr argv) (\<lambda>r. checked (decode r))"

text \<open>A task may have been performed when its response is lost or unreadable.\<close>

definition maybe_performed :: "bb_refusal \<Rightarrow> bb_refusal" where
  "maybe_performed r =
     (if rf_reason r \<in> {REFUSAL_TIMED_OUT, REFUSAL_MALFORMED_RESPONSE}
      then bb_refuse REFUSAL_AMBIGUOUS (rf_detail r @ ''; the operation may have been performed'') else r)"

definition task_call :: "bb_transport \<Rightarrow> pystr list \<Rightarrow> bb_transport_result bb_act" where
  "task_call tr argv = refusing (call tr argv) maybe_performed"

definition unreadable :: "bb_refusal \<Rightarrow> bb_refusal" where
  "unreadable r =
     bb_refuse REFUSAL_AMBIGUOUS (''succeeded but its response was unreadable ('' @ rf_detail r @ ''); the operation may have been performed'')"

definition task_json :: "bb_transport \<Rightarrow> pystr list \<Rightarrow> pyval bb_act" where
  "task_json tr argv = and_then (task_call tr argv) (\<lambda>r. refusing (checked (decode r)) unreadable)"

section \<open>The version gate\<close>

definition version_argv :: "pystr list" where
  "version_argv = [lit ''settings'', lit ''version'', lit ''--json'']"

text \<open>The version a response reports, if it is the pinned one.\<close>

definition reported_version :: "pyval \<Rightarrow> bb_refusal + pystr" where
  "reported_version outcome =
     (case outcome of
        PDict d \<Rightarrow>
          (case require_str ''currentVersion'' d of
             None \<Rightarrow> Inl (bb_refuse REFUSAL_MALFORMED_RESPONSE ''version envelope has no currentVersion'')
           | Some current \<Rightarrow>
               if current \<noteq> lit PINNED_BB_VERSION then Inl (bb_refuse REFUSAL_VERSION_MISMATCH ''this adapter is pinned to 0.38.0'')
               else Inr current)
      | _ \<Rightarrow> Inl (bb_refuse REFUSAL_MALFORMED_RESPONSE ''version envelope is not an object''))"

definition verify_version :: "bb_transport \<Rightarrow> pystr bb_act" where
  "verify_version tr c =
     (if \<not> bc_enabled c then refused REFUSAL_DISABLED ''bb adapter is disabled'' c
      else
        case bc_verified_version c of
          Some v \<Rightarrow> (Inr v, c)
        | None \<Rightarrow>
            and_then (read_json tr version_argv) (\<lambda>outcome.
            and_then (checked (reported_version outcome)) (\<lambda>current c'.
            (Inr current, c'\<lparr>bc_verified_version := Some current\<rparr>))) c)"

definition gate :: "bb_transport \<Rightarrow> unit bb_act" where
  "gate tr = and_then (verify_version tr) (\<lambda>_. give ())"

section \<open>Envelopes\<close>

definition validate_spawn_visibility :: "pyval \<Rightarrow> bb_refusal + unit" where
  "validate_spawn_visibility payload =
     (case payload of
        PDict d \<Rightarrow>
          require (dget ''visibility'' d = Some (sv VISIBLE_THREAD_VISIBILITY))
            (bb_refuse REFUSAL_IDENTITY_MISMATCH ''spawned worker visibility must be visible'')
      | _ \<Rightarrow> Inl (bb_refuse REFUSAL_MALFORMED_RESPONSE ''spawn envelope is not an object''))"

definition thread_from :: "pydict \<Rightarrow> string \<Rightarrow> bb_refusal + bb_thread" where
  "thread_from payload envelope =
     (case (require_str ''id'' payload, require_str ''projectId'' payload, require_str ''environmentId'' payload,
            require_str ''providerId'' payload, require_str ''status'' payload) of
        (Some i, Some p, Some e, Some q, Some s) \<Rightarrow>
          Inr \<lparr>th_thread_id = i, th_project_id = p, th_environment_id = e, th_provider_id = q, th_status = s\<rparr>
      | _ \<Rightarrow> Inl (bb_refuse REFUSAL_MALFORMED_RESPONSE (envelope @ '' envelope missing required field(s)'')))"

definition validate_spawn_envelope :: "pyval \<Rightarrow> bb_refusal + bb_thread" where
  "validate_spawn_envelope payload =
     (case payload of
        PDict d \<Rightarrow>
          if has_key ''thread'' d \<and> \<not> has_key ''id'' d then
            Inl (bb_refuse REFUSAL_MALFORMED_RESPONSE ''spawn envelope is nested under 'thread'; expected top-level thread object'')
          else rbind (validate_spawn_visibility payload) (\<lambda>_. thread_from d ''spawn'')
      | _ \<Rightarrow> Inl (bb_refuse REFUSAL_MALFORMED_RESPONSE ''spawn envelope is not an object''))"

definition validate_show_envelope :: "pyval \<Rightarrow> bb_refusal + bb_thread" where
  "validate_show_envelope payload =
     (case payload of
        PDict d \<Rightarrow>
          (case dget ''thread'' d of
             Some (PDict shown) \<Rightarrow> thread_from shown ''show''
           | _ \<Rightarrow> Inl (bb_refuse REFUSAL_MALFORMED_RESPONSE ''show envelope has no nested 'thread' object''))
      | _ \<Rightarrow> Inl (bb_refuse REFUSAL_MALFORMED_RESPONSE ''show envelope is not an object''))"

section \<open>The event log\<close>

text \<open>The entries of a page, in order: each of the thread, each past the one before.\<close>

fun log_page :: "pystr \<Rightarrow> int option \<Rightarrow> pyval list \<Rightarrow> bb_refusal + pydict list" where
  "log_page thread_id previous [] = Inr []"
| "log_page thread_id previous (PDict entry # payload) =
     (if require_str ''threadId'' entry \<noteq> Some thread_id then
        Inl (bb_refuse REFUSAL_IDENTITY_MISMATCH ''event belongs to another thread'')
      else
        case require_seq (dget_none ''seq'' entry) of
          None \<Rightarrow> Inl (bb_refuse REFUSAL_MALFORMED_RESPONSE ''event seq is not an integer'')
        | Some seq \<Rightarrow>
            if (case previous of None \<Rightarrow> False | Some p \<Rightarrow> seq \<le> p) then
              Inl (bb_refuse REFUSAL_MALFORMED_RESPONSE ''event seq does not advance'')
            else rbind (log_page thread_id (Some seq) payload) (\<lambda>entries. Inr (entry # entries)))"
| "log_page thread_id previous (_ # payload) = Inl (bb_refuse REFUSAL_MALFORMED_RESPONSE ''event entry is not an object'')"

definition log_argv :: "pystr \<Rightarrow> pystr \<Rightarrow> pystr option \<Rightarrow> pystr list" where
  "log_argv thread_id limit after =
     [lit ''thread'', lit ''log'', thread_id, lit ''--json'', lit ''--limit'', limit] @
     (case after of None \<Rightarrow> [] | Some a \<Rightarrow> [lit ''--after-seq'', a])"

text \<open>\<open>after_seq\<close> is \<open>None\<close> or any value; \<open>str\<close> of an integer is its decimal text, which the interpreter refuses when it is too long.\<close>

definition log_entries :: "bb_transport \<Rightarrow> pystr \<Rightarrow> pyval \<Rightarrow> int \<Rightarrow> pydict list bb_act" where
  "log_entries tr thread_id after_seq limit =
     and_then (computed (int_text limit)) (\<lambda>limit_text.
     and_then
       (case after_seq of
          PNone \<Rightarrow> give (None, None)
        | PInt z \<Rightarrow> and_then (computed (int_text z)) (\<lambda>t. give (Some z, Some t))
        | _ \<Rightarrow> refused REFUSAL_MALFORMED_RESPONSE ''after_seq is not an integer'') (\<lambda>(previous, after_text).
     and_then (read_json tr (log_argv thread_id limit_text after_text)) (\<lambda>payload.
     case payload of
       PList entries \<Rightarrow>
         if limit < int (length entries) then refused REFUSAL_MALFORMED_RESPONSE ''bb returned more events than the limit''
         else checked (log_page thread_id previous entries)
     | _ \<Rightarrow> refused REFUSAL_MALFORMED_RESPONSE ''event envelope is not a list'')))"

definition event_from :: "pydict \<Rightarrow> bb_refusal + bb_event" where
  "event_from entry =
     (case (require_str ''id'' entry, require_str ''type'' entry) of
        (Some event_id, Some event_type) \<Rightarrow>
          (case (case dget ''data'' entry of None \<Rightarrow> PDict [] | Some v \<Rightarrow> v) of
             PDict data \<Rightarrow>
               Inr \<lparr>ev_seq = (case dget_none ''seq'' entry of PInt z \<Rightarrow> z | _ \<Rightarrow> 0), ev_event_id = event_id, ev_event_type = event_type, ev_data = data,
                 ev_turn_id = (case dget_none ''scope'' entry of
                     PDict scope \<Rightarrow> if dget ''kind'' scope = Some (sv ''turn'') then require_str ''turnId'' scope else None
                   | _ \<Rightarrow> None)\<rparr>
           | _ \<Rightarrow> Inl (bb_refuse REFUSAL_MALFORMED_RESPONSE ''event data is not an object''))
      | _ \<Rightarrow> Inl (bb_refuse REFUSAL_MALFORMED_RESPONSE ''event entry missing id/type''))"

definition event_page :: "int \<Rightarrow> bb_event list \<Rightarrow> bb_event_page" where
  "event_page limit events =
     (let truncated = (int (length events) = limit) in
      \<lparr>pg_events = events, pg_truncated = truncated, pg_next_after_seq = (if truncated then Some (ev_seq (last events)) else None)\<rparr>)"

definition events_after :: "bb_transport \<Rightarrow> pystr \<Rightarrow> pyval \<Rightarrow> pyval \<Rightarrow> bb_event_page bb_act" where
  "events_after tr thread_id after_seq limit =
     and_then (gate tr) (\<lambda>_.
     case limit of
       PInt n \<Rightarrow>
         if \<not> (1 \<le> n \<and> n \<le> MAX_EVENT_PAGE) then refused REFUSAL_MALFORMED_RESPONSE ''limit is outside 1..100''
         else
           and_then (log_entries tr thread_id after_seq n) (\<lambda>entries.
           and_then (checked (rmap event_from entries)) (\<lambda>events. give (event_page n events)))
     | _ \<Rightarrow> refused REFUSAL_MALFORMED_RESPONSE ''limit is not an integer'')"

text \<open>The profile bb ran, from the first event that is the spawn's own turn request and carries an execution block.\<close>

fun find_execution :: "pydict list \<Rightarrow> bb_refusal + bb_execution" where
  "find_execution [] = Inl (bb_refuse REFUSAL_MALFORMED_RESPONSE ''no execution block in the first 3 events'')"
| "find_execution (entry # entries) =
     (if dget ''type'' entry \<noteq> Some (sv SPAWN_EVENT_TYPE) then find_execution entries
      else
        case dget_none ''data'' entry of
          PDict data \<Rightarrow>
            if dget ''source'' data \<noteq> Some (sv SPAWN_EVENT_SOURCE) then find_execution entries
            else
              (case dget_none ''execution'' data of
                 PDict execution \<Rightarrow>
                   (case (require_str ''model'' execution, require_str ''reasoningLevel'' execution) of
                      (Some model, Some reasoning_level) \<Rightarrow> Inr \<lparr>ex_model = model, ex_reasoning_level = reasoning_level\<rparr>
                    | _ \<Rightarrow> Inl (bb_refuse REFUSAL_MALFORMED_RESPONSE ''execution block missing model/reasoningLevel''))
               | _ \<Rightarrow> find_execution entries)
        | _ \<Rightarrow> find_execution entries)"

definition execution_evidence :: "bb_transport \<Rightarrow> pystr \<Rightarrow> bb_execution bb_act" where
  "execution_evidence tr thread_id =
     and_then (log_entries tr thread_id PNone EXECUTION_PROBE_EVENTS) (\<lambda>entries. checked (find_execution entries))"

section \<open>Spawning a thread\<close>

record spawn_request =
  sr_project_id :: pystr
  sr_prompt :: pystr
  sr_profile :: bb_profile
  sr_environment :: "pystr option"
  sr_base_sha :: "pystr option"
  sr_permission_mode :: "pystr option"
  sr_title :: "pystr option"

definition option_argv :: "string \<Rightarrow> pystr option \<Rightarrow> pystr list" where
  "option_argv flag v = (case v of None \<Rightarrow> [] | Some x \<Rightarrow> [lit flag, x])"

definition spawn_argv :: "spawn_request \<Rightarrow> pystr list" where
  "spawn_argv q =
     [lit ''thread'', lit ''spawn'', lit ''--project'', sr_project_id q, lit ''--provider'', pf_provider (sr_profile q),
      lit ''--model'', pf_model (sr_profile q), lit ''--reasoning-level'', pf_reasoning_level (sr_profile q),
      lit ''--visibility'', lit VISIBLE_THREAD_VISIBILITY] @
     (case sr_base_sha q of
        Some b \<Rightarrow> [lit ''--new-environment'', lit ''worktree'', lit ''--base-branch'', b]
      | None \<Rightarrow> option_argv ''--environment'' (sr_environment q)) @
     option_argv ''--permission-mode'' (sr_permission_mode q) @ option_argv ''--title'' (sr_title q) @
     [lit ''--prompt'', sr_prompt q, lit ''--json'']"

definition classified :: "bool \<Rightarrow> bb_refusal \<Rightarrow> bb_refusal" where
  "classified task_attempted r = r\<lparr>rf_task_attempted := Some task_attempted\<rparr>"

text \<open>A refusal after the thread may exist: an orphan with its id, or an ambiguous outcome.\<close>

definition orphan :: "pystr option \<Rightarrow> string \<Rightarrow> string \<Rightarrow> bb_refusal" where
  "orphan spawned_id reason detail =
     classified True
       (case spawned_id of
          None \<Rightarrow> bb_refuse REFUSAL_AMBIGUOUS (detail @ ''; no native id was recoverable, so the thread may exist'')
        | Some i \<Rightarrow> (bb_refuse reason detail)\<lparr>rf_native_thread_id := Some i\<rparr>)"

definition spawned_id :: "pyval \<Rightarrow> pystr option" where
  "spawned_id payload = (case payload of PDict d \<Rightarrow> require_str ''id'' d | _ \<Rightarrow> None)"

definition identity_check :: "spawn_request \<Rightarrow> bb_thread \<Rightarrow> (string \<times> string) option" where
  "identity_check q t =
     (if th_project_id t \<noteq> sr_project_id q then Some (REFUSAL_IDENTITY_MISMATCH, ''requested another project'')
      else if (case sr_environment q of None \<Rightarrow> False | Some e \<Rightarrow> th_environment_id t \<noteq> e) then
        Some (REFUSAL_IDENTITY_MISMATCH, ''requested another environment'')
      else if th_provider_id t \<noteq> pf_provider (sr_profile q) then Some (REFUSAL_PROFILE_MISMATCH, ''requested another provider'')
      else None)"

definition profile_check :: "spawn_request \<Rightarrow> bb_execution \<Rightarrow> (string \<times> string) option" where
  "profile_check q x =
     (if ex_model x \<noteq> pf_model (sr_profile q) then Some (REFUSAL_PROFILE_MISMATCH, ''requested another model'')
      else if ex_reasoning_level x \<noteq> pf_reasoning_level (sr_profile q) then
        Some (REFUSAL_PROFILE_MISMATCH, ''requested another reasoning level'')
      else None)"

definition verify_spawned :: "bb_transport \<Rightarrow> spawn_request \<Rightarrow> pyval \<Rightarrow> bb_thread bb_act" where
  "verify_spawned tr q payload c =
     (let orphaned = (\<lambda>reason detail. (Inl (Refused (orphan (spawned_id payload) reason detail)), c)) in
      case validate_spawn_envelope payload of
        Inl r \<Rightarrow> orphaned (rf_reason r) (rf_detail r)
      | Inr thread \<Rightarrow>
          (case identity_check q thread of
             Some (reason, detail) \<Rightarrow> orphaned reason detail
           | None \<Rightarrow>
               and_then
                 (refusing (execution_evidence tr (th_thread_id thread))
                    (\<lambda>r. orphan (spawned_id payload) (rf_reason r) (''spawned thread could not be profile-verified: '' @ rf_detail r)))
                 (\<lambda>execution c'.
                    case profile_check q execution of
                      Some (reason, detail) \<Rightarrow> (Inl (Refused (orphan (spawned_id payload) reason detail)), c')
                    | None \<Rightarrow> (Inr thread, c')) c))"

definition spawn :: "bb_transport \<Rightarrow> spawn_request \<Rightarrow> bb_thread bb_act" where
  "spawn tr q c =
     (if sr_environment q \<noteq> None \<and> sr_base_sha q \<noteq> None then
        (Inl (Refused (classified False
           (bb_refuse REFUSAL_MALFORMED_RESPONSE ''spawn cannot attach an environment and create a worktree together''))), c)
      else
        case gate tr c of
          (Inl (Escaped e), c') \<Rightarrow>
            (Inl (Refused (classified False (bb_refuse REFUSAL_TRANSPORT_FAILED ''pre-task bb gate failed''))), c')
        | (Inl (Refused r), c') \<Rightarrow> (Inl (Refused (classified False r)), c')
        | (Inr _, c') \<Rightarrow>
            and_then (refusing (task_json tr (spawn_argv q)) (classified True)) (verify_spawned tr q) c')"

section \<open>Sending a message\<close>

definition tell_argv :: "pystr \<Rightarrow> pystr \<Rightarrow> pystr list" where
  "tell_argv thread_id message =
     [lit ''thread'', lit ''tell'', thread_id, message, lit ''--mode'', lit ''queue'', lit ''--json'']"

definition performed :: "string \<Rightarrow> bb_refusal" where
  "performed detail = bb_refuse REFUSAL_AMBIGUOUS (detail @ ''; the message may have been queued'')"

definition queued_from :: "pystr \<Rightarrow> pyval \<Rightarrow> bb_refusal + bb_queued" where
  "queued_from thread_id payload =
     (case payload of
        PDict d \<Rightarrow>
          if dget ''ok'' d \<noteq> Some (PBool True) then Inl (performed ''tell envelope did not report ok=true'')
          else if require_str ''threadId'' d \<noteq> Some thread_id then Inl (performed ''told another thread'')
          else
            (case require_str ''mode'' d of
               Some mode \<Rightarrow>
                 if mode = lit ''queue'' then Inr \<lparr>qu_thread_id = thread_id, qu_mode = mode\<rparr>
                 else Inl (performed ''requested queue mode'')
             | None \<Rightarrow> Inl (performed ''requested queue mode''))
      | _ \<Rightarrow> Inl (performed ''tell envelope is not an object''))"

definition send_queued :: "bb_transport \<Rightarrow> pystr \<Rightarrow> pystr \<Rightarrow> bb_queued bb_act" where
  "send_queued tr thread_id message =
     and_then (task_json tr (tell_argv thread_id message)) (\<lambda>payload. checked (queued_from thread_id payload))"

definition send :: "bb_transport \<Rightarrow> pystr \<Rightarrow> pystr \<Rightarrow> pystr \<Rightarrow> bb_queued bb_act" where
  "send tr thread_id message mode =
     and_then (gate tr) (\<lambda>_.
     if mode \<noteq> lit ''queue-if-active'' then refused REFUSAL_PROFILE_MISMATCH ''mode is not implemented in Slice 1A; only queue-if-active''
     else send_queued tr thread_id message)"

definition send_version_mismatch_diagnostic :: "bb_transport \<Rightarrow> pystr \<Rightarrow> pystr \<Rightarrow> pyval \<Rightarrow> bb_queued bb_act" where
  "send_version_mismatch_diagnostic tr thread_id message installed_version c =
     (if \<not> bc_enabled c then refused REFUSAL_DISABLED ''bb adapter is disabled'' c
      else
        case installed_version of
          PStr v \<Rightarrow>
            if py_strip v = [] \<or> v = lit PINNED_BB_VERSION then
              refused REFUSAL_VERSION_MISMATCH ''a non-pinned installed bb version is required for this diagnostic'' c
            else send_queued tr thread_id message c
        | _ \<Rightarrow> refused REFUSAL_VERSION_MISMATCH ''a non-pinned installed bb version is required for this diagnostic'' c)"

section \<open>Reading a thread, a plugin and the queue\<close>

definition thread_state :: "bb_transport \<Rightarrow> pystr \<Rightarrow> bb_thread bb_act" where
  "thread_state tr thread_id =
     and_then (gate tr) (\<lambda>_.
     and_then (read_json tr [lit ''thread'', lit ''show'', thread_id, lit ''--json'']) (\<lambda>payload.
     and_then (checked (validate_show_envelope payload)) (\<lambda>thread.
     if th_thread_id thread \<noteq> thread_id then refused REFUSAL_IDENTITY_MISMATCH ''bb reported another thread'' else give thread)))"

definition plugin_from :: "pystr \<Rightarrow> pyval \<Rightarrow> bb_refusal + bb_plugin_status" where
  "plugin_from plugin_id payload =
     (case payload of
        PDict d \<Rightarrow>
          (case dget_none ''plugins'' d of
             PList entries \<Rightarrow>
               (case filter (\<lambda>e. case e of PDict p \<Rightarrow> dget ''id'' p = Some (PStr plugin_id) | _ \<Rightarrow> False) entries of
                  [PDict p] \<Rightarrow>
                    (case require_str ''status'' p of
                       None \<Rightarrow> Inl (bb_refuse REFUSAL_MALFORMED_RESPONSE ''plugin has no string status'')
                     | Some status \<Rightarrow> Inr \<lparr>pl_plugin_id = plugin_id, pl_status = status\<rparr>)
                | _ \<Rightarrow> Inl (bb_refuse REFUSAL_MALFORMED_RESPONSE ''plugin list returned several or no entries''))
           | _ \<Rightarrow> Inl (bb_refuse REFUSAL_MALFORMED_RESPONSE ''plugin list envelope has no plugins array''))
      | _ \<Rightarrow> Inl (bb_refuse REFUSAL_MALFORMED_RESPONSE ''plugin list envelope has no plugins array''))"

definition plugin_status :: "bb_transport \<Rightarrow> pystr \<Rightarrow> bb_plugin_status bb_act" where
  "plugin_status tr plugin_id =
     and_then (gate tr) (\<lambda>_.
     and_then (read_json tr [lit ''plugin'', lit ''list'', lit ''--json'']) (\<lambda>payload. checked (plugin_from plugin_id payload)))"

definition queued_messages :: "bb_transport \<Rightarrow> pystr \<Rightarrow> nat bb_act" where
  "queued_messages tr thread_id =
     and_then (gate tr) (\<lambda>_.
     and_then (read_json tr [lit ''thread'', lit ''queue'', lit ''list'', thread_id, lit ''--json'']) (\<lambda>payload.
     case payload of
       PList entries \<Rightarrow> give (length entries)
     | _ \<Rightarrow> refused REFUSAL_MALFORMED_RESPONSE ''queue envelope is not a list''))"

end
