(* ===== verification/BbProps.thy ===== *)
theory BbProps
  imports BbClient
begin

text \<open>
  What the bb client promises: the calls an operation makes, the version gate before every task, that a task is attempted at most once and
  never reported as a clean failure after it may have happened, and pages of events that advance.
\<close>

section \<open>Inverting actions\<close>

lemma and_then_eq:
  "and_then m f c = (r, c') \<longleftrightarrow>
     (\<exists>e. m c = (Inl e, c') \<and> r = Inl e) \<or> (\<exists>x c1. m c = (Inr x, c1) \<and> f x c1 = (r, c'))"
  by (auto simp: and_then_def split: prod.splits sum.splits)

lemma checked_eq:
  "checked v c = (r, c') \<longleftrightarrow> c' = c \<and> ((\<exists>e. v = Inl e \<and> r = Inl (Refused e)) \<or> (\<exists>x. v = Inr x \<and> r = Inr x))"
  by (auto simp: checked_def split: sum.splits)

lemma computed_eq:
  "computed v c = (r, c') \<longleftrightarrow> c' = c \<and> ((\<exists>e. v = Inl e \<and> r = Inl (Escaped e)) \<or> (\<exists>x. v = Inr x \<and> r = Inr x))"
  by (auto simp: computed_def split: sum.splits)

lemma not_Some_pair [simp]: "(\<forall>a b. v \<noteq> Some (a, b)) \<longleftrightarrow> v = None"
  by (cases v) auto

lemma refused_eq [simp]: "refused reason detail c = (r, c') \<longleftrightarrow> c' = c \<and> r = Inl (Refused (bb_refuse reason detail))"
  by (auto simp: refused_def)

lemma give_eq [simp]: "give x c = (r, c') \<longleftrightarrow> c' = c \<and> r = Inr x"
  by (auto simp: give_def)

lemma refusing_eq:
  "refusing m f c = (r, c') \<longleftrightarrow>
     (\<exists>b. m c = (Inl (Refused b), c') \<and> r = Inl (Refused (f b))) \<or> (\<exists>e. m c = (Inl (Escaped e), c') \<and> r = Inl (Escaped e)) \<or>
     (\<exists>x. m c = (Inr x, c') \<and> r = Inr x)"
  by (auto simp: refusing_def split: prod.splits sum.splits bb_fail.splits)

lemma bounded_Inr: "bounded res = Inr res' \<Longrightarrow> res' = res \<and> tr_exit_code res = 0"
  by (auto simp: bounded_def split: option.splits if_splits)

lemma call_log: "call tr argv c = (r, c') \<Longrightarrow> c' = c\<lparr>bc_calls := bc_calls c @ [argv]\<rparr>"
  by (auto simp: call_def checked_def Let_def split: transport_outcome.splits sum.splits)

section \<open>The calls an action makes\<close>

text \<open>At most \<open>n\<close> calls, all of a kind, and no other change of the client.\<close>

definition makes :: "(pystr list \<Rightarrow> bool) \<Rightarrow> nat \<Rightarrow> 'a bb_act \<Rightarrow> bool" where
  "makes P n m \<longleftrightarrow> (\<forall>c r c'. m c = (r, c') \<longrightarrow>
     (\<exists>cs. c' = c\<lparr>bc_calls := bc_calls c @ cs\<rparr> \<and> length cs \<le> n \<and> list_all P cs))"

named_theorems makes_intros \<open>the calls of composed actions\<close>

lemma makesD:
  assumes "makes P n m" and "m c = (r, c')"
  obtains cs where "c' = c\<lparr>bc_calls := bc_calls c @ cs\<rparr>" "length cs \<le> n" "list_all P cs"
  using assms unfolding makes_def by blast

lemma makes_weaken: "makes P n m \<Longrightarrow> (\<And>a. P a \<Longrightarrow> Q a) \<Longrightarrow> n \<le> k \<Longrightarrow> makes Q k m"
  unfolding makes_def by (meson list.pred_mono_strong order_trans)

lemma makes_idle: "(\<And>c r c'. m c = (r, c') \<Longrightarrow> c' = c) \<Longrightarrow> makes P n m"
  unfolding makes_def by (intro allI impI exI [of _ "[]"]) force

lemma makes_pure [makes_intros]: "makes P n (give x)" "makes P n (refused reason detail)" "makes P n (checked v)" "makes P n (computed w)"
  by (rule makes_idle, simp add: checked_eq computed_eq)+

lemma makes_call [makes_intros]: "P argv \<Longrightarrow> 1 \<le> n \<Longrightarrow> makes P n (call tr argv)"
  by (auto simp: makes_def dest: call_log)

lemma makes_and_then:
  assumes "makes P n m" and "\<And>x. makes P k (f x)"
  shows "makes P (n + k) (and_then m f)"
  unfolding makes_def
proof (intro allI impI)
  fix c r c' assume "and_then m f c = (r, c')"
  then consider e where "m c = (Inl e, c')" | x c1 where "m c = (Inr x, c1)" "f x c1 = (r, c')" by (auto simp: and_then_eq)
  then show "\<exists>cs. c' = c\<lparr>bc_calls := bc_calls c @ cs\<rparr> \<and> length cs \<le> n + k \<and> list_all P cs"
  proof cases
    case 1
    from makesD [OF assms(1) this] show ?thesis by (metis trans_le_add1)
  next
    case 2
    obtain cs where cs: "c1 = c\<lparr>bc_calls := bc_calls c @ cs\<rparr>" "length cs \<le> n" "list_all P cs"
      by (rule makesD [OF assms(1) 2(1)])
    obtain ds where ds: "c' = c1\<lparr>bc_calls := bc_calls c1 @ ds\<rparr>" "length ds \<le> k" "list_all P ds"
      by (rule makesD [OF assms(2) 2(2)])
    show ?thesis using cs ds by (intro exI [of _ "cs @ ds"]) auto
  qed
qed

lemma makes_then [makes_intros]:
  "makes P n m \<Longrightarrow> (\<And>x. makes P 0 (f x)) \<Longrightarrow> makes P n (and_then m f)"
  "makes P 0 m \<Longrightarrow> (\<And>x. makes P n (f x)) \<Longrightarrow> makes P n (and_then m f)"
  using makes_and_then [of P n m 0 f] makes_and_then [of P 0 m n f] by simp_all

lemma makes_refusing [makes_intros]: "makes P n m \<Longrightarrow> makes P n (refusing m f)"
  unfolding makes_def by (auto simp: refusing_eq)

lemma makes_read [makes_intros]: "P argv \<Longrightarrow> makes P 1 (read_json tr argv)"
  unfolding read_json_def by (intro makes_intros) auto

definition reads_log :: "pystr \<Rightarrow> pystr list \<Rightarrow> bool" where
  "reads_log thread_id argv \<longleftrightarrow> (\<exists>limit after. argv = log_argv thread_id limit after)"

lemma makes_log: "makes (reads_log thread_id) 1 (log_entries tr thread_id after_seq limit)"
proof -
  have read: "makes (reads_log thread_id) 1 (read_json tr (log_argv thread_id l a))" for l a
    by (rule makes_read) (auto simp: reads_log_def)
  have after: "makes (reads_log thread_id) 0
      (case after_seq of PNone \<Rightarrow> give (None, None) | PInt z \<Rightarrow> and_then (computed (int_text z)) (\<lambda>t. give (Some z, Some t))
        | _ \<Rightarrow> refused REFUSAL_MALFORMED_RESPONSE ''after_seq is not an integer'')"
    by (cases after_seq) (auto intro!: makes_intros)
  have page: "makes (reads_log thread_id) 0 (case payload of
       PList entries \<Rightarrow>
         if limit < int (length entries) then refused REFUSAL_MALFORMED_RESPONSE ''bb returned more events than the limit''
         else checked (log_page thread_id previous entries)
     | _ \<Rightarrow> refused REFUSAL_MALFORMED_RESPONSE ''event envelope is not a list'')" for payload previous
    by (cases payload) (auto intro!: makes_intros)
  show ?thesis
    unfolding log_entries_def
    by (rule makes_then(2) [OF makes_pure(4)], rule makes_then(2) [OF after]) (auto intro!: makes_then(1) read [unfolded One_nat_def] page)
qed

text \<open>What a page that was accepted was read from.\<close>

lemma log_entries_Inr:
  assumes "log_entries tr i after_seq limit c = (Inr entries, c')"
  obtains previous lt at_text payload where "int_text limit = Inr lt"
    "after_seq = PNone \<and> previous = None \<and> at_text = None \<or> (\<exists>z t. after_seq = PInt z \<and> previous = Some z \<and> int_text z = Inr t \<and> at_text = Some t)"
    "read_json tr (log_argv i lt at_text) c = (Inr (PList payload), c')" "int (length payload) \<le> limit" "log_page i previous payload = Inr entries"
proof -
  obtain lt previous at_text v c1 where v: "int_text limit = Inr lt"
    "(case after_seq of PNone \<Rightarrow> give (None, None) | PInt z \<Rightarrow> and_then (computed (int_text z)) (\<lambda>t. give (Some z, Some t))
        | _ \<Rightarrow> refused REFUSAL_MALFORMED_RESPONSE ''after_seq is not an integer'') c = (Inr (previous, at_text), c)"
    "read_json tr (log_argv i lt at_text) c = (Inr v, c1)"
    "(case v of PList entries \<Rightarrow>
         if limit < int (length entries) then refused REFUSAL_MALFORMED_RESPONSE ''bb returned more events than the limit''
         else checked (log_page i previous entries)
       | _ \<Rightarrow> refused REFUSAL_MALFORMED_RESPONSE ''event envelope is not a list'') c1 = (Inr entries, c')"
    using assms by (cases after_seq) (auto simp: log_entries_def and_then_eq computed_eq)
  have "after_seq = PNone \<and> previous = None \<and> at_text = None \<or> (\<exists>z t. after_seq = PInt z \<and> previous = Some z \<and> int_text z = Inr t \<and> at_text = Some t)"
    using v(2) by (cases after_seq) (auto simp: and_then_eq computed_eq)
  moreover obtain payload where "v = PList payload" "c' = c1" "int (length payload) \<le> limit" "log_page i previous payload = Inr entries"
    using v(4) by (cases v) (auto simp: checked_eq split: if_splits)
  ultimately show thesis using that v(1,3) by blast
qed

lemma makes_evidence: "makes (reads_log thread_id) 1 (execution_evidence tr thread_id)"
  unfolding execution_evidence_def by (rule makes_then(1) [OF makes_log]) (rule makes_pure)

section \<open>A spawn\<close>

text \<open>The calls that start a turn.\<close>

definition task_bearing :: "pystr list \<Rightarrow> bool" where
  "task_bearing argv \<longleftrightarrow> take 2 argv \<in> {[lit ''thread'', lit ''spawn''], [lit ''thread'', lit ''tell'']}"

lemma task_kinds [simp]:
  "\<not> task_bearing version_argv" "\<not> reads_log i version_argv" "reads_log i a \<Longrightarrow> \<not> task_bearing a" "task_bearing (spawn_argv q)" "task_bearing (tell_argv i m)"
  by (auto simp: task_bearing_def version_argv_def reads_log_def log_argv_def spawn_argv_def tell_argv_def)

text \<open>A response: exit 0, within the bounds, and JSON.\<close>

definition responds :: "bb_transport \<Rightarrow> pystr list list \<Rightarrow> pystr list \<Rightarrow> pyval \<Rightarrow> bool" where
  "responds tr calls argv v \<longleftrightarrow> (\<exists>res. tr calls argv = Answered res \<and> bounded res = Inr res \<and> decode res = Inr v)"

text \<open>The transport reports that the program ended with another exit code.\<close>

definition exits_nonzero :: "bb_transport \<Rightarrow> pystr list list \<Rightarrow> pystr list \<Rightarrow> bool" where
  "exits_nonzero tr calls argv \<longleftrightarrow> (\<exists>res. tr calls argv = Answered res \<and> tr_exit_code res \<noteq> 0)"

lemma read_json_Inr: "read_json tr argv c = (Inr v, c') \<Longrightarrow> responds tr (bc_calls c) argv v"
  by (auto simp: read_json_def and_then_eq checked_eq responds_def call_def Let_def split: transport_outcome.splits sum.splits dest: bounded_Inr)

lemma task_json_log: "task_json tr argv c = (r, c') \<Longrightarrow> c' = c\<lparr>bc_calls := bc_calls c @ [argv]\<rparr>"
  by (auto simp: task_json_def task_call_def and_then_eq refusing_eq checked_eq split: sum.splits dest!: call_log)

lemma task_json_Inr: "task_json tr argv c = (Inr v, c') \<Longrightarrow> responds tr (bc_calls c) argv v"
  by (auto simp: task_json_def task_call_def and_then_eq refusing_eq checked_eq responds_def call_def Let_def
      split: transport_outcome.splits sum.splits dest: bounded_Inr)

lemma bounded_Inl:
  "bounded res = Inl f \<Longrightarrow>
     rf_native_thread_id f = None \<and> (rf_reason f = REFUSAL_MALFORMED_RESPONSE \<or> rf_reason f = REFUSAL_TRANSPORT_FAILED \<and> tr_exit_code res \<noteq> 0)"
  by (auto simp: bounded_def bb_refuse_def split: option.splits if_splits)

text \<open>A task that is refused is ambiguous, or the program ended with an exit code that is not zero.\<close>

lemma task_json_refused:
  assumes "task_json tr argv c = (Inl (Refused f), c')"
  shows "rf_native_thread_id f = None \<and>
    (rf_reason f = REFUSAL_AMBIGUOUS \<or> rf_reason f = REFUSAL_TRANSPORT_FAILED \<and> exits_nonzero tr (bc_calls c) argv)"
proof -
  from assms consider (read) r where "f = unreadable r" | (calling) r where "call tr argv c = (Inl (Refused r), c')" "f = maybe_performed r"
    by (auto simp: task_json_def task_call_def and_then_eq refusing_eq checked_eq split: sum.splits)
  then show ?thesis
  proof cases
    case read
    then show ?thesis by (simp add: unreadable_def bb_refuse_def)
  next
    case calling
    then show ?thesis
      by (auto simp: call_def Let_def checked_eq maybe_performed_def exits_nonzero_def bb_refuse_def refusal_reasons
          split: transport_outcome.splits sum.splits dest!: bounded_Inl)
  qed
qed

lemma spawn_cases:
  assumes "spawn tr q c = (r, c')"
  obtains (both) f where "c' = c" "r = Inl (Refused (classified False f))" "rf_native_thread_id f = None" "rf_reason f = REFUSAL_MALFORMED_RESPONSE"
  | (gated) e f where "gate tr c = (Inl e, c')" "r = Inl (Refused (classified False f))" "\<And>g. e = Refused g \<Longrightarrow> f = g" "\<And>x. e = Escaped x \<Longrightarrow> rf_native_thread_id f = None \<and> rf_reason f = REFUSAL_TRANSPORT_FAILED"
  | (lost) f c1 where "gate tr c = (Inr (), c1)" "task_json tr (spawn_argv q) c1 = (Inl (Refused f), c')" "r = Inl (Refused (classified True f))"
  | (raised) e c1 where "gate tr c = (Inr (), c1)" "task_json tr (spawn_argv q) c1 = (Inl (Escaped e), c')" "r = Inl (Escaped e)"
  | (answered) payload c1 c2 where "gate tr c = (Inr (), c1)" "task_json tr (spawn_argv q) c1 = (Inr payload, c2)"
      "verify_spawned tr q payload c2 = (r, c')"
proof (cases "sr_environment q \<noteq> None \<and> sr_base_sha q \<noteq> None")
  case True
  then show thesis using assms by (intro both) (auto simp: spawn_def bb_refuse_def)
next
  case False
  obtain g c1 where g: "gate tr c = (g, c1)" by fastforce
  show thesis
  proof (cases g)
    case (Inl e)
    then show thesis using assms False g
      by (cases e) (auto simp: spawn_def bb_refuse_def intro!: gated [of e])
  next
    case (Inr u)
    then show thesis using assms False g lost raised answered by (auto simp: spawn_def and_then_eq refusing_eq)
  qed
qed

lemma verify_cases:
  assumes "verify_spawned tr q payload c = (r, c')"
  obtains (orphaned) reason detail where "r = Inl (Refused (orphan (spawned_id payload) reason detail))"
    | (raised) e where "r = Inl (Escaped e)"
    | (verified) thread x where "r = Inr thread" "validate_spawn_envelope payload = Inr thread" "identity_check q thread = None"
        "execution_evidence tr (th_thread_id thread) c = (Inr x, c')" "profile_check q x = None"
  using assms orphaned raised verified
  by (auto simp: verify_spawned_def Let_def and_then_eq refusing_eq split: sum.splits option.splits prod.splits)

lemma makes_verify: "makes (\<lambda>a. \<exists>i. reads_log i a) 1 (verify_spawned tr q payload)"
proof -
  have log: "makes (\<lambda>a. \<exists>i. reads_log i a) 1 (execution_evidence tr i)" for i
    by (rule makes_weaken [OF makes_evidence]) auto
  show ?thesis
  proof (cases "validate_spawn_envelope payload")
    case (Inl f)
    then show ?thesis by (intro makes_idle) (auto simp: verify_spawned_def)
  next
    case (Inr t)
    show ?thesis
    proof (cases "identity_check q t")
      case None
      have "verify_spawned tr q payload = and_then
          (refusing (execution_evidence tr (th_thread_id t))
             (\<lambda>r. orphan (spawned_id payload) (rf_reason r) (''spawned thread could not be profile-verified: '' @ rf_detail r)))
          (\<lambda>execution c'. case profile_check q execution of
             Some (reason, detail) \<Rightarrow> (Inl (Refused (orphan (spawned_id payload) reason detail)), c') | None \<Rightarrow> (Inr t, c'))"
        by (rule ext) (simp add: verify_spawned_def Inr None)
      moreover have "makes P 0 (\<lambda>c'. case profile_check q x of
             Some (reason, detail) \<Rightarrow> (Inl (Refused (orphan (spawned_id payload) reason detail)), c') | None \<Rightarrow> (Inr t, c'))" for P x
        by (rule makes_idle) (auto split: option.splits prod.splits)
      ultimately show ?thesis by (auto intro!: makes_then(1) makes_refusing log [unfolded One_nat_def])
    next
      case (Some x)
      then show ?thesis using Inr by (intro makes_idle) (auto simp: verify_spawned_def split: prod.splits)
    qed
  qed
qed

text \<open>No refusal before the spawn names a thread.\<close>

lemma decode_Inl: "decode r = Inl f \<Longrightarrow> rf_native_thread_id f = None \<and> rf_reason f = REFUSAL_MALFORMED_RESPONSE"
  unfolding decode_def bb_refuse_def by (cases "loads plain_opts (tr_stdout r)"; cases "projl (loads plain_opts (tr_stdout r))") auto

lemma read_json_native: "read_json tr argv c = (Inl (Refused f), c') \<Longrightarrow> rf_native_thread_id f = None"
  by (auto simp: read_json_def and_then_eq checked_eq call_def Let_def bb_refuse_def refused_def
      split: transport_outcome.splits sum.splits dest: bounded_Inl decode_Inl)

lemma reported_version_cases:
  "reported_version v = Inl f \<Longrightarrow> rf_native_thread_id f = None"
  "reported_version v = Inr x \<Longrightarrow> x = lit PINNED_BB_VERSION"
  by (cases v; auto simp: reported_version_def bb_refuse_def split: option.splits if_splits)+

lemma gate_cases:
  assumes "gate tr c = (r, c')"
  obtains (disabled) "\<not> bc_enabled c" "c' = c" "r = Inl (Refused (bb_refuse REFUSAL_DISABLED ''bb adapter is disabled''))"
    | (known) v where "bc_enabled c" "bc_verified_version c = Some v" "c' = c" "r = Inr ()"
    | (failed) e where "bc_enabled c" "bc_verified_version c = None" "read_json tr version_argv c = (Inl e, c')" "r = Inl e"
    | (wrong) v f where "bc_enabled c" "bc_verified_version c = None" "read_json tr version_argv c = (Inr v, c')" "reported_version v = Inl f" "r = Inl (Refused f)"
    | (proved) v c1 where "bc_enabled c" "bc_verified_version c = None" "read_json tr version_argv c = (Inr v, c1)" "reported_version v = Inr (lit PINNED_BB_VERSION)"
        "c' = c1\<lparr>bc_verified_version := Some (lit PINNED_BB_VERSION)\<rparr>" "r = Inr ()"
proof (cases "bc_enabled c")
  case False
  then show thesis using assms disabled by (auto simp: gate_def verify_version_def and_then_eq)
next
  case True
  show thesis
  proof (cases "bc_verified_version c")
    case None
    obtain out c1 where "read_json tr version_argv c = (out, c1)" by fastforce
    then show thesis
      using assms True None failed wrong proved
      by (cases out) (auto simp: gate_def verify_version_def and_then_eq checked_eq dest: reported_version_cases(2))
  next
    case (Some v)
    then show thesis using assms True known by (auto simp: gate_def verify_version_def and_then_eq)
  qed
qed

lemma gate_native: "gate tr c = (Inl (Refused f), c') \<Longrightarrow> rf_native_thread_id f = None"
  by (erule gate_cases) (auto simp: bb_refuse_def dest: read_json_native reported_version_cases(1))

lemma orphan_flags:
  "rf_task_attempted (orphan i reason detail) = Some True"
  "rf_native_thread_id (orphan i reason detail) = i"
  "i = None \<Longrightarrow> rf_reason (orphan i reason detail) = REFUSAL_AMBIGUOUS"
  by (simp_all add: orphan_def classified_def bb_refuse_def split: option.split)

lemma classified_flags [simp]:
  "rf_task_attempted (classified b f) = Some b" "rf_native_thread_id (classified b f) = rf_native_thread_id f" "rf_reason (classified b f) = rf_reason f"
  by (simp_all add: classified_def)

lemma version_not_spawn [simp]: "spawn_argv q \<noteq> version_argv" "version_argv \<noteq> spawn_argv q"
  by (simp_all add: spawn_argv_def version_argv_def)

lemma no_task_filter: "list_all (\<lambda>a. \<not> task_bearing a) cs \<Longrightarrow> filter task_bearing cs = []"
  by (simp add: list_all_iff filter_empty_conv)

lemma gate_calls:
  assumes "gate tr c = (r, c')"
  obtains gs where "bc_calls c' = bc_calls c @ gs" "length gs \<le> 1" "filter task_bearing gs = []" "spawn_argv q \<notin> set gs" "tell_argv i m \<notin> set gs"
proof -
  have read: "c1 = c\<lparr>bc_calls := bc_calls c @ [version_argv]\<rparr>" if "read_json tr version_argv c = (out, c1)" for out c1
    using that by (auto simp: read_json_def and_then_eq checked_eq dest!: call_log)
  have "\<exists>gs. bc_calls c' = bc_calls c @ gs \<and> gs \<in> {[], [version_argv]}"
    using assms by (cases rule: gate_cases) (auto dest!: read)
  moreover have "filter task_bearing [version_argv] = []" "tell_argv i m \<noteq> version_argv" by (simp, simp add: tell_argv_def version_argv_def)
  ultimately show thesis using that [of "[]"] that [of "[version_argv]"] by auto
qed

text \<open>The calls of a spawn and what its outcome says of them.\<close>

lemma spawn_attempts:
  assumes "spawn tr q c = (r, c')"
  shows "\<exists>cs. bc_calls c' = bc_calls c @ cs \<and> length cs \<le> 3 \<and> filter task_bearing cs \<in> {[], [spawn_argv q]} \<and>
    (case r of
       Inr t \<Rightarrow> spawn_argv q \<in> set cs
     | Inl (Escaped e) \<Rightarrow> spawn_argv q \<in> set cs
     | Inl (Refused f) \<Rightarrow>
         rf_task_attempted f = Some (spawn_argv q \<in> set cs) \<and>
         (rf_native_thread_id f \<noteq> None \<longrightarrow> spawn_argv q \<in> set cs) \<and>
         (spawn_argv q \<in> set cs \<and> rf_native_thread_id f = None \<and> rf_reason f \<noteq> REFUSAL_AMBIGUOUS \<longrightarrow>
            rf_reason f = REFUSAL_TRANSPORT_FAILED \<and> exits_nonzero tr (butlast (bc_calls c')) (spawn_argv q)))"
  using assms
proof (cases rule: spawn_cases)
  case (both f)
  then show ?thesis by (intro exI [of _ "[]"]) simp
next
  case (gated e f)
  obtain gs where g: "bc_calls c' = bc_calls c @ gs" "length gs \<le> 1" "filter task_bearing gs = []" "spawn_argv q \<notin> set gs"
    by (rule gate_calls [OF gated(1)])
  have "rf_native_thread_id f = None" using gated(1,3,4) gate_native by (cases e) auto
  then show ?thesis using g gated(2) by (intro exI [of _ gs]) simp
next
  case (lost f c1)
  obtain gs where g: "bc_calls c1 = bc_calls c @ gs" "length gs \<le> 1" "filter task_bearing gs = []" "spawn_argv q \<notin> set gs"
    by (rule gate_calls [OF lost(1)])
  have t: "bc_calls c' = bc_calls c1 @ [spawn_argv q]" using task_json_log [OF lost(2)] by simp
  show ?thesis
    using g t lost(3) task_json_refused [OF lost(2)] by (intro exI [of _ "gs @ [spawn_argv q]"]) (auto simp: butlast_append)
next
  case (raised e c1)
  obtain gs where g: "bc_calls c1 = bc_calls c @ gs" "length gs \<le> 1" "filter task_bearing gs = []" "spawn_argv q \<notin> set gs"
    by (rule gate_calls [OF raised(1)])
  have t: "bc_calls c' = bc_calls c1 @ [spawn_argv q]" using task_json_log [OF raised(2)] by simp
  show ?thesis using g t raised(3) by (intro exI [of _ "gs @ [spawn_argv q]"]) auto
next
  case (answered payload c1 c2)
  obtain gs where g: "bc_calls c1 = bc_calls c @ gs" "length gs \<le> 1" "filter task_bearing gs = []" "spawn_argv q \<notin> set gs"
    by (rule gate_calls [OF answered(1)])
  have t: "bc_calls c2 = bc_calls c1 @ [spawn_argv q]" using task_json_log [OF answered(2)] by simp
  obtain ls where l: "bc_calls c' = bc_calls c2 @ ls" "length ls \<le> 1" "list_all (\<lambda>a. \<not> task_bearing a) ls"
    by (rule makesD [OF makes_weaken [OF makes_verify] answered(3), of "\<lambda>a. \<not> task_bearing a" 1]) auto
  have calls: "bc_calls c' = bc_calls c @ gs @ spawn_argv q # ls" "filter task_bearing (gs @ spawn_argv q # ls) = [spawn_argv q]"
    "length (gs @ spawn_argv q # ls) \<le> 3"
    using g t l no_task_filter [OF l(3)] by simp_all
  from answered(3) have "case r of Inl (Refused f) \<Rightarrow> rf_task_attempted f = Some True \<and> (rf_native_thread_id f = None \<longrightarrow> rf_reason f = REFUSAL_AMBIGUOUS)
      | _ \<Rightarrow> True"
    by (cases rule: verify_cases) (simp_all add: orphan_flags)
  then show ?thesis
    using calls by (intro exI [of _ "gs @ spawn_argv q # ls"]) (auto split: sum.splits bb_fail.splits)
qed

text \<open>
  C28. One attempt, honestly classified. Whatever the transport does, one spawn makes at most three calls, of which at most one bears the
  task, and that one is the call built from the request. A refusal says truly whether the task was attempted; a refusal that names a
  thread, a result and an escaping exception only come after the attempt; and after an attempt a refusal without a thread id is
  ambiguous, except where the program itself ended with a nonzero exit code.
\<close>

theorem spawn_one_attempt:
  assumes "spawn tr q c = (r, c')"
  shows "\<exists>cs. bc_calls c' = bc_calls c @ cs \<and> length cs \<le> 3 \<and> filter task_bearing cs \<in> {[], [spawn_argv q]} \<and>
    (case r of
       Inr t \<Rightarrow> spawn_argv q \<in> set cs
     | Inl (Escaped e) \<Rightarrow> spawn_argv q \<in> set cs
     | Inl (Refused f) \<Rightarrow>
         rf_task_attempted f = Some (spawn_argv q \<in> set cs) \<and>
         (rf_native_thread_id f \<noteq> None \<longrightarrow> spawn_argv q \<in> set cs) \<and>
         (spawn_argv q \<in> set cs \<and> rf_native_thread_id f = None \<and> rf_reason f \<noteq> REFUSAL_AMBIGUOUS \<longrightarrow>
            rf_reason f = REFUSAL_TRANSPORT_FAILED \<and> exits_nonzero tr (butlast (bc_calls c')) (spawn_argv q)))"
  using spawn_attempts [OF assms] .


text \<open>What bb answered where a spawn gave back a thread.\<close>

lemma spawn_established:
  assumes "spawn tr q c = (Inr t, c')"
  shows "\<exists>h d k entries page.
    responds tr h (spawn_argv q) (PDict d) \<and> dget ''visibility'' d = Some (sv ''visible'') \<and> require_str ''id'' d = Some (th_thread_id t) \<and>
    require_str ''projectId'' d = Some (sr_project_id q) \<and> th_project_id t = sr_project_id q \<and>
    require_str ''environmentId'' d = Some (th_environment_id t) \<and> sr_environment q \<in> {None, Some (th_environment_id t)} \<and>
    require_str ''providerId'' d = Some (pf_provider (sr_profile q)) \<and> th_provider_id t = pf_provider (sr_profile q) \<and>
    responds tr k (log_argv (th_thread_id t) (lit ''3'') None) (PList entries) \<and> length entries \<le> 3 \<and>
    log_page (th_thread_id t) None entries = Inr page \<and>
    find_execution page = Inr \<lparr>ex_model = pf_model (sr_profile q), ex_reasoning_level = pf_reasoning_level (sr_profile q)\<rparr>"
proof -
  obtain payload c1 c2 where s: "task_json tr (spawn_argv q) c1 = (Inr payload, c2)" "verify_spawned tr q payload c2 = (Inr t, c')"
    using assms by (cases rule: spawn_cases) auto
  from s(2) obtain x where v: "validate_spawn_envelope payload = Inr t" "identity_check q t = None"
      "execution_evidence tr (th_thread_id t) c2 = (Inr x, c')" "profile_check q x = None"
    by (cases rule: verify_cases) auto
  obtain d where d: "payload = PDict d" "dget ''visibility'' d = Some (sv ''visible'')" "thread_from d ''spawn'' = Inr t"
    using v(1) by (cases payload) (auto simp: validate_spawn_envelope_def validate_spawn_visibility_def rbind_Inr_iff
        VISIBLE_THREAD_VISIBILITY_def split: if_splits)
  have three: "int_text 3 = Inr (lit ''3'')" by (simp add: int_text_def nat_digits.simps int_max_str_digits_def lit_def)
  from v(3) obtain page where x: "log_entries tr (th_thread_id t) PNone 3 c2 = (Inr page, c')" "find_execution page = Inr x"
    by (auto simp: execution_evidence_def and_then_eq checked_eq EXECUTION_PROBE_EVENTS_def)
  obtain entries where e: "read_json tr (log_argv (th_thread_id t) (lit ''3'') None) c2 = (Inr (PList entries), c')"
      "int (length entries) \<le> 3" "log_page (th_thread_id t) None entries = Inr page"
    by (rule log_entries_Inr [OF x(1)]) (auto simp: three)
  have "x = \<lparr>ex_model = pf_model (sr_profile q), ex_reasoning_level = pf_reasoning_level (sr_profile q)\<rparr>"
    using v(4) by (simp add: profile_check_def split: if_splits)
  moreover have "require_str ''id'' d = Some (th_thread_id t)" "require_str ''projectId'' d = Some (th_project_id t)"
      "require_str ''environmentId'' d = Some (th_environment_id t)" "require_str ''providerId'' d = Some (th_provider_id t)"
    using d(3) by (auto simp: thread_from_def split: option.splits)
  moreover have "th_project_id t = sr_project_id q" "th_provider_id t = pf_provider (sr_profile q)" "sr_environment q \<in> {None, Some (th_environment_id t)}"
    using v(2) by (auto simp: identity_check_def split: if_splits option.splits)
  ultimately show ?thesis
    using d e x(2) task_json_Inr [OF s(1)] read_json_Inr [OF e(1)]
    by (intro exI [of _ "bc_calls c1"] exI [of _ d] exI [of _ "bc_calls c2"] exI [of _ entries] exI [of _ page]) auto
qed

lemma log_page_cases:
  assumes "log_page i previous (v # payload) = Inr entries"
  obtains e es z where "entries = e # es" "v = PDict e" "require_str ''threadId'' e = Some i" "dget_none ''seq'' e = PInt z"
    "previous = None \<or> (\<exists>p. previous = Some p \<and> p < z)" "log_page i (Some z) payload = Inr es"
  using assms
  by (cases v) (auto simp: require_seq_def rbind_Inr_iff split: if_splits option.splits pyval.splits)

text \<open>The sequence numbers of an accepted page, after the one it continues from.\<close>

lemma log_page_advances:
  "log_page i previous payload = Inr entries \<Longrightarrow>
     map PDict entries = payload \<and> list_all (\<lambda>e. require_str ''threadId'' e = Some i) entries \<and>
     (\<exists>zs. map (dget_none ''seq'') entries = map PInt zs \<and> sorted_wrt (<) (case previous of None \<Rightarrow> zs | Some p \<Rightarrow> p # zs))"
proof (induction payload arbitrary: previous entries)
  case Nil
  then show ?case by (auto split: option.splits)
next
  case (Cons v payload)
  from Cons.prems obtain e es z where e: "entries = e # es" "v = PDict e" "require_str ''threadId'' e = Some i" "dget_none ''seq'' e = PInt z"
    "previous = None \<or> (\<exists>p. previous = Some p \<and> p < z)" "log_page i (Some z) payload = Inr es"
    by (rule log_page_cases)
  obtain zs where zs: "map (dget_none ''seq'') es = map PInt zs" "sorted_wrt (<) (z # zs)" "map PDict es = payload"
    "list_all (\<lambda>e. require_str ''threadId'' e = Some i) es"
    using Cons.IH [OF e(6)] by auto
  have "sorted_wrt (<) (case previous of None \<Rightarrow> z # zs | Some p \<Rightarrow> p # z # zs)"
    using zs(2) e(5) by (auto split: option.splits)
  then show ?case using e zs by (intro conjI exI [of _ "z # zs"]) auto
qed

text \<open>
  An entry of the log that is a turn request which started the thread: of that type, its data says the source was \<open>spawn\<close>,
  and it carries an execution block.
\<close>

definition spawn_turn :: "pydict \<Rightarrow> pydict \<Rightarrow> bool" where
  "spawn_turn entry execution \<longleftrightarrow> dget ''type'' entry = Some (sv ''client/turn/requested'') \<and>
     (\<exists>data. dget ''data'' entry = Some (PDict data) \<and> dget ''source'' data = Some (sv ''spawn'') \<and>
        dget ''execution'' data = Some (PDict execution))"

lemma dget_none_dict: "dget_none f d = PDict x \<longleftrightarrow> dget f d = Some (PDict x)"
  by (auto simp: dget_none_def split: option.splits)

lemma find_execution_turn:
  "find_execution entries = Inr x \<Longrightarrow>
     \<exists>before entry after execution. entries = before @ entry # after \<and> (\<forall>e \<in> set before. \<forall>y. \<not> spawn_turn e y) \<and>
       spawn_turn entry execution \<and> require_str ''model'' execution = Some (ex_model x) \<and>
       require_str ''reasoningLevel'' execution = Some (ex_reasoning_level x)"
proof (induction entries)
  case (Cons entry entries)
  show ?case
  proof (cases "\<exists>y. spawn_turn entry y")
    case True
    then obtain y where y: "spawn_turn entry y" by blast
    then have "require_str ''model'' y = Some (ex_model x)" "require_str ''reasoningLevel'' y = Some (ex_reasoning_level x)"
      using Cons.prems
      by (auto simp: spawn_turn_def dget_none_def SPAWN_EVENT_TYPE_def SPAWN_EVENT_SOURCE_def split: option.splits)
    then show ?thesis using y by (intro exI [of _ "[]"] exI [of _ entry] exI [of _ entries] exI [of _ y]) simp
  next
    case False
    then have "find_execution entries = Inr x"
      using Cons.prems
      by (auto simp: spawn_turn_def dget_none_dict SPAWN_EVENT_TYPE_def SPAWN_EVENT_SOURCE_def split: if_splits pyval.splits)
    from Cons.IH [OF this] obtain before e after y where "entries = before @ e # after" "\<forall>e \<in> set before. \<forall>y. \<not> spawn_turn e y"
        "spawn_turn e y" "require_str ''model'' y = Some (ex_model x)" "require_str ''reasoningLevel'' y = Some (ex_reasoning_level x)"
      by blast
    then show ?thesis using False by (intro exI [of _ "entry # before"] exI [of _ e] exI [of _ after] exI [of _ y]) simp
  qed
qed simp

text \<open>
  C29. A thread is handed back only as it was asked for. It carries the id, project and provider of the object bb answered the spawn with,
  and that object is visible and has the requested project, environment and provider. In bb's own log of that thread, asked for its first
  three events and answered with at most three, all of that thread, the first turn request whose source is \<open>spawn\<close> and
  that carries an execution block names the requested model and reasoning level; a turn request of any other source is not taken for it.
\<close>

theorem spawn_verified:
  assumes "spawn tr q c = (Inr t, c')"
  shows "\<exists>h d k before entry after execution.
    responds tr h (spawn_argv q) (PDict d) \<and> dget ''visibility'' d = Some (sv ''visible'') \<and> require_str ''id'' d = Some (th_thread_id t) \<and>
    require_str ''projectId'' d = Some (sr_project_id q) \<and> th_project_id t = sr_project_id q \<and>
    require_str ''environmentId'' d = Some (th_environment_id t) \<and> sr_environment q \<in> {None, Some (th_environment_id t)} \<and>
    require_str ''providerId'' d = Some (pf_provider (sr_profile q)) \<and> th_provider_id t = pf_provider (sr_profile q) \<and>
    responds tr k (log_argv (th_thread_id t) (lit ''3'') None) (PList (map PDict (before @ entry # after))) \<and>
    length (before @ entry # after) \<le> 3 \<and>
    list_all (\<lambda>e. require_str ''threadId'' e = Some (th_thread_id t)) (before @ entry # after) \<and>
    (\<forall>e \<in> set before. \<forall>y. \<not> spawn_turn e y) \<and> spawn_turn entry execution \<and>
    require_str ''model'' execution = Some (pf_model (sr_profile q)) \<and>
    require_str ''reasoningLevel'' execution = Some (pf_reasoning_level (sr_profile q))"
proof -
  obtain h d k entries page where e:
    "responds tr h (spawn_argv q) (PDict d)" "dget ''visibility'' d = Some (sv ''visible'')" "require_str ''id'' d = Some (th_thread_id t)"
    "require_str ''projectId'' d = Some (sr_project_id q)" "th_project_id t = sr_project_id q"
    "require_str ''environmentId'' d = Some (th_environment_id t)" "sr_environment q \<in> {None, Some (th_environment_id t)}"
    "require_str ''providerId'' d = Some (pf_provider (sr_profile q))" "th_provider_id t = pf_provider (sr_profile q)"
    "responds tr k (log_argv (th_thread_id t) (lit ''3'') None) (PList entries)" "length entries \<le> 3"
    and p: "log_page (th_thread_id t) None entries = Inr page"
    and x: "find_execution page = Inr \<lparr>ex_model = pf_model (sr_profile q), ex_reasoning_level = pf_reasoning_level (sr_profile q)\<rparr>"
    using spawn_established [OF assms] by blast
  obtain before entry after execution where f: "page = before @ entry # after" "\<forall>e \<in> set before. \<forall>y. \<not> spawn_turn e y"
      "spawn_turn entry execution" "require_str ''model'' execution = Some (pf_model (sr_profile q))"
      "require_str ''reasoningLevel'' execution = Some (pf_reasoning_level (sr_profile q))"
    using find_execution_turn [OF x] by auto
  have m: "entries = map PDict page" "list_all (\<lambda>e. require_str ''threadId'' e = Some (th_thread_id t)) page"
    using log_page_advances [OF p] by simp_all
  show ?thesis
    by (intro exI [of _ h] exI [of _ d] exI [of _ k] exI [of _ before] exI [of _ entry] exI [of _ after] exI [of _ execution] conjI)
      (use e m f in simp_all)
qed

section \<open>A message\<close>

lemma queued_cases:
  "queued_from i v = Inr k \<Longrightarrow> \<exists>d. v = PDict d \<and> dget ''ok'' d = Some (PBool True) \<and> require_str ''threadId'' d = Some i \<and>
     require_str ''mode'' d = Some (lit ''queue'') \<and> k = \<lparr>qu_thread_id = i, qu_mode = lit ''queue''\<rparr>"
  "queued_from i v = Inl f \<Longrightarrow> rf_reason f = REFUSAL_AMBIGUOUS"
  by (cases v; auto simp: queued_from_def performed_def bb_refuse_def split: if_splits option.splits)+

text \<open>
  C30. A message is told at most once, and never reported as a clean failure after the program accepted it. A send makes at most two
  calls, of which at most one tells. It reports the message as queued only if the program said so, for that thread; and once the
  tell was made, a refusal is ambiguous or the program ended with a nonzero exit code.
\<close>

theorem send_never_clean_failure:
  assumes "send tr i m mode c = (r, c')"
  shows "\<exists>cs. bc_calls c' = bc_calls c @ cs \<and> length cs \<le> 2 \<and> filter task_bearing cs \<in> {[], [tell_argv i m]} \<and>
    (case r of
       Inr k \<Rightarrow> qu_thread_id k = i \<and>
         (\<exists>d. responds tr (butlast (bc_calls c')) (tell_argv i m) (PDict d) \<and> dget ''ok'' d = Some (PBool True) \<and>
           require_str ''threadId'' d = Some i \<and> require_str ''mode'' d = Some (lit ''queue''))
     | Inl (Escaped e) \<Rightarrow> True
     | Inl (Refused f) \<Rightarrow>
         tell_argv i m \<in> set cs \<longrightarrow> rf_reason f = REFUSAL_AMBIGUOUS \<or>
           rf_reason f = REFUSAL_TRANSPORT_FAILED \<and> exits_nonzero tr (butlast (bc_calls c')) (tell_argv i m))"
proof -
  obtain out c1 where g: "gate tr c = (out, c1)" by fastforce
  obtain gs where gs: "bc_calls c1 = bc_calls c @ gs" "length gs \<le> 1" "filter task_bearing gs = []" "tell_argv i m \<notin> set gs"
    by (rule gate_calls [OF g])
  consider (early) e where "r = Inl e" "c' = c1" | (tell) "send_queued tr i m c1 = (r, c')"
    using assms g by (auto simp: send_def and_then_eq split: if_splits)
  then show ?thesis
  proof cases
    case early
    then show ?thesis using gs by (intro exI [of _ gs]) (auto split: bb_fail.split)
  next
    case tell
    then obtain t where t: "task_json tr (tell_argv i m) c1 = (t, c')"
      "(\<exists>e. t = Inl e \<and> r = Inl e) \<or> (\<exists>v. t = Inr v \<and> checked (queued_from i v) c' = (r, c'))"
      by (auto simp: send_queued_def and_then_eq checked_eq)
    have calls: "bc_calls c' = bc_calls c1 @ [tell_argv i m]" using task_json_log [OF t(1)] by simp
    have "case r of
         Inr k \<Rightarrow> qu_thread_id k = i \<and>
           (\<exists>d. responds tr (bc_calls c1) (tell_argv i m) (PDict d) \<and> dget ''ok'' d = Some (PBool True) \<and>
             require_str ''threadId'' d = Some i \<and> require_str ''mode'' d = Some (lit ''queue''))
       | Inl (Escaped e) \<Rightarrow> True
       | Inl (Refused f) \<Rightarrow> rf_reason f = REFUSAL_AMBIGUOUS \<or>
           rf_reason f = REFUSAL_TRANSPORT_FAILED \<and> exits_nonzero tr (bc_calls c1) (tell_argv i m)"
      using t(2) task_json_refused [of tr "tell_argv i m" c1 _ c'] task_json_Inr [of tr "tell_argv i m" c1 _ c'] t(1)
      by (auto simp: checked_eq split: bb_fail.split sum.split dest!: queued_cases)
    then show ?thesis
      using gs calls by (intro exI [of _ "gs @ [tell_argv i m]"]) (auto simp: butlast_append split: sum.splits bb_fail.splits)
  qed
qed

section \<open>Pages of events\<close>

text \<open>An event is what an entry of the log says: its number, id, type, data (none is empty) and the turn its scope names.\<close>

definition event_of_log :: "pydict \<Rightarrow> bb_event \<Rightarrow> bool" where
  "event_of_log entry v \<longleftrightarrow> dget ''seq'' entry = Some (PInt (ev_seq v)) \<and> dget ''id'' entry = Some (PStr (ev_event_id v)) \<and>
     dget ''type'' entry = Some (PStr (ev_event_type v)) \<and>
     (dget ''data'' entry = None \<and> ev_data v = [] \<or> dget ''data'' entry = Some (PDict (ev_data v))) \<and>
     (\<forall>turn. ev_turn_id v = Some turn \<longleftrightarrow>
        (\<exists>scope. dget ''scope'' entry = Some (PDict scope) \<and> dget ''kind'' scope = Some (sv ''turn'') \<and>
           dget ''turnId'' scope = Some (PStr turn) \<and> turn \<noteq> []))"

lemma require_str_Some: "require_str f d = Some t \<longleftrightarrow> dget f d = Some (PStr t) \<and> t \<noteq> []"
  by (auto simp: require_str_def split: option.splits pyval.splits if_splits)

lemma dget_none_int: "dget_none f d = PInt z \<longleftrightarrow> dget f d = Some (PInt z)"
  by (auto simp: dget_none_def split: option.splits)

lemma event_from_of_log:
  assumes "event_from entry = Inr v" and "dget_none ''seq'' entry = PInt z"
  shows "event_of_log entry v"
proof -
  obtain i t data where e: "require_str ''id'' entry = Some i" "require_str ''type'' entry = Some t"
      "(case dget ''data'' entry of None \<Rightarrow> PDict [] | Some x \<Rightarrow> x) = PDict data"
      "v = \<lparr>ev_seq = z, ev_event_id = i, ev_event_type = t, ev_data = data,
         ev_turn_id = (case dget_none ''scope'' entry of
             PDict scope \<Rightarrow> if dget ''kind'' scope = Some (sv ''turn'') then require_str ''turnId'' scope else None
           | _ \<Rightarrow> None)\<rparr>"
    using assms by (auto simp: event_from_def split: option.splits pyval.splits)
  have "ev_turn_id v = Some turn \<longleftrightarrow>
      (\<exists>scope. dget ''scope'' entry = Some (PDict scope) \<and> dget ''kind'' scope = Some (sv ''turn'') \<and>
         dget ''turnId'' scope = Some (PStr turn) \<and> turn \<noteq> [])" for turn
    unfolding e(4) by (cases "dget_none ''scope'' entry") (auto simp: dget_none_dict [symmetric] require_str_Some)
  then show ?thesis
    using e(1-3) assms(2) unfolding event_of_log_def
    by (auto simp: e(4) require_str_Some dget_none_int split: option.splits)
qed

lemma events_of_log:
  "rmap event_from entries = Inr es \<Longrightarrow> map (dget_none ''seq'') entries = map PInt zs \<Longrightarrow>
     list_all2 event_of_log entries es \<and> map ev_seq es = zs"
proof (induction entries arbitrary: es zs)
  case (Cons e entries)
  then obtain z zs' v es' where z: "zs = z # zs'" "dget_none ''seq'' e = PInt z" "map (dget_none ''seq'') entries = map PInt zs'"
      "es = v # es'" "event_from e = Inr v" "rmap event_from entries = Inr es'"
    by (cases zs) (auto split: sum.splits)
  have "event_of_log e v" by (rule event_from_of_log [OF z(5,2)])
  moreover from this have "ev_seq v = z" using z(2) by (simp add: event_of_log_def dget_none_int)
  ultimately show ?case using Cons.IH [OF z(6,3)] z(1,4) by simp
qed simp

lemma events_after_page:
  assumes "events_after tr i (PInt a) (PInt n) c = (Inr page, c')"
  shows "1 \<le> n \<and> n \<le> MAX_EVENT_PAGE \<and> page = event_page n (pg_events page) \<and> int (length (pg_events page)) \<le> n \<and>
    sorted_wrt (<) (a # map ev_seq (pg_events page)) \<and>
    (\<exists>h nt at_text payload. int_text n = Inr nt \<and> int_text a = Inr at_text \<and>
       responds tr h (log_argv i nt (Some at_text)) (PList (map PDict payload)) \<and>
       list_all2 event_of_log payload (pg_events page) \<and>
       list_all (\<lambda>e. require_str ''threadId'' e = Some i) payload)"
proof -
  from assms obtain c1 c2 entries es where e: "1 \<le> n" "n \<le> MAX_EVENT_PAGE" "log_entries tr i (PInt a) n c1 = (Inr entries, c2)"
    "rmap event_from entries = Inr es" "page = event_page n es"
    by (auto simp: events_after_def and_then_eq checked_eq split: if_splits)
  obtain nt at_text payload where l: "int_text n = Inr nt" "int_text a = Inr at_text" "read_json tr (log_argv i nt (Some at_text)) c1 = (Inr (PList payload), c2)"
    "int (length payload) \<le> n" "log_page i (Some a) payload = Inr entries"
    by (rule log_entries_Inr [OF e(3)]) auto
  obtain zs where zs: "map (dget_none ''seq'') entries = map PInt zs" "sorted_wrt (<) (a # zs)" "map PDict entries = payload"
    "list_all (\<lambda>e. require_str ''threadId'' e = Some i) entries"
    using log_page_advances [OF l(5)] by auto
  have ids: "list_all2 event_of_log entries es" "map ev_seq es = zs" using events_of_log [OF e(4) zs(1)] by simp_all
  have "pg_events page = es" using e(5) by (simp add: event_page_def Let_def)
  moreover have "length es = length payload" using rmap_Inr_length [OF e(4)] zs(3) by auto
  moreover have "responds tr (bc_calls c1) (log_argv i nt (Some at_text)) (PList (map PDict entries))"
    using read_json_Inr [OF l(3)] zs(3) by simp
  ultimately show ?thesis
    using e l zs ids by auto
qed

text \<open>
  C32. Replay advances and loses nothing. A page read after a sequence number holds exactly the entries of the response, in order, each
  with the number, id, type, data and turn its entry has, all of the thread asked for, with sequence numbers that rise strictly from that number, at most as many as asked for, which is between
  1 and 100; it declares itself truncated exactly when it is full and then names its last number; and a page read after that number
  continues it, so no event is replayed twice.
\<close>

theorem pages_advance:
  assumes "events_after tr i (PInt a) (PInt n) c = (Inr page, c')"
  shows "1 \<le> n \<and> n \<le> 100 \<and> int (length (pg_events page)) \<le> n \<and> sorted_wrt (<) (a # map ev_seq (pg_events page)) \<and>
    (\<exists>h nt at_text payload. int_text n = Inr nt \<and> int_text a = Inr at_text \<and>
       responds tr h (log_argv i nt (Some at_text)) (PList (map PDict payload)) \<and>
       list_all2 event_of_log payload (pg_events page) \<and>
       list_all (\<lambda>e. require_str ''threadId'' e = Some i) payload) \<and>
    pg_truncated page = (int (length (pg_events page)) = n) \<and>
    pg_next_after_seq page = (if pg_truncated page then Some (ev_seq (last (pg_events page))) else None) \<and>
    (\<forall>b page' k d d'. pg_next_after_seq page = Some b \<and> events_after tr i (PInt b) (PInt k) d = (Inr page', d') \<longrightarrow>
       sorted_wrt (<) (a # map ev_seq (pg_events page @ pg_events page')))"
proof -
  note p = events_after_page [OF assms]
  obtain es where "page = event_page n es" using p by blast
  then have t: "pg_truncated page = (int (length (pg_events page)) = n)"
    "pg_next_after_seq page = (if pg_truncated page then Some (ev_seq (last (pg_events page))) else None)"
    by (simp_all add: event_page_def Let_def)
  have "sorted_wrt (<) (a # map ev_seq (pg_events page @ pg_events page'))"
    if nxt: "pg_next_after_seq page = Some b" and more: "events_after tr i (PInt b) (PInt k) d = (Inr page', d')" for b page' k d d'
  proof -
    have "pg_events page \<noteq> []" "b = ev_seq (last (pg_events page))" using nxt t p by (auto split: if_splits)
    then obtain es e where e: "pg_events page = es @ [e]" "b = ev_seq e" by (metis append_butlast_last_id)
    have "sorted_wrt (<) (b # map ev_seq (pg_events page'))" using events_after_page [OF more] by blast
    then show ?thesis using p e by (auto simp: sorted_wrt_append) (meson order.strict_trans)+
  qed
  then show ?thesis using p t unfolding MAX_EVENT_PAGE_def by blast
qed

section \<open>The version gate\<close>

text \<open>Among these calls one asked for the version and was answered with the pinned one.\<close>

definition pinned_version :: "bb_transport \<Rightarrow> pystr list list \<Rightarrow> bool" where
  "pinned_version tr h \<longleftrightarrow> (\<exists>v. responds tr h version_argv v \<and> reported_version v = Inr (lit PINNED_BB_VERSION))"

definition version_proved :: "bb_transport \<Rightarrow> pystr list list \<Rightarrow> bool" where
  "version_proved tr calls \<longleftrightarrow> (\<exists>i < length calls. calls ! i = version_argv \<and> pinned_version tr (take i calls))"

lemma version_proved_append:
  "version_proved tr (calls @ [a]) \<longleftrightarrow> version_proved tr calls \<or> a = version_argv \<and> pinned_version tr calls"
  by (simp add: version_proved_def Ex_less_Suc nth_append) (auto simp: nth_append)

lemma version_proved_more: "version_proved tr calls \<Longrightarrow> version_proved tr (calls @ cs)"
proof (induction cs rule: rev_induct)
  case (snoc x xs)
  then show ?case using version_proved_append [of tr "calls @ xs" x] by simp
qed simp

text \<open>
  The call a version-mismatch diagnostic makes: it tells, whatever the gate says, and only with the version its caller found
  installed, which is not blank and not the pinned one. \<open>ds\<close> holds the calls diagnostics made, by position, with that version.
\<close>

definition diagnostic_tell :: "(nat \<times> pyval) set \<Rightarrow> nat \<Rightarrow> pystr list \<Rightarrow> bool" where
  "diagnostic_tell ds j a \<longleftrightarrow> (\<exists>v i m. (j, PStr v) \<in> ds \<and> a = tell_argv i m \<and> py_strip v \<noteq> [] \<and> v \<noteq> lit PINNED_BB_VERSION)"

text \<open>Every other task comes after the proof; the version is not asked for again after it; a disabled client calls nothing.\<close>

definition gated_call :: "bb_transport \<Rightarrow> (nat \<times> pyval) set \<Rightarrow> pystr list list \<Rightarrow> pystr list \<Rightarrow> bool" where
  "gated_call tr ds h a \<longleftrightarrow> (task_bearing a \<longrightarrow> version_proved tr h \<or> diagnostic_tell ds (length h) a) \<and>
     (length h \<in> fst ` ds \<longrightarrow> diagnostic_tell ds (length h) a) \<and> (a = version_argv \<longrightarrow> \<not> version_proved tr h)"

definition gated_calls :: "bb_transport \<Rightarrow> (nat \<times> pyval) set \<Rightarrow> pystr list list \<Rightarrow> bool" where
  "gated_calls tr ds calls \<longleftrightarrow> (\<forall>j < length calls. gated_call tr ds (take j calls) (calls ! j)) \<and> fst ` ds \<subseteq> {..<length calls}"

definition client_inv :: "bb_transport \<Rightarrow> bool \<Rightarrow> bb_client \<times> (nat \<times> pyval) set \<Rightarrow> bool" where
  "client_inv tr en s \<longleftrightarrow> (case s of (c, ds) \<Rightarrow>
     bc_enabled c = en \<and> (en \<or> bc_calls c = []) \<and> gated_calls tr ds (bc_calls c) \<and>
     bc_verified_version c = (if version_proved tr (bc_calls c) then Some (lit PINNED_BB_VERSION) else None))"

lemma gated_calls_append:
  assumes "gated_calls tr ds calls"
  shows "gated_calls tr ds (calls @ [a]) \<longleftrightarrow> (task_bearing a \<longrightarrow> version_proved tr calls) \<and> (a = version_argv \<longrightarrow> \<not> version_proved tr calls)"
proof -
  have new: "length calls \<notin> fst ` ds" "fst ` ds \<subseteq> {..<length calls}" using assms by (auto simp: gated_calls_def)
  then have "\<not> diagnostic_tell ds (length calls) a" by (force simp: diagnostic_tell_def)
  then have "gated_call tr ds calls a \<longleftrightarrow> (task_bearing a \<longrightarrow> version_proved tr calls) \<and> (a = version_argv \<longrightarrow> \<not> version_proved tr calls)"
    using new by (simp add: gated_call_def)
  moreover have "fst ` ds \<subseteq> {..<length (calls @ [a])}" using new(2) by force
  ultimately show ?thesis
    using assms by (simp add: gated_calls_def All_less_Suc nth_append)
qed

lemma gated_calls_more:
  assumes "gated_calls tr ds calls" and "version_proved tr calls" and "list_all (\<lambda>a. a \<noteq> version_argv) cs"
  shows "gated_calls tr ds (calls @ cs)"
  using assms(3)
proof (induction cs rule: rev_induct)
  case (snoc x xs)
  then have "gated_calls tr ds (calls @ xs)" by simp
  then show ?case
    using gated_calls_append [of tr ds "calls @ xs" x] version_proved_more [OF assms(2), of xs] snoc.prems by simp
qed (use assms(1) in simp)

text \<open>A diagnostic adds one call of its own, a tell.\<close>

lemma gated_calls_diagnostic:
  assumes "gated_calls tr ds calls" and "py_strip v \<noteq> []" and "v \<noteq> lit PINNED_BB_VERSION"
  shows "gated_calls tr (ds \<union> {(length calls, PStr v)}) (calls @ [tell_argv i m])"
proof -
  let ?ds = "ds \<union> {(length calls, PStr v)}"
  have new: "fst ` ds \<subseteq> {..<length calls}" using assms(1) by (simp add: gated_calls_def)
  have old: "diagnostic_tell ?ds j a \<longleftrightarrow> diagnostic_tell ds j a" "j \<in> fst ` ?ds \<longleftrightarrow> j \<in> fst ` ds" if "j < length calls" for j a
    using that by (auto simp: diagnostic_tell_def)
  have "gated_call tr ?ds (take j calls) (calls ! j)" if "j < length calls" for j
    using assms(1) that old [of j] by (simp add: gated_calls_def gated_call_def min_def del: image_insert)
  moreover have "diagnostic_tell ?ds (length calls) (tell_argv i m)"
    using assms(2,3) unfolding diagnostic_tell_def by blast
  then have "gated_call tr ?ds calls (tell_argv i m)" by (simp add: gated_call_def tell_argv_def version_argv_def)
  moreover have "fst ` ?ds \<subseteq> {..<Suc (length calls)}" using new by force
  ultimately show ?thesis by (simp add: gated_calls_def All_less_Suc nth_append)
qed

lemma read_version_log: "read_json tr version_argv c = (out, c') \<Longrightarrow> c' = c\<lparr>bc_calls := bc_calls c @ [version_argv]\<rparr>"
  by (auto simp: read_json_def and_then_eq checked_eq dest!: call_log)

lemma read_json_responds: "read_json tr argv c = (out, c') \<Longrightarrow> responds tr (bc_calls c) argv v \<Longrightarrow> out = Inr v"
  by (auto simp: read_json_def and_then_eq checked_eq responds_def call_def Let_def)

lemma gate_inv:
  assumes "client_inv tr en (c, ds)" and "gate tr c = (r, c')"
  shows "client_inv tr en (c', ds)" and "r = Inr u \<Longrightarrow> bc_enabled c' \<and> version_proved tr (bc_calls c')"
proof -
  have unproved: "\<not> version_proved tr (bc_calls c)" if "bc_verified_version c = None" using assms(1) that by (auto simp: client_inv_def)
  have "client_inv tr en (c', ds) \<and> (r = Inr u \<longrightarrow> bc_enabled c' \<and> version_proved tr (bc_calls c'))"
    using assms(2)
  proof (cases rule: gate_cases)
    case (known v)
    then show ?thesis using assms(1) by (auto simp: client_inv_def split: if_splits)
  next
    case (failed e)
    have "\<not> pinned_version tr (bc_calls c)" using read_json_responds [OF failed(3)] by (auto simp: pinned_version_def)
    then show ?thesis
      using failed assms(1) unproved read_version_log [OF failed(3)]
      by (auto simp: client_inv_def gated_calls_append version_proved_append)
  next
    case (wrong v f)
    have "\<not> pinned_version tr (bc_calls c)" using read_json_responds [OF wrong(3)] wrong(4) by (auto simp: pinned_version_def)
    then show ?thesis
      using wrong assms(1) unproved read_version_log [OF wrong(3)]
      by (auto simp: client_inv_def gated_calls_append version_proved_append)
  next
    case (proved v c1)
    have "pinned_version tr (bc_calls c)" using read_json_Inr [OF proved(3)] proved(4) by (auto simp: pinned_version_def)
    then show ?thesis
      using proved assms(1) unproved read_version_log [OF proved(3)]
      by (auto simp: client_inv_def gated_calls_append version_proved_append)
  qed (use assms(1) in simp_all)
  then show "client_inv tr en (c', ds)" and "r = Inr u \<Longrightarrow> bc_enabled c' \<and> version_proved tr (bc_calls c')" by simp_all
qed

lemma gated_inv:
  assumes "client_inv tr en (c, ds)" and "and_then (gate tr) f c = (r, c')" and "\<And>x. makes (\<lambda>a. a \<noteq> version_argv) n (f x)"
  shows "client_inv tr en (c', ds)"
proof -
  obtain g c1 where g: "gate tr c = (g, c1)" by fastforce
  show ?thesis
  proof (cases g)
    case (Inl e)
    then show ?thesis using assms(2) g gate_inv(1) [OF assms(1) g] by (simp add: and_then_eq)
  next
    case (Inr u)
    then have f: "f u c1 = (r, c')" using assms(2) g by (simp add: and_then_eq)
    obtain cs where "c' = c1\<lparr>bc_calls := bc_calls c1 @ cs\<rparr>" "list_all (\<lambda>a. a \<noteq> version_argv) cs" by (rule makesD [OF assms(3) f])
    then show ?thesis
      using gate_inv [OF assms(1) g] Inr gated_calls_more [of tr ds "bc_calls c1" cs] version_proved_more [of tr "bc_calls c1" cs]
      by (auto simp: client_inv_def split: if_splits)
  qed
qed

section \<open>The client as a transition system\<close>

text \<open>
  Every public operation; its outcome does not matter. Beside the client the state carries which calls a version-mismatch diagnostic made,
  since the log alone does not tell its message from one that \<open>send\<close> told.
\<close>

inductive client_step :: "bb_transport \<Rightarrow> bb_client \<times> (nat \<times> pyval) set \<Rightarrow> bb_client \<times> (nat \<times> pyval) set \<Rightarrow> bool" for tr where
  verifies: "verify_version tr c = (v, c') \<Longrightarrow> client_step tr (c, ds) (c', ds)"
| spawns: "spawn tr q c = (t, c') \<Longrightarrow> client_step tr (c, ds) (c', ds)"
| sends: "send tr i m mode c = (k, c') \<Longrightarrow> client_step tr (c, ds) (c', ds)"
| diagnoses: "send_version_mismatch_diagnostic tr i m installed c = (k, c') \<Longrightarrow>
    client_step tr (c, ds) (c', ds \<union> {length (bc_calls c)..<length (bc_calls c')} \<times> {installed})"
| shows_thread: "thread_state tr i c = (t, c') \<Longrightarrow> client_step tr (c, ds) (c', ds)"
| lists_plugins: "plugin_status tr p c = (s, c') \<Longrightarrow> client_step tr (c, ds) (c', ds)"
| replays: "events_after tr i a n c = (page, c') \<Longrightarrow> client_step tr (c, ds) (c', ds)"
| counts_queue: "queued_messages tr i c = (n, c') \<Longrightarrow> client_step tr (c, ds) (c', ds)"

lemma other_argv [simp]:
  "tell_argv i m \<noteq> version_argv" "[lit ''thread'', lit ''show'', i, lit ''--json''] \<noteq> version_argv"
  "[lit ''plugin'', lit ''list'', lit ''--json''] \<noteq> version_argv" "[lit ''thread'', lit ''queue'', lit ''list'', i, lit ''--json''] \<noteq> version_argv"
  by (simp_all add: tell_argv_def version_argv_def)

lemma makes_task [makes_intros]: "P argv \<Longrightarrow> makes P 1 (task_json tr argv)"
  unfolding makes_def by (auto dest!: task_json_log)

lemma spawn_state:
  assumes "spawn tr q c = (r, c')"
  shows "c' = c \<or>
    (\<exists>out. and_then (gate tr) (\<lambda>_. and_then (refusing (task_json tr (spawn_argv q)) (classified True)) (verify_spawned tr q)) c = (out, c'))"
  using assms by (cases rule: spawn_cases) (auto simp: and_then_eq refusing_eq)

lemma makes_spawn: "makes (\<lambda>a. a \<noteq> version_argv) (1 + 1) (and_then (refusing (task_json tr (spawn_argv q)) (classified True)) (verify_spawned tr q))"
  by (intro makes_and_then makes_refusing makes_task makes_weaken [OF makes_verify]) auto

lemma makes_events:
  "makes (\<lambda>a. a \<noteq> version_argv) 1 (case limit of
       PInt n \<Rightarrow>
         if \<not> (1 \<le> n \<and> n \<le> MAX_EVENT_PAGE) then refused REFUSAL_MALFORMED_RESPONSE ''limit is outside 1..100''
         else
           and_then (log_entries tr i after_seq n) (\<lambda>entries.
           and_then (checked (rmap event_from entries)) (\<lambda>events. give (event_page n events)))
     | _ \<Rightarrow> refused REFUSAL_MALFORMED_RESPONSE ''limit is not an integer'')"
proof -
  have "makes (\<lambda>a. a \<noteq> version_argv) 1 (log_entries tr i after_seq n)" for n by (rule makes_weaken [OF makes_log]) auto
  then show ?thesis by (cases limit) (auto intro!: makes_then(1) makes_pure)
qed

lemma makes_read_then:
  "argv \<noteq> version_argv \<Longrightarrow> (\<And>v c. snd (f v c) = c) \<Longrightarrow> makes (\<lambda>a. a \<noteq> version_argv) 1 (and_then (read_json tr argv) f)"
  by (intro makes_then(1) makes_read makes_idle) (auto, metis snd_conv)

lemma client_inv_step:
  assumes "client_inv tr en (c, ds)" and "client_step tr (c, ds) (c', ds')"
  shows "client_inv tr en (c', ds')"
  using assms(2)
proof cases
  case (verifies v)
  from verifies(2) have "\<exists>r. gate tr c = (r, c')" by (cases v) (auto simp: gate_def and_then_def)
  then show ?thesis using gate_inv(1) [OF assms(1)] verifies(1) by blast
next
  case (spawns q t)
  from spawn_state [OF spawns(2)] show ?thesis
    using assms(1) spawns(1) gated_inv [OF assms(1), where f = "\<lambda>_. and_then (refusing (task_json tr (spawn_argv q)) (classified True)) (verify_spawned tr q)",
        OF _ makes_spawn] by blast
next
  case (sends i m mode k)
  have "makes (\<lambda>a. a \<noteq> version_argv) 1
     (if mode \<noteq> lit ''queue-if-active'' then refused REFUSAL_PROFILE_MISMATCH ''mode is not implemented in Slice 1A; only queue-if-active''
      else send_queued tr i m)"
    by (auto simp: send_queued_def intro!: makes_then(1) makes_pure makes_task [unfolded One_nat_def])
  then show ?thesis using gated_inv [OF assms(1) sends(2) [unfolded send_def]] sends(1) by blast
next
  case (diagnoses i m installed k)
  from diagnoses(2) consider (idle) "c' = c"
    | (tells) v where "installed = PStr v" "py_strip v \<noteq> []" "v \<noteq> lit PINNED_BB_VERSION" "bc_enabled c" "send_queued tr i m c = (k, c')"
    by (auto simp: send_version_mismatch_diagnostic_def split: if_splits pyval.splits)
  then show ?thesis
  proof cases
    case idle
    then show ?thesis using assms(1) diagnoses(1) by simp
  next
    case (tells v)
    then have c': "c' = c\<lparr>bc_calls := bc_calls c @ [tell_argv i m]\<rparr>"
      by (auto simp: send_queued_def and_then_eq checked_eq split: sum.splits dest!: task_json_log)
    have "ds' = ds \<union> {(length (bc_calls c), PStr v)}" using diagnoses(1) c' tells(1) by auto
    then show ?thesis
      using assms(1) c' tells(4) gated_calls_diagnostic [OF _ tells(2,3), of tr ds "bc_calls c" i m]
      by (auto simp: client_inv_def version_proved_append)
  qed
next
  case (shows_thread i t)
  show ?thesis unfolding shows_thread(1)
    by (rule gated_inv [OF assms(1) shows_thread(2) [unfolded thread_state_def]], rule makes_read_then)
      (auto simp: and_then_def checked_def refused_def give_def split: sum.split)
next
  case (lists_plugins p s)
  show ?thesis unfolding lists_plugins(1)
    by (rule gated_inv [OF assms(1) lists_plugins(2) [unfolded plugin_status_def]], rule makes_read_then) (auto simp: checked_def split: sum.split)
next
  case (replays i a n page)
  show ?thesis unfolding replays(1) by (rule gated_inv [OF assms(1) replays(2) [unfolded events_after_def] makes_events])
next
  case (counts_queue i n)
  show ?thesis unfolding counts_queue(1)
    by (rule gated_inv [OF assms(1) counts_queue(2) [unfolded queued_messages_def]], rule makes_read_then)
      (auto simp: refused_def give_def split: pyval.split)
qed

interpretation bb: invariant_system "\<lambda>s. s = (new_client en, {})" "client_step tr" "client_inv tr en" for tr en
proof unfold_locales
  show "client_inv tr en s" if "s = (new_client en, {})" for s
    using that by (simp add: client_inv_def new_client_def gated_calls_def version_proved_def)
  show "client_inv tr en t" if "client_inv tr en s" "client_step tr s t" for s t
    using client_inv_step [of tr en "fst s" "snd s" "fst t" "snd t"] that by simp
qed

text \<open>
  C31. No task before the pinned version was proved. In every run of public operations, a disabled client calls nothing. An enabled one
  spawns or tells only after the program answered an earlier version call with exactly the pinned version, with one exception: the
  one tell of a version-mismatch diagnostic, whose caller named an installed version that is neither blank nor the pinned one; a diagnostic
  makes no other call. Once the version was proved it is not asked for again.
\<close>

theorem version_before_task:
  assumes "(client_step tr)\<^sup>*\<^sup>* (new_client enabled, {}) (c, ds)" and "j < length (bc_calls c)"
  shows "enabled \<and>
    (task_bearing (bc_calls c ! j) \<longrightarrow>
       (\<exists>i < j. \<exists>v. bc_calls c ! i = version_argv \<and> responds tr (take i (bc_calls c)) version_argv v \<and>
          reported_version v = Inr (lit PINNED_BB_VERSION)) \<or> j \<in> fst ` ds) \<and>
    (j \<in> fst ` ds \<longrightarrow> (\<exists>installed i m. (j, PStr installed) \<in> ds \<and> bc_calls c ! j = tell_argv i m \<and>
       py_strip installed \<noteq> [] \<and> installed \<noteq> lit PINNED_BB_VERSION)) \<and>
    (bc_calls c ! j = version_argv \<longrightarrow>
       \<not> (\<exists>i < j. \<exists>v. bc_calls c ! i = version_argv \<and> responds tr (take i (bc_calls c)) version_argv v \<and>
          reported_version v = Inr (lit PINNED_BB_VERSION)))"
proof -
  have inv: "client_inv tr enabled (c, ds)" by (rule bb.inv_reachable [OF refl assms(1)])
  have v: "version_proved tr (take j (bc_calls c)) \<longleftrightarrow>
      (\<exists>i < j. \<exists>v. bc_calls c ! i = version_argv \<and> responds tr (take i (bc_calls c)) version_argv v \<and> reported_version v = Inr (lit PINNED_BB_VERSION))"
    using assms(2) by (auto simp: version_proved_def pinned_version_def min_def)
  have "gated_call tr ds (take j (bc_calls c)) (bc_calls c ! j)" "enabled"
    using inv assms(2) by (auto simp: client_inv_def gated_calls_def)
  then show ?thesis
    using assms(2) unfolding gated_call_def v by (force simp: diagnostic_tell_def min_def)
qed

end
