(* ===== verification/BbSpawn.thy ===== *)
theory BbSpawn
  imports BbProps
begin

text \<open>
  One gated spawn: the preflight and the assignment record of \<open>llm_collab/spawn_gate.py\<close>, and the command that runs them,
  \<open>bin/bb_spawn.py\<close>. Git is a transport of its own and a parameter, as are the coverage of the watchers, the writer of the record and the
  printing of the result. The registered project is its dictionary with the value of \<open>repos\<close> apart, because that one holds paths.
\<close>

section \<open>The registered project\<close>

datatype repo_path = AbsolutePath pystr | NotAPath

record registry_project =
  rg_entry :: "pydict option"
  rg_repos :: "(pyval \<times> repo_path) list option"

definition bb_settings :: "pydict option \<Rightarrow> pydict option" where
  "bb_settings project = (case project of None \<Rightarrow> None | Some d \<Rightarrow> (case dget ''bb'' d of Some (PDict b) \<Rightarrow> Some b | _ \<Rightarrow> None))"

text \<open>The project id for one repository, or the field that refuses it and whether it held any text.\<close>

definition bb_project_id_from_project :: "pydict option \<Rightarrow> pystr \<Rightarrow> pystr option \<Rightarrow> (string \<times> bool) + pystr" where
  "bb_project_id_from_project project fallback repo_target =
     (let checked = (\<lambda>field v. case v of
            PStr s \<Rightarrow> if s = [] \<or> s \<noteq> py_strip s then Inl (field, s \<noteq> []) else Inr s
          | _ \<Rightarrow> Inl (field, False)) in
      case bb_settings project of
        None \<Rightarrow> checked ''bb.project_id'' (PStr fallback)
      | Some bb \<Rightarrow>
          (case dget ''project_ids'' bb of
             None \<Rightarrow> checked ''bb.project_id'' (case dget ''project_id'' bb of None \<Rightarrow> PStr fallback | Some v \<Rightarrow> v)
           | Some (PDict ids) \<Rightarrow>
               (case repo_target of
                  None \<Rightarrow> Inl (''bb.project_ids repo target'', False)
                | Some t \<Rightarrow>
                    (case map_of ids (PStr t) of
                       None \<Rightarrow> Inl (''bb.project_ids'', False)
                     | Some v \<Rightarrow> checked ''bb.project_ids'' v))
           | Some v \<Rightarrow> Inl (''bb.project_ids'', (case v of PStr s \<Rightarrow> s \<noteq> [] | _ \<Rightarrow> False))))"

section \<open>The preflight\<close>

definition EXCLUDED_MODELS :: "(pystr \<times> pystr) list" where
  "EXCLUDED_MODELS = [(lit ''pi'', lit ''meta/muse-spark-1.2-contributor''), (lit ''pi'', lit ''zai/glm-5.2'')]"

definition ALLOWED_CLAUDE_PROFILE :: bb_profile where
  "ALLOWED_CLAUDE_PROFILE =
     \<lparr>pf_provider = lit ''claude-code'', pf_model = lit ''claude-opus-5[1m]'', pf_reasoning_level = lit ''medium''\<rparr>"

definition FABLE_MODEL :: string where "FABLE_MODEL = ''claude-fable-5''"

record gate_refusal =
  gr_reason :: string
  gr_detail :: string

definition gate_refuse :: "string \<Rightarrow> string \<Rightarrow> gate_refusal" where
  "gate_refuse reason detail = \<lparr>gr_reason = reason, gr_detail = detail\<rparr>"

datatype isolation = NewWorktree | Attached pystr

record spawn_plan =
  sp_project_id :: pystr
  sp_native_project_id :: pystr
  sp_repo_path :: pystr
  sp_base_sha :: pystr
  sp_environment :: isolation
  sp_profile :: bb_profile
  sp_permission_mode :: "pystr option"
  sp_title :: "pystr option"
  sp_prompt :: pystr

record plan_request =
  pq_assignment_kind :: pystr
  pq_registry :: registry_project
  pq_repo_target :: "pystr option"
  pq_base_sha :: pystr
  pq_environment :: "isolation option"
  pq_provider :: "pystr option"
  pq_model :: "pystr option"
  pq_reasoning_level :: "pystr option"
  pq_permission_mode :: "pystr option"
  pq_title :: "pystr option"
  pq_prompt :: pystr

definition hex_char :: "nat \<Rightarrow> bool" where
  "hex_char c \<longleftrightarrow> 48 \<le> c \<and> c \<le> 57 \<or> 97 \<le> c \<and> c \<le> 102 \<or> 65 \<le> c \<and> c \<le> 70"

definition is_sha :: "pystr \<Rightarrow> bool" where
  "is_sha s \<longleftrightarrow> length s = 40 \<and> list_all hex_char s"

text \<open>\<open>str.lower()\<close> where only the hexadecimal digits of the result matter: no character beyond ASCII lowers to one of them.\<close>

definition ascii_lower :: "pystr \<Rightarrow> pystr" where
  "ascii_lower = map (\<lambda>c. if 65 \<le> c \<and> c \<le> 90 then c + 32 else c)"

definition profile_gate :: "plan_request \<Rightarrow> gate_refusal + bb_profile" where
  "profile_gate p =
     (case (pq_provider p, pq_model p, pq_reasoning_level p) of
        (Some provider, Some model, Some level) \<Rightarrow>
          if provider = [] \<or> model = [] \<or> level = [] then
            Inl (gate_refuse ''incomplete_profile'' ''frozen assignment triple is incomplete'')
          else if pq_assignment_kind p \<notin> {lit ''read-only'', lit ''writing''} then
            Inl (gate_refuse ''invalid_assignment_kind'' ''unknown assignment kind'')
          else if provider = lit ''claude-code'' \<and> model = lit FABLE_MODEL then
            Inl (gate_refuse ''supervisor_only_profile'' ''claude-code / claude-fable-5 is supervisor-only'')
          else
            let profile = \<lparr>pf_provider = provider, pf_model = model, pf_reasoning_level = level\<rparr> in
            if provider = lit ''claude-code'' \<and> profile \<noteq> ALLOWED_CLAUDE_PROFILE then
              Inl (gate_refuse ''unsupported_claude_profile'' ''Claude Code assignments require claude-opus-5[1m] / medium'')
            else if (provider, model) \<in> set EXCLUDED_MODELS then
              Inl (gate_refuse ''excluded_model'' ''excluded from assignments'')
            else Inr profile
      | _ \<Rightarrow> Inl (gate_refuse ''incomplete_profile'' ''frozen assignment triple is incomplete''))"

definition isolation_gate :: "plan_request \<Rightarrow> gate_refusal + isolation" where
  "isolation_gate p =
     (case pq_environment p of
        None \<Rightarrow> Inl (gate_refuse ''isolation_required'' ''assignment isolation requires a new worktree or attached environment'')
      | Some (Attached i) \<Rightarrow>
          if i = [] then Inl (gate_refuse ''isolation_required'' ''attached environment id is empty'') else Inr (Attached i)
      | Some NewWorktree \<Rightarrow> Inr NewWorktree)"

definition base_gate :: "plan_request \<Rightarrow> gate_refusal + pystr" where
  "base_gate p =
     (if is_sha (pq_base_sha p) then Inr (ascii_lower (pq_base_sha p))
      else Inl (gate_refuse ''invalid_base_sha'' ''branch name or malformed revision; expected 40 hex''))"

definition repo_keys :: "registry_project \<Rightarrow> pystr list" where
  "repo_keys g =
     (case rg_repos g of
        None \<Rightarrow> []
      | Some repos \<Rightarrow> sort (concat (map (\<lambda>kv. case fst kv of PStr k \<Rightarrow> if k = [] then [] else [k] | _ \<Rightarrow> []) repos)))"

text \<open>The project id, the base branch, bb's project id and the path of the selected repository.\<close>

definition registry_gate :: "registry_project \<Rightarrow> pystr option \<Rightarrow> gate_refusal + pystr \<times> pystr \<times> pystr \<times> pystr" where
  "registry_gate g repo_target =
     (case rg_entry g of
        None \<Rightarrow> Inl (gate_refuse ''registry_project_invalid'' ''registered project is not an object'')
      | Some d \<Rightarrow>
          (case require_str ''id'' d of
             None \<Rightarrow> Inl (gate_refuse ''registry_project_invalid'' ''registered project has no id'')
           | Some project_id \<Rightarrow>
               let base_ref = (case dget_none ''default_branch_base'' d of PStr s \<Rightarrow> py_strip s | _ \<Rightarrow> []);
                   keys = repo_keys g;
                   selected = (case repo_target of None \<Rightarrow> hd keys | Some [] \<Rightarrow> hd keys | Some t \<Rightarrow> t) in
               if base_ref = [] then Inl (gate_refuse ''registry_base_missing'' ''registered project has no default_branch_base'')
               else if (case bb_settings (Some d) of None \<Rightarrow> True | Some bb \<Rightarrow> dget ''enabled'' bb \<noteq> Some (PBool True)) then
                 Inl (gate_refuse ''bb_disabled'' ''bb adapter is not enabled for this project'')
               else if keys = [] then Inl (gate_refuse ''registry_repo_missing'' ''registered project has no repositories'')
               else if repo_target = None \<and> length keys \<noteq> 1 then
                 Inl (gate_refuse ''registry_repo_ambiguous'' ''repo target is required'')
               else if selected \<notin> set keys then
                 Inl (gate_refuse ''registry_repo_missing'' ''repo target is not a configured path'')
               else
                 case bb_project_id_from_project (Some d) project_id (Some selected) of
                   Inl (field, nonempty) \<Rightarrow>
                     Inl (gate_refuse ''registry_bb_project_invalid''
                       (field @ (if nonempty then '' has surrounding whitespace'' else '' is invalid'')))
                 | Inr native \<Rightarrow>
                     (case map_of (the (rg_repos g)) (PStr selected) of
                        Some (AbsolutePath path) \<Rightarrow> Inr (project_id, base_ref, native, path)
                      | _ \<Rightarrow> Inl (gate_refuse ''registry_repo_missing'' ''repo target did not resolve''))))"

section \<open>Git\<close>

text \<open>
  \<open>int(text)\<close>. A decimal digit of any script counts: \<open>decimal_zeros\<close> lists the zeros of Unicode 14, the version of
  Python 3.11, each followed by its nine digits. Any other character beyond ASCII is invalid, unless it is outer whitespace.
\<close>

definition decimal_zeros :: "nat list" where
  "decimal_zeros =
    [0x660, 0x6F0, 0x7C0, 0x966, 0x9E6, 0xA66, 0xAE6, 0xB66, 0xBE6, 0xC66, 0xCE6, 0xD66, 0xDE6,
     0xE50, 0xED0, 0xF20, 0x1040, 0x1090, 0x17E0, 0x1810, 0x1946, 0x19D0, 0x1A80, 0x1A90, 0x1B50, 0x1BB0,
     0x1C40, 0x1C50, 0xA620, 0xA8D0, 0xA900, 0xA9D0, 0xA9F0, 0xAA50, 0xABF0, 0xFF10, 0x104A0, 0x10D30, 0x11066,
     0x110F0, 0x11136, 0x111D0, 0x112F0, 0x11450, 0x114D0, 0x11650, 0x116C0, 0x11730, 0x118E0, 0x11950, 0x11C50, 0x11D50,
     0x11DA0, 0x16A60, 0x16AC0, 0x16B50, 0x1D7CE, 0x1D7D8, 0x1D7E2, 0x1D7EC, 0x1D7F6, 0x1E140, 0x1E2F0, 0x1E950, 0x1FBF0]"

definition ascii_decimal :: "nat \<Rightarrow> nat" where
  "ascii_decimal c =
     (if c < 128 then c
      else case List.find (\<lambda>z. z \<le> c \<and> c < z + 10) decimal_zeros of Some z \<Rightarrow> 48 + (c - z) | None \<Rightarrow> 63)"

lemma ascii_decimal_ascii [simp]: "c < 128 \<Longrightarrow> ascii_decimal c = c"
  by (simp add: ascii_decimal_def)

definition py_int :: "pystr \<Rightarrow> pyerr + int" where
  "py_int s =
     (let t = map ascii_decimal (py_strip s);
          neg = (t \<noteq> [] \<and> hd t = 45);
          ds = (if t \<noteq> [] \<and> (hd t = 45 \<or> hd t = 43) then tl t else t);
          parts = split_on 95 ds;
          digits = concat parts in
      if list_ex (\<lambda>p. p = [] \<or> \<not> list_all is_digit p) parts then Inl (ValueErr ''invalid literal for int()'')
      else if int_max_str_digits < length digits then Inl (ValueErr ''Exceeds the limit for integer string conversion'')
      else Inr ((if neg then -1 else 1) * int (digits_value digits)))"

lemma py_int_error: "py_int s = Inl e \<Longrightarrow> \<exists>m. e = ValueErr m"
  by (auto simp: py_int_def Let_def split: if_splits)

datatype gate_fail = GateFailed gate_refusal | GateEscaped pyerr

type_synonym 'a git_act = "pystr list list \<Rightarrow> (gate_fail + 'a) \<times> pystr list list"

definition gate_fails :: "string \<Rightarrow> string \<Rightarrow> 'a git_act" where
  "gate_fails reason detail h = (Inl (GateFailed (gate_refuse reason detail)), h)"

definition planned :: "gate_refusal + 'a \<Rightarrow> 'a git_act" where
  "planned r h = (case r of Inl f \<Rightarrow> (Inl (GateFailed f), h) | Inr x \<Rightarrow> (Inr x, h))"

definition git_read :: "bb_transport \<Rightarrow> pystr \<Rightarrow> pystr list \<Rightarrow> bb_transport_result git_act" where
  "git_read tr repo argv h =
     (let command = [lit ''-C'', repo] @ argv in
      case tr h command of
        Answered r \<Rightarrow> (Inr r, h @ [command])
      | OtherRaised e \<Rightarrow>
          if e = OSErr then gate_fails ''git_read_failed'' ''git failed'' (h @ [command]) else (Inl (GateEscaped e), h @ [command])
      | _ \<Rightarrow> gate_fails ''git_read_failed'' ''git failed'' (h @ [command]))"

definition git :: "bb_transport \<Rightarrow> pystr \<Rightarrow> pystr list \<Rightarrow> int list \<Rightarrow> bb_transport_result git_act" where
  "git tr repo argv allowed =
     and_then (git_read tr repo argv) (\<lambda>r.
     if tr_exit_code r \<notin> set allowed then gate_fails ''git_read_failed'' ''git failed with an exit code'' else planned (Inr r))"

definition rev_parse_argv :: "pystr \<Rightarrow> pystr list" where
  "rev_parse_argv revision = [lit ''rev-parse'', lit ''--verify'', revision @ lit ''^{commit}'']"

definition origin_ref :: "pystr \<Rightarrow> pystr" where
  "origin_ref base_ref = lit ''origin/'' @ base_ref"

definition git_output :: "bb_transport_result \<Rightarrow> pystr" where
  "git_output r = ascii_lower (py_strip (tr_stdout r))"

definition drift_gate :: "bb_transport_result \<Rightarrow> unit git_act" where
  "drift_gate drift h =
     (case py_int (tr_stdout drift) of
        Inl (Unmodelled m) \<Rightarrow> (Inl (GateEscaped (Unmodelled m)), h)
      | Inl _ \<Rightarrow> gate_fails ''git_read_failed'' ''git rev-list returned a non-integer count'' h
      | Inr behind \<Rightarrow> if behind \<noteq> 0 then gate_fails ''base_behind_origin'' ''base is behind origin'' h else (Inr (), h))"

definition git_gate :: "bb_transport \<Rightarrow> pystr \<Rightarrow> pystr \<Rightarrow> pystr \<Rightarrow> unit git_act" where
  "git_gate tr repo base_ref exact_base =
     and_then (git tr repo [lit ''fetch'', lit ''--quiet'', lit ''origin'', base_ref] [0]) (\<lambda>_.
     and_then (git tr repo (rev_parse_argv exact_base) [0]) (\<lambda>resolved.
     if git_output resolved \<noteq> exact_base then gate_fails ''invalid_base_sha'' ''base did not resolve exactly''
     else
       and_then (git tr repo (rev_parse_argv (origin_ref base_ref)) [0]) (\<lambda>origin.
       if \<not> is_sha (git_output origin) then gate_fails ''git_read_failed'' ''git returned a malformed SHA''
       else
         and_then (git tr repo [lit ''merge-base'', lit ''--is-ancestor'', exact_base, git_output origin] [0, 1]) (\<lambda>ancestor.
         if tr_exit_code ancestor = 1 then gate_fails ''base_not_ancestor'' ''base is not an ancestor''
         else
           and_then (git tr repo [lit ''rev-list'', lit ''--count'', exact_base @ lit ''..'' @ git_output origin] [0]) drift_gate))))"

definition plan_spawn :: "bb_transport \<Rightarrow> plan_request \<Rightarrow> spawn_plan git_act" where
  "plan_spawn tr p =
     and_then (planned (profile_gate p)) (\<lambda>profile.
     and_then (planned (isolation_gate p)) (\<lambda>environment.
     and_then (planned (base_gate p)) (\<lambda>exact_base.
     and_then (planned (registry_gate (pq_registry p) (pq_repo_target p))) (\<lambda>(project_id, base_ref, native, path).
     and_then (git_gate tr path base_ref exact_base) (\<lambda>_.
     planned (Inr \<lparr>sp_project_id = project_id, sp_native_project_id = native, sp_repo_path = path, sp_base_sha = exact_base,
       sp_environment = environment, sp_profile = profile, sp_permission_mode = pq_permission_mode p, sp_title = pq_title p,
       sp_prompt = pq_prompt p\<rparr>))))))"

section \<open>The assignment record\<close>

datatype spawn_outcome = NoOutcome | ThreadOutcome bb_thread | RefusalOutcome bb_refusal
datatype spawn_error = ReturnedSpawnRefusal bb_refusal | OtherSpawnError string

definition post_spawn_refusal :: "spawn_error \<Rightarrow> spawn_outcome \<Rightarrow> bb_refusal" where
  "post_spawn_refusal err outcome =
     (case err of
        ReturnedSpawnRefusal r \<Rightarrow> r
      | OtherSpawnError detail \<Rightarrow>
          (case (case outcome of NoOutcome \<Rightarrow> None | ThreadOutcome t \<Rightarrow> Some (th_thread_id t) | RefusalOutcome r \<Rightarrow> rf_native_thread_id r) of
             Some i \<Rightarrow>
               \<lparr>rf_reason = REFUSAL_ORPHANED_THREAD, rf_detail = ''bb thread exists but assignment completion failed: '' @ detail,
                rf_native_thread_id = Some i, rf_task_attempted = Some True\<rparr>
           | None \<Rightarrow>
               bb_refuse REFUSAL_AMBIGUOUS (''assignment completion failed: '' @ detail @ ''; a bb thread may exist'')))"

definition classify_spawn_failure :: "spawn_error \<Rightarrow> spawn_outcome \<Rightarrow> bb_refusal \<times> bool" where
  "classify_spawn_failure err outcome =
     (let refusal = post_spawn_refusal err outcome in
      (refusal, (case err of ReturnedSpawnRefusal _ \<Rightarrow> rf_task_attempted refusal = Some False | _ \<Rightarrow> False)))"

definition optional_text :: "pystr option \<Rightarrow> pyval" where
  "optional_text v = (case v of None \<Rightarrow> PNone | Some s \<Rightarrow> PStr s)"

definition profile_dict :: "bb_profile \<Rightarrow> pyval" where
  "profile_dict f = PDict [(sv ''provider'', PStr (pf_provider f)), (sv ''model'', PStr (pf_model f)), (sv ''reasoning_level'', PStr (pf_reasoning_level f))]"

definition assignment_record :: "spawn_plan \<Rightarrow> bb_thread \<Rightarrow> pystr \<Rightarrow> pydict option \<Rightarrow> pydict" where
  "assignment_record plan thread now watcher_gate =
     [(sv ''version'', PInt 1), (sv ''recorded_utc'', PStr now), (sv ''project_id'', PStr (sp_project_id plan)),
      (sv ''native_project_id'', PStr (sp_native_project_id plan)), (sv ''repo_path'', PStr (sp_repo_path plan)),
      (sv ''base_sha'', PStr (sp_base_sha plan)),
      (sv ''environment'',
        (case sp_environment plan of
           NewWorktree \<Rightarrow> PDict [(sv ''kind'', sv ''new_worktree'')]
         | Attached i \<Rightarrow> PDict [(sv ''kind'', sv ''attached''), (sv ''environment_id'', PStr i)])),
      (sv ''permission_mode'', optional_text (sp_permission_mode plan)), (sv ''title'', optional_text (sp_title plan)),
      (sv ''prompt'', PStr (sp_prompt plan)), (sv ''thread_id'', PStr (th_thread_id thread)),
      (sv ''environment_id'', PStr (th_environment_id thread)), (sv ''requested_profile'', profile_dict (sp_profile plan)),
      (sv ''executed_profile'', profile_dict (sp_profile plan))] @
     (case watcher_gate of None \<Rightarrow> [] | Some g \<Rightarrow> [(sv ''watcher_gate'', PDict g)])"

definition safe_segment :: "pystr \<Rightarrow> bool" where
  "safe_segment i \<longleftrightarrow> i \<noteq> [] \<and> 47 \<notin> set i \<and> 0 \<notin> set i \<and> i \<notin> {lit ''.'', lit ''..''}"

text \<open>A writer gets the path and the record it is to render; it succeeds or fails with a message.\<close>

type_synonym record_writer = "pystr \<Rightarrow> pydict \<Rightarrow> string option"

definition persist_assignment ::
  "record_writer \<Rightarrow> spawn_plan \<Rightarrow> bb_refusal + bb_thread \<Rightarrow> pystr \<Rightarrow> pystr \<Rightarrow> pydict option \<Rightarrow> spawn_error + pystr \<times> pydict" where
  "persist_assignment writer plan outcome state_dir now watcher_gate =
     (case outcome of
        Inl r \<Rightarrow> Inl (ReturnedSpawnRefusal r)
      | Inr thread \<Rightarrow>
          if \<not> safe_segment (th_thread_id thread) then
            Inl (ReturnedSpawnRefusal
              (post_spawn_refusal (OtherSpawnError ''native thread id is not a safe filename segment'') (ThreadOutcome thread)))
          else
            let doc = assignment_record plan thread now watcher_gate;
                path = state_dir @ lit ''/'' @ th_thread_id thread @ lit ''.json'' in
            case writer path doc of Some message \<Rightarrow> Inl (OtherSpawnError message) | None \<Rightarrow> Inr (path, doc))"

section \<open>The command\<close>

text \<open>What the command finds around it: the watchers that are not covered (name and reason), the place of the records, the time.\<close>

record spawn_environment =
  se_overdue :: "(pystr \<times> pystr) list"
  se_state_dir :: pystr
  se_now :: pystr
  se_print_error :: "string option"

record spawn_args =
  ar_assignment_kind :: pystr
  ar_registry :: registry_project
  ar_repo_target :: "pystr option"
  ar_provider :: "pystr option"
  ar_model :: "pystr option"
  ar_reasoning_level :: "pystr option"
  ar_base_sha :: pystr
  ar_permission_mode :: "pystr option"
  ar_title :: "pystr option"
  ar_new_environment :: bool
  ar_environment :: "pystr option"
  ar_allow_stale_watchers :: bool

definition PROFILE_ONLY_PROMPT :: string where
  "PROFILE_ONLY_PROMPT = ''PROFILE-ONLY FIRST TURN. Do not inspect task content or modify files. Report pwd, branch, HEAD, merge-base, git status --short --untracked-files=all, and executed provider/model/reasoning from the BB execution record; then end the turn.''"

text \<open>What the command asks the preflight for; an environment can only be attached.\<close>

definition planning_request :: "spawn_args \<Rightarrow> plan_request" where
  "planning_request args =
     \<lparr>pq_assignment_kind = ar_assignment_kind args, pq_registry = ar_registry args, pq_repo_target = ar_repo_target args,
      pq_base_sha = ar_base_sha args, pq_environment = map_option Attached (ar_environment args), pq_provider = ar_provider args,
      pq_model = ar_model args, pq_reasoning_level = ar_reasoning_level args, pq_permission_mode = ar_permission_mode args,
      pq_title = ar_title args, pq_prompt = lit PROFILE_ONLY_PROMPT\<rparr>"

datatype exit_code = ExitOk | ExitRefused | ExitDoNotRetry

record spawn_run =
  ru_code :: "pyerr + exit_code"
  ru_bb_calls :: "pystr list list"
  ru_written :: "(pystr \<times> pydict) list"

definition refused_run :: "pystr list list \<Rightarrow> spawn_run" where
  "refused_run calls = \<lparr>ru_code = Inr ExitRefused, ru_bb_calls = calls, ru_written = []\<rparr>"

definition failed_run :: "spawn_error \<Rightarrow> spawn_outcome \<Rightarrow> pystr list list \<Rightarrow> (pystr \<times> pydict) list \<Rightarrow> spawn_run" where
  "failed_run err outcome calls written =
     \<lparr>ru_code = Inr (if snd (classify_spawn_failure err outcome) then ExitRefused else ExitDoNotRetry), ru_bb_calls = calls, ru_written = written\<rparr>"

definition spawn_request_of :: "spawn_plan \<Rightarrow> spawn_request" where
  "spawn_request_of plan =
     \<lparr>sr_project_id = sp_native_project_id plan, sr_prompt = sp_prompt plan, sr_profile = sp_profile plan,
      sr_environment = (case sp_environment plan of Attached i \<Rightarrow> Some i | NewWorktree \<Rightarrow> None),
      sr_base_sha = (case sp_environment plan of NewWorktree \<Rightarrow> Some (sp_base_sha plan) | Attached _ \<Rightarrow> None),
      sr_permission_mode = sp_permission_mode plan, sr_title = sp_title plan\<rparr>"

text \<open>The record and the report; every failure from here on is classified.\<close>

definition outcome_of :: "bb_refusal + bb_thread \<Rightarrow> spawn_outcome" where
  "outcome_of r = (case r of Inl f \<Rightarrow> RefusalOutcome f | Inr t \<Rightarrow> ThreadOutcome t)"

definition complete_spawn :: "record_writer \<Rightarrow> spawn_environment \<Rightarrow> spawn_plan \<Rightarrow> pydict option \<Rightarrow> bb_refusal + bb_thread \<Rightarrow> pystr list list \<Rightarrow> spawn_run" where
  "complete_spawn writer env plan watcher_gate outcome calls =
     (case persist_assignment writer plan outcome (se_state_dir env) (se_now env) watcher_gate of
        Inl err \<Rightarrow> failed_run err (outcome_of outcome) calls []
      | Inr doc \<Rightarrow>
          (case se_print_error env of
             Some message \<Rightarrow> failed_run (OtherSpawnError message) (outcome_of outcome) calls [doc]
           | None \<Rightarrow> \<lparr>ru_code = Inr ExitOk, ru_bb_calls = calls, ru_written = [doc]\<rparr>))"

definition run_spawn :: "bb_transport \<Rightarrow> record_writer \<Rightarrow> spawn_environment \<Rightarrow> spawn_plan \<Rightarrow> pydict option \<Rightarrow> bb_client \<Rightarrow> spawn_run" where
  "run_spawn tr writer env plan watcher_gate c =
     (case spawn tr (spawn_request_of plan) c of
        (Inl (Escaped e), c') \<Rightarrow> failed_run (OtherSpawnError ''raised'') NoOutcome (bc_calls c') []
      | (Inl (Refused r), c') \<Rightarrow> complete_spawn writer env plan watcher_gate (Inl r) (bc_calls c')
      | (Inr thread, c') \<Rightarrow> complete_spawn writer env plan watcher_gate (Inr thread) (bc_calls c'))"

text \<open>
  The client of a project: its executable must be configured, and its timeout a number that is not below or equal to zero. An integer
  that is too large for a float is left open.
\<close>

definition bb_executable_from_project :: "pydict option \<Rightarrow> string + pystr list" where
  "bb_executable_from_project project =
     (case bb_settings project of
        None \<Rightarrow> Inl ''project has no bb configuration''
      | Some bb \<Rightarrow>
          (case dget_none ''executable'' bb of
             PList (v # vs) \<Rightarrow>
               if list_all (\<lambda>t. case t of PStr s \<Rightarrow> s \<noteq> [] | _ \<Rightarrow> False) (v # vs)
               then Inr (map (\<lambda>t. case t of PStr s \<Rightarrow> s | _ \<Rightarrow> []) (v # vs))
               else Inl ''bb.executable must be a non-empty list of strings (explicit project configuration; no PATH default)''
           | _ \<Rightarrow> Inl ''bb.executable must be a non-empty list of strings (explicit project configuration; no PATH default)''))"

definition timeout_ok :: "pyval \<Rightarrow> pyerr + bool" where
  "timeout_ok v =
     (case v of
        PInt z \<Rightarrow> if 2 ^ 1023 \<le> z then Inl (Unmodelled ''conversion of a large integer to a float'') else Inr (0 < z)
      | PFloat (Fin q) \<Rightarrow> Inr (0 < q)
      | PFloat PosInf \<Rightarrow> Inr True
      | PFloat (NaN _) \<Rightarrow> Inr True
      | _ \<Rightarrow> Inr False)"

definition client_from_project :: "pydict option \<Rightarrow> gate_fail + bb_client" where
  "client_from_project project =
     (case bb_settings project of
        None \<Rightarrow> Inl (GateFailed (gate_refuse ''bb_config_invalid'' ''bb adapter is not enabled for this project''))
      | Some bb \<Rightarrow>
          if dget ''enabled'' bb \<noteq> Some (PBool True) then
            Inl (GateFailed (gate_refuse ''bb_config_invalid'' ''bb adapter is not enabled for this project''))
          else
            case bb_executable_from_project project of
              Inl m \<Rightarrow> Inl (GateFailed (gate_refuse ''bb_config_invalid'' m))
            | Inr executable \<Rightarrow>
                (case timeout_ok (case dget ''timeout_seconds'' bb of None \<Rightarrow> PFloat (Fin 30) | Some v \<Rightarrow> v) of
                   Inl e \<Rightarrow> Inl (GateEscaped e)
                 | Inr ok \<Rightarrow>
                     if ok then Inr (new_client True)
                     else Inl (GateFailed (gate_refuse ''bb_config_invalid'' ''bb.timeout_seconds is invalid''))))"

text \<open>A writing assignment needs the plugin that tracks executions.\<close>

definition plugin_gate :: "bb_transport \<Rightarrow> pystr \<Rightarrow> bb_client \<Rightarrow> bool \<times> bb_client" where
  "plugin_gate tr kind c =
     (if kind \<noteq> lit ''writing'' then (True, c)
      else
        case plugin_status tr (lit ''exec-tracking'') c of
          (Inr s, c') \<Rightarrow> (pl_status s = lit ''running'', c')
        | (Inl _, c') \<Rightarrow> (False, c'))"

definition watcher_override :: "(pystr \<times> pystr) list \<Rightarrow> pydict" where
  "watcher_override overdue =
     [(sv ''override'', sv ''--allow-stale-watchers''),
      (sv ''not_fresh'', PList (map (\<lambda>(n, r). PDict [(sv ''name'', PStr n), (sv ''status'', PStr r)]) overdue))]"

text \<open>A planned assignment: the watchers, the client, the plugin, and then the spawn.\<close>

definition run_planned :: "bb_transport \<Rightarrow> record_writer \<Rightarrow> spawn_environment \<Rightarrow> spawn_args \<Rightarrow> spawn_plan \<Rightarrow> spawn_run" where
  "run_planned tr writer env args plan =
     (let kind = ar_assignment_kind args;
          overdue = (if kind = lit ''writing'' then se_overdue env else []) in
      if overdue \<noteq> [] \<and> \<not> ar_allow_stale_watchers args then refused_run []
      else
        case client_from_project (rg_entry (ar_registry args)) of
          Inl (GateFailed r) \<Rightarrow> refused_run []
        | Inl (GateEscaped e) \<Rightarrow> \<lparr>ru_code = Inl e, ru_bb_calls = [], ru_written = []\<rparr>
        | Inr c \<Rightarrow>
            (case plugin_gate tr kind c of
               (False, c') \<Rightarrow> refused_run (bc_calls c')
             | (True, c') \<Rightarrow> run_spawn tr writer env plan (if overdue = [] then None else Some (watcher_override overdue)) c'))"

definition bb_spawn_main :: "bb_transport \<Rightarrow> bb_transport \<Rightarrow> record_writer \<Rightarrow> spawn_environment \<Rightarrow> spawn_args \<Rightarrow> spawn_run" where
  "bb_spawn_main git_tr tr writer env args =
     (if ar_new_environment args then refused_run []
      else
        case plan_spawn git_tr (planning_request args) [] of
          (Inl (GateFailed r), h) \<Rightarrow> refused_run []
        | (Inl (GateEscaped e), h) \<Rightarrow> \<lparr>ru_code = Inl e, ru_bb_calls = [], ru_written = []\<rparr>
        | (Inr plan, h) \<Rightarrow> run_planned tr writer env args plan)"

end
