(* ===== verification/BbPlan.thy ===== *)
theory BbPlan
  imports BbSpawn
begin

text \<open>
  What an accepted preflight has established: the profile, the isolation, the registered repository and the place of the base in it.
\<close>

section \<open>Inverting the gates\<close>

lemma planned_eq [simp]: "planned (Inr x) h = (Inr y, h') \<longleftrightarrow> y = x \<and> h' = h" "planned (Inl f) h \<noteq> (Inr y, h')"
  by (auto simp: planned_def)

lemma planned_Inr: "planned v h = (Inr y, h') \<longleftrightarrow> v = Inr y \<and> h' = h"
  by (cases v) auto

lemma gate_fails_Inr [simp]: "gate_fails reason detail h \<noteq> (Inr y, h')"
  by (simp add: gate_fails_def)

lemma git_Inr:
  "git tr repo argv allowed h = (Inr r, h') \<longleftrightarrow>
     tr h ([lit ''-C'', repo] @ argv) = Answered r \<and> tr_exit_code r \<in> set allowed \<and> h' = h @ [[lit ''-C'', repo] @ argv]"
  by (auto simp: git_def git_read_def and_then_eq Let_def gate_fails_def planned_Inr split: transport_outcome.splits if_splits)

lemma drift_Inr: "drift_gate r h = (Inr u, h') \<longleftrightarrow> py_int (tr_stdout r) = Inr 0 \<and> h' = h"
  by (cases "py_int (tr_stdout r)"; cases "projl (py_int (tr_stdout r))") (auto simp: drift_gate_def gate_fails_def)

text \<open>The five commands of the preflight, in order, and what git must answer to each, given what it was asked before.\<close>

definition git_commands :: "pystr \<Rightarrow> pystr \<Rightarrow> pystr \<Rightarrow> pystr \<Rightarrow> pystr list list" where
  "git_commands repo base_ref base origin =
     map ((@) [lit ''-C'', repo])
       [[lit ''fetch'', lit ''--quiet'', lit ''origin'', base_ref], rev_parse_argv base, rev_parse_argv (origin_ref base_ref),
        [lit ''merge-base'', lit ''--is-ancestor'', base, origin], [lit ''rev-list'', lit ''--count'', base @ lit ''..'' @ origin]]"

definition answers_ok :: "bb_transport \<Rightarrow> pystr list list \<Rightarrow> pystr list list \<Rightarrow> nat \<Rightarrow> (bb_transport_result \<Rightarrow> bool) \<Rightarrow> bool" where
  "answers_ok tr h cs i ok \<longleftrightarrow> (\<exists>r. tr (h @ take i cs) (cs ! i) = Answered r \<and> tr_exit_code r = 0 \<and> ok r)"

definition base_is_current :: "bb_transport \<Rightarrow> pystr list list \<Rightarrow> pystr \<Rightarrow> pystr list list \<Rightarrow> pystr \<Rightarrow> bool" where
  "base_is_current tr h base cs origin \<longleftrightarrow>
     answers_ok tr h cs 0 (\<lambda>_. True) \<and> answers_ok tr h cs 1 (\<lambda>r. git_output r = base) \<and>
     answers_ok tr h cs 2 (\<lambda>r. git_output r = origin \<and> is_sha origin) \<and> answers_ok tr h cs 3 (\<lambda>_. True) \<and>
     answers_ok tr h cs 4 (\<lambda>r. py_int (tr_stdout r) = Inr 0)"

lemma git_gate_Inr:
  "git_gate tr repo base_ref base h = (Inr u, h') \<longleftrightarrow>
     (\<exists>origin. base_is_current tr h base (git_commands repo base_ref base origin) origin \<and> h' = h @ git_commands repo base_ref base origin)"
proof
  assume "git_gate tr repo base_ref base h = (Inr u, h')"
  then obtain r1 r2 r3 r4 r5 h1 h2 h3 h4 where g:
    "git tr repo [lit ''fetch'', lit ''--quiet'', lit ''origin'', base_ref] [0] h = (Inr r1, h1)"
    "git tr repo (rev_parse_argv base) [0] h1 = (Inr r2, h2)" "git_output r2 = base"
    "git tr repo (rev_parse_argv (origin_ref base_ref)) [0] h2 = (Inr r3, h3)" "is_sha (git_output r3)"
    "git tr repo [lit ''merge-base'', lit ''--is-ancestor'', base, git_output r3] [0, 1] h3 = (Inr r4, h4)" "tr_exit_code r4 \<noteq> 1"
    "git tr repo [lit ''rev-list'', lit ''--count'', base @ lit ''..'' @ git_output r3] [0] h4 = (Inr r5, h')" "py_int (tr_stdout r5) = Inr 0"
    by (auto simp: git_gate_def and_then_eq drift_Inr split: if_splits)
  then show "\<exists>origin. base_is_current tr h base (git_commands repo base_ref base origin) origin \<and> h' = h @ git_commands repo base_ref base origin"
    by (intro exI [of _ "git_output r3"]) (auto simp: git_Inr base_is_current_def answers_ok_def git_commands_def)
next
  let ?cs = "git_commands repo base_ref base"
  assume "\<exists>origin. base_is_current tr h base (git_commands repo base_ref base origin) origin \<and> h' = h @ git_commands repo base_ref base origin"
  then obtain r1 r2 r3 r4 r5 where a: "git tr repo [lit ''fetch'', lit ''--quiet'', lit ''origin'', base_ref] [0] h = (Inr r1, h @ take 1 (?cs (git_output r3)))"
    "git tr repo (rev_parse_argv base) [0] (h @ take 1 (?cs (git_output r3))) = (Inr r2, h @ take 2 (?cs (git_output r3)))" "git_output r2 = base"
    "git tr repo (rev_parse_argv (origin_ref base_ref)) [0] (h @ take 2 (?cs (git_output r3))) = (Inr r3, h @ take 3 (?cs (git_output r3)))" "is_sha (git_output r3)"
    "git tr repo [lit ''merge-base'', lit ''--is-ancestor'', base, git_output r3] [0, 1] (h @ take 3 (?cs (git_output r3))) = (Inr r4, h @ take 4 (?cs (git_output r3)))"
    "tr_exit_code r4 = 0"
    "git tr repo [lit ''rev-list'', lit ''--count'', base @ lit ''..'' @ git_output r3] [0] (h @ take 4 (?cs (git_output r3))) = (Inr r5, h')"
    "py_int (tr_stdout r5) = Inr 0"
    by (auto simp: git_Inr base_is_current_def answers_ok_def git_commands_def)
  have "drift_gate r5 h' = (Inr u, h')" using a(9) drift_Inr by simp
  then show "git_gate tr repo base_ref base h = (Inr u, h')"
    using a(3,5,7) by (simp add: git_gate_def and_then_def a(1,2,4,6,8) [unfolded One_nat_def])
qed

section \<open>The preflight\<close>

lemma profile_gate_Inr:
  "profile_gate p = Inr f \<longleftrightarrow>
     pq_provider p = Some (pf_provider f) \<and> pq_model p = Some (pf_model f) \<and> pq_reasoning_level p = Some (pf_reasoning_level f) \<and>
     pf_provider f \<noteq> [] \<and> pf_model f \<noteq> [] \<and> pf_reasoning_level f \<noteq> [] \<and>
     pq_assignment_kind p \<in> {lit ''read-only'', lit ''writing''} \<and>
     (pf_provider f = lit ''claude-code'' \<longrightarrow> f = ALLOWED_CLAUDE_PROFILE) \<and> (pf_provider f, pf_model f) \<notin> set EXCLUDED_MODELS"
proof (cases "pq_provider p = None \<or> pq_model p = None \<or> pq_reasoning_level p = None")
  case True
  then show ?thesis by (auto simp: profile_gate_def split: option.split)
next
  case False
  then obtain provider model level where t: "pq_provider p = Some provider" "pq_model p = Some model" "pq_reasoning_level p = Some level"
    by auto
  let ?f = "\<lparr>pf_provider = provider, pf_model = model, pf_reasoning_level = level\<rparr>"
  have fable: "\<not> (provider = lit ''claude-code'' \<and> model = lit FABLE_MODEL)" if "provider = lit ''claude-code'' \<longrightarrow> ?f = ALLOWED_CLAUDE_PROFILE"
    using that by (simp add: ALLOWED_CLAUDE_PROFILE_def FABLE_MODEL_def)
  have "profile_gate p = Inr f \<longleftrightarrow> provider \<noteq> [] \<and> model \<noteq> [] \<and> level \<noteq> [] \<and> pq_assignment_kind p \<in> {lit ''read-only'', lit ''writing''} \<and>
      (provider = lit ''claude-code'' \<longrightarrow> ?f = ALLOWED_CLAUDE_PROFILE) \<and> (provider, model) \<notin> set EXCLUDED_MODELS \<and> f = ?f"
    using fable by (simp add: profile_gate_def t Let_def) blast
  note gate = this
  show ?thesis
  proof (cases "f = ?f")
    case True
    then show ?thesis unfolding gate t by simp
  next
    case other: False
    then have "\<not> (provider = pf_provider f \<and> model = pf_model f \<and> level = pf_reasoning_level f)" by (cases f) auto
    then show ?thesis using other unfolding gate t by auto
  qed
qed

lemma isolation_gate_Inr: "isolation_gate p = Inr e \<longleftrightarrow> pq_environment p = Some e \<and> e \<noteq> Attached []"
  by (auto simp: isolation_gate_def split: option.splits isolation.splits if_splits)

lemma plan_spawn_Inr:
  "plan_spawn tr p h = (Inr plan, h') \<longleftrightarrow>
     (\<exists>base_ref. profile_gate p = Inr (sp_profile plan) \<and> isolation_gate p = Inr (sp_environment plan) \<and> base_gate p = Inr (sp_base_sha plan) \<and>
        registry_gate (pq_registry p) (pq_repo_target p) = Inr (sp_project_id plan, base_ref, sp_native_project_id plan, sp_repo_path plan) \<and>
        git_gate tr (sp_repo_path plan) base_ref (sp_base_sha plan) h = (Inr (), h') \<and>
        sp_permission_mode plan = pq_permission_mode p \<and> sp_title plan = pq_title p \<and> sp_prompt plan = pq_prompt p)"
  by (cases plan) (auto simp: plan_spawn_def and_then_eq planned_Inr)

text \<open>
  C33. What a plan stands on. The preflight accepts exactly when: the triple is complete, for a known kind of assignment, not excluded, and
  for Claude Code the one allowed triple; the assignment is isolated; the base is forty hexadecimal digits; the registry yields project,
  branch and repository; and git, asked five times and nothing else, answers that the base resolves to itself, that the branch of the
  remote resolves, that the base is its ancestor and that it is zero commits behind. The plan then holds just these facts.
\<close>

theorem plan_exact:
  "plan_spawn tr p h = (Inr plan, h') \<longleftrightarrow>
     (let f = sp_profile plan in
        pq_provider p = Some (pf_provider f) \<and> pq_model p = Some (pf_model f) \<and> pq_reasoning_level p = Some (pf_reasoning_level f) \<and>
        pf_provider f \<noteq> [] \<and> pf_model f \<noteq> [] \<and> pf_reasoning_level f \<noteq> [] \<and>
        pq_assignment_kind p \<in> {lit ''read-only'', lit ''writing''} \<and>
        (pf_provider f = lit ''claude-code'' \<longrightarrow> f = ALLOWED_CLAUDE_PROFILE) \<and> (pf_provider f, pf_model f) \<notin> set EXCLUDED_MODELS) \<and>
     pq_environment p = Some (sp_environment plan) \<and> sp_environment plan \<noteq> Attached [] \<and>
     is_sha (pq_base_sha p) \<and> sp_base_sha plan = ascii_lower (pq_base_sha p) \<and>
     sp_permission_mode plan = pq_permission_mode p \<and> sp_title plan = pq_title p \<and> sp_prompt plan = pq_prompt p \<and>
     (\<exists>base_ref origin.
        registry_gate (pq_registry p) (pq_repo_target p) = Inr (sp_project_id plan, base_ref, sp_native_project_id plan, sp_repo_path plan) \<and>
        base_is_current tr h (sp_base_sha plan) (git_commands (sp_repo_path plan) base_ref (sp_base_sha plan) origin) origin \<and>
        h' = h @ git_commands (sp_repo_path plan) base_ref (sp_base_sha plan) origin)"
proof -
  have base: "base_gate p = Inr b \<longleftrightarrow> is_sha (pq_base_sha p) \<and> b = ascii_lower (pq_base_sha p)" for b
    by (auto simp: base_gate_def)
  show ?thesis
    unfolding plan_spawn_Inr profile_gate_Inr isolation_gate_Inr base git_gate_Inr Let_def by (intro iffI; elim exE conjE; intro exI conjI; assumption)
qed

end
