(* ===== verification/BbSpawnProps.thy ===== *)
theory BbSpawnProps
  imports BbSpawn
begin

text \<open>
  What one run of the spawn command promises: which exit code it ends with, what it wrote, and what its preflight established.
\<close>

section \<open>The calls before the spawn\<close>

lemma plugin_status_calls:
  assumes "plugin_status tr p c = (r, c')"
  shows "\<exists>cs. bc_calls c' = bc_calls c @ cs \<and> filter task_bearing cs = []"
proof -
  let ?read = "and_then (read_json tr [lit ''plugin'', lit ''list'', lit ''--json'']) (\<lambda>payload. checked (plugin_from p payload))"
  obtain g c1 where g: "gate tr c = (g, c1)" by fastforce
  obtain gs where gs: "bc_calls c1 = bc_calls c @ gs" "filter task_bearing gs = []" by (rule gate_calls [OF g]) blast
  show ?thesis
  proof (cases g)
    case (Inl e)
    then show ?thesis using assms g gs by (auto simp: plugin_status_def and_then_eq)
  next
    case (Inr u)
    then have f: "?read c1 = (r, c')" using assms g by (auto simp: plugin_status_def and_then_eq)
    have m: "makes (\<lambda>a. \<not> task_bearing a) 1 ?read" by (intro makes_then(1) makes_read makes_pure) (simp add: task_bearing_def)
    obtain cs where "c' = c1\<lparr>bc_calls := bc_calls c1 @ cs\<rparr>" "list_all (\<lambda>a. \<not> task_bearing a) cs" by (rule makesD [OF m f])
    then show ?thesis using gs no_task_filter by (intro exI [of _ "gs @ cs"]) auto
  qed
qed

lemma plugin_gate_calls:
  "plugin_gate tr kind c = (ok, c') \<Longrightarrow> \<exists>cs. bc_calls c' = bc_calls c @ cs \<and> filter task_bearing cs = []"
  using plugin_status_calls [of tr "lit ''exec-tracking''" c]
  by (cases "plugin_status tr (lit ''exec-tracking'') c") (auto simp: plugin_gate_def split: if_splits sum.splits)

section \<open>The exit code\<close>

text \<open>The run from the spawn on, by what the spawn did.\<close>

lemma complete_spawn_refused:
  "complete_spawn writer env plan w (Inl r) calls = failed_run (ReturnedSpawnRefusal r) (RefusalOutcome r) calls []"
  by (simp add: complete_spawn_def persist_assignment_def outcome_of_def)

lemma failed_run_facts [simp]:
  "ru_bb_calls (failed_run err out calls ws) = calls" "ru_written (failed_run err out calls ws) = ws"
  "ru_code (failed_run (OtherSpawnError m) out calls ws) = Inr ExitDoNotRetry"
  "ru_code (failed_run (ReturnedSpawnRefusal r) out calls ws) = Inr (if rf_task_attempted r = Some False then ExitRefused else ExitDoNotRetry)"
  by (simp_all add: failed_run_def classify_spawn_failure_def post_spawn_refusal_def)

definition record_of :: "spawn_environment \<Rightarrow> spawn_plan \<Rightarrow> pydict option \<Rightarrow> bb_thread \<Rightarrow> pystr \<times> pydict" where
  "record_of env plan w t = (se_state_dir env @ lit ''/'' @ th_thread_id t @ lit ''.json'', assignment_record plan t (se_now env) w)"

lemma complete_spawn_thread:
  "ru_bb_calls (complete_spawn writer env plan w (Inr t) calls) = calls \<and>
   (ru_code (complete_spawn writer env plan w (Inr t) calls) = Inr ExitOk \<and>
      ru_written (complete_spawn writer env plan w (Inr t) calls) = [record_of env plan w t] \<and> safe_segment (th_thread_id t) \<or>
    ru_code (complete_spawn writer env plan w (Inr t) calls) = Inr ExitDoNotRetry \<and>
      ru_written (complete_spawn writer env plan w (Inr t) calls) \<in> {[], [record_of env plan w t]})"
  by (auto simp: complete_spawn_def persist_assignment_def post_spawn_refusal_def record_of_def Let_def outcome_of_def split: option.split)

definition attempted :: "pystr list list \<Rightarrow> bool" where
  "attempted calls \<longleftrightarrow> filter task_bearing calls \<noteq> []"

lemma attempted_iff:
  assumes "filter task_bearing cs \<in> {[], [spawn_argv q]}"
  shows "attempted cs \<longleftrightarrow> spawn_argv q \<in> set cs"
proof -
  have "filter task_bearing cs = [] \<Longrightarrow> spawn_argv q \<notin> set cs" by (metis filter_empty_conv task_kinds(4))
  moreover have "filter task_bearing cs = [spawn_argv q] \<Longrightarrow> spawn_argv q \<in> set cs" by (metis list.set_intros(1) filter_is_subset subsetD)
  ultimately show ?thesis using assms by (auto simp: attempted_def)
qed

text \<open>What a finished run may say: the code tells whether a task was attempted, once at most, and a record names the spawned thread.\<close>

definition honest_run :: "spawn_environment \<Rightarrow> spawn_plan \<Rightarrow> bb_transport \<Rightarrow> spawn_run \<Rightarrow> bool" where
  "honest_run env plan tr run \<longleftrightarrow>
     length (filter task_bearing (ru_bb_calls run)) \<le> 1 \<and>
     (\<exists>code. ru_code run = Inr code \<and> (code = ExitRefused \<longleftrightarrow> \<not> attempted (ru_bb_calls run)) \<and>
        (code = ExitOk \<longrightarrow> ru_written run \<noteq> [])) \<and>
     (ru_written run = [] \<or>
        (\<exists>t w c c'. spawn tr (spawn_request_of plan) c = (Inr t, c') \<and> ru_written run = [record_of env plan w t]))"

lemma run_spawn_honest:
  assumes "filter task_bearing (bc_calls c) = []"
  shows "honest_run env plan tr (run_spawn tr writer env plan w c)"
proof -
  let ?q = "spawn_request_of plan"
  obtain r c' where s: "spawn tr ?q c = (r, c')" by fastforce
  obtain cs where a: "bc_calls c' = bc_calls c @ cs" "filter task_bearing cs \<in> {[], [spawn_argv ?q]}"
    "case r of
       Inr t \<Rightarrow> spawn_argv ?q \<in> set cs
     | Inl (Escaped e) \<Rightarrow> spawn_argv ?q \<in> set cs
     | Inl (Refused f) \<Rightarrow>
         rf_task_attempted f = Some (spawn_argv ?q \<in> set cs) \<and>
         (rf_native_thread_id f \<noteq> None \<longrightarrow> spawn_argv ?q \<in> set cs) \<and>
         (spawn_argv ?q \<in> set cs \<and> rf_native_thread_id f = None \<and> rf_reason f \<noteq> REFUSAL_AMBIGUOUS \<longrightarrow>
            rf_reason f = REFUSAL_TRANSPORT_FAILED \<and> exits_nonzero tr (butlast (bc_calls c')) (spawn_argv ?q))"
    using spawn_attempts [OF s] by blast
  then have cs: "bc_calls c' = bc_calls c @ cs" "filter task_bearing cs \<in> {[], [spawn_argv ?q]}"
    "case r of Inr t \<Rightarrow> spawn_argv ?q \<in> set cs | Inl (Escaped e) \<Rightarrow> spawn_argv ?q \<in> set cs
     | Inl (Refused f) \<Rightarrow> rf_task_attempted f = Some (spawn_argv ?q \<in> set cs)"
    by (simp_all split: sum.split_asm bb_fail.split_asm)
  have att: "attempted (bc_calls c') \<longleftrightarrow> spawn_argv ?q \<in> set cs"
    using attempted_iff [OF cs(2)] cs(1) assms by (simp add: attempted_def)
  have one: "length (filter task_bearing (bc_calls c')) \<le> 1" using cs assms by auto
  show ?thesis
  proof (cases r)
    case (Inl f)
    then show ?thesis
      using s cs(3) att one by (cases f) (auto simp: run_spawn_def honest_run_def complete_spawn_refused)
  next
    case (Inr t)
    have run: "run_spawn tr writer env plan w c = complete_spawn writer env plan w (Inr t) (bc_calls c')"
      using s Inr by (simp add: run_spawn_def)
    have "attempted (bc_calls c')" using att cs(3) Inr by simp
    then show ?thesis
      using complete_spawn_thread [of writer env plan w t "bc_calls c'"] one s Inr unfolding honest_run_def run by auto
  qed
qed


lemma run_planned_cases:
  obtains (refused) calls where "run_planned tr writer env args plan = refused_run calls" "filter task_bearing calls = []"
    | (escaped) e where "run_planned tr writer env args plan = \<lparr>ru_code = Inl e, ru_bb_calls = [], ru_written = []\<rparr>"
    | (honest) "honest_run env plan tr (run_planned tr writer env args plan)"
proof -
  let ?run = "run_planned tr writer env args plan" and ?kind = "ar_assignment_kind args"
  let ?client = "client_from_project (rg_entry (ar_registry args))"
  let ?overdue = "if ?kind = lit ''writing'' then se_overdue env else []"
  show thesis
  proof (cases "?overdue \<noteq> [] \<and> \<not> ar_allow_stale_watchers args")
    case True
    then show thesis by (intro refused [of "[]"]) (simp_all add: run_planned_def Let_def)
  next
    case False
    show thesis
    proof (cases ?client)
      case (Inl f)
      have "?run = refused_run [] \<or> (\<exists>e. ?run = \<lparr>ru_code = Inl e, ru_bb_calls = [], ru_written = []\<rparr>)"
        using False Inl by (cases f) (simp_all add: run_planned_def Let_def)
      then show thesis using refused [of "[]"] escaped by auto
    next
      case (Inr c)
      then have "bc_calls c = []" by (auto simp: client_from_project_def new_client_def split: option.splits sum.splits if_splits)
      moreover obtain ok c' where g: "plugin_gate tr ?kind c = (ok, c')" by fastforce
      ultimately have none: "filter task_bearing (bc_calls c') = []" using plugin_gate_calls [OF g] by auto
      show thesis
      proof (cases ok)
        case True
        then have "?run = run_spawn tr writer env plan (if ?overdue = [] then None else Some (watcher_override ?overdue)) c'"
          using False Inr g by (auto simp add: run_planned_def Let_def split: if_splits)
        then show thesis using honest run_spawn_honest [OF none] by simp
      next
        case False2: False
        then have "?run = refused_run (bc_calls c')" using False Inr g by (auto simp add: run_planned_def Let_def split: if_splits)
        then show thesis using refused none by blast
      qed
    qed
  qed
qed

lemma bb_spawn_main_cases:
  obtains (refused) calls where "bb_spawn_main git_tr tr writer env args = refused_run calls" "filter task_bearing calls = []"
    | (escaped) e where "bb_spawn_main git_tr tr writer env args = \<lparr>ru_code = Inl e, ru_bb_calls = [], ru_written = []\<rparr>"
    | (honest) plan h where "plan_spawn git_tr (planning_request args) [] = (Inr plan, h)" "honest_run env plan tr (bb_spawn_main git_tr tr writer env args)"
proof (cases "ar_new_environment args")
  case True
  then show thesis by (intro refused [of "[]"]) (simp_all add: bb_spawn_main_def)
next
  case False
  obtain out h where plan: "plan_spawn git_tr (planning_request args) [] = (out, h)" by fastforce
  show thesis
  proof (cases out)
    case (Inl f)
    then show thesis using False plan refused [of "[]"] escaped by (cases f) (simp_all add: bb_spawn_main_def)
  next
    case (Inr p)
    then have run: "bb_spawn_main git_tr tr writer env args = run_planned tr writer env args p" using False plan by (simp add: bb_spawn_main_def)
    show thesis
      by (rule run_planned_cases [of tr writer env args p]) (use run Inr plan refused escaped honest in auto)
  qed
qed

text \<open>
  C34. The exit code of the command tells the truth about the one spawn. Whatever git, bb, the watchers, the writer and the terminal
  do, at most one call starts a turn; the run ends refused, which invites a retry, exactly when no such call was made; a success
  has written its record; and what was written is the record of the thread that this spawn verified, under its id, for the plan the
  preflight accepted. (An exception of the preflight ends the run before any call to bb.)
\<close>

theorem spawn_exit_code:
  shows "length (filter task_bearing (ru_bb_calls (bb_spawn_main git_tr tr writer env args))) \<le> 1 \<and>
    (ru_code (bb_spawn_main git_tr tr writer env args) = Inr ExitRefused \<longrightarrow> \<not> attempted (ru_bb_calls (bb_spawn_main git_tr tr writer env args))) \<and>
    (ru_code (bb_spawn_main git_tr tr writer env args) \<in> {Inr ExitOk, Inr ExitDoNotRetry} \<longrightarrow>
       attempted (ru_bb_calls (bb_spawn_main git_tr tr writer env args))) \<and>
    (ru_code (bb_spawn_main git_tr tr writer env args) = Inr ExitOk \<longrightarrow> ru_written (bb_spawn_main git_tr tr writer env args) \<noteq> []) \<and>
    (ru_written (bb_spawn_main git_tr tr writer env args) \<noteq> [] \<longrightarrow>
       (\<exists>plan h t c c' w. plan_spawn git_tr (planning_request args) [] = (Inr plan, h) \<and> spawn tr (spawn_request_of plan) c = (Inr t, c') \<and>
          ru_written (bb_spawn_main git_tr tr writer env args) = [record_of env plan w t])) \<and>
    (\<forall>e. ru_code (bb_spawn_main git_tr tr writer env args) = Inl e \<longrightarrow> ru_bb_calls (bb_spawn_main git_tr tr writer env args) = [])"
proof (cases rule: bb_spawn_main_cases [of git_tr tr writer env args])
  case (refused calls)
  then show ?thesis by (simp add: refused_run_def attempted_def)
next
  case (escaped e)
  then show ?thesis by (simp add: attempted_def)
next
  case (honest plan h)
  then show ?thesis unfolding honest_run_def by auto
qed

end
