(* ===== verification/BbStart.thy ===== *)
theory BbStart
  imports BbPlan BbSpawnProps Sha256
begin

text \<open>
  Starting a thread for a conversation: the decision to bootstrap (\<open>llm_collab/bb_bootstrap.py\<close>) and bb's side of a managed start
  (\<open>llm_collab/bb_managed_start.py\<close>, with the exceptions of \<open>llm_collab/managed_start_errors.py\<close>). The reservation in the ledger, between the two,
  is not modelled: a start is a parameter of the bootstrap.
\<close>

section \<open>The evidence of a start\<close>

definition BB_START_SOURCE :: string where "BB_START_SOURCE = ''managed_bb_thread_start''"

record bb_start_evidence =
  be_native_thread_id :: pystr
  be_project_id :: pystr
  be_environment_id :: pystr
  be_provider_id :: pystr
  be_status :: pystr
  be_endpoint_id :: pystr
  be_runtime_instance_id :: pystr
  be_provider :: pystr
  be_model :: pystr
  be_reasoning_level :: pystr
  be_source :: pystr

definition evidence_dict :: "bb_start_evidence \<Rightarrow> pydict" where
  "evidence_dict e =
     [(sv ''native_thread_id'', PStr (be_native_thread_id e)), (sv ''project_id'', PStr (be_project_id e)),
      (sv ''environment_id'', PStr (be_environment_id e)), (sv ''provider_id'', PStr (be_provider_id e)), (sv ''status'', PStr (be_status e)),
      (sv ''endpoint_id'', PStr (be_endpoint_id e)), (sv ''runtime_instance_id'', PStr (be_runtime_instance_id e)),
      (sv ''provider'', PStr (be_provider e)), (sv ''model'', PStr (be_model e)), (sv ''reasoning_level'', PStr (be_reasoning_level e)),
      (sv ''source'', PStr (be_source e))]"

definition bb_start_evidence_digest :: "bb_start_evidence \<Rightarrow> pyerr + pystr" where
  "bb_start_evidence_digest e = rbind (dumps True (PDict (evidence_dict e))) digest_of"

definition evidence_text :: "pydict \<Rightarrow> string \<Rightarrow> string + pystr" where
  "evidence_text candidate f = (case require_str f candidate of None \<Rightarrow> Inl ''must be exact text'' | Some s \<Rightarrow> Inr s)"

text \<open>The fields compared with what the caller knew, in order, then the source, then the rest.\<close>

definition evidence_matches :: "pydict \<Rightarrow> (string \<times> pystr) list \<Rightarrow> string + unit" where
  "evidence_matches candidate expected =
     rfold (\<lambda>_ (f, v). rbind (evidence_text candidate f) (\<lambda>s. require (s = v) ''does not match trusted inputs'')) () expected"

definition validate_bb_start_evidence :: "pyval \<Rightarrow> pystr \<Rightarrow> pystr \<Rightarrow> pystr \<Rightarrow> bb_profile \<Rightarrow> string + bb_start_evidence" where
  "validate_bb_start_evidence candidate project endpoint runtime profile =
     (case candidate of
        PDict d \<Rightarrow>
          rbind (evidence_matches d
            [(''project_id'', project), (''endpoint_id'', endpoint), (''runtime_instance_id'', runtime), (''provider'', pf_provider profile),
             (''model'', pf_model profile), (''reasoning_level'', pf_reasoning_level profile)]) (\<lambda>_.
          rbind (evidence_text d ''source'') (\<lambda>source.
          if source \<noteq> lit BB_START_SOURCE then Inl ''bb start evidence source is invalid''
          else
            rbind (evidence_text d ''native_thread_id'') (\<lambda>native.
            rbind (evidence_text d ''project_id'') (\<lambda>project_id.
            rbind (evidence_text d ''environment_id'') (\<lambda>environment_id.
            rbind (evidence_text d ''provider_id'') (\<lambda>provider_id.
            rbind (evidence_text d ''status'') (\<lambda>status.
            rbind (evidence_text d ''endpoint_id'') (\<lambda>endpoint_id.
            rbind (evidence_text d ''runtime_instance_id'') (\<lambda>runtime_id.
            rbind (evidence_text d ''provider'') (\<lambda>provider.
            rbind (evidence_text d ''model'') (\<lambda>model.
            rbind (evidence_text d ''reasoning_level'') (\<lambda>level.
            Inr \<lparr>be_native_thread_id = native, be_project_id = project_id, be_environment_id = environment_id, be_provider_id = provider_id,
              be_status = status, be_endpoint_id = endpoint_id, be_runtime_instance_id = runtime_id, be_provider = provider, be_model = model,
              be_reasoning_level = level, be_source = source\<rparr>))))))))))))
      | _ \<Rightarrow> Inl ''bb start evidence is not a mapping'')"

section \<open>One start\<close>

text \<open>What a start raises; the last constructor is any other exception.\<close>

datatype start_error =
    ManagedStartOrphaned pystr
  | ManagedStartResponseLost "pystr option"
  | SessionLifecycleError string
  | StartRaised pyerr

text \<open>\<open>str.casefold()\<close> as far as equality with the words below is concerned: of the characters beyond ASCII only the long s and the ligatures
  of s and t fold to letters of theirs.\<close>

definition casefold :: "pystr \<Rightarrow> pystr" where
  "casefold s =
     concat (map (\<lambda>c. if 65 \<le> c \<and> c \<le> 90 then [c + 32] else if c = 0x17F then [115] else if c \<in> {0xFB05, 0xFB06} then [115, 116] else [c]) s)"

definition vague_ids :: "pystr list" where
  "vague_ids = [lit ''*'', lit ''current'', lit ''frontmost'', lit ''latest'', lit ''newest'']"

text \<open>The constructor of the exception refuses an id that is not exact text; encoding a lone surrogate raises before it can be refused.\<close>

definition orphaned_error :: "pystr \<Rightarrow> start_error" where
  "orphaned_error native =
     (if native = [] then SessionLifecycleError ''orphan native_session_id must be exact text''
      else
        case utf8_encode native of
          Inl e \<Rightarrow> StartRaised e
        | Inr b \<Rightarrow>
            if 256 < length b \<or> 0 \<in> set native \<or> casefold native \<in> set vague_ids
            then SessionLifecycleError ''orphan native_session_id must be exact text''
            else ManagedStartOrphaned native)"

definition start_error_of :: "bb_refusal \<Rightarrow> start_error" where
  "start_error_of r =
     (case rf_native_thread_id r of
        Some (c # cs) \<Rightarrow> orphaned_error (c # cs)
      | _ \<Rightarrow> if rf_reason r = REFUSAL_AMBIGUOUS then ManagedStartResponseLost None else SessionLifecycleError ''bb spawn failed'')"

definition managed_request :: "pystr \<Rightarrow> pystr \<Rightarrow> bb_profile \<Rightarrow> spawn_request" where
  "managed_request project prompt profile =
     \<lparr>sr_project_id = project, sr_prompt = prompt, sr_profile = profile, sr_environment = None, sr_base_sha = None,
      sr_permission_mode = None, sr_title = None\<rparr>"

definition start_candidate :: "bb_thread \<Rightarrow> pystr \<Rightarrow> pystr \<Rightarrow> bb_profile \<Rightarrow> pydict" where
  "start_candidate t endpoint runtime profile =
     evidence_dict \<lparr>be_native_thread_id = th_thread_id t, be_project_id = th_project_id t, be_environment_id = th_environment_id t,
       be_provider_id = th_provider_id t, be_status = th_status t, be_endpoint_id = endpoint, be_runtime_instance_id = runtime,
       be_provider = pf_provider profile, be_model = pf_model profile, be_reasoning_level = pf_reasoning_level profile,
       be_source = lit BB_START_SOURCE\<rparr>"

definition bb_start_native ::
  "bb_transport \<Rightarrow> pystr \<Rightarrow> pystr \<Rightarrow> bb_profile \<Rightarrow> pystr \<Rightarrow> pystr \<Rightarrow> bb_client \<Rightarrow> (start_error + pydict) \<times> bb_client" where
  "bb_start_native tr project prompt profile endpoint runtime c =
     (case spawn tr (managed_request project prompt profile) c of
        (Inl (Escaped e), c') \<Rightarrow> (Inl (StartRaised e), c')
      | (Inl (Refused r), c') \<Rightarrow> (Inl (start_error_of r), c')
      | (Inr t, c') \<Rightarrow> (Inr (start_candidate t endpoint runtime profile), c'))"

section \<open>What a packet asks for\<close>

definition ACTIVATION_MARKER_FIELDS :: "string list" where
  "ACTIVATION_MARKER_FIELDS = [''activation'', ''worktree'', ''branch'']"

datatype assignment = ReadOnly | Authoring | MalformedActivation

definition worktree_is_lexical_canonical :: "pyval \<Rightarrow> bool" where
  "worktree_is_lexical_canonical v =
     (case v of
        PStr s \<Rightarrow>
          s \<noteq> [] \<and> hd s = 47 \<and> take 2 s \<noteq> [47, 47] \<and> \<not> (1 < length s \<and> last s = 47) \<and>
          list_all (\<lambda>p. p \<notin> {[], lit ''.'', lit ''..''}) (tl (split_on 47 s))
      | _ \<Rightarrow> False)"

definition classify_first_delivery_assignment :: "pydict option \<Rightarrow> assignment" where
  "classify_first_delivery_assignment packet =
     (case packet of
        None \<Rightarrow> ReadOnly
      | Some d \<Rightarrow>
          if \<not> list_ex (\<lambda>f. has_key f d) ACTIVATION_MARKER_FIELDS then ReadOnly
          else if dget ''activation'' d = Some (PBool True) \<and> worktree_is_lexical_canonical (dget_none ''worktree'' d) \<and>
            (case dget_none ''branch'' d of PStr b \<Rightarrow> py_strip b \<noteq> [] | _ \<Rightarrow> False) then Authoring
          else MalformedActivation)"

definition AUTHORING_QUALIFIED_PROFILES :: "bb_profile list" where
  "AUTHORING_QUALIFIED_PROFILES = [\<lparr>pf_provider = lit ''pi'', pf_model = lit ''kimi-coding/k3'', pf_reasoning_level = lit ''high''\<rparr>]"

definition profile_is_authoring_qualified :: "bb_profile \<Rightarrow> bool" where
  "profile_is_authoring_qualified profile \<longleftrightarrow> profile \<in> set AUTHORING_QUALIFIED_PROFILES"

section \<open>The decision to bootstrap\<close>

datatype bootstrap_reason =
    BootstrapDisabled | NotEnabledForProject | SessionExists | TerminalBinding | NoFirstPacket | RepoTargetRequired | RepoTargetAmbiguous

definition TERMINAL_BINDING_STATES :: "string list" where
  "TERMINAL_BINDING_STATES = [''unreadable'', ''mismatch'', ''ambiguous'', ''scope_refused'']"

definition resolve_bootstrap_repo_id :: "pydict option \<Rightarrow> pyval \<Rightarrow> bootstrap_reason + pystr" where
  "resolve_bootstrap_repo_id project targets =
     (case (case bb_settings project of None \<Rightarrow> PNone | Some bb \<Rightarrow> dget_none ''repo_id'' bb) of
        PStr s \<Rightarrow> if py_strip s = [] then Inl RepoTargetAmbiguous else Inr (py_strip s)
      | PNone \<Rightarrow>
          (case targets of
             PList [PStr s] \<Rightarrow> if py_strip s = [] then Inl RepoTargetAmbiguous else Inr (py_strip s)
           | PList (_ # _) \<Rightarrow> Inl RepoTargetAmbiguous
           | _ \<Rightarrow> Inl RepoTargetRequired)
      | _ \<Rightarrow> Inl RepoTargetAmbiguous)"

definition project_enables_bb :: "pydict option \<Rightarrow> bool" where
  "project_enables_bb project = (case bb_settings project of None \<Rightarrow> False | Some bb \<Rightarrow> dget ''enabled'' bb = Some (PBool True))"

record bootstrap_plan =
  bp_project_id :: pystr
  bp_conversation_id :: pystr
  bp_participant_id :: pystr
  bp_agent_id :: pystr
  bp_canonical_message_id :: pystr
  bp_packet_path :: pystr

record bootstrap_request =
  bq_enabled :: bool
  bq_project :: "pydict option"
  bq_project_id :: pystr
  bq_conversation_id :: pystr
  bq_participant_id :: pystr
  bq_agent_id :: pystr
  bq_existing_session_ids :: "pystr list"
  bq_binding_state :: "pystr option"
  bq_first_packet :: "pydict option"

definition plan_bootstrap :: "bootstrap_request \<Rightarrow> bootstrap_reason + bootstrap_plan" where
  "plan_bootstrap q =
     (if \<not> bq_enabled q then Inl BootstrapDisabled
      else if \<not> project_enables_bb (bq_project q) then Inl NotEnabledForProject
      else if bq_binding_state q \<in> (\<lambda>s. Some (lit s)) ` set TERMINAL_BINDING_STATES then Inl TerminalBinding
      else if bq_existing_session_ids q \<noteq> [] then Inl SessionExists
      else
        case bq_first_packet q of
          None \<Rightarrow> Inl NoFirstPacket
        | Some d \<Rightarrow>
            (case (require_str ''canonical_message_id'' d, require_str ''path'' d) of
               (Some message, Some path) \<Rightarrow>
                 Inr \<lparr>bp_project_id = bq_project_id q, bp_conversation_id = bq_conversation_id q, bp_participant_id = bq_participant_id q,
                   bp_agent_id = bq_agent_id q, bp_canonical_message_id = message, bp_packet_path = path\<rparr>
             | _ \<Rightarrow> Inl NoFirstPacket))"

section \<open>Running it\<close>

datatype bootstrap_outcome =
    BootstrapStarted pystr
  | BootstrapDuplicate
  | BootstrapAmbiguous "pystr option"
  | BootstrapOrphaned pystr
  | BootstrapFailed

text \<open>First the packet is looked up, then exactly one start, then its result is classified. The two classes of exception are those of the managed start;
  the result is its text.\<close>

definition execute_bootstrap ::
  "bootstrap_plan \<Rightarrow> (pystr \<Rightarrow> bool) \<Rightarrow> (bootstrap_plan \<Rightarrow> 's \<Rightarrow> (start_error + pystr) \<times> 's) \<Rightarrow> 's \<Rightarrow> bootstrap_outcome \<times> 's" where
  "execute_bootstrap plan already_started start s =
     (if already_started (bp_canonical_message_id plan) then (BootstrapDuplicate, s)
      else
        case start plan s of
          (Inl (ManagedStartOrphaned i), s') \<Rightarrow> (BootstrapOrphaned i, s')
        | (Inl (ManagedStartResponseLost i), s') \<Rightarrow> (BootstrapAmbiguous i, s')
        | (Inl _, s') \<Rightarrow> (BootstrapFailed, s')
        | (Inr i, s') \<Rightarrow> (BootstrapStarted i, s'))"

section \<open>What a start says of the thread\<close>

lemma spawn_thread_facts:
  assumes "spawn tr q c = (Inr t, c')"
  shows "th_project_id t = sr_project_id q" "th_provider_id t = pf_provider (sr_profile q)"
    "[] \<notin> {th_thread_id t, th_project_id t, th_environment_id t, th_provider_id t, th_status t, pf_model (sr_profile q), pf_reasoning_level (sr_profile q)}"
proof -
  have nonempty: "s \<noteq> []" if "require_str f d = Some s" for f d s using that by (auto simp: require_str_def split: option.splits pyval.splits if_splits)
  have execution: "ex_model x \<noteq> [] \<and> ex_reasoning_level x \<noteq> []" if "find_execution es = Inr x" for es x
    using that
  proof (induction es)
    case (Cons e es)
    show ?case
    proof (cases "find_execution es = Inr x")
      case False
      then have "\<exists>k. require_str ''model'' k = Some (ex_model x) \<and> require_str ''reasoningLevel'' k = Some (ex_reasoning_level x)"
        using Cons.prems by (simp split: if_split_asm pyval.split_asm option.split_asm) auto
      then show ?thesis using nonempty by blast
    qed (rule Cons.IH)
  qed simp
  show "th_project_id t = sr_project_id q" "th_provider_id t = pf_provider (sr_profile q)"
    using spawn_established [OF assms] by auto
  obtain payload c2 c3 where v: "verify_spawned tr q payload c2 = (Inr t, c3)"
    using assms by (cases rule: spawn_cases) auto
  then have "validate_spawn_envelope payload = Inr t" by (cases rule: verify_cases) auto
  then obtain d where "thread_from d ''spawn'' = Inr t"
    by (cases payload) (auto simp: validate_spawn_envelope_def rbind_Inr_iff split: if_splits)
  then have "[] \<notin> {th_thread_id t, th_project_id t, th_environment_id t, th_provider_id t, th_status t}"
    by (auto simp: thread_from_def split: option.splits dest!: nonempty)
  moreover obtain page where "find_execution page = Inr \<lparr>ex_model = pf_model (sr_profile q), ex_reasoning_level = pf_reasoning_level (sr_profile q)\<rparr>"
    using spawn_established [OF assms] by blast
  ultimately show "[] \<notin> {th_thread_id t, th_project_id t, th_environment_id t, th_provider_id t, th_status t, pf_model (sr_profile q), pf_reasoning_level (sr_profile q)}"
    using execution by fastforce
qed

lemma start_candidate_validates:
  assumes "[] \<notin> {th_thread_id t, th_project_id t, th_environment_id t, th_provider_id t, th_status t, pf_model f, pf_reasoning_level f}"
    and "th_provider_id t = pf_provider f" and "endpoint \<noteq> []" and "runtime \<noteq> []"
  shows "\<exists>e. validate_bb_start_evidence (PDict (start_candidate t endpoint runtime f)) (th_project_id t) endpoint runtime f = Inr e \<and>
    evidence_dict e = start_candidate t endpoint runtime f"
  using assms by (auto simp: start_candidate_def validate_bb_start_evidence_def evidence_matches_def evidence_text_def evidence_dict_def require_str_def rbind_def BB_START_SOURCE_def)

text \<open>A gate that refuses is never ambiguous.\<close>

lemma read_json_reason: "read_json tr argv c = (Inl (Refused f), c') \<Longrightarrow> rf_reason f \<noteq> REFUSAL_AMBIGUOUS"
  by (auto simp: read_json_def and_then_eq checked_eq call_def Let_def bb_refuse_def refused_def refusal_reasons
      split: transport_outcome.splits sum.splits dest!: bounded_Inl decode_Inl)

lemma gate_reason: "gate tr c = (Inl (Refused f), c') \<Longrightarrow> rf_reason f \<noteq> REFUSAL_AMBIGUOUS"
proof (erule gate_cases, goal_cases)
  case (4 v g)
  then show ?case by (cases v) (auto simp: reported_version_def bb_refuse_def refusal_reasons split: option.splits if_splits)
qed (auto simp: bb_refuse_def refusal_reasons dest: read_json_reason)

lemma unattempted_reason:
  assumes "spawn tr q c = (Inl (Refused f), c')" and "rf_task_attempted f = Some False"
  shows "rf_reason f \<noteq> REFUSAL_AMBIGUOUS \<and> rf_native_thread_id f = None"
  using assms(1)
proof (cases rule: spawn_cases)
  case (both g)
  then show ?thesis by (simp add: refusal_reasons)
next
  case (gated e g)
  then show ?thesis using gate_reason [of tr c _ c'] gate_native [of tr c _ c'] by (cases e) (auto simp: refusal_reasons)
next
  case (answered payload c1 c2)
  from answered(3) assms(2) show ?thesis by (cases rule: verify_cases) (auto simp: orphan_flags)
qed (use assms(2) in auto)

lemma named_thread: "spawn tr q c = (Inl (Refused f), c') \<Longrightarrow> rf_native_thread_id f \<noteq> Some []"
proof (erule spawn_cases)
  fix payload c2 assume "verify_spawned tr q payload c2 = (Inl (Refused f), c')"
  then show ?thesis
    by (cases rule: verify_cases) (auto simp: orphan_flags spawned_id_def require_str_def split: pyval.splits option.splits if_splits)
next
  fix e g assume "gate tr c = (Inl e, c')" "\<And>k. e = Refused k \<Longrightarrow> g = k" "\<And>x. e = Escaped x \<Longrightarrow> rf_native_thread_id g = None \<and> rf_reason g = REFUSAL_TRANSPORT_FAILED"
    "Inl (Refused f) = Inl (Refused (classified False g))"
  then show ?thesis using gate_native by (cases e) auto
qed (auto dest: task_json_refused)

lemma start_error_cases:
  assumes "rf_native_thread_id f \<noteq> Some []"
  obtains (orphan) i where "rf_native_thread_id f = Some i" "start_error_of f = orphaned_error i"
    | (lost) "rf_native_thread_id f = None" "rf_reason f = REFUSAL_AMBIGUOUS" "start_error_of f = ManagedStartResponseLost None"
    | (failed) m where "rf_native_thread_id f = None" "rf_reason f \<noteq> REFUSAL_AMBIGUOUS" "start_error_of f = SessionLifecycleError m"
proof (cases "rf_native_thread_id f")
  case None
  then show thesis using lost failed by (cases "rf_reason f = REFUSAL_AMBIGUOUS") (auto simp: start_error_of_def)
next
  case (Some i)
  then show thesis using assms orphan by (cases i) (auto simp: start_error_of_def)
qed

lemma start_refused:
  assumes "spawn tr q c = (Inl (Refused f), c')"
  obtains (orphan) cs i where "bc_calls c' = bc_calls c @ cs" "length (filter task_bearing cs) \<le> 1" "attempted cs"
      "rf_native_thread_id f = Some i" "start_error_of f = orphaned_error i"
    | (lost) cs where "bc_calls c' = bc_calls c @ cs" "length (filter task_bearing cs) \<le> 1" "attempted cs" "start_error_of f = ManagedStartResponseLost None"
    | (failed) cs m where "bc_calls c' = bc_calls c @ cs" "length (filter task_bearing cs) \<le> 1" "start_error_of f = SessionLifecycleError m"
      "attempted cs \<longrightarrow> exits_nonzero tr (butlast (bc_calls c')) (spawn_argv q)"
proof -
  obtain cs where cs: "bc_calls c' = bc_calls c @ cs" "filter task_bearing cs \<in> {[], [spawn_argv q]}"
    "rf_task_attempted f = Some (spawn_argv q \<in> set cs)" "rf_native_thread_id f \<noteq> None \<longrightarrow> spawn_argv q \<in> set cs"
    "spawn_argv q \<in> set cs \<and> rf_native_thread_id f = None \<and> rf_reason f \<noteq> REFUSAL_AMBIGUOUS \<longrightarrow>
       exits_nonzero tr (butlast (bc_calls c')) (spawn_argv q)"
    using spawn_attempts [OF assms] by auto
  have att: "attempted cs \<longleftrightarrow> spawn_argv q \<in> set cs" by (rule attempted_iff [OF cs(2)])
  have one: "length (filter task_bearing cs) \<le> 1" using cs(2) by auto
  have early: "\<not> attempted cs \<Longrightarrow> rf_reason f \<noteq> REFUSAL_AMBIGUOUS" using unattempted_reason [OF assms] cs(3) att by simp
  from named_thread [OF assms] show thesis
  proof (cases rule: start_error_cases)
    case (orphan i)
    then show thesis using that(1) cs(1,4) one att by simp
  next
    case lost
    then show thesis using that(2) cs(1) one early by blast
  next
    case (failed m)
    then show thesis using that(3) cs(1,5) one att by simp
  qed
qed

text \<open>
  C35. What a managed start says of the thread. At most one call starts a turn. A start that succeeds hands over evidence that its own
  validator accepts against the same inputs, unchanged. A lost response, an orphan and an exception come only after the call was
  made. A plain failure, which stands for "no thread was created", is raised when the call was not made, but also after it: when the
  program exited with a nonzero code, and when the thread it created has an id the orphan's own check refuses.
\<close>

theorem managed_start_classified:
  assumes "bb_start_native tr project prompt profile endpoint runtime c = (r, c')" and "endpoint \<noteq> []" and "runtime \<noteq> []"
  shows "\<exists>cs. bc_calls c' = bc_calls c @ cs \<and> length (filter task_bearing cs) \<le> 1 \<and>
    (case r of
       Inr d \<Rightarrow> attempted cs \<and> (\<exists>e. validate_bb_start_evidence (PDict d) project endpoint runtime profile = Inr e \<and> evidence_dict e = d)
     | Inl (ManagedStartOrphaned i) \<Rightarrow> attempted cs
     | Inl (ManagedStartResponseLost i) \<Rightarrow> attempted cs
     | Inl (StartRaised e) \<Rightarrow> attempted cs
     | Inl (SessionLifecycleError m) \<Rightarrow>
         attempted cs \<longrightarrow>
           exits_nonzero tr (butlast (bc_calls c')) (spawn_argv (managed_request project prompt profile)) \<or>
           (\<exists>f i. spawn tr (managed_request project prompt profile) c = (Inl (Refused f), c') \<and> rf_native_thread_id f = Some i \<and>
              orphaned_error i = SessionLifecycleError m))"
proof -
  let ?q = "managed_request project prompt profile"
  obtain out where s: "spawn tr ?q c = (out, c')" using assms(1) by (auto simp: bb_start_native_def split: prod.splits sum.splits bb_fail.splits)
  obtain cs where cs: "bc_calls c' = bc_calls c @ cs" "filter task_bearing cs \<in> {[], [spawn_argv ?q]}"
    "case out of Inr t \<Rightarrow> spawn_argv ?q \<in> set cs | Inl (Escaped e) \<Rightarrow> spawn_argv ?q \<in> set cs | Inl (Refused f) \<Rightarrow> True"
    using spawn_attempts [OF s] by (cases out) (fastforce split: bb_fail.splits)+
  have att: "attempted cs \<longleftrightarrow> spawn_argv ?q \<in> set cs"
    using cs(2) attempted_iff by blast
  have one: "length (filter task_bearing cs) \<le> 1" using cs(2) by auto
  show ?thesis
  proof (cases out)
    case (Inr t)
    have "th_project_id t = project" "th_provider_id t = pf_provider profile"
      using spawn_thread_facts(1,2) [OF s [unfolded Inr]] by (simp_all add: managed_request_def)
    moreover have "[] \<notin> {th_thread_id t, th_project_id t, th_environment_id t, th_provider_id t, th_status t, pf_model profile, pf_reasoning_level profile}"
      using spawn_thread_facts(3) [OF s [unfolded Inr]] by (simp add: managed_request_def)
    ultimately have "\<exists>e. validate_bb_start_evidence (PDict (start_candidate t endpoint runtime profile)) project endpoint runtime profile = Inr e \<and>
        evidence_dict e = start_candidate t endpoint runtime profile"
      using start_candidate_validates [of t profile endpoint runtime] assms(2,3) by simp
    moreover have "r = Inr (start_candidate t endpoint runtime profile)" using assms(1) s Inr by (simp add: bb_start_native_def)
    ultimately show ?thesis using cs(1,3) Inr att one by (intro exI [of _ cs]) simp
  next
    case (Inl e)
    show ?thesis
    proof (cases e)
      case (Escaped x)
      then show ?thesis using assms(1) s Inl cs(1,3) att one by (intro exI [of _ cs]) (auto simp: bb_start_native_def)
    next
      case (Refused f)
      have s': "spawn tr ?q c = (Inl (Refused f), c')" using s Inl Refused by simp
      have r: "r = Inl (start_error_of f)" using assms(1) s' by (simp add: bb_start_native_def)
      from s' show ?thesis
      proof (cases rule: start_refused)
        case (orphan ds i)
        then show ?thesis using r s' by (intro exI [of _ ds]) (auto split: start_error.split)
      qed (use r in auto)
    qed
  qed
qed

end
