(* ===== verification/BbDemo.thy ===== *)
theory BbDemo
  imports BbStart
begin

text \<open>
  The bb client and the spawn command at concrete inputs: a program of the pinned version that starts the thread t1, whose log holds two
  turn requests, and a git that finds the base at the tip of its branch.
\<close>

section \<open>Responses as texts\<close>

definition version_doc :: pyval where "version_doc = PDict [(sv ''currentVersion'', sv ''0.38.0'')]"
definition version_text :: pystr where "version_text = lit ''{\"currentVersion\":\"0.38.0\"}''"
definition spawned_doc :: pyval where "spawned_doc = PDict [(sv ''environmentId'', sv ''w1''), (sv ''id'', sv ''t1''), (sv ''projectId'', sv ''p1''), (sv ''providerId'', sv ''pi''), (sv ''status'', sv ''active''), (sv ''visibility'', sv ''visible'')]"
definition spawned_text :: pystr where "spawned_text = lit ''{\"environmentId\":\"w1\",\"id\":\"t1\",\"projectId\":\"p1\",\"providerId\":\"pi\",\"status\":\"active\",\"visibility\":\"visible\"}''"
definition first_doc :: pyval where "first_doc = PList [PDict [(sv ''data'', PDict [(sv ''execution'', PDict [(sv ''model'', sv ''m''), (sv ''reasoningLevel'', sv ''high'')]), (sv ''source'', sv ''spawn'')]), (sv ''id'', sv ''e1''), (sv ''seq'', PInt 1), (sv ''threadId'', sv ''t1''), (sv ''type'', sv ''client/turn/requested'')]]"
definition first_text :: pystr where "first_text = lit ''[{\"data\":{\"execution\":{\"model\":\"m\",\"reasoningLevel\":\"high\"},\"source\":\"spawn\"},\"id\":\"e1\",\"seq\":1,\"threadId\":\"t1\",\"type\":\"client/turn/requested\"}]''"
definition second_doc :: pyval where "second_doc = PList [PDict [(sv ''data'', PDict [(sv ''execution'', PDict [(sv ''model'', sv ''m''), (sv ''reasoningLevel'', sv ''high'')]), (sv ''source'', sv ''spawn'')]), (sv ''id'', sv ''e2''), (sv ''seq'', PInt 2), (sv ''threadId'', sv ''t1''), (sv ''type'', sv ''client/turn/requested'')]]"
definition second_text :: pystr where "second_text = lit ''[{\"data\":{\"execution\":{\"model\":\"m\",\"reasoningLevel\":\"high\"},\"source\":\"spawn\"},\"id\":\"e2\",\"seq\":2,\"threadId\":\"t1\",\"type\":\"client/turn/requested\"}]''"
definition told_doc :: pyval where "told_doc = PDict [(sv ''mode'', sv ''queue''), (sv ''ok'', PBool True), (sv ''threadId'', sv ''t1'')]"
definition told_text :: pystr where "told_text = lit ''{\"mode\":\"queue\",\"ok\":true,\"threadId\":\"t1\"}''"

lemma key_order:
  "lit ''data'' \<le> lit ''id''" "lit ''environmentId'' \<le> lit ''id''" "lit ''execution'' \<le> lit ''source''" "lit ''id'' \<le> lit ''projectId''" "lit ''id'' \<le> lit ''seq''" "lit ''mode'' \<le> lit ''ok''" "lit ''model'' \<le> lit ''reasoningLevel''" "lit ''ok'' \<le> lit ''threadId''" "lit ''projectId'' \<le> lit ''providerId''" "lit ''providerId'' \<le> lit ''status''" "lit ''seq'' \<le> lit ''threadId''" "lit ''status'' \<le> lit ''visibility''" "lit ''threadId'' \<le> lit ''type''"
  by (simp_all add: lit_def)

lemma text_lengths:
  "list_all (\<lambda>t. length t \<le> MAX_RESPONSE_CHARS) [version_text, spawned_text, first_text, second_text, told_text]"
  by (simp add: version_text_def spawned_text_def first_text_def second_text_def told_text_def lit_def MAX_RESPONSE_CHARS_def)

lemma text_parses: "dumps True v = Inr t \<Longrightarrow> json_ok True v \<Longrightarrow> json_norm v = v \<Longrightarrow> loads plain_opts t = Inr v"
  using loads_dumps [of True v t plain_opts] by simp

lemma version_parses: "loads plain_opts version_text = Inr version_doc"
  by (rule text_parses, code_simp) (use small_int_text [of 1] small_int_text [of 2] in \<open>simp_all add: key_order version_doc_def\<close>)

lemma spawned_parses: "loads plain_opts spawned_text = Inr spawned_doc"
  by (rule text_parses, code_simp) (use small_int_text [of 1] small_int_text [of 2] in \<open>simp_all add: key_order spawned_doc_def\<close>)

lemma first_parses: "loads plain_opts first_text = Inr first_doc"
  by (rule text_parses, code_simp) (use small_int_text [of 1] small_int_text [of 2] in \<open>simp_all add: key_order first_doc_def\<close>)

lemma second_parses: "loads plain_opts second_text = Inr second_doc"
  by (rule text_parses, code_simp) (use small_int_text [of 1] small_int_text [of 2] in \<open>simp_all add: key_order second_doc_def\<close>)

lemma told_parses: "loads plain_opts told_text = Inr told_doc"
  by (rule text_parses, code_simp) (use small_int_text [of 1] small_int_text [of 2] in \<open>simp_all add: key_order told_doc_def\<close>)


section \<open>The program\<close>

definition answer :: "pystr \<Rightarrow> transport_outcome" where
  "answer t = Answered \<lparr>tr_exit_code = 0, tr_stdout = t, tr_stderr = []\<rparr>"

definition demo_bb :: bb_transport where
  "demo_bb h argv =
     (if argv = version_argv then answer version_text
      else if take 2 argv = [lit ''thread'', lit ''spawn''] then answer spawned_text
      else if take 2 argv = [lit ''thread'', lit ''tell''] then answer told_text
      else if last argv = lit ''1'' then answer second_text else answer first_text)"

lemma answered:
  assumes "tr (bc_calls c) argv = answer t" and "length t \<le> MAX_RESPONSE_CHARS" and "loads plain_opts t = Inr v"
  shows "read_json tr argv c = (Inr v, c\<lparr>bc_calls := bc_calls c @ [argv]\<rparr>)" "task_json tr argv c = (Inr v, c\<lparr>bc_calls := bc_calls c @ [argv]\<rparr>)"
  using assms
  by (simp_all add: read_json_def task_json_def task_call_def and_then_def refusing_def call_def answer_def checked_def bounded_def oversized_def
      decode_def MAX_RESPONSE_CHARS_def)

lemma demo_reads:
  "read_json demo_bb version_argv c = (Inr version_doc, c\<lparr>bc_calls := bc_calls c @ [version_argv]\<rparr>)"
  "task_json demo_bb (spawn_argv q) c = (Inr spawned_doc, c\<lparr>bc_calls := bc_calls c @ [spawn_argv q]\<rparr>)"
  "task_json demo_bb (tell_argv i m) c = (Inr told_doc, c\<lparr>bc_calls := bc_calls c @ [tell_argv i m]\<rparr>)"
  "read_json demo_bb (log_argv i l (Some (lit ''1''))) c = (Inr second_doc, c\<lparr>bc_calls := bc_calls c @ [log_argv i l (Some (lit ''1''))]\<rparr>)"
  "a \<in> {None, Some (lit ''0'')} \<Longrightarrow> l \<noteq> lit ''1'' \<or> a \<noteq> None \<Longrightarrow>
     read_json demo_bb (log_argv i l a) c = (Inr first_doc, c\<lparr>bc_calls := bc_calls c @ [log_argv i l a]\<rparr>)"
  using text_lengths version_parses spawned_parses told_parses second_parses first_parses
  by (auto intro!: answered simp: demo_bb_def version_argv_def spawn_argv_def tell_argv_def log_argv_def)

lemma demo_gate: "gate demo_bb (new_client True) = (Inr (), \<lparr>bc_enabled = True, bc_verified_version = Some (lit PINNED_BB_VERSION), bc_calls = [version_argv]\<rparr>)"
  by (simp add: gate_def verify_version_def new_client_def and_then_def demo_reads checked_def reported_version_def version_doc_def require_str_def
      PINNED_BB_VERSION_def give_def)

section \<open>A spawn\<close>

definition demo_triple :: bb_profile where
  "demo_triple = \<lparr>pf_provider = lit ''pi'', pf_model = lit ''m'', pf_reasoning_level = lit ''high''\<rparr>"

definition demo_thread :: bb_thread where
  "demo_thread = \<lparr>th_thread_id = lit ''t1'', th_project_id = lit ''p1'', th_environment_id = lit ''w1'', th_provider_id = lit ''pi'', th_status = lit ''active''\<rparr>"

definition demo_client :: "pystr list list \<Rightarrow> bb_client" where
  "demo_client calls = \<lparr>bc_enabled = True, bc_verified_version = Some (lit PINNED_BB_VERSION), bc_calls = version_argv # calls\<rparr>"

lemma small_texts: "int_text 0 = Inr (lit ''0'')" "int_text 1 = Inr (lit ''1'')" "int_text 3 = Inr (lit ''3'')"
  by (simp_all add: int_text_def nat_digits.simps int_max_str_digits_def lit_def)

lemma demo_spawn:
  assumes "sr_project_id q = lit ''p1''" and "sr_profile q = demo_triple" and "sr_environment q \<in> {None, Some (lit ''w1'')}" and "sr_base_sha q = None"
  shows "spawn demo_bb q (new_client True) = (Inr demo_thread, demo_client [spawn_argv q, log_argv (lit ''t1'') (lit ''3'') None])"
proof -
  have v: "validate_spawn_envelope spawned_doc = Inr demo_thread"
    by (simp add: validate_spawn_envelope_def validate_spawn_visibility_def spawned_doc_def has_key_def thread_from_def require_str_def demo_thread_def
        VISIBLE_THREAD_VISIBILITY_def require_def)
  have x: "execution_evidence demo_bb (lit ''t1'') c =
      (Inr \<lparr>ex_model = lit ''m'', ex_reasoning_level = lit ''high''\<rparr>, c\<lparr>bc_calls := bc_calls c @ [log_argv (lit ''t1'') (lit ''3'') None]\<rparr>)" for c
    by (simp add: execution_evidence_def log_entries_def and_then_def computed_def give_def EXECUTION_PROBE_EVENTS_def small_texts demo_reads first_doc_def
        checked_def require_str_def require_seq_def dget_none_def SPAWN_EVENT_TYPE_def SPAWN_EVENT_SOURCE_def)
  have "identity_check q demo_thread = None" "profile_check q \<lparr>ex_model = lit ''m'', ex_reasoning_level = lit ''high''\<rparr> = None"
    using assms by (auto simp: identity_check_def profile_check_def demo_thread_def demo_triple_def)
  then show ?thesis
    using assms(4) demo_gate v x
    by (simp add: spawn_def and_then_def refusing_def demo_reads verify_spawned_def demo_client_def demo_thread_def)
qed

definition demo_request :: spawn_request where
  "demo_request = \<lparr>sr_project_id = lit ''p1'', sr_prompt = lit ''go'', sr_profile = demo_triple, sr_environment = None, sr_base_sha = None,
     sr_permission_mode = None, sr_title = None\<rparr>"

lemma demo_request_spawns:
  "spawn demo_bb demo_request (new_client True) = (Inr demo_thread, demo_client [spawn_argv demo_request, log_argv (lit ''t1'') (lit ''3'') None])"
  by (rule demo_spawn) (simp_all add: demo_request_def)

theorem spawn_one_attempt_witness:
  "\<exists>cs. bc_calls (demo_client [spawn_argv demo_request, log_argv (lit ''t1'') (lit ''3'') None]) = cs \<and> length cs \<le> 3 \<and>
     filter task_bearing cs \<in> {[], [spawn_argv demo_request]} \<and> spawn_argv demo_request \<in> set cs"
  using spawn_one_attempt [OF demo_request_spawns] by (simp add: new_client_def)

theorem spawn_verified_witness:
  "\<exists>h d. responds demo_bb h (spawn_argv demo_request) (PDict d) \<and> dget ''visibility'' d = Some (sv ''visible'') \<and>
     require_str ''id'' d = Some (th_thread_id demo_thread)"
  using spawn_verified [OF demo_request_spawns] by blast

section \<open>A message\<close>

lemma demo_send:
  "send demo_bb (lit ''t1'') (lit ''hello'') (lit ''queue-if-active'') (new_client True) =
     (Inr \<lparr>qu_thread_id = lit ''t1'', qu_mode = lit ''queue''\<rparr>, demo_client [tell_argv (lit ''t1'') (lit ''hello'')])"
  by (simp add: send_def and_then_def demo_gate send_queued_def demo_reads checked_def queued_from_def told_doc_def require_str_def demo_client_def)

theorem send_never_clean_failure_witness:
  "\<exists>d. responds demo_bb [version_argv] (tell_argv (lit ''t1'') (lit ''hello'')) (PDict d) \<and> dget ''ok'' d = Some (PBool True)"
  using send_never_clean_failure [OF demo_send] by (auto simp: demo_client_def)

theorem version_before_task_witness:
  "\<exists>v. responds demo_bb [] version_argv v \<and> reported_version v = Inr (lit PINNED_BB_VERSION)"
proof -
  let ?c = "demo_client [tell_argv (lit ''t1'') (lit ''hello'')]"
  have "(client_step demo_bb)\<^sup>*\<^sup>* (new_client True, {}) (?c, {})" using client_step.sends [OF demo_send] by blast
  then show ?thesis using version_before_task [of demo_bb True ?c "{}" 1] by (auto simp: demo_client_def)
qed

section \<open>Two pages\<close>

lemma demo_first_page:
  "\<exists>page c. events_after demo_bb (lit ''t1'') (PInt 0) (PInt 1) (new_client True) = (Inr page, c) \<and>
     map ev_seq (pg_events page) = [1] \<and> pg_next_after_seq page = Some 1"
  by (simp add: events_after_def and_then_def demo_gate log_entries_def computed_def give_def small_texts demo_reads first_doc_def checked_def
      require_str_def require_seq_def dget_none_def MAX_EVENT_PAGE_def event_from_def event_page_def)

lemma demo_second_page:
  "\<exists>page c. events_after demo_bb (lit ''t1'') (PInt 1) (PInt 1) (new_client True) = (Inr page, c) \<and> map ev_seq (pg_events page) = [2]"
  by (simp add: events_after_def and_then_def demo_gate log_entries_def computed_def give_def small_texts demo_reads second_doc_def checked_def
      require_str_def require_seq_def dget_none_def MAX_EVENT_PAGE_def event_from_def event_page_def)

theorem pages_advance_witness: "\<exists>(page :: bb_event_page) (page' :: bb_event_page). pg_truncated page \<and> sorted_wrt (<) (0 # map ev_seq (pg_events page @ pg_events page')) \<and> pg_events page' \<noteq> []"
proof -
  obtain page c where p: "events_after demo_bb (lit ''t1'') (PInt 0) (PInt 1) (new_client True) = (Inr page, c)"
      "map ev_seq (pg_events page) = [1]" "pg_next_after_seq page = Some 1"
    using demo_first_page by (elim exE conjE)
  obtain page' c' where q: "events_after demo_bb (lit ''t1'') (PInt 1) (PInt 1) (new_client True) = (Inr page', c')" "map ev_seq (pg_events page') = [2]"
    using demo_second_page by (elim exE conjE)
  have "pg_truncated page" using pages_advance [OF p(1)] p(3) by (metis option.distinct(1))
  moreover have "sorted_wrt (<) (0 # map ev_seq (pg_events page @ pg_events page'))" using pages_advance [OF p(1)] p(3) q(1) by blast
  moreover have "pg_events page' \<noteq> []" using q(2) by auto
  ultimately show ?thesis by blast
qed

section \<open>A plan and its run\<close>

definition demo_sha :: pystr where "demo_sha = replicate 40 97"

definition demo_git :: bb_transport where
  "demo_git h argv =
     (if argv ! 2 = lit ''rev-parse'' then answer demo_sha else if argv ! 2 = lit ''rev-list'' then answer (lit ''0'') else answer [])"

definition demo_project :: registry_project where
  "demo_project = \<lparr>rg_entry = Some [(sv ''id'', sv ''p1''), (sv ''default_branch_base'', sv ''main''),
       (sv ''bb'', PDict [(sv ''enabled'', PBool True), (sv ''executable'', PList [sv ''bb''])])],
     rg_repos = Some [(sv ''r1'', AbsolutePath (lit ''/r1''))]\<rparr>"

definition demo_args :: spawn_args where
  "demo_args = \<lparr>ar_assignment_kind = lit ''read-only'', ar_registry = demo_project, ar_repo_target = None, ar_provider = Some (lit ''pi''),
     ar_model = Some (lit ''m''), ar_reasoning_level = Some (lit ''high''), ar_base_sha = demo_sha, ar_permission_mode = None, ar_title = None,
     ar_new_environment = False, ar_environment = Some (lit ''w1''), ar_allow_stale_watchers = False\<rparr>"

definition demo_plan :: spawn_plan where
  "demo_plan = \<lparr>sp_project_id = lit ''p1'', sp_native_project_id = lit ''p1'', sp_repo_path = lit ''/r1'', sp_base_sha = demo_sha,
     sp_environment = Attached (lit ''w1''), sp_profile = demo_triple, sp_permission_mode = None, sp_title = None,
     sp_prompt = lit PROFILE_ONLY_PROMPT\<rparr>"

lemma strips: "py_strip demo_sha = demo_sha" "py_strip (lit ''p1'') = lit ''p1''" "py_strip (lit ''main'') = lit ''main''" "py_strip (lit ''0'') = lit ''0''"
  by (simp_all add: py_strip_def py_space_def demo_sha_def lit_def)

lemma demo_sha_facts: "is_sha demo_sha" "ascii_lower demo_sha = demo_sha"
  by (simp_all add: is_sha_def ascii_lower_def demo_sha_def hex_char_def list_all_iff)

lemma demo_registry: "registry_gate demo_project None = Inr (lit ''p1'', lit ''main'', lit ''p1'', lit ''/r1'')"
  by (simp add: registry_gate_def demo_project_def require_str_def dget_none_def strips repo_keys_def bb_settings_def bb_project_id_from_project_def Let_def)

lemma demo_planned: "plan_spawn demo_git (planning_request demo_args) [] =
    (Inr demo_plan, git_commands (lit ''/r1'') (lit ''main'') demo_sha demo_sha)"
proof -
  let ?cs = "git_commands (lit ''/r1'') (lit ''main'') demo_sha demo_sha"
  have "py_int (lit ''0'') = Inr 0"
    by (simp add: py_int_def strips Let_def) (simp add: lit_def is_digit_def digits_value_def int_max_str_digits_def)
  then have "base_is_current demo_git [] demo_sha ?cs demo_sha"
    by (simp add: base_is_current_def answers_ok_def demo_git_def answer_def git_commands_def rev_parse_argv_def git_output_def strips demo_sha_facts)
  then have "git_gate demo_git (lit ''/r1'') (lit ''main'') demo_sha [] = (Inr (), ?cs)" unfolding git_gate_Inr by auto
  then show ?thesis
    unfolding plan_spawn_Inr profile_gate_Inr isolation_gate_Inr
    by (intro exI [of _ "lit ''main''"])
      (simp add: planning_request_def demo_args_def demo_plan_def demo_triple_def base_gate_def demo_sha_facts demo_registry EXCLUDED_MODELS_def)
qed

theorem plan_exact_witness:
  "is_sha demo_sha \<and> (\<exists>base_ref origin. base_is_current demo_git [] demo_sha (git_commands (lit ''/r1'') base_ref demo_sha origin) origin)"
  using demo_planned unfolding plan_exact by (auto simp: demo_plan_def demo_sha_facts)

definition demo_environment :: spawn_environment where
  "demo_environment = \<lparr>se_overdue = [], se_state_dir = lit ''/s'', se_now = lit ''now'', se_print_error = None\<rparr>"

lemma demo_command_run: "ru_code (bb_spawn_main demo_git demo_bb (\<lambda>_ _. None) demo_environment demo_args) = Inr ExitOk"
proof -
  have c: "client_from_project (rg_entry demo_project) = Inr (new_client True)"
    by (simp add: client_from_project_def bb_settings_def demo_project_def bb_executable_from_project_def timeout_ok_def dget_none_def)
  have s: "spawn demo_bb (spawn_request_of demo_plan) (new_client True) =
      (Inr demo_thread, demo_client [spawn_argv (spawn_request_of demo_plan), log_argv (lit ''t1'') (lit ''3'') None])"
    by (rule demo_spawn) (simp_all add: spawn_request_of_def demo_plan_def)
  have k: "ar_assignment_kind demo_args = lit ''read-only''" "ar_registry demo_args = demo_project" "\<not> ar_new_environment demo_args"
    by (simp_all add: demo_args_def)
  have t: "safe_segment (th_thread_id demo_thread)" by (simp add: safe_segment_def demo_thread_def) (simp add: lit_def)
  show ?thesis
    by (simp add: bb_spawn_main_def demo_planned run_planned_def k c plugin_gate_def run_spawn_def s complete_spawn_def
        persist_assignment_def t demo_environment_def outcome_of_def)
qed

theorem spawn_exit_code_witness:
  "attempted (ru_bb_calls (bb_spawn_main demo_git demo_bb (\<lambda>_ _. None) demo_environment demo_args)) \<and>
   ru_written (bb_spawn_main demo_git demo_bb (\<lambda>_ _. None) demo_environment demo_args) \<noteq> []"
  using spawn_exit_code [of demo_git demo_bb "\<lambda>_ _. None" demo_environment demo_args] demo_command_run by simp

section \<open>A managed start\<close>

lemma demo_managed:
  "bb_start_native demo_bb (lit ''p1'') (lit ''go'') demo_triple (lit ''ep'') (lit ''rt'') (new_client True) =
     (Inr (start_candidate demo_thread (lit ''ep'') (lit ''rt'') demo_triple),
      demo_client [spawn_argv (managed_request (lit ''p1'') (lit ''go'') demo_triple), log_argv (lit ''t1'') (lit ''3'') None])"
  by (simp add: bb_start_native_def demo_spawn managed_request_def)

theorem managed_start_classified_witness:
  "\<exists>e. validate_bb_start_evidence (PDict (start_candidate demo_thread (lit ''ep'') (lit ''rt'') demo_triple)) (lit ''p1'') (lit ''ep'') (lit ''rt'')
     demo_triple = Inr e"
  using managed_start_classified [OF demo_managed] by auto

end
