(* ===== verification/Activation.thy ===== *)
theory Activation
  imports BbSpawn Sha256
begin

text \<open>
  Activation identities: \<open>src/bin/_activation_identity.py\<close>. A packet that grants a lane to one writer carries six fields; the module
  validates them, derives the key of their lease and classifies packets. The sender's resolution of a path is a parameter; the values of
  fields are texts, as the command line and the parser of the frontmatter give them.
\<close>

section \<open>Identities\<close>

definition IDENTITY_FIELDS :: "string list" where
  "IDENTITY_FIELDS = [''project'', ''chat'', ''task'', ''worktree'', ''branch'', ''target_agent'']"

definition AX_DOORBELL_MAX_CHARS :: nat where "AX_DOORBELL_MAX_CHARS = 240"

record activation_identity =
  ai_project :: pystr
  ai_chat :: pystr
  ai_task :: pystr
  ai_worktree :: pystr
  ai_branch :: pystr
  ai_target_agent :: pystr

definition identity_values :: "activation_identity \<Rightarrow> pystr list" where
  "identity_values i = [ai_project i, ai_chat i, ai_task i, ai_worktree i, ai_branch i, ai_target_agent i]"

definition identity_dict :: "activation_identity \<Rightarrow> pydict" where
  "identity_dict i = zip (map sv IDENTITY_FIELDS) (map PStr (identity_values i))"

section \<open>One field\<close>

text \<open>
  Whether the frontmatter parser gives back this very text. No character beyond ASCII has a lower case within the three words
  compared with, so folding ASCII is enough.
\<close>

definition frontmatter_roundtrips :: "pystr \<Rightarrow> pyerr + bool" where
  "frontmatter_roundtrips value =
     (if ascii_lower value \<in> {lit ''true'', lit ''false'', lit ''null''} then Inr False
      else if starts_with [91] value \<and> ends_with [93] value then Inr False
      else
        case py_int value of
          Inr _ \<Rightarrow> Inr False
        | Inl (ValueErr _) \<Rightarrow> Inr True
        | Inl e \<Rightarrow> Inl e)"

definition breaks_line :: "nat \<Rightarrow> bool" where
  "breaks_line c \<longleftrightarrow> c < 32 \<or> c = 127 \<or> c \<in> {0x85, 0x2028, 0x2029}"

definition normalized_identity_field :: "pystr option \<Rightarrow> pyerr + pystr" where
  "normalized_identity_field value =
     (case value of
        None \<Rightarrow> Inl (ValueErr ''activation identity requires a field'')
      | Some raw \<Rightarrow>
          if list_ex breaks_line raw then Inl (ValueErr ''contains control or line-breaking characters'')
          else if py_strip raw = [] then Inl (ValueErr ''activation identity requires a field'')
          else
            rbind (frontmatter_roundtrips (py_strip raw)) (\<lambda>ok.
            if ok then Inr (py_strip raw) else Inl (ValueErr ''would be coerced by frontmatter serialization'')))"

section \<open>The worktree\<close>

text \<open>\<open>os.path.normpath\<close> on POSIX: the components kept so far, last one first.\<close>

fun norm_components :: "bool \<Rightarrow> pystr list \<Rightarrow> pystr list \<Rightarrow> pystr list" where
  "norm_components rooted kept [] = rev kept"
| "norm_components rooted kept (c # cs) =
     (if c \<in> {[], lit ''.''} then norm_components rooted kept cs
      else if c \<noteq> lit ''..'' \<or> \<not> rooted \<and> kept = [] \<or> (kept \<noteq> [] \<and> hd kept = lit ''..'') then norm_components rooted (c # kept) cs
      else norm_components rooted (tl kept) cs)"

definition normpath :: "pystr \<Rightarrow> pystr" where
  "normpath path =
     (if path = [] then lit ''.''
      else
        let slashes = (if starts_with [47, 47] path \<and> \<not> starts_with [47, 47, 47] path then [47, 47] else if starts_with [47] path then [47] else []);
            normal = slashes @ join 47 (norm_components (slashes \<noteq> []) [] (split_on 47 path)) in
        if normal = [] then lit ''.'' else normal)"

definition is_absolute_path :: "pystr \<Rightarrow> bool" where
  "is_absolute_path p \<longleftrightarrow> starts_with [47] p"

definition check_worktree :: "pystr \<Rightarrow> pyerr + unit" where
  "check_worktree worktree =
     (if \<not> is_absolute_path worktree then Inl (ValueErr ''--worktree must be an absolute path'')
      else if worktree \<noteq> normpath worktree \<or> starts_with [47, 47] worktree then Inl (ValueErr ''--worktree must be in canonical lexical form'')
      else Inr ())"

text \<open>What strict resolution of a path that is absolute after expansion gives: a directory, something else, or nothing.\<close>

datatype resolution = Directory pystr | NotADirectory | Unresolvable

definition canonical_worktree :: "(pystr \<Rightarrow> pystr) \<Rightarrow> (pystr \<Rightarrow> resolution) \<Rightarrow> pystr \<Rightarrow> pyerr + pystr" where
  "canonical_worktree expanduser resolve value =
     (let expanded = expanduser value in
      if \<not> is_absolute_path expanded then Inl (ValueErr ''--worktree must be an absolute path'')
      else
        case resolve expanded of
          Unresolvable \<Rightarrow> Inl (ValueErr ''--worktree must be an existing directory at delivery time'')
        | NotADirectory \<Rightarrow> Inl (ValueErr ''--worktree is not a directory'')
        | Directory p \<Rightarrow> Inr p)"

section \<open>The identity of a packet\<close>

text \<open>The fields are validated in order, then the worktree's form.\<close>

definition lease_identity :: "(string \<Rightarrow> pystr option) \<Rightarrow> pyerr + activation_identity" where
  "lease_identity get =
     rbind (normalized_identity_field (get ''project'')) (\<lambda>project.
     rbind (normalized_identity_field (get ''chat'')) (\<lambda>chat.
     rbind (normalized_identity_field (get ''task'')) (\<lambda>task.
     rbind (normalized_identity_field (get ''worktree'')) (\<lambda>worktree.
     rbind (normalized_identity_field (get ''branch'')) (\<lambda>branch.
     rbind (normalized_identity_field (get ''target_agent'')) (\<lambda>target_agent.
     rbind (check_worktree worktree) (\<lambda>_.
     Inr \<lparr>ai_project = project, ai_chat = chat, ai_task = task, ai_worktree = worktree, ai_branch = branch, ai_target_agent = target_agent\<rparr>)))))))"

definition canonical_identity :: "activation_identity \<Rightarrow> pystr" where
  "canonical_identity i = join 0x1F (identity_values i)"

definition lease_key :: "activation_identity \<Rightarrow> pyerr + pystr" where
  "lease_key i = rbind (digest_of (canonical_identity i)) (\<lambda>h. Inr (take 16 h))"

section \<open>Classifying a packet\<close>

datatype activation_class =
    NoActivation
  | Activation activation_identity
  | MalformedPacket string

definition packet_text :: "string \<Rightarrow> pydict \<Rightarrow> pystr option" where
  "packet_text f d = (case dget f d of Some (PStr s) \<Rightarrow> Some s | _ \<Rightarrow> None)"

definition packet_source :: "pydict \<Rightarrow> pystr \<Rightarrow> string \<Rightarrow> pystr option" where
  "packet_source d target_agent f =
     (if f = ''target_agent'' then Some target_agent
      else packet_text (if f = ''project'' then ''project_id'' else if f = ''chat'' then ''chat_id'' else if f = ''task'' then ''related_task'' else f) d)"

definition wrong_type :: "pydict \<Rightarrow> string \<Rightarrow> bool" where
  "wrong_type d f = (case dget f d of None \<Rightarrow> False | Some PNone \<Rightarrow> False | Some (PStr _) \<Rightarrow> False | _ \<Rightarrow> True)"

text \<open>An exception other than a \<open>ValueError\<close> escapes.\<close>

definition classify_activation :: "pydict \<Rightarrow> pystr \<Rightarrow> pyerr + activation_class" where
  "classify_activation frontmatter target_agent =
     (if \<not> list_ex (\<lambda>f. has_key f frontmatter) [''activation'', ''worktree'', ''branch''] then Inr NoActivation
      else if dget ''activation'' frontmatter \<noteq> Some (PBool True) then Inr (MalformedPacket ''activation must be present and exactly true'')
      else if dget ''to'' frontmatter \<noteq> Some (PStr target_agent) then
        Inr (MalformedPacket ''packet `to` must be a string exactly equal to the claiming target agent'')
      else if list_ex (wrong_type frontmatter) [''project_id'', ''chat_id'', ''related_task'', ''worktree'', ''branch''] then
        Inr (MalformedPacket ''activation identity fields must round-trip as strings'')
      else if (case packet_text ''worktree'' frontmatter of None \<Rightarrow> False | Some w \<Rightarrow> \<not> is_absolute_path (py_strip w)) then
        Inr (MalformedPacket ''packet worktree must be serialized absolute'')
      else
        case lease_identity (packet_source frontmatter target_agent) of
          Inr i \<Rightarrow> Inr (Activation i)
        | Inl e \<Rightarrow> if is_value_error e then Inr (MalformedPacket ''invalid identity'') else Inl e)"

section \<open>The ring prompt\<close>

text \<open>\<open>shlex.join\<close>: a word is quoted unless it is made of safe characters.\<close>

definition shell_safe :: "nat \<Rightarrow> bool" where
  "shell_safe c \<longleftrightarrow> 48 \<le> c \<and> c \<le> 57 \<or> 65 \<le> c \<and> c \<le> 90 \<or> 97 \<le> c \<and> c \<le> 122 \<or> c \<in> set (lit ''_@%+=:,./-'')"

definition shell_quote :: "pystr \<Rightarrow> pystr" where
  "shell_quote s =
     (if s = [] then [39, 39]
      else if list_all shell_safe s then s
      else 39 # concat (map (\<lambda>c. if c = 39 then [39, 34, 39, 34, 39] else [c]) s) @ [39])"

definition build_activation_consume_command :: "pystr \<Rightarrow> pystr \<Rightarrow> pystr \<Rightarrow> pystr \<Rightarrow> pystr \<Rightarrow> pystr" where
  "build_activation_consume_command launcher recipient project chat_id packet_name =
     join 32 (map shell_quote
       [launcher, lit ''inbox.py'', lit ''--me'', recipient, lit ''--project'', project, lit ''--chat'', chat_id, lit ''--packet'', packet_name])"

definition ring_tiers :: "pystr \<Rightarrow> pystr \<Rightarrow> pystr \<Rightarrow> pystr list" where
  "ring_tiers sender related_task command =
     [lit ''[from '' @ sender @ lit ''] ACTIVATION '' @ related_task @ lit '': claim via `'' @ command @ [96, 32, 8212] @ lit '' do not Read the packet file.'',
      lit ''[from '' @ sender @ lit ''] ACTIVATION '' @ related_task @ lit '': claim via `'' @ command @ [96],
      lit ''[from '' @ sender @ lit ''] `'' @ command @ [96]]"

definition build_activation_ring_prompt :: "pystr \<Rightarrow> pystr \<Rightarrow> pystr \<Rightarrow> pyerr + pystr" where
  "build_activation_ring_prompt sender related_task command =
     (case List.find (\<lambda>p. length p \<le> AX_DOORBELL_MAX_CHARS) (ring_tiers sender related_task command) of
        Some p \<Rightarrow> Inr p
      | None \<Rightarrow> Inl (ValueErr ''activation ring cannot fit the AX budget''))"

section \<open>What an identity is\<close>

lemma roundtrips_iff:
  "frontmatter_roundtrips v = Inr True \<longleftrightarrow>
     ascii_lower v \<notin> {lit ''true'', lit ''false'', lit ''null''} \<and> \<not> (starts_with [91] v \<and> ends_with [93] v) \<and> (\<forall>z. py_int v \<noteq> Inr z)"
  unfolding frontmatter_roundtrips_def by (cases "py_int v") (auto dest: py_int_error)

lemma roundtrips_total: "\<exists>b. frontmatter_roundtrips v = Inr b"
proof (cases "py_int v")
  case (Inl e)
  then obtain m where "py_int v = Inl (ValueErr m)" using py_int_error by blast
  then show ?thesis by (auto simp: frontmatter_roundtrips_def)
qed (auto simp: frontmatter_roundtrips_def)

lemma normalized_total: "normalized_identity_field v = Inl e \<Longrightarrow> \<exists>m. e = ValueErr m"
  using roundtrips_total [of "py_strip (the v)"] by (auto simp: normalized_identity_field_def split: option.splits if_splits)

lemma normalized_Inr:
  "normalized_identity_field v = Inr s \<longleftrightarrow>
     (\<exists>raw. v = Some raw \<and> s = py_strip raw \<and> \<not> list_ex breaks_line raw \<and> s \<noteq> [] \<and> frontmatter_roundtrips s = Inr True)"
  by (auto simp: normalized_identity_field_def rbind_Inr_iff split: option.splits)

lemma lease_identity_Inr:
  "lease_identity get = Inr i \<longleftrightarrow>
     list_all2 (\<lambda>f v. normalized_identity_field (get f) = Inr v) IDENTITY_FIELDS (identity_values i) \<and> check_worktree (ai_worktree i) = Inr ()"
  by (cases i) (auto simp: lease_identity_def rbind_Inr_iff IDENTITY_FIELDS_def identity_values_def)

lemma strip_subset: "set (py_strip s) \<subseteq> set s"
  unfolding py_strip_def by (metis set_dropWhileD set_rev subsetI)

lemma identity_unit_free:
  assumes "lease_identity get = Inr i" and "v \<in> set (identity_values i)"
  shows "0x1F \<notin> set v"
proof -
  have "\<exists>f. normalized_identity_field (get f) = Inr v"
    using assms unfolding lease_identity_Inr by (auto dest!: list_all2_in_set2)
  then obtain raw where "v = py_strip raw" "\<not> list_ex breaks_line raw" unfolding normalized_Inr by blast
  moreover have "breaks_line 0x1F" by (simp add: breaks_line_def)
  ultimately show ?thesis using strip_subset [of raw] by (auto simp: list_ex_iff)
qed

lemma split_join:
  assumes "c \<notin> set t" and "list_all (\<lambda>t. c \<notin> set t) ts"
  shows "split_on c (join c (t # ts)) = t # ts"
proof -
  have one: "split_on c t = [t]" if "c \<notin> set t" for t using that by (induction t) auto
  have more: "split_on c (t @ c # u) = t # split_on c u" if "c \<notin> set t" for t u using that by (induction t) auto
  show ?thesis
    using assms
  proof (induction ts arbitrary: t)
    case (Cons s ts)
    then have "split_on c (t @ c # join c (s # ts)) = t # s # ts" using more [of t "join c (s # ts)"] by simp
    then show ?case by (simp add: join_def)
  qed (simp add: join_def one)
qed

text \<open>The text the key is derived from names the identity: the separator cannot occur in a field.\<close>

lemma canonical_identity_inj:
  assumes "lease_identity get = Inr i" and "lease_identity get' = Inr j" and "canonical_identity i = canonical_identity j"
  shows "i = j"
proof -
  have split: "split_on 0x1F (canonical_identity k) = identity_values k" if "lease_identity g = Inr k" for g k
    unfolding canonical_identity_def identity_values_def
    by (rule split_join) (use identity_unit_free [OF that] in \<open>auto simp: identity_values_def\<close>)
  have "identity_values i = identity_values j" using split [OF assms(1)] split [OF assms(2)] assms(3) by simp
  then show ?thesis by (simp add: identity_values_def)
qed

end
