(* ===== verification/Clock.thy ===== *)
theory Clock
  imports Redaction
begin

text \<open>
  Instants and their texts: \<open>utc_iso\<close>, \<open>parse_iso8601\<close> and the arithmetic of expiry. An instant is a number of microseconds since the
  start of year 1 in UTC, which is how the calendar of the library counts days.
\<close>

definition second :: int where "second = 1000000"
definition day :: int where "day = 86400 * second"

definition days_in_year :: "nat \<Rightarrow> nat" where
  "days_in_year y = (if leap_year y then 366 else 365)"

fun days_before_year :: "nat \<Rightarrow> nat" where
  "days_before_year 0 = 0"
| "days_before_year (Suc 0) = 0"
| "days_before_year (Suc (Suc y)) = days_before_year (Suc y) + days_in_year (Suc y)"

fun days_before_month :: "nat \<Rightarrow> nat \<Rightarrow> nat" where
  "days_before_month y 0 = 0"
| "days_before_month y (Suc 0) = 0"
| "days_before_month y (Suc (Suc m)) = days_before_month y (Suc m) + days_in_month y (Suc m)"

section \<open>Reading a text\<close>

datatype iso_time = NaiveTime | InstantAt int

definition base_seconds :: "pystr \<Rightarrow> int" where
  "base_seconds s =
     (let y = digits_value (take 4 s); m = two_digits s 5; d = two_digits s 8 in
      int (days_before_year y + days_before_month y m + d - 1) * 86400 +
      int (3600 * two_digits s 11 + 60 * two_digits s 14 + two_digits s 17))"

definition fraction_micros :: "pystr \<Rightarrow> int" where
  "fraction_micros s =
     (let frac = (if take 1 (drop 19 s) = [46] then takeWhile is_digit (drop 20 s) else []) in
      int (digits_value (frac @ replicate (6 - length frac) 48)))"

text \<open>\<open>parse_iso8601\<close>: nothing for an empty value or a text that is no timestamp.\<close>

definition parse_iso8601 :: "pyval \<Rightarrow> pyerr + iso_time option" where
  "parse_iso8601 v =
     (if \<not> truthy v then Inr None
      else
        case v of
          PStr t \<Rightarrow>
            (let s = replace_z t in
             case fromisoformat s of
               IsoNaive \<Rightarrow> Inr (Some NaiveTime)
             | IsoOffset minutes \<Rightarrow> Inr (Some (InstantAt ((base_seconds s - 60 * minutes) * second + fraction_micros s)))
             | IsoInvalid \<Rightarrow> Inr None
             | IsoOther \<Rightarrow> Inl (Unmodelled ''a timestamp outside the extended format''))
        | _ \<Rightarrow> Inl AttributeErr)"

text \<open>Comparing a naive time with the clock raises.\<close>

definition past :: "iso_time \<Rightarrow> int \<Rightarrow> pyerr + bool" where
  "past t now = (case t of NaiveTime \<Rightarrow> Inl (TypeErr ''can't compare offset-naive and offset-aware datetimes'') | InstantAt i \<Rightarrow> Inr (i \<le> now))"

section \<open>Writing a text\<close>

fun year_and_day :: "nat \<Rightarrow> nat \<Rightarrow> nat \<Rightarrow> nat \<times> nat" where
  "year_and_day 0 y n = (y, n)"
| "year_and_day (Suc k) y n = (if n < days_in_year y then (y, n) else year_and_day k (Suc y) (n - days_in_year y))"

fun month_and_day :: "nat \<Rightarrow> nat \<Rightarrow> nat \<Rightarrow> nat \<Rightarrow> nat \<times> nat" where
  "month_and_day 0 y m n = (m, n)"
| "month_and_day (Suc k) y m n = (if n < days_in_month y m then (m, n) else month_and_day k y (Suc m) (n - days_in_month y m))"

fun padded :: "nat \<Rightarrow> nat \<Rightarrow> pystr" where
  "padded 0 n = []"
| "padded (Suc k) n = padded k (n div 10) @ [48 + n mod 10]"

text \<open>The end of year 9999, after which the library refuses a date.\<close>

definition MAX_INSTANT :: int where "MAX_INSTANT = int (days_before_year 10000) * day"

text \<open>\<open>isoformat(timespec="seconds")\<close> in UTC.\<close>

definition iso_text :: "int \<Rightarrow> pystr" where
  "iso_text i =
     (let secs = nat (i div second); (y, n) = year_and_day 9999 1 (secs div 86400); (m, d) = month_and_day 12 y 1 n; s = secs mod 86400 in
      padded 4 y @ 45 # padded 2 m @ 45 # padded 2 (Suc d) @ 84 # padded 2 (s div 3600) @ 58 # padded 2 (s div 60 mod 60) @ 58 # padded 2 (s mod 60) @
      lit ''+00:00'')"

section \<open>A written text reads back\<close>

lemma padded_facts:
  "length (padded k n) = k" "list_all is_digit (padded k n)" "digits_value (padded k n) = n mod 10 ^ k"
proof -
  have snoc: "digits_value (ds @ [c]) = 10 * digits_value ds + (c - 48)" for ds c by (simp add: digits_value_def)
  show "length (padded k n) = k" "list_all is_digit (padded k n)" by (induction k arbitrary: n) (auto simp: is_digit_def)
  show "digits_value (padded k n) = n mod 10 ^ k"
  proof (induction k arbitrary: n)
    case (Suc k)
    have "n mod (10 * 10 ^ k) = 10 * (n div 10 mod 10 ^ k) + n mod 10" by (rule mod_mult2_eq)
    then show ?case by (simp add: snoc Suc)
  qed (simp add: digits_value_def)
qed

lemma year_and_day_spec:
  assumes "year_and_day k y n = (y', d)" and "1 \<le> y" and "days_before_year y + n < days_before_year (y + k)"
  shows "d < days_in_year y'" "days_before_year y' + d = days_before_year y + n" "y \<le> y'" "y' < y + k"
proof -
  have step: "days_before_year (Suc y) = days_before_year y + days_in_year y" if "1 \<le> y" for y using that by (cases y) auto
  have "d < days_in_year y' \<and> days_before_year y' + d = days_before_year y + n \<and> y \<le> y' \<and> y' < y + k"
    using assms
  proof (induction k arbitrary: y n)
    case (Suc k)
    show ?case
    proof (cases "n < days_in_year y")
      case False
      have "days_before_year (Suc y) + (n - days_in_year y) = days_before_year y + n" using False step Suc.prems(2) by simp
      then show ?thesis using Suc.IH [of "Suc y" "n - days_in_year y"] Suc.prems False by simp
    qed (use Suc.prems in simp)
  qed simp
  then show "d < days_in_year y'" "days_before_year y' + d = days_before_year y + n" "y \<le> y'" "y' < y + k" by simp_all
qed

lemma month_and_day_spec:
  assumes "month_and_day k y m n = (m', d)" and "1 \<le> m" and "days_before_month y m + n < days_before_month y (m + k)"
  shows "d < days_in_month y m'" "days_before_month y m' + d = days_before_month y m + n" "m \<le> m'" "m' < m + k"
proof -
  have step: "days_before_month y (Suc m) = days_before_month y m + days_in_month y m" if "1 \<le> m" for m using that by (cases m) auto
  have "d < days_in_month y m' \<and> days_before_month y m' + d = days_before_month y m + n \<and> m \<le> m' \<and> m' < m + k"
    using assms
  proof (induction k arbitrary: m n)
    case (Suc k)
    show ?case
    proof (cases "n < days_in_month y m")
      case False
      have "days_before_month y (Suc m) + (n - days_in_month y m) = days_before_month y m + n" using False step Suc.prems(2) by simp
      then show ?thesis using Suc.IH [of "Suc m" "n - days_in_month y m"] Suc.prems False by simp
    qed (use Suc.prems in simp)
  qed simp
  then show "d < days_in_month y m'" "days_before_month y m' + d = days_before_month y m + n" "m \<le> m'" "m' < m + k" by simp_all
qed

lemma year_length: "days_before_month y 13 = days_in_year y"
proof -
  have "13 = Suc (Suc (Suc (Suc (Suc (Suc (Suc (Suc (Suc (Suc (Suc (Suc (Suc 0))))))))))))" by simp
  then show ?thesis by (simp only: days_before_month.simps) (simp add: days_in_month_def days_in_year_def)
qed

lemma month_le_12: "1 \<le> m \<Longrightarrow> m < 13 \<Longrightarrow> m \<in> {1, 2, 3, 4, 5, 6, 7, 8, 9, 10, 11, 12}" for m :: nat
  by (simp; presburger)

lemma fits_append: "length a = length s \<Longrightarrow> fits_template (a @ b) (s @ t) \<longleftrightarrow> fits_template a s \<and> fits_template b t"
  by (auto simp: fits_template_def lit_append zip_append)

lemma fits_Cons: "fits_template (a # b) (c # t) \<longleftrightarrow> (if a = CHR ''0'' then is_digit c else of_char a = c) \<and> fits_template b t"
  using of_char_eq_iff [where 'a = nat, of a "CHR ''0''"] by (auto simp: fits_template_def lit_def)

lemma fits_Nil: "fits_template [] []"
  by (simp add: fits_template_def)

lemma fits_padded: "fits_template (replicate k (CHR ''0'')) (padded k n)"
proof -
  have "fits_template (replicate (length s) (CHR ''0'')) s" if "list_all is_digit s" for s
    using that by (induction s) (auto simp: fits_Nil fits_Cons)
  then show ?thesis using padded_facts(1,2) [of k n] by metis
qed

text \<open>The fields of a written time.\<close>

definition time_base :: "nat \<Rightarrow> nat \<Rightarrow> nat \<Rightarrow> nat \<Rightarrow> pystr" where
  "time_base y m d s = padded 4 y @ 45 # padded 2 m @ 45 # padded 2 d @ 84 # padded 2 (s div 3600) @ 58 # padded 2 (s div 60 mod 60) @ 58 # padded 2 (s mod 60)"

lemma time_base_facts:
  assumes "y < 10000" and "m < 100" and "d < 100" and "s < 86400"
  shows "length (time_base y m d s) = 19" "fits_template ''0000-00-00T00:00:00'' (time_base y m d s)"
    "digits_value (take 4 (time_base y m d s)) = y" "two_digits (time_base y m d s) 5 = m" "two_digits (time_base y m d s) 8 = d"
    "two_digits (time_base y m d s) 11 = s div 3600" "two_digits (time_base y m d s) 14 = s div 60 mod 60" "two_digits (time_base y m d s) 17 = s mod 60"
proof -
  have t: "''0000-00-00T00:00:00'' = replicate 4 (CHR ''0'') @ CHR ''-'' # replicate 2 (CHR ''0'') @ CHR ''-'' # replicate 2 (CHR ''0'') @ CHR ''T'' #
      replicate 2 (CHR ''0'') @ CHR '':'' # replicate 2 (CHR ''0'') @ CHR '':'' # replicate 2 (CHR ''0'')"
    by (simp add: eval_nat_numeral)
  show "length (time_base y m d s) = 19" by (simp add: time_base_def padded_facts)
  show "fits_template ''0000-00-00T00:00:00'' (time_base y m d s)"
    unfolding t time_base_def by (simp del: padded.simps replicate.simps add: fits_append fits_Cons padded_facts fits_padded)
  have small: "y mod 10000 = y" "m mod 100 = m" "d mod 100 = d" "s div 3600 mod 100 = s div 3600" "s div 60 mod 60 mod 100 = s div 60 mod 60" "s mod 60 mod 100 = s mod 60"
    using assms by auto
  show "digits_value (take 4 (time_base y m d s)) = y" "two_digits (time_base y m d s) 5 = m" "two_digits (time_base y m d s) 8 = d"
    "two_digits (time_base y m d s) 11 = s div 3600" "two_digits (time_base y m d s) 14 = s div 60 mod 60" "two_digits (time_base y m d s) 17 = s mod 60"
    using small by (simp_all add: time_base_def two_digits_def padded_facts)
qed

text \<open>The calendar date of a day and its ordinal.\<close>

lemma date_of_day:
  assumes "n < days_before_year 10000" and "year_and_day 9999 1 n = (y, r)" and "month_and_day 12 y 1 r = (m, d)"
  shows "1 \<le> y" "y < 10000" "1 \<le> m" "m \<le> 12" "d < days_in_month y m" "days_before_year y + days_before_month y m + d = n"
proof -
  have y: "r < days_in_year y" "days_before_year y + r = n" "1 \<le> y" "y < 10000"
    using year_and_day_spec [OF assms(2)] assms(1) by (simp_all add: numeral_eq_Suc [of num.One])
  have "days_before_month y 1 + r < days_before_month y (1 + 12)" using y(1) year_length by simp
  from month_and_day_spec [OF assms(3) _ this] have "d < days_in_month y m" "days_before_month y m + d = r" "1 \<le> m" "m < 13" by simp_all
  then show "1 \<le> y" "y < 10000" "1 \<le> m" "m \<le> 12" "d < days_in_month y m" "days_before_year y + days_before_month y m + d = n"
    using y by simp_all
qed

lemma padded_digit: "90 \<notin> set (padded k n)"
  using padded_facts(2) [of k n] by (auto simp: list_all_iff is_digit_def)

lemma replace_z_same: "90 \<notin> set s \<Longrightarrow> replace_z s = s"
  by (induction s) (auto simp: replace_z_def)

lemma two_digits_append: "i + 2 \<le> length a \<Longrightarrow> two_digits (a @ b) i = two_digits a i"
  by (simp add: two_digits_def)

lemma iso_reads_back:
  assumes "0 \<le> i" and "i < MAX_INSTANT"
  shows "parse_iso8601 (PStr (iso_text i)) = Inr (Some (InstantAt (i div second * second)))"
proof -
  define secs where "secs = nat (i div second)"
  define s where "s = secs mod 86400"
  obtain y r where y: "year_and_day 9999 1 (secs div 86400) = (y, r)" by fastforce
  obtain m d where m: "month_and_day 12 y 1 r = (m, d)" by fastforce
  have "secs div 86400 < days_before_year 10000"
  proof -
    have "i div second < int (days_before_year 10000) * 86400"
      using assms(2) by (simp add: MAX_INSTANT_def day_def second_def)
    then show ?thesis unfolding secs_def using assms(1) by (simp add: less_mult_imp_div_less nat_less_iff second_def)
  qed
  note date = date_of_day [OF this y m]
  have written: "iso_text i = time_base y m (Suc d) s @ lit ''+00:00''"
    by (simp add: iso_text_def time_base_def secs_def [symmetric] s_def [symmetric] y [unfolded One_nat_def] m [unfolded One_nat_def])
  have small: "y < 10000" "m < 100" "Suc d < 100" "s < 86400"
    using date by (auto simp: s_def days_in_month_def split: if_splits)
  note base = time_base_facts [OF small]
  have "90 \<notin> set (iso_text i)"
    using padded_digit by (auto simp: written time_base_def lit_def is_digit_def simp del: padded.simps)
  then have no_z: "replace_z (iso_text i) = iso_text i" by (rule replace_z_same)
  have "fits_template ''+00:00'' (lit ''+00:00'')" "two_digits (lit ''+00:00'') 1 = 0" "two_digits (lit ''+00:00'') 4 = 0"
    by (simp_all add: fits_template_def lit_def two_digits_def digits_value_def is_digit_def)
  then have "iso_offset (lit ''+00:00'') = IsoOffset 0" by (simp add: iso_offset_def)
  moreover have "s div 3600 < 24" "d < days_in_month y m" using small date by auto
  ultimately have "fromisoformat (iso_text i) = IsoOffset 0"
    using date by (simp add: fromisoformat_def written base Let_def lit_def)
  moreover have "base_seconds (iso_text i) * second + fraction_micros (iso_text i) = i div second * second"
  proof -
    have "fraction_micros (iso_text i) = 0"
      by (simp add: fraction_micros_def written base lit_def digits_value_def eval_nat_numeral)
    moreover have "base_seconds (iso_text i) = i div second"
    proof -
      have clock: "3600 * (s div 3600) + 60 * (s div 60 mod 60) + s mod 60 = s" for s :: nat
      proof -
        have "s div 3600 = s div 60 div 60" by (simp add: div_mult2_eq [of s 60 60, simplified])
        then show ?thesis using div_mult_mod_eq [of s 60] div_mult_mod_eq [of "s div 60" 60] by linarith
      qed
      have "base_seconds (iso_text i) = int (days_before_year y + days_before_month y m + d) * 86400 + int s"
        using clock [of s] by (simp add: base_seconds_def written base two_digits_append)
      also have "\<dots> = int secs" using date(6) div_mult_mod_eq [of secs 86400] unfolding s_def by (metis of_nat_add of_nat_mult of_nat_numeral)
      finally show ?thesis using assms(1) by (simp add: secs_def second_def pos_imp_zdiv_nonneg_iff)
    qed
    ultimately show ?thesis by simp
  qed
  moreover have "iso_text i \<noteq> []" by (simp add: written lit_def)
  ultimately show ?thesis by (simp add: parse_iso8601_def no_z)
qed

end
