(* ===== verification/Lease.thy ===== *)
theory Lease
  imports Activation Clock
begin

text \<open>
  The fenced one-writer authority of \<open>src/bin/_activation_lease.py\<close>. A lease directory per project is a list of entries, name and text; a text
  is a JSON value or anything else. What surrounds an operation - clock, environment, processes, sessions, registered projects, the file
  system, the legacy directory, contention on a lock - is a record of parameters. An operation works on the directories and the budget of
  entries it may still scan. It holds its locks to the end, so it is one step; the clock is read once; the summary of the owner that a
  refusal carries is left out.
\<close>

section \<open>State\<close>

datatype file_text = JsonText pyval | OtherText

type_synonym lease_dirs = "pystr \<Rightarrow> (pystr \<times> file_text) list"

record lease_state =
  ls_dirs :: lease_dirs
  ls_budget :: int

datatype lease_fail =
    LeaseRefused string
  | CorruptLease string string
  | LeaseRaised pyerr

type_synonym 'a lease_act = "lease_state \<Rightarrow> (lease_fail + 'a) \<times> lease_state"

datatype kill_outcome = Delivered | NoSuchProcess | NotPermitted | PidOutOfRange | KillRaises pyerr

record lease_world =
  lw_now :: int
  lw_env :: "string \<Rightarrow> pystr option"
  lw_kill :: "int \<Rightarrow> kill_outcome"
  lw_session :: "pystr \<Rightarrow> pyerr + pydict option"
  lw_registered :: "pystr \<Rightarrow> bool"
  lw_resolve :: "pystr \<Rightarrow> resolution"
  lw_legacy :: "pystr list"
  lw_grant_contended :: bool
  lw_claim_contended :: bool

definition MAX_LEASE_DIRECTORY_ENTRIES :: int where "MAX_LEASE_DIRECTORY_ENTRIES = 4096"

definition done_with :: "lease_fail + 'a \<Rightarrow> 'a lease_act" where
  "done_with r s = (r, s)"

definition refuse_lease :: "string \<Rightarrow> 'a lease_act" where
  "refuse_lease reason = done_with (Inl (LeaseRefused reason))"

definition raising :: "pyerr + 'a \<Rightarrow> lease_fail + 'a" where
  "raising r = (case r of Inl e \<Rightarrow> Inl (LeaseRaised e) | Inr x \<Rightarrow> Inr x)"

definition lease_unless :: "bool \<Rightarrow> string \<Rightarrow> lease_fail + unit" where
  "lease_unless b reason = require b (LeaseRefused reason)"

section \<open>Directories\<close>

definition lease_scope :: "lease_world \<Rightarrow> pystr \<Rightarrow> lease_fail + unit" where
  "lease_scope w project =
     (if project \<in> {[], lit ''.'', lit ''..''} \<or> 47 \<in> set project \<or> 92 \<in> set project \<or> 0 \<in> set project
      then Inl (LeaseRefused ''invalid_project_scope'')
      else if \<not> lw_registered w project then Inl (LeaseRefused ''unregistered_project_scope'') else Inr ())"

definition scan :: "nat \<Rightarrow> unit lease_act" where
  "scan n s =
     (if ls_budget s < int n then (Inl (LeaseRefused ''lease_directory_too_large''), s)
      else (Inr (), s\<lparr>ls_budget := ls_budget s - int n\<rparr>))"

definition is_record_name :: "pystr \<Rightarrow> bool" where
  "is_record_name n \<longleftrightarrow> ends_with (lit ''.json'') n"

definition lease_dir :: "lease_world \<Rightarrow> pystr \<Rightarrow> unit lease_act" where
  "lease_dir w project =
     and_then (done_with (lease_scope w project)) (\<lambda>_.
     and_then (scan (length (lw_legacy w))) (\<lambda>_.
     done_with (lease_unless (\<not> list_ex is_record_name (lw_legacy w)) ''legacy_lease_migration_required'')))"

definition record_name :: "pystr \<Rightarrow> pystr" where
  "record_name key = key @ lit ''.json''"

text \<open>The key whose file the path names.\<close>

definition lease_path :: "lease_world \<Rightarrow> activation_identity \<Rightarrow> pystr lease_act" where
  "lease_path w i = and_then (lease_dir w (ai_project i)) (\<lambda>_. done_with (raising (lease_key i)))"

definition write_entry :: "pystr \<Rightarrow> pystr \<Rightarrow> file_text \<Rightarrow> unit lease_act" where
  "write_entry project name t s = (Inr (), s\<lparr>ls_dirs := (ls_dirs s)(project := AList.update name t (ls_dirs s project))\<rparr>)"

text \<open>A lock file stays once it was created.\<close>

definition take_lock :: "pystr \<Rightarrow> pystr \<Rightarrow> bool \<Rightarrow> unit lease_act" where
  "take_lock project name contended s =
     and_then (if map_of (ls_dirs s project) name = None then write_entry project name OtherText else done_with (Inr ()))
       (\<lambda>_. done_with (lease_unless (\<not> contended) ''claim_in_progress'')) s"

definition claim_grant_lock :: "lease_world \<Rightarrow> pystr \<Rightarrow> unit lease_act" where
  "claim_grant_lock w project = and_then (lease_dir w project) (\<lambda>_. take_lock project (lit ''.claim-grant.lock'') (lw_grant_contended w))"

definition claim_lock :: "lease_world \<Rightarrow> activation_identity \<Rightarrow> unit lease_act" where
  "claim_lock w i = and_then (lease_path w i) (\<lambda>key. take_lock (ai_project i) (key @ lit ''.lock'') (lw_claim_contended w))"

section \<open>Values of a record\<close>

definition field_problem :: "pydict \<Rightarrow> string \<Rightarrow> string option" where
  "field_problem d f =
     (case dget f d of None \<Rightarrow> Some ''missing'' | Some PNone \<Rightarrow> Some ''null'' | Some (PStr _) \<Rightarrow> None | _ \<Rightarrow> Some ''wrong_type'')"

definition require_text :: "pydict \<Rightarrow> string \<Rightarrow> string \<Rightarrow> lease_fail + unit" where
  "require_text d f shown = (case field_problem d f of None \<Rightarrow> Inr () | Some problem \<Rightarrow> Inl (CorruptLease shown problem))"

text \<open>\<open>int(v)\<close> and \<open>str(v)\<close>; the text of a container is left open.\<close>

definition int_of :: "pyval \<Rightarrow> pyerr + int" where
  "int_of v =
     (case v of
        PInt z \<Rightarrow> Inr z
      | PBool b \<Rightarrow> Inr (if b then 1 else 0)
      | PStr s \<Rightarrow> py_int s
      | PFloat (Fin q) \<Rightarrow> Inr (if 0 \<le> q then \<lfloor>q\<rfloor> else \<lceil>q\<rceil>)
      | PFloat NegZero \<Rightarrow> Inr 0
      | PFloat (NaN _) \<Rightarrow> Inl (ValueErr ''cannot convert float NaN to integer'')
      | PFloat _ \<Rightarrow> Inl OverflowErr
      | _ \<Rightarrow> Inl (TypeErr ''int() argument must be a string, a bytes-like object or a real number''))"

definition str_of_value :: "pyval \<Rightarrow> pyerr + pystr" where
  "str_of_value v =
     (case v of
        PStr s \<Rightarrow> Inr s
      | PInt z \<Rightarrow> int_text z
      | PBool b \<Rightarrow> Inr (lit (if b then ''True'' else ''False''))
      | PNone \<Rightarrow> Inr (lit ''None'')
      | _ \<Rightarrow> Inl (Unmodelled ''str of a float or a container''))"

definition expires_dead :: "lease_world \<Rightarrow> pyval \<Rightarrow> pyerr + bool" where
  "expires_dead w v = rbind (parse_iso8601 v) (\<lambda>t. case t of None \<Rightarrow> Inr False | Some t \<Rightarrow> past t (lw_now w))"

definition lease_is_expired :: "lease_world \<Rightarrow> pydict \<Rightarrow> pyerr + bool" where
  "lease_is_expired w d = expires_dead w (dget_none ''lease_expires_utc'' d)"

definition active_lease_expired_or_corrupt :: "lease_world \<Rightarrow> pydict \<Rightarrow> lease_fail + bool" where
  "active_lease_expired_or_corrupt w d =
     rbind (require_text d ''lease_expires_utc'' ''lease_expires_utc'') (\<lambda>_.
     rbind (raising (parse_iso8601 (dget_none ''lease_expires_utc'' d))) (\<lambda>t.
     case t of
       None \<Rightarrow> Inl (CorruptLease ''lease_expires_utc'' ''malformed'')
     | Some t \<Rightarrow> raising (past t (lw_now w))))"

section \<open>Capability bindings\<close>

record capability_verification =
  cv_origin :: pystr
  cv_proof_digest :: pystr

definition CAPABILITY_BINDING_VERSION :: int where "CAPABILITY_BINDING_VERSION = 1"
definition CAPABILITY_BINDING_SCHEME :: string where "CAPABILITY_BINDING_SCHEME = ''injected_verifier_sha256''"
definition CAPABILITY_VERIFIER_ORIGIN :: string where "CAPABILITY_VERIFIER_ORIGIN = ''trusted_verifier''"
definition CAPABILITY_BINDING_FIELDS :: "string list" where
  "CAPABILITY_BINDING_FIELDS = [''version'', ''scheme'', ''lease_key'', ''fence_token'', ''proof_digest'']"

definition valid_capability_digest :: "pyval \<Rightarrow> bool" where
  "valid_capability_digest v = (case v of PStr s \<Rightarrow> length s = 64 \<and> list_all is_hex_digit s | _ \<Rightarrow> False)"

definition binding_from_verification :: "activation_identity \<Rightarrow> int \<Rightarrow> capability_verification \<Rightarrow> lease_fail + pydict" where
  "binding_from_verification i fence v =
     (if cv_origin v \<noteq> lit CAPABILITY_VERIFIER_ORIGIN then Inl (LeaseRefused ''untrusted_caller_capability_verifier'')
      else if \<not> valid_capability_digest (PStr (cv_proof_digest v)) then Inl (LeaseRefused ''invalid_caller_capability_digest'')
      else if fence < 0 then Inl (LeaseRefused ''invalid_caller_capability_fence'')
      else
        rbind (raising (lease_key i)) (\<lambda>key.
        Inr [(sv ''version'', PInt CAPABILITY_BINDING_VERSION), (sv ''scheme'', sv CAPABILITY_BINDING_SCHEME), (sv ''lease_key'', PStr key),
          (sv ''fence_token'', PInt fence), (sv ''proof_digest'', PStr (cv_proof_digest v))]))"

definition validate_caller_capability_binding ::
  "activation_identity \<Rightarrow> int \<Rightarrow> pyval \<Rightarrow> capability_verification \<Rightarrow> lease_fail + unit" where
  "validate_caller_capability_binding i fence binding v =
     rbind (binding_from_verification i fence v) (\<lambda>expected.
     case binding of
       PDict d \<Rightarrow>
         if \<not> keys_are CAPABILITY_BINDING_FIELDS d then Inl (LeaseRefused ''malformed_caller_capability_binding'')
         else lease_unless (py_eq binding (PDict expected)) ''caller_capability_binding_mismatch''
     | _ \<Rightarrow> Inl (LeaseRefused ''malformed_caller_capability_binding''))"

definition validate_stored_capability_binding :: "pyval \<Rightarrow> pyval \<Rightarrow> pyval option \<Rightarrow> lease_fail + unit" where
  "validate_stored_capability_binding payload expected_key expected_fence =
     (case payload of
        PDict d \<Rightarrow>
          if \<not> keys_are CAPABILITY_BINDING_FIELDS d then Inl (CorruptLease ''caller_capability_binding'' ''wrong_shape'')
          else if dget ''version'' d \<noteq> Some (PInt CAPABILITY_BINDING_VERSION) then Inl (CorruptLease ''caller_capability_binding.version'' ''mismatch'')
          else if dget ''scheme'' d \<noteq> Some (sv CAPABILITY_BINDING_SCHEME) then Inl (CorruptLease ''caller_capability_binding.scheme'' ''mismatch'')
          else if \<not> (is_str (dget_none ''lease_key'' d) \<and> dget_none ''lease_key'' d = expected_key) then
            Inl (CorruptLease ''caller_capability_binding.lease_key'' ''mismatch'')
          else
            (case dget_none ''fence_token'' d of
               PInt fence \<Rightarrow>
                 if fence < 0 then Inl (CorruptLease ''caller_capability_binding.fence_token'' ''malformed'')
                 else if (case expected_fence of None \<Rightarrow> False | Some f \<Rightarrow> \<not> py_eq (PInt fence) f) then
                   Inl (CorruptLease ''caller_capability_binding.fence_token'' ''mismatch'')
                 else require (valid_capability_digest (dget_none ''proof_digest'' d))
                   (CorruptLease ''caller_capability_binding.proof_digest'' ''malformed'')
             | _ \<Rightarrow> Inl (CorruptLease ''caller_capability_binding.fence_token'' ''malformed''))
      | _ \<Rightarrow> Inl (CorruptLease ''caller_capability_binding'' ''wrong_type''))"

section \<open>Validating a record\<close>

definition value_error_as_malformed :: "pyerr + 'a \<Rightarrow> lease_fail + 'a" where
  "value_error_as_malformed r =
     (case r of
        Inl e \<Rightarrow> Inl (if is_value_error e then CorruptLease ''identity'' ''malformed'' else LeaseRaised e)
      | Inr x \<Rightarrow> Inr x)"

definition stored_identity :: "pydict \<Rightarrow> lease_fail + pydict" where
  "stored_identity d =
     (case dget ''identity'' d of
        None \<Rightarrow> Inl (CorruptLease ''identity'' ''missing'')
      | Some PNone \<Rightarrow> Inl (CorruptLease ''identity'' ''null'')
      | Some (PDict i) \<Rightarrow> Inr i
      | _ \<Rightarrow> Inl (CorruptLease ''identity'' ''wrong_type''))"

definition validate_active_lease_identity :: "pydict \<Rightarrow> pystr \<Rightarrow> lease_fail + unit" where
  "validate_active_lease_identity d expected_key =
     (if dget ''lease_key'' d \<noteq> Some (PStr expected_key) then Inl (CorruptLease ''lease_key'' ''mismatch'')
      else
        rbind (stored_identity d) (\<lambda>i.
        rbind (rfold (\<lambda>_ f. require_text i f (''identity.'' @ f)) () IDENTITY_FIELDS) (\<lambda>_.
        rbind (value_error_as_malformed (lease_identity (\<lambda>f. packet_text f i))) (\<lambda>identity.
        rbind (raising (lease_key identity)) (\<lambda>key.
        require (key = expected_key) (CorruptLease ''identity'' ''mismatch''))))))"

definition validate_active_lease_state :: "lease_world \<Rightarrow> pyval \<Rightarrow> pystr option \<Rightarrow> lease_fail + unit" where
  "validate_active_lease_state w payload expected_key =
     (case payload of
        PDict d \<Rightarrow>
          (case field_problem d ''status'' of
             Some problem \<Rightarrow>
               rbind (raising (lease_is_expired w d)) (\<lambda>expired. require expired (CorruptLease ''status'' problem))
           | None \<Rightarrow>
               if dget ''status'' d \<noteq> Some (sv ''active'') then Inr ()
               else
                 rbind (active_lease_expired_or_corrupt w d) (\<lambda>expired.
                 if expired then Inr ()
                 else
                   rbind (rfold (\<lambda>_ f. require_text d f f) () [''worktree_realpath'', ''lease_key'', ''owner_session_id'']) (\<lambda>_.
                   rbind (case expected_key of None \<Rightarrow> Inr () | Some key \<Rightarrow> validate_active_lease_identity d key) (\<lambda>_.
                   if dget_none ''caller_capability_binding'' d = PNone then Inr ()
                   else
                     validate_stored_capability_binding (dget_none ''caller_capability_binding'' d) (dget_none ''lease_key'' d)
                       (case dget_none ''fence_token'' d of PInt z \<Rightarrow> Some (PInt z) | _ \<Rightarrow> None)))))
      | _ \<Rightarrow> Inl (CorruptLease ''record'' ''wrong_type''))"

definition identity_field_matches :: "pydict \<Rightarrow> string \<times> pystr \<Rightarrow> lease_fail + unit" where
  "identity_field_matches d fv =
     rbind (require_text d (fst fv) (''identity.'' @ fst fv)) (\<lambda>_.
     require (dget (fst fv) d = Some (PStr (snd fv))) (CorruptLease (''identity.'' @ fst fv) ''mismatch''))"

definition validate_loaded_lease_state :: "lease_world \<Rightarrow> activation_identity \<Rightarrow> pyval \<Rightarrow> unit lease_act" where
  "validate_loaded_lease_state w i payload =
     and_then (lease_path w i) (\<lambda>key. done_with (
     rbind (validate_active_lease_state w payload None) (\<lambda>_.
     case payload of
       PDict d \<Rightarrow>
         if dget ''status'' d \<noteq> Some (sv ''active'') then Inr ()
         else if dget ''lease_key'' d \<noteq> Some (PStr key) then Inl (CorruptLease ''lease_key'' ''mismatch'')
         else rbind (stored_identity d) (\<lambda>stored. rfold (\<lambda>_. identity_field_matches stored) () (zip IDENTITY_FIELDS (identity_values i)))
     | _ \<Rightarrow> Inr ())))"

definition load_authority_lease :: "lease_world \<Rightarrow> activation_identity \<Rightarrow> pydict option lease_act" where
  "load_authority_lease w i =
     and_then (lease_path w i) (\<lambda>key s.
     case map_of (ls_dirs s (ai_project i)) (record_name key) of
       None \<Rightarrow> (Inr None, s)
     | Some OtherText \<Rightarrow> (Inl (CorruptLease ''json'' ''JSONDecodeError''), s)
     | Some (JsonText payload) \<Rightarrow>
         and_then (validate_loaded_lease_state w i payload) (\<lambda>_. done_with (Inr (case payload of PDict d \<Rightarrow> Some d | _ \<Rightarrow> None))) s)"

definition stem :: "pystr \<Rightarrow> pystr" where
  "stem n = take (length n - 5) n"

definition read_lease :: "lease_world \<Rightarrow> pystr \<times> file_text \<Rightarrow> lease_fail + pydict" where
  "read_lease w e =
     (case snd e of
        OtherText \<Rightarrow> Inl (CorruptLease ''json'' ''JSONDecodeError'')
      | JsonText payload \<Rightarrow>
          rbind (validate_active_lease_state w payload (Some (stem (fst e)))) (\<lambda>_.
          Inr (case payload of PDict d \<Rightarrow> d | _ \<Rightarrow> [])))"

definition iter_leases :: "lease_world \<Rightarrow> pystr \<Rightarrow> pydict list lease_act" where
  "iter_leases w project =
     and_then (lease_dir w project) (\<lambda>_ s.
     and_then (scan (length (ls_dirs s project))) (\<lambda>_.
     done_with (rmap (read_lease w) (sort_key fst (filter (\<lambda>e. is_record_name (fst e)) (ls_dirs s project))))) s)"

section \<open>Sessions and claimants\<close>

definition process_alive :: "lease_world \<Rightarrow> int option \<Rightarrow> pyerr + bool option" where
  "process_alive w pid =
     (case pid of
        None \<Rightarrow> Inr None
      | Some p \<Rightarrow>
          if p \<le> 0 then Inr None
          else
            case lw_kill w p of
              Delivered \<Rightarrow> Inr (Some True)
            | NoSuchProcess \<Rightarrow> Inr (Some False)
            | NotPermitted \<Rightarrow> Inr (Some True)
            | PidOutOfRange \<Rightarrow> Inr None
            | KillRaises e \<Rightarrow> Inl e)"

definition stored_pid :: "pyval \<Rightarrow> pyerr + int option" where
  "stored_pid v = (if v = PNone then Inr None else rbind (int_of v) (\<lambda>z. Inr (Some z)))"

definition session_is_live :: "lease_world \<Rightarrow> pydict \<Rightarrow> pyerr + bool" where
  "session_is_live w r =
     rbind (in_names (dget_none ''status'' r) [lit ''active'', lit ''parked'']) (\<lambda>known.
     if known then rbind (expires_dead w (dget_none ''lease_expires_utc'' r)) (\<lambda>dead. Inr (\<not> dead)) else Inr False)"

definition bound_fields :: "(string \<times> string) list" where
  "bound_fields = [(''agent_id'', ''target_agent''), (''project_id'', ''project''), (''chat_id'', ''chat'')]"

definition require_bound_session :: "pydict \<Rightarrow> activation_identity \<Rightarrow> lease_fail + unit" where
  "require_bound_session r i =
     lease_unless
       (dget ''agent_id'' r = Some (PStr (ai_target_agent i)) \<and> dget ''project_id'' r = Some (PStr (ai_project i)) \<and>
        dget ''chat_id'' r = Some (PStr (ai_chat i))) ''owner_session_identity_mismatch''"

text \<open>Compared with the identity a record stores; a key that is missing there is no match.\<close>

definition session_matches_identity :: "pydict \<Rightarrow> pydict \<Rightarrow> bool" where
  "session_matches_identity r i =
     list_all (\<lambda>(f, g). case dget g i of None \<Rightarrow> False | Some v \<Rightarrow> py_eq (dget_none f r) v) bound_fields"

definition owner_is_live :: "lease_world \<Rightarrow> pydict \<Rightarrow> pyerr + bool option" where
  "owner_is_live w d =
     rbind (stored_pid (dget_none ''owner_pid'' d)) (\<lambda>pid.
     rbind (process_alive w pid) (\<lambda>pid_alive.
     rbind (str_of_value (dget_none ''owner_session_id'' d)) (\<lambda>session.
     rbind (lw_session w session) (\<lambda>r.
     case r of
       None \<Rightarrow> Inr (if pid_alive = Some False then Some False else None)
     | Some r \<Rightarrow>
         (case dget_none ''identity'' d of
            PDict i \<Rightarrow>
              if \<not> session_matches_identity r i then Inr (Some False)
              else rbind (session_is_live w r) (\<lambda>live. Inr (Some (live \<and> pid_alive \<noteq> Some False)))
          | _ \<Rightarrow> Inr (Some False))))))"

definition READER_ENV_VARS :: "string list" where
  "READER_ENV_VARS = [''LLM_COLLAB_READER_RUNTIME_ID'', ''CODEX_SESSION_ID'', ''CLAUDE_CODE_SESSION_ID'', ''GEMINI_SESSION_ID'']"

definition env_text :: "lease_world \<Rightarrow> string \<Rightarrow> pystr" where
  "env_text w n = (case lw_env w n of None \<Rightarrow> [] | Some v \<Rightarrow> py_strip v)"

definition is_thread_id :: "pystr \<Rightarrow> bool" where
  "is_thread_id s \<longleftrightarrow>
     starts_with (lit ''thr_'') s \<and> length s > 4 \<and> list_all (\<lambda>c. 97 \<le> c \<and> c \<le> 122 \<or> is_digit c) (drop 4 s)"

definition runtime_id_from_env :: "bool \<Rightarrow> lease_world \<Rightarrow> pystr option" where
  "runtime_id_from_env include_bb_thread w =
     (case lw_env w ''BB_THREAD_ID'' of
        Some native \<Rightarrow>
          if \<not> include_bb_thread \<or> native \<noteq> py_strip native \<or> \<not> is_thread_id native \<or> list_ex (\<lambda>n. env_text w n \<noteq> []) READER_ENV_VARS
          then None else Some native
      | None \<Rightarrow> map_option (env_text w) (List.find (\<lambda>n. env_text w n \<noteq> []) READER_ENV_VARS))"

definition pid_from_env :: "lease_world \<Rightarrow> pyerr + int option" where
  "pid_from_env w =
     (case lw_env w ''LLM_COLLAB_READER_PID'' of
        None \<Rightarrow> Inr None
      | Some [] \<Rightarrow> Inr None
      | Some v \<Rightarrow>
          (case py_int v of Inr z \<Rightarrow> Inr (Some z) | Inl e \<Rightarrow> if is_value_error e then Inr None else Inl e))"

record claimant =
  cl_owner_session_id :: pystr
  cl_owner_pid :: "int option"
  cl_runtime_id :: "pystr option"

definition claimed_runtime :: "lease_world \<Rightarrow> claimant \<Rightarrow> pystr option" where
  "claimed_runtime w c = (case cl_runtime_id c of Some (x # xs) \<Rightarrow> Some (x # xs) | _ \<Rightarrow> runtime_id_from_env False w)"

definition claimed_pid :: "lease_world \<Rightarrow> claimant \<Rightarrow> pyerr + int option" where
  "claimed_pid w c = (case cl_owner_pid c of Some p \<Rightarrow> Inr (Some p) | None \<Rightarrow> pid_from_env w)"

definition valid_pid :: "int option \<Rightarrow> lease_fail + unit" where
  "valid_pid pid = lease_unless (case pid of None \<Rightarrow> True | Some p \<Rightarrow> 0 < p) ''invalid_owner_pid''"

definition resolve_claimant :: "lease_world \<Rightarrow> claimant \<Rightarrow> lease_fail + pystr option \<times> int option" where
  "resolve_claimant w c =
     rbind (raising (claimed_pid w c)) (\<lambda>pid.
     rbind (valid_pid pid) (\<lambda>_.
     rbind (raising (process_alive w pid)) (\<lambda>live.
     rbind (lease_unless (pid = None \<or> live = Some True) ''owner_pid_not_live'') (\<lambda>_.
     case claimed_runtime w c of
       Some r \<Rightarrow> Inr (Some r, pid)
     | None \<Rightarrow> if pid = None then Inl (LeaseRefused ''claimant_identity_required'') else Inr (None, pid)))))"

definition assert_claimant_matches :: "lease_world \<Rightarrow> pydict \<Rightarrow> claimant \<Rightarrow> lease_fail + unit" where
  "assert_claimant_matches w d c =
     rbind (raising (claimed_pid w c)) (\<lambda>pid.
     rbind (valid_pid pid) (\<lambda>_.
     rbind
       (if dget_none ''owner_runtime_session_id'' d = PNone then Inr ()
        else
          case claimed_runtime w c of
            None \<Rightarrow> Inl (LeaseRefused ''claimant_runtime_identity_required'')
          | Some r \<Rightarrow>
              rbind (raising (str_of_value (dget_none ''owner_runtime_session_id'' d))) (\<lambda>stored.
              lease_unless (stored = r) ''claimant_runtime_mismatch'')) (\<lambda>_.
     if dget_none ''owner_pid'' d = PNone then Inr ()
     else
       case pid of
         None \<Rightarrow> Inl (LeaseRefused ''claimant_pid_required'')
       | Some p \<Rightarrow>
           rbind (raising (int_of (dget_none ''owner_pid'' d))) (\<lambda>stored.
           rbind (lease_unless (stored = p) ''claimant_pid_mismatch'') (\<lambda>_.
           rbind (raising (process_alive w pid)) (\<lambda>live.
           lease_unless (live = Some True) ''owner_pid_not_live''))))))"

definition live_bound_session :: "lease_world \<Rightarrow> activation_identity \<Rightarrow> pystr \<Rightarrow> lease_fail + unit" where
  "live_bound_session w i session =
     rbind (raising (lw_session w session)) (\<lambda>r.
     case r of
       None \<Rightarrow> Inl (LeaseRefused ''owner_session_not_registered'')
     | Some r \<Rightarrow>
         rbind (raising (session_is_live w r)) (\<lambda>live.
         rbind (lease_unless live ''owner_session_not_live'') (\<lambda>_.
         require_bound_session r i)))"

section \<open>Validating a claimant\<close>

record fence_request =
  fr_claimant :: claimant
  fr_fence_token :: int
  fr_verification :: "capability_verification option"

definition capability_matches :: "activation_identity \<Rightarrow> pydict \<Rightarrow> capability_verification option \<Rightarrow> lease_fail + unit" where
  "capability_matches i d v =
     (case v of
        None \<Rightarrow> Inr ()
      | Some v \<Rightarrow>
          if dget_none ''caller_capability_binding'' d = PNone then Inl (LeaseRefused ''caller_capability_binding_required'')
          else
            (case dget ''fence_token'' d of
               None \<Rightarrow> Inl (LeaseRaised KeyErr)
             | Some f \<Rightarrow>
                 rbind (raising (int_of f)) (\<lambda>fence.
                 validate_caller_capability_binding i fence (dget_none ''caller_capability_binding'' d) v)))"

text \<open>With an owner; without one the lease is loaded only.\<close>

definition validate_lease_and_claimant ::
  "lease_world \<Rightarrow> activation_identity \<Rightarrow> fence_request \<Rightarrow> string \<Rightarrow> pydict option lease_act" where
  "validate_lease_and_claimant w i q owner_mismatch_reason =
     and_then (load_authority_lease w i) (\<lambda>lease.
     case lease of
       None \<Rightarrow> done_with (Inr None)
     | Some d \<Rightarrow>
         and_then (done_with (
           rbind (live_bound_session w i (cl_owner_session_id (fr_claimant q))) (\<lambda>_.
           rbind (lease_unless (dget ''status'' d = Some (sv ''active'')) ''lease_not_active'') (\<lambda>_.
           rbind (lease_unless (dget ''owner_session_id'' d = Some (PStr (cl_owner_session_id (fr_claimant q)))) owner_mismatch_reason) (\<lambda>_.
           rbind (assert_claimant_matches w d (fr_claimant q)) (\<lambda>_.
           rbind (raising (int_of (case dget ''fence_token'' d of None \<Rightarrow> PInt (-1) | Some v \<Rightarrow> v))) (\<lambda>fence.
           lease_unless (fence = fr_fence_token q) ''stale_fence_token''))))))) (\<lambda>_.
         and_then (lease_path w i) (\<lambda>_. done_with (
           rbind (active_lease_expired_or_corrupt w d) (\<lambda>expired.
           rbind (lease_unless (\<not> expired) ''lease_expired'') (\<lambda>_.
           rbind (capability_matches i d (fr_verification q)) (\<lambda>_.
           Inr (Some d))))))))"

section \<open>Writing a lease\<close>

definition save_lease :: "lease_world \<Rightarrow> activation_identity \<Rightarrow> pydict \<Rightarrow> pydict lease_act" where
  "save_lease w i d =
     and_then
       (if dget_none ''caller_capability_binding'' d = PNone then done_with (Inr ())
        else
          and_then (lease_path w i) (\<lambda>key. done_with (
            validate_stored_capability_binding (dget_none ''caller_capability_binding'' d)
              (case dget ''lease_key'' d of None \<Rightarrow> PStr key | Some v \<Rightarrow> v)
              (case dget_none ''fence_token'' d of PNone \<Rightarrow> None | v \<Rightarrow> Some v)))) (\<lambda>_.
     and_then (lease_path w i) (\<lambda>key.
     let d' = AList.update (sv ''updated_utc'') (PStr (iso_text (lw_now w))) d in
     and_then (write_entry (ai_project i) (record_name key) (JsonText (PDict d'))) (\<lambda>_.
     done_with (Inr d'))))"

definition expires_at :: "lease_world \<Rightarrow> int \<Rightarrow> pyerr + pystr" where
  "expires_at w ttl =
     (let i = lw_now w + ttl * second in
      if 0 \<le> i \<and> i < MAX_INSTANT then Inr (iso_text i) else Inl (Unmodelled ''a time outside the calendar''))"

definition claim_realpath :: "lease_world \<Rightarrow> activation_identity \<Rightarrow> lease_fail + pystr" where
  "claim_realpath w i = (case lw_resolve w (ai_worktree i) of Directory p \<Rightarrow> Inr p | _ \<Rightarrow> Inl (LeaseRefused ''worktree_realpath_unavailable''))"

text \<open>The first other active lease of the project, unexpired, on the same real path.\<close>

fun alias_in :: "lease_world \<Rightarrow> pystr \<Rightarrow> pystr \<Rightarrow> pydict list \<Rightarrow> pyerr + bool" where
  "alias_in w key realpath [] = Inr False"
| "alias_in w key realpath (d # ds) =
     (if dget ''lease_key'' d = Some (PStr key) \<or> dget ''status'' d \<noteq> Some (sv ''active'') then alias_in w key realpath ds
      else
        rbind (lease_is_expired w d) (\<lambda>expired.
        if expired \<or> dget ''worktree_realpath'' d \<noteq> Some (PStr realpath) then alias_in w key realpath ds else Inr True))"

definition active_alias_collision :: "lease_world \<Rightarrow> activation_identity \<Rightarrow> pystr \<Rightarrow> bool lease_act" where
  "active_alias_collision w i realpath =
     and_then (done_with (raising (lease_key i))) (\<lambda>key.
     and_then (iter_leases w (ai_project i)) (\<lambda>ds. done_with (raising (alias_in w key realpath ds))))"

definition same_pid :: "pyval \<Rightarrow> int option \<Rightarrow> pyerr + bool" where
  "same_pid existing pid =
     (case pid of
        None \<Rightarrow> Inr False
      | Some p \<Rightarrow> if existing = PNone then Inr False else rbind (int_of existing) (\<lambda>z. Inr (z = p)))"

text \<open>The fence and the previous owner of the next lease, or why it is not granted.\<close>

definition next_fence ::
  "lease_world \<Rightarrow> pydict option \<Rightarrow> pystr \<Rightarrow> pystr option \<Rightarrow> int option \<Rightarrow> bool \<Rightarrow> lease_fail + int \<times> pyval" where
  "next_fence w existing session runtime pid takeover =
     (case existing of
        None \<Rightarrow> Inr (1, PNone)
      | Some d \<Rightarrow>
          rbind (raising (int_of (case dget ''fence_token'' d of None \<Rightarrow> PInt 0 | Some v \<Rightarrow> v))) (\<lambda>fence.
          let previous = dget_none ''previous_owner_session_id'' d;
              owner = dget_none ''owner_session_id'' d;
              same_session = (owner = PStr session);
              same_runtime = (dget_none ''owner_runtime_session_id'' d = optional_text runtime);
              existing_pid = dget_none ''owner_pid'' d in
          if dget ''status'' d \<noteq> Some (sv ''active'') then Inr (fence + 1, previous)
          else
            rbind (raising (same_pid existing_pid pid)) (\<lambda>claims_pid.
            rbind (raising (lease_is_expired w d)) (\<lambda>expired.
            if expired then (if takeover then Inr (fence + 1, owner) else Inl (LeaseRefused ''lease_expired_requires_takeover''))
            else
              rbind (raising (owner_is_live w d)) (\<lambda>alive.
              case alive of
                Some False \<Rightarrow> if takeover then Inr (fence + 1, owner) else Inl (LeaseRefused ''dead_owner_requires_takeover'')
              | None \<Rightarrow> Inl (LeaseRefused ''owner_liveness_unknown'')
              | Some True \<Rightarrow>
                  if same_session \<and> same_runtime \<and> (existing_pid = PNone \<and> pid = None \<or> claims_pid) then
                    rbind (raising (int_of (case dget ''fence_token'' d of None \<Rightarrow> PInt 1 | Some v \<Rightarrow> v))) (\<lambda>fence. Inr (fence, previous))
                  else
                    Inl (LeaseRefused (if same_session then ''same_session_different_claimant'' else ''lease_held_by_active_owner'')))))))"

definition lease_payload ::
  "lease_world \<Rightarrow> activation_identity \<Rightarrow> pystr \<Rightarrow> pystr \<Rightarrow> pystr option \<Rightarrow> int option \<Rightarrow> int \<times> pyval \<Rightarrow> pystr \<Rightarrow> pystr \<Rightarrow> pydict" where
  "lease_payload w i key session runtime pid fence expires realpath =
     [(sv ''identity'', PDict (identity_dict i)), (sv ''lease_key'', PStr key), (sv ''owner_session_id'', PStr session),
      (sv ''owner_runtime_session_id'', optional_text runtime), (sv ''owner_pid'', case pid of None \<Rightarrow> PNone | Some p \<Rightarrow> PInt p),
      (sv ''status'', sv ''active''), (sv ''fence_token'', PInt (fst fence)), (sv ''claimed_utc'', PStr (iso_text (lw_now w))),
      (sv ''lease_expires_utc'', PStr expires), (sv ''previous_owner_session_id'', snd fence), (sv ''worktree_realpath'', PStr realpath)]"

section \<open>The operations\<close>

text \<open>An operation starts with the whole budget and leaves its directories behind, also when it is refused.\<close>

definition operate :: "'a lease_act \<Rightarrow> lease_dirs \<Rightarrow> (lease_fail + 'a) \<times> lease_dirs" where
  "operate act dirs = (let (r, s) = act \<lparr>ls_dirs = dirs, ls_budget = MAX_LEASE_DIRECTORY_ENTRIES\<rparr> in (r, ls_dirs s))"

definition grant_lease :: "lease_world \<Rightarrow> activation_identity \<Rightarrow> claimant \<Rightarrow> int \<Rightarrow> bool \<Rightarrow> pystr option \<Rightarrow> int option \<Rightarrow> pydict lease_act" where
  "grant_lease w i c ttl takeover runtime pid =
     and_then (done_with (claim_realpath w i)) (\<lambda>realpath.
     and_then (active_alias_collision w i realpath) (\<lambda>collision.
     and_then (done_with (lease_unless (\<not> collision) ''worktree_alias_collision'')) (\<lambda>_.
     and_then (load_authority_lease w i) (\<lambda>existing.
     and_then (done_with (next_fence w existing (cl_owner_session_id c) runtime pid takeover)) (\<lambda>fence.
     and_then (done_with (raising (lease_key i))) (\<lambda>key.
     and_then (done_with (raising (expires_at w ttl))) (\<lambda>expires.
     save_lease w i (lease_payload w i key (cl_owner_session_id c) runtime pid fence expires realpath))))))))"

definition claim_lease :: "lease_world \<Rightarrow> activation_identity \<Rightarrow> claimant \<Rightarrow> int \<Rightarrow> bool \<Rightarrow> lease_dirs \<Rightarrow> (lease_fail + pydict) \<times> lease_dirs" where
  "claim_lease w i c ttl takeover =
     operate (
       and_then (done_with (live_bound_session w i (cl_owner_session_id c))) (\<lambda>_.
       and_then (done_with (resolve_claimant w c)) (\<lambda>(runtime, pid).
       and_then (claim_grant_lock w (ai_project i)) (\<lambda>_.
       and_then (claim_lock w i) (\<lambda>_.
       grant_lease w i c ttl takeover runtime pid)))))"

definition no_lease :: "pydict option \<Rightarrow> pydict lease_act" where
  "no_lease lease = (case lease of None \<Rightarrow> refuse_lease ''no_lease_for_identity'' | Some d \<Rightarrow> done_with (Inr d))"

definition assert_lease :: "lease_world \<Rightarrow> activation_identity \<Rightarrow> fence_request \<Rightarrow> lease_dirs \<Rightarrow> (lease_fail + pydict) \<times> lease_dirs" where
  "assert_lease w i q = operate (and_then (validate_lease_and_claimant w i q ''lease_owned_by_other_session'') no_lease)"

text \<open>The mutation runs while the lock is held; its outcome and effect are its own.\<close>

definition with_lease_fence ::
  "lease_world \<Rightarrow> activation_identity \<Rightarrow> fence_request \<Rightarrow> ('m \<Rightarrow> (pyerr + 'a) \<times> 'm) \<Rightarrow> lease_dirs \<Rightarrow> 'm \<Rightarrow> (lease_fail + 'a) \<times> lease_dirs \<times> 'm" where
  "with_lease_fence w i q mutation dirs m =
     (case operate (and_then (claim_lock w i) (\<lambda>_. and_then (validate_lease_and_claimant w i q ''lease_owned_by_other_session'') no_lease)) dirs of
        (Inl e, dirs') \<Rightarrow> (Inl e, dirs', m)
      | (Inr _, dirs') \<Rightarrow> (case mutation m of (r, m') \<Rightarrow> (raising r, dirs', m')))"

definition release_lease :: "lease_world \<Rightarrow> activation_identity \<Rightarrow> fence_request \<Rightarrow> pystr \<Rightarrow> lease_dirs \<Rightarrow> (lease_fail + pydict) \<times> lease_dirs" where
  "release_lease w i q status =
     operate (
       and_then (claim_lock w i) (\<lambda>_.
       and_then (and_then (validate_lease_and_claimant w i q ''release_requires_current_owner'') no_lease) (\<lambda>d.
       save_lease w i (AList.update (sv ''released_utc'') (PStr (iso_text (lw_now w))) (AList.update (sv ''status'') (PStr status) d)))))"

end
