(* ===== verification/LeaseProps.thy ===== *)
theory LeaseProps
  imports Lease BbProps
begin

text \<open>
  What the lease authority guarantees: how an operation changes the records of a directory, that a fence only rises and retires the
  owners before it, and that no two leases in force share a worktree. The fence and the worktrees are invariants of a step relation
  over the operations, whose interpretation of \<open>invariant_system\<close> carries them along every history.
\<close>

named_theorems lease_simps

section \<open>Files\<close>

lemma done_with_eq [lease_simps]: "done_with x s = (r, s') \<longleftrightarrow> x = r \<and> s' = s"
  by (auto simp: done_with_def)

lemma lease_unless_Inr [lease_simps]: "lease_unless b reason = Inr u \<longleftrightarrow> b"
  by (simp add: lease_unless_def)

lemma raising_Inr [lease_simps]: "raising r = Inr x \<longleftrightarrow> r = Inr x"
  by (auto simp: raising_def split: sum.splits)

lemmas lease_inv = and_then_eq rbind_Inr_iff lease_simps

lemma record_name_facts [simp]:
  "is_record_name (record_name key)" "\<not> is_record_name (lit ''.claim-grant.lock'')" "\<not> is_record_name (key @ lit ''.lock'')"
  "stem (record_name key) = key"
  by (simp_all add: is_record_name_def record_name_def ends_with_def stem_def lit_def)

lemma record_name_stem: "is_record_name n \<Longrightarrow> record_name (stem n) = n"
  using append_take_drop_id [of "length n - 5" n]
  by (simp add: is_record_name_def ends_with_def stem_def record_name_def lit_def eval_nat_numeral)

definition same_records :: "lease_dirs \<Rightarrow> lease_dirs \<Rightarrow> bool" where
  "same_records dirs dirs' \<longleftrightarrow> (\<forall>p n. is_record_name n \<longrightarrow> map_of (dirs' p) n = map_of (dirs p) n)"

lemma same_records_refl [simp]: "same_records dirs dirs"
  by (simp add: same_records_def)

lemma same_records_trans: "same_records a b \<Longrightarrow> same_records b c \<Longrightarrow> same_records a c"
  by (simp add: same_records_def)

text \<open>An operation that reads leaves the directories; a lock only adds its own file.\<close>

definition reads :: "'a lease_act \<Rightarrow> bool" where
  "reads act \<longleftrightarrow> (\<forall>s. ls_dirs (snd (act s)) = ls_dirs s)"

definition quiet :: "'a lease_act \<Rightarrow> bool" where
  "quiet act \<longleftrightarrow> (\<forall>s. same_records (ls_dirs s) (ls_dirs (snd (act s))))"

lemma readsD: "reads act \<Longrightarrow> act s = (r, s') \<Longrightarrow> ls_dirs s' = ls_dirs s"
  by (metis reads_def snd_conv)

lemma quietD: "quiet act \<Longrightarrow> act s = (r, s') \<Longrightarrow> same_records (ls_dirs s) (ls_dirs s')"
  by (metis quiet_def snd_conv)

lemma reads_done_with [simp, intro]: "reads (done_with r)"
  by (simp add: reads_def done_with_def)

lemma reads_scan [simp]: "reads (scan n)"
  by (simp add: reads_def scan_def)

lemma reads_and_then [intro]: "reads m \<Longrightarrow> (\<And>x. reads (f x)) \<Longrightarrow> reads (and_then m f)"
  by (auto simp: reads_def and_then_def split: prod.splits sum.splits) (metis snd_conv)+

lemma quiet_and_then [intro]: "quiet m \<Longrightarrow> (\<And>x. quiet (f x)) \<Longrightarrow> quiet (and_then m f)"
  by (auto simp: quiet_def and_then_def split: prod.splits sum.splits) (metis same_records_trans snd_conv)+

lemma reads_quiet: "reads act \<Longrightarrow> quiet act"
  by (simp add: reads_def quiet_def)

lemma reads_lease_dir [simp]: "reads (lease_dir w p)"
  unfolding lease_dir_def by (intro reads_and_then) auto

lemma reads_lease_path [simp]: "reads (lease_path w i)"
  unfolding lease_path_def by (intro reads_and_then) auto

lemma reads_load_authority_lease [simp]: "reads (load_authority_lease w i)"
proof -
  have validated: "reads (and_then (validate_loaded_lease_state w i payload) (\<lambda>_. done_with (Inr (case payload of PDict d \<Rightarrow> Some d | _ \<Rightarrow> None))))"
    for payload unfolding validate_loaded_lease_state_def by (intro reads_and_then) auto
  show ?thesis
    unfolding load_authority_lease_def
  proof (rule reads_and_then)
    show "reads (\<lambda>s. case map_of (ls_dirs s (ai_project i)) (record_name key) of
        None \<Rightarrow> (Inr None, s)
      | Some OtherText \<Rightarrow> (Inl (CorruptLease ''json'' ''JSONDecodeError''), s)
      | Some (JsonText payload) \<Rightarrow>
          and_then (validate_loaded_lease_state w i payload) (\<lambda>_. done_with (Inr (case payload of PDict d \<Rightarrow> Some d | _ \<Rightarrow> None))) s)" for key
      using validated by (auto simp: reads_def split: option.splits file_text.splits)
  qed simp
qed

lemma reads_iter_leases [simp]: "reads (iter_leases w p)"
proof -
  have "reads (and_then (scan n) (\<lambda>_. done_with r))" for n r by (intro reads_and_then) auto
  then have "reads (\<lambda>s. and_then (scan (f s)) (\<lambda>_. done_with (g s)) s)" for f g unfolding reads_def by blast
  then show ?thesis unfolding iter_leases_def by (intro reads_and_then) simp_all
qed

lemma reads_active_alias_collision [simp]: "reads (active_alias_collision w i realpath)"
  unfolding active_alias_collision_def by (intro reads_and_then) auto

lemma reads_validate [simp]: "reads (validate_lease_and_claimant w i q reason)"
  unfolding validate_lease_and_claimant_def
proof (rule reads_and_then)
  have "reads (and_then (done_with x) (\<lambda>_. and_then (lease_path w i) (\<lambda>_. done_with (y :: lease_fail + pydict option))))" for x y
    by (intro reads_and_then) auto
  then show "reads (case lease of
       None \<Rightarrow> done_with (Inr None)
     | Some d \<Rightarrow>
         and_then (done_with (
           rbind (live_bound_session w i (cl_owner_session_id (fr_claimant q))) (\<lambda>_.
           rbind (lease_unless (dget ''status'' d = Some (sv ''active'')) ''lease_not_active'') (\<lambda>_.
           rbind (lease_unless (dget ''owner_session_id'' d = Some (PStr (cl_owner_session_id (fr_claimant q)))) reason) (\<lambda>_.
           rbind (assert_claimant_matches w d (fr_claimant q)) (\<lambda>_.
           rbind (raising (int_of (case dget ''fence_token'' d of None \<Rightarrow> PInt (-1) | Some v \<Rightarrow> v))) (\<lambda>fence.
           lease_unless (fence = fr_fence_token q) ''stale_fence_token''))))))) (\<lambda>_.
         and_then (lease_path w i) (\<lambda>_. done_with (
           rbind (active_lease_expired_or_corrupt w d) (\<lambda>expired.
           rbind (lease_unless (\<not> expired) ''lease_expired'') (\<lambda>_.
           rbind (capability_matches i d (fr_verification q)) (\<lambda>_.
           Inr (Some d))))))))" for lease
    by (cases lease) simp_all
qed simp

lemma reads_no_lease [simp]: "reads (no_lease lease)"
  by (auto simp: no_lease_def refuse_lease_def split: option.splits)

lemma quiet_take_lock:
  assumes "\<not> is_record_name n"
  shows "quiet (take_lock p n contended)"
proof -
  have "same_records dirs (dirs(p := AList.update n t (dirs p)))" for dirs t
    using assms by (auto simp: same_records_def update_conv)
  then have "quiet (write_entry p n t)" for t by (simp add: quiet_def write_entry_def)
  then have "quiet (and_then (if b then write_entry p n OtherText else done_with (Inr ())) (\<lambda>_. done_with r))" for b r
    by (intro quiet_and_then) (auto intro: reads_quiet)
  then show ?thesis unfolding quiet_def take_lock_def by blast
qed

lemma quiet_locks [simp]: "quiet (claim_grant_lock w p)" "quiet (claim_lock w i)"
  unfolding claim_grant_lock_def claim_lock_def by (intro quiet_and_then quiet_take_lock reads_quiet; simp)+

lemma lease_path_Inr: "lease_path w i s = (Inr key, s') \<Longrightarrow> lease_key i = Inr key"
  by (auto simp: lease_path_def lease_inv)

section \<open>A record read and written\<close>

lemma load_authority_lease_Inr:
  assumes "load_authority_lease w i s = (Inr existing, s')" and "lease_key i = Inr key"
  obtains (missing) "map_of (ls_dirs s (ai_project i)) (record_name key) = None" "existing = None"
  | (found) d where "map_of (ls_dirs s (ai_project i)) (record_name key) = Some (JsonText (PDict d))" "existing = Some d"
      "validate_active_lease_state w (PDict d) None = Inr ()"
proof -
  obtain s1 where s1: "lease_path w i s = (Inr key, s1)" "ls_dirs s1 = ls_dirs s"
    and rest: "(case map_of (ls_dirs s1 (ai_project i)) (record_name key) of
       None \<Rightarrow> (Inr None, s1)
     | Some OtherText \<Rightarrow> (Inl (CorruptLease ''json'' ''JSONDecodeError''), s1)
     | Some (JsonText payload) \<Rightarrow>
         and_then (validate_loaded_lease_state w i payload) (\<lambda>_. done_with (Inr (case payload of PDict d \<Rightarrow> Some d | _ \<Rightarrow> None))) s1) = (Inr existing, s')"
    using assms lease_path_Inr readsD [OF reads_lease_path] unfolding load_authority_lease_def and_then_eq by fastforce
  show thesis
  proof (cases "map_of (ls_dirs s (ai_project i)) (record_name key)")
    case None
    then show thesis using rest s1 missing by simp
  next
    case (Some t)
    then obtain payload where t: "t = JsonText payload" using rest s1 by (cases t) auto
    have loaded: "and_then (validate_loaded_lease_state w i payload) (\<lambda>_. done_with (Inr (case payload of PDict d \<Rightarrow> Some d | _ \<Rightarrow> None))) s1 = (Inr existing, s')"
      using rest Some t s1 by simp
    then have valid: "validate_active_lease_state w payload None = Inr ()"
      and existing: "existing = (case payload of PDict d \<Rightarrow> Some d | _ \<Rightarrow> None)"
      by (auto simp: validate_loaded_lease_state_def lease_inv)
    then obtain d where "payload = PDict d" by (cases payload) (auto simp: validate_active_lease_state_def)
    then show thesis using found Some t existing valid by simp
  qed
qed

definition lease_written :: "pystr \<Rightarrow> pystr \<Rightarrow> pydict \<Rightarrow> lease_dirs \<Rightarrow> lease_dirs \<Rightarrow> bool" where
  "lease_written project key d dirs dirs' \<longleftrightarrow>
     (\<forall>p n. is_record_name n \<longrightarrow>
        map_of (dirs' p) n = (if p = project \<and> n = record_name key then Some (JsonText (PDict d)) else map_of (dirs p) n))"

lemma save_lease_Inr:
  assumes "save_lease w i d s = (Inr d', s')"
  shows "\<exists>key. lease_key i = Inr key \<and> d' = AList.update (sv ''updated_utc'') (PStr (iso_text (lw_now w))) d \<and>
    lease_written (ai_project i) key d' (ls_dirs s) (ls_dirs s')"
proof -
  obtain x s1 key s2 where first: "(if dget_none ''caller_capability_binding'' d = PNone then done_with (Inr ())
        else
          and_then (lease_path w i) (\<lambda>key. done_with (
            validate_stored_capability_binding (dget_none ''caller_capability_binding'' d)
              (case dget ''lease_key'' d of None \<Rightarrow> PStr key | Some v \<Rightarrow> v)
              (case dget_none ''fence_token'' d of PNone \<Rightarrow> None | v \<Rightarrow> Some v)))) s = (Inr x, s1)"
    and path: "lease_path w i s1 = (Inr key, s2)"
    and rest: "d' = AList.update (sv ''updated_utc'') (PStr (iso_text (lw_now w))) d"
      "ls_dirs s' = (ls_dirs s2)(ai_project i := AList.update (record_name key) (JsonText (PDict d')) (ls_dirs s2 (ai_project i)))"
    using assms unfolding save_lease_def by (auto simp: and_then_eq Let_def write_entry_def done_with_eq)
  have "ls_dirs s1 = ls_dirs s"
    using first readsD [OF reads_lease_path] by (auto simp: lease_inv split: if_splits)
  then have "ls_dirs s2 = ls_dirs s" using readsD [OF reads_lease_path path] by simp
  then show ?thesis using rest lease_path_Inr [OF path] by (auto simp: lease_written_def update_conv)
qed

text \<open>Where an operation fails late, it has written nothing.\<close>

definition late :: "'a lease_act \<Rightarrow> bool" where
  "late act \<longleftrightarrow> (\<forall>s e s'. act s = (Inl e, s') \<longrightarrow> same_records (ls_dirs s) (ls_dirs s'))"

lemma quiet_late: "quiet act \<Longrightarrow> late act"
  unfolding late_def using quietD by blast

lemma late_and_then: "quiet m \<Longrightarrow> (\<And>x. late (f x)) \<Longrightarrow> late (and_then m f)"
  unfolding late_def and_then_eq by (metis quietD same_records_trans)

lemma late_write: "late (and_then (write_entry p n t) (\<lambda>_. done_with (Inr x)))"
  by (simp add: late_def and_then_eq write_entry_def done_with_eq)

lemma late_save_lease: "late (save_lease w i d)"
proof -
  have "quiet (and_then (lease_path w i) (\<lambda>key. done_with (f key)))" for f :: "pystr \<Rightarrow> lease_fail + unit"
    by (rule reads_quiet) (auto intro: reads_and_then)
  then show ?thesis
    unfolding save_lease_def Let_def
    by (intro late_and_then late_write reads_quiet [of "lease_path w i"]) (simp_all add: reads_quiet)
qed

lemma late_claim: "late (and_then (done_with (live_bound_session w i session)) (\<lambda>_.
       and_then (done_with (resolve_claimant w c)) (\<lambda>(runtime, pid).
       and_then (claim_grant_lock w (ai_project i)) (\<lambda>_.
       and_then (claim_lock w i) (\<lambda>_.
       grant_lease w i c ttl takeover runtime pid)))))"
proof -
  have grant: "late (grant_lease w i c ttl takeover runtime pid)" for runtime pid
    unfolding grant_lease_def by (intro late_and_then late_save_lease) (simp_all add: reads_quiet)
  have "late (and_then (claim_grant_lock w (ai_project i)) (\<lambda>_. and_then (claim_lock w i) (\<lambda>_. grant_lease w i c ttl takeover runtime pid)))"
    for runtime pid by (intro late_and_then grant) simp_all
  then show ?thesis by (intro late_and_then) (auto simp: reads_quiet)
qed

section \<open>What a granted claim rests on\<close>

definition directory_read :: "lease_world \<Rightarrow> lease_dirs \<Rightarrow> pystr \<Rightarrow> pydict list \<Rightarrow> bool" where
  "directory_read w dirs project ds \<longleftrightarrow>
     (\<forall>n d. is_record_name n \<and> map_of (dirs project) n = Some (JsonText (PDict d)) \<longrightarrow>
        d \<in> set ds \<and> validate_active_lease_state w (PDict d) (Some (stem n)) = Inr ())"

lemma records_read:
  assumes "rmap (read_lease w) (sort_key fst (filter (\<lambda>e. is_record_name (fst e)) (dirs project))) = Inr ds"
  shows "directory_read w dirs project ds"
proof -
  have "d \<in> set ds \<and> validate_active_lease_state w (PDict d) (Some (stem n)) = Inr ()"
    if "is_record_name n" "map_of (dirs project) n = Some (JsonText (PDict d))" for n d
  proof -
    have "(n, JsonText (PDict d)) \<in> set (dirs project)" using that(2) by (rule map_of_SomeD)
    then have "\<exists>d' \<in> set ds. read_lease w (n, JsonText (PDict d)) = Inr d'"
      using rmap_Inr_mem [OF assms, of "(n, JsonText (PDict d))"] that(1) by simp
    then show ?thesis by (auto simp: read_lease_def rbind_Inr_iff)
  qed
  then show ?thesis unfolding directory_read_def by blast
qed

lemma iter_leases_Inr:
  assumes "iter_leases w project s = (Inr ds, s')" and "same_records dirs (ls_dirs s)"
  shows "directory_read w dirs project ds"
proof -
  obtain s1 where "lease_dir w project s = (Inr (), s1)"
    and read: "rmap (read_lease w) (sort_key fst (filter (\<lambda>e. is_record_name (fst e)) (ls_dirs s1 project))) = Inr ds"
    using assms(1) unfolding iter_leases_def and_then_eq by (auto simp: done_with_eq)
  then have "ls_dirs s1 = ls_dirs s" using readsD [OF reads_lease_dir] by blast
  then have all: "directory_read w (ls_dirs s) project ds" using records_read [of w "ls_dirs s1" project ds] read by simp
  show ?thesis
    unfolding directory_read_def
  proof (intro allI impI, elim conjE)
    fix n d
    assume n: "is_record_name n" "map_of (dirs project) n = Some (JsonText (PDict d))"
    then have "map_of (ls_dirs s project) n = Some (JsonText (PDict d))" using assms(2) by (simp add: same_records_def)
    then show "d \<in> set ds \<and> validate_active_lease_state w (PDict d) (Some (stem n)) = Inr ()"
      using all n(1) unfolding directory_read_def by blast
  qed
qed

lemma iter_leases_scope: "iter_leases w project s = (Inr ds, s') \<Longrightarrow> lease_scope w project = Inr ()"
  by (auto simp: iter_leases_def lease_dir_def and_then_eq done_with_eq)

record grant_basis =
  gb_key :: pystr
  gb_runtime :: "pystr option"
  gb_pid :: "int option"
  gb_realpath :: pystr
  gb_read :: "pydict list"
  gb_existing :: "pydict option"
  gb_fence :: "int \<times> pyval"
  gb_expires :: pystr

text \<open>What a granted claim found, step by step.\<close>

definition grounds :: "lease_world \<Rightarrow> activation_identity \<Rightarrow> claimant \<Rightarrow> int \<Rightarrow> bool \<Rightarrow> lease_dirs \<Rightarrow> grant_basis \<Rightarrow> bool" where
  "grounds w i c ttl takeover dirs b \<longleftrightarrow>
     live_bound_session w i (cl_owner_session_id c) = Inr () \<and>
     resolve_claimant w c = Inr (gb_runtime b, gb_pid b) \<and>
     lw_resolve w (ai_worktree i) = Directory (gb_realpath b) \<and>
     lease_key i = Inr (gb_key b) \<and>
     lease_scope w (ai_project i) = Inr () \<and>
     directory_read w dirs (ai_project i) (gb_read b) \<and>
     alias_in w (gb_key b) (gb_realpath b) (gb_read b) = Inr False \<and>
     map_of (dirs (ai_project i)) (record_name (gb_key b)) = map_option (\<lambda>d. JsonText (PDict d)) (gb_existing b) \<and>
     next_fence w (gb_existing b) (cl_owner_session_id c) (gb_runtime b) (gb_pid b) takeover = Inr (gb_fence b) \<and>
     expires_at w ttl = Inr (gb_expires b)"

definition granted_lease :: "lease_world \<Rightarrow> activation_identity \<Rightarrow> claimant \<Rightarrow> grant_basis \<Rightarrow> pydict" where
  "granted_lease w i c b =
     AList.update (sv ''updated_utc'') (PStr (iso_text (lw_now w)))
       (lease_payload w i (gb_key b) (cl_owner_session_id c) (gb_runtime b) (gb_pid b) (gb_fence b) (gb_expires b) (gb_realpath b))"

lemma grant_lease_Inr:
  assumes "grant_lease w i c ttl takeover runtime pid s = (Inr d, s')" and "same_records dirs (ls_dirs s)"
    and "live_bound_session w i (cl_owner_session_id c) = Inr ()" and "resolve_claimant w c = Inr (runtime, pid)"
  shows "\<exists>b. grounds w i c ttl takeover dirs b \<and> d = granted_lease w i c b \<and> lease_written (ai_project i) (gb_key b) d dirs (ls_dirs s')"
proof -
  obtain realpath s1 s2 existing fence key expires where real: "claim_realpath w i = Inr realpath"
    and scan: "active_alias_collision w i realpath s = (Inr False, s1)"
    and load: "load_authority_lease w i s1 = (Inr existing, s2)"
    and fence: "next_fence w existing (cl_owner_session_id c) runtime pid takeover = Inr fence"
    and key: "lease_key i = Inr key" and expires: "expires_at w ttl = Inr expires"
    and save: "save_lease w i (lease_payload w i key (cl_owner_session_id c) runtime pid fence expires realpath) s2 = (Inr d, s')"
    using assms(1) unfolding grant_lease_def by (auto simp: lease_inv)
  have dirs: "ls_dirs s1 = ls_dirs s" "ls_dirs s2 = ls_dirs s"
    using readsD [OF reads_active_alias_collision scan] readsD [OF reads_load_authority_lease load] by simp_all
  obtain ds where iter: "iter_leases w (ai_project i) s = (Inr ds, s1)" and noalias: "alias_in w key realpath ds = Inr False"
    using scan key unfolding active_alias_collision_def by (auto simp: lease_inv)
  then have read: "directory_read w dirs (ai_project i) ds" using iter_leases_Inr assms(2) by blast
  note scope = iter_leases_scope [OF iter]
  have stored: "map_of (dirs (ai_project i)) (record_name key) = map_option (\<lambda>d. JsonText (PDict d)) existing"
    by (rule load_authority_lease_Inr [OF load key]) (use assms(2) dirs in \<open>simp_all add: same_records_def\<close>)
  define b where "b = \<lparr>gb_key = key, gb_runtime = runtime, gb_pid = pid, gb_realpath = realpath, gb_read = ds, gb_existing = existing,
    gb_fence = fence, gb_expires = expires\<rparr>"
  have "grounds w i c ttl takeover dirs b"
    unfolding grounds_def
    using assms(3,4) real scope key read noalias stored fence expires by (auto simp: b_def claim_realpath_def split: resolution.splits)
  moreover have "d = granted_lease w i c b \<and> lease_written (ai_project i) (gb_key b) d dirs (ls_dirs s')"
    using save_lease_Inr [OF save] key assms(2) by (auto simp: b_def granted_lease_def dirs lease_written_def same_records_def)
  ultimately show ?thesis by blast
qed

text \<open>A claim writes nothing or the lease it was granted.\<close>

lemma claim_lease_cases:
  assumes "claim_lease w i c ttl takeover dirs = (r, dirs')"
  obtains (refused) e where "r = Inl e" "same_records dirs dirs'"
  | (granted) b where "r = Inr (granted_lease w i c b)" "grounds w i c ttl takeover dirs b"
      "lease_written (ai_project i) (gb_key b) (granted_lease w i c b) dirs dirs'"
proof -
  obtain s' where run: "and_then (done_with (live_bound_session w i (cl_owner_session_id c))) (\<lambda>_.
       and_then (done_with (resolve_claimant w c)) (\<lambda>(runtime, pid).
       and_then (claim_grant_lock w (ai_project i)) (\<lambda>_.
       and_then (claim_lock w i) (\<lambda>_.
       grant_lease w i c ttl takeover runtime pid)))) \<lparr>ls_dirs = dirs, ls_budget = MAX_LEASE_DIRECTORY_ENTRIES\<rparr> = (r, s')"
    and dirs': "dirs' = ls_dirs s'"
    using assms unfolding claim_lease_def operate_def by (auto simp: Let_def split: prod.splits)
  show thesis
  proof (cases r)
    case (Inl e)
    have "same_records dirs dirs'"
      using late_claim [of w i "cl_owner_session_id c" c ttl takeover] run Inl unfolding late_def dirs' by fastforce
    then show thesis using refused Inl by simp
  next
    case (Inr d)
    obtain runtime pid s1 s2 where "live_bound_session w i (cl_owner_session_id c) = Inr ()" "resolve_claimant w c = Inr (runtime, pid)"
      and locks: "claim_grant_lock w (ai_project i) \<lparr>ls_dirs = dirs, ls_budget = MAX_LEASE_DIRECTORY_ENTRIES\<rparr> = (Inr (), s1)"
        "claim_lock w i s1 = (Inr (), s2)"
      and grant: "grant_lease w i c ttl takeover runtime pid s2 = (Inr d, s')"
      using run Inr by (auto simp: lease_inv)
    moreover have "same_records dirs (ls_dirs s2)"
      using quietD [OF quiet_locks(1) locks(1)] quietD [OF quiet_locks(2) locks(2)] same_records_trans by fastforce
    ultimately show thesis using grant_lease_Inr granted Inr dirs' by blast
  qed
qed

section \<open>Requests behind a fence\<close>

text \<open>What a request must show of the record it names.\<close>

definition fenced :: "lease_world \<Rightarrow> activation_identity \<Rightarrow> fence_request \<Rightarrow> pydict \<Rightarrow> bool" where
  "fenced w i q d \<longleftrightarrow>
     live_bound_session w i (cl_owner_session_id (fr_claimant q)) = Inr () \<and>
     dget ''status'' d = Some (sv ''active'') \<and>
     dget ''owner_session_id'' d = Some (PStr (cl_owner_session_id (fr_claimant q))) \<and>
     assert_claimant_matches w d (fr_claimant q) = Inr () \<and>
     int_of (case dget ''fence_token'' d of None \<Rightarrow> PInt (-1) | Some v \<Rightarrow> v) = Inr (fr_fence_token q) \<and>
     active_lease_expired_or_corrupt w d = Inr False \<and>
     capability_matches i d (fr_verification q) = Inr ()"

lemma validate_lease_and_claimant_Inr:
  assumes "validate_lease_and_claimant w i q reason s = (Inr (Some d), s')"
  shows "\<exists>key. lease_key i = Inr key \<and> map_of (ls_dirs s (ai_project i)) (record_name key) = Some (JsonText (PDict d)) \<and> fenced w i q d"
proof -
  obtain existing s1 where load: "load_authority_lease w i s = (Inr existing, s1)"
    and rest: "(case existing of
       None \<Rightarrow> done_with (Inr None)
     | Some d \<Rightarrow>
         and_then (done_with (
           rbind (live_bound_session w i (cl_owner_session_id (fr_claimant q))) (\<lambda>_.
           rbind (lease_unless (dget ''status'' d = Some (sv ''active'')) ''lease_not_active'') (\<lambda>_.
           rbind (lease_unless (dget ''owner_session_id'' d = Some (PStr (cl_owner_session_id (fr_claimant q)))) reason) (\<lambda>_.
           rbind (assert_claimant_matches w d (fr_claimant q)) (\<lambda>_.
           rbind (raising (int_of (case dget ''fence_token'' d of None \<Rightarrow> PInt (-1) | Some v \<Rightarrow> v))) (\<lambda>fence.
           lease_unless (fence = fr_fence_token q) ''stale_fence_token''))))))) (\<lambda>_.
         and_then (lease_path w i) (\<lambda>_. done_with (
           rbind (active_lease_expired_or_corrupt w d) (\<lambda>expired.
           rbind (lease_unless (\<not> expired) ''lease_expired'') (\<lambda>_.
           rbind (capability_matches i d (fr_verification q)) (\<lambda>_.
           Inr (Some d)))))))) s1 = (Inr (Some d), s')"
    using assms unfolding validate_lease_and_claimant_def and_then_eq by blast
  obtain e where e: "existing = Some e" using rest by (cases existing) (auto simp: done_with_eq)
  obtain key s2 where key: "lease_key i = Inr key" and "e = d" "fenced w i q d"
    using rest [unfolded e option.case and_then_eq] lease_path_Inr by (auto simp: lease_inv fenced_def)
  then show ?thesis using load_authority_lease_Inr [OF load key] e by blast
qed

text \<open>The check a fenced mutation runs behind.\<close>

definition fence_check :: "lease_world \<Rightarrow> activation_identity \<Rightarrow> fence_request \<Rightarrow> pydict lease_act" where
  "fence_check w i q = and_then (claim_lock w i) (\<lambda>_. and_then (validate_lease_and_claimant w i q ''lease_owned_by_other_session'') no_lease)"

lemma with_lease_fence_check:
  "with_lease_fence w i q mutation dirs m =
     (case operate (fence_check w i q) dirs of
        (Inl e, dirs') \<Rightarrow> (Inl e, dirs', m)
      | (Inr _, dirs') \<Rightarrow> (case mutation m of (r, m') \<Rightarrow> (raising r, dirs', m')))"
  by (simp add: with_lease_fence_def fence_check_def)

lemma no_lease_Inr: "no_lease lease s = (Inr d, s') \<longleftrightarrow> lease = Some d \<and> s' = s"
  by (auto simp: no_lease_def refuse_lease_def done_with_def split: option.splits)

lemma fence_check_quiet: "operate (fence_check w i q) dirs = (r, dirs') \<Longrightarrow> same_records dirs dirs'"
proof -
  have "quiet (fence_check w i q)" unfolding fence_check_def by (intro quiet_and_then) (simp_all add: reads_quiet)
  then show "operate (fence_check w i q) dirs = (r, dirs') \<Longrightarrow> same_records dirs dirs'"
    unfolding operate_def quiet_def by (auto simp: Let_def split: prod.splits) (metis lease_state.select_convs(1) snd_conv)
qed

lemma fence_check_Inr:
  assumes "operate (fence_check w i q) dirs = (Inr d, dirs')"
  shows "\<exists>key. lease_key i = Inr key \<and> map_of (dirs (ai_project i)) (record_name key) = Some (JsonText (PDict d)) \<and> fenced w i q d"
proof -
  obtain s' where "fence_check w i q \<lparr>ls_dirs = dirs, ls_budget = MAX_LEASE_DIRECTORY_ENTRIES\<rparr> = (Inr d, s')"
    using assms unfolding operate_def by (auto simp: Let_def split: prod.splits)
  then obtain u s1 s2 where lock: "claim_lock w i \<lparr>ls_dirs = dirs, ls_budget = MAX_LEASE_DIRECTORY_ENTRIES\<rparr> = (Inr u, s1)"
    and valid: "validate_lease_and_claimant w i q ''lease_owned_by_other_session'' s1 = (Inr (Some d), s2)"
    unfolding fence_check_def by (auto simp: and_then_eq no_lease_Inr)
  have "same_records dirs (ls_dirs s1)" using quietD [OF quiet_locks(2) lock] by simp
  then show ?thesis using validate_lease_and_claimant_Inr [OF valid] unfolding same_records_def by (metis record_name_facts(1))
qed

definition released_lease :: "lease_world \<Rightarrow> pystr \<Rightarrow> pydict \<Rightarrow> pydict" where
  "released_lease w status d =
     AList.update (sv ''updated_utc'') (PStr (iso_text (lw_now w)))
       (AList.update (sv ''released_utc'') (PStr (iso_text (lw_now w))) (AList.update (sv ''status'') (PStr status) d))"

lemma release_lease_cases:
  assumes "release_lease w i q status dirs = (r, dirs')"
  obtains (refused) e where "r = Inl e" "same_records dirs dirs'"
  | (released) key d where "r = Inr (released_lease w status d)" "lease_key i = Inr key"
      "map_of (dirs (ai_project i)) (record_name key) = Some (JsonText (PDict d))" "fenced w i q d"
      "lease_written (ai_project i) key (released_lease w status d) dirs dirs'"
proof -
  let ?check = "\<lambda>_. and_then (validate_lease_and_claimant w i q ''release_requires_current_owner'') no_lease"
  let ?save = "\<lambda>d. save_lease w i (AList.update (sv ''released_utc'') (PStr (iso_text (lw_now w))) (AList.update (sv ''status'') (PStr status) d))"
  let ?s = "\<lparr>ls_dirs = dirs, ls_budget = MAX_LEASE_DIRECTORY_ENTRIES\<rparr>"
  obtain s' where run: "and_then (claim_lock w i) (\<lambda>_. and_then (?check ()) ?save) ?s = (r, s')" and dirs': "dirs' = ls_dirs s'"
    using assms unfolding release_lease_def operate_def by (auto simp: Let_def split: prod.splits)
  have check: "reads (?check ())" by (intro reads_and_then) auto
  show thesis
  proof (cases r)
    case (Inl e)
    have "late (and_then (claim_lock w i) (\<lambda>_. and_then (?check ()) ?save))"
      by (rule late_and_then [OF quiet_locks(2) late_and_then [OF reads_quiet [OF check] late_save_lease]])
    then have "same_records dirs dirs'" using run Inl unfolding late_def dirs' by fastforce
    then show thesis using refused Inl by simp
  next
    case (Inr d')
    obtain s1 s2 d where lock: "claim_lock w i ?s = (Inr (), s1)" and c: "?check () s1 = (Inr d, s2)" and save: "?save d s2 = (Inr d', s')"
      using run [unfolded and_then_eq [where f = "\<lambda>_. and_then (?check ()) ?save"]] Inr by (auto simp: and_then_eq [where f = "?save"])
    have "validate_lease_and_claimant w i q ''release_requires_current_owner'' s1 = (Inr (Some d), s2)"
      using c by (auto simp: and_then_eq no_lease_Inr)
    from validate_lease_and_claimant_Inr [OF this]
    obtain key where key: "lease_key i = Inr key" "map_of (ls_dirs s1 (ai_project i)) (record_name key) = Some (JsonText (PDict d))" "fenced w i q d"
      by blast
    have same: "same_records dirs (ls_dirs s1)" "ls_dirs s2 = ls_dirs s1"
      using quietD [OF quiet_locks(2) lock] readsD [OF check c] by simp_all
    have "d' = released_lease w status d" "lease_written (ai_project i) key (released_lease w status d) dirs dirs'"
      using save_lease_Inr [OF save] key same by (auto simp: released_lease_def dirs' lease_written_def same_records_def)
    then show thesis using released key same Inr by (simp add: same_records_def)
  qed
qed

end
