(* ===== verification/LeaseSafety.thy ===== *)
theory LeaseSafety
  imports LeaseProps
begin

text \<open>
  The authority over time. A step is one operation by anybody: any world, identity and request, at a clock that does not run backwards.
\<close>

section \<open>Histories\<close>

inductive lease_step :: "int \<times> lease_dirs \<Rightarrow> int \<times> lease_dirs \<Rightarrow> bool" where
  claims: "now \<le> lw_now w \<Longrightarrow> lease_step (now, dirs) (lw_now w, snd (claim_lease w i c ttl takeover dirs))"
| releases: "now \<le> lw_now w \<Longrightarrow> lease_step (now, dirs) (lw_now w, snd (release_lease w i q status dirs))"
| fences: "now \<le> lw_now w \<Longrightarrow> lease_step (now, dirs) (lw_now w, snd (operate (fence_check w i q) dirs))"

inductive_cases lease_stepE: "lease_step s t"

abbreviation lease_at :: "lease_dirs \<Rightarrow> pystr \<Rightarrow> pystr \<Rightarrow> pydict \<Rightarrow> bool" where
  "lease_at dirs project n d \<equiv> is_record_name n \<and> map_of (dirs project) n = Some (JsonText (PDict d))"

text \<open>What a step does to the records.\<close>

lemma lease_step_cases:
  assumes "lease_step (now, dirs) (now', dirs')"
  obtains (same) "now \<le> now'" "same_records dirs dirs'"
  | (claimed) w i c ttl takeover b where "now \<le> now'" "lw_now w = now'" "grounds w i c ttl takeover dirs b"
      "lease_written (ai_project i) (gb_key b) (granted_lease w i c b) dirs dirs'"
  | (released) w i q status key d where "now \<le> now'" "lw_now w = now'" "lease_at dirs (ai_project i) (record_name key) d" "fenced w i q d"
      "lease_written (ai_project i) key (released_lease w status d) dirs dirs'"
  using assms
proof (cases rule: lease_step.cases)
  case (claims w i c ttl takeover)
  then show thesis by (cases rule: claim_lease_cases [OF surjective_pairing]) (auto intro: same claimed)
next
  case (releases w i q status)
  then show thesis by (cases rule: release_lease_cases [OF surjective_pairing]) (auto intro: same released)
next
  case (fences w i q)
  then show thesis using fence_check_quiet [OF surjective_pairing] same by simp
qed

section \<open>One writer per worktree\<close>

definition in_force :: "int \<Rightarrow> pydict \<Rightarrow> bool" where
  "in_force now d \<longleftrightarrow>
     dget ''status'' d = Some (sv ''active'') \<and>
     (case parse_iso8601 (dget_none ''lease_expires_utc'' d) of Inr (Some (InstantAt e)) \<Rightarrow> now < e | _ \<Rightarrow> False)"

lemma in_force_earlier: "in_force now' d \<Longrightarrow> now \<le> now' \<Longrightarrow> in_force now d"
  by (auto simp: in_force_def split: sum.splits option.splits iso_time.splits)

lemma in_force_not_expired: "in_force (lw_now w) d \<Longrightarrow> lease_is_expired w d = Inr False"
  by (auto simp: in_force_def lease_is_expired_def expires_dead_def past_def split: sum.splits option.splits iso_time.splits)

lemma validated_key:
  assumes "validate_active_lease_state w (PDict d) (Some key) = Inr ()" and "in_force (lw_now w) d"
  shows "dget ''lease_key'' d = Some (PStr key)"
proof -
  have "field_problem d ''status'' = None" using assms(2) by (simp add: in_force_def field_problem_def)
  moreover have "active_lease_expired_or_corrupt w d \<noteq> Inr True"
    using assms(2) by (auto simp: active_lease_expired_or_corrupt_def in_force_def past_def lease_inv split: sum.splits option.splits iso_time.splits)
  ultimately have "validate_active_lease_identity d key = Inr ()"
    using assms by (auto simp: validate_active_lease_state_def in_force_def lease_inv split: if_splits)
  then show ?thesis by (auto simp: validate_active_lease_identity_def split: if_splits)
qed

lemma no_alias:
  assumes "alias_in w key realpath ds = Inr False" and "d \<in> set ds" and "dget ''lease_key'' d \<noteq> Some (PStr key)" and "in_force (lw_now w) d"
  shows "dget ''worktree_realpath'' d \<noteq> Some (PStr realpath)"
  using assms
proof (induction ds)
  case (Cons e ds)
  then show ?case
    using in_force_not_expired [OF assms(4)] by (auto simp: rbind_Inr_iff in_force_def split: if_splits)
qed simp

definition one_writer :: "int \<times> lease_dirs \<Rightarrow> bool" where
  "one_writer s \<longleftrightarrow>
     (\<forall>project n d n' d' realpath. lease_at (snd s) project n d \<and> in_force (fst s) d \<and> dget ''worktree_realpath'' d = Some (PStr realpath) \<and>
        lease_at (snd s) project n' d' \<and> in_force (fst s) d' \<and> dget ''worktree_realpath'' d' = Some (PStr realpath) \<longrightarrow> n' = n)"

lemma granted_values [simp]:
  "dget ''worktree_realpath'' (granted_lease w i c b) = Some (PStr (gb_realpath b))"
  "dget ''fence_token'' (granted_lease w i c b) = Some (PInt (fst (gb_fence b)))"
  "dget ''owner_session_id'' (granted_lease w i c b) = Some (PStr (cl_owner_session_id c))"
  "dget ''owner_runtime_session_id'' (granted_lease w i c b) = Some (optional_text (gb_runtime b))"
  "dget ''owner_pid'' (granted_lease w i c b) = Some (case gb_pid b of None \<Rightarrow> PNone | Some p \<Rightarrow> PInt p)"
  "dget ''status'' (granted_lease w i c b) = Some (sv ''active'')"
  "dget ''lease_key'' (granted_lease w i c b) = Some (PStr (gb_key b))"
  "dget ''identity'' (granted_lease w i c b) = Some (PDict (identity_dict i))"
  "dget ''lease_expires_utc'' (granted_lease w i c b) = Some (PStr (gb_expires b))"
  "dget ''previous_owner_session_id'' (granted_lease w i c b) = Some (snd (gb_fence b))"
  "dget ''caller_capability_binding'' (granted_lease w i c b) = None"
  by (simp_all add: granted_lease_def lease_payload_def dget_def update_conv)

lemma released_values [simp]:
  "f \<notin> {''status'', ''released_utc'', ''updated_utc''} \<Longrightarrow> dget f (released_lease w status d) = dget f d"
  "f \<notin> {''status'', ''released_utc'', ''updated_utc''} \<Longrightarrow> dget_none f (released_lease w status d) = dget_none f d"
  by (simp_all add: released_lease_def dget_def dget_none_def update_conv)

text \<open>A granted lease is the only one in force on its worktree.\<close>

lemma granted_alone:
  assumes "grounds w i c ttl takeover dirs b" and "lease_at dirs (ai_project i) n d" and "n \<noteq> record_name (gb_key b)" and "in_force (lw_now w) d"
  shows "dget ''worktree_realpath'' d \<noteq> Some (PStr (gb_realpath b))"
proof -
  have "d \<in> set (gb_read b)" and "dget ''lease_key'' d = Some (PStr (stem n))"
    using assms validated_key unfolding grounds_def directory_read_def by blast+
  moreover have "stem n \<noteq> gb_key b" using assms(2,3) record_name_stem by metis
  ultimately show ?thesis using assms(1,4) no_alias unfolding grounds_def by fastforce
qed

lemma one_writer_kept:
  assumes "one_writer s"
    and kept: "\<And>p n e. lease_at (snd t) p n e \<Longrightarrow> in_force (fst t) e \<Longrightarrow>
      \<exists>e'. lease_at (snd s) p n e' \<and> in_force (fst s) e' \<and> dget ''worktree_realpath'' e' = dget ''worktree_realpath'' e"
  shows "one_writer t"
  unfolding one_writer_def
proof (intro allI impI, elim conjE)
  fix p n d n' d' r
  assume d: "is_record_name n" "map_of (snd t p) n = Some (JsonText (PDict d))" "in_force (fst t) d" "dget ''worktree_realpath'' d = Some (PStr r)"
    and d': "is_record_name n'" "map_of (snd t p) n' = Some (JsonText (PDict d'))" "in_force (fst t) d'" "dget ''worktree_realpath'' d' = Some (PStr r)"
  obtain e where "lease_at (snd s) p n e" "in_force (fst s) e" "dget ''worktree_realpath'' e = Some (PStr r)"
    using kept [OF conjI [OF d(1,2)] d(3)] d(4) by auto
  moreover obtain e' where "lease_at (snd s) p n' e'" "in_force (fst s) e'" "dget ''worktree_realpath'' e' = Some (PStr r)"
    using kept [OF conjI [OF d'(1,2)] d'(3)] d'(4) by auto
  ultimately show "n' = n" using assms(1) unfolding one_writer_def by blast
qed

lemma one_writer_step:
  assumes "one_writer (now, dirs)" and "lease_step (now, dirs) (now', dirs')"
  shows "one_writer (now', dirs')"
  using assms(2)
proof (cases rule: lease_step_cases)
  case same
  then show ?thesis
    using in_force_earlier by (intro one_writer_kept [OF assms(1)]) (auto simp: same_records_def)
next
  case (claimed w i c ttl takeover b)
  have old: "lease_at dirs p n d" if "lease_at dirs' p n d" "\<not> (p = ai_project i \<and> n = record_name (gb_key b))" for p n d
    using that claimed(4) by (auto simp: lease_written_def)
  have new: "d = granted_lease w i c b" if "lease_at dirs' (ai_project i) (record_name (gb_key b)) d" for d
    using that claimed(4) by (auto simp: lease_written_def)
  have clash: False
    if "lease_at dirs' (ai_project i) m e" "m \<noteq> record_name (gb_key b)" "in_force now' e" "dget ''worktree_realpath'' e = Some (PStr r)"
      "lease_at dirs' (ai_project i) (record_name (gb_key b)) e'" "dget ''worktree_realpath'' e' = Some (PStr r)" for m e e' r
  proof -
    have "lease_at dirs (ai_project i) m e" using old that(1,2) by blast
    then have "dget ''worktree_realpath'' e \<noteq> Some (PStr (gb_realpath b))"
      using granted_alone [OF claimed(3)] that(2,3) claimed(2) by simp
    moreover have "r = gb_realpath b" using new [OF that(5)] that(6) by simp
    ultimately show False using that(4) by simp
  qed
  show ?thesis
    unfolding one_writer_def fst_conv snd_conv
  proof (intro allI impI, elim conjE, rule ccontr)
    fix p n d n' d' realpath
    assume d: "is_record_name n" "map_of (dirs' p) n = Some (JsonText (PDict d))" "in_force now' d" "dget ''worktree_realpath'' d = Some (PStr realpath)"
      and d': "is_record_name n'" "map_of (dirs' p) n' = Some (JsonText (PDict d'))" "in_force now' d'" "dget ''worktree_realpath'' d' = Some (PStr realpath)"
      and differ: "n' \<noteq> n"
    consider "p = ai_project i" "n = record_name (gb_key b)" | "p = ai_project i" "n' = record_name (gb_key b)"
      | "\<not> (p = ai_project i \<and> n = record_name (gb_key b))" "\<not> (p = ai_project i \<and> n' = record_name (gb_key b))" by blast
    then show False
    proof cases
      case 1
      then show False using clash d d' differ by blast
    next
      case 2
      then show False using clash d d' differ by metis
    next
      case 3
      then have "lease_at dirs p n d" "lease_at dirs p n' d'" using old d d' by blast+
      then show False
        using assms(1) d d' differ in_force_earlier [OF _ claimed(1)] unfolding one_writer_def fst_conv snd_conv by blast
    qed
  qed
next
  case (released w i q status key d)
  have old: "\<exists>e'. lease_at dirs p n e' \<and> in_force now e' \<and> dget ''worktree_realpath'' e' = dget ''worktree_realpath'' e"
    if "lease_at dirs' p n e" "in_force now' e" for p n e
  proof (cases "p = ai_project i \<and> n = record_name key")
    case True
    then have "e = released_lease w status d" using that(1) released(5) by (auto simp: lease_written_def)
    then have "in_force now d"
      using that(2) released(1,4) by (auto simp: in_force_def fenced_def split: sum.splits option.splits iso_time.splits)
    then show ?thesis using True released(3) \<open>e = released_lease w status d\<close> by auto
  next
    case False
    then have "lease_at dirs p n e" using that(1) released(5) by (auto simp: lease_written_def)
    then show ?thesis using in_force_earlier [OF that(2) released(1)] by blast
  qed
  show ?thesis by (rule one_writer_kept [OF assms(1)]) (unfold fst_conv snd_conv, rule old)
qed

interpretation writers: invariant_system "\<lambda>s. snd s = (\<lambda>_. [])" lease_step one_writer
proof unfold_locales
  show "one_writer t" if "one_writer s" "lease_step s t" for s t using one_writer_step that by (cases s, cases t) blast
qed (simp add: one_writer_def)

section \<open>Fences\<close>

definition fence_value :: "pydict \<Rightarrow> pyerr + int" where
  "fence_value d = int_of (dget_none ''fence_token'' d)"

definition owner_of :: "pydict \<Rightarrow> pyval \<times> pyval \<times> (pyerr + int option)" where
  "owner_of d = (dget_none ''owner_session_id'' d, dget_none ''owner_runtime_session_id'' d, stored_pid (dget_none ''owner_pid'' d))"

text \<open>A claim raises the fence unless the owner itself claims again.\<close>

lemma next_fence_rises:
  assumes "next_fence w (Some e) session runtime pid takeover = Inr fence" and "fence_value e = Inr f"
  shows "fst fence = f + 1 \<or> fst fence = f \<and> owner_of e = (PStr session, optional_text runtime, Inr pid)"
proof -
  have stored: "dget ''fence_token'' e = Some (dget_none ''fence_token'' e)"
    using assms(2) by (auto simp: fence_value_def dget_none_def int_of_def split: option.splits)
  have pid: "same_pid v pid = Inr claims \<Longrightarrow> v = PNone \<and> pid = None \<or> claims \<Longrightarrow> stored_pid v = Inr pid" for v claims
    by (auto simp: same_pid_def stored_pid_def rbind_Inr_iff split: option.splits if_splits)
  show ?thesis
  proof (cases "dget ''status'' e = Some (sv ''active'')")
    case True
    then obtain claims expired where claims: "same_pid (dget_none ''owner_pid'' e) pid = Inr claims" and expired: "lease_is_expired w e = Inr expired"
      using assms(1) by (auto simp: next_fence_def stored Let_def lease_inv)
    show ?thesis
    proof (cases expired)
      case False
      obtain alive where "owner_is_live w e = Inr alive"
        using assms(1) True claims expired False by (auto simp: next_fence_def stored Let_def lease_inv)
      then show ?thesis
        using assms(1,2) True claims expired False pid [OF claims]
        by (cases alive) (auto simp: next_fence_def stored Let_def fence_value_def owner_of_def lease_inv split: if_splits bool.splits)
    qed (use assms True claims expired in \<open>auto simp: next_fence_def stored Let_def fence_value_def lease_inv split: if_splits\<close>)
  qed (use assms in \<open>auto simp: next_fence_def stored Let_def fence_value_def lease_inv\<close>)
qed

lemma owner_of_granted [simp]: "owner_of (granted_lease w i c b) = (PStr (cl_owner_session_id c), optional_text (gb_runtime b), Inr (gb_pid b))"
  by (simp add: owner_of_def dget_none_def stored_pid_def int_of_def split: option.splits)

lemma fence_value_granted [simp]: "fence_value (granted_lease w i c b) = Inr (fst (gb_fence b))"
  by (simp add: fence_value_def dget_none_def int_of_def)

lemma released_same [simp]: "owner_of (released_lease w status d) = owner_of d" "fence_value (released_lease w status d) = fence_value d"
  by (simp_all add: owner_of_def fence_value_def)

text \<open>What became of a fence that an owner once held.\<close>

definition held :: "pystr \<Rightarrow> pystr \<Rightarrow> int \<Rightarrow> pyval \<times> pyval \<times> (pyerr + int option) \<Rightarrow> int \<times> lease_dirs \<Rightarrow> bool" where
  "held project n f owner s \<longleftrightarrow>
     (\<exists>d f'. lease_at (snd s) project n d \<and> fence_value d = Inr f' \<and> (f < f' \<or> f' = f \<and> owner_of d = owner))"

lemma held_step:
  assumes "held p n f owner (now, dirs)" and "lease_step (now, dirs) (now', dirs')"
  shows "held p n f owner (now', dirs')"
proof -
  obtain d f' where d: "lease_at dirs p n d" "fence_value d = Inr f'" "f < f' \<or> f' = f \<and> owner_of d = owner"
    using assms(1) unfolding held_def by auto
  show ?thesis
    using assms(2)
  proof (cases rule: lease_step_cases)
    case same
    then show ?thesis using d unfolding held_def same_records_def by auto
  next
    case (claimed w i c ttl takeover b)
    show ?thesis
    proof (cases "p = ai_project i \<and> n = record_name (gb_key b)")
      case True
      then have "lease_at dirs' p n (granted_lease w i c b)" using claimed(4) by (simp add: lease_written_def)
      moreover have "fst (gb_fence b) = f' + 1 \<or> fst (gb_fence b) = f' \<and> owner_of d = owner_of (granted_lease w i c b)"
      proof -
        have "gb_existing b = Some d" using claimed(3) d(1) True by (auto simp: grounds_def)
        then show ?thesis
          using next_fence_rises [OF _ d(2), of w "cl_owner_session_id c" "gb_runtime b" "gb_pid b" takeover "gb_fence b"] claimed(3)
          by (simp add: grounds_def)
      qed
      ultimately show ?thesis using d(3) unfolding held_def by fastforce
    next
      case False
      then have "lease_at dirs' p n d" using claimed(4) d(1) by (auto simp: lease_written_def)
      then show ?thesis using d unfolding held_def by auto
    qed
  next
    case (released w i q status key e)
    show ?thesis
    proof (cases "p = ai_project i \<and> n = record_name key")
      case True
      then have "e = d" "lease_at dirs' p n (released_lease w status d)" using released d(1) by (simp_all add: lease_written_def)
      then show ?thesis using d unfolding held_def by fastforce
    next
      case False
      then have "lease_at dirs' p n d" using released(5) d(1) by (auto simp: lease_written_def)
      then show ?thesis using d unfolding held_def by auto
    qed
  qed
qed

interpretation fence: invariant_system "held p n f owner" lease_step "held p n f owner" for p n f owner
proof unfold_locales
  show "held p n f owner t" if "held p n f owner s" "lease_step s t" for s t using held_step that by (cases s, cases t) blast
qed

lemma fenced_fence: "fenced w i q d \<Longrightarrow> fence_value d = Inr f \<Longrightarrow> fr_fence_token q = f"
  by (auto simp: fenced_def fence_value_def dget_none_def int_of_def split: option.splits)

lemma assert_lease_Inr:
  assumes "assert_lease w i q dirs = (Inr d, dirs')"
  shows "\<exists>key. lease_key i = Inr key \<and> map_of (dirs (ai_project i)) (record_name key) = Some (JsonText (PDict d)) \<and> fenced w i q d"
proof -
  obtain s' where "validate_lease_and_claimant w i q ''lease_owned_by_other_session'' \<lparr>ls_dirs = dirs, ls_budget = MAX_LEASE_DIRECTORY_ENTRIES\<rparr> = (Inr (Some d), s')"
    using assms unfolding assert_lease_def operate_def by (auto simp: and_then_eq no_lease_Inr Let_def split: prod.splits)
  from validate_lease_and_claimant_Inr [OF this] show ?thesis by simp
qed

text \<open>A request whose fence is behind the record's is refused, and the mutation it fences does not run.\<close>

lemma stale_refused:
  assumes "lease_key i = Inr key" and "held (ai_project i) (record_name key) (fr_fence_token q + 1) owner s"
  shows "\<exists>e dirs'. with_lease_fence w i q mutation (snd s) m = (Inl e, dirs', m)"
    and "\<exists>e dirs'. assert_lease w i q (snd s) = (Inl e, dirs')"
    and "\<exists>e dirs'. release_lease w i q status (snd s) = (Inl e, dirs')"
proof -
  have stale: "\<not> (\<exists>k. lease_key i = Inr k \<and> map_of (snd s (ai_project i)) (record_name k) = Some (JsonText (PDict d)) \<and> fenced w i q d)" for d
    using assms fenced_fence unfolding held_def by fastforce
  obtain r dirs1 where check: "operate (fence_check w i q) (snd s) = (r, dirs1)" by fastforce
  then obtain e where "r = Inl e" using fence_check_Inr stale by (cases r) blast+
  then show "\<exists>e dirs'. with_lease_fence w i q mutation (snd s) m = (Inl e, dirs', m)" using check by (simp add: with_lease_fence_check)
  obtain r dirs1 where run: "assert_lease w i q (snd s) = (r, dirs1)" by fastforce
  then show "\<exists>e dirs'. assert_lease w i q (snd s) = (Inl e, dirs')" using assert_lease_Inr stale by (cases r) blast+
  obtain r dirs1 where run: "release_lease w i q status (snd s) = (r, dirs1)" by fastforce
  then show "\<exists>e dirs'. release_lease w i q status (snd s) = (Inl e, dirs')"
    by (cases rule: release_lease_cases [OF run]) (use stale in blast)+
qed

lemma fenced_in_force:
  assumes "fenced w i q d"
  shows "in_force (lw_now w) d"
proof -
  obtain t where "parse_iso8601 (dget_none ''lease_expires_utc'' d) = Inr (Some t)" "past t (lw_now w) = Inr False"
    using assms by (auto simp: fenced_def active_lease_expired_or_corrupt_def lease_inv split: option.splits)
  then show ?thesis using assms by (cases t) (auto simp: past_def in_force_def fenced_def)
qed

lemma first_fence: "next_fence w None session runtime pid takeover = Inr fence \<Longrightarrow> fst fence = 1"
  by (auto simp: next_fence_def)

text \<open>The fence an existing record leads to, and on what conditions.\<close>

definition fence_or :: "int \<Rightarrow> pydict \<Rightarrow> pyerr + int" where
  "fence_or n e = int_of (case dget ''fence_token'' e of None \<Rightarrow> PInt n | Some v \<Rightarrow> v)"

definition succeeds :: "lease_world \<Rightarrow> pydict \<Rightarrow> bool \<Rightarrow> pydict \<Rightarrow> bool" where
  "succeeds w e takeover d \<longleftrightarrow>
     (\<exists>f. fence_or 0 e = Inr f \<and> dget ''fence_token'' d = Some (PInt (f + 1)) \<and>
        (dget ''status'' e = Some (sv ''active'') \<longrightarrow>
           takeover \<and> (lease_is_expired w e = Inr True \<or> lease_is_expired w e = Inr False \<and> owner_is_live w e = Inr (Some False)) \<and>
           dget ''previous_owner_session_id'' d = Some (dget_none ''owner_session_id'' e)))"

definition renews :: "lease_world \<Rightarrow> pydict \<Rightarrow> pydict \<Rightarrow> bool" where
  "renews w e d \<longleftrightarrow>
     dget ''status'' e = Some (sv ''active'') \<and> lease_is_expired w e = Inr False \<and> owner_is_live w e = Inr (Some True) \<and>
     owner_of d = owner_of e \<and> (\<exists>f. fence_or 1 e = Inr f \<and> dget ''fence_token'' d = Some (PInt f))"

lemma next_fence_cases:
  assumes "next_fence w (Some e) (cl_owner_session_id c) (gb_runtime b) (gb_pid b) takeover = Inr (gb_fence b)"
  shows "succeeds w e takeover (granted_lease w i c b) \<or> renews w e (granted_lease w i c b)"
proof (cases "dget ''status'' e = Some (sv ''active'')")
  case True
  then obtain f claims expired where f: "fence_or 0 e = Inr f" and claims: "same_pid (dget_none ''owner_pid'' e) (gb_pid b) = Inr claims"
    and expired: "lease_is_expired w e = Inr expired"
    using assms by (auto simp: next_fence_def fence_or_def Let_def lease_inv)
  have pid: "dget_none ''owner_pid'' e = PNone \<and> gb_pid b = None \<or> claims \<Longrightarrow> stored_pid (dget_none ''owner_pid'' e) = Inr (gb_pid b)"
    using claims by (auto simp: same_pid_def stored_pid_def rbind_Inr_iff split: option.splits if_splits)
  show ?thesis
  proof (cases expired)
    case False
    then obtain alive where alive: "owner_is_live w e = Inr alive"
      using assms True f claims expired by (auto simp: next_fence_def fence_or_def Let_def lease_inv)
    show ?thesis
    proof (cases "alive = Some True")
      case live: True
      then have "renews w e (granted_lease w i c b)"
        using assms True f claims expired alive False pid
        by (cases "gb_fence b") (auto simp: renews_def next_fence_def fence_or_def Let_def lease_inv owner_of_def [of e] split: if_splits)
      then show ?thesis ..
    next
      case dead: False
      then have "alive = Some False"
        using assms True f claims expired alive False by (cases alive) (auto simp: next_fence_def fence_or_def Let_def lease_inv)
      then have "succeeds w e takeover (granted_lease w i c b)"
        using assms True f claims expired alive False
        by (cases "gb_fence b") (auto simp: succeeds_def next_fence_def fence_or_def Let_def lease_inv split: if_splits)
      then show ?thesis ..
    qed
  qed (cases "gb_fence b", use assms True f claims expired in
    \<open>auto simp: succeeds_def next_fence_def fence_or_def Let_def lease_inv split: if_splits\<close>)
qed (cases "gb_fence b", use assms in \<open>auto simp: succeeds_def next_fence_def fence_or_def Let_def lease_inv\<close>)

section \<open>Properties\<close>

text \<open>
  C36. A fence retires its owner. Once the record of an identity has another owner than it had under a fence, then whatever anybody did
  before and does after, at whatever times and in whatever worlds: every request with that fence is refused - the protected mutation
  does not run and its state is untouched, the lease is not released, the assertion does not hold.
\<close>

theorem fence_retires:
  assumes "lease_step\<^sup>*\<^sup>* s t" and "lease_step\<^sup>*\<^sup>* t u" and "lease_key i = Inr key"
    and "lease_at (snd s) (ai_project i) (record_name key) d" and "fence_value d = Inr (fr_fence_token q)"
    and "lease_at (snd t) (ai_project i) (record_name key) d'" and "owner_of d' \<noteq> owner_of d"
  shows "(\<exists>e dirs. with_lease_fence w i q mutation (snd u) m = (Inl e, dirs, m)) \<and>
    (\<exists>e dirs. assert_lease w i q (snd u) = (Inl e, dirs)) \<and> (\<exists>e dirs. release_lease w i q status (snd u) = (Inl e, dirs))"
proof -
  have "held (ai_project i) (record_name key) (fr_fence_token q) (owner_of d) s" using assms(4,5) unfolding held_def by blast
  then have "held (ai_project i) (record_name key) (fr_fence_token q) (owner_of d) t" using fence.inv_run assms(1) by blast
  then obtain f' where "fence_value d' = Inr f'" "fr_fence_token q < f'" using assms(6,7) unfolding held_def by auto
  then have "held (ai_project i) (record_name key) (fr_fence_token q + 1) (owner_of d') t" using assms(6) unfolding held_def by fastforce
  then have "held (ai_project i) (record_name key) (fr_fence_token q + 1) (owner_of d') u" using fence.inv_run assms(2) by blast
  then show ?thesis by (intro conjI stale_refused [OF assms(3)])
qed

text \<open>
  C37. One writer per worktree. From a state in which no two leases in force of a project stand on the same real worktree - such as
  empty directories - whatever claims, releases and fenced requests follow, in whatever order and by whomever, as long as the clock does
  not run backwards: two requests of one project that are accepted at the end, under leases on the same real worktree, present the same
  key, the same session and the same fence. So two chats, tasks or spellings of a path cannot both write to one worktree.
\<close>

theorem one_writer_per_worktree:
  assumes "one_writer s" and "lease_step\<^sup>*\<^sup>* s t" and "ai_project i' = ai_project i"
    and "fst t \<le> lw_now w" and "assert_lease w i q (snd t) = (Inr d, dirs)"
    and "fst t \<le> lw_now w'" and "assert_lease w' i' q' (snd t) = (Inr d', dirs')"
    and "dget ''worktree_realpath'' d = Some (PStr realpath)" and "dget ''worktree_realpath'' d' = Some (PStr realpath)"
  shows "lease_key i' = lease_key i \<and> d' = d \<and> fr_fence_token q' = fr_fence_token q \<and>
    cl_owner_session_id (fr_claimant q') = cl_owner_session_id (fr_claimant q)"
proof -
  have "one_writer t" using writers.inv_run assms(1,2) by blast
  obtain key key' where d: "lease_key i = Inr key" "lease_at (snd t) (ai_project i) (record_name key) d" "fenced w i q d"
    and d': "lease_key i' = Inr key'" "lease_at (snd t) (ai_project i) (record_name key') d'" "fenced w' i' q' d'"
    using assert_lease_Inr [OF assms(5)] assert_lease_Inr [OF assms(7)] assms(3) by auto
  have "in_force (fst t) d" "in_force (fst t) d'"
    using d(3) d'(3) assms(4,6) fenced_in_force in_force_earlier by blast+
  then have "record_name key' = record_name key"
    using \<open>one_writer t\<close> d(2) d'(2) assms(8,9) unfolding one_writer_def by blast
  then have "key' = key" by (simp add: record_name_def)
  moreover from this have "d' = d" using d(2) d'(2) by simp
  ultimately show ?thesis using d d' by (auto simp: fenced_def split: option.splits)
qed

text \<open>
  C38. What a granted claim rests on, and what it changes. The session is live and bound to the identity's agent, project and chat; a
  process id, if one is claimed, is alive, and without one a runtime id is; the worktree is a directory. A first lease has fence 1; a
  lease that succeeds another has the next fence, and while that one was active the claim asked for a takeover and the lease had expired
  or its owner was dead; otherwise the claim renews the lease of the same live owner under the same fence. Only that record is lease_written.
\<close>

theorem claim_granted:
  assumes "claim_lease w i c ttl takeover dirs = (Inr d, dirs')"
  shows "\<exists>key r realpath runtime pid.
    lease_key i = Inr key \<and> lw_session w (cl_owner_session_id c) = Inr (Some r) \<and> session_is_live w r = Inr True \<and>
    require_bound_session r i = Inr () \<and> lw_resolve w (ai_worktree i) = Directory realpath \<and>
    resolve_claimant w c = Inr (runtime, pid) \<and> (runtime \<noteq> None \<or> pid \<noteq> None) \<and> (pid \<noteq> None \<longrightarrow> process_alive w pid = Inr (Some True)) \<and>
    owner_of d = (PStr (cl_owner_session_id c), optional_text runtime, Inr pid) \<and>
    dget ''status'' d = Some (sv ''active'') \<and> dget ''identity'' d = Some (PDict (identity_dict i)) \<and>
    dget ''worktree_realpath'' d = Some (PStr realpath) \<and>
    (case map_of (dirs (ai_project i)) (record_name key) of
       None \<Rightarrow> dget ''fence_token'' d = Some (PInt 1)
     | Some (JsonText (PDict e)) \<Rightarrow> succeeds w e takeover d \<or> renews w e d
     | _ \<Rightarrow> False) \<and>
    lease_written (ai_project i) key d dirs dirs'"
  using assms
proof (cases rule: claim_lease_cases)
  case (granted b)
  then have d: "d = granted_lease w i c b" and g: "grounds w i c ttl takeover dirs b" by simp_all
  obtain r where "lw_session w (cl_owner_session_id c) = Inr (Some r)" "session_is_live w r = Inr True" "require_bound_session r i = Inr ()"
    using g by (auto simp: grounds_def live_bound_session_def lease_inv split: option.splits)
  moreover have "gb_runtime b \<noteq> None \<or> gb_pid b \<noteq> None" "gb_pid b \<noteq> None \<longrightarrow> process_alive w (gb_pid b) = Inr (Some True)"
    using g by (auto simp: grounds_def resolve_claimant_def lease_inv split: option.splits if_splits)
  moreover have "case map_of (dirs (ai_project i)) (record_name (gb_key b)) of
       None \<Rightarrow> dget ''fence_token'' d = Some (PInt 1)
     | Some (JsonText (PDict e)) \<Rightarrow> succeeds w e takeover d \<or> renews w e d
     | _ \<Rightarrow> False"
    using g next_fence_cases [of w _ c b takeover i] first_fence [of w "cl_owner_session_id c" "gb_runtime b" "gb_pid b" takeover "gb_fence b"]
    unfolding d grounds_def
    by (cases "gb_existing b") auto
  ultimately show ?thesis
    using granted g unfolding d grounds_def by (intro exI [of _ "gb_key b"]) auto
qed simp

end
