(* ===== verification/LeaseLive.thy ===== *)
theory LeaseLive
  imports LeaseSafety
begin

text \<open>
  A granted lease works, and an activation packet means one identity; then a workspace in which the properties of the authority apply.
\<close>

section \<open>A lease is of use\<close>

definition open_scope :: "lease_world \<Rightarrow> activation_identity \<Rightarrow> bool" where
  "open_scope w i \<longleftrightarrow> lw_registered w (ai_project i) \<and> lw_legacy w = [] \<and> \<not> lw_claim_contended w"

lemma open_lease_path:
  assumes "open_scope w i" and "lease_scope w' (ai_project i) = Inr ()" and "lease_key i = Inr key" and "0 \<le> ls_budget s"
  shows "lease_path w i s = (Inr key, s)"
proof -
  have "lease_scope w (ai_project i) = Inr ()"
    using assms(1,2) by (auto simp: open_scope_def lease_scope_def split: if_splits)
  then show ?thesis
    using assms by (simp add: lease_path_def lease_dir_def and_then_def done_with_def scan_def open_scope_def lease_unless_def raising_def)
qed

lemma open_claim_lock:
  assumes "open_scope w i" and "lease_scope w' (ai_project i) = Inr ()" and "lease_key i = Inr key" and "0 \<le> ls_budget s"
  shows "\<exists>s'. claim_lock w i s = (Inr (), s') \<and> ls_budget s' = ls_budget s \<and> same_records (ls_dirs s) (ls_dirs s')"
proof -
  obtain s' where "take_lock (ai_project i) (key @ lit ''.lock'') (lw_claim_contended w) s = (Inr (), s')" "ls_budget s' = ls_budget s"
    using assms(1)
    by (cases "map_of (ls_dirs s (ai_project i)) (key @ lit ''.lock'') = None") (auto simp: take_lock_def write_entry_def and_then_def done_with_def lease_unless_def open_scope_def)
  then have "claim_lock w i s = (Inr (), s')" "ls_budget s' = ls_budget s"
    using open_lease_path [OF assms] by (simp_all add: claim_lock_def and_then_def)
  then show ?thesis using quietD [OF quiet_locks(2)] by blast
qed

lemma granted_in_force:
  assumes "grounds w i c ttl takeover dirs b" and "lw_now w' < (lw_now w + ttl * second) div second * second"
  shows "active_lease_expired_or_corrupt w' (granted_lease w i c b) = Inr False"
proof -
  have "0 \<le> lw_now w + ttl * second" "lw_now w + ttl * second < MAX_INSTANT" "gb_expires b = iso_text (lw_now w + ttl * second)"
    using assms(1) by (auto simp: grounds_def expires_at_def Let_def split: if_splits)
  then have "parse_iso8601 (PStr (gb_expires b)) = Inr (Some (InstantAt ((lw_now w + ttl * second) div second * second)))"
    using iso_reads_back by simp
  then show ?thesis
    using assms(2) by (simp add: active_lease_expired_or_corrupt_def require_text_def field_problem_def dget_none_def raising_def past_def)
qed

lemma granted_valid:
  assumes "lease_key i = Inr (gb_key b)" and "active_lease_expired_or_corrupt w' (granted_lease w i c b) = Inr False"
    and "lease_path w' i s = (Inr (gb_key b), s)"
  shows "validate_loaded_lease_state w' i (PDict (granted_lease w i c b)) s = (Inr (), s)"
proof -
  let ?d = "granted_lease w i c b"
  have given: "field_problem ?d f = None" if "f \<in> {''status'', ''worktree_realpath'', ''lease_key'', ''owner_session_id''}" for f
    using that by (auto simp: field_problem_def)
  have "validate_active_lease_state w' (PDict ?d) None = Inr ()"
    using assms(2) given by (simp add: validate_active_lease_state_def require_text_def dget_none_def)
  moreover have "rfold (\<lambda>_. identity_field_matches (identity_dict i)) () (zip IDENTITY_FIELDS (identity_values i)) = Inr ()"
    by (simp add: IDENTITY_FIELDS_def identity_values_def identity_field_matches_def require_text_def field_problem_def identity_dict_def dget_def)
  ultimately show ?thesis
    using assms(1,3) by (simp add: validate_loaded_lease_state_def and_then_def done_with_def stored_identity_def)
qed

lemma granted_fenced:
  assumes "grounds w i c ttl takeover dirs b" and "lw_now w' < (lw_now w + ttl * second) div second * second"
    and "cl_owner_session_id (fr_claimant q) = cl_owner_session_id c" and "fr_fence_token q = fst (gb_fence b)" and "fr_verification q = None"
    and "live_bound_session w' i (cl_owner_session_id c) = Inr ()" and "resolve_claimant w' (fr_claimant q) = resolve_claimant w c"
  shows "fenced w' i q (granted_lease w i c b)"
proof -
  have "resolve_claimant w' (fr_claimant q) = Inr (gb_runtime b, gb_pid b)" using assms(1,7) by (simp add: grounds_def)
  then have "assert_claimant_matches w' (granted_lease w i c b) (fr_claimant q) = Inr ()"
    by (auto simp: resolve_claimant_def assert_claimant_matches_def lease_inv dget_none_def str_of_value_def int_of_def optional_text_def
        raising_def split: option.splits if_splits)
  then show ?thesis
    using assms granted_in_force [OF assms(1,2)] by (simp add: fenced_def int_of_def capability_matches_def)
qed

lemma granted_accepted:
  assumes "grounds w i c ttl takeover dirs b" and "lw_now w' < (lw_now w + ttl * second) div second * second"
    and "cl_owner_session_id (fr_claimant q) = cl_owner_session_id c" and "fr_fence_token q = fst (gb_fence b)" and "fr_verification q = None"
    and "live_bound_session w' i (cl_owner_session_id c) = Inr ()" and "resolve_claimant w' (fr_claimant q) = resolve_claimant w c"
    and "open_scope w' i" and "0 \<le> ls_budget s"
    and "map_of (ls_dirs s (ai_project i)) (record_name (gb_key b)) = Some (JsonText (PDict (granted_lease w i c b)))"
  shows "validate_lease_and_claimant w' i q reason s = (Inr (Some (granted_lease w i c b)), s)"
proof -
  have key: "lease_key i = Inr (gb_key b)" and scope: "lease_scope w (ai_project i) = Inr ()" using assms(1) by (simp_all add: grounds_def)
  note path = open_lease_path [OF assms(8) scope key assms(9)]
  have "load_authority_lease w' i s = (Inr (Some (granted_lease w i c b)), s)"
    using assms(10) path granted_valid [OF key granted_in_force [OF assms(1,2)] path]
    by (simp add: load_authority_lease_def and_then_def done_with_def)
  then show ?thesis
    using granted_fenced [OF assms(1-7)] path
    by (simp add: validate_lease_and_claimant_def and_then_def done_with_def fenced_def raising_def lease_unless_def)
qed

text \<open>
  C39. A granted lease works: until the expiry it was given, its owner - the same session, still live and bound, resolved to the same
  runtime and process - runs any mutation behind the fence of the lease, with the outcome and effect the mutation has by itself, as long
  as nobody holds the lock of the lease and no legacy record is in the way. The fence writes no record.
\<close>

theorem granted_lease_works:
  assumes "claim_lease w i c ttl takeover dirs = (Inr d, dirs')"
    and "dget ''fence_token'' d = Some (PInt (fr_fence_token q))" and "fr_verification q = None"
    and "cl_owner_session_id (fr_claimant q) = cl_owner_session_id c" and "resolve_claimant w' (fr_claimant q) = resolve_claimant w c"
    and "live_bound_session w' i (cl_owner_session_id c) = Inr ()"
    and "lw_registered w' (ai_project i)" and "lw_legacy w' = []" and "\<not> lw_claim_contended w'"
    and "lw_now w' < (lw_now w + ttl * second) div second * second"
  shows "\<exists>dirs''. with_lease_fence w' i q mutation dirs' m = (raising (fst (mutation m)), dirs'', snd (mutation m)) \<and> same_records dirs' dirs''"
  using assms(1)
proof (cases rule: claim_lease_cases)
  case (granted b)
  let ?d = "granted_lease w i c b"
  have d: "d = ?d" and g: "grounds w i c ttl takeover dirs b" using granted by simp_all
  have o: "open_scope w' i" using assms(7-9) by (simp add: open_scope_def)
  have key: "lease_key i = Inr (gb_key b)" and scope: "lease_scope w (ai_project i) = Inr ()" using g by (simp_all add: grounds_def)
  obtain s where lock: "claim_lock w' i \<lparr>ls_dirs = dirs', ls_budget = MAX_LEASE_DIRECTORY_ENTRIES\<rparr> = (Inr (), s)"
    and s: "ls_budget s = MAX_LEASE_DIRECTORY_ENTRIES" "same_records dirs' (ls_dirs s)"
    using open_claim_lock [OF o scope key, of "\<lparr>ls_dirs = dirs', ls_budget = MAX_LEASE_DIRECTORY_ENTRIES\<rparr>"]
    by (auto simp: MAX_LEASE_DIRECTORY_ENTRIES_def)
  have budget: "0 \<le> ls_budget s" using s by (simp add: MAX_LEASE_DIRECTORY_ENTRIES_def)
  have "map_of (ls_dirs s (ai_project i)) (record_name (gb_key b)) = Some (JsonText (PDict ?d))"
    using granted(3) s(2) by (simp add: lease_written_def same_records_def)
  then have "validate_lease_and_claimant w' i q ''lease_owned_by_other_session'' s = (Inr (Some ?d), s)"
    using granted_accepted [OF g assms(10,4) _ assms(3,6,5) o budget] assms(2) unfolding d by simp
  then have "operate (fence_check w' i q) dirs' = (Inr ?d, ls_dirs s)"
    using lock by (simp add: operate_def fence_check_def and_then_def no_lease_def done_with_def)
  then show ?thesis using s(2) by (auto simp: with_lease_fence_check split: prod.splits)
qed simp

section \<open>A claim that nothing stands against\<close>

definition records_of :: "lease_dirs \<Rightarrow> pystr \<Rightarrow> (pystr \<times> file_text) list" where
  "records_of dirs project = filter (\<lambda>e. is_record_name (fst e)) (dirs project)"

lemma update_no_record: "\<not> is_record_name n \<Longrightarrow> filter (\<lambda>e. is_record_name (fst e)) (AList.update n t xs) = filter (\<lambda>e. is_record_name (fst e)) xs"
  by (induction xs) auto

lemma update_length: "length (AList.update n t xs) \<le> Suc (length xs)"
  by (induction xs) auto

lemma free_lock:
  assumes "\<not> is_record_name n"
  obtains s' where "take_lock p n False s = (Inr (), s')" "ls_budget s' = ls_budget s" "records_of (ls_dirs s') p = records_of (ls_dirs s) p"
    "length (ls_dirs s' p) \<le> Suc (length (ls_dirs s p))" "same_records (ls_dirs s) (ls_dirs s')"
proof -
  obtain s' where "take_lock p n False s = (Inr (), s')" "ls_budget s' = ls_budget s" "records_of (ls_dirs s') p = records_of (ls_dirs s) p"
    "length (ls_dirs s' p) \<le> Suc (length (ls_dirs s p))"
    using update_no_record [OF assms, of OtherText "ls_dirs s p"] update_length [of n OtherText "ls_dirs s p"]
    by (cases "map_of (ls_dirs s p) n = None")
      (auto simp: take_lock_def write_entry_def and_then_def done_with_def lease_unless_def records_of_def)
  then show thesis using that quietD [OF quiet_take_lock [OF assms]] by blast
qed

definition unopposed :: "lease_world \<Rightarrow> activation_identity \<Rightarrow> claimant \<Rightarrow> int \<Rightarrow> bool \<Rightarrow> lease_dirs \<Rightarrow> grant_basis \<Rightarrow> bool" where
  "unopposed w i c ttl takeover dirs b \<longleftrightarrow>
     open_scope w i \<and> \<not> lw_grant_contended w \<and> lease_scope w (ai_project i) = Inr () \<and>
     live_bound_session w i (cl_owner_session_id c) = Inr () \<and> resolve_claimant w c = Inr (gb_runtime b, gb_pid b) \<and>
     lw_resolve w (ai_worktree i) = Directory (gb_realpath b) \<and> lease_key i = Inr (gb_key b) \<and>
     int (length (dirs (ai_project i))) + 2 \<le> MAX_LEASE_DIRECTORY_ENTRIES \<and>
     rmap (read_lease w) (sort_key fst (records_of dirs (ai_project i))) = Inr (gb_read b) \<and>
     alias_in w (gb_key b) (gb_realpath b) (gb_read b) = Inr False \<and>
     map_of (dirs (ai_project i)) (record_name (gb_key b)) = map_option (\<lambda>d. JsonText (PDict d)) (gb_existing b) \<and>
     (\<forall>e s. gb_existing b = Some e \<longrightarrow> lease_path w i s = (Inr (gb_key b), s) \<longrightarrow> validate_loaded_lease_state w i (PDict e) s = (Inr (), s)) \<and>
     next_fence w (gb_existing b) (cl_owner_session_id c) (gb_runtime b) (gb_pid b) takeover = Inr (gb_fence b) \<and>
     expires_at w ttl = Inr (gb_expires b)"

lemma unopposed_grounds: "unopposed w i c ttl takeover dirs b \<Longrightarrow> grounds w i c ttl takeover dirs b"
  using records_read [of w dirs "ai_project i" "gb_read b"] by (simp add: unopposed_def grounds_def records_of_def)

lemma unopposed_granted:
  assumes u: "unopposed w i c ttl takeover dirs b"
  obtains dirs' where "claim_lease w i c ttl takeover dirs = (Inr (granted_lease w i c b), dirs')"
    "lease_written (ai_project i) (gb_key b) (granted_lease w i c b) dirs dirs'"
proof -
  let ?s = "\<lparr>ls_dirs = dirs, ls_budget = MAX_LEASE_DIRECTORY_ENTRIES\<rparr>"
  have o: "open_scope w i" and scope: "lease_scope w (ai_project i) = Inr ()" and key: "lease_key i = Inr (gb_key b)"
    using u by (simp_all add: unopposed_def)
  have enter: "lease_dir w (ai_project i) s = (Inr (), s)" if "0 \<le> ls_budget s" for s
    using o scope that by (simp add: lease_dir_def and_then_def done_with_def scan_def open_scope_def lease_unless_def)
  note path = open_lease_path [OF o scope key]
  obtain s1 where s1: "take_lock (ai_project i) (lit ''.claim-grant.lock'') False ?s = (Inr (), s1)" "ls_budget s1 = MAX_LEASE_DIRECTORY_ENTRIES"
    "records_of (ls_dirs s1) (ai_project i) = records_of dirs (ai_project i)" "length (ls_dirs s1 (ai_project i)) \<le> Suc (length (dirs (ai_project i)))"
    "same_records dirs (ls_dirs s1)"
    using free_lock [of "lit ''.claim-grant.lock''" "ai_project i" ?s] by auto
  obtain s2 where two: "take_lock (ai_project i) (gb_key b @ lit ''.lock'') False s1 = (Inr (), s2)" "ls_budget s2 = ls_budget s1"
    "records_of (ls_dirs s2) (ai_project i) = records_of (ls_dirs s1) (ai_project i)"
    "length (ls_dirs s2 (ai_project i)) \<le> Suc (length (ls_dirs s1 (ai_project i)))" "same_records (ls_dirs s1) (ls_dirs s2)"
    using free_lock [of "gb_key b @ lit ''.lock''" "ai_project i" s1] by auto
  have s2: "take_lock (ai_project i) (gb_key b @ lit ''.lock'') False s1 = (Inr (), s2)" "ls_budget s2 = MAX_LEASE_DIRECTORY_ENTRIES"
    "records_of (ls_dirs s2) (ai_project i) = records_of dirs (ai_project i)" "length (ls_dirs s2 (ai_project i)) \<le> 2 + length (dirs (ai_project i))"
    "same_records dirs (ls_dirs s2)"
    using two s1(2-4) same_records_trans [OF s1(5)] by simp_all
  have locks: "claim_grant_lock w (ai_project i) ?s = (Inr (), s1)" "claim_lock w i s1 = (Inr (), s2)"
    using u s1 s2 enter [of ?s] path [of s1]
    by (simp_all add: claim_grant_lock_def claim_lock_def and_then_def unopposed_def open_scope_def MAX_LEASE_DIRECTORY_ENTRIES_def)
  define s3 where "s3 = s2\<lparr>ls_budget := ls_budget s2 - int (length (ls_dirs s2 (ai_project i)))\<rparr>"
  have s3: "ls_dirs s3 = ls_dirs s2" "0 \<le> ls_budget s3" "0 \<le> ls_budget s2"
    using u s2 by (simp_all add: s3_def unopposed_def MAX_LEASE_DIRECTORY_ENTRIES_def)
  have alias_free: "active_alias_collision w i (gb_realpath b) s2 = (Inr False, s3)"
    using u s2 s3(2,3) enter [OF s3(3)] key
    by (simp add: active_alias_collision_def iter_leases_def and_then_def done_with_def raising_def scan_def s3_def unopposed_def records_of_def)
  have load: "load_authority_lease w i s3 = (Inr (gb_existing b), s3)"
  proof -
    have "map_of (ls_dirs s3 (ai_project i)) (record_name (gb_key b)) = map_option (\<lambda>d. JsonText (PDict d)) (gb_existing b)"
      using u s2(5) s3(1) by (simp add: unopposed_def same_records_def)
    then show ?thesis
      using u path [OF s3(2)]
      by (cases "gb_existing b") (simp_all add: load_authority_lease_def and_then_def done_with_def unopposed_def)
  qed
  have "save_lease w i (lease_payload w i (gb_key b) (cl_owner_session_id c) (gb_runtime b) (gb_pid b) (gb_fence b) (gb_expires b) (gb_realpath b)) s3
      = (Inr (granted_lease w i c b), snd (write_entry (ai_project i) (record_name (gb_key b)) (JsonText (PDict (granted_lease w i c b))) s3))"
    using path [OF s3(2)]
    by (simp add: save_lease_def granted_lease_def and_then_def done_with_def write_entry_def Let_def lease_payload_def dget_none_def dget_def)
  then have "claim_lease w i c ttl takeover dirs =
      (Inr (granted_lease w i c b), ls_dirs (snd (write_entry (ai_project i) (record_name (gb_key b)) (JsonText (PDict (granted_lease w i c b))) s3)))"
    using u locks alias_free load
    by (simp add: claim_lease_def operate_def grant_lease_def and_then_def done_with_def unopposed_def claim_realpath_def lease_unless_def raising_def)
  moreover from this have "lease_written (ai_project i) (gb_key b) (granted_lease w i c b) dirs
      (ls_dirs (snd (write_entry (ai_project i) (record_name (gb_key b)) (JsonText (PDict (granted_lease w i c b))) s3)))"
    using s2(5) s3(1) by (auto simp: lease_written_def write_entry_def update_conv same_records_def)
  ultimately show thesis using that by blast
qed

section \<open>A packet means one identity\<close>

definition carries :: "pystr \<Rightarrow> pystr \<Rightarrow> bool" where
  "carries raw v \<longleftrightarrow> v = py_strip raw \<and> v \<noteq> [] \<and> (\<forall>c \<in> set raw. \<not> breaks_line c) \<and>
     ascii_lower v \<notin> {lit ''true'', lit ''false'', lit ''null''} \<and> \<not> (starts_with [91] v \<and> ends_with [93] v) \<and> (\<forall>z. py_int v \<noteq> Inr z)"

lemma normalized_carries: "normalized_identity_field x = Inr v \<longleftrightarrow> (\<exists>raw. x = Some raw \<and> carries raw v)"
  by (auto simp: normalized_Inr carries_def roundtrips_iff list_ex_iff)

definition packet_carries :: "pydict \<Rightarrow> string \<Rightarrow> pystr \<Rightarrow> bool" where
  "packet_carries d f v \<longleftrightarrow> (case dget f d of Some (PStr raw) \<Rightarrow> carries raw v | _ \<Rightarrow> False)"

lemma packet_text_carries: "(\<exists>raw. packet_text f d = Some raw \<and> carries raw v) \<longleftrightarrow> packet_carries d f v"
  by (auto simp: packet_text_def packet_carries_def split: option.splits pyval.splits)

lemma packet_identity:
  "lease_identity (packet_source d agent) = Inr i \<longleftrightarrow>
     packet_carries d ''project_id'' (ai_project i) \<and> packet_carries d ''chat_id'' (ai_chat i) \<and>
     packet_carries d ''related_task'' (ai_task i) \<and> packet_carries d ''worktree'' (ai_worktree i) \<and>
     packet_carries d ''branch'' (ai_branch i) \<and> carries agent (ai_target_agent i) \<and> check_worktree (ai_worktree i) = Inr ()"
  by (simp add: lease_identity_Inr IDENTITY_FIELDS_def identity_values_def packet_source_def normalized_carries packet_text_carries)

lemma carried_type: "packet_carries d f v \<Longrightarrow> \<not> wrong_type d f"
  by (auto simp: packet_carries_def wrong_type_def split: option.splits pyval.splits)

lemma carried_worktree:
  assumes "packet_carries d ''worktree'' v" and "check_worktree v = Inr ()"
  shows "\<exists>raw. packet_text ''worktree'' d = Some raw \<and> is_absolute_path (py_strip raw)"
  using assms unfolding packet_text_carries [symmetric] by (auto simp: carries_def check_worktree_def split: if_splits)

text \<open>
  C40. What makes a packet an activation, exactly: the marker is the value true, it is addressed to the claiming agent as a text, and the
  fields project, chat, task, worktree and branch are texts, of any script, without control or line-breaking characters, which stripped are
  not empty and not one of the forms the frontmatter rewrites: the words true, false and null, a bracketed text, or what \<open>int\<close> reads, in the digits
  of any script; the worktree is in canonical absolute form. A packet is passed over only if it has none of the three markers. Two activations
  whose canonical texts agree - of which the key of a lease is the digest - are the same identity.
\<close>

theorem activation_exact:
  "(classify_activation d agent = Inr (Activation i) \<longleftrightarrow>
      dget ''activation'' d = Some (PBool True) \<and> dget ''to'' d = Some (PStr agent) \<and>
      packet_carries d ''project_id'' (ai_project i) \<and> packet_carries d ''chat_id'' (ai_chat i) \<and>
      packet_carries d ''related_task'' (ai_task i) \<and> packet_carries d ''worktree'' (ai_worktree i) \<and>
      packet_carries d ''branch'' (ai_branch i) \<and> carries agent (ai_target_agent i) \<and>
      starts_with [47] (ai_worktree i) \<and> normpath (ai_worktree i) = ai_worktree i \<and> \<not> starts_with [47, 47] (ai_worktree i)) \<and>
   (classify_activation d agent = Inr NoActivation \<longleftrightarrow>
      dget ''activation'' d = None \<and> dget ''worktree'' d = None \<and> dget ''branch'' d = None) \<and>
   (classify_activation d agent = Inr (Activation i) \<and> classify_activation d' agent' = Inr (Activation j) \<and>
      canonical_identity i = canonical_identity j \<longrightarrow> i = j)"
proof -
  have marked: "list_ex (\<lambda>f. has_key f d) [''activation'', ''worktree'', ''branch'']" if "dget ''activation'' d = Some v" for d v
    using that by (simp add: has_key_def)
  have classify: "classify_activation d agent = Inr (Activation i) \<longleftrightarrow>
      dget ''activation'' d = Some (PBool True) \<and> dget ''to'' d = Some (PStr agent) \<and> lease_identity (packet_source d agent) = Inr i" for d agent i
  proof
    assume "classify_activation d agent = Inr (Activation i)"
    then show "dget ''activation'' d = Some (PBool True) \<and> dget ''to'' d = Some (PStr agent) \<and> lease_identity (packet_source d agent) = Inr i"
      by (auto simp: classify_activation_def split: if_splits sum.splits option.splits)
  next
    assume a: "dget ''activation'' d = Some (PBool True) \<and> dget ''to'' d = Some (PStr agent) \<and> lease_identity (packet_source d agent) = Inr i"
    then have "\<not> list_ex (wrong_type d) [''project_id'', ''chat_id'', ''related_task'', ''worktree'', ''branch'']"
      using carried_type unfolding packet_identity by auto
    moreover obtain raw where "packet_text ''worktree'' d = Some raw" "is_absolute_path (py_strip raw)"
      using a carried_worktree unfolding packet_identity by blast
    ultimately show "classify_activation d agent = Inr (Activation i)"
      using a marked [of d] by (simp add: classify_activation_def)
  qed
  show ?thesis
  proof (intro conjI)
    show "classify_activation d agent = Inr (Activation i) \<longleftrightarrow>
      dget ''activation'' d = Some (PBool True) \<and> dget ''to'' d = Some (PStr agent) \<and>
      packet_carries d ''project_id'' (ai_project i) \<and> packet_carries d ''chat_id'' (ai_chat i) \<and>
      packet_carries d ''related_task'' (ai_task i) \<and> packet_carries d ''worktree'' (ai_worktree i) \<and>
      packet_carries d ''branch'' (ai_branch i) \<and> carries agent (ai_target_agent i) \<and>
      starts_with [47] (ai_worktree i) \<and> normpath (ai_worktree i) = ai_worktree i \<and> \<not> starts_with [47, 47] (ai_worktree i)"
      unfolding classify packet_identity by (auto simp: check_worktree_def is_absolute_path_def split: if_splits)
    show "classify_activation d agent = Inr NoActivation \<longleftrightarrow>
      dget ''activation'' d = None \<and> dget ''worktree'' d = None \<and> dget ''branch'' d = None"
      by (auto simp: classify_activation_def has_key_def split: if_splits sum.splits)
    show "classify_activation d agent = Inr (Activation i) \<and> classify_activation d' agent' = Inr (Activation j) \<and>
      canonical_identity i = canonical_identity j \<longrightarrow> i = j"
      using classify canonical_identity_inj by blast
  qed
qed

end
