(* ===== verification/LeaseDemo.thy ===== *)
theory LeaseDemo
  imports LeaseLive
begin

text \<open>A workspace with one worktree and two sessions that want it, and the properties of the lease authority there.\<close>

definition demo_packet :: pydict where
  "demo_packet = [(sv ''to'', sv ''a''), (sv ''activation'', PBool True), (sv ''project_id'', sv ''p''), (sv ''chat_id'', sv ''c''),
     (sv ''related_task'', sv ''t''), (sv ''worktree'', sv ''/w''), (sv ''branch'', sv ''b'')]"

definition demo_activation :: activation_identity where
  "demo_activation = \<lparr>ai_project = lit ''p'', ai_chat = lit ''c'', ai_task = lit ''t'', ai_worktree = lit ''/w'', ai_branch = lit ''b'', ai_target_agent = lit ''a''\<rparr>"

lemma demo_carries:
  "carries (lit ''p'') (lit ''p'')" "carries (lit ''c'') (lit ''c'')" "carries (lit ''t'') (lit ''t'')" "carries (lit ''/w'') (lit ''/w'')"
  "carries (lit ''b'') (lit ''b'')" "carries (lit ''a'') (lit ''a'')"
  by (simp_all add: carries_def lit_def py_strip_def py_space_def breaks_line_def ascii_lower_def py_int_def Let_def
      is_digit_def starts_with_def ends_with_def)

lemma demo_packet_carries:
  "packet_carries demo_packet ''project_id'' (lit ''p'')" "packet_carries demo_packet ''chat_id'' (lit ''c'')"
  "packet_carries demo_packet ''related_task'' (lit ''t'')" "packet_carries demo_packet ''worktree'' (lit ''/w'')"
  "packet_carries demo_packet ''branch'' (lit ''b'')"
  by (simp_all add: packet_carries_def demo_packet_def dget_def demo_carries)

lemma demo_normal: "normpath (lit ''/w'') = lit ''/w''" "starts_with [47] (lit ''/w'')" "\<not> starts_with [47, 47] (lit ''/w'')"
  by code_simp+

text \<open>The same packet with blanks around a field is the same identity.\<close>

definition demo_packet_spaced :: pydict where
  "demo_packet_spaced = AList.update (sv ''chat_id'') (sv '' c '') demo_packet"

lemma demo_spaced_carries:
  "packet_carries demo_packet_spaced ''project_id'' (lit ''p'')" "packet_carries demo_packet_spaced ''chat_id'' (lit ''c'')"
  "packet_carries demo_packet_spaced ''related_task'' (lit ''t'')" "packet_carries demo_packet_spaced ''worktree'' (lit ''/w'')"
  "packet_carries demo_packet_spaced ''branch'' (lit ''b'')"
proof -
  have "carries (lit '' c '') (lit ''c'')"
    by (simp add: carries_def lit_def py_strip_def py_space_def breaks_line_def ascii_lower_def py_int_def Let_def
        is_digit_def starts_with_def ends_with_def)
  then show "packet_carries demo_packet_spaced ''project_id'' (lit ''p'')" "packet_carries demo_packet_spaced ''chat_id'' (lit ''c'')"
    "packet_carries demo_packet_spaced ''related_task'' (lit ''t'')" "packet_carries demo_packet_spaced ''worktree'' (lit ''/w'')"
    "packet_carries demo_packet_spaced ''branch'' (lit ''b'')"
    by (simp_all add: packet_carries_def demo_packet_spaced_def demo_packet_def dget_def demo_carries)
qed

text \<open>
  A branch named with accents, a dash and two ideographs is carried as it is; digits of another script are a number and are refused, with
  or without blanks around them.
\<close>

definition demo_branch :: pystr where
  "demo_branch = [110, 97, 239, 118, 101, 45, 98, 114, 97, 110, 231, 104, 8211, 26085, 26412]"

lemma demo_unicode_branch: "carries demo_branch demo_branch"
  by (simp add: carries_def demo_branch_def lit_def py_strip_def py_space_def breaks_line_def ascii_lower_def py_int_def Let_def
      is_digit_def starts_with_def ends_with_def ascii_decimal_def decimal_zeros_def)

lemma demo_unicode_digits:
  "py_int [1635, 1636] = Inr 34" "normalized_identity_field (Some [32, 1635, 1636]) = Inl (ValueErr ''would be coerced by frontmatter serialization'')"
proof -
  show i: "py_int [1635, 1636] = Inr 34"
    by (simp add: py_int_def Let_def py_strip_def py_space_def ascii_decimal_def decimal_zeros_def is_digit_def digits_value_def
        int_max_str_digits_def)
  then show "normalized_identity_field (Some [32, 1635, 1636]) = Inl (ValueErr ''would be coerced by frontmatter serialization'')"
    by (simp add: normalized_identity_field_def breaks_line_def py_strip_def py_space_def frontmatter_roundtrips_def ascii_lower_def lit_def
        starts_with_def)
qed

definition demo_packet_unicode :: pydict where
  "demo_packet_unicode = AList.update (sv ''branch'') (PStr demo_branch) demo_packet"

lemma activation_exact_witness:
  "classify_activation demo_packet_unicode (lit ''a'') = Inr (Activation (demo_activation\<lparr>ai_branch := demo_branch\<rparr>)) \<and>
   classify_activation demo_packet (lit ''a'') = Inr (Activation demo_activation) \<and>
   (\<exists>j. classify_activation demo_packet_spaced (lit ''a'') = Inr (Activation j) \<and> demo_activation = j)"
proof -
  have "dget ''activation'' demo_packet = Some (PBool True)" "dget ''to'' demo_packet = Some (PStr (lit ''a''))"
    "dget ''activation'' demo_packet_spaced = Some (PBool True)" "dget ''to'' demo_packet_spaced = Some (PStr (lit ''a''))"
    "dget ''activation'' demo_packet_unicode = Some (PBool True)" "dget ''to'' demo_packet_unicode = Some (PStr (lit ''a''))"
    by (simp_all add: demo_packet_def demo_packet_spaced_def demo_packet_unicode_def dget_def)
  moreover have "packet_carries demo_packet_unicode ''project_id'' (lit ''p'')" "packet_carries demo_packet_unicode ''chat_id'' (lit ''c'')"
    "packet_carries demo_packet_unicode ''related_task'' (lit ''t'')" "packet_carries demo_packet_unicode ''worktree'' (lit ''/w'')"
    "packet_carries demo_packet_unicode ''branch'' demo_branch"
    by (simp_all add: packet_carries_def demo_packet_unicode_def demo_packet_def dget_def demo_carries demo_unicode_branch)
  ultimately show ?thesis
    using activation_exact [of demo_packet_unicode "lit ''a''" "demo_activation\<lparr>ai_branch := demo_branch\<rparr>" demo_packet "lit ''a''" demo_activation]
      activation_exact [of demo_packet "lit ''a''" demo_activation demo_packet_spaced "lit ''a''" demo_activation]
      activation_exact [of demo_packet_spaced "lit ''a''" demo_activation demo_packet "lit ''a''" demo_activation]
      demo_packet_carries demo_spaced_carries demo_normal demo_carries(6)
    unfolding demo_activation_def activation_identity.select_convs activation_identity.update_convs by blast
qed

definition demo_session :: pydict where
  "demo_session = [(sv ''status'', sv ''active''), (sv ''agent_id'', sv ''a''), (sv ''project_id'', sv ''p''), (sv ''chat_id'', sv ''c'')]"

definition demo_world :: "int \<Rightarrow> lease_world" where
  "demo_world now = \<lparr>lw_now = now, lw_env = \<lambda>_. None, lw_kill = \<lambda>_. Delivered, lw_session = \<lambda>_. Inr (Some demo_session),
     lw_registered = \<lambda>_. True, lw_resolve = \<lambda>_. Directory (lit ''/w''), lw_legacy = [], lw_grant_contended = False, lw_claim_contended = False\<rparr>"

definition demo_claimant :: "string \<Rightarrow> claimant" where
  "demo_claimant s = \<lparr>cl_owner_session_id = lit s, cl_owner_pid = None, cl_runtime_id = Some (lit ''r'')\<rparr>"

definition demo_key :: pystr where
  "demo_key = (case lease_key demo_activation of Inr key \<Rightarrow> key | _ \<Rightarrow> [])"

lemma demo_key: "lease_key demo_activation = Inr demo_key"
proof -
  have "\<exists>h. digest_of (canonical_identity demo_activation) = Inr h"
    by (simp add: digest_of_def utf8_encode_def demo_activation_def canonical_identity_def identity_values_def join_def lit_def rbind_Inr_iff contains_surrogate_def is_surrogate_def)
  then show ?thesis by (auto simp: demo_key_def lease_key_def rbind_Inr_iff)
qed

text \<open>The first session claimed for a minute at the start of time and then fell silent.\<close>

definition demo_old_basis :: grant_basis where
  "demo_old_basis = \<lparr>gb_key = demo_key, gb_runtime = Some (lit ''r''), gb_pid = None, gb_realpath = lit ''/w'', gb_read = [], gb_existing = None,
     gb_fence = (1, PNone), gb_expires = iso_text (60 * second)\<rparr>"

definition demo_old :: pydict where
  "demo_old = granted_lease (demo_world 0) demo_activation (demo_claimant ''s1'') demo_old_basis"

definition demo_dirs :: lease_dirs where
  "demo_dirs = (\<lambda>_. [(record_name demo_key, JsonText (PDict demo_old))])"

definition demo_later :: lease_world where "demo_later = demo_world (100 * second)"

definition demo_basis :: grant_basis where
  "demo_basis = \<lparr>gb_key = demo_key, gb_runtime = Some (lit ''r''), gb_pid = None, gb_realpath = lit ''/w'', gb_read = [demo_old],
     gb_existing = Some demo_old, gb_fence = (2, sv ''s1''), gb_expires = iso_text (160 * second)\<rparr>"

definition demo_lease :: pydict where
  "demo_lease = granted_lease demo_later demo_activation (demo_claimant ''s2'') demo_basis"

definition demo_fence :: "string \<Rightarrow> int \<Rightarrow> fence_request" where
  "demo_fence s f = \<lparr>fr_claimant = demo_claimant s, fr_fence_token = f, fr_verification = None\<rparr>"

lemma calendar: "0 \<le> n \<Longrightarrow> n \<le> 1000 \<Longrightarrow> n * second < MAX_INSTANT"
proof -
  have "y \<le> Suc (days_before_year y)" for y
    by (induction y rule: days_before_year.induct) (auto simp: days_in_year_def)
  from this [of 10000] have "9999 \<le> days_before_year 10000" by simp
  then have "9999 * day \<le> MAX_INSTANT" by (simp add: MAX_INSTANT_def day_def second_def)
  then show "0 \<le> n \<Longrightarrow> n \<le> 1000 \<Longrightarrow> n * second < MAX_INSTANT" by (simp add: day_def second_def)
qed

lemma demo_parts:
  "live_bound_session (demo_world t) demo_activation s = Inr ()"
  "resolve_claimant (demo_world t) (demo_claimant v) = Inr (Some (lit ''r''), None)"
  "lease_scope (demo_world t) (ai_project demo_activation) = Inr ()"
  "open_scope (demo_world t) demo_activation"
  by (simp_all add: live_bound_session_def demo_world_def demo_session_def session_is_live_def in_names_def dget_none_def dget_def lit_def
      expires_dead_def parse_iso8601_def lease_unless_def require_bound_session_def demo_activation_def raising_def resolve_claimant_def
      demo_claimant_def claimed_pid_def pid_from_env_def valid_pid_def process_alive_def claimed_runtime_def lease_scope_def open_scope_def)

lemma demo_old_expired: "lease_is_expired demo_later demo_old = Inr True" "active_lease_expired_or_corrupt demo_later demo_old = Inr True"
proof -
  have "parse_iso8601 (PStr (iso_text (60 * second))) = Inr (Some (InstantAt (60 * second div second * second)))"
    by (rule iso_reads_back) (use calendar [of 60] in \<open>simp_all add: second_def\<close>)
  moreover have "gb_expires demo_old_basis = iso_text (60 * second)" by (simp add: demo_old_basis_def)
  ultimately show "lease_is_expired demo_later demo_old = Inr True" "active_lease_expired_or_corrupt demo_later demo_old = Inr True"
    by (simp_all add: lease_is_expired_def active_lease_expired_or_corrupt_def expires_dead_def past_def demo_old_def dget_none_def
        require_text_def field_problem_def raising_def demo_later_def demo_world_def second_def)
qed

lemma demo_unopposed: "unopposed demo_later demo_activation (demo_claimant ''s2'') 60 True demo_dirs demo_basis"
proof -
  have status: "field_problem demo_old ''status'' = None" "dget ''status'' demo_old = Some (sv ''active'')"
    by (simp_all add: field_problem_def demo_old_def)
  then have valid: "validate_active_lease_state demo_later (PDict demo_old) k = Inr ()" for k
    using demo_old_expired(2) by (simp add: validate_active_lease_state_def)
  have "rmap (read_lease demo_later) (sort_key fst (records_of demo_dirs (ai_project demo_activation))) = Inr [demo_old]"
    by (simp add: records_of_def demo_dirs_def read_lease_def valid)
  moreover have "alias_in demo_later demo_key (lit ''/w'') [demo_old] = Inr False"
    by (simp add: demo_old_def demo_old_basis_def)
  moreover have "validate_loaded_lease_state demo_later demo_activation (PDict demo_old) s = (Inr (), s)"
    if "lease_path demo_later demo_activation s = (Inr demo_key, s)" for s
  proof -
    have "rfold (\<lambda>_. identity_field_matches (identity_dict demo_activation)) () (zip IDENTITY_FIELDS (identity_values demo_activation)) = Inr ()"
      by (simp add: IDENTITY_FIELDS_def identity_values_def identity_field_matches_def require_text_def field_problem_def identity_dict_def dget_def)
    moreover have "dget ''lease_key'' demo_old = Some (PStr demo_key)" "stored_identity demo_old = Inr (identity_dict demo_activation)"
      by (simp_all add: demo_old_def demo_old_basis_def stored_identity_def)
    ultimately show ?thesis using that valid status by (simp add: validate_loaded_lease_state_def and_then_def done_with_def)
  qed
  moreover have "next_fence demo_later (Some demo_old) (lit ''s2'') (Some (lit ''r'')) None True = Inr (2, sv ''s1'')"
  proof -
    have "gb_fence demo_old_basis = (1, PNone)" by (simp add: demo_old_basis_def)
    then show ?thesis
      using demo_old_expired(1) status(2)
      by (simp add: next_fence_def Let_def int_of_def same_pid_def raising_def)
        (simp add: demo_old_def dget_none_def demo_claimant_def)
  qed
  moreover have "expires_at demo_later 60 = Inr (iso_text (160 * second))"
    using calendar [of 160] by (simp add: expires_at_def demo_later_def demo_world_def Let_def second_def)
  ultimately show ?thesis
    using demo_parts [of "100 * second"] demo_key
    by (auto simp: unopposed_def demo_basis_def demo_later_def [symmetric] demo_dirs_def MAX_LEASE_DIRECTORY_ENTRIES_def)
      (simp_all add: demo_later_def demo_world_def demo_claimant_def demo_activation_def)
qed

text \<open>The second session takes over.\<close>

lemma demo_taken:
  obtains dirs where "claim_lease demo_later demo_activation (demo_claimant ''s2'') 60 True demo_dirs = (Inr demo_lease, dirs)"
    "lease_written (lit ''p'') demo_key demo_lease demo_dirs dirs"
  using unopposed_granted [OF demo_unopposed] by (auto simp: demo_lease_def demo_basis_def demo_activation_def)

lemmas demo_grounds = unopposed_grounds [OF demo_unopposed]

lemma demo_values:
  "dget ''fence_token'' demo_lease = Some (PInt 2)" "dget ''fence_token'' demo_old = Some (PInt 1)"
  "dget ''worktree_realpath'' demo_lease = Some (sv ''/w'')" "owner_of demo_lease \<noteq> owner_of demo_old"
  "fence_value demo_old = Inr 1"
  by (simp_all add: demo_lease_def demo_old_def demo_basis_def demo_old_basis_def demo_claimant_def lit_def)

lemma claim_granted_witness:
  "\<exists>dirs. claim_lease demo_later demo_activation (demo_claimant ''s2'') 60 True demo_dirs = (Inr demo_lease, dirs) \<and>
     (succeeds demo_later demo_old True demo_lease \<or> renews demo_later demo_old demo_lease)"
proof -
  obtain dirs where claim: "claim_lease demo_later demo_activation (demo_claimant ''s2'') 60 True demo_dirs = (Inr demo_lease, dirs)" by (rule demo_taken)
  have "map_of (demo_dirs (ai_project demo_activation)) (record_name demo_key) = Some (JsonText (PDict demo_old))" by (simp add: demo_dirs_def)
  then show ?thesis using claim_granted [OF claim] claim demo_key by auto
qed

lemma granted_lease_works_witness:
  "\<exists>dirs dirs'. claim_lease demo_later demo_activation (demo_claimant ''s2'') 60 True demo_dirs = (Inr demo_lease, dirs) \<and>
     with_lease_fence (demo_world (110 * second)) demo_activation (demo_fence ''s2'' 2) (\<lambda>m. (Inr (), Suc m)) dirs 0 = (Inr (), dirs', Suc 0)"
proof -
  obtain dirs where claim: "claim_lease demo_later demo_activation (demo_claimant ''s2'') 60 True demo_dirs = (Inr demo_lease, dirs)" by (rule demo_taken)
  have "lw_now (demo_world (110 * second)) < (lw_now demo_later + 60 * second) div second * second"
    "\<not> lw_claim_contended (demo_world (110 * second))" "lw_legacy (demo_world (110 * second)) = []"
    "lw_registered (demo_world (110 * second)) (ai_project demo_activation)"
    by (simp_all add: demo_later_def demo_world_def second_def)
  moreover have "resolve_claimant (demo_world (110 * second)) (fr_claimant (demo_fence ''s2'' 2)) = resolve_claimant demo_later (demo_claimant ''s2'')"
    by (simp add: demo_fence_def demo_parts demo_later_def)
  moreover have "dget ''fence_token'' demo_lease = Some (PInt (fr_fence_token (demo_fence ''s2'' 2)))" "fr_verification (demo_fence ''s2'' 2) = None"
    "cl_owner_session_id (fr_claimant (demo_fence ''s2'' 2)) = cl_owner_session_id (demo_claimant ''s2'')"
    by (simp_all add: demo_fence_def demo_values)
  ultimately have "\<exists>dirs''. with_lease_fence (demo_world (110 * second)) demo_activation (demo_fence ''s2'' 2) (\<lambda>m. (Inr (), Suc m)) dirs 0
      = (raising (fst (Inr () :: pyerr + unit, Suc 0)), dirs'', snd (Inr () :: pyerr + unit, Suc 0)) \<and> same_records dirs dirs''"
    using granted_lease_works [OF claim, where q = "demo_fence ''s2'' 2" and w' = "demo_world (110 * second)" and mutation = "\<lambda>m. (Inr (), Suc m)" and m = 0]
      demo_parts(1) by blast
  then show ?thesis using claim by (auto simp: raising_def)
qed

lemma fence_retires_witness:
  "\<exists>dirs. lease_step\<^sup>*\<^sup>* (0, demo_dirs) (100 * second, dirs) \<and>
     (\<exists>e dirs'. with_lease_fence (demo_world (120 * second)) demo_activation (demo_fence ''s1'' 1) (\<lambda>m. (Inr (), Suc m)) dirs 0 = (Inl e, dirs', 0))"
proof -
  obtain dirs where claim: "claim_lease demo_later demo_activation (demo_claimant ''s2'') 60 True demo_dirs = (Inr demo_lease, dirs)"
    and new: "lease_written (lit ''p'') demo_key demo_lease demo_dirs dirs" by (rule demo_taken)
  have "lease_step (0, demo_dirs) (100 * second, dirs)"
    using lease_step.claims [of 0 demo_later demo_dirs demo_activation "demo_claimant ''s2''" 60 True] claim
    by (simp add: demo_later_def demo_world_def second_def)
  then have run: "lease_step\<^sup>*\<^sup>* (0, demo_dirs) (100 * second, dirs)" by (rule r_into_rtranclp)
  have "lease_at dirs (ai_project demo_activation) (record_name demo_key) demo_lease"
    "lease_at demo_dirs (ai_project demo_activation) (record_name demo_key) demo_old"
    using new by (simp_all add: lease_written_def demo_activation_def demo_dirs_def)
  then show ?thesis
    using fence_retires [OF run rtranclp.rtrancl_refl demo_key, where d = demo_old and d' = demo_lease and q = "demo_fence ''s1'' 1"
        and w = "demo_world (120 * second)" and mutation = "\<lambda>m. (Inr (), Suc m)" and m = 0] run demo_values
    by (simp add: demo_fence_def) blast
qed

lemma one_writer_per_worktree_witness:
  "\<exists>dirs. lease_step\<^sup>*\<^sup>* (0, demo_dirs) (100 * second, dirs) \<and>
     assert_lease (demo_world (110 * second)) demo_activation (demo_fence ''s2'' 2) dirs = (Inr demo_lease, dirs) \<and>
     assert_lease (demo_world (120 * second)) demo_activation (demo_fence ''s2'' 2) dirs = (Inr demo_lease, dirs) \<and>
     fr_fence_token (demo_fence ''s2'' 2) = fr_fence_token (demo_fence ''s2'' 2)"
proof -
  obtain dirs where claim: "claim_lease demo_later demo_activation (demo_claimant ''s2'') 60 True demo_dirs = (Inr demo_lease, dirs)"
    and new: "lease_written (lit ''p'') demo_key demo_lease demo_dirs dirs" by (rule demo_taken)
  have "lease_step (0, demo_dirs) (100 * second, dirs)"
    using lease_step.claims [of 0 demo_later demo_dirs demo_activation "demo_claimant ''s2''" 60 True] claim
    by (simp add: demo_later_def demo_world_def second_def)
  then have run: "lease_step\<^sup>*\<^sup>* (0, demo_dirs) (100 * second, dirs)" by (rule r_into_rtranclp)
  have ok: "assert_lease (demo_world (n * second)) demo_activation (demo_fence ''s2'' 2) (snd (100 * second, dirs)) = (Inr demo_lease, dirs)"
    if "n \<in> {110, 120}" for n
  proof -
    have "validate_lease_and_claimant (demo_world (n * second)) demo_activation (demo_fence ''s2'' 2) ''lease_owned_by_other_session''
        \<lparr>ls_dirs = dirs, ls_budget = MAX_LEASE_DIRECTORY_ENTRIES\<rparr> = (Inr (Some demo_lease), \<lparr>ls_dirs = dirs, ls_budget = MAX_LEASE_DIRECTORY_ENTRIES\<rparr>)"
      unfolding demo_lease_def
      by (rule granted_accepted [OF demo_grounds])
        (use demo_parts new that in \<open>auto simp: demo_fence_def demo_later_def demo_world_def second_def demo_claimant_def demo_basis_def
          MAX_LEASE_DIRECTORY_ENTRIES_def lease_written_def demo_activation_def demo_lease_def\<close>)
    then show ?thesis by (simp add: assert_lease_def operate_def and_then_def no_lease_def done_with_def)
  qed
  have "one_writer (0, demo_dirs)" by (auto simp: one_writer_def demo_dirs_def split: if_splits)
  then have "fr_fence_token (demo_fence ''s2'' 2) = fr_fence_token (demo_fence ''s2'' 2)"
    using one_writer_per_worktree [OF _ run refl _ ok [of 110] _ ok [of 120] demo_values(3) demo_values(3)] by (simp add: demo_world_def second_def)
  then show ?thesis using run ok [of 110] ok [of 120] by auto
qed

end
