(* ===== verification/Spec2Isabelle.thy ===== *)
theory Spec2Isabelle
  imports Lifecycle StateDemo ReferenceDemo Binding SupervisorDemo Serve ClaimDemo BbDemo LeaseDemo
begin

text \<open>
  The Runtime Adapter JSON-RPC V1 family, the bb client and the activation leases of llm-collab, as a shallow embedding.

  \<^bold>\<open>The program.\<close> llm-collab runs agents of different vendors side by side. A runtime adapter is a child process that speaks newline-
  delimited JSON-RPC over its standard streams and through which the host delivers work to an agent, asks for health, reconciles and shuts
  down. The host trusts no adapter: it bounds what it reads, checks every frame against a closed protocol, admits only what a reviewed
  manifest and a reviewed capability record allow, keeps incidents in an append-only journal and redacts whatever leaves it. The modules
  are \<open>src/llm_collab/runtime_adapter_*.py\<close>. A second way to an agent is the external command line bb, which starts threads and queues messages; its
  only client is \<open>bb_client.py\<close>. Code references below are to \<open>src/llm_collab\<close> unless another directory is named.

  \<^bold>\<open>How the parts interact.\<close> The supervisor spawns the process and exchanges one line for one request. A line is loaded and checked by the
  conformance module. The request policy decides whether a request may start and what a cancellation means; the lifecycle decides when
  health is due and when an endpoint is unhealthy. A manifest registry says which executable an adapter id stands for, and the capability
  authority binds what an adapter declares about itself to what was reviewed and then authorizes single requests and pieces of evidence.
  Incidents are redacted and appended to the state store, whose fold decides when a quarantined attempt may be released. The reference
  peer is a complete adapter; fixtures are traces of the protocol, and a conformance claim is published only if the fixtures that replay
  on the reference peer exercise every clause. Apart from these, the spawn command \<open>src/bin/bb_spawn.py\<close> runs a preflight over the registered
  project and git, then one spawn of the bb client, then records the assignment; a managed start makes the same spawn for a reservation.
  Who may write to a worktree is decided by a fenced lease per activation identity (\<open>src/bin/_activation_identity.py\<close>,
  \<open>src/bin/_activation_lease.py\<close>): a session claims it, every protected mutation runs behind its fence, and a takeover raises the fence.

  \<^bold>\<open>Shared vocabulary.\<close>
  \<^item> \<open>Prelude\<close>: exceptions as values (\<open>pyerr\<close>), results \<open>pyerr + 'a\<close> with \<open>rbind\<close>, \<open>rmap\<close>, \<open>rfold\<close>, insertion-ordered dictionaries as association
    lists, and the locale \<open>invariant_system\<close> (start, step, invariant) whose lemmas give invariants of reachable states. It is interpreted on
    the request policy, the lifecycle, the store, the reference peer, the bb client and, twice each, the supervisor and the leases.
  \<^item> \<open>PyValue\<close>: Python values as JSON sees them (\<open>pyval\<close>); strings are lists of code points, so lone surrogates exist as they do in Python;
    equality is Python's (\<open>True == 1\<close>, order of members immaterial, NaN by identity); UTF-8; closed-key tests.
  \<^item> \<open>Json\<close>: \<open>json.dumps\<close> with sorted keys and \<open>json.loads\<close> with the hooks the code installs, floats as binary64 in rationals. \<open>loads_dumps\<close>: what
    was rendered loads back. Both count the nesting they are in and raise \<open>RecursionError\<close> where CPython's C code does. \<open>JsonTotal\<close>: loading always
    ends, and with which errors. \<open>Sha256\<close>: the hash, executable.

  \<^bold>\<open>Components.\<close>
  \<^item> \<open>Requests\<close> (\<open>runtime_adapter_requests.py\<close>): \<open>RequestPolicy\<close> is the record \<open>policy\<close>, one pool per method with its capacity; \<open>begin_request\<close>,
    \<open>complete_request\<close>, \<open>classify_request_deadline\<close>, \<open>cancel_delivery\<close>, \<open>snapshot\<close>. The locale \<open>bounded_pool\<close> states what a pool promises. Shown:
    bounds in flight over all runs, refusals change nothing, cancellation is exact, final and repeatable.
  \<^item> \<open>Lifecycle\<close> (\<open>runtime_adapter_lifecycle.py\<close>): health checks, their expiry, replacement, shutdown and late work. Shown: it refines a monitor of
    check outcomes (unhealthy exactly after three failures in a row), unhealthy is final, cadence of checks, the two shutdown deadlines, and
    that an id whose timeout was once recorded can never time out again.
  \<^item> \<open>Conformance\<close> (\<open>runtime_adapter_conformance.py\<close>): directions, requests, responses, error responses, the in-process peer \<open>FakeAdapter\<close> and the
    clause ledger. Shown: error responses round trip, no frame is both request and response, which frames the peer records and which errors
    escape it, a built ledger validates.
  \<^item> \<open>Redaction\<close> (\<open>runtime_adapter_redaction.py\<close>): the whole transform of an untrusted document. Shown: only allow-listed fields with safe values
    remain, and a failure carries one of the closed reasons.
  \<^item> \<open>AdapterState\<close>, \<open>StateProps\<close>, \<open>ReadBack\<close>, \<open>StateDemo\<close> (\<open>runtime_adapter_state.py\<close>): payload validation, the fold of a record's events, the legacy
    journal, append and migration over rows. Shown: the fold releases a record exactly when a declarative specification of the evidence
    holds; a released record stays released and refuses every append; rows are only added, across a migration too, in order and with their
    digests; what is appended reads back.
  \<^item> \<open>Reference\<close>, \<open>ReferenceProps\<close>, \<open>ReferenceDemo\<close> (\<open>runtime_adapter_reference.py\<close>): identity, one function per method handler, receipts, fault
    injection, and \<open>serve\<close>, the stdio loop over the turns it is given. Shown: on which texts it is silent, replies or raises in any reachable
    state, that it is initialized once, and that nothing follows a shutdown.
  \<^item> \<open>Manifest\<close> (\<open>runtime_adapter_manifest.py\<close>) and \<open>Capability\<close> (\<open>runtime_adapter_capability.py\<close>): exact characterizations of what resolves; what a
    bound context, an authorized request and the evidence of each document of a stage are entitled to; which errors escape. \<open>Binding\<close> puts the reference peer,
    the manifest and the authority together: the peer's own initialize result binds.
  \<^item> \<open>Supervisor\<close>, \<open>SupervisorProps\<close>, \<open>SupervisorLive\<close>, \<open>SupervisorDemo\<close> (\<open>runtime_adapter_supervisor.py\<close>): the caller, the reader of standard output and
    the drainer of standard error as program counters over shared state, one atomic action a step, in every interleaving with a child that
    writes, closes, breaks its pipe and exits as it likes; a blocked \<open>select\<close> returns only for a wake byte, data, the end or a broken pipe. Shown: which diagnostics are kept, that a response is never handed over before the diagnostics that
    precede it, and that a frame waiting for its barrier is released.
  \<^item> \<open>Serve\<close>: the stdio loop of the peer against the reader and the frame checks of the supervisor.
  \<^item> \<open>Fixtures\<close> (\<open>runtime_adapter_fixtures.py\<close>), \<open>Claim\<close>, \<open>ClaimDemo\<close> (\<open>runtime_adapter_claim.py\<close>): validation of fixtures, replay, coverage, claims. Shown:
    when a claim succeeds and what its gaps are, what a validated violating fixture guarantees, and for each method of a well-typed envelope
    what the fixture oracle derives and a serving peer answers: alike but for cancel and a repeated initialize.
  \<^item> \<open>BbClient\<close>, \<open>BbProps\<close> (\<open>bb_client.py\<close>): \<open>BbClient\<close> is a record with the log of its calls, an operation an action that returns, refuses or lets an
    exception escape; \<open>spawn\<close>, \<open>send\<close>, \<open>thread_state\<close>, \<open>events_after\<close> and the others, the version gate, the envelopes, the classification of lost
    responses. Shown: one attempt at most and an honest refusal after it, what a returned thread and a queued message rest on, that pages of
    events advance and carry what bb answered, and that in every run of the public operations no task precedes the proof of the pinned version but
    the tell of a version-mismatch diagnostic.
  \<^item> \<open>BbSpawn\<close>, \<open>BbPlan\<close>, \<open>BbSpawnProps\<close> (\<open>spawn_gate.py\<close>, \<open>src/bin/bb_spawn.py\<close>): \<open>plan_spawn\<close> with its five git commands, \<open>persist_assignment\<close>, and the
    command as \<open>bb_spawn_main\<close>, from arguments to exit code. Shown: what an accepted plan stands on, and that the exit code tells whether a
    task was attempted and what was recorded.
  \<^item> \<open>BbStart\<close>, \<open>BbDemo\<close> (\<open>bb_managed_start.py\<close>, \<open>managed_start_errors.py\<close>, \<open>bb_bootstrap.py\<close>): the decision to bootstrap, one managed start, its
    evidence and its errors. Shown: what each error says of the thread, and where a plain failure follows an attempt. \<open>BbDemo\<close> runs client,
    command and start against a concrete program and git.
  \<^item> \<open>Activation\<close> (\<open>src/bin/_activation_identity.py\<close>): validation of identities of any script, their key, the classification of packets, the
    prompt that rings. \<open>py_int\<close> of \<open>BbSpawn\<close> is \<open>int()\<close> of a text with the decimal digits of Unicode 14.
    \<open>Clock\<close>: \<open>utc_iso\<close> and \<open>parse_iso8601\<close> as functions of an instant in microseconds; a text that was written reads back (\<open>iso_reads_back\<close>).
    \<open>Lease\<close> (\<open>src/bin/_activation_lease.py\<close>): a lease directory per project, the budget of scanned entries, locks, the validation of records,
    liveness of owners, capability bindings; \<open>claim_lease\<close>, \<open>assert_lease\<close>, \<open>with_lease_fence\<close>, \<open>release_lease\<close>. \<open>LeaseProps\<close>: what an operation reads
    and writes; \<open>LeaseSafety\<close>: along every history of operations fences rise and retire their owners, and two accepted requests on one
    worktree are under one lease; what a granted claim rests on. \<open>LeaseLive\<close>: a granted lease works until it expires, a claim that nothing
    stands against is granted, what makes a packet an activation. \<open>LeaseDemo\<close>: a workspace in which a session takes over from another.

  \<^bold>\<open>How code becomes definitions.\<close> A class is a record with its fields in order; a method takes the record and returns it updated; an
  exception is \<open>Inl\<close> of its class, and where the code raises after a change of state the changed state is returned with it. Messages keep
  their fixed text. A function that loops over data is a \<open>fun\<close>; \<open>definition\<close>s that compute are used everywhere, so the witnesses run the code
  on concrete inputs. Locks are not modelled where every operation of a class runs under one lock: such an operation is one step.

  \<^bold>\<open>Bounds and fuel.\<close> The parser of JSON takes fuel one above the length of its input; \<open>JsonTotal.parse_fuel\<close> shows that more changes
  nothing, because every part of the parser consumes input. \<open>json_levels\<close>, 992, is how many arrays and objects CPython 3.11 nests under its default
  recursion limit when the call is made from the top of a program; a caller on a deeper stack reaches the limit earlier. The fuel of the rounding functions covers the exponent range of binary64. Bounds
  of the code (message size 1048576, diagnostics 65536, integers of 4300 digits, 32 requests in flight, the pools' capacities, 256 bytes
  of an id) are constants under their names; times are integers in milliseconds, as in the code.

  \<^bold>\<open>Parameters.\<close> Third-party code is an argument: \<open>docs name v\<close> is the JSON Schema validator of a document, \<open>sch name v\<close> the one of a
  scalar, and nothing is assumed of them beyond what a theorem names. The clauses and error codes that fixtures are checked against are
  extracted from Markdown by regular expressions and are arguments of the claim and the fixtures. bb and git are transports: functions of the
  calls made so far and the next argument vector, without any assumption. The coverage of the watchers, the writer of the assignment record
  and the print of the result are arguments of the spawn command. The record \<open>lease_world\<close> holds what an operation on leases meets:
  clock, environment, signals, session records, registered projects, resolution of paths, legacy records, contention on a lock. Nothing is
  assumed of it but that clocks of a history do not run backwards. SQLite is a list of rows with typed columns.

  \<^bold>\<open>Assumptions of the supervisor.\<close> One thread calls \<open>request\<close> and \<open>close\<close>; a killed process ends; descriptors are not reused after \<open>close\<close>. Fairness
  is not assumed: \<open>SupervisorLive.waiting_frame_released\<close> exhibits the steps of the drainer and the closer that release the frame.

  \<^bold>\<open>Assumptions of the leases.\<close> A claim holds the lock of its project from its reads to its write and a release or a fenced mutation the lock
  of its lease, so an operation is one step of a history; the clock is read once in it. A claim of another lease may run beside a release, which
  only makes leases end. Files hold UTF-8. A mutation behind a fence is a function on a state of its own.

  \<^bold>\<open>Not modelled.\<close> Of the files above: the table of fixture data and the helpers that build it, command lines, writing the claim artifact,
  the Markdown extraction, reading schema files, constraints and triggers of the table, decoding of non-ASCII byte prefixes and of ISO
  timestamps outside the documented formats in the redaction (both are \<open>Unmodelled\<close> errors, excluded by the theorems), the transport of the bb
  client that runs a child process, the values interpolated in the details of its refusals and the limit of the stack on recursive functions of
  the program itself (nested JSON reaches it in \<open>Json\<close>). Of the repository: the
  evidence modules \<open>runtime_adapter_*_evidence.py\<close>, which run the modules above against live processes and collect the outcome; the
  workspace ledger (\<open>ledger/\<close>), whose behaviour is that of SQL statements and triggers run by SQLite; the daemon, the canonical-message and
  compatibility layers and the sagas built on that ledger (with \<open>session_lifecycle.py\<close> and \<open>bb_continuation.py\<close>, of which only \<open>client_from_project\<close>
  is modelled); the clients of the other vendor runtimes (\<open>codex_*\<close>, \<open>claude_*\<close>), whose logic lies in services that are not in the repository; and the other command-line tools of \<open>bin/\<close> and \<open>scripts/\<close>, which orchestrate git, GitHub, files and processes.
\<close>

end
